(* ===== verification/Prelude.thy ===== *)
theory Prelude
  imports Complex_Main
begin

text \<open>
  Shared vocabulary of the development: instants, nullable values and the JavaScript
  operators on them, JSON values, thrown values, three-valued SQL conditions, and the
  row operations of a database table.

  A table is the list of its rows in physical order.  The drizzle and SQL statements of
  the program become four operations on it: \<open>sel\<close> (SELECT .. WHERE), \<open>sel_one\<close>
  (SELECT .. WHERE .. LIMIT 1), \<open>upd\<close> (UPDATE .. SET .. WHERE), \<open>del\<close> (DELETE .. WHERE),
  with \<open>upd_returning\<close> and \<open>del_returning\<close> for the rows a RETURNING clause gives back.
  Where SQL leaves the order of the rows open, the model takes physical order.

  Strings are lists of 8-bit units read as code page 1252, so that the ellipsis the code
  appends to truncated messages is one unit, as it is one UTF-16 unit in the source.
\<close>

named_theorems table_simps \<open>rewrite rules for the row operations of a table\<close>
named_theorems js_simps \<open>definitions of the JavaScript operators on nullable values\<close>


section \<open>Instants, nullable values\<close>

type_synonym instant = int  \<comment> \<open>milliseconds since the epoch, as Date.getTime() gives them\<close>

text \<open>\<open>x ?? d\<close>.\<close>

definition coalesce :: "'a option \<Rightarrow> 'a \<Rightarrow> 'a" where
  [js_simps]: "coalesce x d = (case x of None \<Rightarrow> d | Some v \<Rightarrow> v)"

text \<open>A nullable string used as a condition: \<open>null\<close> and the empty string are falsy.\<close>

definition truthy_str :: "string option \<Rightarrow> bool" where
  [js_simps]: "truthy_str s = (case s of None \<Rightarrow> False | Some v \<Rightarrow> v \<noteq> [])"

text \<open>A nullable number used as a condition: \<open>null\<close> and zero are falsy.\<close>

definition truthy_int :: "int option \<Rightarrow> bool" where
  [js_simps]: "truthy_int n = (case n of None \<Rightarrow> False | Some v \<Rightarrow> v \<noteq> 0)"

lemma coalesce_simps [simp]: "coalesce None d = d" "coalesce (Some v) d = v"
  by (simp_all add: coalesce_def)

lemma truthy_str_simps [simp]: "\<not> truthy_str None" "truthy_str (Some v) \<longleftrightarrow> v \<noteq> []"
  by (simp_all add: truthy_str_def)

lemma truthy_int_simps [simp]: "\<not> truthy_int None" "truthy_int (Some v) \<longleftrightarrow> v \<noteq> 0"
  by (simp_all add: truthy_int_def)

lemma truthy_strE:
  assumes "truthy_str s"
  obtains v where "s = Some v" "v \<noteq> []"
  using assms by (cases s) auto


section \<open>JSON values and thrown values\<close>

datatype json =
    JNull | JBool bool | JNum int | JStr string | JArr "json list" | JObj "(string \<times> json) list"

text \<open>Property access on a parsed value: \<open>None\<close> when it throws, inside, \<open>None\<close> is
  \<open>undefined\<close>.  Arrays and texts have none of the properties the program asks for.\<close>

fun body_fields :: "json \<Rightarrow> (string \<Rightarrow> json option) option" where
  "body_fields (JObj es) = Some (map_of es)"
| "body_fields JNull = None"
| "body_fields _ = Some (\<lambda>_. None)"

text \<open>A value a JavaScript \<open>throw\<close> carries: an \<open>Error\<close> with its message, or any other
  value with its \<open>String(..)\<close> rendering.\<close>

datatype thrown = ErrorObj string | OtherThrown string

text \<open>\<open>err instanceof Error ? err.message : String(err)\<close>.\<close>

fun thrown_message :: "thrown \<Rightarrow> string" where
  "thrown_message (ErrorObj m) = m"
| "thrown_message (OtherThrown s) = s"

definition ellipsis :: string where
  "ellipsis = [CHR 0x85]"  \<comment> \<open>U+2026 in code page 1252\<close>

lemma length_ellipsis [simp]: "length ellipsis = 1"
  by (simp add: ellipsis_def)


section \<open>Decimal rendering\<close>

text \<open>A number in a template literal.  The program's numbers are 32-bit columns, counters and
  millisecond instants, below the 2^53 where JavaScript integers end.\<close>

fun digits_of :: "nat \<Rightarrow> string" where
  "digits_of n = (if n < 10 then [char_of (48 + n)] else digits_of (n div 10) @ [char_of (48 + n mod 10)])"

declare digits_of.simps [simp del]

definition int_string :: "int \<Rightarrow> string" where
  "int_string i = (if i < 0 then CHR ''-'' # digits_of (nat (- i)) else digits_of (nat i))"

section \<open>Three-valued SQL conditions\<close>

text \<open>An SQL condition is true, false or unknown (\<open>None\<close>); a comparison with NULL is
  unknown and WHERE keeps the rows whose condition is true.\<close>

type_synonym sql_bool = "bool option"

definition sql_cmp :: "('a \<Rightarrow> 'a \<Rightarrow> bool) \<Rightarrow> 'a option \<Rightarrow> 'a option \<Rightarrow> sql_bool" where
  "sql_cmp r x y = (case (x, y) of (Some a, Some b) \<Rightarrow> Some (r a b) | _ \<Rightarrow> None)"

fun sql_and :: "sql_bool \<Rightarrow> sql_bool \<Rightarrow> sql_bool" where
  "sql_and (Some False) b = Some False"
| "sql_and a (Some False) = Some False"
| "sql_and (Some True) (Some True) = Some True"
| "sql_and _ _ = None"

fun sql_or :: "sql_bool \<Rightarrow> sql_bool \<Rightarrow> sql_bool" where
  "sql_or (Some True) b = Some True"
| "sql_or a (Some True) = Some True"
| "sql_or (Some False) (Some False) = Some False"
| "sql_or _ _ = None"

definition sql_true :: "sql_bool \<Rightarrow> bool" where
  "sql_true c \<longleftrightarrow> c = Some True"

lemma sql_cmp_null [simp]: "sql_cmp r None y = None" "sql_cmp r x None = None"
  by (auto simp: sql_cmp_def split: option.splits)

lemma sql_cmp_Some [simp]: "sql_cmp r (Some a) (Some b) = Some (r a b)"
  by (simp add: sql_cmp_def)

lemma sql_true_and [simp]: "sql_true (sql_and a b) \<longleftrightarrow> sql_true a \<and> sql_true b"
  by (cases "(a, b)" rule: sql_and.cases) (auto simp: sql_true_def)

lemma sql_true_or [simp]: "sql_true (sql_or a b) \<longleftrightarrow> sql_true a \<or> sql_true b"
  by (cases "(a, b)" rule: sql_or.cases) (auto simp: sql_true_def)

lemma sql_true_simps [simp]: "sql_true (Some c) \<longleftrightarrow> c" "\<not> sql_true None"
  by (simp_all add: sql_true_def)


section \<open>Row operations of a table\<close>

abbreviation sel :: "('r \<Rightarrow> bool) \<Rightarrow> 'r list \<Rightarrow> 'r list" where
  "sel P t \<equiv> filter P t"

abbreviation sel_one :: "('r \<Rightarrow> bool) \<Rightarrow> 'r list \<Rightarrow> 'r option" where
  "sel_one P t \<equiv> List.find P t"

definition upd :: "('r \<Rightarrow> bool) \<Rightarrow> ('r \<Rightarrow> 'r) \<Rightarrow> 'r list \<Rightarrow> 'r list" where
  "upd P f t = map (\<lambda>r. if P r then f r else r) t"

definition upd_returning :: "('r \<Rightarrow> bool) \<Rightarrow> ('r \<Rightarrow> 'r) \<Rightarrow> 'r list \<Rightarrow> 'r list \<times> 'r list" where
  "upd_returning P f t = (upd P f t, map f (filter P t))"

definition del :: "('r \<Rightarrow> bool) \<Rightarrow> 'r list \<Rightarrow> 'r list" where
  "del P t = filter (\<lambda>r. \<not> P r) t"

definition del_returning :: "('r \<Rightarrow> bool) \<Rightarrow> 'r list \<Rightarrow> 'r list \<times> 'r list" where
  "del_returning P t = (del P t, filter P t)"

text \<open>\<open>const [row] = await ...returning()\<close>: the first returned row, if any.\<close>

definition first_row :: "'r list \<Rightarrow> 'r option" where
  "first_row rs = (case rs of [] \<Rightarrow> None | r # _ \<Rightarrow> Some r)"

lemma first_row_simps [simp]: "first_row [] = None" "first_row (r # rs) = Some r"
  by (simp_all add: first_row_def)

lemma first_row_eq_None [simp]: "first_row rs = None \<longleftrightarrow> rs = []"
  by (cases rs) auto

lemma first_row_Some_in: "first_row rs = Some r \<Longrightarrow> r \<in> set rs"
  by (cases rs) auto

lemma upd_Nil [table_simps, simp]: "upd P f [] = []"
  by (simp add: upd_def)

lemma upd_Cons [table_simps, simp]: "upd P f (r # t) = (if P r then f r else r) # upd P f t"
  by (simp add: upd_def)

lemma upd_append [table_simps]: "upd P f (s @ t) = upd P f s @ upd P f t"
  by (simp add: upd_def)

lemma length_upd [table_simps, simp]: "length (upd P f t) = length t"
  by (simp add: upd_def)

lemma set_upd: "set (upd P f t) = f ` {r \<in> set t. P r} \<union> {r \<in> set t. \<not> P r}"
  by (auto simp: upd_def)

lemma in_updE:
  assumes "r \<in> set (upd P f t)"
  obtains (hit) r' where "r' \<in> set t" "P r'" "r = f r'" | (miss) "r \<in> set t" "\<not> P r"
  using assms by (auto simp: set_upd)

text \<open>An UPDATE whose condition no row meets leaves the table as it was.\<close>

lemma upd_none [table_simps]: "(\<And>r. r \<in> set t \<Longrightarrow> \<not> P r) \<Longrightarrow> upd P f t = t"
  by (induction t) auto

lemma upd_returning_none: "(\<And>r. r \<in> set t \<Longrightarrow> \<not> P r) \<Longrightarrow> upd_returning P f t = (t, [])"
  by (simp add: upd_returning_def upd_none filter_empty_conv)

text \<open>Columns an UPDATE does not set.\<close>

lemma map_upd_frame [table_simps]: "(\<And>r. g (f r) = g r) \<Longrightarrow> map g (upd P f t) = map g t"
  by (induction t) auto

lemma map_filter_upd_frame [table_simps]:
  "(\<And>r. g (f r) = g r) \<Longrightarrow> (\<And>r. Q (f r) = Q r) \<Longrightarrow>
     map g (filter Q (upd P f t)) = map g (filter Q t)"
  by (induction t) auto

lemma filter_upd_disjoint [table_simps]:
  "(\<And>r. P r \<Longrightarrow> \<not> Q r) \<Longrightarrow> (\<And>r. P r \<Longrightarrow> \<not> Q (f r)) \<Longrightarrow> filter Q (upd P f t) = filter Q t"
  by (induction t) auto

lemma all_upd:
  assumes "\<And>r. r \<in> set t \<Longrightarrow> Q r" "\<And>r. r \<in> set t \<Longrightarrow> P r \<Longrightarrow> Q r \<Longrightarrow> Q (f r)"
  shows "\<forall>r \<in> set (upd P f t). Q r"
  using assms by (auto elim!: in_updE)

lemma find_upd_other:
  assumes "\<And>r. P r \<Longrightarrow> \<not> Q r" "\<And>r. P r \<Longrightarrow> \<not> Q (f r)"
  shows "List.find Q (upd P f t) = List.find Q t"
  using assms by (induction t) auto

lemma find_None_filter: "List.find P t = None \<longleftrightarrow> filter P t = []"
  by (induction t) auto

lemma find_Some_first: "List.find P t = first_row (filter P t)"
  by (induction t) auto

lemma find_SomeD: "List.find P t = Some r \<Longrightarrow> r \<in> set t \<and> P r"
  by (induction t) (auto split: if_splits)

lemma find_append [table_simps]:
  "List.find P (s @ t) = (case List.find P s of None \<Rightarrow> List.find P t | Some r \<Rightarrow> Some r)"
  by (induction s) auto

text \<open>With a key column, at most one row carries a given key.\<close>

lemma distinct_key_unique:
  assumes "distinct (map k t)" "r \<in> set t" "s \<in> set t" "k r = k s"
  shows "r = s"
  using assms by (auto simp: distinct_map inj_on_def)

lemma filter_key_single:
  assumes "distinct (map k t)" "r \<in> set t" "\<And>s. P s \<Longrightarrow> k s = k r" "P r"
  shows "filter P t = [r]"
  using assms
proof (induction t)
  case Nil
  then show ?case by simp
next
  case (Cons x t)
  show ?case
  proof (cases "x = r")
    case True
    have "filter P t = []"
    proof (rule ccontr)
      assume "filter P t \<noteq> []"
      then obtain s where "s \<in> set t" "P s" by (auto simp: filter_empty_conv)
      with Cons.prems(3) True have "k s = k x" by simp
      moreover have "k s \<in> k ` set t" using \<open>s \<in> set t\<close> by (rule imageI)
      ultimately show False using Cons.prems(1) by simp
    qed
    then show ?thesis using True Cons.prems(4) by simp
  next
    case False
    then have "r \<in> set t" "k x \<noteq> k r" using Cons.prems(1,2) by auto
    then have "\<not> P x" using Cons.prems(3) by blast
    moreover have "filter P t = [r]"
    proof (rule Cons.IH [OF _ \<open>r \<in> set t\<close> _ Cons.prems(4)])
      show "distinct (map k t)" using Cons.prems(1) by simp
    qed (rule Cons.prems(3))
    ultimately show ?thesis by simp
  qed
qed

lemma del_subset: "set (del P t) \<subseteq> set t"
  by (auto simp: del_def)

lemma distinct_del: "distinct (map k t) \<Longrightarrow> distinct (map k (del P t))"
  by (simp add: del_def distinct_map_filter)

lemma distinct_upd_key:
  "distinct (map k t) \<Longrightarrow> (\<And>r. k (f r) = k r) \<Longrightarrow> distinct (map k (upd P f t))"
  by (simp add: map_upd_frame)


section \<open>Two-column ordering\<close>

text \<open>ORDER BY two columns is a stable sort by the second column and then by the first.\<close>

definition lex_le :: "('r \<Rightarrow> 'a::linorder) \<Rightarrow> ('r \<Rightarrow> 'b::linorder) \<Rightarrow> 'r \<Rightarrow> 'r \<Rightarrow> bool" where
  "lex_le f g a b \<longleftrightarrow> f a < f b \<or> (f a = f b \<and> g a \<le> g b)"

lemma lex_insort:
  "sorted_wrt (lex_le f g) ys \<Longrightarrow> \<forall>y \<in> set ys. g x \<le> g y \<Longrightarrow>
     sorted_wrt (lex_le f g) (insort_key f x ys)"
proof (induction ys)
  case Nil
  then show ?case by simp
next
  case (Cons y ys)
  then show ?case
    by (auto simp: lex_le_def set_insort_key)
qed

lemma sorted_lex_sort: "sorted (map g xs) \<Longrightarrow> sorted_wrt (lex_le f g) (sort_key f xs)"
  by (induction xs) (auto intro!: lex_insort)

lemma sort_two_columns: "sorted_wrt (lex_le f g) (sort_key f (sort_key g xs))"
  by (rule sorted_lex_sort) simp

text \<open>Elements a prefix of a sorted list leaves out come after it.\<close>

lemma sorted_wrt_take_rest:
  assumes "sorted_wrt R xs" "x \<in> set (take n xs)" "y \<in> set (drop n xs)"
  shows "R x y"
  using assms sorted_wrt_append [of R "take n xs" "drop n xs"] by simp

lemma in_set_take_or_drop: "x \<in> set xs \<Longrightarrow> x \<in> set (take n xs) \<or> x \<in> set (drop n xs)"
  by (metis Un_iff append_take_drop_id set_append)


section \<open>Keyset pagination\<close>

text \<open>A page of at most \<open>n\<close> rows is read as \<open>n + 1\<close> rows with the surplus row cut off; the
  cursor to the next page is the key of the page's last row.  Over rows in strictly descending
  key order, a page followed by what its cursor leads to is the whole listing.\<close>

lemma page_cut:
  "int n < int (length (take (Suc n) xs)) \<longleftrightarrow> n < length xs"
  "(if n < length xs then take n (take (Suc n) xs) else take (Suc n) xs) = take n xs"
  by (auto simp: min_def)

lemma keyset_rest:
  assumes "sorted_wrt R (ys @ zs)" "ys \<noteq> []" "\<And>a b. R a b \<Longrightarrow> \<not> R b a"
  shows "filter (R (last ys)) (ys @ zs) = zs"
proof -
  obtain us u where ys: "ys = us @ [u]" using assms(2) by (cases ys rule: rev_cases) auto
  have "\<forall>r \<in> set us. \<not> R u r" "\<forall>r \<in> set zs. R u r" "\<not> R u u"
    using assms(1,3) by (auto simp: ys sorted_wrt_append)
  then show ?thesis by (simp add: ys filter_empty_conv)
qed

lemma keyset_split:
  assumes "sorted_wrt (\<lambda>a b. k b < k a) (ys @ zs)" "ys \<noteq> []"
  shows "filter (\<lambda>r. (k r :: int) < k (last ys)) (ys @ zs) = zs"
  using keyset_rest [OF assms] by simp

lemma sorted_desc_strict:
  assumes "distinct (map k xs)"
  shows "sorted_wrt (\<lambda>a b. (k b :: int) < k a) (sort_key (\<lambda>r. - k r) xs)"
proof -
  let ?ys = "sort_key (\<lambda>r. - k r) xs"
  have "sorted_wrt (\<lambda>a b. k b \<le> k a) ?ys"
    using sorted_sort_key [of "\<lambda>r. - k r" xs] by (simp add: sorted_wrt_map)
  moreover have "distinct (map k ?ys)" using assms by (simp add: distinct_map)
  then have "sorted_wrt (\<lambda>a b. k a \<noteq> k b) ?ys"
    by (simp add: distinct_conv_nth sorted_wrt_iff_nth_less) 
  ultimately show ?thesis
    unfolding sorted_wrt_iff_nth_less by (metis order_neq_le_trans)
qed

end
