(* ===== verification/Leases.thy ===== *)
theory Leases
  imports Prelude
begin

text \<open>
  The lease protocol that the job queue and the outbox share, as interfaces.  A worker
  holds a lease on a row when the row is in the leased state and carries the worker's
  lease id; every write that ends a lease is an UPDATE guarded by that condition.

  \<open>lease_settlement\<close> is the contract of one guarded write, \<open>lease_race\<close> that of two writes
  competing for the same lease, \<open>lease_claim\<close> that of the statement that hands leases out.
  The store theories interpret them on the code's own operations.
\<close>

definition holds_lease ::
  "('r \<Rightarrow> string) \<Rightarrow> ('r \<Rightarrow> string option) \<Rightarrow> ('r \<Rightarrow> bool) \<Rightarrow> string \<Rightarrow> string \<Rightarrow> 'r list \<Rightarrow> bool" where
  "holds_lease row_id lease_of is_leased i l t \<longleftrightarrow>
     (\<exists>r \<in> set t. row_id r = i \<and> lease_of r = Some l \<and> is_leased r)"

locale lease_settlement =
  fixes row_id :: "'r \<Rightarrow> string"
    and lease_of :: "'r \<Rightarrow> string option"
    and is_leased :: "'r \<Rightarrow> bool"
    and settle :: "string \<Rightarrow> string \<Rightarrow> 'r list \<Rightarrow> 'r list \<times> 'r option"
  assumes settle_stale:
      "\<not> holds_lease row_id lease_of is_leased i l t \<Longrightarrow> settle i l t = (t, None)"
    and settle_live:
      "holds_lease row_id lease_of is_leased i l t \<Longrightarrow> \<exists>t' r. settle i l t = (t', Some r)"
    and settle_frees:
      "settle i l t = (t', Some r) \<Longrightarrow> \<not> holds_lease row_id lease_of is_leased i l t'"
    and settle_others:
      "settle i l t = (t', res) \<Longrightarrow>
         filter (\<lambda>r. row_id r \<noteq> i) t' = filter (\<lambda>r. row_id r \<noteq> i) t"
begin

lemma settled_iff_held:
  "(\<exists>r. snd (settle i l t) = Some r) \<longleftrightarrow> holds_lease row_id lease_of is_leased i l t"
proof (cases "holds_lease row_id lease_of is_leased i l t")
  case True
  with settle_live [OF True] show ?thesis by auto
next
  case False
  with settle_stale [OF False] show ?thesis by simp
qed

lemma settle_once: "settle i l t = (t', Some r) \<Longrightarrow> settle i l t' = (t', None)"
  by (intro settle_stale settle_frees)

lemma settle_others_held:
  assumes "settle i l t = (t', res)" "j \<noteq> i"
  shows "holds_lease row_id lease_of is_leased j k t' \<longleftrightarrow> holds_lease row_id lease_of is_leased j k t"
proof -
  have "{r \<in> set t'. row_id r \<noteq> i} = {r \<in> set t. row_id r \<noteq> i}"
    using arg_cong [OF settle_others [OF assms(1)], of set] by simp
  then have "\<And>r. row_id r = j \<Longrightarrow> r \<in> set t' \<longleftrightarrow> r \<in> set t"
    using assms(2) by blast
  then show ?thesis by (auto simp: holds_lease_def)
qed

end

text \<open>A write that is one UPDATE of the held rows, keeps their id and clears their lease meets
  the contract.\<close>

definition row_held ::
  "('r \<Rightarrow> string) \<Rightarrow> ('r \<Rightarrow> string option) \<Rightarrow> ('r \<Rightarrow> bool) \<Rightarrow> string \<Rightarrow> string \<Rightarrow> 'r \<Rightarrow> bool" where
  "row_held row_id lease_of is_leased i l r \<longleftrightarrow> row_id r = i \<and> lease_of r = Some l \<and> is_leased r"

lemma holds_lease_row: "holds_lease row_id lease_of is_leased i l t \<longleftrightarrow>
    (\<exists>r \<in> set t. row_held row_id lease_of is_leased i l r)"
  by (simp add: holds_lease_def row_held_def)

lemma lease_settlementI:
  assumes held: "held = row_held row_id lease_of is_leased"
    and stale: "\<And>i l t. \<not> (\<exists>r \<in> set t. held i l r) \<Longrightarrow> settle i l t = (t, None)"
    and update: "\<And>i l t. \<exists>r \<in> set t. held i l r \<Longrightarrow>
      \<exists>f. settle i l t = (upd (held i l) f t, first_row (map f (filter (held i l) t))) \<and>
          (\<forall>r. row_id (f r) = row_id r) \<and> (\<forall>r. lease_of (f r) = None)"
  shows "lease_settlement row_id lease_of is_leased settle"
proof -
  note held_def = held row_held_def
  show ?thesis
  proof (unfold_locales, unfold holds_lease_row held [symmetric])
    fix i l t assume "\<not> (\<exists>r \<in> set t. held i l r)"
    then show "settle i l t = (t, None)" by (rule stale)
  next
    fix i l t assume h: "\<exists>r \<in> set t. held i l r"
    then have "filter (held i l) t \<noteq> []" by (simp add: filter_empty_conv)
    then show "\<exists>t' r. settle i l t = (t', Some r)"
      using update [OF h] by (cases "filter (held i l) t") auto
  next
    fix i l t t' r assume won: "settle i l t = (t', Some r)"
    then have h: "\<exists>r \<in> set t. held i l r" using stale by force
    show "\<not> (\<exists>r \<in> set t'. held i l r)"
      using update [OF h] won by (auto simp: held_def elim!: in_updE)
  next
    fix i l t t' res assume settled: "settle i l t = (t', res)"
    show "filter (\<lambda>r. row_id r \<noteq> i) t' = filter (\<lambda>r. row_id r \<noteq> i) t"
    proof (cases "\<exists>r \<in> set t. held i l r")
      case True
      obtain f where f: "t' = upd (held i l) f t" "\<forall>r. row_id (f r) = row_id r"
        using update [OF True] settled by auto
      show ?thesis unfolding f(1) using f(2) by (intro filter_upd_disjoint) (auto simp: held_def)
    next
      case False
      with settled show ?thesis by (simp add: stale)
    qed
  qed
qed

text \<open>Two guarded writes over the same rows: whichever comes first wins.\<close>

locale lease_race =
  first: lease_settlement row_id lease_of is_leased settle\<^sub>1 +
  second: lease_settlement row_id lease_of is_leased settle\<^sub>2
  for row_id :: "'r \<Rightarrow> string"
    and lease_of :: "'r \<Rightarrow> string option"
    and is_leased :: "'r \<Rightarrow> bool"
    and settle\<^sub>1 settle\<^sub>2 :: "string \<Rightarrow> string \<Rightarrow> 'r list \<Rightarrow> 'r list \<times> 'r option"
begin

lemma loser_is_noop: "settle\<^sub>1 i l t = (t', Some r) \<Longrightarrow> settle\<^sub>2 i l t' = (t', None)"
  by (intro second.settle_stale first.settle_frees)

lemma exactly_one_winner:
  assumes "holds_lease row_id lease_of is_leased i l t"
  shows "snd (settle\<^sub>1 i l t) \<noteq> None \<and> snd (settle\<^sub>2 i l (fst (settle\<^sub>1 i l t))) = None"
proof -
  obtain t' r where win: "settle\<^sub>1 i l t = (t', Some r)"
    using first.settle_live [OF assms] by blast
  then show ?thesis using loser_is_noop [OF win] by simp
qed

end

text \<open>The statement that hands leases out: it takes pending rows only, and a row it took is
  no longer pending.\<close>

locale lease_claim =
  fixes row_id :: "'r \<Rightarrow> string"
    and is_pending :: "'r \<Rightarrow> bool"
    and claim :: "'c \<Rightarrow> 'r list \<Rightarrow> 'r list \<times> 'r list"
  assumes claim_pending:
      "claim c t = (t', b) \<Longrightarrow> r \<in> set b \<Longrightarrow> \<exists>s \<in> set t. row_id s = row_id r \<and> is_pending s"
    and claim_taken:
      "claim c t = (t', b) \<Longrightarrow> s \<in> set t' \<Longrightarrow> row_id s \<in> row_id ` set b \<Longrightarrow> \<not> is_pending s"
    and claim_ids: "claim c t = (t', b) \<Longrightarrow> map row_id t' = map row_id t"
begin

lemma consecutive_claims_disjoint:
  assumes "claim c t = (t', b)" "claim d t' = (t'', b')"
  shows "row_id ` set b \<inter> row_id ` set b' = {}"
proof -
  have False if b: "r \<in> set b" "r' \<in> set b'" "row_id r = row_id r'" for r r'
  proof -
    obtain s where s: "s \<in> set t'" "row_id s = row_id r'" "is_pending s"
      using claim_pending [OF assms(2) b(2)] by blast
    moreover have "row_id s \<in> row_id ` set b"
      using b s(2) by (metis imageI)
    ultimately show False using claim_taken [OF assms(1)] by blast
  qed
  then show ?thesis by blast
qed

end

text \<open>Full-jitter exponential backoff, the shape both retry policies share: the delay is a
  fraction of a ceiling that doubles with the attempts and is capped.\<close>

definition backoff_ceiling :: "int \<Rightarrow> int \<Rightarrow> int \<Rightarrow> int" where
  "backoff_ceiling base cap attempts = min cap (base * 2 ^ nat (max 0 (attempts - 1)))"

locale jitter_backoff =
  fixes delay :: "int \<Rightarrow> rat \<Rightarrow> int" and base cap :: int
  assumes delay_eq: "delay attempts u = \<lfloor>u * of_int (backoff_ceiling base cap attempts)\<rfloor>"
    and base_pos: "0 < base" and cap_pos: "0 < cap"
begin

lemma ceiling_pos: "0 < backoff_ceiling base cap attempts"
  using base_pos cap_pos by (simp add: backoff_ceiling_def)

lemma delay_bounds:
  assumes "0 \<le> u" "u < 1"
  shows "0 \<le> delay attempts u \<and> delay attempts u < backoff_ceiling base cap attempts"
proof -
  have c: "(0 :: rat) < of_int (backoff_ceiling base cap attempts)"
    using ceiling_pos by simp
  have "0 \<le> u * of_int (backoff_ceiling base cap attempts)"
    using assms(1) c by simp
  moreover have "u * of_int (backoff_ceiling base cap attempts)
      < of_int (backoff_ceiling base cap attempts)"
    using assms(2) c by simp
  ultimately show ?thesis
    by (simp add: delay_eq floor_less_iff)
qed

lemma delay_below_cap: "0 \<le> u \<Longrightarrow> u < 1 \<Longrightarrow> delay attempts u < cap"
  using delay_bounds [of u attempts] by (simp add: backoff_ceiling_def)

lemma ceiling_mono: "a \<le> b \<Longrightarrow> backoff_ceiling base cap a \<le> backoff_ceiling base cap b"
proof -
  assume "a \<le> b"
  then have "nat (max 0 (a - 1)) \<le> nat (max 0 (b - 1))" by simp
  then have "(2 :: int) ^ nat (max 0 (a - 1)) \<le> 2 ^ nat (max 0 (b - 1))"
    by (intro power_increasing) simp_all
  then have "base * 2 ^ nat (max 0 (a - 1)) \<le> base * 2 ^ nat (max 0 (b - 1))"
    using base_pos by (intro mult_left_mono) simp_all
  then show ?thesis by (simp add: backoff_ceiling_def min_le_iff_disj)
qed

end

end
