(* ===== verification/Job_Queue.thy ===== *)
theory Job_Queue
  imports Leases
begin

text \<open>
  The durable job queue, web/src/lib/jobs: row type (types.ts and the column defaults of
  db/schema.ts), retry policy (retry.ts), the store's statements (store.ts).  Each
  operation takes the clock reading it uses (\<open>now\<close>), the random draw or the fresh ids it
  consumes, and the table; it returns the new table and the operation's result.
\<close>

section \<open>Data\<close>

datatype job_status = JPending | JLeased | JCompleted | JDeadLetter | JCancelled

datatype retryable = Transient | RateLimited

datatype retry_class = Retryable retryable | Fatal

record job =
  job_id :: string
  job_queue :: string
  job_payload :: json
  job_status :: job_status
  job_priority :: int
  job_runAt :: instant
  job_leaseId :: "string option"
  job_leaseOwner :: "string option"
  job_leaseExpiresAt :: "instant option"
  job_heartbeatAt :: "instant option"
  job_attempts :: int
  job_maxAttempts :: int
  job_retryClass :: retry_class
  job_cancelRequested :: bool
  job_idempotencyKey :: "string option"
  job_lastError :: "string option"
  job_result :: json
  job_createdAt :: instant
  job_updatedAt :: instant
  job_completedAt :: "instant option"

type_synonym jobs = "job list"

text \<open>The columns an INSERT leaves to the schema.\<close>

definition job_defaults :: "instant \<Rightarrow> string \<Rightarrow> job" where
  "job_defaults now newId =
     \<lparr>job_id = newId, job_queue = [], job_payload = JObj [], job_status = JPending,
      job_priority = 0, job_runAt = now, job_leaseId = None, job_leaseOwner = None,
      job_leaseExpiresAt = None, job_heartbeatAt = None, job_attempts = 0, job_maxAttempts = 8,
      job_retryClass = Retryable Transient, job_cancelRequested = False,
      job_idempotencyKey = None, job_lastError = None, job_result = JNull,
      job_createdAt = now, job_updatedAt = now, job_completedAt = None\<rparr>"

text \<open>An INSERT fails on the primary key and on the partial unique index
  \<open>(queue, idempotencyKey)\<close>.\<close>

datatype db_error = UniqueViolation

definition job_conflicts :: "job \<Rightarrow> job \<Rightarrow> bool" where
  "job_conflicts a b \<longleftrightarrow> job_id a = job_id b \<or>
     (job_idempotencyKey a \<noteq> None \<and> job_queue a = job_queue b
        \<and> job_idempotencyKey a = job_idempotencyKey b)"

definition insert_job :: "job \<Rightarrow> jobs \<Rightarrow> db_error + (jobs \<times> job)" where
  "insert_job r t =
     (if list_ex (job_conflicts r) t then Inl UniqueViolation else Inr (t @ [r], r))"

section \<open>Retry policy\<close>

record backoff_policy =
  baseMs :: int
  capMs :: int

fun policies :: "retryable \<Rightarrow> backoff_policy" where
  "policies Transient = \<lparr>baseMs = 1000, capMs = 5 * 60000\<rparr>"
| "policies RateLimited = \<lparr>baseMs = 10000, capMs = 15 * 60000\<rparr>"

text \<open>\<open>random\<close> is the value Math.random() returned, a rational in [0, 1).\<close>

definition job_backoffMs :: "retryable \<Rightarrow> int \<Rightarrow> rat \<Rightarrow> int" where
  "job_backoffMs retryClass attempts random =
     (let policy = policies retryClass;
          exp = min (capMs policy) (baseMs policy * 2 ^ nat (max 0 (attempts - 1)))
      in \<lfloor>random * of_int exp\<rfloor>)"

datatype retry_decision = Retry int | DeadLetter

fun job_decideRetry :: "retry_class \<Rightarrow> int \<Rightarrow> int \<Rightarrow> rat \<Rightarrow> retry_decision" where
  "job_decideRetry Fatal attempts maxAttempts random = DeadLetter"
| "job_decideRetry (Retryable c) attempts maxAttempts random =
     (if attempts \<ge> maxAttempts then DeadLetter
      else Retry (job_backoffMs c attempts random))"

definition MAX_ERROR_LEN :: nat where
  "MAX_ERROR_LEN = 500"

definition truncateError :: "thrown \<Rightarrow> string" where
  "truncateError err =
     (let message = thrown_message err
      in if length message > MAX_ERROR_LEN then take MAX_ERROR_LEN message @ ellipsis
         else message)"

section \<open>Store\<close>

record enqueue_options =
  opt_delayMs :: "int option"
  opt_priority :: "int option"
  opt_maxAttempts :: "int option"
  opt_retryClass :: "retry_class option"
  opt_idempotencyKey :: "string option"

text \<open>\<open>payload ?? {}\<close>: a null payload is stored as the empty object.\<close>

definition payload_or_empty :: "json \<Rightarrow> json" where
  "payload_or_empty p = (if p = JNull then JObj [] else p)"

definition find_by_key :: "string \<Rightarrow> string option \<Rightarrow> jobs \<Rightarrow> job option" where
  "find_by_key queue key t =
     sel_one (\<lambda>r. job_queue r = queue \<and> job_idempotencyKey r \<noteq> None
                  \<and> job_idempotencyKey r = key) t"

definition enqueue_job ::
  "int \<Rightarrow> instant \<Rightarrow> string \<Rightarrow> string \<Rightarrow> json \<Rightarrow> enqueue_options \<Rightarrow> jobs \<Rightarrow> db_error + (jobs \<times> job)" where
  "enqueue_job defaultMaxAttempts now newId queue payload opts t =
     (let runAt = now + coalesce (opt_delayMs opts) 0;
          existing = (if truthy_str (opt_idempotencyKey opts)
                      then find_by_key queue (opt_idempotencyKey opts) t else None)
      in case existing of
           Some r \<Rightarrow> Inr (t, r)
         | None \<Rightarrow>
             insert_job ((job_defaults now newId)
               \<lparr>job_queue := queue, job_payload := payload_or_empty payload, job_runAt := runAt,
                job_priority := coalesce (opt_priority opts) 0,
                job_maxAttempts := coalesce (opt_maxAttempts opts) defaultMaxAttempts,
                job_retryClass := coalesce (opt_retryClass opts) (Retryable Transient),
                job_idempotencyKey := opt_idempotencyKey opts\<rparr>) t)"

text \<open>The rows \<open>leaseBatch\<close> selects: due and pending, of one of the queues, not locked by a
  concurrent statement (SKIP LOCKED), by descending priority and then ascending runAt, at
  most \<open>limit\<close> of them.\<close>

definition job_due :: "string list \<Rightarrow> instant \<Rightarrow> job \<Rightarrow> bool" where
  "job_due queues now r \<longleftrightarrow>
     job_status r = JPending \<and> job_queue r \<in> set queues \<and> job_runAt r \<le> now"

definition lease_order :: "jobs \<Rightarrow> jobs" where
  "lease_order rs = sort_key (\<lambda>r. - job_priority r) (sort_key job_runAt rs)"

definition lease_selection ::
  "string list \<Rightarrow> int \<Rightarrow> instant \<Rightarrow> (string \<Rightarrow> bool) \<Rightarrow> jobs \<Rightarrow> jobs" where
  "lease_selection queues limit now locked t =
     take (nat limit) (lease_order (sel (\<lambda>r. job_due queues now r \<and> \<not> locked (job_id r)) t))"

record lease_request =
  lr_queues :: "string list"
  lr_limit :: int
  lr_workerId :: string
  lr_leaseDurationMs :: int
  lr_now :: instant
  lr_uuid :: "string \<Rightarrow> string"  \<comment> \<open>gen_random_uuid() drawn for a row\<close>
  lr_locked :: "string \<Rightarrow> bool"  \<comment> \<open>rows a concurrent statement holds locked\<close>

definition grant_lease :: "lease_request \<Rightarrow> job \<Rightarrow> job" where
  "grant_lease q r = r
     \<lparr>job_status := JLeased, job_leaseId := Some (lr_uuid q (job_id r)),
      job_leaseOwner := Some (lr_workerId q),
      job_leaseExpiresAt := Some (lr_now q + lr_leaseDurationMs q),
      job_heartbeatAt := Some (lr_now q), job_attempts := job_attempts r + 1,
      job_updatedAt := lr_now q\<rparr>"

definition lease_batch :: "lease_request \<Rightarrow> jobs \<Rightarrow> jobs \<times> jobs" where
  "lease_batch q t =
     (if lr_queues q = [] \<or> lr_limit q \<le> 0 then (t, [])
      else upd_returning
        (\<lambda>r. job_id r \<in> job_id `
               set (lease_selection (lr_queues q) (lr_limit q) (lr_now q) (lr_locked q) t))
        (grant_lease q) t)"

text \<open>The guard of every write that belongs to a lease.\<close>

definition job_held :: "string \<Rightarrow> string \<Rightarrow> job \<Rightarrow> bool" where
  "job_held jobId leaseId r \<longleftrightarrow>
     job_id r = jobId \<and> job_leaseId r = Some leaseId \<and> job_status r = JLeased"

text \<open>Every drizzle update also stamps \<open>updatedAt\<close> (the column's \<open>$onUpdate\<close>).\<close>

definition heartbeat_job ::
  "int \<Rightarrow> instant \<Rightarrow> string \<Rightarrow> string \<Rightarrow> jobs \<Rightarrow> jobs \<times> bool \<times> bool" where
  "heartbeat_job leaseDurationMs now jobId leaseId t =
     (let (t', rows) = upd_returning (job_held jobId leaseId)
            (\<lambda>r. r\<lparr>job_leaseExpiresAt := Some (now + leaseDurationMs),
                   job_heartbeatAt := Some now, job_updatedAt := now\<rparr>) t
      in case first_row rows of
           None \<Rightarrow> (t', False, False)
         | Some row \<Rightarrow> (t', True, job_cancelRequested row))"

definition clear_lease :: "job \<Rightarrow> job" where
  "clear_lease r = r\<lparr>job_leaseId := None, job_leaseOwner := None, job_leaseExpiresAt := None\<rparr>"

definition complete_job ::
  "json option \<Rightarrow> instant \<Rightarrow> string \<Rightarrow> string \<Rightarrow> jobs \<Rightarrow> jobs \<times> job option" where
  "complete_job result now jobId leaseId t =
     (let (t', rows) = upd_returning (job_held jobId leaseId)
            (\<lambda>r. (clear_lease r)\<lparr>job_status := JCompleted, job_result := coalesce result JNull,
                   job_completedAt := Some now, job_updatedAt := now\<rparr>) t
      in (t', first_row rows))"

text \<open>The SELECT and the UPDATE are one step here: both name the held lease, and while it is held no
  statement changes the columns the decision reads; if it is lost in between, the UPDATE matches nothing,
  as when the whole call comes later.\<close>

definition fail_job ::
  "thrown \<Rightarrow> rat \<Rightarrow> instant \<Rightarrow> string \<Rightarrow> string \<Rightarrow> jobs \<Rightarrow> jobs \<times> job option" where
  "fail_job error random now jobId leaseId t =
     (case sel_one (job_held jobId leaseId) t of
        None \<Rightarrow> (t, None)
      | Some current \<Rightarrow>
          let lastError = truncateError error in
          (case job_decideRetry (job_retryClass current) (job_attempts current)
                  (job_maxAttempts current) random of
             DeadLetter \<Rightarrow>
               (let (t', rows) = upd_returning (job_held jobId leaseId)
                      (\<lambda>r. (clear_lease r)\<lparr>job_status := JDeadLetter,
                             job_lastError := Some lastError, job_updatedAt := now\<rparr>) t
                in (t', first_row rows))
           | Retry delayMs \<Rightarrow>
               (let (t', rows) = upd_returning (job_held jobId leaseId)
                      (\<lambda>r. (clear_lease r)\<lparr>job_status := JPending, job_runAt := now + delayMs,
                             job_lastError := Some lastError, job_updatedAt := now\<rparr>) t
                in (t', first_row rows))))"

definition release_job :: "instant \<Rightarrow> string \<Rightarrow> string \<Rightarrow> jobs \<Rightarrow> jobs \<times> job option" where
  "release_job now jobId leaseId t =
     (let (t', rows) = upd_returning (job_held jobId leaseId)
            (\<lambda>r. (clear_lease r)\<lparr>job_status := JPending, job_heartbeatAt := None,
                   job_updatedAt := now\<rparr>) t
      in (t', first_row rows))"

definition requestCancel_job :: "instant \<Rightarrow> string \<Rightarrow> jobs \<Rightarrow> jobs \<times> job option" where
  "requestCancel_job now jobId t =
     (let (t', rows) = upd_returning (\<lambda>r. job_id r = jobId \<and> job_status r = JPending)
            (\<lambda>r. r\<lparr>job_status := JCancelled, job_cancelRequested := True,
                   job_updatedAt := now\<rparr>) t
      in case first_row rows of
           Some pendingRow \<Rightarrow> (t', Some pendingRow)
         | None \<Rightarrow>
             (let (t'', rows') = upd_returning (\<lambda>r. job_id r = jobId \<and> job_status r = JLeased)
                    (\<lambda>r. r\<lparr>job_cancelRequested := True, job_updatedAt := now\<rparr>) t'
              in (t'', first_row rows')))"

definition requeue_job :: "instant \<Rightarrow> string \<Rightarrow> jobs \<Rightarrow> jobs \<times> job option" where
  "requeue_job now jobId t =
     (let (t', rows) = upd_returning
            (\<lambda>r. job_id r = jobId \<and> job_status r \<in> {JDeadLetter, JCancelled})
            (\<lambda>r. r\<lparr>job_status := JPending, job_attempts := 0, job_lastError := None,
                   job_cancelRequested := False, job_runAt := now, job_updatedAt := now\<rparr>) t
      in (t', first_row rows))"

definition lease_expired :: "instant \<Rightarrow> job \<Rightarrow> bool" where
  "lease_expired now r \<longleftrightarrow> job_status r = JLeased \<and> job_leaseExpiresAt r \<noteq> None
     \<and> sql_true (sql_cmp (<) (job_leaseExpiresAt r) (Some now))"

definition reap_jobs :: "instant \<Rightarrow> jobs \<Rightarrow> jobs \<times> nat \<times> nat" where
  "reap_jobs now t =
     (let (t', requeuedRows) = upd_returning
            (\<lambda>r. lease_expired now r \<and> job_attempts r < job_maxAttempts r)
            (\<lambda>r. (clear_lease r)\<lparr>job_status := JPending,
               job_lastError := Some ''lease expired (worker did not heartbeat)'',
               job_updatedAt := now\<rparr>) t;
          (t'', deadLetteredRows) = upd_returning
            (\<lambda>r. lease_expired now r \<and> job_attempts r \<ge> job_maxAttempts r)
            (\<lambda>r. (clear_lease r)\<lparr>job_status := JDeadLetter,
               job_lastError :=
                 Some ''lease expired and max attempts reached (worker did not heartbeat)'',
               job_updatedAt := now\<rparr>) t'
      in (t'', length requeuedRows, length deadLetteredRows))"

section \<open>Admin inspection\<close>

record list_jobs_filter =
  lf_status :: "job_status option"
  lf_queue :: "string option"
  lf_cursor :: "instant option"  \<comment> \<open>the ISO timestamp, read back as the instant it denotes\<close>
  lf_limit :: "int option"

definition page_limit :: "int option \<Rightarrow> int" where
  "page_limit l = min (max (coalesce l 50) 1) 200"

definition matching_jobs :: "list_jobs_filter \<Rightarrow> jobs \<Rightarrow> jobs" where
  "matching_jobs f t = sort_key (\<lambda>r. - job_createdAt r)
     (sel (\<lambda>r. (case lf_status f of None \<Rightarrow> True | Some s \<Rightarrow> job_status r = s)
            \<and> (truthy_str (lf_queue f) \<longrightarrow> Some (job_queue r) = lf_queue f)
            \<and> (case lf_cursor f of None \<Rightarrow> True | Some c \<Rightarrow> job_createdAt r < c)) t)"

definition list_jobs :: "list_jobs_filter \<Rightarrow> jobs \<Rightarrow> jobs \<times> instant option" where
  "list_jobs f t =
     (let limit = page_limit (lf_limit f);
          rows = take (nat (limit + 1)) (matching_jobs f t);
          hasMore = int (length rows) > limit;
          page = (if hasMore then take (nat limit) rows else rows)
      in (page, if hasMore then (if page = [] then None else Some (job_createdAt (last page)))
                else None))"

definition get_job :: "string \<Rightarrow> jobs \<Rightarrow> job option" where
  "get_job jobId t = sel_one (\<lambda>r. job_id r = jobId) t"

end
