(* ===== verification/Dedupe.thy ===== *)
theory Dedupe
  imports Prelude
begin

text \<open>
  The check-then-insert contract of the program's at-least-once entry points (enqueueing a
  job under an idempotency key, writing an outbox event under a dedupe key, registering a
  transaction, submitting a provisioning run, appending a lifecycle event): the first call
  under a key stores a row, every later call under the key returns that row and stores
  nothing.  The components interpret it on their own operations.
\<close>

locale idempotent_insert =
  fixes ins :: "'k \<Rightarrow> 'i \<Rightarrow> 't \<Rightarrow> 'e + ('t \<times> 'r)"
    and key_row :: "'k \<Rightarrow> 't \<Rightarrow> 'r option"
  assumes ins_existing: "key_row k t = Some r \<Longrightarrow> ins k i t = Inr (t, r)"
    and ins_fresh: "key_row k t = None \<Longrightarrow> ins k i t = Inr (t', r) \<Longrightarrow> key_row k t' = Some r"
begin

lemma ins_stored: "ins k i t = Inr (t', r) \<Longrightarrow> key_row k t' = Some r"
  by (cases "key_row k t") (auto simp: ins_existing dest: ins_fresh)

lemma ins_repeat: "ins k i t = Inr (t', r) \<Longrightarrow> ins k j t' = Inr (t', r)"
  by (intro ins_existing ins_stored)

text \<open>Any number of redeliveries.\<close>

fun redeliver :: "'k \<Rightarrow> 'i list \<Rightarrow> 't \<Rightarrow> 'e + ('t \<times> 'r list)" where
  "redeliver k [] t = Inr (t, [])"
| "redeliver k (i # is) t =
     (case ins k i t of Inl e \<Rightarrow> Inl e
      | Inr (t', r) \<Rightarrow> (case redeliver k is t' of Inl e \<Rightarrow> Inl e | Inr (t'', rs) \<Rightarrow> Inr (t'', r # rs)))"

lemma redeliver_stable:
  "key_row k t = Some r \<Longrightarrow> redeliver k is t = Inr (t, replicate (length is) r)"
  by (induction "is") (simp_all add: ins_existing)

lemma redeliver_once:
  assumes "ins k i t = Inr (t', r)"
  shows "redeliver k (i # is) t = Inr (t', replicate (Suc (length is)) r)"
  using assms by (simp add: redeliver_stable [OF ins_stored [OF assms]])

end

end
