(* ===== verification/Job_Queue_Facts.thy ===== *)
theory Job_Queue_Facts
  imports Job_Queue Dedupe
begin

text \<open>
  What the job store guarantees: the table invariant and its preservation by every
  statement, the lease protocol (interpretations of the interfaces of Leases), the order
  and the bound of a leased batch, the retry policy, recovery of expired leases, and
  pagination.
\<close>

lemmas job_writes =
  upd_returning_def complete_job_def release_job_def heartbeat_job_def requeue_job_def
  requestCancel_job_def reap_jobs_def clear_lease_def grant_lease_def job_held_def

section \<open>The table invariant\<close>

definition job_row_ok :: "job \<Rightarrow> bool" where
  "job_row_ok r \<longleftrightarrow>
     (job_status r = JLeased \<longleftrightarrow> job_leaseId r \<noteq> None) \<and>
     (job_leaseId r = None \<longleftrightarrow> job_leaseOwner r = None) \<and>
     (job_leaseId r = None \<longleftrightarrow> job_leaseExpiresAt r = None) \<and>
     (job_status r = JCompleted \<longrightarrow> job_completedAt r \<noteq> None) \<and>
     (job_status r = JLeased \<longrightarrow> 1 \<le> job_attempts r) \<and> 0 \<le> job_attempts r"

definition job_keys :: "jobs \<Rightarrow> (string \<times> string option) list" where
  "job_keys t = map (\<lambda>r. (job_queue r, job_idempotencyKey r)) (filter (\<lambda>r. job_idempotencyKey r \<noteq> None) t)"

definition job_table_ok :: "jobs \<Rightarrow> bool" where
  "job_table_ok t \<longleftrightarrow> distinct (map job_id t) \<and> distinct (job_keys t) \<and> (\<forall>r \<in> set t. job_row_ok r)"

definition keeps_identity :: "(job \<Rightarrow> job) \<Rightarrow> bool" where
  "keeps_identity f \<longleftrightarrow> (\<forall>r. job_id (f r) = job_id r \<and> job_queue (f r) = job_queue r
      \<and> job_idempotencyKey (f r) = job_idempotencyKey r)"

lemma job_table_ok_upd:
  assumes "job_table_ok t" "keeps_identity f"
    and "\<And>r. r \<in> set t \<Longrightarrow> P r \<Longrightarrow> job_row_ok r \<Longrightarrow> job_row_ok (f r)"
  shows "job_table_ok (upd P f t)"
proof -
  have "job_keys (upd P f t) = job_keys t"
    using assms(2) unfolding job_keys_def keeps_identity_def by (intro map_filter_upd_frame) auto
  moreover have "map job_id (upd P f t) = map job_id t"
    using assms(2) by (intro map_upd_frame) (simp add: keeps_identity_def)
  moreover have "\<forall>r \<in> set (upd P f t). job_row_ok r"
    using assms(1,3) by (intro all_upd) (auto simp: job_table_ok_def)
  ultimately show ?thesis using assms(1) by (simp add: job_table_ok_def)
qed

lemma job_conflicts_keys:
  "job_idempotencyKey r \<noteq> None \<Longrightarrow> \<not> list_ex (job_conflicts r) t \<Longrightarrow>
     (job_queue r, job_idempotencyKey r) \<notin> set (job_keys t)"
  by (auto simp: job_keys_def list_ex_iff job_conflicts_def)

lemma job_table_ok_insert:
  assumes "job_table_ok t" "job_row_ok r" "insert_job r t = Inr (t', r')"
  shows "job_table_ok t'"
proof -
  have c: "\<not> list_ex (job_conflicts r) t" and t': "t' = t @ [r]"
    using assms(3) by (auto simp: insert_job_def split: if_splits)
  have "job_id r \<notin> job_id ` set t"
    using c by (auto simp: list_ex_iff job_conflicts_def)
  moreover have "distinct (job_keys t')"
    using assms(1) job_conflicts_keys [OF _ c] by (auto simp: t' job_keys_def job_table_ok_def)
  ultimately show ?thesis
    using assms(1,2) by (auto simp: t' job_table_ok_def)
qed

lemma job_row_ok_defaults: "job_row_ok (job_defaults now i)"
  by (simp add: job_row_ok_def job_defaults_def)

section \<open>One preservation lemma per statement\<close>

named_theorems job_preserved \<open>statements of the job store that keep the table invariant\<close>

lemma enqueue_job_ok [job_preserved]:
  assumes "job_table_ok t" "enqueue_job m now i q p opts t = Inr (t', r)"
  shows "job_table_ok t'"
proof -
  have ok: "job_row_ok ((job_defaults now i)\<lparr>job_queue := a, job_payload := b, job_runAt := c,
      job_priority := d, job_maxAttempts := e, job_retryClass := f, job_idempotencyKey := g\<rparr>)"
    for a b c d e f g
    by (simp add: job_row_ok_def job_defaults_def)
  from assms show ?thesis
    by (auto simp: enqueue_job_def Let_def split: option.splits
        intro: job_table_ok_insert [OF assms(1) ok])
qed

lemma lease_batch_ok [job_preserved]: "job_table_ok t \<Longrightarrow> job_table_ok (fst (lease_batch q t))"
  by (auto simp: lease_batch_def upd_returning_def intro!: job_table_ok_upd)
     (auto simp: keeps_identity_def job_row_ok_def grant_lease_def)

lemma heartbeat_job_ok [job_preserved]:
  "job_table_ok t \<Longrightarrow> job_table_ok (fst (heartbeat_job d now i l t))"
  by (auto simp: heartbeat_job_def upd_returning_def job_held_def Let_def split: option.splits
      intro!: job_table_ok_upd) (auto simp: keeps_identity_def job_row_ok_def)

lemma complete_job_ok [job_preserved]:
  "job_table_ok t \<Longrightarrow> job_table_ok (fst (complete_job res now i l t))"
  by (auto simp: job_writes intro!: job_table_ok_upd) (auto simp: keeps_identity_def job_row_ok_def)

lemma fail_job_ok [job_preserved]:
  "job_table_ok t \<Longrightarrow> job_table_ok (fst (fail_job e u now i l t))"
  by (auto simp: fail_job_def upd_returning_def clear_lease_def Let_def
      split: option.splits retry_decision.splits intro!: job_table_ok_upd)
     (auto simp: keeps_identity_def job_row_ok_def job_held_def)

lemma release_job_ok [job_preserved]:
  "job_table_ok t \<Longrightarrow> job_table_ok (fst (release_job now i l t))"
  by (auto simp: job_writes intro!: job_table_ok_upd) (auto simp: keeps_identity_def job_row_ok_def)

lemma requestCancel_job_ok [job_preserved]:
  "job_table_ok t \<Longrightarrow> job_table_ok (fst (requestCancel_job now i t))"
  by (auto simp: job_writes Let_def split: option.splits intro!: job_table_ok_upd)
     (auto simp: keeps_identity_def job_row_ok_def)

lemma requeue_job_ok [job_preserved]:
  "job_table_ok t \<Longrightarrow> job_table_ok (fst (requeue_job now i t))"
  by (auto simp: job_writes intro!: job_table_ok_upd) (auto simp: keeps_identity_def job_row_ok_def)

lemma reap_jobs_ok [job_preserved]: "job_table_ok t \<Longrightarrow> job_table_ok (fst (reap_jobs now t))"
  by (auto simp: job_writes lease_expired_def Let_def intro!: job_table_ok_upd)
     (auto simp: keeps_identity_def job_row_ok_def)

section \<open>Reachable tables\<close>

text \<open>One rule per statement any process may issue; statements of concurrent workers
  interleave in any order.\<close>

inductive job_step :: "jobs \<Rightarrow> jobs \<Rightarrow> bool" where
  enqueue: "enqueue_job m now i q p opts t = Inr (t', r) \<Longrightarrow> job_step t t'"
| lease: "job_step t (fst (lease_batch q t))"
| heartbeat: "job_step t (fst (heartbeat_job d now i l t))"
| complete: "job_step t (fst (complete_job res now i l t))"
| fail: "job_step t (fst (fail_job e u now i l t))"
| release: "job_step t (fst (release_job now i l t))"
| cancel: "job_step t (fst (requestCancel_job now i t))"
| requeue: "job_step t (fst (requeue_job now i t))"
| reap: "job_step t (fst (reap_jobs now t))"

inductive job_reachable :: "jobs \<Rightarrow> bool" where
  start: "job_reachable []"
| step: "job_reachable t \<Longrightarrow> job_step t t' \<Longrightarrow> job_reachable t'"

lemma job_step_ok: "job_step t t' \<Longrightarrow> job_table_ok t \<Longrightarrow> job_table_ok t'"
  by (induction rule: job_step.induct) (auto intro: job_preserved)

lemma job_reachable_ok: "job_reachable t \<Longrightarrow> job_table_ok t"
proof (induction rule: job_reachable.induct)
  case start
  show ?case by (simp add: job_table_ok_def job_keys_def)
next
  case (step t t')
  then show ?case by (blast intro: job_step_ok)
qed

section \<open>The lease protocol\<close>

text \<open>The three writes that end a lease, under one name.\<close>

datatype settlement =
  Complete "json option" instant | Fail thrown rat instant | Release instant

fun settle_job :: "settlement \<Rightarrow> string \<Rightarrow> string \<Rightarrow> jobs \<Rightarrow> jobs \<times> job option" where
  "settle_job (Complete res now) = complete_job res now"
| "settle_job (Fail e u now) = fail_job e u now"
| "settle_job (Release now) = release_job now"

abbreviation job_leased :: "job \<Rightarrow> bool" where
  "job_leased r \<equiv> job_status r = JLeased"

lemma job_lease_held:
  "holds_lease job_id job_leaseId job_leased i l t \<longleftrightarrow> (\<exists>r \<in> set t. job_held i l r)"
  by (auto simp: holds_lease_def job_held_def)

text \<open>Every settlement is one guarded UPDATE: its effect on the held row never leaves the row
  held.\<close>

lemma settle_job_upd:
  assumes "\<exists>r \<in> set t. job_held i l r"
  obtains f where
    "settle_job a i l t = (upd (job_held i l) f t, first_row (map f (filter (job_held i l) t)))"
    "\<And>r. job_id (f r) = job_id r" "\<And>r. job_leaseId (f r) = None"
proof (cases a)
  case (Complete res now)
  then show ?thesis
    by (intro that [of "\<lambda>r. (clear_lease r)\<lparr>job_status := JCompleted,
          job_result := coalesce res JNull, job_completedAt := Some now, job_updatedAt := now\<rparr>"])
       (simp_all add: complete_job_def upd_returning_def clear_lease_def)
next
  case (Release now)
  then show ?thesis
    by (intro that [of "\<lambda>r. (clear_lease r)\<lparr>job_status := JPending, job_heartbeatAt := None,
          job_updatedAt := now\<rparr>"])
       (simp_all add: release_job_def upd_returning_def clear_lease_def)
next
  case (Fail e u now)
  obtain c where c: "sel_one (job_held i l) t = Some c"
    using assms by (cases "sel_one (job_held i l) t") (auto simp: find_None_filter filter_empty_conv)
  show ?thesis
  proof (cases "job_decideRetry (job_retryClass c) (job_attempts c) (job_maxAttempts c) u")
    case (Retry d)
    with Fail c show ?thesis
      by (intro that [of "\<lambda>r. (clear_lease r)\<lparr>job_status := JPending, job_runAt := now + d,
            job_lastError := Some (truncateError e), job_updatedAt := now\<rparr>"])
         (simp_all add: fail_job_def upd_returning_def clear_lease_def Let_def)
  next
    case DeadLetter
    with Fail c show ?thesis
      by (intro that [of "\<lambda>r. (clear_lease r)\<lparr>job_status := JDeadLetter,
            job_lastError := Some (truncateError e), job_updatedAt := now\<rparr>"])
         (simp_all add: fail_job_def upd_returning_def clear_lease_def Let_def)
  qed
qed

lemma settle_job_stale: "\<not> (\<exists>r \<in> set t. job_held i l r) \<Longrightarrow> settle_job a i l t = (t, None)"
  by (cases a)
     (auto simp: complete_job_def release_job_def fail_job_def upd_returning_def upd_none
        find_None_filter filter_empty_conv split: option.splits dest: find_SomeD)

interpretation job_lease: lease_settlement job_id job_leaseId job_leased "settle_job a" for a
proof (rule lease_settlementI [where held = job_held])
  fix i l t
  show "job_held = row_held job_id job_leaseId job_leased"
    by (simp add: fun_eq_iff job_held_def row_held_def)
  show "\<not> (\<exists>r \<in> set t. job_held i l r) \<Longrightarrow> settle_job a i l t = (t, None)"
    by (rule settle_job_stale)
  show "\<exists>r \<in> set t. job_held i l r \<Longrightarrow>
      \<exists>f. settle_job a i l t = (upd (job_held i l) f t, first_row (map f (filter (job_held i l) t)))
        \<and> (\<forall>r. job_id (f r) = job_id r) \<and> (\<forall>r. job_leaseId (f r) = None)"
    by (metis settle_job_upd)
qed

interpretation job_race: lease_race job_id job_leaseId job_leased "settle_job a" "settle_job b" for a b
  by unfold_locales

lemma lease_selection_sub:
  "set (lease_selection qs n now locked t) \<subseteq> {r \<in> set t. job_due qs now r \<and> \<not> locked (job_id r)}"
  by (auto simp: lease_selection_def lease_order_def dest!: in_set_takeD)

interpretation job_claim: lease_claim job_id "\<lambda>r. job_status r = JPending" lease_batch
proof
  fix c t t' b and r :: job
  assume claim: "lease_batch c t = (t', b)" and r: "r \<in> set b"
  then obtain s where "s \<in> set t" "job_id r = job_id s"
      "job_id s \<in> job_id ` set (lease_selection (lr_queues c) (lr_limit c) (lr_now c) (lr_locked c) t)"
    by (auto simp: lease_batch_def upd_returning_def grant_lease_def split: if_splits)
  then show "\<exists>s \<in> set t. job_id s = job_id r \<and> job_status s = JPending"
    using lease_selection_sub by (fastforce simp: job_due_def)
next
  fix c t t' b and s :: job
  assume claim: "lease_batch c t = (t', b)" and s: "s \<in> set t'" and i: "job_id s \<in> job_id ` set b"
  let ?S = "job_id ` set (lease_selection (lr_queues c) (lr_limit c) (lr_now c) (lr_locked c) t)"
  have b: "b = map (grant_lease c) (filter (\<lambda>r. job_id r \<in> ?S) t)"
    and t': "t' = upd (\<lambda>r. job_id r \<in> ?S) (grant_lease c) t"
    using claim i by (auto simp: lease_batch_def upd_returning_def split: if_splits)
  have "job_id s \<in> ?S" using i by (auto simp: b grant_lease_def)
  then show "job_status s \<noteq> JPending"
    using s by (auto simp: t' grant_lease_def elim!: in_updE)
next
  fix c t t' b
  assume "lease_batch c t = (t', b)"
  then show "map job_id t' = map job_id t"
    by (auto simp: lease_batch_def upd_returning_def grant_lease_def split: if_splits
        intro!: map_upd_frame)
qed

section \<open>Properties\<close>

text \<open>C18.
  A lease is settled exactly once.  If a row is held under \<open>(i, l)\<close>, the first of complete,
  fail and release with that id and lease takes effect, and every later one with the same
  lease changes nothing and returns null, so two workers that both believe they own a job
  cannot both record an outcome.\<close>

theorem job_lease_settled_once:
  assumes "\<exists>r \<in> set t. job_held i l r"
  shows "snd (settle_job a i l t) \<noteq> None \<and>
         settle_job b i l (fst (settle_job a i l t)) = (fst (settle_job a i l t), None)"
proof -
  obtain t' r where won: "settle_job a i l t = (t', Some r)"
    using job_lease.settle_live assms job_lease_held by blast
  then show ?thesis using job_race.loser_is_noop [OF won] by simp
qed

definition sample_job :: job where
  "sample_job = (job_defaults 0 ''j1'')\<lparr>job_queue := ''q'', job_status := JLeased,
     job_leaseId := Some ''l1'', job_leaseOwner := Some ''w1'', job_leaseExpiresAt := Some 30,
     job_attempts := 1\<rparr>"

theorem job_lease_settled_once_witness:
  "snd (settle_job (Complete None 20) ''j1'' ''l1'' [sample_job]) \<noteq> None \<and>
   settle_job (Release 25) ''j1'' ''l1''
     (fst (settle_job (Complete None 20) ''j1'' ''l1'' [sample_job]))
     = (fst (settle_job (Complete None 20) ''j1'' ''l1'' [sample_job]), None)"
  by (rule job_lease_settled_once) (simp add: job_held_def sample_job_def job_defaults_def)

text \<open>C26.
  In every table the statements of the store can produce from the empty table, ids are
  unique, idempotency keys are unique per queue, and a row carries a lease id, a lease owner and a
  lease expiry exactly while it is leased, has been attempted at least once then, and has a
  completion time once completed.\<close>

theorem job_reachable_invariant:
  assumes "job_reachable t"
  shows "distinct (map job_id t) \<and> distinct (job_keys t) \<and>
         (\<forall>r \<in> set t. (job_status r = JLeased \<longleftrightarrow> job_leaseId r \<noteq> None) \<and>
            (job_status r = JLeased \<longleftrightarrow> job_leaseOwner r \<noteq> None) \<and>
            (job_status r = JLeased \<longleftrightarrow> job_leaseExpiresAt r \<noteq> None) \<and>
            (job_status r = JLeased \<longrightarrow> 1 \<le> job_attempts r) \<and>
            (job_status r = JCompleted \<longrightarrow> job_completedAt r \<noteq> None))"
  using job_reachable_ok [OF assms] by (auto simp: job_table_ok_def job_row_ok_def)

definition sample_options :: enqueue_options where
  "sample_options = \<lparr>opt_delayMs = None, opt_priority = None, opt_maxAttempts = Some 3,
     opt_retryClass = None, opt_idempotencyKey = Some ''k''\<rparr>"

definition sample_lease :: lease_request where
  "sample_lease = \<lparr>lr_queues = [''q''], lr_limit = 5, lr_workerId = ''w1'',
     lr_leaseDurationMs = 30, lr_now = 10, lr_uuid = (\<lambda>i. ''lease-'' @ i), lr_locked = (\<lambda>_. False)\<rparr>"

definition sample_table :: jobs where
  "sample_table = (case enqueue_job 8 0 ''j1'' ''q'' JNull sample_options [] of
      Inr (t, r) \<Rightarrow> fst (lease_batch sample_lease t) | Inl e \<Rightarrow> [])"

lemma sample_table_eq:
  "sample_table = [(job_defaults 0 ''j1'')\<lparr>job_queue := ''q'', job_status := JLeased,
     job_leaseId := Some ''lease-j1'', job_leaseOwner := Some ''w1'',
     job_leaseExpiresAt := Some 40, job_heartbeatAt := Some 10, job_attempts := 1,
     job_maxAttempts := 3, job_idempotencyKey := Some ''k'', job_updatedAt := 10\<rparr>]"
  by (simp add: sample_table_def enqueue_job_def insert_job_def sample_options_def
      find_by_key_def lease_batch_def sample_lease_def lease_selection_def lease_order_def
      job_due_def job_defaults_def upd_returning_def grant_lease_def payload_or_empty_def)

theorem job_reachable_invariant_witness:
  "distinct (map job_id sample_table) \<and> job_status (hd sample_table) = JLeased \<and>
   job_leaseOwner (hd sample_table) \<noteq> None"
proof -
  obtain t r where e: "enqueue_job 8 0 ''j1'' ''q'' JNull sample_options [] = Inr (t, r)"
    by (simp add: enqueue_job_def insert_job_def sample_options_def find_by_key_def)
  then have "sample_table = fst (lease_batch sample_lease t)" by (simp add: sample_table_def)
  moreover have "job_reachable (fst (lease_batch sample_lease t))"
    by (rule job_reachable.step [OF job_reachable.step [OF job_reachable.start]])
       (rule job_step.enqueue [OF e], rule job_step.lease)
  ultimately have reach: "job_reachable sample_table" by simp
  show ?thesis
    using job_reachable_invariant [OF reach] by (simp add: sample_table_eq)
qed

subsection \<open>Stale workers\<close>

lemma reap_unleases:
  assumes "distinct (map job_id t)" "r \<in> set t" "job_id r = i" "lease_expired now r"
    and "s \<in> set (fst (reap_jobs now t))" "job_id s = i"
  shows "job_leaseId s = None \<and> job_status s \<in> {JPending, JDeadLetter}"
proof -
  have only: "\<And>x. x \<in> set t \<Longrightarrow> job_id x = i \<Longrightarrow> x = r"
    using assms(1-3) by (auto dest: distinct_key_unique)
  show ?thesis
    using assms(4-6)
    by (auto simp: reap_jobs_def upd_returning_def clear_lease_def lease_expired_def
        elim!: in_updE dest!: only)
qed

text \<open>A worker whose lease was reaped cannot settle the job any more, even after the job has been
  leased again: the new lease id is a different random token, so complete, fail and release
  with the old one change nothing and return null.\<close>

theorem stale_worker_cannot_settle:
  assumes "job_reachable t" "r \<in> set t" "job_held i l r" "lease_expired now r"
    and "lr_uuid q i \<noteq> l"
  shows "settle_job a i l (fst (lease_batch q (fst (reap_jobs now t)))) =
         (fst (lease_batch q (fst (reap_jobs now t))), None)"
proof (rule settle_job_stale, rule notI)
  let ?t = "fst (reap_jobs now t)"
  assume "\<exists>s \<in> set (fst (lease_batch q ?t)). job_held i l s"
  then obtain s where s: "s \<in> set (fst (lease_batch q ?t))" "job_held i l s" by blast
  have "distinct (map job_id t)" using job_reachable_ok [OF assms(1)] by (simp add: job_table_ok_def)
  then have gone: "\<And>x. x \<in> set ?t \<Longrightarrow> job_id x = i \<Longrightarrow> job_leaseId x = None"
    using reap_unleases [OF _ assms(2)] assms(3,4) by (auto simp: job_held_def)
  from s show False
    using assms(5) gone
    by (auto simp: lease_batch_def upd_returning_def grant_lease_def job_held_def
        split: if_splits elim!: in_updE)
qed

theorem stale_worker_cannot_settle_witness:
  "settle_job (Complete None 60) ''j1'' ''lease-j1''
     (fst (lease_batch (sample_lease\<lparr>lr_now := 50, lr_uuid := (\<lambda>i. ''second'')\<rparr>)
        (fst (reap_jobs 50 sample_table)))) =
   (fst (lease_batch (sample_lease\<lparr>lr_now := 50, lr_uuid := (\<lambda>i. ''second'')\<rparr>)
        (fst (reap_jobs 50 sample_table))), None)"
proof -
  obtain t r where e: "enqueue_job 8 0 ''j1'' ''q'' JNull sample_options [] = Inr (t, r)"
    by (simp add: enqueue_job_def insert_job_def sample_options_def find_by_key_def)
  then have "sample_table = fst (lease_batch sample_lease t)" by (simp add: sample_table_def)
  moreover have "job_reachable (fst (lease_batch sample_lease t))"
    by (rule job_reachable.step [OF job_reachable.step [OF job_reachable.start]])
       (rule job_step.enqueue [OF e], rule job_step.lease)
  ultimately have reach: "job_reachable sample_table" by simp
  show ?thesis
    by (rule stale_worker_cannot_settle [OF reach, of "hd sample_table"])
       (simp_all add: sample_table_eq job_held_def lease_expired_def job_defaults_def)
qed

subsection \<open>Leasing order\<close>

lemma lease_batch_rows:
  assumes "lease_batch q t = (t', b)" "lr_queues q \<noteq> []" "0 < lr_limit q"
  shows "b = map (grant_lease q) (filter (\<lambda>r. job_id r \<in> job_id `
     set (lease_selection (lr_queues q) (lr_limit q) (lr_now q) (lr_locked q) t)) t)"
  using assms by (auto simp: lease_batch_def upd_returning_def)

lemma distinct_sort_key: "distinct (map k xs) \<Longrightarrow> distinct (map k (sort_key f xs))"
  by (simp add: distinct_map)

lemma lease_selection_ids:
  assumes "distinct (map job_id t)"
  shows "filter (\<lambda>r. job_id r \<in> job_id ` set (lease_selection qs n now locked t)) t
         = filter (\<lambda>r. r \<in> set (lease_selection qs n now locked t)) t"
proof (rule filter_cong [OF refl])
  fix r assume "r \<in> set t"
  then show "(job_id r \<in> job_id ` set (lease_selection qs n now locked t)) =
             (r \<in> set (lease_selection qs n now locked t))"
    using assms lease_selection_sub [of qs n now locked t] by (auto dest: distinct_key_unique)
qed

lemma distinct_lease_selection:
  assumes "distinct (map job_id t)"
  shows "distinct (lease_selection qs n now locked t)"
proof -
  have "distinct (filter (\<lambda>r. job_due qs now r \<and> \<not> locked (job_id r)) t)"
    using assms by (simp add: distinct_map)
  then show ?thesis by (simp add: lease_selection_def lease_order_def)
qed

lemma length_filter_selection:
  assumes "distinct (map job_id t)"
  shows "length (filter (\<lambda>r. r \<in> set (lease_selection qs n now locked t)) t)
         = length (lease_selection qs n now locked t)"
proof -
  let ?S = "lease_selection qs n now locked t"
  have "set (filter (\<lambda>r. r \<in> set ?S) t) = set ?S"
    using lease_selection_sub [of qs n now locked t] by auto
  moreover have "distinct (filter (\<lambda>r. r \<in> set ?S) t)"
    using assms by (simp add: distinct_map)
  ultimately show ?thesis
    using distinct_lease_selection [OF assms] by (metis distinct_card)
qed

lemma lease_selection_priority:
  assumes "r \<in> set (lease_selection qs n now locked t)" "s \<in> set t" "job_due qs now s"
    "\<not> locked (job_id s)" "s \<notin> set (lease_selection qs n now locked t)"
  shows "lex_le (\<lambda>r. - job_priority r) job_runAt r s \<and>
         length (lease_selection qs n now locked t) = nat n"
proof -
  let ?all = "lease_order (sel (\<lambda>r. job_due qs now r \<and> \<not> locked (job_id r)) t)"
  have s: "s \<in> set ?all" using assms(2-4) by (simp add: lease_order_def)
  then have rest: "s \<in> set (drop (nat n) ?all)"
    using in_set_take_or_drop [OF s, of "nat n"] assms(5) by (auto simp: lease_selection_def)
  then have "nat n < length ?all" by (metis drop_all empty_iff empty_set not_le)
  moreover have "sorted_wrt (lex_le (\<lambda>r. - job_priority r) job_runAt) ?all"
    unfolding lease_order_def by (rule sort_two_columns)
  ultimately show ?thesis
    using sorted_wrt_take_rest [OF _ _ rest] assms(1) by (auto simp: lease_selection_def)
qed

text \<open>A batch never exceeds its limit, hands out each row once, and is the best the queue has: a
  row that was due, of one of the queues, unlocked and yet left out implies that the batch is
  full and that every leased row has a higher priority, or the same priority and an earlier or
  equal due time.\<close>

theorem lease_batch_best_first:
  assumes "job_reachable t" "lr_queues q \<noteq> []" "0 < lr_limit q" "lease_batch q t = (t', b)"
  shows "int (length b) \<le> lr_limit q \<and> distinct (map job_id b) \<and>
    (\<forall>s \<in> set t. job_due (lr_queues q) (lr_now q) s \<and> \<not> lr_locked q (job_id s) \<and>
        job_id s \<notin> job_id ` set b \<longrightarrow>
      int (length b) = lr_limit q \<and>
      (\<forall>r \<in> set b. job_priority s < job_priority r \<or>
         (job_priority r = job_priority s \<and> job_runAt r \<le> job_runAt s)))"
proof -
  let ?S = "lease_selection (lr_queues q) (lr_limit q) (lr_now q) (lr_locked q) t"
  have ids: "distinct (map job_id t)"
    using job_reachable_ok [OF assms(1)] by (simp add: job_table_ok_def)
  have b: "b = map (grant_lease q) (filter (\<lambda>r. r \<in> set ?S) t)"
    using lease_batch_rows [OF assms(4,2,3)] lease_selection_ids [OF ids] by simp
  have len: "length b = length ?S" by (simp add: b length_filter_selection [OF ids])
  have grant: "job_id (grant_lease q r) = job_id r" "job_priority (grant_lease q r) = job_priority r"
    "job_runAt (grant_lease q r) = job_runAt r" for r
    by (simp_all add: grant_lease_def)
  have "length ?S \<le> nat (lr_limit q)" by (simp add: lease_selection_def)
  then have bound: "int (length b) \<le> lr_limit q" using len assms(3) by linarith
  have "map job_id b = map job_id (filter (\<lambda>r. r \<in> set ?S) t)" by (simp add: b grant)
  then have dist: "distinct (map job_id b)" using ids by (simp add: distinct_map_filter)
  have best: "int (length b) = lr_limit q \<and>
      (\<forall>r \<in> set b. job_priority s < job_priority r \<or>
         (job_priority r = job_priority s \<and> job_runAt r \<le> job_runAt s))"
    if s: "s \<in> set t" "job_due (lr_queues q) (lr_now q) s" "\<not> lr_locked q (job_id s)"
      "job_id s \<notin> job_id ` set b" for s
  proof -
    have out: "s \<notin> set ?S"
    proof
      assume "s \<in> set ?S"
      then have "grant_lease q s \<in> set b" using s(1) by (simp add: b)
      then have "job_id (grant_lease q s) \<in> job_id ` set b" by (rule imageI)
      then show False using s(4) by (simp add: grant)
    qed
    have drop: "length ?S = nat (lr_limit q)"
    proof (rule ccontr)
      assume short: "length ?S \<noteq> nat (lr_limit q)"
      then have "?S = lease_order (sel (\<lambda>r. job_due (lr_queues q) (lr_now q) r \<and> \<not> lr_locked q (job_id r)) t)"
        by (auto simp: lease_selection_def)
      then show False using out s(1-3) by (simp add: lease_order_def)
    qed
    have "lex_le (\<lambda>r. - job_priority r) job_runAt r s" if "r \<in> set ?S" for r
      using lease_selection_priority [OF that s(1-3) out] by simp
    then show ?thesis using drop len assms(3) by (auto simp: b grant lex_le_def)
  qed
  show ?thesis using bound dist best by blast
qed

text \<open>Two enqueued jobs and room for one: the higher priority is leased.\<close>

definition two_jobs :: jobs where
  "two_jobs = [(job_defaults 0 ''a'')\<lparr>job_queue := ''q'', job_priority := 1\<rparr>,
               (job_defaults 0 ''b'')\<lparr>job_queue := ''q'', job_priority := 7\<rparr>]"

definition plain_options :: "int \<Rightarrow> enqueue_options" where
  "plain_options p = \<lparr>opt_delayMs = None, opt_priority = Some p, opt_maxAttempts = None,
     opt_retryClass = None, opt_idempotencyKey = None\<rparr>"

lemma two_jobs_reachable: "job_reachable two_jobs"
proof -
  have "enqueue_job 8 0 ''a'' ''q'' JNull (plain_options 1) []
      = Inr ([hd two_jobs], hd two_jobs)"
    by (simp add: enqueue_job_def insert_job_def plain_options_def two_jobs_def job_defaults_def
        payload_or_empty_def)
  moreover have "enqueue_job 8 0 ''b'' ''q'' JNull (plain_options 7) [hd two_jobs]
      = Inr (two_jobs, last two_jobs)"
    by (simp add: enqueue_job_def insert_job_def plain_options_def two_jobs_def job_defaults_def
        payload_or_empty_def job_conflicts_def)
  ultimately show ?thesis
    by (blast intro: job_reachable.intros job_step.enqueue)
qed

theorem lease_batch_best_first_witness:
  "int (length (snd (lease_batch (sample_lease\<lparr>lr_limit := 1\<rparr>) two_jobs))) \<le> 1 \<and>
   map job_id (snd (lease_batch (sample_lease\<lparr>lr_limit := 1\<rparr>) two_jobs)) = [''b'']"
proof -
  let ?q = "sample_lease\<lparr>lr_limit := 1\<rparr>"
  have "map job_id (snd (lease_batch ?q two_jobs)) = [''b'']"
    by (simp add: lease_batch_def sample_lease_def two_jobs_def lease_selection_def
        lease_order_def job_due_def job_defaults_def upd_returning_def grant_lease_def)
  then show ?thesis
    using lease_batch_best_first [OF two_jobs_reachable _ _ prod.collapse [symmetric], of ?q]
    by (simp add: sample_lease_def)
qed

subsection \<open>Enqueueing\<close>

text \<open>Enqueueing under a non-empty idempotency key, with the key as the argument the
  contract speaks of.\<close>

definition enqueue_keyed ::
  "string \<times> char \<times> string \<Rightarrow> int \<times> instant \<times> string \<times> json \<times> enqueue_options \<Rightarrow> jobs
     \<Rightarrow> db_error + (jobs \<times> job)" where
  "enqueue_keyed k i t = (case (k, i) of ((queue, c, cs), (m, now, newId, payload, opts)) \<Rightarrow>
     enqueue_job m now newId queue payload (opts\<lparr>opt_idempotencyKey := Some (c # cs)\<rparr>) t)"

interpretation job_dedupe: idempotent_insert enqueue_keyed
  "\<lambda>(queue, c, cs) t. find_by_key queue (Some (c # cs)) t"
proof
  fix k i t and r :: job
  assume "(case k of (queue, c, cs) \<Rightarrow> \<lambda>t. find_by_key queue (Some (c # cs)) t) t = Some r"
  then show "enqueue_keyed k i t = Inr (t, r)"
    by (auto simp: enqueue_keyed_def enqueue_job_def split: prod.splits)
next
  fix k i t t' and r :: job
  assume "(case k of (queue, c, cs) \<Rightarrow> \<lambda>t. find_by_key queue (Some (c # cs)) t) t = None"
    and "enqueue_keyed k i t = Inr (t', r)"
  then show "(case k of (queue, c, cs) \<Rightarrow> \<lambda>t. find_by_key queue (Some (c # cs)) t) t' = Some r"
    by (auto simp: enqueue_keyed_def enqueue_job_def find_by_key_def insert_job_def
        job_defaults_def find_append split: prod.splits if_splits)
qed

text \<open>Enqueueing is idempotent: once a call with a non-empty idempotency key has returned a row,
  a repeat with the same queue and key, whatever its payload, clock, options and fresh id,
  returns the same row and leaves the table unchanged.\<close>

theorem enqueue_idempotent:
  assumes "opt_idempotencyKey opts = Some key" "key \<noteq> []"
    and "enqueue_job m now i queue payload opts t = Inr (t', r)"
    and "opt_idempotencyKey opts' = Some key"
  shows "enqueue_job m' now' i' queue payload' opts' t' = Inr (t', r)"
proof -
  obtain c cs where key: "key = c # cs" using assms(2) by (cases key) auto
  have opts: "opts\<lparr>opt_idempotencyKey := Some (c # cs)\<rparr> = opts"
      "opts'\<lparr>opt_idempotencyKey := Some (c # cs)\<rparr> = opts'"
    using assms(1,4) by (simp_all add: key)
  have "enqueue_keyed (queue, c, cs) (m, now, i, payload, opts) t = Inr (t', r)"
    using assms(3) by (simp add: enqueue_keyed_def opts)
  from job_dedupe.ins_repeat [OF this, of "(m', now', i', payload', opts')"]
  show ?thesis by (simp add: enqueue_keyed_def opts)
qed

theorem enqueue_idempotent_witness:
  "enqueue_job 8 99 ''other'' ''q'' (JStr ''x'') sample_options
     [(job_defaults 0 ''j1'')\<lparr>job_queue := ''q'', job_maxAttempts := 3,
        job_idempotencyKey := Some ''k''\<rparr>]
   = Inr ([(job_defaults 0 ''j1'')\<lparr>job_queue := ''q'', job_maxAttempts := 3,
        job_idempotencyKey := Some ''k''\<rparr>],
      (job_defaults 0 ''j1'')\<lparr>job_queue := ''q'', job_maxAttempts := 3,
        job_idempotencyKey := Some ''k''\<rparr>)"
  by (rule enqueue_idempotent [of sample_options "''k''" 8 0 "''j1''" "''q''" JNull "[]"])
     (simp_all add: sample_options_def enqueue_job_def insert_job_def find_by_key_def
        job_defaults_def payload_or_empty_def)

subsection \<open>Retry policy\<close>

interpretation job_jitter: jitter_backoff "job_backoffMs c" "baseMs (policies c)" "capMs (policies c)"
  for c
  by unfold_locales (cases c, simp_all add: job_backoffMs_def backoff_ceiling_def Let_def)+

text \<open>The retry decision: a fatal job and a job that has used its attempts are dead-lettered;
  every other failure is retried after a delay that lies in [0, min cap (base * 2^(attempts-1)))
  whatever the random draw, so never five minutes or more for transient failures and never
  fifteen or more for rate limiting.\<close>

theorem job_retry_policy:
  assumes "0 \<le> u" "u < 1"
  shows "case job_decideRetry cls attempts maxAttempts u of
      DeadLetter \<Rightarrow> cls = Fatal \<or> maxAttempts \<le> attempts
    | Retry d \<Rightarrow> \<exists>c. cls = Retryable c \<and> attempts < maxAttempts \<and> 0 \<le> d \<and>
        d < min (capMs (policies c)) (baseMs (policies c) * 2 ^ nat (max 0 (attempts - 1)))"
proof (cases cls)
  case (Retryable c)
  then show ?thesis
    using job_jitter.delay_bounds [OF assms, of c attempts] by (auto simp: backoff_ceiling_def)
qed simp

theorem job_retry_policy_witness:
  "job_decideRetry (Retryable Transient) 3 8 (1 / 2) = Retry 2000 \<and>
   (case job_decideRetry (Retryable Transient) 3 8 (1 / 2) of
      DeadLetter \<Rightarrow> Retryable Transient = Fatal \<or> (8 :: int) \<le> 3
    | Retry d \<Rightarrow> \<exists>c. Retryable Transient = Retryable c \<and> (3 :: int) < 8 \<and> 0 \<le> d \<and>
        d < min (capMs (policies c)) (baseMs (policies c) * 2 ^ nat (max 0 (3 - 1))))"
  using job_retry_policy [of "1 / 2" "Retryable Transient" 3 8]
  by (simp add: job_backoffMs_def Let_def)

subsection \<open>Recovery\<close>

text \<open>Both reaping statements as one pass over the rows.\<close>

definition reap_row :: "instant \<Rightarrow> job \<Rightarrow> job" where
  "reap_row now r =
     (if \<not> lease_expired now r then r
      else if job_attempts r < job_maxAttempts r
      then (clear_lease r)\<lparr>job_status := JPending,
             job_lastError := Some ''lease expired (worker did not heartbeat)'',
             job_updatedAt := now\<rparr>
      else (clear_lease r)\<lparr>job_status := JDeadLetter,
             job_lastError := Some
               ''lease expired and max attempts reached (worker did not heartbeat)'',
             job_updatedAt := now\<rparr>)"

lemma reap_jobs_rows: "fst (reap_jobs now t) = map (reap_row now) t"
  by (induction t)
     (auto simp: reap_jobs_def upd_returning_def reap_row_def clear_lease_def lease_expired_def)

lemma reap_jobs_counts:
  "fst (snd (reap_jobs now t)) + snd (snd (reap_jobs now t)) = length (filter (lease_expired now) t)"
  by (induction t)
     (auto simp: reap_jobs_def upd_returning_def clear_lease_def lease_expired_def)

lemma reap_row_cases:
  "\<not> lease_expired now (reap_row now r)"
  "\<not> lease_expired now r \<Longrightarrow> reap_row now r = r"
  "lease_expired now r \<Longrightarrow> job_id (reap_row now r) = job_id r \<and> job_leaseId (reap_row now r) = None
     \<and> job_attempts (reap_row now r) = job_attempts r \<and> job_runAt (reap_row now r) = job_runAt r
     \<and> job_queue (reap_row now r) = job_queue r
     \<and> job_cancelRequested (reap_row now r) = job_cancelRequested r
     \<and> job_status (reap_row now r) =
         (if job_attempts r < job_maxAttempts r then JPending else JDeadLetter)"
  by (auto simp: reap_row_def clear_lease_def lease_expired_def)

text \<open>Reaping at \<open>now\<close> recovers every expired lease and nothing else: it keeps the rows in place;
  afterwards no leased row has an expiry before \<open>now\<close>; the two counts it returns add up to the
  rows that had one; each of those rows lost its lease and is pending again if it has attempts
  left and dead-lettered otherwise; every other row is untouched.\<close>

theorem reap_recovers_all_expired:
  "length (fst (reap_jobs now t)) = length t \<and>
   (\<forall>s \<in> set (fst (reap_jobs now t)). \<not> lease_expired now s) \<and>
   fst (snd (reap_jobs now t)) + snd (snd (reap_jobs now t)) = length (filter (lease_expired now) t) \<and>
   (\<forall>n < length t. let r = t ! n; s = fst (reap_jobs now t) ! n in
      if lease_expired now r
      then job_id s = job_id r \<and> job_leaseId s = None \<and> job_attempts s = job_attempts r \<and>
           job_status s = (if job_attempts r < job_maxAttempts r then JPending else JDeadLetter)
      else s = r)"
  by (auto simp: reap_jobs_rows reap_jobs_counts reap_row_cases Let_def)

text \<open>A concrete run: one expired lease, recovered.\<close>

theorem reap_recovers_all_expired_witness:
  "fst (snd (reap_jobs 50 sample_table)) + snd (snd (reap_jobs 50 sample_table)) = 1"
proof -
  have "length (filter (lease_expired 50) sample_table) = 1"
    by (simp add: sample_table_eq lease_expired_def job_defaults_def)
  then show ?thesis using reap_recovers_all_expired [of 50 sample_table] by simp
qed

subsection \<open>Cancellation\<close>

definition cancel_source :: "jobs \<Rightarrow> jobs \<Rightarrow> bool" where
  "cancel_source t t' \<longleftrightarrow> (\<forall>r' \<in> set t'. job_status r' = JCancelled \<longrightarrow>
     (\<exists>r \<in> set t. job_id r = job_id r' \<and> job_status r \<in> {JCancelled, JPending}))"

lemma cancel_source_refl: "cancel_source t t"
  by (auto simp: cancel_source_def)

lemma cancel_source_upd:
  assumes "\<And>r. P r \<Longrightarrow> job_id (f r) = job_id r \<and>
      (job_status (f r) = JCancelled \<longrightarrow> job_status r \<in> {JCancelled, JPending})"
  shows "cancel_source t (upd P f t)"
  unfolding cancel_source_def
proof (intro ballI impI)
  fix r' assume "r' \<in> set (upd P f t)" "job_status r' = JCancelled"
  then show "\<exists>r \<in> set t. job_id r = job_id r' \<and> job_status r \<in> {JCancelled, JPending}"
    using assms by (cases rule: in_updE) auto
qed

lemma requestCancel_source: "cancel_source t (fst (requestCancel_job now i t))"
proof (cases "filter (\<lambda>r. job_id r = i \<and> job_status r = JPending) t = []")
  case True
  then have "upd (\<lambda>r. job_id r = i \<and> job_status r = JPending) f t = t" for f
    by (intro upd_none) (auto simp: filter_empty_conv)
  with True show ?thesis
    by (simp add: requestCancel_job_def upd_returning_def Let_def cancel_source_upd)
next
  case False
  then obtain x xs where "filter (\<lambda>r. job_id r = i \<and> job_status r = JPending) t = x # xs"
    by (meson list.exhaust)
  then show ?thesis
    by (simp add: requestCancel_job_def upd_returning_def Let_def) (rule cancel_source_upd, simp)
qed

lemma fail_job_source: "cancel_source t (fst (fail_job e u now i l t))"
proof (cases "sel_one (job_held i l) t")
  case None
  then show ?thesis by (simp add: fail_job_def cancel_source_refl)
next
  case (Some c)
  then show ?thesis
    by (cases "job_decideRetry (job_retryClass c) (job_attempts c) (job_maxAttempts c) u")
       (simp_all add: fail_job_def upd_returning_def Let_def clear_lease_def cancel_source_upd)
qed

lemma job_step_source: "job_step t t' \<Longrightarrow> cancel_source t t'"
proof (induction rule: job_step.induct)
  case (enqueue m now i q p opts t t'' r)
  then show ?case
    by (auto simp: enqueue_job_def insert_job_def job_defaults_def Let_def cancel_source_def
        split: option.splits if_splits)
next
  case (lease t q)
  then show ?case
    by (simp add: lease_batch_def upd_returning_def grant_lease_def cancel_source_refl
        cancel_source_upd)
next
  case (heartbeat t d now i l)
  have "fst (heartbeat_job d now i l t) = upd (job_held i l)
      (\<lambda>r. r\<lparr>job_leaseExpiresAt := Some (now + d), job_heartbeatAt := Some now,
             job_updatedAt := now\<rparr>) t"
    by (simp add: heartbeat_job_def upd_returning_def split: option.splits)
  then show ?case by (simp add: cancel_source_upd)
next
  case (reap t now)
  then show ?case
    by (auto simp: reap_jobs_rows reap_row_def cancel_source_def clear_lease_def split: if_splits)
qed (simp_all add: complete_job_def release_job_def requeue_job_def upd_returning_def clear_lease_def
       fail_job_source requestCancel_source cancel_source_upd)

text \<open>No statement ever turns a leased job into a cancelled one: a row that is cancelled after a
  step was cancelled or pending before it.  Requesting cancellation of a running job only sets
  its flag; and when its lease expires with attempts left, the reaper puts the row back to
  pending with the flag still set, due at once, so a cancelled running job is leased and run
  again instead of ending cancelled.\<close>

theorem cancelled_running_job_runs_again:
  assumes "job_step t t'"
  shows "(\<forall>r' \<in> set t'. job_status r' = JCancelled \<longrightarrow>
            (\<exists>r \<in> set t. job_id r = job_id r' \<and> job_status r \<in> {JCancelled, JPending})) \<and>
         (\<forall>r \<in> set t. lease_expired now r \<and> job_cancelRequested r
              \<and> job_attempts r < job_maxAttempts r \<and> job_runAt r \<le> now \<longrightarrow>
            (\<exists>s \<in> set (fst (reap_jobs now t)). job_id s = job_id r \<and> job_cancelRequested s
              \<and> job_due [job_queue r] now s))"
proof (intro conjI ballI impI)
  fix r assume r: "r \<in> set t" and c: "lease_expired now r \<and> job_cancelRequested r
      \<and> job_attempts r < job_maxAttempts r \<and> job_runAt r \<le> now"
  from r have "reap_row now r \<in> set (fst (reap_jobs now t))" by (simp add: reap_jobs_rows)
  with c show "\<exists>s \<in> set (fst (reap_jobs now t)). job_id s = job_id r \<and> job_cancelRequested s
      \<and> job_due [job_queue r] now s"
    by (intro bexI) (auto simp: reap_row_cases job_due_def)
qed (use job_step_source [OF assms] in \<open>simp add: cancel_source_def\<close>)

theorem cancelled_running_job_runs_again_witness:
  "\<exists>s \<in> set (fst (reap_jobs 50 (fst (requestCancel_job 20 ''j1'' sample_table)))).
     job_id s = ''j1'' \<and> job_cancelRequested s \<and> job_due [''q''] 50 s"
proof -
  let ?t = "fst (requestCancel_job 20 ''j1'' sample_table)"
  have t: "?t = [(hd sample_table)\<lparr>job_cancelRequested := True, job_updatedAt := 20\<rparr>]"
    by (simp add: requestCancel_job_def upd_returning_def sample_table_eq job_defaults_def)
  have "job_step ?t (fst (reap_jobs 50 ?t))" by (rule job_step.reap)
  from conjunct2 [OF cancelled_running_job_runs_again [OF this, of 50], rule_format, of "hd ?t"]
  show ?thesis
    by (simp add: t) (simp add: sample_table_eq lease_expired_def job_defaults_def)
qed

subsection \<open>Pagination\<close>

lemma page_limit_pos: "0 < page_limit l" "page_limit l \<le> 200"
  by (auto simp: page_limit_def)

lemma matching_jobs_cursor:
  assumes "r \<in> set (matching_jobs f t)"
  shows "matching_jobs (f\<lparr>lf_cursor := Some (job_createdAt r)\<rparr>) t
         = filter (\<lambda>s. job_createdAt s < job_createdAt r) (matching_jobs f t)"
  using assms by (auto simp: matching_jobs_def filter_sort split: option.splits
      intro!: arg_cong [where f = "sort_key _"] filter_cong)

text \<open>Paging through the job list is complete when creation times differ: a page holds at most 200
  rows, and the page followed by everything its cursor leads to is exactly the listing the page
  was cut from, in the same order, with no row repeated or skipped.\<close>

theorem list_jobs_complete:
  assumes "distinct (map job_createdAt (matching_jobs f t))"
    and "list_jobs f t = (page, next)"
  shows "length page \<le> 200 \<and> matching_jobs f t = page @
    (case next of None \<Rightarrow> [] | Some c \<Rightarrow> matching_jobs (f\<lparr>lf_cursor := Some c\<rparr>) t)"
proof -
  let ?rows = "matching_jobs f t" and ?n = "nat (page_limit (lf_limit f))"
  have n: "0 < ?n" "nat (page_limit (lf_limit f) + 1) = Suc ?n" "?n \<le> 200"
    using page_limit_pos [of "lf_limit f"] by auto
  have more: "int (length (take (Suc ?n) ?rows)) > page_limit (lf_limit f) \<longleftrightarrow> ?n < length ?rows"
    using page_limit_pos [of "lf_limit f"] by auto
  have page: "page = take ?n ?rows"
    using assms(2) by (auto simp: list_jobs_def Let_def n more split: if_splits)
  show ?thesis
  proof (cases "?n < length ?rows")
    case False
    then show ?thesis using assms(2) n page by (auto simp: list_jobs_def Let_def more split: if_splits)
  next
    case True
    have ne: "take ?n ?rows \<noteq> []" using n True by auto
    have "next = Some (job_createdAt (last (take ?n ?rows)))"
      using assms(2) True ne by (auto simp: list_jobs_def Let_def n more split: if_splits)
    moreover have "last (take ?n ?rows) \<in> set ?rows"
      using ne by (metis in_set_takeD last_in_set)
    moreover have "sorted_wrt (\<lambda>a b. job_createdAt b < job_createdAt a) ?rows"
      using assms(1) unfolding matching_jobs_def by (intro sorted_desc_strict) (simp add: distinct_map)
    then have "filter (\<lambda>s. job_createdAt s < job_createdAt (last (take ?n ?rows))) ?rows
        = drop ?n ?rows"
      using keyset_split [OF _ ne, of job_createdAt "drop ?n ?rows"] by simp
    ultimately show ?thesis
      using page n by (simp add: matching_jobs_cursor)
  qed
qed

definition three_jobs :: jobs where
  "three_jobs = [(job_defaults 10 ''a''), (job_defaults 20 ''b''), (job_defaults 30 ''c'')]"

definition first_page :: list_jobs_filter where
  "first_page = \<lparr>lf_status = None, lf_queue = None, lf_cursor = None, lf_limit = Some 2\<rparr>"

theorem list_jobs_complete_witness:
  "map job_id (matching_jobs first_page three_jobs) = [''c'', ''b'', ''a''] \<and>
   matching_jobs first_page three_jobs = fst (list_jobs first_page three_jobs) @
     (case snd (list_jobs first_page three_jobs) of None \<Rightarrow> []
      | Some c \<Rightarrow> matching_jobs (first_page\<lparr>lf_cursor := Some c\<rparr>) three_jobs)"
proof -
  have m: "map job_id (matching_jobs first_page three_jobs) = [''c'', ''b'', ''a'']"
    "distinct (map job_createdAt (matching_jobs first_page three_jobs))"
    by (simp_all add: matching_jobs_def three_jobs_def first_page_def job_defaults_def)
  show ?thesis
    using m(1) list_jobs_complete [OF m(2) prod.collapse [symmetric]] by blast
qed

definition same_instant_jobs :: jobs where
  "same_instant_jobs = [job_defaults 10 ''a'', job_defaults 10 ''b'', job_defaults 10 ''c'']"

text \<open>Creation times that collide lose rows: of three jobs created in the same millisecond, read
  two per page, the first page ends with a cursor whose page is empty, so the third job is
  never listed.\<close>

theorem list_jobs_ties_skip_rows:
  "map job_id (matching_jobs first_page same_instant_jobs) = [''a'', ''b'', ''c''] \<and>
   map job_id (fst (list_jobs first_page same_instant_jobs)) = [''a'', ''b''] \<and>
   snd (list_jobs first_page same_instant_jobs) = Some 10 \<and>
   list_jobs (first_page\<lparr>lf_cursor := Some 10\<rparr>) same_instant_jobs = ([], None)"
  by (simp add: list_jobs_def matching_jobs_def same_instant_jobs_def first_page_def
      job_defaults_def page_limit_def Let_def)

end
