(* ===== verification/Job_Runner.thy ===== *)
theory Job_Runner
  imports Job_Queue_Facts
begin

text \<open>
  The runner, web/src/lib/jobs/registry.ts and runner.ts: the handler registry, one job's
  processing (handler lookup, heartbeats, settlement) and one bounded drain of the queues.

  A handler is feature code, a parameter: given the leased job it yields what happens to the
  table while it runs and how it ends.  What happens is a sequence of heartbeats (the timer's
  and the handler's own) and of changes made meanwhile by other workers and requests.  The jobs
  of a batch run concurrently in the code; their statements touch different rows, and the
  model takes them in batch order.
\<close>

section \<open>Registry\<close>

datatype handler_event = Beat instant | Meanwhile "jobs \<Rightarrow> jobs"

datatype handler_outcome = Returned "json option" | Threw thrown

record handler_run =
  hr_events :: "handler_event list"
  hr_outcome :: handler_outcome
  hr_settledAt :: instant  \<comment> \<open>the clock at the settling write\<close>
  hr_random :: rat  \<comment> \<open>the jitter draw of a failure\<close>

type_synonym handler = "job \<Rightarrow> handler_run"

type_synonym handlers = "(string \<times> handler) list"  \<comment> \<open>a Map, in insertion order\<close>

datatype registry_error = AlreadyRegistered string

definition registerHandler :: "string \<Rightarrow> handler \<Rightarrow> handlers \<Rightarrow> registry_error + handlers" where
  "registerHandler queue h hs =
     (if map_of hs queue \<noteq> None then Inl (AlreadyRegistered queue) else Inr (hs @ [(queue, h)]))"

definition getHandler :: "string \<Rightarrow> handlers \<Rightarrow> handler option" where
  "getHandler queue hs = map_of hs queue"

definition registeredQueues :: "handlers \<Rightarrow> string list" where
  "registeredQueues hs = map fst hs"

section \<open>Processing one job\<close>

record run_summary =
  rs_leased :: nat
  rs_completed :: nat
  rs_retried :: nat
  rs_deadLettered :: nat
  rs_cancelled :: nat
  rs_reaped :: nat

definition empty_summary :: run_summary where
  "empty_summary = \<lparr>rs_leased = 0, rs_completed = 0, rs_retried = 0, rs_deadLettered = 0,
     rs_cancelled = 0, rs_reaped = 0\<rparr>"

text \<open>The table while a handler runs, with the flags \<open>lostLease\<close> and \<open>cancelled\<close> that
  \<open>runHeartbeat\<close> sets.\<close>

fun run_events ::
  "int \<Rightarrow> string \<Rightarrow> string \<Rightarrow> handler_event list \<Rightarrow> jobs \<times> bool \<times> bool \<Rightarrow> jobs \<times> bool \<times> bool" where
  "run_events d i l [] s = s"
| "run_events d i l (Beat now # es) (t, lostLease, cancelled) =
     (let (t', ok, c) = heartbeat_job d now i l t
      in run_events d i l es (t', lostLease \<or> \<not> ok, cancelled \<or> c))"
| "run_events d i l (Meanwhile f # es) (t, flags) = run_events d i l es (f t, flags)"

definition no_handler_error :: "string \<Rightarrow> thrown" where
  "no_handler_error queue =
     ErrorObj (''No handler registered for queue '' @ [CHR 0x22] @ queue @ [CHR 0x22])"

record runner_config =
  rc_leaseDurationMs :: int
  rc_now :: instant  \<comment> \<open>the clock when a job without handler is failed\<close>
  rc_random :: rat

definition count_failed :: "job option \<Rightarrow> run_summary \<Rightarrow> run_summary" where
  "count_failed failed s =
     (case failed of
        None \<Rightarrow> s
      | Some row \<Rightarrow>
          if job_status row = JDeadLetter then s\<lparr>rs_deadLettered := rs_deadLettered s + 1\<rparr>
          else if job_status row = JPending then s\<lparr>rs_retried := rs_retried s + 1\<rparr>
          else s)"

definition process_job ::
  "handlers \<Rightarrow> runner_config \<Rightarrow> job \<Rightarrow> jobs \<times> run_summary \<Rightarrow> jobs \<times> run_summary" where
  "process_job hs c job st =
     (let (t, summary) = st; leaseId = the (job_leaseId job)
      in case getHandler (job_queue job) hs of
           None \<Rightarrow>
             (fst (fail_job (no_handler_error (job_queue job)) (rc_random c) (rc_now c)
                     (job_id job) leaseId t),
              summary\<lparr>rs_deadLettered := rs_deadLettered summary + 1\<rparr>)
         | Some h \<Rightarrow>
             (let run = h job;
                  (t', lostLease, cancelled) =
                    run_events (rc_leaseDurationMs c) (job_id job) leaseId (hr_events run)
                      (t, False, False)
              in if lostLease \<or> cancelled
                 then (t', if cancelled then summary\<lparr>rs_cancelled := rs_cancelled summary + 1\<rparr>
                           else summary)
                 else case hr_outcome run of
                   Returned result \<Rightarrow>
                     (let (t'', completed) =
                            complete_job result (hr_settledAt run) (job_id job) leaseId t'
                      in (t'', if completed \<noteq> None
                               then summary\<lparr>rs_completed := rs_completed summary + 1\<rparr>
                               else summary))
                 | Threw err \<Rightarrow>
                     (let (t'', failed) =
                            fail_job err (hr_random run) (hr_settledAt run) (job_id job) leaseId t'
                      in (t'', count_failed failed summary))))"

section \<open>One bounded drain\<close>

definition run_once ::
  "handlers \<Rightarrow> runner_config \<Rightarrow> string list option \<Rightarrow> lease_request \<Rightarrow> jobs \<Rightarrow> jobs \<times> run_summary" where
  "run_once hs c only q t =
     (let queues = coalesce only (registeredQueues hs);
          (t1, requeued, deadLettered) = reap_jobs (lr_now q) t;
          summary = empty_summary\<lparr>rs_reaped := requeued + deadLettered\<rparr>
      in if queues = [] then (t1, summary)
         else (let (t2, batch) = lease_batch (q\<lparr>lr_queues := queues\<rparr>) t1
               in fold (process_job hs c) batch (t2, summary\<lparr>rs_leased := length batch\<rparr>)))"

section \<open>What the runner guarantees\<close>

text \<open>Handlers whose surroundings only use the store.\<close>

definition well_behaved :: "handlers \<Rightarrow> bool" where
  "well_behaved hs \<longleftrightarrow> (\<forall>(queue, h) \<in> set hs. \<forall>r. \<forall>e \<in> set (hr_events (h r)).
     case e of Beat _ \<Rightarrow> True | Meanwhile f \<Rightarrow> \<forall>t. job_table_ok t \<longrightarrow> job_table_ok (f t))"

lemma run_events_ok:
  assumes "job_table_ok (fst s)"
    and "\<forall>e \<in> set es. case e of Beat _ \<Rightarrow> True | Meanwhile f \<Rightarrow> \<forall>t. job_table_ok t \<longrightarrow> job_table_ok (f t)"
  shows "job_table_ok (fst (run_events d i l es s))"
  using assms
proof (induction d i l es s rule: run_events.induct)
  case (2 d i l now es t lostLease cancelled)
  obtain t' ok c where h: "heartbeat_job d now i l t = (t', ok, c)" by (metis prod_cases3)
  have "job_table_ok t'" using heartbeat_job_ok [of t d now i l] 2(2) by (simp add: h)
  then show ?case using 2(1) [OF h [symmetric] refl, of ok c] 2(3) by (simp add: h)
qed auto

lemma process_job_table:
  assumes "well_behaved hs" "job_table_ok (fst st)"
  shows "job_table_ok (fst (process_job hs c r st))"
proof (cases "getHandler (job_queue r) hs")
  case None
  then show ?thesis using fail_job_ok [OF assms(2)] by (simp add: process_job_def split_beta)
next
  case (Some h)
  define s where "s = run_events (rc_leaseDurationMs c) (job_id r) (the (job_leaseId r))
    (hr_events (h r)) (fst st, False, False)"
  have "(job_queue r, h) \<in> set hs" using Some by (simp add: getHandler_def map_of_SomeD)
  then have ok: "job_table_ok (fst s)"
    using assms by (auto simp: s_def well_behaved_def intro!: run_events_ok)
  show ?thesis
    using ok Some complete_job_ok [OF ok] fail_job_ok [OF ok]
    by (simp add: process_job_def split_beta s_def [symmetric] Let_def split: handler_outcome.split)
qed

lemma fold_process_job_table:
  assumes "well_behaved hs" "job_table_ok (fst st)"
  shows "job_table_ok (fst (fold (process_job hs c) batch st))"
  using assms(2) by (induction batch arbitrary: st) (simp_all add: process_job_table [OF assms(1)])

definition settled_count :: "run_summary \<Rightarrow> nat" where
  "settled_count s = rs_completed s + rs_retried s + rs_deadLettered s + rs_cancelled s"

lemma process_job_counts:
  "settled_count (snd (process_job hs c r st)) \<le> settled_count (snd st) + 1 \<and>
   rs_leased (snd (process_job hs c r st)) = rs_leased (snd st) \<and>
   rs_reaped (snd (process_job hs c r st)) = rs_reaped (snd st)"
  by (simp add: process_job_def settled_count_def count_failed_def split_beta Let_def
      split: option.split handler_outcome.split)

lemma fold_process_job_counts:
  "settled_count (snd (fold (process_job hs c) batch st)) \<le> settled_count (snd st) + length batch \<and>
   rs_leased (snd (fold (process_job hs c) batch st)) = rs_leased (snd st) \<and>
   rs_reaped (snd (fold (process_job hs c) batch st)) = rs_reaped (snd st)"
proof (induction batch arbitrary: st)
  case (Cons r batch)
  show ?case
    using Cons.IH [of "process_job hs c r st"] process_job_counts [of hs c r st] by auto
qed simp

lemma lease_batch_length:
  assumes "job_table_ok t"
  shows "length (snd (lease_batch q t)) \<le> nat (lr_limit q)"
proof -
  have d: "distinct (map job_id t)" using assms by (simp add: job_table_ok_def)
  have "length (lease_selection qs n now locked t) \<le> nat n" for qs n now locked
    by (simp add: lease_selection_def)
  then show ?thesis
    by (simp add: lease_batch_def upd_returning_def lease_selection_ids [OF d]
        length_filter_selection [OF d])
qed

text \<open>One drain keeps the table invariant whatever its handlers do, leases at most its batch
  size, and accounts for each leased job at most once: the completed, retried, dead-lettered
  and cancelled jobs it reports are together no more than the jobs it leased, and the reaped
  count is the number of leases that had expired when it started.\<close>

theorem run_once_accounts:
  assumes "job_table_ok t" "well_behaved hs" "run_once hs c only q t = (t', s)"
  shows "job_table_ok t' \<and> settled_count s \<le> rs_leased s \<and> rs_leased s \<le> nat (lr_limit q) \<and>
    rs_reaped s = length (filter (lease_expired (lr_now q)) t)"
proof -
  let ?queues = "coalesce only (registeredQueues hs)"
  let ?q = "q\<lparr>lr_queues := ?queues\<rparr>"
  let ?t1 = "fst (reap_jobs (lr_now q) t)"
  have ok1: "job_table_ok ?t1" by (rule reap_jobs_ok [OF assms(1)])
  have ok2: "job_table_ok (fst (lease_batch ?q ?t1))" by (rule lease_batch_ok [OF ok1])
  define st where "st = (fst (lease_batch ?q ?t1), empty_summary
    \<lparr>rs_reaped := length (filter (lease_expired (lr_now q)) t),
     rs_leased := length (snd (lease_batch ?q ?t1))\<rparr>)"
  show ?thesis
  proof (cases "?queues = []")
    case True
    then show ?thesis
      using assms(3) ok1 reap_jobs_counts [of "lr_now q" t]
      by (auto simp: run_once_def split_beta settled_count_def empty_summary_def)
  next
    case False
    then have "(t', s) = fold (process_job hs c) (snd (lease_batch ?q ?t1)) st"
      using assms(3) reap_jobs_counts [of "lr_now q" t]
      by (simp add: run_once_def split_beta st_def Let_def empty_summary_def)
    moreover have "job_table_ok (fst st)" using ok2 by (simp add: st_def)
    ultimately show ?thesis
      using fold_process_job_table [OF assms(2), of st c "snd (lease_batch ?q ?t1)"]
        fold_process_job_counts [of hs c "snd (lease_batch ?q ?t1)" st]
        lease_batch_length [OF ok1, of ?q]
      by (cases "fold (process_job hs c) (snd (lease_batch ?q ?t1)) st")
         (simp add: st_def settled_count_def empty_summary_def)
  qed
qed

text \<open>A handler that heartbeats once and returns a result.\<close>

definition sample_handlers :: handlers where
  "sample_handlers = [(''q'', \<lambda>r. \<lparr>hr_events = [Beat 15], hr_outcome = Returned (Some (JNum 7)),
     hr_settledAt = 20, hr_random = 0\<rparr>)]"

definition sample_runner :: runner_config where
  "sample_runner = \<lparr>rc_leaseDurationMs = 30, rc_now = 20, rc_random = 0\<rparr>"

definition sample_pending :: jobs where
  "sample_pending = [(job_defaults 0 ''j1'')\<lparr>job_queue := ''q'', job_maxAttempts := 3\<rparr>]"

lemma sample_run:
  "snd (run_once sample_handlers sample_runner None sample_lease sample_pending) =
     \<lparr>rs_leased = 1, rs_completed = 1, rs_retried = 0, rs_deadLettered = 0, rs_cancelled = 0,
      rs_reaped = 0\<rparr>"
  by (simp add: run_once_def sample_handlers_def sample_runner_def sample_pending_def
      sample_lease_def registeredQueues_def reap_jobs_def upd_returning_def lease_expired_def
      job_defaults_def lease_batch_def lease_selection_def lease_order_def job_due_def
      grant_lease_def process_job_def getHandler_def heartbeat_job_def complete_job_def
      job_held_def clear_lease_def empty_summary_def)

theorem run_once_accounts_witness:
  "job_table_ok (fst (run_once sample_handlers sample_runner None sample_lease sample_pending)) \<and>
   settled_count (snd (run_once sample_handlers sample_runner None sample_lease sample_pending)) = 1"
proof -
  have "job_table_ok sample_pending"
    by (simp add: sample_pending_def job_table_ok_def job_keys_def job_row_ok_def job_defaults_def)
  moreover have "well_behaved sample_handlers"
    by (simp add: well_behaved_def sample_handlers_def)
  ultimately show ?thesis
    using run_once_accounts [OF _ _ prod.collapse [symmetric],
        of sample_pending sample_handlers sample_runner None sample_lease]
    by (simp add: sample_run settled_count_def)
qed

lemma fail_job_status:
  assumes "fail_job e u now i l t = (t', Some r)"
  shows "job_status r \<in> {JDeadLetter, JPending}"
proof -
  obtain c where c: "sel_one (job_held i l) t = Some c"
    using assms by (cases "sel_one (job_held i l) t") (auto simp: fail_job_def)
  show ?thesis
    using assms c
    by (cases "job_decideRetry (job_retryClass c) (job_attempts c) (job_maxAttempts c) u")
       (auto simp: fail_job_def upd_returning_def clear_lease_def Let_def dest!: first_row_Some_in)
qed

lemma count_failed_moves:
  "job_status r \<in> {JDeadLetter, JPending} \<Longrightarrow>
     settled_count (count_failed (Some r) s) = settled_count s + 1"
  "count_failed None s = s"
  by (auto simp: count_failed_def settled_count_def)

text \<open>A handler's outcome is written only by the worker that still owns the job: when a heartbeat
  reported the lease lost or the cancellation requested, nothing is written after the
  handler's own events; otherwise, when no row carries this lease any more, the settling write
  changes nothing and no counter moves; and when the row is still held the row is settled,
  the lease is gone and exactly one counter has moved.\<close>

theorem process_job_settles_held_only:
  assumes "getHandler (job_queue r) hs = Some h" "job_leaseId r = Some l"
    and "run_events (rc_leaseDurationMs c) (job_id r) l (hr_events (h r)) (t, False, False)
         = (t', lost, cancelled)"
    and "process_job hs c r (t, s) = (t'', s')"
  shows "if lost \<or> cancelled
    then t'' = t' \<and> rs_completed s' = rs_completed s \<and> rs_retried s' = rs_retried s
         \<and> rs_deadLettered s' = rs_deadLettered s
    else if \<exists>x \<in> set t'. job_held (job_id r) l x
    then \<not> (\<exists>x \<in> set t''. job_held (job_id r) l x) \<and> settled_count s' = settled_count s + 1
    else t'' = t' \<and> s' = s"
proof (cases "lost \<or> cancelled")
  case True
  then show ?thesis using assms by (auto simp: process_job_def split: if_splits)
next
  case False
  define action where "action = (case hr_outcome (h r) of
      Returned res \<Rightarrow> Complete res (hr_settledAt (h r))
    | Threw e \<Rightarrow> Fail e (hr_random (h r)) (hr_settledAt (h r)))"
  have t'': "t'' = fst (settle_job action (job_id r) l t')"
    and s': "s' = (case hr_outcome (h r) of
        Returned res \<Rightarrow> if snd (settle_job action (job_id r) l t') \<noteq> None
                        then s\<lparr>rs_completed := rs_completed s + 1\<rparr> else s
      | Threw e \<Rightarrow> count_failed (snd (settle_job action (job_id r) l t')) s)"
    using assms False
    by (auto simp: process_job_def action_def split_beta Let_def split: handler_outcome.splits)
  show ?thesis
  proof (cases "\<exists>x \<in> set t'. job_held (job_id r) l x")
    case False
    with \<open>\<not> (lost \<or> cancelled)\<close> show ?thesis
      by (simp add: t'' s' settle_job_stale count_failed_moves split: handler_outcome.split)
  next
    case True
    then obtain u x where won: "settle_job action (job_id r) l t' = (u, Some x)"
      using job_lease.settle_live [unfolded job_lease_held, OF True, of action] by blast
    have gone: "\<not> (\<exists>x \<in> set u. job_held (job_id r) l x)"
      using job_lease.settle_frees [unfolded job_lease_held, OF won] .
    have "job_status x \<in> {JDeadLetter, JPending}" if "hr_outcome (h r) = Threw e" for e
      using won that by (auto simp: action_def dest!: fail_job_status)
    then have "settled_count s' = settled_count s + 1"
      using won
      by (auto simp: s' count_failed_moves split: handler_outcome.splits)
         (simp_all add: settled_count_def)
    then show ?thesis using True \<open>\<not> (lost \<or> cancelled)\<close> won gone by (simp add: t'')
  qed
qed

theorem process_job_settles_held_only_witness:
  "settled_count (snd (process_job sample_handlers sample_runner (hd sample_table)
     (sample_table, empty_summary))) = settled_count empty_summary + 1"
proof -
  define h where "h = snd (hd sample_handlers)"
  have g: "getHandler (job_queue (hd sample_table)) sample_handlers = Some h"
    by (simp add: h_def getHandler_def sample_handlers_def sample_table_eq)
  have l: "job_leaseId (hd sample_table) = Some ''lease-j1''" by (simp add: sample_table_eq)
  obtain t' where run: "run_events (rc_leaseDurationMs sample_runner) (job_id (hd sample_table))
      ''lease-j1'' (hr_events (h (hd sample_table))) (sample_table, False, False) = (t', False, False)"
    and held: "\<exists>x \<in> set t'. job_held (job_id (hd sample_table)) ''lease-j1'' x"
    by (simp add: h_def sample_handlers_def sample_runner_def sample_table_eq heartbeat_job_def
        upd_returning_def job_held_def job_defaults_def)
  show ?thesis
    using process_job_settles_held_only [OF g l run prod.collapse [symmetric],
        of empty_summary] held by simp
qed

text \<open>A job of a queue without handler is not dead-lettered: while it has attempts left, processing
  it puts the row back to pending with a backoff delay, to be leased again, and yet reports it
  as dead-lettered.\<close>

theorem unhandled_job_is_retried:
  assumes "getHandler (job_queue r) hs = None" "job_leaseId r = Some l"
    and "distinct (map job_id t)" "x \<in> set t" "job_held (job_id r) l x"
    and "job_retryClass x = Retryable k" "job_attempts x < job_maxAttempts x"
    and "process_job hs c r (t, s) = (t', s')"
  shows "rs_deadLettered s' = rs_deadLettered s + 1 \<and>
    (\<exists>y \<in> set t'. job_id y = job_id r \<and> job_status y = JPending \<and> job_leaseId y = None \<and>
       job_attempts y = job_attempts x \<and>
       job_runAt y = rc_now c + job_backoffMs k (job_attempts x) (rc_random c))"
proof -
  have "filter (job_held (job_id r) l) t = [x]"
    using assms(3-5) by (intro filter_key_single [of job_id]) (auto simp: job_held_def)
  then have c: "sel_one (job_held (job_id r) l) t = Some x"
    by (simp add: find_Some_first)
  define f where "f = (\<lambda>y. (clear_lease y)\<lparr>job_status := JPending,
      job_runAt := rc_now c + job_backoffMs k (job_attempts x) (rc_random c),
      job_lastError := Some (truncateError (no_handler_error (job_queue r))),
      job_updatedAt := rc_now c\<rparr>)"
  have "t' = upd (job_held (job_id r) l) f t" "rs_deadLettered s' = rs_deadLettered s + 1"
    using assms(1,2,6-8) c
    by (auto simp: process_job_def fail_job_def upd_returning_def f_def Let_def)
  moreover have "f x \<in> set (upd (job_held (job_id r) l) f t)"
    using assms(4,5) by (auto simp: set_upd)
  ultimately show ?thesis
    using assms(5) by (intro conjI bexI [of _ "f x"]) (simp_all add: f_def clear_lease_def job_held_def)
qed

theorem unhandled_job_is_retried_witness:
  "rs_deadLettered (snd (process_job [] sample_runner (hd sample_table) (sample_table, empty_summary)))
     = 1 \<and>
   (\<exists>y \<in> set (fst (process_job [] sample_runner (hd sample_table) (sample_table, empty_summary))).
      job_id y = ''j1'' \<and> job_status y = JPending)"
  using unhandled_job_is_retried [OF _ _ _ _ _ _ _ prod.collapse [symmetric],
      of "hd sample_table" "[]" "''lease-j1''" sample_table "hd sample_table" Transient sample_runner
         empty_summary]
  by (auto simp: sample_table_eq getHandler_def job_held_def empty_summary_def job_defaults_def)

end
