(* ===== verification/Outbox.thy ===== *)
theory Outbox
  imports Leases Dedupe
begin

text \<open>
  The transactional outbox, web/src/lib/outbox: row type (types.ts, db/schema.ts), retry
  policy (retry.ts), the store's statements (store.ts), the consumer registry (registry.ts)
  and the dispatcher (dispatcher.ts).
\<close>

section \<open>Data\<close>

datatype outbox_status = OPending | OLeased | ODispatched | ODeadLetter

record outbox_event =
  ev_id :: string
  ev_aggregateType :: string
  ev_aggregateId :: string
  ev_eventType :: string
  ev_payload :: json
  ev_status :: outbox_status
  ev_runAt :: instant
  ev_leaseId :: "string option"
  ev_leaseOwner :: "string option"
  ev_leaseExpiresAt :: "instant option"
  ev_attempts :: int
  ev_maxAttempts :: int
  ev_dedupeKey :: "string option"
  ev_lastError :: "string option"
  ev_createdAt :: instant
  ev_updatedAt :: instant
  ev_dispatchedAt :: "instant option"

type_synonym events = "outbox_event list"

definition event_defaults :: "instant \<Rightarrow> string \<Rightarrow> outbox_event" where
  "event_defaults now newId =
     \<lparr>ev_id = newId, ev_aggregateType = [], ev_aggregateId = [], ev_eventType = [],
      ev_payload = JObj [], ev_status = OPending, ev_runAt = now, ev_leaseId = None,
      ev_leaseOwner = None, ev_leaseExpiresAt = None, ev_attempts = 0, ev_maxAttempts = 8,
      ev_dedupeKey = None, ev_lastError = None, ev_createdAt = now, ev_updatedAt = now,
      ev_dispatchedAt = None\<rparr>"

record write_event_input =
  in_aggregateType :: string
  in_aggregateId :: string
  in_eventType :: string
  in_payload :: json
  in_maxAttempts :: "int option"
  in_dedupeKey :: "string option"

text \<open>The primary key and the partial unique index \<open>(eventType, dedupeKey)\<close>.\<close>

datatype outbox_error = DuplicateEvent

definition event_conflicts :: "outbox_event \<Rightarrow> outbox_event \<Rightarrow> bool" where
  "event_conflicts a b \<longleftrightarrow> ev_id a = ev_id b \<or>
     (ev_dedupeKey a \<noteq> None \<and> ev_eventType a = ev_eventType b \<and> ev_dedupeKey a = ev_dedupeKey b)"

definition insert_event :: "outbox_event \<Rightarrow> events \<Rightarrow> outbox_error + (events \<times> outbox_event)" where
  "insert_event r t =
     (if list_ex (event_conflicts r) t then Inl DuplicateEvent else Inr (t @ [r], r))"

section \<open>Retry policy\<close>

definition BASE_MS :: int where "BASE_MS = 1000"
definition CAP_MS :: int where "CAP_MS = 5 * 60000"

definition outbox_backoffMs :: "int \<Rightarrow> rat \<Rightarrow> int" where
  "outbox_backoffMs attempts random =
     (let exp = min CAP_MS (BASE_MS * 2 ^ nat (max 0 (attempts - 1)))
      in \<lfloor>random * of_int exp\<rfloor>)"

definition outbox_decideRetry :: "int \<Rightarrow> int \<Rightarrow> rat \<Rightarrow> int option" where
  \<comment> \<open>\<open>None\<close> is the decision dead_letter, \<open>Some d\<close> a retry after \<open>d\<close> ms\<close>
  "outbox_decideRetry attempts maxAttempts random =
     (if attempts \<ge> maxAttempts then None else Some (outbox_backoffMs attempts random))"

definition outbox_truncateError :: "thrown \<Rightarrow> string" where
  "outbox_truncateError err =
     (let message = thrown_message err
      in if length message > 500 then take 500 message @ ellipsis else message)"

section \<open>Store\<close>

definition event_by_key :: "string \<Rightarrow> string option \<Rightarrow> events \<Rightarrow> outbox_event option" where
  "event_by_key eventType key t =
     sel_one (\<lambda>r. ev_eventType r = eventType \<and> ev_dedupeKey r \<noteq> None \<and> ev_dedupeKey r = key) t"

definition writeOutboxEvent ::
  "int \<Rightarrow> instant \<Rightarrow> string \<Rightarrow> write_event_input \<Rightarrow> events \<Rightarrow> outbox_error + (events \<times> outbox_event)" where
  "writeOutboxEvent defaultMaxAttempts now newId inp t =
     (let existing = (if truthy_str (in_dedupeKey inp)
                      then event_by_key (in_eventType inp) (in_dedupeKey inp) t else None)
      in case existing of
           Some r \<Rightarrow> Inr (t, r)
         | None \<Rightarrow> insert_event ((event_defaults now newId)
             \<lparr>ev_aggregateType := in_aggregateType inp, ev_aggregateId := in_aggregateId inp,
              ev_eventType := in_eventType inp,
              ev_payload := (if in_payload inp = JNull then JObj [] else in_payload inp),
              ev_maxAttempts := coalesce (in_maxAttempts inp) defaultMaxAttempts,
              ev_dedupeKey := in_dedupeKey inp\<rparr>) t)"

record outbox_lease_request =
  olr_limit :: int
  olr_workerId :: string
  olr_leaseDurationMs :: int
  olr_now :: instant
  olr_uuid :: "string \<Rightarrow> string"
  olr_locked :: "string \<Rightarrow> bool"

definition event_due :: "instant \<Rightarrow> outbox_event \<Rightarrow> bool" where
  "event_due now r \<longleftrightarrow> ev_status r = OPending \<and> ev_runAt r \<le> now"

definition outbox_selection :: "outbox_lease_request \<Rightarrow> events \<Rightarrow> events" where
  "outbox_selection q t = take (nat (olr_limit q))
     (sort_key ev_runAt (sel (\<lambda>r. event_due (olr_now q) r \<and> \<not> olr_locked q (ev_id r)) t))"

definition grant_event_lease :: "outbox_lease_request \<Rightarrow> outbox_event \<Rightarrow> outbox_event" where
  "grant_event_lease q r = r
     \<lparr>ev_status := OLeased, ev_leaseId := Some (olr_uuid q (ev_id r)),
      ev_leaseOwner := Some (olr_workerId q),
      ev_leaseExpiresAt := Some (olr_now q + olr_leaseDurationMs q),
      ev_attempts := ev_attempts r + 1, ev_updatedAt := olr_now q\<rparr>"

definition outbox_leaseBatch :: "outbox_lease_request \<Rightarrow> events \<Rightarrow> events \<times> events" where
  "outbox_leaseBatch q t =
     (if olr_limit q \<le> 0 then (t, [])
      else upd_returning (\<lambda>r. ev_id r \<in> ev_id ` set (outbox_selection q t)) (grant_event_lease q) t)"

definition event_held :: "string \<Rightarrow> string \<Rightarrow> outbox_event \<Rightarrow> bool" where
  "event_held eventId leaseId r \<longleftrightarrow>
     ev_id r = eventId \<and> ev_leaseId r = Some leaseId \<and> ev_status r = OLeased"

definition drop_lease :: "outbox_event \<Rightarrow> outbox_event" where
  "drop_lease r = r\<lparr>ev_leaseId := None, ev_leaseOwner := None, ev_leaseExpiresAt := None\<rparr>"

definition ack_event :: "instant \<Rightarrow> string \<Rightarrow> string \<Rightarrow> events \<Rightarrow> events \<times> outbox_event option" where
  "ack_event now eventId leaseId t =
     (let (t', rows) = upd_returning (event_held eventId leaseId)
            (\<lambda>r. (drop_lease r)\<lparr>ev_status := ODispatched, ev_dispatchedAt := Some now,
                   ev_updatedAt := now\<rparr>) t
      in (t', first_row rows))"

definition fail_event ::
  "thrown \<Rightarrow> rat \<Rightarrow> instant \<Rightarrow> string \<Rightarrow> string \<Rightarrow> events \<Rightarrow> events \<times> outbox_event option" where
  "fail_event error random now eventId leaseId t =
     (case sel_one (event_held eventId leaseId) t of
        None \<Rightarrow> (t, None)
      | Some current \<Rightarrow>
          let lastError = outbox_truncateError error in
          (case outbox_decideRetry (ev_attempts current) (ev_maxAttempts current) random of
             None \<Rightarrow>
               (let (t', rows) = upd_returning (event_held eventId leaseId)
                      (\<lambda>r. (drop_lease r)\<lparr>ev_status := ODeadLetter, ev_lastError := Some lastError,
                             ev_updatedAt := now\<rparr>) t
                in (t', first_row rows))
           | Some delayMs \<Rightarrow>
               (let (t', rows) = upd_returning (event_held eventId leaseId)
                      (\<lambda>r. (drop_lease r)\<lparr>ev_status := OPending, ev_runAt := now + delayMs,
                             ev_lastError := Some lastError, ev_updatedAt := now\<rparr>) t
                in (t', first_row rows))))"

definition requeue_event :: "instant \<Rightarrow> string \<Rightarrow> events \<Rightarrow> events \<times> outbox_event option" where
  "requeue_event now eventId t =
     (let (t', rows) = upd_returning (\<lambda>r. ev_id r = eventId \<and> ev_status r = ODeadLetter)
            (\<lambda>r. r\<lparr>ev_status := OPending, ev_attempts := 0, ev_lastError := None, ev_runAt := now,
                   ev_updatedAt := now\<rparr>) t
      in (t', first_row rows))"

definition event_lease_expired :: "instant \<Rightarrow> outbox_event \<Rightarrow> bool" where
  "event_lease_expired now r \<longleftrightarrow> ev_status r = OLeased \<and> ev_leaseExpiresAt r \<noteq> None
     \<and> sql_true (sql_cmp (<) (ev_leaseExpiresAt r) (Some now))"

definition reap_events :: "instant \<Rightarrow> events \<Rightarrow> events \<times> nat \<times> nat" where
  "reap_events now t =
     (let (t', requeuedRows) = upd_returning
            (\<lambda>r. event_lease_expired now r \<and> ev_attempts r < ev_maxAttempts r)
            (\<lambda>r. (drop_lease r)\<lparr>ev_status := OPending,
               ev_lastError := Some ''lease expired (dispatcher died mid-lease)'',
               ev_updatedAt := now\<rparr>) t;
          (t'', deadLetteredRows) = upd_returning
            (\<lambda>r. event_lease_expired now r \<and> ev_attempts r \<ge> ev_maxAttempts r)
            (\<lambda>r. (drop_lease r)\<lparr>ev_status := ODeadLetter,
               ev_lastError := Some ''lease expired and max attempts reached'',
               ev_updatedAt := now\<rparr>) t'
      in (t'', length requeuedRows, length deadLetteredRows))"

definition pruneDispatched :: "int \<Rightarrow> instant \<Rightarrow> events \<Rightarrow> events \<times> nat" where
  "pruneDispatched retentionDays now t =
     (let cutoff = now - retentionDays * 24 * 60 * 60 * 1000;
          (t', rows) = del_returning (\<lambda>r. ev_status r = ODispatched
            \<and> sql_true (sql_cmp (<) (ev_dispatchedAt r) (Some cutoff))) t
      in (t', length rows))"

section \<open>Admin inspection\<close>

record list_events_filter =
  ef_status :: "outbox_status option"
  ef_eventType :: "string option"
  ef_cursor :: "instant option"
  ef_limit :: "int option"

definition matching_events :: "list_events_filter \<Rightarrow> events \<Rightarrow> events" where
  "matching_events f t = sort_key (\<lambda>r. - ev_createdAt r)
     (sel (\<lambda>r. (case ef_status f of None \<Rightarrow> True | Some s \<Rightarrow> ev_status r = s)
            \<and> (truthy_str (ef_eventType f) \<longrightarrow> Some (ev_eventType r) = ef_eventType f)
            \<and> (case ef_cursor f of None \<Rightarrow> True | Some c \<Rightarrow> ev_createdAt r < c)) t)"

definition list_events :: "list_events_filter \<Rightarrow> events \<Rightarrow> events \<times> instant option" where
  "list_events f t =
     (let limit = min (max (coalesce (ef_limit f) 50) 1) 200;
          rows = take (nat (limit + 1)) (matching_events f t);
          hasMore = int (length rows) > limit;
          page = (if hasMore then take (nat limit) rows else rows)
      in (page, if hasMore then (if page = [] then None else Some (ev_createdAt (last page)))
                else None))"

definition get_event :: "string \<Rightarrow> events \<Rightarrow> outbox_event option" where
  "get_event eventId t = sel_one (\<lambda>r. ev_id r = eventId) t"

text \<open>\<open>GROUP BY eventType\<close>: one row per event type, counted; sorted by descending count and
  then by event type, whose collation is \<open>name_rank\<close>.\<close>

definition summarizeDeadLetters :: "(string \<Rightarrow> int) \<Rightarrow> events \<Rightarrow> nat \<times> (string \<times> nat) list" where
  "summarizeDeadLetters name_rank t =
     (let dead = sel (\<lambda>r. ev_status r = ODeadLetter) t;
          groups = map (\<lambda>e. (e, length (filter (\<lambda>r. ev_eventType r = e) dead)))
                     (remdups (map ev_eventType dead));
          byEventType = sort_key (\<lambda>g. - int (snd g)) (sort_key (\<lambda>g. name_rank (fst g)) groups)
      in (sum_list (map snd byEventType), byEventType))"

section \<open>Registry and dispatcher\<close>

text \<open>A consumer is feature code: it ends normally or throws, at an instant, and meanwhile other
  processes may change the table.\<close>

record consumer_run =
  cr_meanwhile :: "events \<Rightarrow> events"
  cr_threw :: "thrown option"

type_synonym consumer = "outbox_event \<Rightarrow> consumer_run"

type_synonym consumers = "string \<Rightarrow> consumer list option"  \<comment> \<open>the Map from event type to list\<close>

definition registerConsumer :: "string \<Rightarrow> consumer \<Rightarrow> consumers \<Rightarrow> consumers" where
  "registerConsumer eventType c m = m(eventType \<mapsto> coalesce (m eventType) [] @ [c])"

definition getConsumers :: "string \<Rightarrow> consumers \<Rightarrow> consumer list" where
  "getConsumers eventType m = coalesce (m eventType) []"

text \<open>\<open>for (const handler of handlers) await handler(event)\<close>, up to the first throw.\<close>

fun run_consumers :: "consumer list \<Rightarrow> outbox_event \<Rightarrow> events \<Rightarrow> events \<times> thrown option" where
  "run_consumers [] e t = (t, None)"
| "run_consumers (c # cs) e t =
     (let t' = cr_meanwhile (c e) t
      in case cr_threw (c e) of Some err \<Rightarrow> (t', Some err) | None \<Rightarrow> run_consumers cs e t')"

record dispatch_summary =
  ds_leased :: nat
  ds_dispatched :: nat
  ds_retried :: nat
  ds_deadLettered :: nat
  ds_reaped :: nat
  ds_pruned :: nat

definition no_dispatch :: dispatch_summary where
  "no_dispatch = \<lparr>ds_leased = 0, ds_dispatched = 0, ds_retried = 0, ds_deadLettered = 0,
     ds_reaped = 0, ds_pruned = 0\<rparr>"

definition no_consumer_error :: "string \<Rightarrow> thrown" where
  "no_consumer_error eventType = ErrorObj
     (''No consumer registered for event type '' @ [CHR 0x22] @ eventType @ [CHR 0x22])"

definition dispatch_event ::
  "consumers \<Rightarrow> instant \<Rightarrow> rat \<Rightarrow> outbox_event \<Rightarrow> events \<times> dispatch_summary
     \<Rightarrow> events \<times> dispatch_summary" where
  "dispatch_event m now random event st =
     (let (t, summary) = st;
          leaseId = the (ev_leaseId event);
          handlers = getConsumers (ev_eventType event) m
      in if handlers = []
         then (fst (fail_event (no_consumer_error (ev_eventType event)) random now (ev_id event)
                      leaseId t),
               summary\<lparr>ds_deadLettered := ds_deadLettered summary + 1\<rparr>)
         else (case run_consumers handlers event t of
             (t', None) \<Rightarrow>
               (let (t'', acked) = ack_event now (ev_id event) leaseId t'
                in (t'', if acked \<noteq> None then summary\<lparr>ds_dispatched := ds_dispatched summary + 1\<rparr>
                         else summary))
           | (t', Some err) \<Rightarrow>
               (let (t'', failed) = fail_event err random now (ev_id event) leaseId t'
                in (t'', case failed of
                      None \<Rightarrow> summary
                    | Some row \<Rightarrow>
                        if ev_status row = ODeadLetter
                        then summary\<lparr>ds_deadLettered := ds_deadLettered summary + 1\<rparr>
                        else if ev_status row = OPending
                        then summary\<lparr>ds_retried := ds_retried summary + 1\<rparr>
                        else summary))))"

definition dispatch_once ::
  "consumers \<Rightarrow> int \<Rightarrow> instant \<Rightarrow> rat \<Rightarrow> outbox_lease_request \<Rightarrow> events \<Rightarrow> events \<times> dispatch_summary" where
  "dispatch_once m retentionDays now random q t =
     (let (t1, requeued, deadLettered) = reap_events (olr_now q) t;
          (t2, pruned) = pruneDispatched retentionDays (olr_now q) t1;
          (t3, batch) = outbox_leaseBatch q t2
      in fold (dispatch_event m now random) batch
           (t3, no_dispatch\<lparr>ds_reaped := requeued + deadLettered, ds_pruned := pruned,
                            ds_leased := length batch\<rparr>))"

end
