(* ===== verification/Outbox_Facts.thy ===== *)
theory Outbox_Facts
  imports Outbox
begin

text \<open>
  What the outbox guarantees: the table invariant over interleaved statements, the lease
  protocol and idempotent writes (interpretations of Leases and Dedupe on the outbox's own
  operations), stability of dispatched events, and what a dispatch does.
\<close>

section \<open>The table invariant\<close>

definition event_row_ok :: "outbox_event \<Rightarrow> bool" where
  "event_row_ok r \<longleftrightarrow>
     (ev_status r = OLeased \<longleftrightarrow> ev_leaseId r \<noteq> None) \<and>
     (ev_leaseId r = None \<longleftrightarrow> ev_leaseExpiresAt r = None) \<and>
     (ev_status r = ODispatched \<longrightarrow> ev_dispatchedAt r \<noteq> None) \<and>
     (ev_status r = OLeased \<longrightarrow> 1 \<le> ev_attempts r) \<and> 0 \<le> ev_attempts r"

definition event_keys :: "events \<Rightarrow> (string \<times> string option) list" where
  "event_keys t = map (\<lambda>r. (ev_eventType r, ev_dedupeKey r)) (filter (\<lambda>r. ev_dedupeKey r \<noteq> None) t)"

definition event_table_ok :: "events \<Rightarrow> bool" where
  "event_table_ok t \<longleftrightarrow>
     distinct (map ev_id t) \<and> distinct (event_keys t) \<and> (\<forall>r \<in> set t. event_row_ok r)"

definition keeps_event_identity :: "(outbox_event \<Rightarrow> outbox_event) \<Rightarrow> bool" where
  "keeps_event_identity f \<longleftrightarrow> (\<forall>r. ev_id (f r) = ev_id r \<and> ev_eventType (f r) = ev_eventType r
      \<and> ev_dedupeKey (f r) = ev_dedupeKey r)"

lemma event_table_ok_upd:
  assumes "event_table_ok t" "keeps_event_identity f"
    and "\<And>r. r \<in> set t \<Longrightarrow> P r \<Longrightarrow> event_row_ok r \<Longrightarrow> event_row_ok (f r)"
  shows "event_table_ok (upd P f t)"
proof -
  have "event_keys (upd P f t) = event_keys t"
    using assms(2) unfolding event_keys_def keeps_event_identity_def
    by (intro map_filter_upd_frame) auto
  moreover have "map ev_id (upd P f t) = map ev_id t"
    using assms(2) by (intro map_upd_frame) (simp add: keeps_event_identity_def)
  moreover have "\<forall>r \<in> set (upd P f t). event_row_ok r"
    using assms(1,3) by (intro all_upd) (auto simp: event_table_ok_def)
  ultimately show ?thesis using assms(1) by (simp add: event_table_ok_def)
qed

lemma event_table_ok_insert:
  assumes "event_table_ok t" "event_row_ok r" "insert_event r t = Inr (t', r')"
  shows "event_table_ok t'"
proof -
  have c: "\<not> list_ex (event_conflicts r) t" and t': "t' = t @ [r]"
    using assms(3) by (auto simp: insert_event_def split: if_splits)
  have "ev_dedupeKey r \<noteq> None \<Longrightarrow> (ev_eventType r, ev_dedupeKey r) \<notin> set (event_keys t)"
    using c by (auto simp: event_keys_def list_ex_iff event_conflicts_def)
  then have "distinct (event_keys t')"
    using assms(1) by (auto simp: t' event_keys_def event_table_ok_def)
  moreover have "ev_id r \<notin> ev_id ` set t" using c by (auto simp: list_ex_iff event_conflicts_def)
  ultimately show ?thesis using assms(1,2) by (auto simp: t' event_table_ok_def)
qed

lemma event_table_ok_del:
  assumes "event_table_ok t"
  shows "event_table_ok (del P t)"
proof -
  have "event_keys (del P t) = map (\<lambda>r. (ev_eventType r, ev_dedupeKey r))
      (filter (\<lambda>r. \<not> P r) (filter (\<lambda>r. ev_dedupeKey r \<noteq> None) t))"
    by (simp add: event_keys_def del_def conj_commute)
  moreover have "distinct (map (\<lambda>r. (ev_eventType r, ev_dedupeKey r))
      (filter (\<lambda>r. \<not> P r) (filter (\<lambda>r. ev_dedupeKey r \<noteq> None) t)))"
    by (rule distinct_map_filter) (use assms in \<open>simp add: event_table_ok_def event_keys_def\<close>)
  ultimately have "distinct (event_keys (del P t))" by simp
  moreover have "distinct (map ev_id (del P t))"
    using assms by (simp add: event_table_ok_def distinct_del)
  ultimately show ?thesis
    using assms del_subset [of P t] by (auto simp: event_table_ok_def)
qed

section \<open>The statements as guarded updates\<close>

lemma ack_event_table: "fst (ack_event now i l t) = upd (event_held i l)
    (\<lambda>r. (drop_lease r)\<lparr>ev_status := ODispatched, ev_dispatchedAt := Some now, ev_updatedAt := now\<rparr>) t"
  by (simp add: ack_event_def upd_returning_def)

text \<open>\<open>ack\<close> and \<open>fail\<close> under one name.\<close>

datatype event_settlement = Ack instant | FailEvent thrown rat instant

fun settle_event :: "event_settlement \<Rightarrow> string \<Rightarrow> string \<Rightarrow> events \<Rightarrow> events \<times> outbox_event option" where
  "settle_event (Ack now) = ack_event now"
| "settle_event (FailEvent e u now) = fail_event e u now"

abbreviation event_leased :: "outbox_event \<Rightarrow> bool" where
  "event_leased r \<equiv> ev_status r = OLeased"

lemma settle_event_upd:
  assumes "\<exists>r \<in> set t. event_held i l r"
  obtains f where
    "settle_event a i l t = (upd (event_held i l) f t, first_row (map f (filter (event_held i l) t)))"
    "keeps_event_identity f" "\<And>r. ev_leaseId (f r) = None"
    "\<And>r. event_row_ok r \<Longrightarrow> event_row_ok (f r)"
    "\<And>r. ev_status (f r) = ODispatched \<longleftrightarrow> (\<exists>now. a = Ack now)"
proof (cases a)
  case (Ack now)
  show ?thesis
    by (rule that [of "\<lambda>r. (drop_lease r)\<lparr>ev_status := ODispatched, ev_dispatchedAt := Some now,
          ev_updatedAt := now\<rparr>"])
       (simp_all add: Ack ack_event_def upd_returning_def keeps_event_identity_def drop_lease_def
          event_row_ok_def)
next
  case (FailEvent e u now)
  obtain c where c: "sel_one (event_held i l) t = Some c"
    using assms by (cases "sel_one (event_held i l) t") (auto simp: find_None_filter filter_empty_conv)
  show ?thesis
  proof (cases "outbox_decideRetry (ev_attempts c) (ev_maxAttempts c) u")
    case None
    show ?thesis
      by (rule that [of "\<lambda>r. (drop_lease r)\<lparr>ev_status := ODeadLetter,
            ev_lastError := Some (outbox_truncateError e), ev_updatedAt := now\<rparr>"])
         (simp_all add: FailEvent c None fail_event_def upd_returning_def keeps_event_identity_def
            drop_lease_def event_row_ok_def Let_def)
  next
    case (Some d)
    show ?thesis
      by (rule that [of "\<lambda>r. (drop_lease r)\<lparr>ev_status := OPending, ev_runAt := now + d,
            ev_lastError := Some (outbox_truncateError e), ev_updatedAt := now\<rparr>"])
         (simp_all add: FailEvent c Some fail_event_def upd_returning_def keeps_event_identity_def
            drop_lease_def event_row_ok_def Let_def)
  qed
qed

lemma settle_event_stale: "\<not> (\<exists>r \<in> set t. event_held i l r) \<Longrightarrow> settle_event a i l t = (t, None)"
  by (cases a)
     (auto simp: ack_event_def fail_event_def upd_returning_def upd_none
        find_None_filter filter_empty_conv split: option.splits dest: find_SomeD)

interpretation event_lease: lease_settlement ev_id ev_leaseId event_leased "settle_event a" for a
proof (rule lease_settlementI [where held = event_held])
  fix i l t
  show "event_held = row_held ev_id ev_leaseId event_leased"
    by (simp add: fun_eq_iff event_held_def row_held_def)
  show "\<not> (\<exists>r \<in> set t. event_held i l r) \<Longrightarrow> settle_event a i l t = (t, None)"
    by (rule settle_event_stale)
  show "\<exists>r \<in> set t. event_held i l r \<Longrightarrow>
      \<exists>f. settle_event a i l t = (upd (event_held i l) f t,
            first_row (map f (filter (event_held i l) t)))
        \<and> (\<forall>r. ev_id (f r) = ev_id r) \<and> (\<forall>r. ev_leaseId (f r) = None)"
    by (metis settle_event_upd keeps_event_identity_def)
qed

interpretation event_race: lease_race ev_id ev_leaseId event_leased "settle_event a" "settle_event b"
  for a b
  by unfold_locales

lemma event_lease_held:
  "holds_lease ev_id ev_leaseId event_leased i l t \<longleftrightarrow> (\<exists>r \<in> set t. event_held i l r)"
  by (auto simp: holds_lease_def event_held_def)

lemma outbox_selection_sub: "set (outbox_selection q t) \<subseteq> {r \<in> set t. event_due (olr_now q) r}"
  by (auto simp: outbox_selection_def dest!: in_set_takeD)

interpretation event_claim: lease_claim ev_id "\<lambda>r. ev_status r = OPending" outbox_leaseBatch
proof
  fix c t t' b and r :: outbox_event
  assume "outbox_leaseBatch c t = (t', b)" "r \<in> set b"
  then obtain s where "s \<in> set t" "ev_id r = ev_id s" "ev_id s \<in> ev_id ` set (outbox_selection c t)"
    by (auto simp: outbox_leaseBatch_def upd_returning_def grant_event_lease_def split: if_splits)
  then show "\<exists>s \<in> set t. ev_id s = ev_id r \<and> ev_status s = OPending"
    using outbox_selection_sub by (fastforce simp: event_due_def)
next
  fix c t t' b and s :: outbox_event
  assume claim: "outbox_leaseBatch c t = (t', b)" "s \<in> set t'" "ev_id s \<in> ev_id ` set b"
  have "ev_id s \<in> ev_id ` set (outbox_selection c t)"
    and "t' = upd (\<lambda>r. ev_id r \<in> ev_id ` set (outbox_selection c t)) (grant_event_lease c) t"
    using claim
    by (auto simp: outbox_leaseBatch_def upd_returning_def grant_event_lease_def split: if_splits)
  then show "ev_status s \<noteq> OPending"
    using claim(2) by (auto simp: grant_event_lease_def elim!: in_updE)
next
  fix c t t' b
  assume "outbox_leaseBatch c t = (t', b)"
  then show "map ev_id t' = map ev_id t"
    by (auto simp: outbox_leaseBatch_def upd_returning_def grant_event_lease_def split: if_splits
        intro!: map_upd_frame)
qed

text \<open>Idempotent writes, for non-empty dedupe keys.\<close>

definition write_keyed ::
  "string \<times> char \<times> string \<Rightarrow> int \<times> instant \<times> string \<times> write_event_input \<Rightarrow> events
     \<Rightarrow> outbox_error + (events \<times> outbox_event)" where
  "write_keyed k i t = (case (k, i) of ((eventType, c, cs), (m, now, newId, inp)) \<Rightarrow>
     writeOutboxEvent m now newId
       (inp\<lparr>in_eventType := eventType, in_dedupeKey := Some (c # cs)\<rparr>) t)"

interpretation event_dedupe: idempotent_insert write_keyed
  "\<lambda>(eventType, c, cs) t. event_by_key eventType (Some (c # cs)) t"
proof
  fix k i t and r :: outbox_event
  assume "(case k of (e, c, cs) \<Rightarrow> \<lambda>t. event_by_key e (Some (c # cs)) t) t = Some r"
  then show "write_keyed k i t = Inr (t, r)"
    by (auto simp: write_keyed_def writeOutboxEvent_def split: prod.splits)
next
  fix k i t t' and r :: outbox_event
  assume "(case k of (e, c, cs) \<Rightarrow> \<lambda>t. event_by_key e (Some (c # cs)) t) t = None"
    and "write_keyed k i t = Inr (t', r)"
  then show "(case k of (e, c, cs) \<Rightarrow> \<lambda>t. event_by_key e (Some (c # cs)) t) t' = Some r"
    by (auto simp: write_keyed_def writeOutboxEvent_def event_by_key_def insert_event_def
        event_defaults_def find_append split: prod.splits if_splits)
qed

interpretation outbox_jitter: jitter_backoff outbox_backoffMs BASE_MS CAP_MS
  by unfold_locales
     (simp_all add: outbox_backoffMs_def backoff_ceiling_def BASE_MS_def CAP_MS_def Let_def)

section \<open>Reachable tables\<close>

inductive event_step :: "events \<Rightarrow> events \<Rightarrow> bool" where
  written: "writeOutboxEvent m now i inp t = Inr (t', r) \<Longrightarrow> event_step t t'"
| lease: "event_step t (fst (outbox_leaseBatch q t))"
| settle: "event_step t (fst (settle_event a i l t))"
| requeue: "event_step t (fst (requeue_event now i t))"
| reap: "event_step t (fst (reap_events now t))"
| prune: "event_step t (fst (pruneDispatched days now t))"

inductive event_reachable :: "events \<Rightarrow> bool" where
  start: "event_reachable []"
| step: "event_reachable t \<Longrightarrow> event_step t t' \<Longrightarrow> event_reachable t'"

lemma write_event_ok:
  assumes "event_table_ok t" "writeOutboxEvent m now i inp t = Inr (t', r)"
  shows "event_table_ok t'"
proof -
  have ok: "event_row_ok ((event_defaults now i)\<lparr>ev_aggregateType := a, ev_aggregateId := b,
      ev_eventType := c, ev_payload := d, ev_maxAttempts := e, ev_dedupeKey := f\<rparr>)" for a b c d e f
    by (simp add: event_row_ok_def event_defaults_def)
  from assms show ?thesis
    by (auto simp: writeOutboxEvent_def Let_def split: option.splits
        intro: event_table_ok_insert [OF assms(1) ok])
qed

lemma settle_event_ok:
  assumes "event_table_ok t"
  shows "event_table_ok (fst (settle_event a i l t))"
proof (cases "\<exists>r \<in> set t. event_held i l r")
  case True
  show ?thesis
  proof (rule settle_event_upd [OF True, of a])
    fix f
    assume "settle_event a i l t = (upd (event_held i l) f t,
        first_row (map f (filter (event_held i l) t)))" "keeps_event_identity f"
      "\<And>r. event_row_ok r \<Longrightarrow> event_row_ok (f r)"
    then show ?thesis using event_table_ok_upd [OF assms] by simp
  qed
next
  case False
  then show ?thesis using assms by (simp add: settle_event_stale)
qed

lemma reap_events_table: "fst (reap_events now t) =
    upd (\<lambda>r. event_lease_expired now r \<and> ev_attempts r \<ge> ev_maxAttempts r)
      (\<lambda>r. (drop_lease r)\<lparr>ev_status := ODeadLetter,
         ev_lastError := Some ''lease expired and max attempts reached'', ev_updatedAt := now\<rparr>)
      (upd (\<lambda>r. event_lease_expired now r \<and> ev_attempts r < ev_maxAttempts r)
        (\<lambda>r. (drop_lease r)\<lparr>ev_status := OPending,
           ev_lastError := Some ''lease expired (dispatcher died mid-lease)'', ev_updatedAt := now\<rparr>) t)"
  by (simp add: reap_events_def upd_returning_def)

lemma event_step_ok: "event_step t t' \<Longrightarrow> event_table_ok t \<Longrightarrow> event_table_ok t'"
proof (induction rule: event_step.induct)
  case (lease t q)
  then show ?case
    by (auto simp: outbox_leaseBatch_def upd_returning_def intro!: event_table_ok_upd)
       (auto simp: keeps_event_identity_def event_row_ok_def grant_event_lease_def)
next
  case (requeue t now i)
  then show ?case
    by (auto simp: requeue_event_def upd_returning_def intro!: event_table_ok_upd)
       (auto simp: keeps_event_identity_def event_row_ok_def)
next
  case (reap t now)
  then show ?case
    unfolding reap_events_table
    by (intro event_table_ok_upd)
       (auto simp: keeps_event_identity_def event_row_ok_def drop_lease_def event_lease_expired_def)
next
  case (prune t days now)
  then show ?case by (simp add: pruneDispatched_def del_returning_def event_table_ok_del Let_def)
qed (simp_all add: write_event_ok settle_event_ok)

lemma event_reachable_ok: "event_reachable t \<Longrightarrow> event_table_ok t"
proof (induction rule: event_reachable.induct)
  case start
  show ?case by (simp add: event_table_ok_def event_keys_def)
next
  case (step t t')
  then show ?case by (blast intro: event_step_ok)
qed

section \<open>Properties\<close>

definition sample_event :: outbox_event where
  "sample_event = (event_defaults 0 ''e1'')\<lparr>ev_eventType := ''paid'', ev_status := OLeased,
     ev_leaseId := Some ''l1'', ev_leaseOwner := Some ''d1'', ev_leaseExpiresAt := Some 30,
     ev_attempts := 1\<rparr>"

definition sample_input :: write_event_input where
  "sample_input = \<lparr>in_aggregateType = ''commerce_job'', in_aggregateId = ''c1'',
     in_eventType = ''paid'', in_payload = JNull, in_maxAttempts = None, in_dedupeKey = Some ''h''\<rparr>"

text \<open>An outbox lease is settled exactly once: of an acknowledgement and a failure racing on the
  same lease the first takes effect and the other changes nothing, and neither can touch the
  rows of other events.\<close>

theorem event_lease_settled_once:
  assumes "\<exists>r \<in> set t. event_held i l r"
  shows "snd (settle_event a i l t) \<noteq> None \<and>
    settle_event b i l (fst (settle_event a i l t)) = (fst (settle_event a i l t), None) \<and>
    filter (\<lambda>r. ev_id r \<noteq> i) (fst (settle_event a i l t)) = filter (\<lambda>r. ev_id r \<noteq> i) t"
proof -
  obtain t' r where won: "settle_event a i l t = (t', Some r)"
    using event_lease.settle_live assms event_lease_held by blast
  then show ?thesis
    using event_race.loser_is_noop [OF won] event_lease.settle_others [OF won] by simp
qed

theorem event_lease_settled_once_witness:
  "snd (settle_event (Ack 20) ''e1'' ''l1'' [sample_event]) \<noteq> None \<and>
   settle_event (FailEvent (ErrorObj ''late'') 0 25) ''e1'' ''l1''
     (fst (settle_event (Ack 20) ''e1'' ''l1'' [sample_event]))
   = (fst (settle_event (Ack 20) ''e1'' ''l1'' [sample_event]), None)"
  using event_lease_settled_once [of "[sample_event]" "''e1''" "''l1''" "Ack 20"
      "FailEvent (ErrorObj ''late'') 0 25"]
  by (simp add: event_held_def sample_event_def event_defaults_def)

text \<open>Writing an event under a non-empty dedupe key is idempotent per event type: any number of
  repeated writes, with whatever payload, clock and ids, return the row the first write stored
  and store nothing more.\<close>

theorem outbox_write_idempotent:
  assumes "in_dedupeKey inp = Some key" "key \<noteq> []"
    and "writeOutboxEvent m now i inp t = Inr (t', r)"
    and "in_eventType inp' = in_eventType inp" "in_dedupeKey inp' = Some key"
  shows "writeOutboxEvent m' now' i' inp' t' = Inr (t', r)"
proof -
  obtain c cs where key: "key = c # cs" using assms(2) by (cases key) auto
  have eq: "inp\<lparr>in_dedupeKey := Some (c # cs)\<rparr> = inp"
      "inp'\<lparr>in_eventType := in_eventType inp, in_dedupeKey := Some (c # cs)\<rparr> = inp'"
    using assms(1,4,5) by (simp_all add: key)
  have "write_keyed (in_eventType inp, c, cs) (m, now, i, inp) t = Inr (t', r)"
    using assms(3) by (simp add: write_keyed_def eq)
  from event_dedupe.ins_repeat [OF this, of "(m', now', i', inp')"]
  show ?thesis by (simp add: write_keyed_def eq)
qed

theorem outbox_write_idempotent_witness:
  "\<exists>t r. writeOutboxEvent 8 0 ''e1'' sample_input [] = Inr (t, r) \<and> length t = 1 \<and>
     writeOutboxEvent 8 7 ''e2'' (sample_input\<lparr>in_payload := JNum 3\<rparr>) t = Inr (t, r)"
proof -
  obtain t r where w: "writeOutboxEvent 8 0 ''e1'' sample_input [] = Inr (t, r)" "length t = 1"
    by (simp add: writeOutboxEvent_def sample_input_def event_by_key_def insert_event_def)
  show ?thesis
    using w outbox_write_idempotent [OF _ _ w(1), of "''h''" "sample_input\<lparr>in_payload := JNum 3\<rparr>" 8 7 "''e2''"]
    by (simp add: sample_input_def)
qed

lemma dispatched_kept:
  "(\<And>s. P s \<Longrightarrow> ev_status s \<noteq> ODispatched) \<Longrightarrow> r \<in> set t \<Longrightarrow> ev_status r = ODispatched \<Longrightarrow>
     r \<in> set (upd P f t)"
  by (auto simp: set_upd)

lemma settle_event_keeps:
  assumes "r \<in> set t" "ev_status r = ODispatched"
  shows "r \<in> set (fst (settle_event a i l t))"
proof (cases "\<exists>r \<in> set t. event_held i l r")
  case True
  have "r \<in> set (upd (event_held i l) f t)" for f
    using assms by (intro dispatched_kept) (auto simp: event_held_def)
  then show ?thesis by (metis settle_event_upd [OF True] fst_conv)
next
  case False
  then show ?thesis using assms by (simp add: settle_event_stale)
qed

text \<open>C38.
  A dispatched event is final: no statement of the outbox changes or removes a dispatched row
  except pruning, and pruning removes it only when it was dispatched before the retention
  cutoff; rows that are not dispatched are never pruned.\<close>

theorem dispatched_event_final:
  assumes "event_reachable t" "event_step t t'" "r \<in> set t"
  shows "(ev_status r = ODispatched \<longrightarrow> r \<in> set t' \<or>
           (\<exists>days now d. t' = fst (pruneDispatched days now t) \<and> ev_dispatchedAt r = Some d
              \<and> d < now - days * 86400000)) \<and>
         (ev_status r \<noteq> ODispatched \<longrightarrow> r \<in> set (fst (pruneDispatched days now t)))"
proof (intro conjI impI)
  assume d: "ev_status r = ODispatched"
  from assms(2) show "r \<in> set t' \<or> (\<exists>days now d. t' = fst (pruneDispatched days now t)
      \<and> ev_dispatchedAt r = Some d \<and> d < now - days * 86400000)"
  proof (cases rule: event_step.cases)
    case (written m now i inp r')
    then have "set t \<subseteq> set t'"
      by (auto simp: writeOutboxEvent_def insert_event_def Let_def split: option.splits if_splits)
    then show ?thesis using assms(3) by blast
  next
    case (lease q)
    have "ev_id r \<notin> ev_id ` set (outbox_selection q t)"
    proof
      assume "ev_id r \<in> ev_id ` set (outbox_selection q t)"
      then obtain s where s: "s \<in> set (outbox_selection q t)" "ev_id s = ev_id r" by auto
      then have "s \<in> set t" "ev_status s = OPending"
        using outbox_selection_sub [of q t] by (auto simp: event_due_def)
      moreover have "distinct (map ev_id t)"
        using event_reachable_ok [OF assms(1)] by (simp add: event_table_ok_def)
      ultimately have "s = r" using s(2) assms(3) by (metis distinct_key_unique)
      with \<open>ev_status s = OPending\<close> d show False by simp
    qed
    then show ?thesis
      using assms(3) lease by (auto simp: outbox_leaseBatch_def upd_returning_def set_upd)
  next
    case (prune days now)
    show ?thesis
    proof (cases "r \<in> set t'")
      case False
      then have "sql_true (sql_cmp (<) (ev_dispatchedAt r) (Some (now - days * 24 * 60 * 60 * 1000)))"
        using assms(3) prune by (simp add: pruneDispatched_def del_returning_def del_def Let_def)
      then obtain d where "ev_dispatchedAt r = Some d" "d < now - days * 86400000"
        by (cases "ev_dispatchedAt r") simp_all
      then show ?thesis using prune by blast
    qed simp
  next
    case (reap now)
    have "r \<in> set t'" unfolding reap reap_events_table
      by (intro dispatched_kept assms(3) d) (auto simp: event_lease_expired_def)
    then show ?thesis ..
  next
    case (requeue now i)
    have "r \<in> set t'" unfolding requeue requeue_event_def upd_returning_def split_beta fst_conv Let_def
      by (intro dispatched_kept assms(3) d) auto
    then show ?thesis ..
  next
    case (settle a i l)
    then show ?thesis using settle_event_keeps [OF assms(3) d] by simp
  qed
next
  assume "ev_status r \<noteq> ODispatched"
  then show "r \<in> set (fst (pruneDispatched days now t))"
    using assms(3) by (simp add: pruneDispatched_def del_returning_def del_def Let_def)
qed

definition old_event :: outbox_event where
  "old_event = (event_defaults 0 ''e1'')\<lparr>ev_dedupeKey := Some ''h'', ev_eventType := ''paid'',
     ev_aggregateType := ''commerce_job'', ev_aggregateId := ''c1''\<rparr>"

lemma old_event_reachable: "event_reachable [old_event]"
proof (rule event_reachable.step [OF event_reachable.start event_step.written])
  show "writeOutboxEvent 8 0 ''e1'' sample_input [] = Inr ([old_event], old_event)"
    by (simp add: writeOutboxEvent_def sample_input_def event_by_key_def insert_event_def
        old_event_def event_defaults_def)
qed

theorem dispatched_event_final_witness:
  "\<exists>r. event_reachable [r] \<and> ev_status r \<noteq> ODispatched \<and>
     r \<in> set (fst (pruneDispatched 7 99 [r]))"
  using dispatched_event_final [OF old_event_reachable event_step.prune [of _ 7 99],
      of old_event 7 99] old_event_reachable
  by (intro exI [of _ old_event]) (simp add: old_event_def event_defaults_def)

subsection \<open>Dispatching\<close>

lemma run_consumers_all: "snd (run_consumers cs e t) = None \<longleftrightarrow> (\<forall>c \<in> set cs. cr_threw (c e) = None)"
  by (induction cs arbitrary: t) (auto simp: Let_def split: option.splits)

lemma ack_event_won:
  assumes "ack_event now i l t = (t', Some r)"
  shows "\<exists>x \<in> set t'. ev_id x = i \<and> ev_status x = ODispatched \<and> ev_dispatchedAt x = Some now"
proof -
  have "\<exists>x \<in> set t. event_held i l x"
    using assms by (auto simp: ack_event_def upd_returning_def dest!: first_row_Some_in)
  then obtain x where x: "x \<in> set t" "event_held i l x" by blast
  define f where "f = (\<lambda>r. (drop_lease r)\<lparr>ev_status := ODispatched, ev_dispatchedAt := Some now,
      ev_updatedAt := now\<rparr>)"
  have "t' = upd (event_held i l) f t"
    using assms by (auto simp: ack_event_def upd_returning_def f_def)
  then have "f x \<in> set t'" using x by (auto simp: set_upd)
  then show ?thesis
    using x(2) by (intro bexI [of _ "f x"]) (simp_all add: f_def drop_lease_def event_held_def)
qed

text \<open>An event is counted as dispatched only after it was delivered: some consumer is registered for
  its type, every registered consumer ran without throwing, and the row is dispatched with the
  time of the acknowledgement.  When a consumer threw, or the type has none, processing never
  counts it as dispatched.\<close>

theorem dispatch_counts_delivered_only:
  assumes "dispatch_event m now u e (t, s) = (t', s')"
  shows "(ds_dispatched s' = ds_dispatched s \<or>
      (ds_dispatched s' = ds_dispatched s + 1 \<and> getConsumers (ev_eventType e) m \<noteq> [] \<and>
       (\<forall>c \<in> set (getConsumers (ev_eventType e) m). cr_threw (c e) = None) \<and>
       (\<exists>x \<in> set t'. ev_id x = ev_id e \<and> ev_status x = ODispatched \<and> ev_dispatchedAt x = Some now)))"
proof (cases "getConsumers (ev_eventType e) m = []")
  case True
  then show ?thesis using assms by (auto simp: dispatch_event_def Let_def)
next
  case False
  let ?cs = "getConsumers (ev_eventType e) m" and ?l = "the (ev_leaseId e)"
  obtain u' err where run: "run_consumers ?cs e t = (u', err)" by fastforce
  show ?thesis
  proof (cases err)
    case (Some x)
    then show ?thesis
      using assms False run
      by (auto simp: dispatch_event_def Let_def split_beta split: option.splits if_splits)
  next
    case None
    obtain t2 acked where ack: "ack_event now (ev_id e) ?l u' = (t2, acked)" by fastforce
    have "\<forall>c \<in> set ?cs. cr_threw (c e) = None"
      using run None run_consumers_all [of ?cs e t] by simp
    with assms False run None ack show ?thesis
      by (cases acked) (auto simp: dispatch_event_def Let_def dest!: ack_event_won)
  qed
qed

definition one_consumer :: consumers where
  "one_consumer = registerConsumer ''paid'' (\<lambda>e. \<lparr>cr_meanwhile = (\<lambda>t. t), cr_threw = None\<rparr>) Map.empty"

theorem dispatch_counts_delivered_only_witness:
  "ds_dispatched (snd (dispatch_event one_consumer 20 0 sample_event ([sample_event], no_dispatch))) = 1 \<and>
   (\<exists>x \<in> set (fst (dispatch_event one_consumer 20 0 sample_event ([sample_event], no_dispatch))).
      ev_status x = ODispatched)"
proof -
  have "ds_dispatched (snd (dispatch_event one_consumer 20 0 sample_event
      ([sample_event], no_dispatch))) = 1"
    by (simp add: dispatch_event_def one_consumer_def registerConsumer_def getConsumers_def
        sample_event_def event_defaults_def no_dispatch_def ack_event_def upd_returning_def
        event_held_def)
  then show ?thesis
    using dispatch_counts_delivered_only [OF prod.collapse [symmetric],
        of one_consumer 20 0 sample_event "[sample_event]" no_dispatch]
    by (auto simp: no_dispatch_def)
qed

text \<open>An event type without consumers does not dead-letter its events at once: a leased event with
  attempts left goes back to pending with a backoff of less than five minutes, and is counted as
  dead-lettered all the same.\<close>

theorem unconsumed_event_is_retried:
  assumes "getConsumers (ev_eventType e) m = []" "ev_leaseId e = Some l"
    and "distinct (map ev_id t)" "x \<in> set t" "event_held (ev_id e) l x"
    and "ev_attempts x < ev_maxAttempts x" "0 \<le> u" "u < 1"
    and "dispatch_event m now u e (t, s) = (t', s')"
  shows "ds_deadLettered s' = ds_deadLettered s + 1 \<and>
    (\<exists>y \<in> set t'. ev_id y = ev_id e \<and> ev_status y = OPending \<and> ev_leaseId y = None \<and>
       now \<le> ev_runAt y \<and> ev_runAt y < now + 5 * 60000)"
proof -
  have "filter (event_held (ev_id e) l) t = [x]"
    using assms(3-5) by (intro filter_key_single [of ev_id]) (auto simp: event_held_def)
  then have c: "sel_one (event_held (ev_id e) l) t = Some x"
    by (simp add: find_Some_first)
  define f where "f = (\<lambda>y. (drop_lease y)\<lparr>ev_status := OPending,
      ev_runAt := now + outbox_backoffMs (ev_attempts x) u,
      ev_lastError := Some (outbox_truncateError (no_consumer_error (ev_eventType e))),
      ev_updatedAt := now\<rparr>)"
  have "t' = upd (event_held (ev_id e) l) f t" "ds_deadLettered s' = ds_deadLettered s + 1"
    using assms(1,2,6,9) c
    by (auto simp: dispatch_event_def fail_event_def upd_returning_def f_def outbox_decideRetry_def
        Let_def)
  moreover have "f x \<in> set (upd (event_held (ev_id e) l) f t)"
    using assms(4,5) by (auto simp: set_upd)
  moreover have "0 \<le> outbox_backoffMs (ev_attempts x) u" "outbox_backoffMs (ev_attempts x) u < 5 * 60000"
    using outbox_jitter.delay_bounds [OF assms(7,8), of "ev_attempts x"]
      outbox_jitter.delay_below_cap [OF assms(7,8), of "ev_attempts x"] by (simp_all add: CAP_MS_def)
  ultimately show ?thesis
    using assms(5) by (intro conjI bexI [of _ "f x"]) (simp_all add: f_def drop_lease_def event_held_def)
qed

theorem unconsumed_event_is_retried_witness:
  "ds_deadLettered (snd (dispatch_event Map.empty 20 0 sample_event ([sample_event], no_dispatch))) = 1 \<and>
   (\<exists>y \<in> set (fst (dispatch_event Map.empty 20 0 sample_event ([sample_event], no_dispatch))).
      ev_status y = OPending)"
  using unconsumed_event_is_retried [OF _ _ _ _ _ _ _ _ prod.collapse [symmetric],
      of sample_event Map.empty "''l1''" "[sample_event]" sample_event 0 20 no_dispatch]
  by (auto simp: sample_event_def getConsumers_def event_held_def no_dispatch_def event_defaults_def)

end
