(* ===== verification/Reconciler.thy ===== *)
theory Reconciler
  imports Prelude
begin

text \<open>
  The transaction finality reconciler, web/src/lib/reconciler: types (types.ts), the Horizon
  answers as the poller normalises them (horizon.ts), the pure state machine
  (state-machine.ts), the repair of the originating row (repair.ts), and the scheduler's
  processing of one record and registration of a transaction (scheduler.ts).

  Horizon and its SDK are outside the repository: a definition that polls takes the reply as
  an argument.  Of the repaired tables the model keeps the columns the repair reads or writes.
\<close>

section \<open>Data\<close>

datatype finality_status = PENDING | CONFIRMING | CONFIRMED | FAILED | EXPIRED | NOT_FOUND

definition ACTIVE_STATES :: "finality_status list" where
  "ACTIVE_STATES = [PENDING, CONFIRMING]"

definition TERMINAL_STATES :: "finality_status list" where
  "TERMINAL_STATES = [CONFIRMED, FAILED, EXPIRED, NOT_FOUND]"

datatype tx_source = CommerceJob | TokenPurchase | OtherSource

record tx_record =
  tx_id :: string
  tx_hash :: string
  tx_sourceType :: tx_source
  tx_sourceId :: "string option"
  tx_finalityStatus :: finality_status
  tx_ledgerSubmitted :: "int option"
  tx_lastLedgerChecked :: "int option"
  tx_confirmedLedger :: "int option"
  tx_pollCount :: int
  tx_lastError :: "string option"
  tx_repairApplied :: bool
  tx_expiresAt :: "instant option"
  tx_createdAt :: instant
  tx_updatedAt :: instant

datatype poll_result =
    PollConfirmed int
  | PollFailed int "string option"
  | PollNotFound
  | PollError string bool  \<comment> \<open>message, retryable\<close>

text \<open>A field an update leaves out is \<open>None\<close>; \<open>lastError\<close> may be set to null.\<close>

record tx_update =
  tu_finalityStatus :: "finality_status option"
  tu_lastLedgerChecked :: "int option"
  tu_confirmedLedger :: "int option"
  tu_pollCount :: "int option"
  tu_lastError :: "string option option"
  tu_updatedAt :: "instant option"

definition no_update :: tx_update where
  "no_update = \<lparr>tu_finalityStatus = None, tu_lastLedgerChecked = None, tu_confirmedLedger = None,
     tu_pollCount = None, tu_lastError = None, tu_updatedAt = None\<rparr>"

record reconciler_config =
  enabled :: bool
  pollIntervalMs :: int
  maxLedgerGap :: int
  notFoundThreshold :: int
  batchSize :: int
  confirmationDepth :: int
  concurrencyLimit :: "int option"

section \<open>Polling\<close>

text \<open>What the SDK call gave: the transaction with its ledger and success flag and, when the
  response carries one, its result code; or a thrown error with its HTTP status, if any.\<close>

datatype horizon_reply =
    HorizonTx int bool "string option"
  | HorizonThrew "int option" string

definition extractResultCode :: "string option \<Rightarrow> string" where
  "extractResultCode code = coalesce code ''tx_failed''"

fun pollTransaction :: "horizon_reply \<Rightarrow> poll_result" where
  "pollTransaction (HorizonTx ledger successful code) =
     (if successful then PollConfirmed ledger
      else PollFailed ledger (Some (extractResultCode code)))"
| "pollTransaction (HorizonThrew httpStatus message) =
     (if httpStatus = Some 404 then PollNotFound
      else PollError message
        (case httpStatus of None \<Rightarrow> True | Some s \<Rightarrow> s = 429 \<or> s \<ge> 500))"

section \<open>State machine\<close>

definition isTerminal :: "tx_record \<Rightarrow> bool" where
  "isTerminal r \<longleftrightarrow> tx_finalityStatus r \<in> set TERMINAL_STATES"

definition isWallClockExpired :: "tx_record \<Rightarrow> instant \<Rightarrow> bool" where
  "isWallClockExpired r now = (case tx_expiresAt r of None \<Rightarrow> False | Some e \<Rightarrow> now \<ge> e)"

text \<open>\<open>!record.ledgerSubmitted\<close> holds of null and of 0.\<close>

definition isLedgerExpired :: "tx_record \<Rightarrow> int \<Rightarrow> int \<Rightarrow> bool" where
  "isLedgerExpired r currentLedger gap =
     (case tx_ledgerSubmitted r of
        None \<Rightarrow> False
      | Some s \<Rightarrow> if s = 0 then False else currentLedger > s + gap)"

definition option_string :: "int option \<Rightarrow> string" where
  "option_string n = (case n of None \<Rightarrow> ''null'' | Some i \<Rightarrow> int_string i)"

definition transitionFromPending ::
  "tx_record \<Rightarrow> poll_result \<Rightarrow> int \<Rightarrow> reconciler_config \<Rightarrow> instant \<Rightarrow> tx_update option" where
  "transitionFromPending r p currentLedger cfg now =
     (if tx_finalityStatus r \<noteq> PENDING then None
      else if isWallClockExpired r now
      then Some (no_update\<lparr>tu_finalityStatus := Some EXPIRED,
             tu_lastLedgerChecked := Some currentLedger,
             tu_lastError := Some (Some ''Wall-clock expiry exceeded''),
             tu_pollCount := Some (tx_pollCount r + 1), tu_updatedAt := Some now\<rparr>)
      else if isLedgerExpired r currentLedger (maxLedgerGap cfg)
      then Some (no_update\<lparr>tu_finalityStatus := Some EXPIRED,
             tu_lastLedgerChecked := Some currentLedger,
             tu_lastError := Some (Some (''Ledger gap exceeded: current='' @ int_string currentLedger
                @ '', submitted='' @ option_string (tx_ledgerSubmitted r)
                @ '', max='' @ int_string (maxLedgerGap cfg))),
             tu_pollCount := Some (tx_pollCount r + 1), tu_updatedAt := Some now\<rparr>)
      else (case p of
          PollConfirmed ledger \<Rightarrow>
            Some (no_update\<lparr>tu_finalityStatus := Some CONFIRMING,
              tu_lastLedgerChecked := Some currentLedger, tu_confirmedLedger := Some ledger,
              tu_lastError := Some None, tu_pollCount := Some (tx_pollCount r + 1),
              tu_updatedAt := Some now\<rparr>)
        | PollFailed ledger detail \<Rightarrow>
            Some (no_update\<lparr>tu_finalityStatus := Some FAILED,
              tu_lastLedgerChecked := Some currentLedger, tu_confirmedLedger := Some ledger,
              tu_lastError := Some (Some (coalesce detail ''Transaction unsuccessful on-chain'')),
              tu_pollCount := Some (tx_pollCount r + 1), tu_updatedAt := Some now\<rparr>)
        | PollNotFound \<Rightarrow>
            (let newPollCount = tx_pollCount r + 1
             in if newPollCount \<ge> notFoundThreshold cfg
                then Some (no_update\<lparr>tu_finalityStatus := Some NOT_FOUND,
                  tu_lastLedgerChecked := Some currentLedger,
                  tu_lastError := Some (Some (''NOT_FOUND after '' @ int_string newPollCount @ '' polls'')),
                  tu_pollCount := Some newPollCount, tu_updatedAt := Some now\<rparr>)
                else Some (no_update\<lparr>tu_lastLedgerChecked := Some currentLedger,
                  tu_pollCount := Some newPollCount, tu_updatedAt := Some now\<rparr>))
        | PollError message retryable \<Rightarrow>
            Some (no_update\<lparr>tu_lastLedgerChecked := Some currentLedger,
              tu_lastError := Some (Some message), tu_pollCount := Some (tx_pollCount r + 1),
              tu_updatedAt := Some now\<rparr>)))"

definition transitionFromConfirming ::
  "tx_record \<Rightarrow> int \<Rightarrow> reconciler_config \<Rightarrow> instant \<Rightarrow> tx_update option" where
  "transitionFromConfirming r currentLedger cfg now =
     (if tx_finalityStatus r \<noteq> CONFIRMING then None
      else if isWallClockExpired r now
      then Some (no_update\<lparr>tu_finalityStatus := Some EXPIRED,
             tu_lastLedgerChecked := Some currentLedger,
             tu_lastError := Some (Some ''Confirmation window expired (wall-clock)''),
             tu_updatedAt := Some now\<rparr>)
      else if truthy_int (tx_ledgerSubmitted r) \<and> isLedgerExpired r currentLedger (maxLedgerGap cfg)
      then Some (no_update\<lparr>tu_finalityStatus := Some EXPIRED,
             tu_lastLedgerChecked := Some currentLedger,
             tu_lastError := Some (Some (''Confirmation ledger gap exceeded: current=''
                @ int_string currentLedger)),
             tu_updatedAt := Some now\<rparr>)
      else if (case tx_confirmedLedger r of None \<Rightarrow> False
               | Some c \<Rightarrow> currentLedger \<ge> c + confirmationDepth cfg)
      then Some (no_update\<lparr>tu_finalityStatus := Some CONFIRMED,
             tu_lastLedgerChecked := Some currentLedger, tu_lastError := Some None,
             tu_updatedAt := Some now\<rparr>)
      else Some (no_update\<lparr>tu_lastLedgerChecked := Some currentLedger, tu_updatedAt := Some now\<rparr>))"

definition computeTransition ::
  "tx_record \<Rightarrow> poll_result option \<Rightarrow> int \<Rightarrow> reconciler_config \<Rightarrow> instant \<Rightarrow> tx_update option" where
  "computeTransition r p currentLedger cfg now =
     (if isTerminal r then None
      else case tx_finalityStatus r of
        PENDING \<Rightarrow> (case p of None \<Rightarrow> None
                     | Some result \<Rightarrow> transitionFromPending r result currentLedger cfg now)
      | CONFIRMING \<Rightarrow> transitionFromConfirming r currentLedger cfg now
      | _ \<Rightarrow> None)"

definition needsRepair :: "tx_record \<Rightarrow> bool" where
  "needsRepair r \<longleftrightarrow> \<not> tx_repairApplied r \<and> tx_finalityStatus r \<in> set TERMINAL_STATES"

fun allowed_next :: "finality_status \<Rightarrow> finality_status list" where
  "allowed_next PENDING = [CONFIRMING, FAILED, EXPIRED, NOT_FOUND]"
| "allowed_next CONFIRMING = [CONFIRMED, FAILED, EXPIRED]"
| "allowed_next _ = []"

datatype transition_error = LeavesTerminal finality_status | IllegalTransition finality_status finality_status

definition validateTransition :: "finality_status \<Rightarrow> finality_status \<Rightarrow> transition_error option" where
  "validateTransition src dst =
     (if src = dst then None
      else if src \<in> set TERMINAL_STATES then Some (LeavesTerminal src)
      else if dst \<notin> set (allowed_next src) then Some (IllegalTransition src dst)
      else None)"

section \<open>Repair\<close>

record commerce_job =
  cj_id :: string
  cj_status :: string
  cj_updatedAt :: instant

record token_purchase =
  tp_txHash :: string
  tp_status :: string
  tp_updatedAt :: instant

record recon_db =
  db_txs :: "tx_record list"
  db_jobs :: "commerce_job list"
  db_purchases :: "token_purchase list"

text \<open>\<open>{ok: true, repaired}\<close> and \<open>{ok: false, error}\<close>; the detail text of an ok outcome only
  goes to the log.\<close>

datatype repair_outcome = RepairOk bool | RepairError string

text \<open>\<open>fault\<close> is what the database call throws, if it does; a statement that throws has no
  effect.\<close>

definition job_status_for :: "finality_status \<Rightarrow> string option" where
  "job_status_for s = (case s of FAILED \<Rightarrow> Some ''payment_failed''
     | EXPIRED \<Rightarrow> Some ''payment_expired'' | NOT_FOUND \<Rightarrow> Some ''payment_not_found'' | _ \<Rightarrow> None)"

definition repairCommerceJob ::
  "thrown option \<Rightarrow> instant \<Rightarrow> tx_record \<Rightarrow> recon_db \<Rightarrow> recon_db \<times> repair_outcome" where
  "repairCommerceJob fault now r d =
     (if \<not> truthy_str (tx_sourceId r) then (d, RepairOk False)
      else if tx_finalityStatus r = CONFIRMED then (d, RepairOk True)
      else case job_status_for (tx_finalityStatus r) of
        None \<Rightarrow> (d, RepairOk False)
      | Some newJobStatus \<Rightarrow>
          (case fault of
             Some err \<Rightarrow> (d, RepairError (thrown_message err))
           | None \<Rightarrow>
               (let (jobs, updated) = upd_returning
                      (\<lambda>j. Some (cj_id j) = tx_sourceId r \<and> cj_status j = ''pending'')
                      (\<lambda>j. j\<lparr>cj_status := newJobStatus, cj_updatedAt := now\<rparr>) (db_jobs d)
                in (d\<lparr>db_jobs := jobs\<rparr>, RepairOk (updated \<noteq> [])))))"

definition repairTokenPurchase ::
  "thrown option \<Rightarrow> instant \<Rightarrow> tx_record \<Rightarrow> recon_db \<Rightarrow> recon_db \<times> repair_outcome" where
  "repairTokenPurchase fault now r d =
     (let txHash = coalesce (tx_sourceId r) (tx_hash r)
      in case fault of
           Some err \<Rightarrow> (d, RepairError (thrown_message err))
         | None \<Rightarrow>
             if tx_finalityStatus r = CONFIRMED
             then (case sel_one (\<lambda>p. tp_txHash p = txHash) (db_purchases d) of
                 None \<Rightarrow> (d, RepairOk False)
               | Some existing \<Rightarrow>
                   (d, RepairOk (tp_status existing \<noteq> ''pending'')))
             else (let (ps, updated) = upd_returning
                      (\<lambda>p. tp_txHash p = txHash \<and> tp_status p = ''pending'')
                      (\<lambda>p. p\<lparr>tp_status := ''failed'', tp_updatedAt := now\<rparr>) (db_purchases d)
                   in (d\<lparr>db_purchases := ps\<rparr>, RepairOk (updated \<noteq> []))))"

definition applyRepair ::
  "thrown option \<Rightarrow> instant \<Rightarrow> tx_record \<Rightarrow> recon_db \<Rightarrow> recon_db \<times> repair_outcome" where
  "applyRepair fault now r d =
     (case tx_sourceType r of
        CommerceJob \<Rightarrow> repairCommerceJob fault now r d
      | TokenPurchase \<Rightarrow> repairTokenPurchase fault now r d
      | OtherSource \<Rightarrow> (d, RepairOk False))"

section \<open>Processing one record\<close>

record tick_summary =
  ts_processed :: nat
  ts_confirmed :: nat
  ts_failed :: nat
  ts_expired :: nat
  ts_notFound :: nat
  ts_repairsApplied :: nat
  ts_errors :: nat

text \<open>The process-wide counters of ReconcilerStats move with the tick's counters; only the
  tick's are modelled.\<close>

definition count_status :: "finality_status \<Rightarrow> tick_summary \<Rightarrow> tick_summary" where
  "count_status st s = (case st of
       CONFIRMED \<Rightarrow> s\<lparr>ts_confirmed := ts_confirmed s + 1\<rparr>
     | FAILED \<Rightarrow> s\<lparr>ts_failed := ts_failed s + 1\<rparr>
     | EXPIRED \<Rightarrow> s\<lparr>ts_expired := ts_expired s + 1\<rparr>
     | NOT_FOUND \<Rightarrow> s\<lparr>ts_notFound := ts_notFound s + 1\<rparr>
     | _ \<Rightarrow> s)"

definition count_error :: "tick_summary \<Rightarrow> tick_summary" where
  "count_error s = s\<lparr>ts_errors := ts_errors s + 1\<rparr>"

text \<open>The UPDATE that persists a transition writes every column from the update or else from
  the record as it was loaded.\<close>

definition persist_update :: "tx_record \<Rightarrow> tx_update \<Rightarrow> instant \<Rightarrow> tx_record \<Rightarrow> tx_record" where
  "persist_update r u now row = row
     \<lparr>tx_finalityStatus := coalesce (tu_finalityStatus u) (tx_finalityStatus r),
      tx_lastLedgerChecked := (case tu_lastLedgerChecked u of None \<Rightarrow> tx_lastLedgerChecked r | v \<Rightarrow> v),
      tx_confirmedLedger := (case tu_confirmedLedger u of None \<Rightarrow> tx_confirmedLedger r | v \<Rightarrow> v),
      tx_pollCount := coalesce (tu_pollCount u) (tx_pollCount r),
      tx_lastError := coalesce (tu_lastError u) (tx_lastError r),
      tx_updatedAt := coalesce (tu_updatedAt u) now\<rparr>"

definition updated_record :: "tx_record \<Rightarrow> tx_update \<Rightarrow> tx_record" where
  "updated_record r u = r
     \<lparr>tx_finalityStatus := coalesce (tu_finalityStatus u) (tx_finalityStatus r),
      tx_confirmedLedger := (case tu_confirmedLedger u of None \<Rightarrow> tx_confirmedLedger r | v \<Rightarrow> v)\<rparr>"

text \<open>What one call meets: Horizon's reply, the clock, the abort signal at each of the five
  places that test it, and the faults of its three database calls.\<close>

record process_env =
  pe_reply :: horizon_reply
  pe_now :: instant
  pe_later :: instant  \<comment> \<open>the clock at the repair\<close>
  pe_aborted :: "nat \<Rightarrow> bool"
  pe_persistFails :: bool
  pe_repairFault :: "thrown option"
  pe_flagFails :: bool

definition mark_repaired :: "instant \<Rightarrow> string \<Rightarrow> recon_db \<Rightarrow> recon_db" where
  "mark_repaired now i d = d\<lparr>db_txs := upd (\<lambda>row. tx_id row = i)
     (\<lambda>row. row\<lparr>tx_repairApplied := True, tx_updatedAt := now\<rparr>) (db_txs d)\<rparr>"

definition process_repair ::
  "process_env \<Rightarrow> tx_record \<Rightarrow> recon_db \<times> tick_summary \<Rightarrow> recon_db \<times> tick_summary" where
  "process_repair env r st =
     (let (d, s) = st
      in if \<not> needsRepair r then (d, s)
         else (let (d', outcome) = applyRepair (pe_repairFault env) (pe_later env) r d
               in if pe_aborted env 4 then (d', s)
                  else (case outcome of
                      RepairError _ \<Rightarrow> (d', count_error s)
                    | RepairOk repaired \<Rightarrow>
                        if pe_flagFails env then (d', count_error s)
                        else (mark_repaired (pe_later env) (tx_id r) d',
                              if repaired then s\<lparr>ts_repairsApplied := ts_repairsApplied s + 1\<rparr>
                              else s))))"

definition processRecord ::
  "reconciler_config \<Rightarrow> int \<Rightarrow> process_env \<Rightarrow> tx_record \<Rightarrow> recon_db \<times> tick_summary
     \<Rightarrow> recon_db \<times> tick_summary" where
  "processRecord cfg currentLedger env r st =
     (let (d, s) = st
      in if pe_aborted env 0 then (d, s)
         else
           let pollResult = (if tx_finalityStatus r = PENDING
                             then Some (pollTransaction (pe_reply env)) else None)
           in if pe_aborted env 1 then (d, s)
              else case computeTransition r pollResult currentLedger cfg (pe_now env) of
                None \<Rightarrow> (d, s)
              | Some u \<Rightarrow>
                  if (case tu_finalityStatus u of None \<Rightarrow> False
                      | Some dst \<Rightarrow> dst \<noteq> tx_finalityStatus r
                                    \<and> validateTransition (tx_finalityStatus r) dst \<noteq> None)
                  then (d, count_error s)
                  else if pe_aborted env 2 then (d, s)
                  else if pe_persistFails env then (d, count_error s)
                  else
                    let d1 = d\<lparr>db_txs := upd (\<lambda>row. tx_id row = tx_id r)
                               (persist_update r u (pe_now env)) (db_txs d)\<rparr>;
                        s1 = count_status (coalesce (tu_finalityStatus u) (tx_finalityStatus r)) s
                    in if pe_aborted env 3 then (d1, s1)
                       else process_repair env (updated_record r u) (d1, s1))"

section \<open>The batch of a tick, and registration\<close>

definition load_batch :: "reconciler_config \<Rightarrow> tx_record list \<Rightarrow> tx_record list" where
  "load_batch cfg t = take (nat (batchSize cfg))
     (sort_key tx_updatedAt (sel (\<lambda>r. tx_finalityStatus r \<in> set ACTIVE_STATES) t))"

record register_options =
  ro_txHash :: string
  ro_sourceType :: tx_source
  ro_sourceId :: "string option"
  ro_ledgerSubmitted :: "int option"
  ro_expiresAt :: "instant option"

text \<open>The unique index on tx_hash (and the primary key) can reject the INSERT.\<close>

datatype register_error = TxConflict

definition registerTx ::
  "instant \<Rightarrow> string \<Rightarrow> register_options \<Rightarrow> tx_record list \<Rightarrow> register_error + (tx_record list \<times> string)" where
  "registerTx now newId opts t =
     (case sel_one (\<lambda>r. tx_hash r = ro_txHash opts) t of
        Some existing \<Rightarrow> Inr (t, tx_id existing)
      | None \<Rightarrow>
          if list_ex (\<lambda>r. tx_id r = newId) t then Inl TxConflict
          else Inr (t @ [\<lparr>tx_id = newId, tx_hash = ro_txHash opts, tx_sourceType = ro_sourceType opts,
                  tx_sourceId = ro_sourceId opts, tx_finalityStatus = PENDING,
                  tx_ledgerSubmitted = ro_ledgerSubmitted opts, tx_lastLedgerChecked = None,
                  tx_confirmedLedger = None, tx_pollCount = 0, tx_lastError = None,
                  tx_repairApplied = False,
                  tx_expiresAt = Some (coalesce (ro_expiresAt opts) (now + 60 * 60 * 1000)),
                  tx_createdAt = now, tx_updatedAt = now\<rparr>], newId))"

end
