(* ===== verification/Reconciler_Facts.thy ===== *)
theory Reconciler_Facts
  imports Reconciler Dedupe
begin

text \<open>
  What the reconciler guarantees: every computed transition is legal and terminal states
  absorb, polling of a missing transaction ends, a record is repaired at most once, and
  registration is idempotent; and where its bookkeeping departs from its comments.
\<close>

section \<open>The order of the finality states\<close>

fun status_rank :: "finality_status \<Rightarrow> nat" where
  "status_rank PENDING = 0"
| "status_rank CONFIRMING = 1"
| "status_rank CONFIRMED = 2"
| "status_rank FAILED = 3"
| "status_rank EXPIRED = 4"
| "status_rank NOT_FOUND = 5"

lemma status_rank_inj: "status_rank a = status_rank b \<Longrightarrow> a = b"
  by (cases a; cases b) simp_all

instantiation finality_status :: linorder
begin

definition less_eq_finality_status :: "finality_status \<Rightarrow> finality_status \<Rightarrow> bool" where
  "a \<le> b \<longleftrightarrow> status_rank a \<le> status_rank b"

definition less_finality_status :: "finality_status \<Rightarrow> finality_status \<Rightarrow> bool" where
  "a < b \<longleftrightarrow> status_rank a < status_rank b"

instance
  by standard
     (auto simp: less_eq_finality_status_def less_finality_status_def intro: status_rank_inj)

end

lemma terminal_states [simp]:
  "s \<in> set TERMINAL_STATES \<longleftrightarrow> s \<notin> {PENDING, CONFIRMING}"
  "s \<in> set ACTIVE_STATES \<longleftrightarrow> s \<in> {PENDING, CONFIRMING}"
  by (cases s; simp add: TERMINAL_STATES_def ACTIVE_STATES_def)+

lemma validate_progress:
  "validateTransition a b = None \<longleftrightarrow> a = b \<or> b \<in> set (allowed_next a)"
  by (cases a; cases b) (simp_all add: validateTransition_def)

lemma allowed_next_less: "b \<in> set (allowed_next a) \<Longrightarrow> a < b"
  by (cases a; cases b) (simp_all add: less_finality_status_def)

lemma no_update_simps [simp]:
  "tu_finalityStatus no_update = None" "tu_lastLedgerChecked no_update = None"
  "tu_confirmedLedger no_update = None" "tu_pollCount no_update = None"
  "tu_lastError no_update = None" "tu_updatedAt no_update = None"
  by (simp_all add: no_update_def)

section \<open>Transitions\<close>

lemmas transition_defs =
  computeTransition_def transitionFromPending_def transitionFromConfirming_def isTerminal_def

lemma computed_status:
  assumes "computeTransition r p cl cfg now = Some u" "tu_finalityStatus u = Some s"
  shows "s \<in> set (allowed_next (tx_finalityStatus r))"
  using assms
  by (cases "tx_finalityStatus r")
     (auto simp: transition_defs Let_def split: option.splits if_splits poll_result.splits)

text \<open>Whatever Horizon answers, a computed transition is legal and moves forward: it never leaves a
  terminal state, passes validateTransition (so the scheduler's invalid-transition branch is
  never taken), and the new state is strictly later than the old one.  A record is confirmed only
  from CONFIRMING, unexpired, and at least the configured depth above the ledger it was seen in.\<close>

theorem computed_transition_legal:
  assumes "computeTransition r p currentLedger cfg now = Some u"
  shows "\<not> isTerminal r \<and> (\<forall>s. tu_finalityStatus u = Some s \<longrightarrow>
      validateTransition (tx_finalityStatus r) s = None \<and> tx_finalityStatus r < s) \<and>
    (tu_finalityStatus u = Some CONFIRMED \<longrightarrow> tx_finalityStatus r = CONFIRMING \<and>
      \<not> isWallClockExpired r now \<and>
      (\<exists>c. tx_confirmedLedger r = Some c \<and> c + confirmationDepth cfg \<le> currentLedger))"
proof (intro conjI)
  show "\<not> isTerminal r" using assms by (simp add: computeTransition_def split: if_splits)
  show "\<forall>s. tu_finalityStatus u = Some s \<longrightarrow>
      validateTransition (tx_finalityStatus r) s = None \<and> tx_finalityStatus r < s"
    using computed_status [OF assms] by (auto simp: validate_progress allowed_next_less)
  show "tu_finalityStatus u = Some CONFIRMED \<longrightarrow> tx_finalityStatus r = CONFIRMING \<and>
      \<not> isWallClockExpired r now \<and>
      (\<exists>c. tx_confirmedLedger r = Some c \<and> c + confirmationDepth cfg \<le> currentLedger)"
    using assms
    by (cases "tx_finalityStatus r")
       (auto simp: transition_defs Let_def no_update_def split: option.splits if_splits poll_result.splits)
qed

definition sample_tx :: tx_record where
  "sample_tx = \<lparr>tx_id = ''t1'', tx_hash = ''h1'', tx_sourceType = CommerceJob,
     tx_sourceId = Some ''c1'', tx_finalityStatus = PENDING, tx_ledgerSubmitted = Some 100,
     tx_lastLedgerChecked = None, tx_confirmedLedger = None, tx_pollCount = 0, tx_lastError = None,
     tx_repairApplied = False, tx_expiresAt = Some 5000, tx_createdAt = 0, tx_updatedAt = 0\<rparr>"

definition sample_config :: reconciler_config where
  "sample_config = \<lparr>enabled = True, pollIntervalMs = 30000, maxLedgerGap = 120,
     notFoundThreshold = 10, batchSize = 50, confirmationDepth = 1, concurrencyLimit = Some 5\<rparr>"

theorem computed_transition_legal_witness:
  "\<exists>u. computeTransition sample_tx (Some (PollConfirmed 101)) 101 sample_config 10 = Some u \<and>
     tu_finalityStatus u = Some CONFIRMING \<and> validateTransition PENDING CONFIRMING = None \<and>
     PENDING < CONFIRMING"
proof -
  obtain u where u: "computeTransition sample_tx (Some (PollConfirmed 101)) 101 sample_config 10 = Some u"
    "tu_finalityStatus u = Some CONFIRMING"
    by (simp add: transition_defs sample_tx_def sample_config_def isWallClockExpired_def
        isLedgerExpired_def TERMINAL_STATES_def)
  show ?thesis
    using computed_transition_legal [OF u(1)] u by (auto simp: sample_tx_def)
qed

section \<open>Polling ends\<close>

text \<open>A record polled over and over: each poll's update is applied to it, with the replies and
  clock readings given.\<close>

definition apply_update :: "tx_record \<Rightarrow> tx_update \<Rightarrow> instant \<Rightarrow> tx_record" where
  "apply_update r u now = persist_update r u now r"

fun poll_all :: "reconciler_config \<Rightarrow> int \<Rightarrow> (poll_result \<times> instant) list \<Rightarrow> tx_record \<Rightarrow> tx_record" where
  "poll_all cfg cl [] r = r"
| "poll_all cfg cl ((p, now) # ps) r =
     (case computeTransition r (Some p) cl cfg now of
        None \<Rightarrow> poll_all cfg cl ps r
      | Some u \<Rightarrow> poll_all cfg cl ps (apply_update r u now))"

lemma terminal_poll_all: "isTerminal r \<Longrightarrow> poll_all cfg cl ps r = r"
  by (induction cfg cl ps r rule: poll_all.induct) (simp_all add: computeTransition_def)

lemma pending_poll_step:
  assumes "tx_finalityStatus r = PENDING"
  obtains u where "computeTransition r (Some p) cl cfg now = Some u"
    "tx_pollCount (apply_update r u now) = tx_pollCount r + 1"
    "p = PollNotFound \<Longrightarrow> tx_pollCount r + 1 \<ge> notFoundThreshold cfg \<Longrightarrow> isTerminal (apply_update r u now)"
    "p = PollNotFound \<Longrightarrow> tx_finalityStatus (apply_update r u now) \<noteq> CONFIRMING"
    "tx_expiresAt (apply_update r u now) = tx_expiresAt r"
    "isWallClockExpired r now \<Longrightarrow> tx_finalityStatus (apply_update r u now) = EXPIRED"
proof -
  have "\<exists>u. computeTransition r (Some p) cl cfg now = Some u \<and> tu_pollCount u = Some (tx_pollCount r + 1) \<and>
      (p = PollNotFound \<longrightarrow> tx_pollCount r + 1 \<ge> notFoundThreshold cfg \<longrightarrow>
         tu_finalityStatus u \<in> {Some EXPIRED, Some NOT_FOUND}) \<and>
      (p = PollNotFound \<longrightarrow> tu_finalityStatus u \<noteq> Some CONFIRMING) \<and>
      (isWallClockExpired r now \<longrightarrow> tu_finalityStatus u = Some EXPIRED)"
    using assms by (cases p) (auto simp: transition_defs Let_def)
  then obtain u where "computeTransition r (Some p) cl cfg now = Some u"
      "tu_pollCount u = Some (tx_pollCount r + 1)"
      "p = PollNotFound \<longrightarrow> tx_pollCount r + 1 \<ge> notFoundThreshold cfg \<longrightarrow>
         tu_finalityStatus u \<in> {Some EXPIRED, Some NOT_FOUND}"
      "p = PollNotFound \<longrightarrow> tu_finalityStatus u \<noteq> Some CONFIRMING"
      "isWallClockExpired r now \<longrightarrow> tu_finalityStatus u = Some EXPIRED" by blast
  then show ?thesis
    using assms by (intro that [of u])
       (auto simp: apply_update_def persist_update_def isTerminal_def coalesce_def split: option.splits)
qed

lemma missing_poll_all:
  assumes "tx_finalityStatus r = PENDING" "ps \<noteq> []"
    and "tx_pollCount r + int (length ps) \<ge> notFoundThreshold cfg"
  shows "isTerminal (poll_all cfg cl (map (Pair PollNotFound) ps) r)"
  using assms
proof (induction ps arbitrary: r)
  case Nil
  then show ?case by simp
next
  case (Cons now ps)
  obtain u where u: "computeTransition r (Some PollNotFound) cl cfg now = Some u"
    "tx_pollCount (apply_update r u now) = tx_pollCount r + 1"
    "tx_pollCount r + 1 \<ge> notFoundThreshold cfg \<Longrightarrow> isTerminal (apply_update r u now)"
    "tx_finalityStatus (apply_update r u now) \<noteq> CONFIRMING"
    by (rule pending_poll_step [OF Cons.prems(1), of PollNotFound cl cfg now]) blast
  show ?case
  proof (cases "isTerminal (apply_update r u now)")
    case True
    then show ?thesis by (simp add: u(1) terminal_poll_all)
  next
    case False
    then have "tx_finalityStatus (apply_update r u now) = PENDING"
      using u(4) by (simp add: isTerminal_def)
    moreover have "ps \<noteq> []" using False u(3) Cons.prems(3) by auto
    ultimately show ?thesis
      using Cons.IH [of "apply_update r u now"] Cons.prems(3) u(1,2) by simp
  qed
qed

text \<open>C39.
  A transaction Horizon does not know is given up: after as many not-found polls as the
  threshold leaves (and at least one) a pending record is in a terminal state, whatever the
  ledgers and the clock; and one poll at or after its expiry ends any pending record.\<close>

theorem missing_transaction_ends:
  assumes "tx_finalityStatus r = PENDING" "ps \<noteq> []"
    and "int (length ps) \<ge> notFoundThreshold cfg - tx_pollCount r"
  shows "isTerminal (poll_all cfg currentLedger (map (Pair PollNotFound) ps) r) \<and>
    (isWallClockExpired r now \<longrightarrow>
       tx_finalityStatus (poll_all cfg currentLedger [(p, now)] r) = EXPIRED)"
proof (intro conjI impI)
  show "isTerminal (poll_all cfg currentLedger (map (Pair PollNotFound) ps) r)"
    using assms by (intro missing_poll_all) simp_all
  assume "isWallClockExpired r now"
  then show "tx_finalityStatus (poll_all cfg currentLedger [(p, now)] r) = EXPIRED"
    by (rule_tac pending_poll_step [OF assms(1), of p currentLedger cfg now]) simp
qed

theorem missing_transaction_ends_witness:
  "isTerminal (poll_all sample_config 101 (map (Pair PollNotFound) [1, 2, 3, 4, 5, 6, 7, 8, 9, 10])
     sample_tx) \<and>
   tx_finalityStatus (poll_all sample_config 101 [(PollConfirmed 101, 6000)] sample_tx) = EXPIRED"
  using missing_transaction_ends [of sample_tx "[1, 2, 3, 4, 5, 6, 7, 8, 9, 10]" sample_config 101
      6000 "PollConfirmed 101"]
  by (simp add: sample_tx_def sample_config_def isWallClockExpired_def)


section \<open>What is counted as not found\<close>

text \<open>The not-found threshold does not count consecutive not-found replies: a record that Horizon
  answered with any errors at all for \<open>threshold - 1\<close> polls becomes NOT_FOUND at the first
  not-found reply.\<close>

theorem not_found_counts_errors:
  assumes "tx_finalityStatus r = PENDING" "tx_expiresAt r = None" "tx_ledgerSubmitted r = None"
    and "tx_pollCount r = 0" "int (length errs) = notFoundThreshold cfg - 1"
  shows "tx_finalityStatus
    (poll_all cfg cl (map (\<lambda>(m, b, now). (PollError m b, now)) errs @ [(PollNotFound, now)]) r)
    = NOT_FOUND"
proof -
  have errors: "tx_finalityStatus (poll_all cfg cl
      (map (\<lambda>(m, b, now). (PollError m b, now)) es @ [(PollNotFound, now)]) x) = NOT_FOUND"
    if "tx_finalityStatus x = PENDING" "tx_expiresAt x = None" "tx_ledgerSubmitted x = None"
      "tx_pollCount x + int (length es) = notFoundThreshold cfg - 1" for es x
    using that
  proof (induction es arbitrary: x)
    case Nil
    then show ?case
      by (simp add: transition_defs isWallClockExpired_def isLedgerExpired_def apply_update_def
          persist_update_def Let_def)
  next
    case (Cons e es)
    then show ?case
      by (cases e)
         (simp add: transition_defs isWallClockExpired_def isLedgerExpired_def apply_update_def
            persist_update_def)
  qed
  show ?thesis using assms by (intro errors) simp_all
qed

theorem not_found_counts_errors_witness:
  "tx_finalityStatus (poll_all (sample_config\<lparr>notFoundThreshold := 3\<rparr>) 101
     [(PollError ''503'' True, 1), (PollError ''503'' True, 2), (PollNotFound, 3)]
     (sample_tx\<lparr>tx_expiresAt := None, tx_ledgerSubmitted := None\<rparr>)) = NOT_FOUND"
  using not_found_counts_errors [of "sample_tx\<lparr>tx_expiresAt := None, tx_ledgerSubmitted := None\<rparr>"
      "[(''503'', True, 1), (''503'', True, 2)]" "sample_config\<lparr>notFoundThreshold := 3\<rparr>" 101 3]
  by (simp add: sample_tx_def)

section \<open>Repair\<close>

lemma guarded_upd_idem:
  "(\<And>r. P r \<Longrightarrow> \<not> P (f r)) \<Longrightarrow> upd P g (upd P f t) = upd P f t"
  by (rule upd_none) (auto elim!: in_updE)

text \<open>Repair is idempotent and confined: applying it a second time, at whatever time, changes
  nothing; a repair whose database call throws changes nothing; it never touches the transaction records; and a job or purchase it changes was
  pending before, belongs to the repaired transaction, and only its status and update time
  change.\<close>

theorem repair_idempotent:
  "fst (applyRepair fault' now' r (fst (applyRepair None now r d))) = fst (applyRepair None now r d) \<and>
   fst (applyRepair (Some err) now r d) = d \<and>
   db_txs (fst (applyRepair fault now r d)) = db_txs d \<and>
   map cj_id (db_jobs (fst (applyRepair fault now r d))) = map cj_id (db_jobs d) \<and>
   (\<forall>n < length (db_jobs d). let old = db_jobs d ! n; new = db_jobs (fst (applyRepair fault now r d)) ! n
      in new \<noteq> old \<longrightarrow> cj_status old = ''pending'' \<and> Some (cj_id old) = tx_sourceId r \<and>
           tx_finalityStatus r \<noteq> CONFIRMED)"
proof -
  have idem_jobs: "upd (\<lambda>j. Some (cj_id j) = sid \<and> cj_status j = ''pending'') g
      (upd (\<lambda>j. Some (cj_id j) = sid \<and> cj_status j = ''pending'')
         (\<lambda>j. j\<lparr>cj_status := st, cj_updatedAt := now\<rparr>) t)
    = upd (\<lambda>j. Some (cj_id j) = sid \<and> cj_status j = ''pending'')
         (\<lambda>j. j\<lparr>cj_status := st, cj_updatedAt := now\<rparr>) t"
    if "job_status_for x = Some st" for sid g st t x
    using that by (intro guarded_upd_idem) (auto simp: job_status_for_def split: finality_status.splits)
  have idem_purchases: "upd (\<lambda>p. tp_txHash p = h \<and> tp_status p = ''pending'') g
      (upd (\<lambda>p. tp_txHash p = h \<and> tp_status p = ''pending'')
         (\<lambda>p. p\<lparr>tp_status := ''failed'', tp_updatedAt := now\<rparr>) t)
    = upd (\<lambda>p. tp_txHash p = h \<and> tp_status p = ''pending'')
         (\<lambda>p. p\<lparr>tp_status := ''failed'', tp_updatedAt := now\<rparr>) t" for h g t
    by (intro guarded_upd_idem) simp
  have 1: "fst (applyRepair fault' now' r (fst (applyRepair None now r d))) = fst (applyRepair None now r d) \<and>
   fst (applyRepair (Some err) now r d) = d"
    by (auto simp: applyRepair_def repairCommerceJob_def repairTokenPurchase_def upd_returning_def
        Let_def split: tx_source.split option.split
        dest: idem_jobs intro: idem_purchases simp: idem_jobs idem_purchases)
  have 2: "db_txs (fst (applyRepair fault now r d)) = db_txs d"
    by (simp add: applyRepair_def repairCommerceJob_def repairTokenPurchase_def upd_returning_def
        Let_def split: tx_source.split option.split)
  have jobs: "db_jobs (fst (applyRepair fault now r d)) = db_jobs d \<or>
      (\<exists>st. tx_finalityStatus r \<noteq> CONFIRMED \<and> db_jobs (fst (applyRepair fault now r d)) =
        upd (\<lambda>j. Some (cj_id j) = tx_sourceId r \<and> cj_status j = ''pending'')
          (\<lambda>j. j\<lparr>cj_status := st, cj_updatedAt := now\<rparr>) (db_jobs d))"
    by (auto simp: applyRepair_def repairCommerceJob_def repairTokenPurchase_def upd_returning_def
        Let_def split: tx_source.split option.split)
  have 3: "map cj_id (db_jobs (fst (applyRepair fault now r d))) = map cj_id (db_jobs d)"
    using jobs by (auto simp: map_upd_frame)
  have 4: "(\<forall>n < length (db_jobs d). let old = db_jobs d ! n; new = db_jobs (fst (applyRepair fault now r d)) ! n
      in new \<noteq> old \<longrightarrow> cj_status old = ''pending'' \<and> Some (cj_id old) = tx_sourceId r \<and>
           tx_finalityStatus r \<noteq> CONFIRMED)"
    using jobs by (auto simp: Let_def upd_def split: if_splits)
  from 1 2 3 4 show ?thesis by blast
qed

definition sample_db :: recon_db where
  "sample_db = \<lparr>db_txs = [sample_tx], db_jobs = [\<lparr>cj_id = ''c1'', cj_status = ''pending'', cj_updatedAt = 0\<rparr>],
     db_purchases = []\<rparr>"

definition expired_tx :: tx_record where
  "expired_tx = sample_tx\<lparr>tx_finalityStatus := EXPIRED\<rparr>"

theorem repair_idempotent_witness:
  "cj_status (db_jobs (fst (applyRepair None 9 expired_tx sample_db)) ! 0) = ''payment_expired'' \<and>
   cj_status (db_jobs sample_db ! 0) = ''pending'' \<and>
   fst (applyRepair None 10 expired_tx (fst (applyRepair None 9 expired_tx sample_db)))
     = fst (applyRepair None 9 expired_tx sample_db)"
proof -
  have c: "cj_status (db_jobs (fst (applyRepair None 9 expired_tx sample_db)) ! 0) = ''payment_expired''"
    by (simp add: applyRepair_def repairCommerceJob_def expired_tx_def sample_tx_def sample_db_def
        job_status_for_def upd_returning_def)
  then have "db_jobs (fst (applyRepair None 9 expired_tx sample_db)) ! 0 \<noteq> db_jobs sample_db ! 0"
    by (auto simp: sample_db_def)
  with repair_idempotent [of None 10 expired_tx 9 sample_db "ErrorObj ''x''" None] c show ?thesis
    by (auto simp: Let_def sample_db_def)
qed

section \<open>Processing\<close>

definition calm :: "process_env \<Rightarrow> bool" where
  "calm env \<longleftrightarrow> (\<forall>k. \<not> pe_aborted env k) \<and> \<not> pe_persistFails env \<and> \<not> pe_flagFails env"

lemma process_repair_status:
  "map tx_finalityStatus (db_txs (fst (process_repair env r (d, s)))) = map tx_finalityStatus (db_txs d) \<and>
   map tx_id (db_txs (fst (process_repair env r (d, s)))) = map tx_id (db_txs d)"
proof -
  have "db_txs (fst (applyRepair f now r d)) = db_txs d" for f now
    by (simp add: applyRepair_def repairCommerceJob_def repairTokenPurchase_def upd_returning_def
        Let_def split: tx_source.split option.split)
  then show ?thesis
    by (auto simp: process_repair_def mark_repaired_def split_beta Let_def map_upd_frame
        split: repair_outcome.split)
qed

text \<open>What processing does to the table of records, up to the columns repair flags.\<close>

lemma processRecord_status:
  "map (\<lambda>x. (tx_id x, tx_finalityStatus x)) (db_txs (fst (processRecord cfg cl env r (d, s))))
     = map (\<lambda>x. (tx_id x, tx_finalityStatus x)) (db_txs d) \<or>
   (\<exists>u p. computeTransition r p cl cfg (pe_now env) = Some u \<and>
     map (\<lambda>x. (tx_id x, tx_finalityStatus x)) (db_txs (fst (processRecord cfg cl env r (d, s))))
     = map (\<lambda>x. (tx_id x, if tx_id x = tx_id r
              then coalesce (tu_finalityStatus u) (tx_finalityStatus r) else tx_finalityStatus x))
         (db_txs d))"
proof -
  define p where "p = (if tx_finalityStatus r = PENDING then Some (pollTransaction (pe_reply env)) else None)"
  show ?thesis
  proof (cases "computeTransition r p cl cfg (pe_now env)")
    case None
    then show ?thesis by (simp add: processRecord_def p_def Let_def)
  next
    case (Some u)
    let ?d1 = "d\<lparr>db_txs := upd (\<lambda>row. tx_id row = tx_id r) (persist_update r u (pe_now env)) (db_txs d)\<rparr>"
    let ?s1 = "count_status (coalesce (tu_finalityStatus u) (tx_finalityStatus r)) s"
    have d': "fst (processRecord cfg cl env r (d, s)) \<in>
        {d, ?d1, fst (process_repair env (updated_record r u) (?d1, ?s1))}"
      using Some by (simp add: processRecord_def p_def [symmetric] Let_def)
    have pairs: "map (\<lambda>x. (tx_id x, tx_finalityStatus x)) t
        = zip (map tx_id t) (map tx_finalityStatus t)" for t
      by (induction t) simp_all
    have "map (\<lambda>x. (tx_id x, tx_finalityStatus x)) (db_txs ?d1) =
        map (\<lambda>x. (tx_id x, if tx_id x = tx_id r
              then coalesce (tu_finalityStatus u) (tx_finalityStatus r) else tx_finalityStatus x))
         (db_txs d)"
      by (simp add: upd_def persist_update_def)
    moreover have "map (\<lambda>x. (tx_id x, tx_finalityStatus x))
          (db_txs (fst (process_repair env (updated_record r u) (?d1, ?s1))))
        = map (\<lambda>x. (tx_id x, tx_finalityStatus x)) (db_txs ?d1)"
      using process_repair_status [of env "updated_record r u" ?d1 ?s1] by (simp add: pairs)
    ultimately show ?thesis using d' Some by auto
  qed
qed

text \<open>C22.
  Processing a record loaded from the table as it is moves that record forward or leaves it, and
  no other record moves: row by row the ids are kept, a status never decreases, and a record in
  a terminal state stays in it.\<close>

theorem processing_never_regresses:
  assumes "distinct (map tx_id (db_txs d))" "r \<in> set (db_txs d)" "n < length (db_txs d)"
  shows "let old = db_txs d ! n; new = db_txs (fst (processRecord cfg cl env r (d, s))) ! n
    in tx_id new = tx_id old \<and> tx_finalityStatus old \<le> tx_finalityStatus new \<and>
       (isTerminal old \<or> old \<noteq> r \<longrightarrow> tx_finalityStatus new = tx_finalityStatus old)"
proof -
  let ?t = "db_txs d" and ?t' = "db_txs (fst (processRecord cfg cl env r (d, s)))"
  let ?key = "\<lambda>x. (tx_id x, tx_finalityStatus x)"
  consider (same) "map ?key ?t' = map ?key ?t"
    | (moved) u p where "computeTransition r p cl cfg (pe_now env) = Some u"
      "map ?key ?t' = map (\<lambda>x. (tx_id x, if tx_id x = tx_id r
              then coalesce (tu_finalityStatus u) (tx_finalityStatus r) else tx_finalityStatus x)) ?t"
    using processRecord_status [of cfg cl env r d s] by blast
  then show ?thesis
  proof cases
    case same
    then have len: "length ?t' = length ?t" by (rule map_eq_imp_length_eq)
    have "?key (?t' ! n) = ?key (?t ! n)"
      using arg_cong [OF same, of "\<lambda>xs. xs ! n"] assms(3) len by simp
    then show ?thesis by (simp add: Let_def)
  next
    case moved
    have len: "length ?t' = length ?t"
      using arg_cong [OF moved(2), of length] by simp
    have new: "tx_id (?t' ! n) = tx_id (?t ! n)" "tx_finalityStatus (?t' ! n) = (if tx_id (?t ! n) = tx_id r
        then coalesce (tu_finalityStatus u) (tx_finalityStatus r) else tx_finalityStatus (?t ! n))"
      using arg_cong [OF moved(2), of "\<lambda>xs. xs ! n"] assms(3) len by simp_all
    have "tx_id (?t ! n) = tx_id r \<Longrightarrow> ?t ! n = r"
      using distinct_key_unique [OF assms(1) nth_mem [OF assms(3)] assms(2)] by simp
    moreover have "tx_finalityStatus r \<le> coalesce (tu_finalityStatus u) (tx_finalityStatus r)"
      using computed_status [OF moved(1)] allowed_next_less
      by (cases "tu_finalityStatus u") (auto intro: less_imp_le)
    moreover have "\<not> isTerminal r"
      using moved(1) by (simp add: computeTransition_def split: if_splits)
    ultimately show ?thesis
      unfolding Let_def new by (cases "tx_id (?t ! n) = tx_id r") simp_all
  qed
qed

definition calm_env :: "horizon_reply \<Rightarrow> instant \<Rightarrow> process_env" where
  "calm_env reply now = \<lparr>pe_reply = reply, pe_now = now, pe_later = now, pe_aborted = (\<lambda>_. False),
     pe_persistFails = False, pe_repairFault = None, pe_flagFails = False\<rparr>"

definition zero_summary :: tick_summary where
  "zero_summary = \<lparr>ts_processed = 0, ts_confirmed = 0, ts_failed = 0, ts_expired = 0,
     ts_notFound = 0, ts_repairsApplied = 0, ts_errors = 0\<rparr>"

theorem processing_never_regresses_witness:
  "PENDING \<le> tx_finalityStatus (db_txs (fst (processRecord sample_config 101
     (calm_env (HorizonTx 101 True None) 10) sample_tx (sample_db, zero_summary))) ! 0)"
  using processing_never_regresses [of sample_db sample_tx 0 sample_config 101
      "calm_env (HorizonTx 101 True None) 10" zero_summary]
  by (simp add: sample_db_def Let_def) (simp add: sample_tx_def)

section \<open>Where paid work is lost\<close>

lemmas calm_process_defs =
  processRecord_def process_repair_def calm_env_def needsRepair_def updated_record_def

text \<open>A payment that succeeded on chain can still be recorded as expired: a record Horizon reported
  as successful, whose ledger is already deep enough, is moved to EXPIRED instead of CONFIRMED
  when the current ledger is past the submission ledger plus the gap, and the repair then marks
  the paid job payment_expired.  The gap is counted from the submission, not from the ledger
  the transaction was first seen in.\<close>

theorem confirmed_payment_marked_expired:
  assumes "tx_finalityStatus r = CONFIRMING" "tx_confirmedLedger r = Some c"
    and "cl \<ge> c + confirmationDepth cfg"
    and "tx_ledgerSubmitted r = Some sub" "sub \<noteq> 0" "cl > sub + maxLedgerGap cfg"
    and "tx_sourceType r = CommerceJob" "tx_sourceId r = Some j" "j \<noteq> []" "\<not> tx_repairApplied r"
    and "job \<in> set (db_jobs d)" "cj_id job = j" "cj_status job = ''pending''"
  shows "\<exists>new \<in> set (db_jobs (fst (processRecord cfg cl (calm_env reply now) r (d, s)))).
    cj_id new = j \<and> cj_status new = ''payment_expired''"
proof -
  obtain u where u: "computeTransition r None cl cfg now = Some u" "tu_finalityStatus u = Some EXPIRED"
    using assms(1,4-6)
    by (cases "isWallClockExpired r now") (simp_all add: transition_defs isLedgerExpired_def)
  let ?f = "\<lambda>x. x\<lparr>cj_status := ''payment_expired'', cj_updatedAt := now\<rparr>"
  have "db_jobs (fst (processRecord cfg cl (calm_env reply now) r (d, s)))
      = upd (\<lambda>x. cj_id x = j \<and> cj_status x = ''pending'') ?f (db_jobs d)"
    using u assms(1,7-10)
    by (simp add: calm_process_defs validate_progress applyRepair_def repairCommerceJob_def
        job_status_for_def upd_returning_def mark_repaired_def Let_def)
  moreover have "?f job \<in> set (upd (\<lambda>x. cj_id x = j \<and> cj_status x = ''pending'') ?f (db_jobs d))"
    unfolding set_upd using assms(11-13) by blast
  ultimately show ?thesis using assms(12) by (intro bexI [of _ "?f job"]) simp_all
qed

definition deep_tx :: tx_record where
  "deep_tx = sample_tx\<lparr>tx_finalityStatus := CONFIRMING, tx_confirmedLedger := Some 150\<rparr>"

theorem confirmed_payment_marked_expired_witness:
  "\<exists>new \<in> set (db_jobs (fst (processRecord sample_config 300
       (calm_env (HorizonTx 150 True None) 50) deep_tx (sample_db, zero_summary)))).
     cj_id new = ''c1'' \<and> cj_status new = ''payment_expired''"
  by (rule confirmed_payment_marked_expired [where c = 150 and sub = 100
        and job = "\<lparr>cj_id = ''c1'', cj_status = ''pending'', cj_updatedAt = 0\<rparr>"])
     (simp_all add: deep_tx_def sample_tx_def sample_config_def sample_db_def)

text \<open>A repair that fails is never tried again: when the database call of a purchase's repair
  throws, the record is left terminal with its repair flag unset, and no later tick loads it,
  whatever the batch size.\<close>

theorem failed_repair_is_stranded:
  assumes "row \<in> set (db_txs d)" "tx_id row = tx_id r" "\<not> tx_repairApplied row" "\<not> tx_repairApplied r"
    and "tx_finalityStatus r = CONFIRMING" "tx_sourceType r = TokenPurchase"
    and "computeTransition r None cl cfg now = Some u" "tu_finalityStatus u = Some st"
    and "env = (calm_env reply now)\<lparr>pe_repairFault := Some err\<rparr>"
    and "processRecord cfg cl env r (d, s) = (d', s')"
  shows "ts_errors s' = ts_errors s + 1 \<and>
    (\<exists>x \<in> set (db_txs d'). tx_id x = tx_id r \<and> needsRepair x \<and>
       (\<forall>cfg'. x \<notin> set (load_batch cfg' (db_txs d'))))"
proof -
  have st: "st \<in> set (allowed_next CONFIRMING)" using computed_status [OF assms(7,8)] assms(5) by simp
  let ?f = "persist_update r u now"
  have d': "db_txs d' = upd (\<lambda>x. tx_id x = tx_id r) ?f (db_txs d)" and "ts_errors s' = ts_errors s + 1"
    using assms(4-10) st
    by (auto simp: calm_process_defs validate_progress applyRepair_def repairTokenPurchase_def
        count_error_def count_status_def Let_def split: finality_status.splits)
  moreover have "?f row \<in> set (upd (\<lambda>x. tx_id x = tx_id r) ?f (db_txs d))"
    unfolding set_upd using assms(1,2) by blast
  moreover have "?f row \<notin> set (load_batch cfg' (db_txs d'))" for cfg'
    using st assms(8) by (auto simp: load_batch_def persist_update_def dest!: in_set_takeD)
  ultimately show ?thesis
    using st assms(2,3,8)
    by (intro conjI bexI [of _ "?f row"]) (auto simp: needsRepair_def persist_update_def)
qed

definition bought_tx :: tx_record where
  "bought_tx = deep_tx\<lparr>tx_sourceType := TokenPurchase\<rparr>"

theorem failed_repair_is_stranded_witness:
  "\<exists>x \<in> set (db_txs (fst (processRecord sample_config 160
       ((calm_env (HorizonTx 150 True None) 50)\<lparr>pe_repairFault := Some (ErrorObj ''down'')\<rparr>)
       bought_tx (sample_db\<lparr>db_txs := [bought_tx]\<rparr>, zero_summary)))).
     tx_id x = ''t1'' \<and> needsRepair x"
proof -
  obtain u where "computeTransition bought_tx None 160 sample_config 50 = Some u"
    "tu_finalityStatus u = Some CONFIRMED"
    by (simp add: transition_defs bought_tx_def deep_tx_def sample_tx_def sample_config_def
        isWallClockExpired_def isLedgerExpired_def)
  from failed_repair_is_stranded [OF _ _ _ _ _ _ this refl prod.collapse [symmetric],
      where row = bought_tx and d = "sample_db\<lparr>db_txs := [bought_tx]\<rparr>"
        and err = "ErrorObj ''down''" and reply = "HorizonTx 150 True None" and s = zero_summary]
  show ?thesis by (auto simp: bought_tx_def deep_tx_def sample_tx_def)
qed

text \<open>The check before the write protects only against the state as it was loaded: when another
  process has meanwhile moved the row on, even to a terminal state, persisting a poll that
  merely failed writes the loaded PENDING back over it.\<close>

theorem stale_record_regresses:
  assumes "tx_finalityStatus r = PENDING" "\<not> isWallClockExpired r now"
    and "\<not> isLedgerExpired r cl (maxLedgerGap cfg)"
    and "row \<in> set (db_txs d)" "tx_id row = tx_id r" "isTerminal row"
  shows "\<exists>row' \<in> set (db_txs (fst (processRecord cfg cl (calm_env (HorizonThrew (Some 503) m) now) r (d, s)))).
    tx_id row' = tx_id row \<and> tx_finalityStatus row' = PENDING"
proof -
  obtain u where u: "computeTransition r (Some (PollError m True)) cl cfg now = Some u"
    "tu_finalityStatus u = None"
    using assms(1-3) by (simp add: transition_defs)
  let ?f = "persist_update r u now"
  have "db_txs (fst (processRecord cfg cl (calm_env (HorizonThrew (Some 503) m) now) r (d, s)))
      = upd (\<lambda>x. tx_id x = tx_id r) ?f (db_txs d)"
    using u assms(1) by (simp add: calm_process_defs Let_def)
  moreover have "?f row \<in> set (upd (\<lambda>x. tx_id x = tx_id r) ?f (db_txs d))"
    unfolding set_upd using assms(4,5) by blast
  ultimately show ?thesis
    using assms(1) u(2) by (intro bexI [of _ "?f row"]) (simp_all add: persist_update_def)
qed

theorem stale_record_regresses_witness:
  "\<exists>row' \<in> set (db_txs (fst (processRecord sample_config 160
      (calm_env (HorizonThrew (Some 503) ''unavailable'') 50) sample_tx
      (sample_db\<lparr>db_txs := [sample_tx\<lparr>tx_finalityStatus := CONFIRMED\<rparr>]\<rparr>, zero_summary)))).
     tx_id row' = ''t1'' \<and> tx_finalityStatus row' = PENDING"
  using stale_record_regresses [of sample_tx 50 160 sample_config
      "sample_tx\<lparr>tx_finalityStatus := CONFIRMED\<rparr>"
      "sample_db\<lparr>db_txs := [sample_tx\<lparr>tx_finalityStatus := CONFIRMED\<rparr>]\<rparr>"]
  by (simp add: sample_tx_def sample_config_def isWallClockExpired_def isLedgerExpired_def isTerminal_def)

section \<open>Registration\<close>

definition register_keyed ::
  "string \<Rightarrow> instant \<times> string \<times> register_options \<Rightarrow> tx_record list
     \<Rightarrow> register_error + (tx_record list \<times> string)" where
  "register_keyed h i t = (case i of (now, newId, opts) \<Rightarrow>
     registerTx now newId (opts\<lparr>ro_txHash := h\<rparr>) t)"

definition registered_id :: "string \<Rightarrow> tx_record list \<Rightarrow> string option" where
  "registered_id h t = map_option tx_id (sel_one (\<lambda>r. tx_hash r = h) t)"

interpretation register_dedupe: idempotent_insert register_keyed registered_id
  by unfold_locales
     (auto simp: register_keyed_def registered_id_def registerTx_def find_append
        split: prod.splits option.splits if_splits)

text \<open>Registering a transaction is idempotent: after a registration that returned an id, every
  further registration of the same hash, with any other options, returns that id and stores
  nothing; and registration keeps hashes unique.\<close>

theorem register_idempotent:
  assumes "registerTx now i opts t = Inr (t', r)" "ro_txHash opts' = ro_txHash opts"
  shows "registerTx now' i' opts' t' = Inr (t', r) \<and>
    (distinct (map tx_hash t) \<longrightarrow> distinct (map tx_hash t'))"
proof
  have eq: "opts\<lparr>ro_txHash := ro_txHash opts\<rparr> = opts" "opts'\<lparr>ro_txHash := ro_txHash opts\<rparr> = opts'"
    using assms(2) by (metis register_options.surjective register_options.update_convs(1))+
  have "register_keyed (ro_txHash opts) (now, i, opts) t = Inr (t', r)"
    using assms(1) by (simp add: register_keyed_def eq)
  from register_dedupe.ins_repeat [OF this, of "(now', i', opts')"]
  show "registerTx now' i' opts' t' = Inr (t', r)" by (simp add: register_keyed_def eq)
  have "t' = t \<or> (\<exists>x. t' = t @ [x] \<and> tx_hash x = ro_txHash opts \<and> tx_hash x \<notin> tx_hash ` set t)"
    using assms(1)
    by (force simp: registerTx_def find_None_filter filter_empty_conv split: option.splits if_splits)
  then show "distinct (map tx_hash t) \<longrightarrow> distinct (map tx_hash t')" by auto
qed

definition sample_register :: register_options where
  "sample_register = \<lparr>ro_txHash = ''h1'', ro_sourceType = OtherSource, ro_sourceId = None,
     ro_ledgerSubmitted = None, ro_expiresAt = None\<rparr>"

theorem register_idempotent_witness:
  "\<exists>t. registerTx 0 ''t1'' sample_register [] = Inr (t, ''t1'') \<and>
     registerTx 9 ''t2'' (sample_register\<lparr>ro_sourceType := CommerceJob\<rparr>) t = Inr (t, ''t1'') \<and>
     distinct (map tx_hash t)"
proof -
  obtain t where t: "registerTx 0 ''t1'' sample_register [] = Inr (t, ''t1'')"
    by (simp add: registerTx_def)
  show ?thesis
    using t register_idempotent [OF t, of "sample_register\<lparr>ro_sourceType := CommerceJob\<rparr>" 9 "''t2''"]
    by simp
qed

end
