(* ===== verification/Reconciler_Queue.thy ===== *)
theory Reconciler_Queue
  imports Reconciler
begin

text \<open>
  The scheduler's bounded work queue, web/src/lib/reconciler/scheduler.ts: the process-wide
  queue with its sets of queued and active ids, the part of runOneTick that fills it,
  drainQueue, and the completion of one record's asynchronous processing.  \<open>sc_running\<close> is the
  list of records whose processing is in flight, which the code holds only as pending promises.
\<close>

section \<open>State and operations\<close>

record scheduler =
  sc_queue :: "tx_record list"
  sc_queuedIds :: "string set"
  sc_activeIds :: "string set"
  sc_running :: "tx_record list"

definition idle_scheduler :: scheduler where
  "idle_scheduler = \<lparr>sc_queue = [], sc_queuedIds = {}, sc_activeIds = {}, sc_running = []\<rparr>"

definition effective_limit :: "reconciler_config \<Rightarrow> int" where
  "effective_limit cfg = coalesce (concurrencyLimit cfg) 5"

text \<open>The \<open>while\<close> loop of drainQueue, on the queue.\<close>

fun drain_loop :: "int \<Rightarrow> bool \<Rightarrow> tx_record list \<Rightarrow> scheduler \<Rightarrow> scheduler" where
  "drain_loop limit aborted [] s = s\<lparr>sc_queue := []\<rparr>"
| "drain_loop limit aborted (r # rs) s =
     (if int (card (sc_activeIds s)) < limit
      then if aborted then s\<lparr>sc_queue := [], sc_queuedIds := {}\<rparr>
           else drain_loop limit aborted rs
             (s\<lparr>sc_queuedIds := sc_queuedIds s - {tx_id r},
                sc_activeIds := insert (tx_id r) (sc_activeIds s),
                sc_running := sc_running s @ [r]\<rparr>)
      else s\<lparr>sc_queue := r # rs\<rparr>)"

definition drainQueue :: "int \<Rightarrow> bool \<Rightarrow> scheduler \<Rightarrow> scheduler" where
  "drainQueue limit aborted s = drain_loop limit aborted (sc_queue s) s"

definition enqueue_records :: "tx_record list \<Rightarrow> scheduler \<Rightarrow> scheduler" where
  "enqueue_records records s =
     (let newRecords = filter (\<lambda>r. tx_id r \<notin> sc_activeIds s \<and> tx_id r \<notin> sc_queuedIds s) records
      in s\<lparr>sc_queue := sc_queue s @ newRecords,
           sc_queuedIds := sc_queuedIds s \<union> tx_id ` set newRecords\<rparr>)"

text \<open>A tick with the batch it loaded; an empty batch returns before the queue is touched.\<close>

definition tick_queue :: "reconciler_config \<Rightarrow> bool \<Rightarrow> tx_record list \<Rightarrow> scheduler \<Rightarrow> scheduler" where
  "tick_queue cfg aborted t s =
     (let records = load_batch cfg t
      in if records = [] then s
         else drainQueue (effective_limit cfg) aborted (enqueue_records records s))"

text \<open>The \<open>finally\<close> block of one record's processing.\<close>

definition finish_record :: "reconciler_config \<Rightarrow> bool \<Rightarrow> tx_record \<Rightarrow> scheduler \<Rightarrow> scheduler" where
  "finish_record cfg aborted r s =
     drainQueue (effective_limit cfg) aborted
       (s\<lparr>sc_activeIds := sc_activeIds s - {tx_id r}, sc_running := remove1 r (sc_running s)\<rparr>)"

text \<open>Stopping empties the bookkeeping; processing in flight goes on until it next tests the
  abort signal.\<close>

definition stopReconciler :: "scheduler \<Rightarrow> scheduler" where
  "stopReconciler s = s\<lparr>sc_queue := [], sc_queuedIds := {}, sc_activeIds := {}\<rparr>"

definition getActiveCount :: "scheduler \<Rightarrow> nat" where
  "getActiveCount s = card (sc_activeIds s)"

definition getQueueCount :: "scheduler \<Rightarrow> nat" where
  "getQueueCount s = card (sc_queuedIds s)"

section \<open>Runs between a start and a stop\<close>

inductive scheduler_run :: "reconciler_config \<Rightarrow> scheduler \<Rightarrow> bool" for cfg where
  started: "scheduler_run cfg idle_scheduler"
| tick: "scheduler_run cfg s \<Longrightarrow> distinct (map tx_id t) \<Longrightarrow> scheduler_run cfg (tick_queue cfg aborted t s)"
| finish: "scheduler_run cfg s \<Longrightarrow> r \<in> set (sc_running s) \<Longrightarrow>
    scheduler_run cfg (finish_record cfg aborted r s)"

definition scheduler_ok :: "scheduler \<Rightarrow> bool" where
  "scheduler_ok s \<longleftrightarrow>
     sc_queuedIds s = tx_id ` set (sc_queue s) \<and> sc_activeIds s = tx_id ` set (sc_running s) \<and>
     distinct (map tx_id (sc_running s @ sc_queue s))"

lemma card_active: "scheduler_ok s \<Longrightarrow> card (sc_activeIds s) = length (sc_running s)"
  using distinct_card [of "map tx_id (sc_running s)"] by (simp add: scheduler_ok_def)

lemma drain_loop_ok:
  assumes "scheduler_ok (s\<lparr>sc_queue := q\<rparr>)"
  shows "scheduler_ok (drain_loop limit aborted q s)"
  using assms
proof (induction limit aborted q s rule: drain_loop.induct)
  case (2 limit aborted r rs s)
  show ?case
  proof (cases "int (card (sc_activeIds s)) < limit \<and> \<not> aborted")
    case True
    have "scheduler_ok (s\<lparr>sc_queuedIds := sc_queuedIds s - {tx_id r},
        sc_activeIds := insert (tx_id r) (sc_activeIds s), sc_running := sc_running s @ [r],
        sc_queue := rs\<rparr>)"
      using 2(2) by (auto simp: scheduler_ok_def)
    then show ?thesis using 2(1) True by simp
  next
    case False
    then show ?thesis using 2(2) by (auto simp: scheduler_ok_def)
  qed
qed simp

lemma drain_loop_limit:
  assumes "scheduler_ok (s\<lparr>sc_queue := q\<rparr>)" "int (card (sc_activeIds s)) \<le> max 0 limit"
  shows "int (card (sc_activeIds (drain_loop limit aborted q s))) \<le> max 0 limit"
  using assms
proof (induction limit aborted q s rule: drain_loop.induct)
  case (2 limit aborted r rs s)
  have ok: "scheduler_ok (s\<lparr>sc_queuedIds := sc_queuedIds s - {tx_id r},
        sc_activeIds := insert (tx_id r) (sc_activeIds s), sc_running := sc_running s @ [r],
        sc_queue := rs\<rparr>)"
    using 2(2) by (auto simp: scheduler_ok_def)
  have "card (insert (tx_id r) (sc_activeIds s)) \<le> Suc (card (sc_activeIds s))"
    by (rule card_insert_le_m1) simp_all
  then show ?case using 2(1) 2(3) ok by auto
qed simp

lemma drain_loop_busy:
  "\<not> aborted \<Longrightarrow> sc_queue (drain_loop limit aborted q s) \<noteq> [] \<Longrightarrow>
     limit \<le> int (card (sc_activeIds (drain_loop limit aborted q s)))"
  by (induction limit aborted q s rule: drain_loop.induct) (auto split: if_splits)

lemma enqueue_ok:
  assumes "scheduler_ok s" "distinct (map tx_id records)"
  shows "scheduler_ok (enqueue_records records s)"
proof -
  define new where "new = filter (\<lambda>r. tx_id r \<notin> sc_activeIds s \<and> tx_id r \<notin> sc_queuedIds s) records"
  have "distinct (map tx_id new)" using assms(2) by (simp add: new_def distinct_map_filter)
  moreover have "tx_id ` set new \<inter> tx_id ` set (sc_running s) = {}"
    "tx_id ` set new \<inter> tx_id ` set (sc_queue s) = {}"
    using assms(1) by (auto simp: new_def scheduler_ok_def)
  moreover have "enqueue_records records s = s\<lparr>sc_queue := sc_queue s @ new,
      sc_queuedIds := sc_queuedIds s \<union> tx_id ` set new\<rparr>"
    by (simp add: enqueue_records_def new_def)
  ultimately show ?thesis
    using assms(1) by (simp add: scheduler_ok_def image_Un Int_Un_distrib Int_commute)
qed

lemma distinct_load_batch:
  assumes "distinct (map tx_id t)"
  shows "distinct (map tx_id (load_batch cfg t))"
proof -
  have "distinct (map tx_id (sort_key tx_updatedAt (filter P t)))" for P
    using distinct_map_filter [OF assms, of P] by (simp add: distinct_map)
  then show ?thesis by (simp add: load_batch_def distinct_take flip: take_map)
qed

lemma remove_running:
  assumes "distinct (map tx_id xs)" "r \<in> set xs"
  shows "tx_id ` set (remove1 r xs) = tx_id ` set xs - {tx_id r} \<and> distinct (map tx_id (remove1 r xs))"
proof -
  have d: "distinct xs" "inj_on tx_id (set xs)" using assms(1) by (simp_all add: distinct_map)
  then have "set (remove1 r xs) = set xs - {r}" by simp
  moreover have "tx_id ` (set xs - {r}) = tx_id ` set xs - {tx_id r}"
    using d(2) assms(2) inj_on_image_set_diff [of tx_id "set xs" "set xs" "{r}"] by simp
  ultimately show ?thesis
    using d by (simp add: distinct_map inj_on_diff)
qed

lemma scheduler_run_invariant:
  assumes "scheduler_run cfg s"
  shows "scheduler_ok s \<and> int (card (sc_activeIds s)) \<le> max 0 (effective_limit cfg)"
  using assms
proof (induction rule: scheduler_run.induct)
  case started
  show ?case by (simp add: idle_scheduler_def scheduler_ok_def)
next
  case (tick s t aborted)
  let ?s = "enqueue_records (load_batch cfg t) s"
  have "scheduler_ok ?s" using tick by (simp add: enqueue_ok distinct_load_batch)
  moreover have "sc_activeIds ?s = sc_activeIds s" by (simp add: enqueue_records_def Let_def)
  ultimately show ?case
    using tick drain_loop_ok [of "sc_queue ?s" ?s] drain_loop_limit [of "sc_queue ?s" ?s]
    by (simp add: tick_queue_def drainQueue_def Let_def)
next
  case (finish s r aborted)
  let ?s = "s\<lparr>sc_activeIds := sc_activeIds s - {tx_id r}, sc_running := remove1 r (sc_running s)\<rparr>"
  have ok: "distinct (map tx_id (sc_running s))" "distinct (map tx_id (sc_queue s))"
      "tx_id ` set (sc_running s) \<inter> tx_id ` set (sc_queue s) = {}"
      "sc_queuedIds s = tx_id ` set (sc_queue s)" "sc_activeIds s = tx_id ` set (sc_running s)"
      "r \<in> set (sc_running s)"
    using finish by (simp_all add: scheduler_ok_def)
  then have "scheduler_ok ?s"
    using remove_running [OF ok(1,6)] by (simp add: scheduler_ok_def) blast
  moreover have "card (sc_activeIds ?s) \<le> card (sc_activeIds s)"
    using ok(5) by (simp add: card_mono)
  ultimately show ?case
    using finish drain_loop_ok [of "sc_queue ?s" ?s] drain_loop_limit [of "sc_queue ?s" ?s]
    by (simp add: finish_record_def drainQueue_def)
qed

text \<open>Between a start and a stop the work queue is sound whatever the order of ticks and
  completions: no record is processed twice at a time or waits while it is processed, the id
  sets are exactly the ids of the queue and of the work in flight, the work in flight never
  exceeds the concurrency limit, and after a tick that loaded something work waits only while
  the limit is reached.\<close>

theorem scheduler_bounded_and_unique:
  assumes "scheduler_run cfg s"
  shows "distinct (map tx_id (sc_running s @ sc_queue s)) \<and>
    sc_activeIds s = tx_id ` set (sc_running s) \<and> sc_queuedIds s = tx_id ` set (sc_queue s) \<and>
    int (length (sc_running s)) \<le> max 0 (effective_limit cfg) \<and>
    (load_batch cfg t \<noteq> [] \<and> sc_queue (tick_queue cfg False t s) \<noteq> [] \<longrightarrow>
       effective_limit cfg \<le> int (getActiveCount (tick_queue cfg False t s)))"
  using scheduler_run_invariant [OF assms] card_active [of s]
    drain_loop_busy [of False "effective_limit cfg"]
  by (auto simp: scheduler_ok_def tick_queue_def drainQueue_def Let_def getActiveCount_def)

definition one_slot :: reconciler_config where
  "one_slot = \<lparr>enabled = True, pollIntervalMs = 30000, maxLedgerGap = 120, notFoundThreshold = 10,
     batchSize = 50, confirmationDepth = 1, concurrencyLimit = Some 1\<rparr>"

definition waiting_tx :: "string \<Rightarrow> instant \<Rightarrow> tx_record" where
  "waiting_tx i since = \<lparr>tx_id = i, tx_hash = i, tx_sourceType = OtherSource, tx_sourceId = None,
     tx_finalityStatus = PENDING, tx_ledgerSubmitted = None, tx_lastLedgerChecked = None,
     tx_confirmedLedger = None, tx_pollCount = 0, tx_lastError = None, tx_repairApplied = False,
     tx_expiresAt = None, tx_createdAt = since, tx_updatedAt = since\<rparr>"

theorem scheduler_bounded_and_unique_witness:
  "let s = tick_queue one_slot False [waiting_tx ''a'' 2, waiting_tx ''b'' 1] idle_scheduler in
     map tx_id (sc_running s) = [''b''] \<and> map tx_id (sc_queue s) = [''a''] \<and>
     int (length (sc_running s)) \<le> 1 \<and> sc_queuedIds s = {''a''}"
proof -
  let ?t = "[waiting_tx ''a'' 2, waiting_tx ''b'' 1]"
  have s: "tick_queue one_slot False ?t idle_scheduler =
      \<lparr>sc_queue = [waiting_tx ''a'' 2], sc_queuedIds = {''a''}, sc_activeIds = {''b''},
       sc_running = [waiting_tx ''b'' 1]\<rparr>"
    by (auto simp: tick_queue_def load_batch_def ACTIVE_STATES_def waiting_tx_def one_slot_def
        idle_scheduler_def enqueue_records_def drainQueue_def effective_limit_def)
  have "scheduler_run one_slot (tick_queue one_slot False ?t idle_scheduler)"
    by (rule scheduler_run.tick [OF scheduler_run.started]) (simp add: waiting_tx_def)
  from scheduler_bounded_and_unique [OF this, of "[]"]
  have "int (length (sc_running (tick_queue one_slot False ?t idle_scheduler))) \<le> 1"
    by (simp add: effective_limit_def one_slot_def)
  then show ?thesis unfolding Let_def s by (simp add: waiting_tx_def)
qed

end
