(* ===== verification/Js_Text.thy ===== *)
theory Js_Text
  imports Prelude
begin

text \<open>
  The JavaScript string operations the modelled code uses: join, trim, toLowerCase, startsWith,
  includes, split at a character, parseInt and Number, over strings read in code page 1252, and environment variables.
\<close>

fun js_join :: "string \<Rightarrow> string list \<Rightarrow> string" where
  "js_join sep [] = []"
| "js_join sep [x] = x"
| "js_join sep (x # y # xs) = x @ sep @ js_join sep (y # xs)"

definition js_space :: "char \<Rightarrow> bool" where
  "js_space c \<longleftrightarrow> c \<in> set [CHR 0x09, CHR 0x0A, CHR 0x0B, CHR 0x0C, CHR 0x0D, CHR 0x20, CHR 0xA0]"

definition js_trim :: "string \<Rightarrow> string" where
  "js_trim s = rev (dropWhile js_space (rev (dropWhile js_space s)))"

definition lower_char :: "char \<Rightarrow> char" where
  "lower_char c =
     (let n = of_char c :: nat
      in if (65 \<le> n \<and> n \<le> 90) \<or> (192 \<le> n \<and> n \<le> 222 \<and> n \<noteq> 215) then char_of (n + 32)
         else if n = 138 \<or> n = 140 \<or> n = 142 then char_of (n + 16)
         else if n = 159 then char_of (255 :: nat)
         else c)"

definition js_lower :: "string \<Rightarrow> string" where
  "js_lower s = map lower_char s"

definition starts_with :: "string \<Rightarrow> string \<Rightarrow> bool" where
  "starts_with p s \<longleftrightarrow> take (length p) s = p"

fun js_includes :: "string \<Rightarrow> string \<Rightarrow> bool" where
  "js_includes p [] \<longleftrightarrow> p = []"
| "js_includes p (c # cs) \<longleftrightarrow> starts_with p (c # cs) \<or> js_includes p cs"

lemma starts_with_append [simp]: "starts_with p (p @ s)"
  by (simp add: starts_with_def)

lemma js_includes_middle [simp]: "js_includes p (u @ p @ v)"
proof (induction u)
  case Nil
  then show ?case using starts_with_append [of p v] by (cases "p @ v") auto
qed simp

lemma js_trim_id:
  assumes "s = [] \<or> (\<not> js_space (hd s) \<and> \<not> js_space (last s))"
  shows "js_trim s = s"
proof -
  have "dropWhile js_space s = s" "dropWhile js_space (rev s) = rev s"
    using assms by (auto simp: dropWhile_eq_self_iff hd_rev)
  then show ?thesis by (simp add: js_trim_def)
qed

section \<open>Numbers from text\<close>

definition digit :: "char \<Rightarrow> bool" where
  "digit c \<longleftrightarrow> 48 \<le> (of_char c :: nat) \<and> (of_char c :: nat) \<le> 57"

fun digits_value :: "nat \<Rightarrow> string \<Rightarrow> nat" where
  "digits_value n [] = n"
| "digits_value n (c # cs) = digits_value (10 * n + (of_char c - 48)) cs"

text \<open>\<open>parseInt(s, 10)\<close>: the sign and the digits a text starts with after white space; \<open>None\<close> is
  NaN.  Texts of more digits than a JavaScript integer has are outside the model.\<close>

definition js_parseInt :: "string \<Rightarrow> int option" where
  "js_parseInt s =
     (let t = dropWhile js_space s;
          (neg, u) = (case t of [] \<Rightarrow> (False, []) | c # cs \<Rightarrow>
             if c = CHR ''-'' then (True, cs) else if c = CHR ''+'' then (False, cs) else (False, t));
          ds = takeWhile digit u
      in if ds = [] then None
         else Some ((if neg then -1 else 1) * int (digits_value 0 ds)))"

type_synonym environment = "string \<Rightarrow> string option"  \<comment> \<open>process.env\<close>

lemma digits_value_append: "digits_value n (xs @ ys) = digits_value (digits_value n xs) ys"
  by (induction xs arbitrary: n) simp_all

lemma digits_of_digits: "\<forall>c \<in> set (digits_of n). digit c"
proof (induction n rule: digits_of.induct)
  case (1 n)
  then show ?case by (subst digits_of.simps) (auto simp: digit_def)
qed

lemma digits_of_Nonempty [simp]: "digits_of n \<noteq> []"
  by (subst digits_of.simps) simp

lemma digits_value_digits_of: "digits_value 0 (digits_of n) = n"
proof (induction n rule: digits_of.induct)
  case (1 n)
  then show ?case by (subst digits_of.simps) (simp add: digits_value_append)
qed

section \<open>Splitting\<close>

fun js_split :: "char \<Rightarrow> string \<Rightarrow> string list" where
  "js_split sep [] = [[]]"
| "js_split sep (c # cs) =
     (if c = sep then [] # js_split sep cs
      else case js_split sep cs of [] \<Rightarrow> [[c]] | p # ps \<Rightarrow> (c # p) # ps)"

lemma js_split_Nonempty [simp]: "js_split sep s \<noteq> []"
  by (induction s) (auto split: list.splits)

lemma js_split_none: "sep \<notin> set s \<Longrightarrow> js_split sep s = [s]"
  by (induction s) auto

lemma js_split_sep: "sep \<notin> set s \<Longrightarrow> js_split sep (s @ sep # t) = s # js_split sep t"
  by (induction s) auto

lemma js_split_join:
  "ps \<noteq> [] \<Longrightarrow> \<forall>p \<in> set ps. sep \<notin> set p \<Longrightarrow> js_split sep (js_join [sep] ps) = ps"
  by (induction "[sep]" ps rule: js_join.induct) (simp_all add: js_split_none js_split_sep)

lemma js_join_Cons: "ps \<noteq> [] \<Longrightarrow> js_join sep (p # ps) = p @ sep @ js_join sep ps"
  by (cases ps) simp_all

lemma js_join_split: "js_join [sep] (js_split sep s) = s"
proof (induction s)
  case (Cons c s)
  obtain p ps where "js_split sep s = p # ps" by (cases "js_split sep s") auto
  then show ?case using Cons by (cases ps) auto
qed simp

lemma js_join_snoc: "ps \<noteq> [] \<Longrightarrow> js_join sep (ps @ [p]) = js_join sep ps @ sep @ p"
  by (induction sep ps rule: js_join.induct) simp_all

section \<open>Numbers\<close>

text \<open>A JavaScript number: not finite, or finite.\<close>

datatype js_number = NotFinite | Finite rat

text \<open>\<open>Number(s)\<close>: white space around it is ignored, the empty text is 0, digits with an optional
  sign are that integer; what the runtime makes of every other text (fractions, exponents, other
  bases, NaN) is \<open>other s\<close>.\<close>

definition js_Number :: "(string \<Rightarrow> js_number) \<Rightarrow> string \<Rightarrow> js_number" where
  "js_Number other s =
     (let t = js_trim s;
          (neg, u) = (case t of [] \<Rightarrow> (False, []) | c # cs \<Rightarrow>
             if c = CHR ''-'' then (True, cs) else if c = CHR ''+'' then (False, cs) else (False, t))
      in if t = [] then Finite 0
         else if u \<noteq> [] \<and> list_all digit u
         then Finite (of_int ((if neg then -1 else 1) * int (digits_value 0 u)))
         else other t)"

lemma digit_plain: "digit c \<Longrightarrow> \<not> js_space c \<and> c \<noteq> CHR ''-'' \<and> c \<noteq> CHR ''+'' \<and> c \<noteq> CHR '',''"
  by (auto simp: digit_def js_space_def)

lemma js_trim_digits [simp]: "js_trim (digits_of n) = digits_of n"
proof (rule js_trim_id)
  have "digit (hd (digits_of n))" "digit (last (digits_of n))"
    using digits_of_digits [of n] hd_in_set [of "digits_of n"] last_in_set [of "digits_of n"] by auto
  then show "digits_of n = [] \<or> \<not> js_space (hd (digits_of n)) \<and> \<not> js_space (last (digits_of n))"
    using digit_plain by blast
qed

lemma js_Number_digits: "js_Number other (digits_of n) = Finite (of_nat n)"
proof -
  have d: "\<forall>c \<in> set (digits_of n). digit c" by (rule digits_of_digits)
  moreover obtain c cs where "digits_of n = c # cs" by (cases "digits_of n") auto
  ultimately show ?thesis
    using digit_plain [of c] digits_value_digits_of [of n] js_trim_digits [of n]
    by (simp add: js_Number_def list_all_iff)
qed

lemma int_string_nat [simp]: "int_string (int n) = digits_of n"
  by (simp add: int_string_def)

lemma int_string_chars: "c \<in> set (int_string n) \<Longrightarrow> digit c \<or> c = CHR ''-''"
  using digits_of_digits by (auto simp: int_string_def split: if_splits)

lemma js_parseInt_int_string: "js_parseInt (int_string i) = Some i"
proof -
  have d: "takeWhile digit (digits_of n) = digits_of n" "dropWhile js_space (digits_of n) = digits_of n" for n
    using digits_of_digits [of n] digit_plain by (cases "digits_of n"; auto simp: takeWhile_eq_all_conv)+
  obtain c cs where c: "digits_of (nat i) = c # cs" "digit c"
    using digits_of_digits [of "nat i"] by (cases "digits_of (nat i)") auto
  show ?thesis
  proof (cases "i < 0")
    case True
    have "\<not> js_space (CHR ''-'')" by (simp add: js_space_def)
    then show ?thesis using True by (simp add: js_parseInt_def int_string_def digits_value_digits_of d Let_def)
  next
    case False
    have "c \<noteq> CHR ''-''" "c \<noteq> CHR ''+''" using digit_plain [OF c(2)] by auto
    then show ?thesis
      using False d [of "nat i"] digits_value_digits_of [of "nat i"]
      by (simp add: js_parseInt_def int_string_def c(1) Let_def)
  qed
qed

end
