(* ===== verification/Lifecycle.thy ===== *)
theory Lifecycle
  imports Js_Text
begin

text \<open>
  The agent governance lifecycle, web/src/lib/governance/lifecycle.ts: states, roles, actions,
  the transition table, evaluation of a requested transition with its stable error codes, the
  failure edges, and the bridge to the legacy status column.  A request carries raw strings;
  the state machine works on the parsed values.  Of an error the model keeps code, HTTP status
  and message, not the \<open>details\<close> object.
\<close>

section \<open>States, roles, actions\<close>

datatype lifecycle_state =
    Proposed | Provisioning | Active | Paused | Retiring | Retired | RecoveryPending | Failed

fun state_name :: "lifecycle_state \<Rightarrow> string" where
  "state_name Proposed = ''proposed''"
| "state_name Provisioning = ''provisioning''"
| "state_name Active = ''active''"
| "state_name Paused = ''paused''"
| "state_name Retiring = ''retiring''"
| "state_name Retired = ''retired''"
| "state_name RecoveryPending = ''recovery_pending''"
| "state_name Failed = ''failed''"

definition AGENT_LIFECYCLE_STATES :: "lifecycle_state list" where
  "AGENT_LIFECYCLE_STATES =
     [Proposed, Provisioning, Active, Paused, Retiring, Retired, RecoveryPending, Failed]"

definition lifecycle_terminal :: "lifecycle_state list" where "lifecycle_terminal = [Retired]"
definition TRANSIENT_STATES :: "lifecycle_state list" where "TRANSIENT_STATES = [Provisioning, Retiring]"
definition OPERATIONAL_STATES :: "lifecycle_state list" where "OPERATIONAL_STATES = [Active]"

definition parse_state :: "string \<Rightarrow> lifecycle_state option" where
  "parse_state v = List.find (\<lambda>s. state_name s = v) AGENT_LIFECYCLE_STATES"

definition isLifecycleState :: "string \<Rightarrow> bool" where
  "isLifecycleState v \<longleftrightarrow> v \<in> set (map state_name AGENT_LIFECYCLE_STATES)"

datatype governance_role = Creator | Operator | Governance | System

fun role_name :: "governance_role \<Rightarrow> string" where
  "role_name Creator = ''creator''"
| "role_name Operator = ''operator''"
| "role_name Governance = ''governance''"
| "role_name System = ''system''"

record lifecycle_actor =
  actor_id :: string
  actor_roles :: "governance_role list"

datatype lifecycle_action = Create | Activate | Pause | Retire | Recover

fun action_name :: "lifecycle_action \<Rightarrow> string" where
  "action_name Create = ''create''"
| "action_name Activate = ''activate''"
| "action_name Pause = ''pause''"
| "action_name Retire = ''retire''"
| "action_name Recover = ''recover''"

definition LIFECYCLE_ACTIONS :: "lifecycle_action list" where
  "LIFECYCLE_ACTIONS = [Create, Activate, Pause, Retire, Recover]"

definition parse_action :: "string \<Rightarrow> lifecycle_action option" where
  "parse_action v = List.find (\<lambda>a. action_name a = v) LIFECYCLE_ACTIONS"

definition isLifecycleAction :: "string \<Rightarrow> bool" where
  "isLifecycleAction v \<longleftrightarrow> v \<in> set (map action_name LIFECYCLE_ACTIONS)"

section \<open>The transition table\<close>

record transition_rule =
  rule_action :: lifecycle_action
  rule_from :: "lifecycle_state option list"  \<comment> \<open>\<open>None\<close>: no prior state\<close>
  rule_to :: lifecycle_state
  rule_roles :: "governance_role list"
  rule_approval :: bool
  rule_durable :: bool

definition TRANSITION_RULES :: "transition_rule list" where
  "TRANSITION_RULES =
    [\<lparr>rule_action = Create, rule_from = [None], rule_to = Proposed,
      rule_roles = [Creator, Operator, Governance], rule_approval = False, rule_durable = False\<rparr>,
     \<lparr>rule_action = Activate, rule_from = [Some Proposed], rule_to = Provisioning,
      rule_roles = [Governance, Operator], rule_approval = True, rule_durable = True\<rparr>,
     \<lparr>rule_action = Activate, rule_from = [Some Provisioning], rule_to = Active,
      rule_roles = [System], rule_approval = False, rule_durable = False\<rparr>,
     \<lparr>rule_action = Activate, rule_from = [Some Paused], rule_to = Active,
      rule_roles = [Operator, Governance], rule_approval = False, rule_durable = False\<rparr>,
     \<lparr>rule_action = Pause, rule_from = [Some Active], rule_to = Paused,
      rule_roles = [Operator, Governance, System], rule_approval = False, rule_durable = False\<rparr>,
     \<lparr>rule_action = Retire, rule_from = [Some Active, Some Paused], rule_to = Retiring,
      rule_roles = [Governance], rule_approval = True, rule_durable = True\<rparr>,
     \<lparr>rule_action = Retire, rule_from = [Some Retiring], rule_to = Retired,
      rule_roles = [System], rule_approval = False, rule_durable = False\<rparr>,
     \<lparr>rule_action = Recover, rule_from = [Some Failed], rule_to = RecoveryPending,
      rule_roles = [Operator, Governance], rule_approval = False, rule_durable = False\<rparr>,
     \<lparr>rule_action = Recover, rule_from = [Some RecoveryPending], rule_to = Provisioning,
      rule_roles = [Governance, Operator], rule_approval = True, rule_durable = True\<rparr>]"

fun FAILURE_TRANSITIONS :: "lifecycle_state \<Rightarrow> lifecycle_state option" where
  "FAILURE_TRANSITIONS Provisioning = Some Failed"
| "FAILURE_TRANSITIONS Retiring = Some Failed"
| "FAILURE_TRANSITIONS RecoveryPending = Some Failed"
| "FAILURE_TRANSITIONS _ = None"

definition findRule :: "lifecycle_action \<Rightarrow> lifecycle_state option \<Rightarrow> transition_rule option" where
  "findRule action src =
     List.find (\<lambda>r. rule_action r = action \<and> src \<in> set (rule_from r)) TRANSITION_RULES"

definition shares_role :: "governance_role list \<Rightarrow> lifecycle_actor \<Rightarrow> bool" where
  "shares_role roles actor \<longleftrightarrow> list_ex (\<lambda>role. role \<in> set (actor_roles actor)) roles"

definition allowedActions :: "lifecycle_state \<Rightarrow> lifecycle_actor \<Rightarrow> lifecycle_action list" where
  "allowedActions src actor = map rule_action
     (filter (\<lambda>r. Some src \<in> set (rule_from r) \<and> shares_role (rule_roles r) actor
        \<and> \<not> (length (rule_roles r) = 1 \<and> rule_roles r ! 0 = System)) TRANSITION_RULES)"

section \<open>Errors\<close>

datatype lifecycle_code =
    UnknownAction | UnknownState | InvalidTransition | TerminalState | Unauthorized
  | ApprovalRequired | PrerequisiteFailed | InvalidPayload | Conflict

fun ERROR_STATUS :: "lifecycle_code \<Rightarrow> int" where
  "ERROR_STATUS UnknownAction = 400"
| "ERROR_STATUS UnknownState = 400"
| "ERROR_STATUS InvalidTransition = 409"
| "ERROR_STATUS TerminalState = 409"
| "ERROR_STATUS Unauthorized = 403"
| "ERROR_STATUS ApprovalRequired = 403"
| "ERROR_STATUS PrerequisiteFailed = 422"
| "ERROR_STATUS InvalidPayload = 400"
| "ERROR_STATUS Conflict = 409"

record lifecycle_error =
  le_code :: lifecycle_code
  le_status :: int
  le_message :: string

definition lifecycleError :: "lifecycle_code \<Rightarrow> string \<Rightarrow> lifecycle_error" where
  "lifecycleError code message = \<lparr>le_code = code, le_status = ERROR_STATUS code, le_message = message\<rparr>"

section \<open>Evaluating a transition\<close>

record transition_request =
  rq_action :: string
  rq_from :: "string option"
  rq_actor :: lifecycle_actor
  rq_governanceApproved :: "bool option"

record transition_decision =
  td_action :: lifecycle_action
  td_from :: "lifecycle_state option"
  td_to :: lifecycle_state
  td_durable :: bool
  td_actor :: lifecycle_actor

definition evaluateTransition :: "transition_request \<Rightarrow> lifecycle_error + transition_decision" where
  "evaluateTransition rq =
     (case parse_action (rq_action rq) of
        None \<Rightarrow> Inl (lifecycleError UnknownAction (''Unknown lifecycle action: '' @ rq_action rq))
      | Some action \<Rightarrow>
          if (case rq_from rq of None \<Rightarrow> False | Some v \<Rightarrow> \<not> isLifecycleState v)
          then Inl (lifecycleError UnknownState
                 (''Unknown lifecycle state: '' @ coalesce (rq_from rq) ''''))
          else
            let src = (case rq_from rq of None \<Rightarrow> None | Some v \<Rightarrow> parse_state v)
            in if (case src of None \<Rightarrow> False | Some s \<Rightarrow> s \<in> set lifecycle_terminal)
               then Inl (lifecycleError TerminalState (''Agent is '' @ coalesce (rq_from rq) ''''
                      @ ''; no further lifecycle transitions are possible''))
               else case findRule action src of
                 None \<Rightarrow> Inl (lifecycleError InvalidTransition (''Cannot '' @ action_name action
                      @ '' an agent in state '' @ coalesce (rq_from rq) ''none''))
               | Some rule \<Rightarrow>
                   if \<not> shares_role (rule_roles rule) (rq_actor rq)
                   then Inl (lifecycleError Unauthorized (''Action '' @ action_name action
                      @ '' requires one of: '' @ js_join '', '' (map role_name (rule_roles rule))))
                   else if rule_approval rule \<and> rq_governanceApproved rq \<noteq> Some True
                   then Inl (lifecycleError ApprovalRequired (''Action '' @ action_name action
                      @ '' requires an approved governance proposal''))
                   else Inr \<lparr>td_action = action, td_from = src, td_to = rule_to rule,
                        td_durable = rule_durable rule, td_actor = rq_actor rq\<rparr>)"

definition failureStateFor :: "lifecycle_state \<Rightarrow> lifecycle_error + lifecycle_state" where
  "failureStateFor src =
     (case FAILURE_TRANSITIONS src of
        None \<Rightarrow> Inl (lifecycleError InvalidTransition
             (''State '' @ state_name src @ '' has no failure transition''))
      | Some dst \<Rightarrow> Inr dst)"

section \<open>Legacy status bridge\<close>

text \<open>The lookup is on a plain object, so the two lower-case names Object.prototype answers
  give something that is no lifecycle state at all: \<open>None\<close>.\<close>

definition toLifecycleState :: "string option \<Rightarrow> lifecycle_state option" where
  "toLifecycleState dbStatus =
     (if \<not> truthy_str dbStatus then Some Active
      else let key = js_lower (js_trim (coalesce dbStatus ''''))
           in if key \<in> set [''constructor'', ''__proto__''] then None
              else Some (coalesce (parse_state key) Active))"

definition toLegacyStatus :: "lifecycle_state \<Rightarrow> string" where
  "toLegacyStatus s =
     (if s = Active then ''Active'' else if s = Retired then ''Retired'' else ''Paused'')"

definition acceptsNewWork :: "lifecycle_state \<Rightarrow> bool" where
  "acceptsNewWork s \<longleftrightarrow> s \<in> set OPERATIONAL_STATES"

section \<open>Facts\<close>

lemma parse_state_name [simp]: "parse_state (state_name s) = Some s"
  by (cases s) (simp_all add: parse_state_def AGENT_LIFECYCLE_STATES_def)

lemma parse_action_name [simp]: "parse_action (action_name a) = Some a"
  by (cases a) (simp_all add: parse_action_def LIFECYCLE_ACTIONS_def)

lemma all_states: "s \<in> set AGENT_LIFECYCLE_STATES"
  by (cases s) (simp_all add: AGENT_LIFECYCLE_STATES_def)

lemma parse_state_eq: "parse_state v = Some s \<longleftrightarrow> v = state_name s"
proof
  assume "parse_state v = Some s"
  then show "v = state_name s" unfolding parse_state_def using find_SomeD by fastforce
qed simp

lemma isLifecycleState_parse: "isLifecycleState v \<longleftrightarrow> (\<exists>s. v = state_name s)"
  using all_states by (auto simp: isLifecycleState_def)

lemma legacy_names [simp]: "js_lower ''Active'' = ''active''" "js_lower ''Paused'' = ''paused''"
  "js_lower ''Retired'' = ''retired''"
  by code_simp+


text \<open>The decision on parsed values, which the raw request's evaluation reduces to.\<close>

lemma evaluate_ok:
  "evaluateTransition rq = Inr d \<longleftrightarrow>
     (\<exists>action rule src. rq_action rq = action_name action \<and> rq_from rq = map_option state_name src \<and>
        src \<noteq> Some Retired \<and> findRule action src = Some rule \<and>
        shares_role (rule_roles rule) (rq_actor rq) \<and>
        (rule_approval rule \<longrightarrow> rq_governanceApproved rq = Some True) \<and>
        d = \<lparr>td_action = action, td_from = src, td_to = rule_to rule,
             td_durable = rule_durable rule, td_actor = rq_actor rq\<rparr>)"
  (is "?L = ?R")
proof
  assume ?L
  then obtain action where a: "parse_action (rq_action rq) = Some action"
    by (auto simp: evaluateTransition_def split: option.splits)
  then have an: "rq_action rq = action_name action"
    unfolding parse_action_def using find_SomeD by fastforce
  define src where "src = (case rq_from rq of None \<Rightarrow> None | Some v \<Rightarrow> parse_state v)"
  have from_name: "rq_from rq = map_option state_name src"
    using \<open>?L\<close> a by (auto simp: evaluateTransition_def src_def isLifecycleState_parse split: option.splits if_splits)
  show ?R
    using \<open>?L\<close> a an from_name
    by (intro exI [of _ action] exI [of _ "the (findRule action src)"] exI [of _ src])
       (auto simp: evaluateTransition_def src_def [symmetric] lifecycle_terminal_def Let_def
         split: option.splits if_splits)
next
  assume ?R
  then obtain action rule src where h: "rq_action rq = action_name action"
    "rq_from rq = map_option state_name src" "src \<noteq> Some Retired" "findRule action src = Some rule"
    "shares_role (rule_roles rule) (rq_actor rq)"
    "rule_approval rule \<longrightarrow> rq_governanceApproved rq = Some True"
    "d = \<lparr>td_action = action, td_from = src, td_to = rule_to rule, td_durable = rule_durable rule,
          td_actor = rq_actor rq\<rparr>" by blast
  have known: "\<And>s. isLifecycleState (state_name s)" by (auto simp: isLifecycleState_parse)
  from h show ?L
    by (cases src) (simp_all add: evaluateTransition_def known lifecycle_terminal_def)
qed

lemma findRule_in: "findRule a src = Some r \<Longrightarrow> r \<in> set TRANSITION_RULES \<and> rule_action r = a \<and> src \<in> set (rule_from r)"
  unfolding findRule_def by (drule find_SomeD) simp

text \<open>Facts of the table, checked rule by rule.\<close>

lemma rules_match_once:
  "\<forall>r \<in> set TRANSITION_RULES. \<forall>src \<in> set (rule_from r). findRule (rule_action r) src = Some r"
  unfolding TRANSITION_RULES_def findRule_def by simp

lemma rules_checked:
  "\<forall>r \<in> set TRANSITION_RULES.
     (rule_to r \<in> {Provisioning, Retiring} \<longrightarrow> rule_approval r \<and> set (rule_roles r) \<subseteq> {Governance, Operator}) \<and>
     (rule_durable r \<longleftrightarrow> rule_to r \<in> {Provisioning, Retiring}) \<and>
     (rule_to r = Retired \<longrightarrow> rule_from r = [Some Retiring] \<and> rule_roles r = [System]) \<and>
     (\<forall>src \<in> set (rule_from r). src \<in> {None, Some Proposed} \<longrightarrow> rule_to r \<in> {Proposed, Provisioning})"
  unfolding TRANSITION_RULES_def by simp

lemmas rule_facts = rules_checked [rule_format]

lemma shares_role_iff: "shares_role roles actor \<longleftrightarrow> (\<exists>role \<in> set roles. role \<in> set (actor_roles actor))"
  by (auto simp: shares_role_def list_ex_iff)

lemma edges_checked:
  "\<forall>r \<in> set TRANSITION_RULES.
     (rule_to r = Retiring \<longrightarrow> set (rule_roles r) = {Governance}) \<and>
     (None \<in> set (rule_from r) \<longrightarrow> rule_to r = Proposed) \<and>
     (Some Proposed \<in> set (rule_from r) \<longrightarrow> rule_to r = Provisioning) \<and>
     (Some Failed \<in> set (rule_from r) \<longrightarrow> rule_to r = RecoveryPending) \<and>
     (Some RecoveryPending \<in> set (rule_from r) \<longrightarrow> rule_to r = Provisioning) \<and>
     (rule_to r = Active \<longrightarrow> set (rule_from r) \<subseteq> {Some Provisioning, Some Paused}) \<and>
     (Some Provisioning \<in> set (rule_from r) \<longrightarrow> rule_roles r = [System]) \<and> rule_to r \<noteq> Failed"
  unfolding TRANSITION_RULES_def by simp

section \<open>What an accepted request needs\<close>

text \<open>C1.
  Whatever request the transition function accepts, for the state, the actor and the approval flag it is
  given: it is durable exactly when it leads into provisioning or retiring, and then carries an approved
  proposal and comes from a governance or operator role, governance alone for retiring; only the system
  takes an agent out of provisioning or retires it, the latter only from retiring; activation starts from
  provisioning or paused; a new, proposed, failed or recovering agent has one way on, of which the
  proposed and the recovering one's needs approval; no request fails an agent, and none moves a retired one.\<close>

theorem lifecycle_needs_approval:
  assumes "evaluateTransition rq = Inr d"
  shows "(td_durable d \<longleftrightarrow> td_to d \<in> {Provisioning, Retiring}) \<and>
    (td_durable d \<longrightarrow> rq_governanceApproved rq = Some True \<and>
       (Governance \<in> set (actor_roles (rq_actor rq)) \<or> Operator \<in> set (actor_roles (rq_actor rq)))) \<and>
    (td_to d = Retiring \<longrightarrow> Governance \<in> set (actor_roles (rq_actor rq))) \<and>
    (td_from d = Some Provisioning \<or> td_to d = Retired \<longrightarrow> System \<in> set (actor_roles (rq_actor rq))) \<and>
    (td_to d = Retired \<longrightarrow> td_from d = Some Retiring) \<and>
    (td_to d = Active \<longrightarrow> td_from d \<in> {Some Provisioning, Some Paused}) \<and>
    (td_from d = None \<longrightarrow> td_to d = Proposed) \<and> (td_from d = Some Proposed \<longrightarrow> td_to d = Provisioning) \<and>
    (td_from d = Some Failed \<longrightarrow> td_to d = RecoveryPending) \<and> (td_from d = Some RecoveryPending \<longrightarrow> td_to d = Provisioning) \<and>
    td_to d \<noteq> Failed \<and> td_from d \<noteq> Some Retired \<and> rq_from rq = map_option state_name (td_from d)"
proof -
  obtain action rule where r: "findRule action (td_from d) = Some rule" "td_from d \<noteq> Some Retired"
    "shares_role (rule_roles rule) (rq_actor rq)" "td_to d = rule_to rule" "rq_from rq = map_option state_name (td_from d)"
    "td_durable d = rule_durable rule" "rule_approval rule \<longrightarrow> rq_governanceApproved rq = Some True"
    using assms by (auto simp: evaluate_ok)
  have m: "rule \<in> set TRANSITION_RULES" "td_from d \<in> set (rule_from rule)"
    using findRule_in [OF r(1)] by simp_all
  note facts = bspec [OF rules_checked m(1)] and edges = bspec [OF edges_checked m(1)]
  obtain role where role: "role \<in> set (rule_roles rule)" "role \<in> set (actor_roles (rq_actor rq))"
    using r(3) by (auto simp: shares_role_iff)
  have durable: "td_durable d \<longleftrightarrow> td_to d \<in> {Provisioning, Retiring}"
    using facts r(4,6) by simp
  have retired: "td_to d = Retired \<longrightarrow> td_from d = Some Retiring \<and> System \<in> set (actor_roles (rq_actor rq))"
    using facts role m(2) r(4) by auto
  have approved: "td_durable d \<longrightarrow> rq_governanceApproved rq = Some True \<and>
       (Governance \<in> set (actor_roles (rq_actor rq)) \<or> Operator \<in> set (actor_roles (rq_actor rq)))"
  proof
    assume "td_durable d"
    then have "rule_approval rule" "role \<in> {Governance, Operator}"
      using durable facts role(1) unfolding r(4) by blast+
    then show "rq_governanceApproved rq = Some True \<and>
       (Governance \<in> set (actor_roles (rq_actor rq)) \<or> Operator \<in> set (actor_roles (rq_actor rq)))"
      using r(7) role(2) by blast
  qed
  have retiring: "Governance \<in> set (actor_roles (rq_actor rq))" if "td_to d = Retiring"
  proof -
    have "set (rule_roles rule) = {Governance}" using edges that by (simp add: r(4))
    then show ?thesis using role by simp
  qed
  have provisioning: "System \<in> set (actor_roles (rq_actor rq))" if "td_from d = Some Provisioning"
  proof -
    have "rule_roles rule = [System]" using edges m(2) that by simp
    then show ?thesis using role by simp
  qed
  have system: "td_from d = Some Provisioning \<or> td_to d = Retired \<longrightarrow> System \<in> set (actor_roles (rq_actor rq))"
    "td_to d = Retired \<longrightarrow> td_from d = Some Retiring"
    using provisioning retired by blast+
  have active: "td_to d = Active \<longrightarrow> td_from d \<in> {Some Provisioning, Some Paused}"
    using edges m(2) unfolding r(4) by blast
  have ways: "td_from d = None \<longrightarrow> td_to d = Proposed" "td_from d = Some Proposed \<longrightarrow> td_to d = Provisioning"
    "td_from d = Some Failed \<longrightarrow> td_to d = RecoveryPending" "td_from d = Some RecoveryPending \<longrightarrow> td_to d = Provisioning"
    "td_to d \<noteq> Failed"
    using edges m(2) unfolding r(4) by ((intro impI, simp)+, simp)
  show ?thesis by (intro conjI durable approved impI [OF retiring] system active ways r(2,5))
qed

definition governor :: lifecycle_actor where
  "governor = \<lparr>actor_id = ''G1'', actor_roles = [Governance, System]\<rparr>"

definition request :: "string \<Rightarrow> string option \<Rightarrow> transition_request" where
  "request a src = \<lparr>rq_action = a, rq_from = src, rq_actor = governor, rq_governanceApproved = Some True\<rparr>"

lemma request_steps:
  "evaluateTransition (request ''create'' None) = Inr \<lparr>td_action = Create, td_from = None,
     td_to = Proposed, td_durable = False, td_actor = governor\<rparr>"
  "evaluateTransition (request ''activate'' (Some ''proposed'')) = Inr \<lparr>td_action = Activate,
     td_from = Some Proposed, td_to = Provisioning, td_durable = True, td_actor = governor\<rparr>"
  by (simp_all add: evaluateTransition_def request_def governor_def parse_action_def
      LIFECYCLE_ACTIONS_def parse_state_def AGENT_LIFECYCLE_STATES_def isLifecycleState_def
      lifecycle_terminal_def findRule_def TRANSITION_RULES_def shares_role_def)

theorem lifecycle_needs_approval_witness:
  "evaluateTransition (request ''activate'' (Some ''proposed'')) = Inr \<lparr>td_action = Activate,
     td_from = Some Proposed, td_to = Provisioning, td_durable = True, td_actor = governor\<rparr> \<and>
   rq_governanceApproved (request ''activate'' (Some ''proposed'')) = Some True"
  using lifecycle_needs_approval [OF request_steps(2)] request_steps(2) by simp

section \<open>What an actor is offered\<close>

definition system_only :: "lifecycle_state \<Rightarrow> lifecycle_action \<Rightarrow> bool" where
  "system_only s a \<longleftrightarrow> (s, a) \<in> {(Provisioning, Activate), (Retiring, Retire)}"

lemma rules_system_only:
  "\<forall>r \<in> set TRANSITION_RULES. \<forall>src \<in> set (rule_from r). \<forall>s. src = Some s \<longrightarrow>
     (length (rule_roles r) = 1 \<and> rule_roles r ! 0 = System) = system_only s (rule_action r)"
  unfolding TRANSITION_RULES_def by (simp add: system_only_def)

text \<open>The actions offered to an actor are exactly the ones it could request: an action is offered in
  a state when the request, backed by an approved proposal, would be accepted, except for the two
  edges the worker takes itself, which are never offered, not even to a system actor.\<close>

theorem allowed_actions_exact:
  "a \<in> set (allowedActions s actor) \<longleftrightarrow>
     \<not> system_only s a \<and>
     (\<exists>d. evaluateTransition \<lparr>rq_action = action_name a, rq_from = Some (state_name s),
        rq_actor = actor, rq_governanceApproved = Some True\<rparr> = Inr d)"
proof -
  have offered: "a \<in> set (allowedActions s actor) \<longleftrightarrow> (\<exists>r \<in> set TRANSITION_RULES. rule_action r = a \<and>
      Some s \<in> set (rule_from r) \<and> shares_role (rule_roles r) actor \<and> \<not> system_only s a)"
    using rules_system_only by (auto simp: allowedActions_def)
  have found: "findRule a (Some s) = Some r \<longleftrightarrow> r \<in> set TRANSITION_RULES \<and> rule_action r = a \<and>
      Some s \<in> set (rule_from r)" for r
    using rules_match_once findRule_in by fastforce
  have not_retired: "findRule a (Some s) = Some r \<Longrightarrow> s \<noteq> Retired" for r
    by (cases a) (auto simp: findRule_def TRANSITION_RULES_def)
  have inj: "action_name x = action_name x' \<longleftrightarrow> x = x'" "state_name y = state_name y' \<longleftrightarrow> y = y'"
    for x x' y y'
    by (metis parse_action_name option.inject, metis parse_state_name option.inject)
  have accepted: "(\<exists>d. evaluateTransition \<lparr>rq_action = action_name a, rq_from = Some (state_name s),
        rq_actor = actor, rq_governanceApproved = Some True\<rparr> = Inr d) \<longleftrightarrow>
      (\<exists>r. findRule a (Some s) = Some r \<and> shares_role (rule_roles r) actor)"
    (is "?L = ?R")
  proof
    assume ?L
    then obtain action rule src where "action_name a = action_name action"
      "Some (state_name s) = map_option state_name src" "findRule action src = Some rule"
      "shares_role (rule_roles rule) actor"
      by (auto simp: evaluate_ok)
    then show ?R by (cases src) (auto simp: inj)
  next
    assume ?R
    then obtain r where r: "findRule a (Some s) = Some r" "shares_role (rule_roles r) actor" by blast
    have "evaluateTransition \<lparr>rq_action = action_name a, rq_from = Some (state_name s),
        rq_actor = actor, rq_governanceApproved = Some True\<rparr> = Inr \<lparr>td_action = a, td_from = Some s,
        td_to = rule_to r, td_durable = rule_durable r, td_actor = actor\<rparr>"
      unfolding evaluate_ok using r not_retired
      by (intro exI [of _ a] exI [of _ r] exI [of _ "Some s"]) simp
    then show ?L by blast
  qed
  show ?thesis unfolding offered accepted found by blast
qed

text \<open>The legacy status column loses nothing that matters: writing a lifecycle state to it and
  reading it back gives active for active, retired for retired and paused for everything else, so
  the agent accepts new work afterwards exactly if it did before; and a column that holds a
  lifecycle state's own name is read as that state.\<close>

theorem legacy_bridge_safe:
  "toLifecycleState (Some (toLegacyStatus s))
     = Some (if s \<in> {Active, Retired} then s else Paused) \<and>
   acceptsNewWork (if s \<in> {Active, Retired} then s else Paused) = acceptsNewWork s \<and>
   toLifecycleState (Some (state_name s)) = Some s"
proof -
  have "toLifecycleState (Some (toLegacyStatus s)) = Some (if s \<in> {Active, Retired} then s else Paused)"
    by (induction s) code_simp+
  moreover have "acceptsNewWork (if s \<in> {Active, Retired} then s else Paused) = acceptsNewWork s"
    by (induction s) code_simp+
  moreover have "toLifecycleState (Some (state_name s)) = Some s" by (induction s) code_simp+
  ultimately show ?thesis by blast
qed

end
