(* ===== verification/Lifecycle_Events.thy ===== *)
theory Lifecycle_Events
  imports Lifecycle Dedupe
begin

text \<open>
  The lifecycle event log, web/src/lib/governance/events.ts: appending with a per-agent sequence
  under optimistic concurrency, reading it page by page, and the current state at its tip.
  \<open>detail\<close> is the object sanitizeDetail produced.  What other processes do to the log between
  the read of the tip and the insert of one attempt is an argument.
\<close>

section \<open>Data\<close>

record lifecycle_event =
  lv_id :: string
  lv_talosId :: string
  lv_sequence :: int
  lv_eventType :: string
  lv_fromState :: "lifecycle_state option"
  lv_toState :: lifecycle_state
  lv_actorId :: string
  lv_actorRole :: governance_role
  lv_jobId :: "string option"
  lv_stepName :: "string option"
  lv_detail :: json
  lv_idempotencyKey :: "string option"
  lv_createdAt :: instant

type_synonym event_log = "lifecycle_event list"

record lifecycle_event_input =
  li_talosId :: string
  li_eventType :: string
  li_fromState :: "lifecycle_state option"
  li_toState :: lifecycle_state
  li_actorId :: string
  li_actorRole :: governance_role
  li_jobId :: "string option"
  li_stepName :: "string option"
  li_detail :: json
  li_idempotencyKey :: "string option"

text \<open>The primary key and the unique indexes \<open>(talosId, sequence)\<close> and, where the key is not
  null, \<open>(talosId, idempotencyKey)\<close>.\<close>

definition log_conflicts :: "lifecycle_event \<Rightarrow> lifecycle_event \<Rightarrow> bool" where
  "log_conflicts a b \<longleftrightarrow> lv_id a = lv_id b \<or>
     (lv_talosId a = lv_talosId b \<and> lv_sequence a = lv_sequence b) \<or>
     (lv_idempotencyKey a \<noteq> None \<and> lv_talosId a = lv_talosId b
        \<and> lv_idempotencyKey a = lv_idempotencyKey b)"

section \<open>Appending\<close>

definition log_tip :: "string \<Rightarrow> event_log \<Rightarrow> lifecycle_event option" where
  "log_tip talos t = first_row (sort_key (\<lambda>r. - lv_sequence r) (sel (\<lambda>r. lv_talosId r = talos) t))"

definition tip_sequence :: "string \<Rightarrow> event_log \<Rightarrow> int" where
  "tip_sequence talos t = (case log_tip talos t of None \<Rightarrow> 0 | Some r \<Rightarrow> lv_sequence r)"

definition event_for_key :: "string \<Rightarrow> string option \<Rightarrow> event_log \<Rightarrow> (string \<times> int) option" where
  "event_for_key talos key t = map_option (\<lambda>r. (lv_id r, lv_sequence r))
     (sel_one (\<lambda>r. lv_talosId r = talos \<and> lv_idempotencyKey r \<noteq> None \<and> lv_idempotencyKey r = key) t)"

definition new_log_row :: "lifecycle_event_input \<Rightarrow> instant \<Rightarrow> string \<Rightarrow> int \<Rightarrow> lifecycle_event" where
  "new_log_row inp now newId sequence =
     \<lparr>lv_id = newId, lv_talosId = li_talosId inp, lv_sequence = sequence,
      lv_eventType = li_eventType inp, lv_fromState = li_fromState inp, lv_toState = li_toState inp,
      lv_actorId = li_actorId inp, lv_actorRole = li_actorRole inp, lv_jobId = li_jobId inp,
      lv_stepName = li_stepName inp, lv_detail = li_detail inp,
      lv_idempotencyKey = li_idempotencyKey inp, lv_createdAt = now\<rparr>"

datatype emit_error = AppendFailed string

definition MAX_SEQUENCE_ATTEMPTS :: nat where "MAX_SEQUENCE_ATTEMPTS = 5"

text \<open>One entry of the list per attempt: what happens meanwhile, and the id drawn for the row.\<close>

fun emit_loop ::
  "lifecycle_event_input \<Rightarrow> instant \<Rightarrow> ((event_log \<Rightarrow> event_log) \<times> string) list \<Rightarrow> event_log
     \<Rightarrow> emit_error + (event_log \<times> string \<times> int \<times> bool)" where
  "emit_loop inp now [] t = Inl (AppendFailed (li_eventType inp))"
| "emit_loop inp now ((meanwhile, newId) # attempts) t =
     (let tip = tip_sequence (li_talosId inp) t;
          row = new_log_row inp now newId (tip + 1);
          t' = meanwhile t
      in if \<not> list_ex (log_conflicts row) t' then Inr (t' @ [row], lv_id row, lv_sequence row, False)
         else if truthy_str (li_idempotencyKey inp)
         then (case event_for_key (li_talosId inp) (li_idempotencyKey inp) t' of
             Some (i, n) \<Rightarrow> Inr (t', i, n, True)
           | None \<Rightarrow> emit_loop inp now attempts t')
         else emit_loop inp now attempts t')"

text \<open>\<open>meanwhile\<close> and \<open>fresh\<close> give each attempt's interference and row id.\<close>

definition emitLifecycleEvent ::
  "lifecycle_event_input \<Rightarrow> instant \<Rightarrow> (nat \<Rightarrow> event_log \<Rightarrow> event_log) \<Rightarrow> (nat \<Rightarrow> string) \<Rightarrow> event_log
     \<Rightarrow> emit_error + (event_log \<times> string \<times> int \<times> bool)" where
  "emitLifecycleEvent inp now meanwhile fresh t =
     (case (if truthy_str (li_idempotencyKey inp)
            then event_for_key (li_talosId inp) (li_idempotencyKey inp) t else None) of
        Some (i, n) \<Rightarrow> Inr (t, i, n, True)
      | None \<Rightarrow> emit_loop inp now
          (map (\<lambda>k. (meanwhile k, fresh k)) [0..<MAX_SEQUENCE_ATTEMPTS]) t)"

section \<open>Reading\<close>

definition agent_events :: "string \<Rightarrow> int option \<Rightarrow> event_log \<Rightarrow> event_log" where
  "agent_events talos before t = sort_key (\<lambda>r. - lv_sequence r)
     (sel (\<lambda>r. lv_talosId r = talos \<and> (truthy_int before \<longrightarrow> lv_sequence r < coalesce before 0)) t)"

definition readLifecycleEvents ::
  "string \<Rightarrow> int option \<Rightarrow> int option \<Rightarrow> event_log \<Rightarrow> event_log \<times> int option" where
  "readLifecycleEvents talos limit_opt before t =
     (let limit = min (max (coalesce limit_opt 25) 1) 100;
          rows = take (nat (limit + 1)) (agent_events talos before t);
          page = take (nat limit) rows
      in (page, if int (length rows) > limit then Some (lv_sequence (last page)) else None))"

definition currentStateFromLog :: "string \<Rightarrow> event_log \<Rightarrow> (lifecycle_state \<times> int) option" where
  "currentStateFromLog talos t = map_option (\<lambda>r. (lv_toState r, lv_sequence r)) (log_tip talos t)"

section \<open>The log invariant\<close>

text \<open>An agent's sequence numbers are 1, 2, .. without gaps or repeats, and a key names one
  row.\<close>

definition sequences :: "string \<Rightarrow> event_log \<Rightarrow> int list" where
  "sequences talos t = map lv_sequence (filter (\<lambda>r. lv_talosId r = talos) t)"

definition log_ok :: "event_log \<Rightarrow> bool" where
  "log_ok t \<longleftrightarrow> (\<forall>talos. distinct (sequences talos t) \<and>
     set (sequences talos t) = {1..int (length (sequences talos t))})"

lemma sequences_append [simp]:
  "sequences talos (t @ [r]) = sequences talos t @ (if lv_talosId r = talos then [lv_sequence r] else [])"
  by (simp add: sequences_def)

lemma log_tip_max:
  "log_tip talos t = Some r \<Longrightarrow> r \<in> set t \<and> lv_talosId r = talos \<and>
     (\<forall>n \<in> set (sequences talos t). n \<le> lv_sequence r)"
proof -
  assume tip: "log_tip talos t = Some r"
  let ?rs = "sort_key (\<lambda>r. - lv_sequence r) (filter (\<lambda>r. lv_talosId r = talos) t)"
  obtain rest where rs: "?rs = r # rest"
    using tip by (cases ?rs) (simp_all add: log_tip_def)
  have "sorted (map (\<lambda>r. - lv_sequence r) ?rs)" by simp
  then have le: "\<forall>x \<in> set ?rs. lv_sequence x \<le> lv_sequence r" unfolding rs by simp
  have "r \<in> set ?rs" unfolding rs by simp
  then show ?thesis using le by (auto simp: sequences_def)
qed

lemma tip_sequence_length:
  assumes "log_ok t"
  shows "tip_sequence talos t = int (length (sequences talos t))"
proof (cases "log_tip talos t")
  case None
  then have "filter (\<lambda>r. lv_talosId r = talos) t = []"
    by (simp add: log_tip_def flip: set_empty)
  then show ?thesis using None by (simp add: tip_sequence_def sequences_def)
next
  case (Some r)
  let ?n = "int (length (sequences talos t))"
  have all: "set (sequences talos t) = {1..?n}" using assms by (simp add: log_ok_def)
  have r: "lv_sequence r \<in> set (sequences talos t)" "\<forall>n \<in> set (sequences talos t). n \<le> lv_sequence r"
    using log_tip_max [OF Some] by (auto simp: sequences_def)
  have bounds: "1 \<le> lv_sequence r" "lv_sequence r \<le> ?n" using r(1) unfolding all by simp_all
  then have "?n \<in> set (sequences talos t)" unfolding all by simp
  then have "?n \<le> lv_sequence r" using r(2) by blast
  then show ?thesis using bounds Some by (simp add: tip_sequence_def)
qed

text \<open>A row that an old tip numbered can only be inserted if nothing was appended since.\<close>

lemma log_ok_append:
  assumes "log_ok t" "log_ok t'" "length (sequences (lv_talosId row) t) \<le> length (sequences (lv_talosId row) t')"
    and "lv_sequence row = tip_sequence (lv_talosId row) t + 1" "\<not> list_ex (log_conflicts row) t'"
  shows "log_ok (t' @ [row])"
proof -
  let ?n = "length (sequences (lv_talosId row) t)" and ?n' = "length (sequences (lv_talosId row) t')"
  have seq: "lv_sequence row = int ?n + 1" using assms(4) tip_sequence_length [OF assms(1)] by simp
  have fresh: "lv_sequence row \<notin> set (sequences (lv_talosId row) t')"
    using assms(5) by (auto simp: sequences_def list_ex_iff log_conflicts_def)
  have all: "set (sequences (lv_talosId row) t') = {1..int ?n'}" using assms(2) by (simp add: log_ok_def)
  have "?n = ?n'" using fresh seq assms(3) unfolding all by auto
  then have "insert (lv_sequence row) {1..int ?n'} = {1..int ?n' + 1}" using seq by auto
  then show ?thesis using assms(2) fresh all by (auto simp: log_ok_def)
qed

text \<open>Interference by other appenders.\<close>

definition appends :: "(event_log \<Rightarrow> event_log) \<Rightarrow> bool" where
  "appends f \<longleftrightarrow> (\<forall>t. log_ok t \<longrightarrow> log_ok (f t) \<and> (\<exists>more. f t = t @ more))"

lemma appends_grows: "appends f \<Longrightarrow> log_ok t \<Longrightarrow> log_ok (f t) \<and> length (sequences talos t) \<le> length (sequences talos (f t))"
  by (fastforce simp: appends_def sequences_def)

lemma emit_loop_ok:
  assumes "log_ok t" "\<forall>(f, i) \<in> set attempts. appends f" "emit_loop inp now attempts t = Inr (t', i, n, d)"
  shows "log_ok t' \<and> (\<exists>r \<in> set t'. lv_id r = i \<and> lv_sequence r = n \<and> lv_talosId r = li_talosId inp
           \<and> lv_idempotencyKey r = li_idempotencyKey inp)"
  using assms
proof (induction inp now attempts t rule: emit_loop.induct)
  case (2 inp now f newId attempts t)
  define row where "row = new_log_row inp now newId (tip_sequence (li_talosId inp) t + 1)"
  have f: "log_ok (f t)" "length (sequences (li_talosId inp) t) \<le> length (sequences (li_talosId inp) (f t))"
    using appends_grows [of f t] 2(3,4) by auto
  have row: "lv_talosId row = li_talosId inp" "lv_sequence row = tip_sequence (li_talosId inp) t + 1"
    "lv_idempotencyKey row = li_idempotencyKey inp"
    by (simp_all add: row_def new_log_row_def)
  show ?case
  proof (cases "list_ex (log_conflicts row) (f t)")
    case False
    then have "t' = f t @ [row]" "i = lv_id row" "n = lv_sequence row"
      using 2(5) by (auto simp: row_def [symmetric] Let_def)
    moreover have "log_ok (f t @ [row])"
      using log_ok_append [OF 2(3) f(1) _ _ False] f(2) row by simp
    ultimately show ?thesis using row by auto
  next
    case True
    show ?thesis
    proof (cases "truthy_str (li_idempotencyKey inp) \<and>
        event_for_key (li_talosId inp) (li_idempotencyKey inp) (f t) \<noteq> None")
      case True
      then have "event_for_key (li_talosId inp) (li_idempotencyKey inp) (f t) = Some (i, n)" "t' = f t"
        using 2(5) \<open>list_ex _ _\<close> by (auto simp: row_def [symmetric] Let_def)
      then show ?thesis using f(1) by (auto simp: event_for_key_def dest!: find_SomeD)
    next
      case False
      then have none: "truthy_str (li_idempotencyKey inp) \<Longrightarrow>
          event_for_key (li_talosId inp) (li_idempotencyKey inp) (f t) = None" by blast
      then have "emit_loop inp now attempts (f t) = Inr (t', i, n, d)"
        using 2(5) \<open>list_ex _ _\<close> by (cases "truthy_str (li_idempotencyKey inp)") (auto simp: row_def [symmetric] Let_def)
      then show ?thesis
        using 2(1) [OF refl refl refl] 2(2) [OF refl refl refl] \<open>list_ex _ _\<close> none f(1) 2(4)
        by (cases "truthy_str (li_idempotencyKey inp)") (auto simp: row_def)
    qed
  qed
qed simp

section \<open>Properties\<close>

text \<open>Emission under a key, without interference, as the check-then-insert contract.\<close>

definition emit_keyed ::
  "string \<times> char \<times> string \<Rightarrow> instant \<times> (nat \<Rightarrow> event_log \<Rightarrow> event_log) \<times> (nat \<Rightarrow> string) \<times> lifecycle_event_input
     \<Rightarrow> event_log \<Rightarrow> emit_error + (event_log \<times> string \<times> int)" where
  "emit_keyed k i t = (case (k, i) of ((talos, c, cs), (now, meanwhile, fresh, inp)) \<Rightarrow>
     (case emitLifecycleEvent (inp\<lparr>li_talosId := talos, li_idempotencyKey := Some (c # cs)\<rparr>)
             now meanwhile fresh t of
        Inl e \<Rightarrow> Inl e | Inr (t', i, n, d) \<Rightarrow> Inr (t', i, n)))"

lemma emit_loop_key:
  assumes "emit_loop inp now attempts t = Inr (t', i, n, d)" "li_idempotencyKey inp = Some (c # cs)"
  shows "event_for_key (li_talosId inp) (Some (c # cs)) t' = Some (i, n)"
  using assms
proof (induction inp now attempts t rule: emit_loop.induct)
  case (2 inp now f newId attempts t)
  define row where "row = new_log_row inp now newId (tip_sequence (li_talosId inp) t + 1)"
  show ?case
  proof (cases "list_ex (log_conflicts row) (f t)")
    case False
    have k: "lv_talosId row = li_talosId inp" "lv_idempotencyKey row = Some (c # cs)"
      using 2(4) by (simp_all add: row_def new_log_row_def)
    have "List.find (\<lambda>r. lv_talosId r = li_talosId inp \<and> lv_idempotencyKey r \<noteq> None
        \<and> lv_idempotencyKey r = Some (c # cs)) (f t) = None"
      using False k by (auto simp: find_None_iff list_ex_iff log_conflicts_def)
    moreover have "t' = f t @ [row]" "i = lv_id row" "n = lv_sequence row"
      using 2(3) False by (auto simp: row_def [symmetric] Let_def)
    ultimately show ?thesis using k by (simp add: event_for_key_def find_append)
  next
    case True
    then show ?thesis
      using 2(1) [OF refl refl] 2(3,4) by (auto simp: row_def Let_def split: option.splits)
  qed
qed simp

interpretation emit_dedupe: idempotent_insert emit_keyed
  "\<lambda>(talos, c, cs) t. event_for_key talos (Some (c # cs)) t"
proof
  fix k i t and r :: "string \<times> int"
  assume "(case k of (talos, c, cs) \<Rightarrow> \<lambda>t. event_for_key talos (Some (c # cs)) t) t = Some r"
  then show "emit_keyed k i t = Inr (t, r)"
    by (auto simp: emit_keyed_def emitLifecycleEvent_def split: prod.splits)
next
  fix k i t t' and r :: "string \<times> int"
  assume "(case k of (talos, c, cs) \<Rightarrow> \<lambda>t. event_for_key talos (Some (c # cs)) t) t = None"
    and "emit_keyed k i t = Inr (t', r)"
  then show "(case k of (talos, c, cs) \<Rightarrow> \<lambda>t. event_for_key talos (Some (c # cs)) t) t' = Some r"
    by (auto simp: emit_keyed_def emitLifecycleEvent_def split: prod.splits sum.splits
        dest: emit_loop_key)
qed

definition sample_emit :: lifecycle_event_input where
  "sample_emit = \<lparr>li_talosId = ''a1'', li_eventType = ''agent.lifecycle.proposed'', li_fromState = None,
     li_toState = Proposed, li_actorId = ''G1'', li_actorRole = Creator, li_jobId = None,
     li_stepName = None, li_detail = JObj [], li_idempotencyKey = Some ''k''\<rparr>"

text \<open>C31.
  Appending keeps every agent's sequence gap-free whatever other appenders do between the read of
  the tip and the insert: the log stays numbered 1, 2, .. without repeats for every agent, the
  call returns the id and number of a row of that agent carrying its key, and the state at the tip
  is that of the highest number.\<close>

theorem emit_keeps_sequence:
  assumes "log_ok t" "\<forall>k. appends (meanwhile k)"
    and "emitLifecycleEvent inp now meanwhile fresh t = Inr (t', i, n, deduped)"
  shows "(\<forall>talos. distinct (sequences talos t') \<and>
            set (sequences talos t') = {1..int (length (sequences talos t'))}) \<and>
    (\<exists>r \<in> set t'. lv_id r = i \<and> lv_sequence r = n \<and> lv_talosId r = li_talosId inp
       \<and> lv_idempotencyKey r = li_idempotencyKey inp) \<and>
    (\<exists>s. currentStateFromLog (li_talosId inp) t' = Some (s, int (length (sequences (li_talosId inp) t'))))"
proof -
  have "log_ok t' \<and> (\<exists>r \<in> set t'. lv_id r = i \<and> lv_sequence r = n \<and> lv_talosId r = li_talosId inp
       \<and> lv_idempotencyKey r = li_idempotencyKey inp)"
  proof (cases "truthy_str (li_idempotencyKey inp) \<and>
      event_for_key (li_talosId inp) (li_idempotencyKey inp) t \<noteq> None")
    case True
    then have "event_for_key (li_talosId inp) (li_idempotencyKey inp) t = Some (i, n)" "t' = t"
      using assms(3) by (auto simp: emitLifecycleEvent_def)
    then show ?thesis using assms(1) by (auto simp: event_for_key_def dest!: find_SomeD)
  next
    case False
    then have "emit_loop inp now (map (\<lambda>k. (meanwhile k, fresh k)) [0..<MAX_SEQUENCE_ATTEMPTS]) t
        = Inr (t', i, n, deduped)"
      using assms(3) by (auto simp: emitLifecycleEvent_def split: if_splits option.splits)
    then show ?thesis using assms(1,2) by (intro emit_loop_ok) auto
  qed
  then have ok: "log_ok t'" and ex: "\<exists>r \<in> set t'. lv_id r = i \<and> lv_sequence r = n \<and>
      lv_talosId r = li_talosId inp \<and> lv_idempotencyKey r = li_idempotencyKey inp" by simp_all
  obtain r0 where tip: "log_tip (li_talosId inp) t' = Some r0"
  proof (cases "log_tip (li_talosId inp) t'")
    case None
    then have "filter (\<lambda>r. lv_talosId r = li_talosId inp) t' = []"
      by (simp add: log_tip_def flip: set_empty)
    then show ?thesis using ex by (auto simp: filter_empty_conv)
  qed
  have "lv_sequence r0 = int (length (sequences (li_talosId inp) t'))"
    using tip_sequence_length [OF ok, of "li_talosId inp"] tip by (simp add: tip_sequence_def)
  then show ?thesis
    using ok ex tip by (simp add: log_ok_def currentStateFromLog_def)
qed

text \<open>Another appender wins the first race.\<close>

definition rival :: "nat \<Rightarrow> event_log \<Rightarrow> event_log" where
  "rival k t = (if k = 0 \<and> t = [] then [new_log_row (sample_emit\<lparr>li_idempotencyKey := None\<rparr>) 5 ''r1'' 1] else t)"

lemma rival_appends: "appends (rival k)"
proof -
  let ?row = "new_log_row (sample_emit\<lparr>li_idempotencyKey := None\<rparr>) 5 ''r1'' 1"
  have "sequences talos [?row] = (if talos = ''a1'' then [1] else [])" for talos
    by (simp add: sequences_def new_log_row_def sample_emit_def)
  then have "log_ok [?row]" by (simp add: log_ok_def)
  then show ?thesis by (simp add: appends_def rival_def)
qed

lemma rival_run: "emitLifecycleEvent sample_emit 6 rival (\<lambda>k. if k = 0 then ''e1'' else ''e2'') [] =
    Inr ([new_log_row (sample_emit\<lparr>li_idempotencyKey := None\<rparr>) 5 ''r1'' 1,
          new_log_row sample_emit 6 ''e2'' 2], ''e2'', 2, False)"
proof -
  have "[0..<MAX_SEQUENCE_ATTEMPTS] = [0, 1, 2, 3, 4]" by code_simp
  then show ?thesis
    by (simp add: emitLifecycleEvent_def rival_def event_for_key_def sample_emit_def
        new_log_row_def log_conflicts_def tip_sequence_def log_tip_def Let_def)
qed

theorem emit_keeps_sequence_witness:
  "\<exists>t. emitLifecycleEvent sample_emit 6 rival (\<lambda>k. if k = 0 then ''e1'' else ''e2'') []
       = Inr (t, ''e2'', 2, False) \<and> set (sequences ''a1'' t) = {1..2}"
proof -
  let ?t = "[new_log_row (sample_emit\<lparr>li_idempotencyKey := None\<rparr>) 5 ''r1'' 1,
          new_log_row sample_emit 6 ''e2'' 2]"
  have "log_ok []" by (simp add: log_ok_def sequences_def)
  then have "set (sequences ''a1'' ?t) = {1..int (length (sequences ''a1'' ?t))}"
    using emit_keeps_sequence [OF _ _ rival_run] rival_appends by blast
  moreover have "length (sequences ''a1'' ?t) = 2"
    by (simp add: sequences_def new_log_row_def sample_emit_def)
  ultimately show ?thesis using rival_run by auto
qed

text \<open>Duplicate delivery collapses: once an event with a non-empty key has been appended or found, any
  number of redeliveries for the same agent and key, at whatever time, with whatever content and
  interference already visible, return the same row's id and number and append nothing.\<close>

theorem emit_redelivery_idempotent:
  assumes "li_idempotencyKey inp = Some key" "key \<noteq> []"
    and "emitLifecycleEvent inp now meanwhile fresh t = Inr (t', i, n, deduped)"
    and "li_talosId inp' = li_talosId inp" "li_idempotencyKey inp' = Some key"
  shows "emitLifecycleEvent inp' now' meanwhile' fresh' t' = Inr (t', i, n, True)"
proof -
  obtain c cs where key: "key = c # cs" using assms(2) by (cases key) auto
  have eq: "inp\<lparr>li_idempotencyKey := Some (c # cs)\<rparr> = inp"
    using assms(1) by (simp add: key)
  have "emit_keyed (li_talosId inp, c, cs) (now, meanwhile, fresh, inp) t = Inr (t', i, n)"
    using assms(3) by (simp add: emit_keyed_def eq)
  from emit_dedupe.ins_stored [OF this] show ?thesis
    using assms(4,5) by (simp add: emitLifecycleEvent_def key)
qed

theorem emit_redelivery_idempotent_witness:
  "\<exists>t. emitLifecycleEvent (sample_emit\<lparr>li_detail := JNull\<rparr>) 9 rival (\<lambda>k. ''x'') t = Inr (t, ''e2'', 2, True) \<and>
     length t = 2"
  using emit_redelivery_idempotent [OF _ _ rival_run, of "''k''" "sample_emit\<lparr>li_detail := JNull\<rparr>"
      9 rival "\<lambda>k. ''x''"]
  by (intro exI [of _ "[new_log_row (sample_emit\<lparr>li_idempotencyKey := None\<rparr>) 5 ''r1'' 1,
          new_log_row sample_emit 6 ''e2'' 2]"]) (simp add: sample_emit_def)

text \<open>Reading an agent's history is complete and without repeats whatever the page size: a page has at
  most 100 rows, newest first, and the page followed by what its cursor leads to is the listing it
  was cut from.\<close>

theorem read_events_complete:
  assumes "log_ok t" "readLifecycleEvents talos limit before t = (page, next)"
  shows "length page \<le> 100 \<and> agent_events talos before t = page @
    (case next of None \<Rightarrow> [] | Some c \<Rightarrow> agent_events talos (Some c) t)"
proof -
  define n where "n = nat (min (max (coalesce limit 25) 1) 100)"
  let ?rows = "agent_events talos before t"
  have n: "0 < n" "n \<le> 100" "nat (min (max (coalesce limit 25) 1) 100 + 1) = Suc n"
    "min (max (coalesce limit 25) 1) 100 = int n" by (auto simp: n_def)
  have page: "page = take n ?rows" and nxt: "next = (if n < length ?rows then Some (lv_sequence (last page)) else None)"
    using assms(2) by (auto simp: readLifecycleEvents_def Let_def n(3,4))
  show ?thesis
  proof (cases "n < length ?rows")
    case False
    then show ?thesis using page nxt n by simp
  next
    case True
    have ne: "take n ?rows \<noteq> []" using n True by auto
    then have last_in: "last page \<in> set ?rows" unfolding page by (metis in_set_takeD last_in_set)
    have "distinct (map lv_sequence (filter (\<lambda>r. lv_talosId r = talos) t))"
      using assms(1) by (auto simp: log_ok_def sequences_def)
    then have "distinct (map lv_sequence (filter Q (filter (\<lambda>r. lv_talosId r = talos) t)))" for Q
      by (rule distinct_map_filter)
    then have "distinct (map lv_sequence (filter (\<lambda>r. lv_talosId r = talos \<and> Q r) t))" for Q
      by (simp add: conj_commute)
    then have "sorted_wrt (\<lambda>a b. lv_sequence b < lv_sequence a) ?rows"
      unfolding agent_events_def by (rule sorted_desc_strict)
    then have rest: "filter (\<lambda>s. lv_sequence s < lv_sequence (last page)) ?rows = drop n ?rows"
      using keyset_split [OF _ ne, of lv_sequence "drop n ?rows"] page by simp
    have "lv_sequence (last page) \<in> set (sequences talos t)"
      using last_in by (auto simp: agent_events_def sequences_def)
    then have "lv_sequence (last page) \<noteq> 0" using assms(1) by (auto simp: log_ok_def)
    then have "agent_events talos (Some (lv_sequence (last page))) t
        = filter (\<lambda>s. lv_sequence s < lv_sequence (last page)) ?rows"
      using last_in by (auto simp: agent_events_def filter_sort intro!: arg_cong [where f = "sort_key _"] filter_cong)
    then show ?thesis using page nxt True rest n by simp
  qed
qed

theorem read_events_complete_witness:
  "let t = [new_log_row sample_emit 5 ''e1'' 1, new_log_row sample_emit 6 ''e2'' 2,
            new_log_row sample_emit 7 ''e3'' 3] in
   agent_events ''a1'' None t = fst (readLifecycleEvents ''a1'' (Some 2) None t) @
     agent_events ''a1'' (Some 2) t \<and> snd (readLifecycleEvents ''a1'' (Some 2) None t) = Some 2"
proof -
  let ?t = "[new_log_row sample_emit 5 ''e1'' 1, new_log_row sample_emit 6 ''e2'' 2,
            new_log_row sample_emit 7 ''e3'' 3]"
  have "log_ok ?t" by (auto simp: log_ok_def sequences_def new_log_row_def sample_emit_def)
  from read_events_complete [OF this prod.collapse [symmetric], of "''a1''" "Some 2" None]
  show ?thesis
    by (simp add: readLifecycleEvents_def agent_events_def new_log_row_def sample_emit_def Let_def)
qed

end
