(* ===== verification/Provisioning.thy ===== *)
theory Provisioning
  imports Lifecycle_Events Leases
begin

text \<open>
  Durable provisioning runs, web/src/lib/governance/provisioning.ts: submission, leasing with a
  fencing token, step-by-step execution with persisted step records, compensation, and the
  recovery sweep.  The database effects the workflows call are in Provisioning_Effects.

  A step's effects are functions on a state \<open>'w\<close> that the workflow's owner chooses; running one
  yields the new state and an output or a thrown value.  Statements on the jobs table do not
  throw in this model; appending a lifecycle event may (Lifecycle_Events).  The AbortSignal a
  step receives is left out: no step of the repository reads it.  Redaction of an event's detail
  (sanitizeDetail) is left out too.
\<close>

section \<open>Data\<close>

datatype step_status = SPending | SRunning | SCompleted | SFailed | SCompensated

record step_record =
  sr_name :: string
  sr_status :: step_status
  sr_attempts :: int
  sr_idempotencyKey :: string
  sr_startedAt :: "instant option"
  sr_completedAt :: "instant option"
  sr_output :: "json option"
  sr_error :: "string option"

datatype prov_status = PvPending | PvRunning | PvCompleted | PvCompensating | PvCompensated | PvFailed

record prov_job =
  pj_id :: string
  pj_talosId :: string
  pj_action :: string
  pj_status :: prov_status
  pj_steps :: "step_record list"
  pj_cursor :: int
  pj_maxAttempts :: int
  pj_lastError :: "string option"
  pj_leasedBy :: "string option"
  pj_leaseExpiresAt :: "instant option"
  pj_fencingToken :: int
  pj_requestedBy :: string
  pj_idempotencyKey :: string
  pj_completedAt :: "instant option"

type_synonym prov_jobs = "prov_job list"

type_synonym step_outputs = "(string \<times> json option) list"  \<comment> \<open>an object, keys in insertion order\<close>

fun set_output :: "string \<Rightarrow> json option \<Rightarrow> step_outputs \<Rightarrow> step_outputs" where
  "set_output k v [] = [(k, v)]"
| "set_output k v ((k', v') # xs) = (if k' = k then (k, v) # xs else (k', v') # set_output k v xs)"

record step_context =
  sx_jobId :: string
  sx_talosId :: string
  sx_action :: string
  sx_idempotencyKey :: string
  sx_outputs :: step_outputs

record 'w step_definition =
  sd_name :: string
  sd_run :: "step_context \<Rightarrow> 'w \<Rightarrow> 'w \<times> (thrown + json)"
  sd_compensate :: "step_context \<Rightarrow> 'w \<Rightarrow> 'w \<times> thrown option"

record 'w workflow =
  wf_action :: string
  wf_steps :: "'w step_definition list"
  wf_successState :: lifecycle_state
  wf_failureState :: lifecycle_state

text \<open>The defaults; the environment may set other values.\<close>

definition LEASE_TTL_MS :: int where "LEASE_TTL_MS = 60000"
definition MAX_STEP_ATTEMPTS :: int where "MAX_STEP_ATTEMPTS = 3"

section \<open>Submission\<close>

definition initialSteps :: "string \<Rightarrow> 'w workflow \<Rightarrow> step_record list" where
  "initialSteps jobId flow = map (\<lambda>s.
     \<lparr>sr_name = sd_name s, sr_status = SPending, sr_attempts = 0,
      sr_idempotencyKey = jobId @ '':'' @ sd_name s, sr_startedAt = None, sr_completedAt = None,
      sr_output = None, sr_error = None\<rparr>) (wf_steps flow)"

definition findByIdempotencyKey :: "string \<Rightarrow> string \<Rightarrow> prov_jobs \<Rightarrow> prov_job option" where
  "findByIdempotencyKey talos key t = sel_one (\<lambda>r. pj_talosId r = talos \<and> pj_idempotencyKey r = key) t"

definition prov_conflicts :: "prov_job \<Rightarrow> prov_job \<Rightarrow> bool" where
  "prov_conflicts a b \<longleftrightarrow> pj_id a = pj_id b \<or>
     (pj_talosId a = pj_talosId b \<and> pj_idempotencyKey a = pj_idempotencyKey b)"

record 'w submit_options =
  so_talosId :: string
  so_action :: string
  so_requestedBy :: string
  so_idempotencyKey :: string
  so_workflow :: "'w workflow"

definition new_prov_job :: "string \<Rightarrow> 'w submit_options \<Rightarrow> prov_job" where
  "new_prov_job newId opts =
     \<lparr>pj_id = newId, pj_talosId = so_talosId opts, pj_action = so_action opts, pj_status = PvPending,
      pj_steps = [], pj_cursor = 0, pj_maxAttempts = MAX_STEP_ATTEMPTS, pj_lastError = None,
      pj_leasedBy = None, pj_leaseExpiresAt = None, pj_fencingToken = 0,
      pj_requestedBy = so_requestedBy opts, pj_idempotencyKey = so_idempotencyKey opts,
      pj_completedAt = None\<rparr>"

text \<open>\<open>meanwhile\<close> is what other submitters do between the lookup and the insert.\<close>

definition submitProvisioningJob ::
  "(prov_jobs \<Rightarrow> prov_jobs) \<Rightarrow> string \<Rightarrow> 'w submit_options \<Rightarrow> prov_jobs
     \<Rightarrow> lifecycle_error + (prov_jobs \<times> string \<times> bool)" where
  "submitProvisioningJob meanwhile newId opts t =
     (case findByIdempotencyKey (so_talosId opts) (so_idempotencyKey opts) t of
        Some existing \<Rightarrow> Inr (t, pj_id existing, False)
      | None \<Rightarrow>
          let t' = meanwhile t; row = new_prov_job newId opts
          in if \<not> list_ex (prov_conflicts row) t'
             then Inr (upd (\<lambda>r. pj_id r = newId)
                    (\<lambda>r. r\<lparr>pj_steps := initialSteps newId (so_workflow opts)\<rparr>) (t' @ [row]),
                  newId, True)
             else (case findByIdempotencyKey (so_talosId opts) (so_idempotencyKey opts) t' of
                 Some winner \<Rightarrow> Inr (t', pj_id winner, False)
               | None \<Rightarrow> Inl (lifecycleError Conflict
                   ''Could not create provisioning run; retry with the same idempotency key'')))"

section \<open>Leasing\<close>

definition prov_claimable :: "instant \<Rightarrow> prov_job \<Rightarrow> bool" where
  "prov_claimable now r \<longleftrightarrow> pj_status r = PvPending \<or>
     (pj_status r = PvRunning \<and> sql_true (sql_cmp (<) (pj_leaseExpiresAt r) (Some now)))"

definition acquireLease :: "instant \<Rightarrow> string \<Rightarrow> string \<Rightarrow> prov_jobs \<Rightarrow> prov_jobs \<times> int option" where
  "acquireLease now workerId jobId t =
     (let (t', rows) = upd_returning (\<lambda>r. pj_id r = jobId \<and> prov_claimable now r)
            (\<lambda>r. r\<lparr>pj_status := PvRunning, pj_leasedBy := Some workerId,
                   pj_leaseExpiresAt := Some (now + LEASE_TTL_MS),
                   pj_fencingToken := pj_fencingToken r + 1\<rparr>) t
      in (t', map_option pj_fencingToken (first_row rows)))"

definition holds_prov_lease :: "string \<Rightarrow> string \<Rightarrow> int \<Rightarrow> prov_job \<Rightarrow> bool" where
  "holds_prov_lease jobId workerId token r \<longleftrightarrow>
     pj_id r = jobId \<and> pj_leasedBy r = Some workerId \<and> pj_fencingToken r = token"

definition renewLease :: "instant \<Rightarrow> string \<Rightarrow> string \<Rightarrow> int \<Rightarrow> prov_jobs \<Rightarrow> prov_jobs \<times> bool" where
  "renewLease now jobId workerId token t =
     (let (t', rows) = upd_returning (holds_prov_lease jobId workerId token)
            (\<lambda>r. r\<lparr>pj_leaseExpiresAt := Some (now + LEASE_TTL_MS)\<rparr>) t
      in (t', rows \<noteq> []))"

section \<open>Persistence\<close>

definition loadJob :: "string \<Rightarrow> prov_jobs \<Rightarrow> prov_job option" where
  "loadJob jobId t = sel_one (\<lambda>r. pj_id r = jobId) t"

text \<open>\<open>persist\<close> takes a patch, here a function on the row, and is guarded by the id alone.\<close>

definition persist :: "string \<Rightarrow> (prov_job \<Rightarrow> prov_job) \<Rightarrow> prov_jobs \<Rightarrow> prov_jobs" where
  "persist jobId patch t = upd (\<lambda>r. pj_id r = jobId) patch t"

definition findResumableJobs :: "int \<Rightarrow> instant \<Rightarrow> prov_jobs \<Rightarrow> (string \<times> string) list" where
  "findResumableJobs limit now t =
     take (nat (min (max limit 1) 100))
       (map (\<lambda>r. (pj_id r, pj_action r)) (sel (prov_claimable now) t))"

section \<open>Execution\<close>

definition safeError :: "thrown \<Rightarrow> string" where
  "safeError err = take 300 (thrown_message err)"

record run_result =
  rr_jobId :: string
  rr_status :: prov_status
  rr_finalState :: "lifecycle_state option"
  rr_completedSteps :: "string list"
  rr_failedStep :: "string option"

datatype run_error = LifecycleFailure lifecycle_error | EmitFailure emit_error | LogUnavailable | MissingStep nat

record 'w prov_state =
  ps_jobs :: prov_jobs
  ps_log :: event_log
  ps_world :: 'w

text \<open>What a run meets: the clock, other appenders to the event log, the row ids drawn for the
  event with a given key, the keys of the events whose append fails because the database
  cannot be reached, and the message of the driver's error.\<close>

record prov_env =
  en_now :: instant
  en_meanwhile :: "nat \<Rightarrow> event_log \<Rightarrow> event_log"
  en_fresh :: "string \<Rightarrow> nat \<Rightarrow> string"
  en_logDown :: "string \<Rightarrow> bool"
  en_dbError :: string

type_synonym ('w, 'a) run = "'w prov_state \<times> (run_error + 'a)"

definition and_then :: "('w, 'a) run \<Rightarrow> ('w prov_state \<Rightarrow> 'a \<Rightarrow> ('w, 'b) run) \<Rightarrow> ('w, 'b) run" where
  "and_then m f = (case m of (st, Inl e) \<Rightarrow> (st, Inl e) | (st, Inr x) \<Rightarrow> f st x)"

definition emit_event :: "prov_env \<Rightarrow> lifecycle_event_input \<Rightarrow> 'w prov_state \<Rightarrow> ('w, unit) run" where
  "emit_event env inp st =
     (if en_logDown env (coalesce (li_idempotencyKey inp) '''')
      then (st, Inl LogUnavailable)
      else case emitLifecycleEvent inp (en_now env) (en_meanwhile env)
             (en_fresh env (coalesce (li_idempotencyKey inp) '''')) (ps_log st) of
        Inl e \<Rightarrow> (st, Inl (EmitFailure e))
      | Inr (log', _) \<Rightarrow> (st\<lparr>ps_log := log'\<rparr>, Inr ()))"

definition system_event ::
  "string \<Rightarrow> string \<Rightarrow> string \<Rightarrow> lifecycle_state option \<Rightarrow> lifecycle_state \<Rightarrow> string option \<Rightarrow> json \<Rightarrow> string
     \<Rightarrow> lifecycle_event_input" where
  "system_event talosId jobId eventType src dst stepName detail key =
     \<lparr>li_talosId = talosId, li_eventType = eventType, li_fromState = src, li_toState = dst,
      li_actorId = ''system'', li_actorRole = System, li_jobId = Some jobId, li_stepName = stepName,
      li_detail = detail, li_idempotencyKey = Some key\<rparr>"

definition save :: "string \<Rightarrow> (prov_job \<Rightarrow> prov_job) \<Rightarrow> 'w prov_state \<Rightarrow> 'w prov_state" where
  "save jobId patch st = st\<lparr>ps_jobs := persist jobId patch (ps_jobs st)\<rparr>"

definition step_strings :: "string list \<Rightarrow> json" where
  "step_strings xs = JArr (map JStr xs)"

subsection \<open>Compensation\<close>

definition comp_context :: "string \<Rightarrow> string \<Rightarrow> 'w workflow \<Rightarrow> step_outputs \<Rightarrow> step_record \<Rightarrow> step_context" where
  "comp_context talosId jobId flow outputs r =
     \<lparr>sx_jobId = jobId, sx_talosId = talosId, sx_action = wf_action flow,
      sx_idempotencyKey = sr_idempotencyKey r @ '':compensate'', sx_outputs = outputs\<rparr>"

fun compensate_loop ::
  "string \<Rightarrow> string \<Rightarrow> 'w workflow \<Rightarrow> step_outputs \<Rightarrow> nat list \<Rightarrow> 'w prov_state \<times> step_record list
     \<Rightarrow> 'w prov_state \<times> step_record list" where
  "compensate_loop talosId jobId flow outputs [] (st, steps) = (st, steps)"
| "compensate_loop talosId jobId flow outputs (i # is) (st, steps) =
     (let r = steps ! i
      in if sr_status r \<noteq> SCompleted \<and> sr_status r \<noteq> SFailed
         then compensate_loop talosId jobId flow outputs is (st, steps)
         else (let (w', err) = sd_compensate (wf_steps flow ! i) (comp_context talosId jobId flow outputs r)
                                 (ps_world st);
                   r' = (case err of
                       None \<Rightarrow> r\<lparr>sr_status := SCompensated\<rparr>
                     | Some e \<Rightarrow> r\<lparr>sr_error := Some (''compensation failed: '' @ safeError e)\<rparr>);
                   steps' = steps[i := r']
               in compensate_loop talosId jobId flow outputs is
                    (save jobId (\<lambda>j. j\<lparr>pj_steps := steps', pj_status := PvCompensating\<rparr>)
                       (st\<lparr>ps_world := w'\<rparr>), steps')))"

definition compensate ::
  "prov_env \<Rightarrow> string \<Rightarrow> string \<Rightarrow> 'w workflow \<Rightarrow> step_outputs \<Rightarrow> nat \<Rightarrow> 'w prov_state \<Rightarrow> step_record list
     \<Rightarrow> ('w, step_record list) run" where
  "compensate env talosId jobId flow outputs failedIndex st steps =
     and_then (emit_event env (system_event talosId jobId ''agent.lifecycle.compensation_started''
         (Some Provisioning) Provisioning None
         (JObj [(''fromStep'', JStr (sd_name (wf_steps flow ! failedIndex)))])
         (jobId @ '':compensation:started'')) st)
       (\<lambda>st _.
         let (st', steps') = compensate_loop talosId jobId flow outputs (rev [0..<Suc failedIndex]) (st, steps)
         in and_then (emit_event env (system_event talosId jobId ''agent.lifecycle.compensation_completed''
              (Some Provisioning) Provisioning None
              (JObj [(''compensated'', step_strings (map sr_name
                        (filter (\<lambda>s. sr_status s = SCompensated) steps'))),
                     (''unresolved'', step_strings (map sr_name
                        (filter (\<lambda>s. case sr_error s of None \<Rightarrow> False
                                     | Some e \<Rightarrow> starts_with ''compensation failed'' e) steps')))])
              (jobId @ '':compensation:completed'')) st')
            (\<lambda>st'' _. (st'', Inr steps')))"

subsection \<open>Running the steps\<close>

text \<open>The \<open>catch\<close> branch of step \<open>i\<close>.\<close>

definition step_failed ::
  "prov_env \<Rightarrow> prov_job \<Rightarrow> 'w workflow \<Rightarrow> nat \<Rightarrow> thrown \<Rightarrow> step_outputs \<Rightarrow> 'w prov_state \<Rightarrow> step_record list
     \<Rightarrow> ('w, run_result) run" where
  "step_failed env job flow i err outputs st steps =
     (let jobId = pj_id job;
          r = steps ! i;
          exhausted = sr_attempts r \<ge> MAX_STEP_ATTEMPTS;
          error = safeError err;
          r' = r\<lparr>sr_error := Some error, sr_status := (if exhausted then SFailed else SPending)\<rparr>;
          steps' = steps[i := r'];
          st' = save jobId (\<lambda>j. j\<lparr>pj_steps := steps', pj_cursor := int i,
                  pj_status := (if exhausted then PvCompensating else PvPending),
                  pj_lastError := Some error\<rparr>) st
      in and_then (emit_event env (system_event (pj_talosId job) jobId ''agent.lifecycle.step_failed''
             (Some Provisioning) (if exhausted then wf_failureState flow else Provisioning)
             (Some (sr_name r'))
             (JObj [(''attempts'', JNum (sr_attempts r')), (''error'', JStr error),
                    (''exhausted'', JBool exhausted)])
             (sr_idempotencyKey r' @ '':failed:'' @ int_string (sr_attempts r'))) st')
           (\<lambda>st1 _.
              if \<not> exhausted
              then (st1, Inr \<lparr>rr_jobId = jobId, rr_status = PvPending, rr_finalState = None,
                     rr_completedSteps = map fst outputs, rr_failedStep = Some (sr_name r')\<rparr>)
              else and_then (compensate env (pj_talosId job) jobId flow outputs i st1 steps')
                (\<lambda>st2 steps2.
                   let st3 = save jobId (\<lambda>j. j\<lparr>pj_steps := steps2, pj_cursor := int i,
                               pj_status := PvFailed, pj_lastError := sr_error (steps2 ! i),
                               pj_completedAt := Some (en_now env)\<rparr>) st2
                   in and_then (emit_event env (system_event (pj_talosId job) jobId
                          ''agent.lifecycle.failed'' (Some Provisioning) (wf_failureState flow)
                          (Some (sr_name r'))
                          (JObj [(''error'', JStr (coalesce (sr_error (steps2 ! i)) ''''))])
                          (jobId @ '':failed'')) st3)
                        (\<lambda>st4 _. (st4, Inr \<lparr>rr_jobId = jobId, rr_status = PvFailed,
                           rr_finalState = Some (wf_failureState flow),
                           rr_completedSteps = map fst outputs,
                           rr_failedStep = Some (sr_name r')\<rparr>)))))"

definition emit_message :: "prov_env \<Rightarrow> run_error \<Rightarrow> thrown" where
  "emit_message env e = (case e of
       EmitFailure (AppendFailed ty) \<Rightarrow> ErrorObj (''Failed to append lifecycle event '' @ ty
         @ '' after '' @ int_string (int MAX_SEQUENCE_ATTEMPTS) @ '' attempts: '' @ en_dbError env)
     | LogUnavailable \<Rightarrow> ErrorObj (en_dbError env)
     | LifecycleFailure le \<Rightarrow> ErrorObj (le_message le)
     | MissingStep n \<Rightarrow> ErrorObj ''undefined step'')"

definition run_finished ::
  "prov_env \<Rightarrow> prov_job \<Rightarrow> 'w workflow \<Rightarrow> 'w prov_state \<Rightarrow> step_record list \<Rightarrow> ('w, run_result) run" where
  "run_finished env job flow st steps =
     (let jobId = pj_id job;
          st' = save jobId (\<lambda>j. j\<lparr>pj_steps := steps, pj_cursor := int (length (wf_steps flow)),
                  pj_status := PvCompleted, pj_completedAt := Some (en_now env),
                  pj_leasedBy := None, pj_leaseExpiresAt := None\<rparr>) st
      in and_then (emit_event env (system_event (pj_talosId job) jobId
             (if wf_successState flow = Retired then ''agent.lifecycle.retired''
              else ''agent.lifecycle.activated'')
             (Some Provisioning) (wf_successState flow) None
             (JObj [(''steps'', step_strings (map sr_name steps))]) (jobId @ '':completed'')) st')
           (\<lambda>st'' _. (st'', Inr \<lparr>rr_jobId = jobId, rr_status = PvCompleted,
              rr_finalState = Some (wf_successState flow), rr_completedSteps = map sr_name steps,
              rr_failedStep = None\<rparr>)))"

fun run_steps ::
  "prov_env \<Rightarrow> prov_job \<Rightarrow> 'w workflow \<Rightarrow> string \<Rightarrow> int \<Rightarrow> nat \<Rightarrow> 'w step_definition list
     \<Rightarrow> step_outputs \<Rightarrow> 'w prov_state \<Rightarrow> step_record list \<Rightarrow> ('w, run_result) run" where
  "run_steps env job flow workerId token i [] outputs st steps = run_finished env job flow st steps"
| "run_steps env job flow workerId token i (d # ds) outputs st steps =
     (if length steps \<le> i then (st, Inl (MissingStep i))
      else let r = steps ! i; jobId = pj_id job
      in if sr_status r = SCompleted
         then run_steps env job flow workerId token (Suc i) ds
                (set_output (sr_name r) (sr_output r) outputs) st steps
         else let (jobs1, renewed) = renewLease (en_now env) jobId workerId token (ps_jobs st)
         in if \<not> renewed
            then (st\<lparr>ps_jobs := jobs1\<rparr>,
                  Inl (LifecycleFailure (lifecycleError Conflict ''Provisioning lease lost'')))
            else
              let r1 = r\<lparr>sr_status := SRunning, sr_attempts := sr_attempts r + 1,
                         sr_startedAt := Some (coalesce (sr_startedAt r) (en_now env))\<rparr>;
                  steps1 = steps[i := r1];
                  st1 = save jobId (\<lambda>j. j\<lparr>pj_steps := steps1, pj_cursor := int i,
                          pj_status := PvRunning\<rparr>) (st\<lparr>ps_jobs := jobs1\<rparr>);
                  (w', outcome) = sd_run d \<lparr>sx_jobId = jobId, sx_talosId = pj_talosId job,
                      sx_action = pj_action job, sx_idempotencyKey = sr_idempotencyKey r1,
                      sx_outputs = outputs\<rparr> (ps_world st1);
                  st2 = st1\<lparr>ps_world := w'\<rparr>
              in (case outcome of
                    Inl err \<Rightarrow> step_failed env job flow i err outputs st2 steps1
                  | Inr output \<Rightarrow>
                      let r2 = r1\<lparr>sr_status := SCompleted, sr_completedAt := Some (en_now env),
                                  sr_output := Some output, sr_error := None\<rparr>;
                          steps2 = steps1[i := r2];
                          outputs2 = set_output (sr_name r2) (Some output) outputs;
                          st3 = save jobId (\<lambda>j. j\<lparr>pj_steps := steps2, pj_cursor := int i + 1,
                                  pj_status := PvRunning\<rparr>) st2
                      in (case emit_event env (system_event (pj_talosId job) jobId
                              ''agent.lifecycle.step_completed'' (Some Provisioning) Provisioning
                              (Some (sr_name r2)) (JObj [(''attempts'', JNum (sr_attempts r2))])
                              (sr_idempotencyKey r2 @ '':completed'')) st3 of
                            (st4, Inr _) \<Rightarrow>
                              run_steps env job flow workerId token (Suc i) ds outputs2 st4 steps2
                          | (st4, Inl e) \<Rightarrow>
                              step_failed env job flow i (emit_message env e) outputs2 st4 steps2)))"

definition completed_outputs :: "step_record list \<Rightarrow> step_outputs" where
  "completed_outputs steps = foldl (\<lambda>os s. if sr_status s = SCompleted
       then set_output (sr_name s) (sr_output s) os else os) [] steps"

definition runProvisioningJob ::
  "prov_env \<Rightarrow> string \<Rightarrow> 'w workflow \<Rightarrow> string \<Rightarrow> int \<Rightarrow> 'w prov_state \<Rightarrow> ('w, run_result) run" where
  "runProvisioningJob env jobId flow workerId token st =
     (case loadJob jobId (ps_jobs st) of
        None \<Rightarrow> (st, Inl (LifecycleFailure (lifecycleError Conflict ''Provisioning run not found'')))
      | Some job \<Rightarrow>
          if pj_status job \<in> {PvCompleted, PvFailed, PvCompensated}
          then (st, Inr \<lparr>rr_jobId = jobId, rr_status = pj_status job, rr_finalState = None,
                 rr_completedSteps = map sr_name (filter (\<lambda>s. sr_status s = SCompleted) (pj_steps job)),
                 rr_failedStep = map_option sr_name (List.find (\<lambda>s. sr_status s = SFailed) (pj_steps job))\<rparr>)
          else
            let steps = (if pj_steps job \<noteq> [] then pj_steps job else initialSteps jobId flow)
            in and_then (emit_event env (system_event (pj_talosId job) jobId
                  ''agent.lifecycle.provisioning_started'' None Provisioning None
                  (JObj [(''action'', JStr (pj_action job)), (''resumedFromStep'', JNum (pj_cursor job))])
                  (jobId @ '':started:'' @ int_string (pj_cursor job))) st)
                (\<lambda>st1 _. run_steps env job flow workerId token 0 (wf_steps flow)
                   (completed_outputs steps) st1 steps))"

end
