(* ===== verification/Provisioning_Facts.thy ===== *)
theory Provisioning_Facts
  imports Provisioning
begin

text \<open>
  What durable provisioning guarantees: idempotent submission, a single leaseholder with rising
  fencing tokens, completed steps that are never run again, and compensation in reverse order of
  exactly the steps that had an effect; and where a run can be overwritten, repeated or stuck.
\<close>

section \<open>Submission\<close>

definition submit_keyed ::
  "string \<times> string \<Rightarrow> (prov_jobs \<Rightarrow> prov_jobs) \<times> string \<times> 'w submit_options \<Rightarrow> prov_jobs
     \<Rightarrow> lifecycle_error + (prov_jobs \<times> string)" where
  "submit_keyed k i t = (case (k, i) of ((talos, key), (meanwhile, newId, opts)) \<Rightarrow>
     (case submitProvisioningJob meanwhile newId
             (opts\<lparr>so_talosId := talos, so_idempotencyKey := key\<rparr>) t of
        Inl e \<Rightarrow> Inl e | Inr (t', jobId, created) \<Rightarrow> Inr (t', jobId)))"

definition submitted_id :: "string \<times> string \<Rightarrow> prov_jobs \<Rightarrow> string option" where
  "submitted_id k t = map_option pj_id (findByIdempotencyKey (fst k) (snd k) t)"

lemma find_upd_cong:
  assumes "\<And>r. Q (f r) = Q r" "\<And>r. k (f r) = k r"
  shows "map_option k (List.find Q (upd P f t)) = map_option k (List.find Q t)"
  using assms by (induction t) auto

lemma fresh_job_found:
  assumes "\<not> list_ex (prov_conflicts row) t"
  shows "findByIdempotencyKey (pj_talosId row) (pj_idempotencyKey row) (t @ [row]) = Some row"
proof -
  have "List.find (\<lambda>r. pj_talosId r = pj_talosId row \<and> pj_idempotencyKey r = pj_idempotencyKey row) t = None"
    using assms by (auto simp: find_None_iff list_ex_iff prov_conflicts_def)
  then show ?thesis by (simp add: findByIdempotencyKey_def find_append)
qed

interpretation submit_dedupe: idempotent_insert submit_keyed submitted_id
proof
  fix k i t and r :: string
  assume "submitted_id k t = Some r"
  then show "submit_keyed k i t = Inr (t, r)"
    by (auto simp: submit_keyed_def submitted_id_def submitProvisioningJob_def split: prod.splits)
next
  fix k t t' and i :: "(prov_jobs \<Rightarrow> prov_jobs) \<times> string \<times> 'w submit_options" and r :: string
  assume none: "submitted_id k t = None" and stored: "submit_keyed k i t = Inr (t', r)"
  obtain talos key where k: "k = (talos, key)" by (cases k)
  obtain meanwhile newId opts where i: "i = (meanwhile, newId, opts)" by (cases i)
  define opts' where "opts' = opts\<lparr>so_talosId := talos, so_idempotencyKey := key\<rparr>"
  define row where "row = new_prov_job newId opts'"
  have row: "pj_talosId row = talos" "pj_idempotencyKey row = key" "pj_id row = newId"
    by (simp_all add: row_def new_prov_job_def opts'_def)
  show "submitted_id k t' = Some r"
  proof (cases "list_ex (prov_conflicts row) (meanwhile t)")
    case False
    then have "t' = upd (\<lambda>r. pj_id r = newId)
        (\<lambda>r. r\<lparr>pj_steps := initialSteps newId (so_workflow opts')\<rparr>) (meanwhile t @ [row])" "r = newId"
      using none stored
      by (auto simp: submit_keyed_def submitted_id_def submitProvisioningJob_def k i Let_def
          opts'_def [symmetric] row_def [symmetric])
    then show ?thesis
      using fresh_job_found [OF False]
      by (simp add: submitted_id_def k row findByIdempotencyKey_def find_upd_cong)
  next
    case True
    then show ?thesis
      using none stored
      by (auto simp: submit_keyed_def submitted_id_def submitProvisioningJob_def k i Let_def
          opts'_def [symmetric] row_def [symmetric] split: option.splits) (auto simp: opts'_def)
  qed
qed

section \<open>Leases and fencing\<close>

lemma prov_filter_single:
  "distinct (map pj_id t) \<Longrightarrow> r \<in> set t \<Longrightarrow> pj_id r = i \<Longrightarrow> Q r \<Longrightarrow>
     filter (\<lambda>x. pj_id x = i \<and> Q x) t = [r]"
  by (rule filter_key_single [of pj_id]) auto

definition granted :: "instant \<Rightarrow> string \<Rightarrow> prov_job \<Rightarrow> prov_job" where
  "granted now w r = r\<lparr>pj_status := PvRunning, pj_leasedBy := Some w,
     pj_leaseExpiresAt := Some (now + LEASE_TTL_MS), pj_fencingToken := pj_fencingToken r + 1\<rparr>"

lemma acquireLease_won:
  assumes "distinct (map pj_id t)" "acquireLease now w i t = (t', Some token)"
  shows "\<exists>r \<in> set t. pj_id r = i \<and> prov_claimable now r \<and> token = pj_fencingToken r + 1 \<and>
    (\<forall>x \<in> set t'. pj_id x = i \<longrightarrow> x = granted now w r) \<and> map pj_id t' = map pj_id t"
proof -
  let ?P = "\<lambda>r. pj_id r = i \<and> prov_claimable now r"
  have t': "t' = upd ?P (granted now w) t"
    and first: "map_option pj_fencingToken (first_row (map (granted now w) (filter ?P t))) = Some token"
    using assms(2) by (auto simp: acquireLease_def upd_returning_def granted_def [abs_def])
  have "filter ?P t \<noteq> []" using first by (cases "filter ?P t") simp_all
  then obtain r where r: "r \<in> set t" "pj_id r = i" "prov_claimable now r"
    by (auto simp: filter_empty_conv)
  have "filter ?P t = [r]" using assms(1) r by (intro prov_filter_single)
  then have token: "token = pj_fencingToken r + 1" using first by (simp add: granted_def)
  have only: "y = r" if "y \<in> set t" "pj_id y = i" for y
    using distinct_key_unique [OF assms(1) that(1) r(1)] that(2) r(2) by simp
  have "x = granted now w r" if "x \<in> set t'" "pj_id x = i" for x
    using that(1) unfolding t'
  proof (cases rule: in_updE)
    case (hit y)
    then show ?thesis using only by blast
  next
    case miss
    then show ?thesis using only [OF miss(1) that(2)] r that(2) by simp
  qed
  moreover have "map pj_id t' = map pj_id t" unfolding t' by (rule map_upd_frame) (simp add: granted_def)
  ultimately show ?thesis using r token by blast
qed

lemma renew_refused:
  assumes "\<And>x. x \<in> set t \<Longrightarrow> pj_id x = i \<Longrightarrow> pj_fencingToken x \<noteq> token"
  shows "renewLease now i w token t = (t, False)"
proof -
  have "\<And>x. x \<in> set t \<Longrightarrow> \<not> holds_prov_lease i w token x"
    using assms by (auto simp: holds_prov_lease_def)
  then show ?thesis by (simp add: renewLease_def upd_returning_none)
qed

text \<open>Statements on the table of runs: acquiring and renewing leases, and \<open>persist\<close> with one of the
  patches of provisioning.ts, which never touch id and fencing token.\<close>

datatype prov_op =
    Acquire instant string string
  | Renew instant string string int
  | Persist string "prov_job \<Rightarrow> prov_job"

fun prov_step :: "prov_op \<Rightarrow> prov_jobs \<Rightarrow> prov_jobs" where
  "prov_step (Acquire now w i) t = fst (acquireLease now w i t)"
| "prov_step (Renew now i w token) t = fst (renewLease now i w token t)"
| "prov_step (Persist i patch) t = persist i patch t"

fun patch_ok :: "prov_op \<Rightarrow> bool" where
  "patch_ok (Persist i patch) \<longleftrightarrow> (\<forall>r. pj_id (patch r) = pj_id r \<and> pj_fencingToken (patch r) = pj_fencingToken r)"
| "patch_ok _ \<longleftrightarrow> True"

text \<open>What may happen before the given instant while a step of run \<open>i\<close> is under way: its patches keep the
  run running and its lease.\<close>

fun undisturbed_until :: "instant \<Rightarrow> instant \<Rightarrow> string \<Rightarrow> prov_op \<Rightarrow> bool" where
  "undisturbed_until now expires i (Acquire moment w j) \<longleftrightarrow> moment \<le> expires"
| "undisturbed_until now expires i (Renew moment j w token) \<longleftrightarrow> now \<le> moment"
| "undisturbed_until now expires i (Persist j patch) \<longleftrightarrow> j = i \<longrightarrow>
     (\<forall>r. pj_status r = PvRunning \<longrightarrow> pj_status (patch r) = PvRunning \<and> pj_leasedBy (patch r) = pj_leasedBy r \<and>
        pj_leaseExpiresAt (patch r) = pj_leaseExpiresAt r)"

text \<open>Every row of the run is leased to \<open>w\<close> at least up to \<open>expires\<close>.\<close>

definition leased_until :: "instant \<Rightarrow> string \<Rightarrow> string \<Rightarrow> int \<Rightarrow> prov_jobs \<Rightarrow> bool" where
  "leased_until expires w i token t \<longleftrightarrow> (\<forall>r \<in> set t. pj_id r = i \<longrightarrow> pj_status r = PvRunning \<and> pj_leasedBy r = Some w \<and>
     pj_fencingToken r = token \<and> (\<exists>e. pj_leaseExpiresAt r = Some e \<and> expires \<le> e))"

definition tokens_from :: "string \<Rightarrow> int \<Rightarrow> prov_jobs \<Rightarrow> bool" where
  "tokens_from i token t \<longleftrightarrow> (\<forall>r \<in> set t. pj_id r = i \<longrightarrow> token \<le> pj_fencingToken r)"

lemma prov_step_ids: "patch_ok op \<Longrightarrow> map pj_id (prov_step op t) = map pj_id t"
  by (cases op) (auto simp: acquireLease_def renewLease_def upd_returning_def persist_def intro!: map_upd_frame)

lemma prov_step_tokens: "patch_ok op \<Longrightarrow> tokens_from i token t \<Longrightarrow> tokens_from i token (prov_step op t)"
  by (cases op) (fastforce simp: tokens_from_def acquireLease_def renewLease_def upd_returning_def persist_def elim!: in_updE)+

lemma leased_unclaimable:
  "leased_until expires w i token t \<Longrightarrow> r \<in> set t \<Longrightarrow> pj_id r = i \<Longrightarrow> moment \<le> expires \<Longrightarrow> \<not> prov_claimable moment r"
  by (fastforce simp: leased_until_def prov_claimable_def)

lemma leased_refused: "leased_until expires w i token t \<Longrightarrow> moment \<le> expires \<Longrightarrow> acquireLease moment v i t = (t, None)"
proof -
  assume l: "leased_until expires w i token t" "moment \<le> expires"
  then have "\<And>r. r \<in> set t \<Longrightarrow> \<not> (pj_id r = i \<and> prov_claimable moment r)" using leased_unclaimable by blast
  then show ?thesis by (simp add: acquireLease_def upd_returning_none)
qed

lemma prov_step_leased:
  assumes "leased_until expires w i token t" "patch_ok op" "undisturbed_until now expires i op" "expires = now + LEASE_TTL_MS"
  shows "leased_until expires w i token (prov_step op t)"
proof (cases op)
  case (Acquire moment v j)
  show ?thesis
  proof (cases "j = i")
    case True
    then show ?thesis using assms(1,3) leased_refused [OF assms(1)] Acquire by simp
  next
    case False
    then show ?thesis using assms(1) Acquire
      by (fastforce simp: leased_until_def acquireLease_def upd_returning_def elim!: in_updE)
  qed
next
  case (Renew moment j v n)
  then show ?thesis using assms(1,3,4)
    by (fastforce simp: leased_until_def renewLease_def upd_returning_def elim!: in_updE)
next
  case (Persist j patch)
  then show ?thesis using assms(1-3)
    by (fastforce simp: leased_until_def persist_def elim!: in_updE)
qed

lemma prov_run_leased:
  "leased_until expires w i token t \<Longrightarrow> \<forall>op \<in> set ops. patch_ok op \<and> undisturbed_until now expires i op \<Longrightarrow>
     expires = now + LEASE_TTL_MS \<Longrightarrow> leased_until expires w i token (fold prov_step ops t)"
proof (induction ops arbitrary: t)
  case (Cons op ops)
  have "leased_until expires w i token (prov_step op t)"
    using Cons.prems prov_step_leased [of expires w i token t op now] by simp
  then show ?case using Cons by simp
qed simp

lemma prov_run_frame:
  "\<forall>op \<in> set ops. patch_ok op \<Longrightarrow> map pj_id (fold prov_step ops t) = map pj_id t \<and>
     (tokens_from i token t \<longrightarrow> tokens_from i token (fold prov_step ops t))"
proof (induction ops arbitrary: t)
  case (Cons op ops)
  then show ?case using prov_step_ids [of op t] prov_step_tokens [of op i token t] by simp
qed simp

text \<open>C24.
  A granted lease on a provisioning run keeps everybody else out until it expires, whatever acquisitions,
  renewals and writes to this or other runs happen meanwhile, as long as the writes to this run leave it
  running and its lease alone (recording a failed step puts it back to pending and so opens it); and after
  any such statements and any writes at all, whoever acquires the run again gets a larger fencing token,
  and from then on the former holder can never renew, so it stops before its next step.\<close>

theorem provisioning_single_holder:
  assumes "distinct (map pj_id t)" "acquireLease now w i t = (t', Some token)" "\<forall>op \<in> set ops. patch_ok op"
  shows "((\<forall>op \<in> set ops. undisturbed_until now (now + LEASE_TTL_MS) i op) \<longrightarrow>
      (\<forall>moment v. moment \<le> now + LEASE_TTL_MS \<longrightarrow>
        acquireLease moment v i (fold prov_step ops t') = (fold prov_step ops t', None))) \<and>
    (\<forall>later v t'' token'. acquireLease later v i (fold prov_step ops t') = (t'', Some token') \<longrightarrow>
       token < token' \<and>
       (\<forall>ops' moment. (\<forall>op \<in> set ops'. patch_ok op) \<longrightarrow>
          renewLease moment i w token (fold prov_step ops' t'') = (fold prov_step ops' t'', False)))"
proof (intro conjI impI allI)
  obtain r where r: "token = pj_fencingToken r + 1" "map pj_id t' = map pj_id t"
    "\<And>x. x \<in> set t' \<Longrightarrow> pj_id x = i \<Longrightarrow> x = granted now w r"
    using acquireLease_won [OF assms(1,2)] by blast
  have row: "pj_status x = PvRunning \<and> pj_leasedBy x = Some w \<and> pj_fencingToken x = token \<and>
      pj_leaseExpiresAt x = Some (now + LEASE_TTL_MS)" if "x \<in> set t'" "pj_id x = i" for x
    using r(1) unfolding r(3) [OF that] by (simp add: granted_def)
  have leased: "leased_until (now + LEASE_TTL_MS) w i token t'" using row by (simp add: leased_until_def)
  show "acquireLease moment v i (fold prov_step ops t') = (fold prov_step ops t', None)"
    if "\<forall>op \<in> set ops. undisturbed_until now (now + LEASE_TTL_MS) i op" "moment \<le> now + LEASE_TTL_MS" for moment v
    using prov_run_leased [OF leased _ refl] that assms(3) leased_refused by blast
  fix later v t'' token' assume won: "acquireLease later v i (fold prov_step ops t') = (t'', Some token')"
  have "tokens_from i token t'" using row by (simp add: tokens_from_def)
  then have frame: "map pj_id (fold prov_step ops t') = map pj_id t'" "tokens_from i token (fold prov_step ops t')"
    using prov_run_frame [OF assms(3)] by blast+
  then have "distinct (map pj_id (fold prov_step ops t'))" using r(2) assms(1) by simp
  then obtain r' where r': "r' \<in> set (fold prov_step ops t')" "pj_id r' = i" "token' = pj_fencingToken r' + 1"
    "\<And>x. x \<in> set t'' \<Longrightarrow> pj_id x = i \<Longrightarrow> x = granted later v r'"
    using acquireLease_won won by blast
  show less: "token < token'" using frame(2) r'(1-3) by (simp add: tokens_from_def)
  have "pj_fencingToken x = token'" if "x \<in> set t''" "pj_id x = i" for x
    unfolding r'(4) [OF that] by (simp add: granted_def r'(3))
  then have bound: "tokens_from i token' t''" by (simp add: tokens_from_def)
  show "renewLease moment i w token (fold prov_step ops' t'') = (fold prov_step ops' t'', False)"
    if "\<forall>op \<in> set ops'. patch_ok op" for ops' moment
  proof (rule renew_refused)
    fix x assume "x \<in> set (fold prov_step ops' t'')" "pj_id x = i"
    then have "token' \<le> pj_fencingToken x" using prov_run_frame [OF that] bound by (auto simp: tokens_from_def)
    then show "pj_fencingToken x \<noteq> token" using less by simp
  qed
qed

definition sample_prov :: prov_job where
  "sample_prov = \<lparr>pj_id = ''p1'', pj_talosId = ''a1'', pj_action = ''activate'', pj_status = PvPending,
     pj_steps = [], pj_cursor = 0, pj_maxAttempts = 3, pj_lastError = None, pj_leasedBy = None,
     pj_leaseExpiresAt = None, pj_fencingToken = 0, pj_requestedBy = ''G1'',
     pj_idempotencyKey = ''key-0001'', pj_completedAt = None\<rparr>"

definition sample_prov_ops :: "prov_op list" where
  "sample_prov_ops = [Acquire 20 ''w2'' ''p1'', Persist ''p1'' (\<lambda>r. r\<lparr>pj_cursor := 1\<rparr>), Renew 30 ''p1'' ''w1'' 1]"

theorem provisioning_single_holder_witness:
  "\<exists>t. acquireLease 10 ''w1'' ''p1'' [sample_prov] = (t, Some 1) \<and>
     acquireLease 60010 ''w2'' ''p1'' (fold prov_step sample_prov_ops t) = (fold prov_step sample_prov_ops t, None) \<and>
     (\<exists>t''. acquireLease 200000 ''w2'' ''p1'' (fold prov_step sample_prov_ops t) = (t'', Some 2) \<and>
        renewLease 200001 ''p1'' ''w1'' 1 t'' = (t'', False))"
proof -
  let ?row = "sample_prov\<lparr>pj_status := PvRunning, pj_leasedBy := Some ''w1'', pj_leaseExpiresAt := Some (10 + LEASE_TTL_MS),
    pj_fencingToken := 1\<rparr>"
  have t: "acquireLease 10 ''w1'' ''p1'' [sample_prov] = ([?row], Some 1)"
    by (simp add: acquireLease_def upd_returning_def prov_claimable_def sample_prov_def)
  have ok: "\<forall>op \<in> set sample_prov_ops. patch_ok op" "\<forall>op \<in> set sample_prov_ops. undisturbed_until 10 (10 + LEASE_TTL_MS) ''p1'' op"
    by (simp_all add: sample_prov_ops_def LEASE_TTL_MS_def)
  note all = provisioning_single_holder [OF _ t ok(1)]
  have "\<exists>t''. acquireLease 200000 ''w2'' ''p1'' (fold prov_step sample_prov_ops [?row]) = (t'', Some 2)"
    by (simp add: sample_prov_ops_def acquireLease_def renewLease_def persist_def upd_returning_def prov_claimable_def
        holds_prov_lease_def sample_prov_def LEASE_TTL_MS_def)
  then obtain t'' where again: "acquireLease 200000 ''w2'' ''p1'' (fold prov_step sample_prov_ops [?row]) = (t'', Some 2)" by blast
  have "\<forall>ops' moment. (\<forall>op \<in> set ops'. patch_ok op) \<longrightarrow>
      renewLease moment ''p1'' ''w1'' 1 (fold prov_step ops' t'') = (fold prov_step ops' t'', False)"
    using all again by auto
  from this [rule_format, of "[]" 200001] have "renewLease 200001 ''p1'' ''w1'' 1 t'' = (t'', False)" by simp
  then show ?thesis using t again all ok(2) by (auto simp: LEASE_TTL_MS_def)
qed

text \<open>The writes that record progress are not fenced: after a reclaim, the previous holder's
  persist still replaces the step list of the run the new holder owns.\<close>

theorem stale_holder_overwrites:
  assumes "distinct (map pj_id t)" "acquireLease later w' i t = (t', Some token')"
  shows "\<exists>r \<in> set (persist i (\<lambda>j. j\<lparr>pj_steps := old, pj_cursor := c, pj_status := PvPending\<rparr>) t').
    pj_id r = i \<and> pj_steps r = old \<and> pj_status r = PvPending \<and> pj_fencingToken r = token' \<and>
    pj_leasedBy r = Some w'"
proof -
  obtain r where r: "r \<in> set t" "pj_id r = i" "map pj_id t' = map pj_id t"
    "\<And>x. x \<in> set t' \<Longrightarrow> pj_id x = i \<Longrightarrow> x = granted later w' r" "token' = pj_fencingToken r + 1"
    using acquireLease_won [OF assms] by blast
  have "i \<in> set (map pj_id t')" unfolding r(3) using r(1,2) by auto
  then obtain x where x: "x \<in> set t'" "pj_id x = i" by auto
  let ?f = "\<lambda>j. j\<lparr>pj_steps := old, pj_cursor := c, pj_status := PvPending\<rparr>"
  have "?f x \<in> set (persist i ?f t')" using x by (auto simp: persist_def set_upd)
  moreover have "pj_fencingToken x = token'" "pj_leasedBy x = Some w'"
    unfolding r(4) [OF x] using r(5) by (simp_all add: granted_def)
  ultimately show ?thesis using x(2) by (intro bexI [of _ "?f x"]) simp_all
qed

section \<open>Completed steps are not run again\<close>

lemma and_then_cong: "(\<And>st x. f st x = g st x) \<Longrightarrow> and_then m f = and_then m g"
  by (simp add: and_then_def split: prod.split sum.split)

text \<open>Two workflows that differ at most in the \<open>run\<close> of some steps.\<close>

definition same_shape :: "'w workflow \<Rightarrow> 'w workflow \<Rightarrow> bool" where
  "same_shape f g \<longleftrightarrow> wf_action f = wf_action g \<and> wf_successState f = wf_successState g \<and>
     wf_failureState f = wf_failureState g \<and> length (wf_steps f) = length (wf_steps g) \<and>
     (\<forall>k < length (wf_steps f). sd_name (wf_steps f ! k) = sd_name (wf_steps g ! k) \<and>
        sd_compensate (wf_steps f ! k) = sd_compensate (wf_steps g ! k))"

lemma same_shape_loop:
  assumes "same_shape f g" "\<forall>i \<in> set is. i < length (wf_steps f)"
  shows "compensate_loop talosId jobId f outputs is (st, steps)
    = compensate_loop talosId jobId g outputs is (st, steps)"
  using assms(2)
proof (induction "is" arbitrary: st steps)
  case (Cons i "is")
  have "comp_context talosId jobId f outputs r = comp_context talosId jobId g outputs r" for r
    using assms(1) by (simp add: same_shape_def comp_context_def)
  moreover have "sd_compensate (wf_steps f ! i) = sd_compensate (wf_steps g ! i)"
    using assms(1) Cons.prems by (simp add: same_shape_def)
  ultimately show ?case
    using Cons.IH Cons.prems by (simp add: Let_def split: prod.split)
qed simp

lemma same_shape_compensate:
  assumes "same_shape f g" "i < length (wf_steps f)"
  shows "compensate env talosId jobId f outputs i st steps = compensate env talosId jobId g outputs i st steps"
proof -
  have "sd_name (wf_steps f ! i) = sd_name (wf_steps g ! i)"
    using assms by (simp add: same_shape_def)
  moreover have "compensate_loop talosId jobId f outputs (rev [0..<Suc i]) (st, steps)
      = compensate_loop talosId jobId g outputs (rev [0..<Suc i]) (st, steps)" for st steps
    using assms(2) by (intro same_shape_loop [OF assms(1)]) auto
  ultimately show ?thesis by (simp add: compensate_def)
qed

lemma same_shape_failed:
  assumes "same_shape f g" "i < length (wf_steps f)"
  shows "step_failed env job f i err outputs st steps = step_failed env job g i err outputs st steps"
  using assms(1) same_shape_compensate [OF assms]
  by (simp add: step_failed_def same_shape_def Let_def)

lemma same_shape_run:
  assumes "same_shape f g" "i + length ds = length (wf_steps f)" "length es = length ds"
    and "\<forall>k < length ds. i + k < length steps \<longrightarrow> sr_status (steps ! (i + k)) \<noteq> SCompleted \<longrightarrow>
          sd_run (ds ! k) = sd_run (es ! k)"
  shows "run_steps env job f w token i ds outputs st steps = run_steps env job g w token i es outputs st steps"
  using assms(2-4)
proof (induction ds arbitrary: i es outputs st steps)
  case Nil
  then show ?case using assms(1) by (simp add: run_finished_def same_shape_def)
next
  case (Cons d ds)
  obtain e es' where es: "es = e # es'" "length es' = length ds" using Cons.prems(2) by (cases es) auto
  have i: "i < length (wf_steps f)" using Cons.prems(1) by simp
  have next_run: "run_steps env job f w token (Suc i) ds outputs st steps'
      = run_steps env job g w token (Suc i) es' outputs st steps'"
    if "\<forall>k > i. steps' ! k = steps ! k" "length steps' = length steps" for outputs st steps'
  proof (rule Cons.IH)
    show "\<forall>k < length ds. Suc i + k < length steps' \<longrightarrow> sr_status (steps' ! (Suc i + k)) \<noteq> SCompleted \<longrightarrow>
        sd_run (ds ! k) = sd_run (es' ! k)"
    proof (intro allI impI)
      fix k assume k: "k < length ds" "Suc i + k < length steps'"
        "sr_status (steps' ! (Suc i + k)) \<noteq> SCompleted"
      then show "sd_run (ds ! k) = sd_run (es' ! k)"
        using spec [OF Cons.prems(3), of "Suc k"] that by (simp add: es(1))
    qed
  qed (use Cons.prems(1) es in simp_all)
  show ?case
  proof (cases "length steps \<le> i \<or> sr_status (steps ! i) = SCompleted")
    case True
    then show ?thesis using next_run [of steps] by (auto simp: es(1) Let_def)
  next
    case False
    then have "sd_run d = sd_run e" using Cons.prems(3) es(1) by (auto dest: spec [of _ 0])
    then show ?thesis
      using False next_run same_shape_failed [OF assms(1) i]
      by (simp add: es(1) Let_def split_beta split: sum.split)
  qed
qed

text \<open>C19.
  A resumed run never executes a completed step again: the result of running a job, its new state
  and every effect included, does not depend at all on what the \<open>run\<close> of the already completed
  steps would do.\<close>

theorem completed_steps_not_rerun:
  assumes "same_shape f g" "loadJob i (ps_jobs st) = Some job" "pj_steps job \<noteq> []"
    and "\<forall>k < length (wf_steps f). k < length (pj_steps job) \<longrightarrow>
          sr_status (pj_steps job ! k) \<noteq> SCompleted \<longrightarrow> sd_run (wf_steps f ! k) = sd_run (wf_steps g ! k)"
  shows "runProvisioningJob env i f w token st = runProvisioningJob env i g w token st"
proof -
  have "length (wf_steps g) = length (wf_steps f)" using assms(1) by (simp add: same_shape_def)
  then have "run_steps env job f w token 0 (wf_steps f) outputs st1 (pj_steps job)
      = run_steps env job g w token 0 (wf_steps g) outputs st1 (pj_steps job)" for outputs st1
    using assms(4) by (intro same_shape_run [OF assms(1)]) simp_all
  then show ?thesis using assms(2,3) by (simp add: runProvisioningJob_def)
qed

definition logging_flow :: "(step_context \<Rightarrow> string list \<Rightarrow> string list \<times> (thrown + json)) \<Rightarrow> string list workflow" where
  "logging_flow wallet_run = \<lparr>wf_action = ''activate'', wf_steps =
     [\<lparr>sd_name = ''wallet'', sd_run = wallet_run, sd_compensate = (\<lambda>x w. (w @ [''undo wallet''], None))\<rparr>,
      \<lparr>sd_name = ''runtime'', sd_run = (\<lambda>x w. (w @ [''runtime''], Inr JNull)),
       sd_compensate = (\<lambda>x w. (w @ [''undo runtime''], Some (ErrorObj ''down'')))\<rparr>],
     wf_successState = Active, wf_failureState = Failed\<rparr>"

definition step_of :: "string \<Rightarrow> step_status \<Rightarrow> step_record" where
  "step_of name status = \<lparr>sr_name = name, sr_status = status, sr_attempts = 1,
     sr_idempotencyKey = ''p1:'' @ name, sr_startedAt = None, sr_completedAt = None,
     sr_output = Some JNull, sr_error = None\<rparr>"

definition half_done :: "string list prov_state" where
  "half_done = \<lparr>ps_jobs = [sample_prov\<lparr>pj_status := PvRunning, pj_leasedBy := Some ''w1'',
       pj_leaseExpiresAt := Some 70, pj_fencingToken := 1,
       pj_steps := [step_of ''wallet'' SCompleted, step_of ''runtime'' SPending]\<rparr>],
     ps_log = [], ps_world = []\<rparr>"

definition quiet_env :: prov_env where
  "quiet_env = \<lparr>en_now = 50, en_meanwhile = (\<lambda>k t. t), en_fresh = (\<lambda>key k. key),
     en_logDown = (\<lambda>key. False), en_dbError = ''connection terminated''\<rparr>"

theorem completed_steps_not_rerun_witness:
  "runProvisioningJob quiet_env ''p1'' (logging_flow (\<lambda>x w. (w @ [''wallet''], Inr JNull))) ''w1'' 1 half_done
     = runProvisioningJob quiet_env ''p1'' (logging_flow (\<lambda>x w. (w, Inl (ErrorObj ''boom'')))) ''w1'' 1 half_done"
proof (rule completed_steps_not_rerun)
  show "loadJob ''p1'' (ps_jobs half_done) = Some (hd (ps_jobs half_done))"
    by (simp add: loadJob_def half_done_def sample_prov_def)
qed (auto simp: same_shape_def logging_flow_def half_done_def step_of_def less_Suc_eq)

section \<open>Compensation\<close>

definition to_compensate :: "step_record \<Rightarrow> bool" where
  "to_compensate r \<longleftrightarrow> sr_status r \<in> {SCompleted, SFailed}"

definition unwind ::
  "string \<Rightarrow> string \<Rightarrow> 'w workflow \<Rightarrow> step_outputs \<Rightarrow> step_record list \<Rightarrow> nat list \<Rightarrow> 'w \<Rightarrow> 'w" where
  "unwind talosId jobId flow outputs steps is w =
     foldl (\<lambda>w i. fst (sd_compensate (wf_steps flow ! i) (comp_context talosId jobId flow outputs (steps ! i)) w))
       w is"

definition settled_step :: "step_record \<Rightarrow> step_record \<Rightarrow> bool" where
  "settled_step r r' \<longleftrightarrow> (if to_compensate r
     then sr_status r' = SCompensated \<or> (\<exists>e. sr_error r' = Some (''compensation failed: '' @ e))
     else r' = r)"

lemma settled_step_same: "\<not> to_compensate r \<Longrightarrow> settled_step r r' \<longleftrightarrow> r' = r"
  by (simp add: settled_step_def)

lemma compensate_loop_exact:
  assumes "compensate_loop talosId jobId flow outputs is (st, steps) = (st', steps')"
    and "distinct is" "\<forall>i \<in> set is. i < length steps"
  shows "ps_world st' = unwind talosId jobId flow outputs steps (filter (\<lambda>i. to_compensate (steps ! i)) is) (ps_world st) \<and>
    length steps' = length steps \<and> (\<forall>i \<in> set is. settled_step (steps ! i) (steps' ! i)) \<and>
    (\<forall>i. i \<notin> set is \<longrightarrow> steps' ! i = steps ! i)"
  using assms
proof (induction "is" arbitrary: st steps)
  case Nil
  then show ?case by (simp add: unwind_def)
next
  case (Cons i "is")
  show ?case
  proof (cases "to_compensate (steps ! i)")
    case False
    then have "compensate_loop talosId jobId flow outputs is (st, steps) = (st', steps')"
      using Cons.prems(1) by (simp add: to_compensate_def Let_def)
    from Cons.IH [OF this] show ?thesis
      using Cons.prems(2,3) False by (auto simp: settled_step_same)
  next
    case True
    obtain w' err where c: "sd_compensate (wf_steps flow ! i)
        (comp_context talosId jobId flow outputs (steps ! i)) (ps_world st) = (w', err)" by fastforce
    define r' where "r' = (case err of None \<Rightarrow> (steps ! i)\<lparr>sr_status := SCompensated\<rparr>
        | Some e \<Rightarrow> (steps ! i)\<lparr>sr_error := Some (''compensation failed: '' @ safeError e)\<rparr>)"
    have settled: "settled_step (steps ! i) r'"
      using True by (cases err) (auto simp: settled_step_def r'_def)
    define st1 where "st1 = save jobId (\<lambda>j. j\<lparr>pj_steps := steps[i := r'], pj_status := PvCompensating\<rparr>)
        (st\<lparr>ps_world := w'\<rparr>)"
    have loop: "compensate_loop talosId jobId flow outputs is (st1, steps[i := r']) = (st', steps')"
      using Cons.prems(1) True c by (auto simp: to_compensate_def Let_def st1_def r'_def)
    have same: "k \<in> set is \<Longrightarrow> steps[i := r'] ! k = steps ! k" for k
      using Cons.prems(2) by (metis distinct.simps(2) nth_list_update_neq)
    have ih: "ps_world st' = unwind talosId jobId flow outputs (steps[i := r'])
          (filter (\<lambda>k. to_compensate (steps[i := r'] ! k)) is) (ps_world st1)"
      "length steps' = length steps" "\<forall>k \<in> set is. settled_step (steps ! k) (steps' ! k)"
      "\<forall>k. k \<notin> set is \<longrightarrow> steps' ! k = steps[i := r'] ! k"
      using Cons.IH [OF loop] Cons.prems(2,3) same by auto
    have "filter (\<lambda>k. to_compensate (steps[i := r'] ! k)) is = filter (\<lambda>k. to_compensate (steps ! k)) is"
      using same by (intro filter_cong) simp_all
    moreover have "unwind talosId jobId flow outputs (steps[i := r']) ks w = unwind talosId jobId flow outputs steps ks w"
      if "set ks \<subseteq> set is" for ks w
      unfolding unwind_def using that same by (intro foldl_cong) auto
    moreover have "ps_world st1 = w'" by (simp add: st1_def save_def)
    ultimately have "ps_world st' = unwind talosId jobId flow outputs steps
        (filter (\<lambda>k. to_compensate (steps ! k)) (i # is)) (ps_world st)"
      using ih(1) True c by (simp add: unwind_def)
    moreover have "steps' ! i = r'" using ih(4) Cons.prems(2,3) by simp
    ultimately show ?thesis using ih settled by auto
  qed
qed

text \<open>C23.
  Compensation undoes exactly what was done, in reverse: starting from the failed step it calls
  the compensations of the completed and failed steps from the last to the first, each once, on the
  state the previous one left, and goes on when one of them throws; afterwards each of those steps
  is compensated or carries a compensation failure, and every other step is as it was.\<close>

theorem compensation_exact:
  assumes "compensate env talosId jobId flow outputs failedIndex st steps = (st', Inr steps')"
    and "failedIndex < length steps"
  shows "ps_world st' = unwind talosId jobId flow outputs steps
      (filter (\<lambda>i. to_compensate (steps ! i)) (rev [0..<Suc failedIndex])) (ps_world st) \<and>
    length steps' = length steps \<and>
    (\<forall>i < length steps. if i \<le> failedIndex then settled_step (steps ! i) (steps' ! i)
                        else steps' ! i = steps ! i)"
proof -
  have world: "emit_event env inp s = (s', r) \<Longrightarrow> ps_world s' = ps_world s" for inp s s' r
    by (auto simp: emit_event_def split: sum.splits if_splits)
  obtain st1 st2 where "ps_world st1 = ps_world st" "ps_world st' = ps_world st2"
    "compensate_loop talosId jobId flow outputs (rev [0..<Suc failedIndex]) (st1, steps) = (st2, steps')"
    using assms(1) by (auto simp: compensate_def and_then_def split: prod.splits sum.splits dest: world)
  then show ?thesis
    using compensate_loop_exact [of talosId jobId flow outputs "rev [0..<Suc failedIndex]" st1 steps st2 steps']
      assms(2) by auto
qed

definition failed_steps :: "step_record list" where
  "failed_steps = [step_of ''wallet'' SCompleted, step_of ''runtime'' SFailed]"

text \<open>Appending under a fresh key in a quiet environment succeeds at once.\<close>

lemma emit_quiet:
  assumes "key \<noteq> []" "\<forall>r \<in> set (ps_log s). lv_id r \<noteq> key \<and> lv_idempotencyKey r \<noteq> Some key"
  shows "\<exists>row. emit_event quiet_env (system_event a j ty src dst nm det key) s
      = (s\<lparr>ps_log := ps_log s @ [row]\<rparr>, Inr ()) \<and> lv_id row = key \<and> lv_idempotencyKey row = Some key"
proof -
  let ?inp = "system_event a j ty src dst nm det key"
  let ?row = "new_log_row ?inp 50 key (tip_sequence a (ps_log s) + 1)"
  have "lv_sequence r < tip_sequence a (ps_log s) + 1" if "r \<in> set (ps_log s)" "lv_talosId r = a" for r
  proof (cases "log_tip a (ps_log s)")
    case None
    then have "filter (\<lambda>r. lv_talosId r = a) (ps_log s) = []" by (simp add: log_tip_def flip: set_empty)
    then show ?thesis using that by (auto simp: filter_empty_conv)
  next
    case (Some x)
    have "lv_sequence r \<in> set (sequences a (ps_log s))" using that by (auto simp: sequences_def)
    then show ?thesis using log_tip_max [OF Some] Some by (auto simp: tip_sequence_def)
  qed
  then have "\<not> list_ex (log_conflicts ?row) (ps_log s)"
    using assms(2) by (force simp: list_ex_iff log_conflicts_def new_log_row_def system_event_def)
  moreover have "event_for_key a (Some key) (ps_log s) = None"
    using assms(2) by (auto simp: event_for_key_def find_None_iff)
  moreover have "[0..<MAX_SEQUENCE_ATTEMPTS] = [0, 1, 2, 3, 4]" by code_simp
  moreover have in_simps: "li_talosId ?inp = a" "li_idempotencyKey ?inp = Some key"
    by (simp_all add: system_event_def)
  ultimately show ?thesis
    using assms(1)
    by (intro exI [of _ ?row]) (simp add: emit_event_def emitLifecycleEvent_def quiet_env_def Let_def,
        simp add: new_log_row_def)
qed

theorem compensation_exact_witness:
  "\<exists>st' steps'. compensate quiet_env ''a1'' ''p1'' (logging_flow (\<lambda>x w. (w, Inr JNull))) [] 1 half_done failed_steps
       = (st', Inr steps') \<and> ps_world st' = [''undo runtime'', ''undo wallet''] \<and>
     settled_step (failed_steps ! 0) (steps' ! 0)"
proof -
  let ?flow = "logging_flow (\<lambda>x w. (w, Inr JNull))"
  obtain row where row: "emit_event quiet_env (system_event ''a1'' ''p1''
      ''agent.lifecycle.compensation_started'' (Some Provisioning) Provisioning None
      (JObj [(''fromStep'', JStr (sd_name (wf_steps ?flow ! 1)))]) (''p1'' @ '':compensation:started'')) half_done
      = (half_done\<lparr>ps_log := [row]\<rparr>, Inr ())"
    "lv_id row = ''p1:compensation:started''" "lv_idempotencyKey row = Some ''p1:compensation:started''"
    using emit_quiet [of "''p1'' @ '':compensation:started''" half_done ] by (fastforce simp: half_done_def)
  obtain st1 steps1 where loop: "compensate_loop ''a1'' ''p1'' ?flow [] (rev [0..<Suc 1])
      (half_done\<lparr>ps_log := [row]\<rparr>, failed_steps) = (st1, steps1)" by fastforce
  have "ps_log st1 = [row]"
    using loop by (auto simp: upt_rec failed_steps_def step_of_def logging_flow_def save_def Let_def)
  then have ok: "\<exists>st2. emit_event quiet_env (system_event ''a1'' ''p1'' ty src dst nm det
      (''p1'' @ '':compensation:completed'')) st1 = (st2, Inr ())" for ty src dst nm det
    using emit_quiet [of "''p1'' @ '':compensation:completed''" st1] row(2,3) by fastforce
  have "\<exists>st2. compensate quiet_env ''a1'' ''p1'' ?flow [] 1 half_done failed_steps = (st2, Inr steps1)"
    unfolding compensate_def row(1) and_then_def prod.case sum.case loop Let_def
    by (rule exE [OF ok]) (erule ssubst, simp)
  then obtain st2 where done2: "compensate quiet_env ''a1'' ''p1'' ?flow [] 1 half_done failed_steps
      = (st2, Inr steps1)" by blast
  have all: "ps_world st2 = unwind ''a1'' ''p1'' ?flow [] failed_steps
      (filter (\<lambda>i. to_compensate (failed_steps ! i)) (rev [0..<Suc 1])) (ps_world half_done)"
    "\<forall>i < length failed_steps. if i \<le> 1 then settled_step (failed_steps ! i) (steps1 ! i)
       else steps1 ! i = failed_steps ! i"
    using compensation_exact [OF done2] by (simp_all add: failed_steps_def)
  have "ps_world st2 = [''undo runtime'', ''undo wallet'']"
    unfolding all(1)
    by (simp add: failed_steps_def unwind_def logging_flow_def to_compensate_def step_of_def
        half_done_def upt_rec)
  moreover have "settled_step (failed_steps ! 0) (steps1 ! 0)"
    using spec [OF all(2), of 0] by (simp add: failed_steps_def)
  ultimately show ?thesis using done2 by blast
qed

section \<open>Where a run is repeated or stuck\<close>

text \<open>A step that completed is executed again when only its completion event could not be appended:
  the failure is caught as if the step had failed, so the record is put back to pending although
  its effect has happened and its output had been stored, and the run is claimable again.\<close>

theorem completed_step_is_repeated:
  assumes "distinct (map pj_id (ps_jobs st))" "k < length steps"
    and "sr_status (steps ! k) \<noteq> SCompleted" "sr_attempts (steps ! k) + 1 < MAX_STEP_ATTEMPTS"
    and "renewLease (en_now env) (pj_id job) w token (ps_jobs st) = (jobs1, True)"
    and "\<And>x. sd_run d x (ps_world st) = (w', Inr output)"
    and "en_logDown env (sr_idempotencyKey (steps ! k) @ '':completed'')"
    and "run_steps env job flow w token k (d # ds) outputs st steps = (st', res)"
  shows "ps_world st' = w' \<and> (\<exists>r \<in> set (ps_jobs st'). pj_id r = pj_id job \<and>
    sr_status (pj_steps r ! k) = SPending \<and> sr_output (pj_steps r ! k) = Some output \<and>
    prov_claimable later r)"
proof -
  let ?r1 = "(steps ! k)\<lparr>sr_status := SRunning, sr_attempts := sr_attempts (steps ! k) + 1,
      sr_startedAt := Some (coalesce (sr_startedAt (steps ! k)) (en_now env))\<rparr>"
  let ?r2 = "?r1\<lparr>sr_status := SCompleted, sr_completedAt := Some (en_now env), sr_output := Some output,
      sr_error := None\<rparr>"
  define st2 where "st2 = (save (pj_id job) (\<lambda>j. j\<lparr>pj_steps := steps[k := ?r1], pj_cursor := int k,
      pj_status := PvRunning\<rparr>) (st\<lparr>ps_jobs := jobs1\<rparr>))\<lparr>ps_world := w'\<rparr>"
  define st3 where "st3 = save (pj_id job) (\<lambda>j. j\<lparr>pj_steps := steps[k := ?r2], pj_cursor := int k + 1,
      pj_status := PvRunning\<rparr>) st2"
  define outputs2 where "outputs2 = set_output (sr_name (steps ! k)) (Some output) outputs"
  define err where "err = emit_message env LogUnavailable"
  have failed: "step_failed env job flow k err outputs2 st3 (steps[k := ?r2]) = (st', res)"
    using assms(2-8)
    by (simp add: Let_def emit_event_def system_event_def st3_def st2_def save_def outputs2_def err_def)
  have st3: "ps_world st3 = w'" "map pj_id (ps_jobs st3) = map pj_id jobs1"
    by (simp_all add: st3_def st2_def save_def persist_def map_upd_frame)
  let ?steps = "steps[k := ?r2\<lparr>sr_error := Some (safeError err), sr_status := SPending\<rparr>]"
  let ?patch = "\<lambda>j. j\<lparr>pj_steps := ?steps, pj_cursor := int k, pj_status := PvPending,
      pj_lastError := Some (safeError err)\<rparr>"
  have "ps_jobs st' = persist (pj_id job) ?patch (ps_jobs st3)" "ps_world st' = w'"
    using failed assms(2,4) st3(1)
    by (auto simp: step_failed_def Let_def and_then_def emit_event_def save_def
        split: sum.splits if_splits prod.splits)
  moreover obtain y where y: "y \<in> set (ps_jobs st3)" "pj_id y = pj_id job"
  proof -
    have "\<exists>x \<in> set (ps_jobs st). holds_prov_lease (pj_id job) w token x"
      using assms(5) by (auto simp: renewLease_def upd_returning_def filter_empty_conv)
    then obtain x where "x \<in> set (ps_jobs st)" "pj_id x = pj_id job"
      by (auto simp: holds_prov_lease_def)
    then have "pj_id job \<in> set (map pj_id (ps_jobs st))" by (metis imageI set_map)
    moreover have "map pj_id jobs1 = map pj_id (ps_jobs st)"
      using assms(5) by (auto simp: renewLease_def upd_returning_def intro!: map_upd_frame)
    ultimately have "pj_id job \<in> set (map pj_id (ps_jobs st3))" using st3(2) by simp
    then show ?thesis using that by auto
  qed
  moreover have "?patch y \<in> set (persist (pj_id job) ?patch (ps_jobs st3))"
    using y by (auto simp: persist_def set_upd)
  ultimately show ?thesis
    using assms(2) by (intro conjI bexI [of _ "?patch y"]) (simp_all add: prov_claimable_def)
qed

definition wallet_pending :: "string list prov_state" where
  "wallet_pending = half_done\<lparr>ps_jobs := [sample_prov\<lparr>pj_status := PvRunning, pj_leasedBy := Some ''w1'',
     pj_leaseExpiresAt := Some 70, pj_fencingToken := 1,
     pj_steps := [step_of ''wallet'' SPending, step_of ''runtime'' SPending]\<rparr>]\<rparr>"

theorem completed_step_is_repeated_witness:
  "let flow = logging_flow (\<lambda>x w. ([''wallet''], Inr JNull)); job = hd (ps_jobs wallet_pending);
       st' = fst (run_steps (quiet_env\<lparr>en_logDown := (\<lambda>key. key = ''p1:wallet:completed'')\<rparr>) job flow ''w1'' 1 0
                (wf_steps flow) [] wallet_pending (pj_steps job))
   in ps_world st' = [''wallet''] \<and>
      (\<exists>r \<in> set (ps_jobs st'). pj_id r = ''p1'' \<and> sr_status (pj_steps r ! 0) = SPending)"
proof -
  let ?flow = "logging_flow (\<lambda>x w. ([''wallet''], Inr JNull))" and ?job = "hd (ps_jobs wallet_pending)"
  let ?env = "quiet_env\<lparr>en_logDown := (\<lambda>key. key = ''p1:wallet:completed'')\<rparr>"
  let ?run = "run_steps ?env ?job ?flow ''w1'' 1 0 (hd (wf_steps ?flow) # tl (wf_steps ?flow)) []
      wallet_pending (pj_steps ?job)"
  have steps: "hd (wf_steps ?flow) # tl (wf_steps ?flow) = wf_steps ?flow"
    by (simp add: logging_flow_def)
  obtain jobs1 where renew: "renewLease (en_now ?env) (pj_id ?job) ''w1'' 1 (ps_jobs wallet_pending) = (jobs1, True)"
    by (simp add: renewLease_def upd_returning_def holds_prov_lease_def wallet_pending_def sample_prov_def)
  have "ps_world (fst ?run) = [''wallet''] \<and> (\<exists>r \<in> set (ps_jobs (fst ?run)). pj_id r = pj_id ?job \<and>
      sr_status (pj_steps r ! 0) = SPending \<and> sr_output (pj_steps r ! 0) = Some JNull \<and> prov_claimable 0 r)"
  proof (rule completed_step_is_repeated [OF _ _ _ _ renew _ _ prod.collapse [symmetric]])
    show "sd_run (hd (wf_steps ?flow)) x (ps_world wallet_pending) = ([''wallet''], Inr JNull)" for x
      by (simp add: logging_flow_def)
  qed (simp_all add: wallet_pending_def step_of_def MAX_STEP_ATTEMPTS_def sample_prov_def)
  moreover have "pj_id ?job = ''p1''" by (simp add: wallet_pending_def sample_prov_def)
  ultimately show ?thesis unfolding Let_def steps by auto
qed

text \<open>A run that fails for good can be stuck in compensation: when the step's attempts are used up and
  the event that opens the compensation cannot be appended, nothing has been undone, the run is left
  in the compensating status, and neither the recovery sweep nor a lease request ever takes it up
  again.\<close>

theorem compensating_run_is_stuck:
  assumes "distinct (map pj_id (ps_jobs st))" "x \<in> set (ps_jobs st)" "pj_id x = pj_id job" "k < length steps"
    and "sr_attempts (steps ! k) \<ge> MAX_STEP_ATTEMPTS"
    and "en_logDown env (pj_id job @ '':compensation:started'')"
    and "step_failed env job flow k err outputs st steps = (st', res)"
  shows "ps_world st' = ps_world st \<and>
    (\<exists>r \<in> set (ps_jobs st'). pj_id r = pj_id job \<and> pj_status r = PvCompensating) \<and>
    (\<forall>limit later. pj_id job \<notin> fst ` set (findResumableJobs limit later (ps_jobs st'))) \<and>
    (\<forall>later w. acquireLease later w (pj_id job) (ps_jobs st') = (ps_jobs st', None))"
proof -
  let ?r = "(steps ! k)\<lparr>sr_error := Some (safeError err), sr_status := SFailed\<rparr>"
  let ?patch = "\<lambda>j. j\<lparr>pj_steps := steps[k := ?r], pj_cursor := int k, pj_status := PvCompensating,
      pj_lastError := Some (safeError err)\<rparr>"
  have st': "ps_jobs st' = persist (pj_id job) ?patch (ps_jobs st)" "ps_world st' = ps_world st"
    using assms(4-7)
    by (auto simp: step_failed_def Let_def and_then_def emit_event_def save_def compensate_def
        system_event_def split: sum.splits if_splits prod.splits)
  have status: "pj_status r = PvCompensating" if "r \<in> set (ps_jobs st')" "pj_id r = pj_id job" for r
    using that unfolding st' persist_def by (auto elim!: in_updE)
  have "?patch x \<in> set (ps_jobs st')" using assms(2,3) by (auto simp: st' persist_def set_upd)
  moreover have "\<not> (pj_id r = pj_id job \<and> prov_claimable later r)" if "r \<in> set (ps_jobs st')" for r later
    using status [OF that] by (auto simp: prov_claimable_def)
  ultimately show ?thesis
    using assms(3) st'(2)
    by (intro conjI allI bexI [of _ "?patch x"])
       (force simp: findResumableJobs_def acquireLease_def upd_returning_none dest!: in_set_takeD)+
qed

theorem compensating_run_is_stuck_witness:
  "let job = hd (ps_jobs half_done);
       st' = fst (step_failed (quiet_env\<lparr>en_logDown := (\<lambda>key. key = ''p1:compensation:started'')\<rparr>) job
               (logging_flow (\<lambda>x w. (w, Inr JNull))) 1 (ErrorObj ''boom'') [] half_done
               [step_of ''wallet'' SCompleted, (step_of ''runtime'' SRunning)\<lparr>sr_attempts := 3\<rparr>])
   in ps_world st' = [] \<and> (\<exists>r \<in> set (ps_jobs st'). pj_status r = PvCompensating) \<and>
      acquireLease 999999 ''w2'' ''p1'' (ps_jobs st') = (ps_jobs st', None)"
proof -
  let ?job = "hd (ps_jobs half_done)"
  have id: "pj_id ?job = ''p1''" by (simp add: half_done_def sample_prov_def)
  show ?thesis
    using compensating_run_is_stuck [OF _ _ _ _ _ _ prod.collapse [symmetric],
        where x = ?job and job = ?job and st = half_done and k = 1 and err = "ErrorObj ''boom''"
          and steps = "[step_of ''wallet'' SCompleted, (step_of ''runtime'' SRunning)\<lparr>sr_attempts := 3\<rparr>]"
          and env = "quiet_env\<lparr>en_logDown := (\<lambda>key. key = ''p1:compensation:started'')\<rparr>"
          and flow = "logging_flow (\<lambda>x w. (w, Inr JNull))" and outputs = "[]"]
    unfolding Let_def id
    by (simp add: half_done_def MAX_STEP_ATTEMPTS_def step_of_def) blast
qed

end
