(* ===== verification/Request_Boundary.thy ===== *)
theory Request_Boundary
  imports Prelude
begin

text \<open>
  The request boundary, parseBody and isJsonComplexityAcceptable of web/src/lib/schemas.ts, and
  the body schemas of the job routes.  Reading the body stream and JSON.parse are the platform's:
  a request body is given by the declared length, the measured length and the parsed value, if it
  parsed.  A Zod schema is a function from a JSON value to the typed body or \<open>None\<close>; Zod itself is
  a library, so the schemas are written out as what their combinators accept.
\<close>

section \<open>The complexity gate\<close>

definition MAX_JSON_DEPTH :: nat where "MAX_JSON_DEPTH = 32"
definition MAX_JSON_KEYS :: nat where "MAX_JSON_KEYS = 1024"

text \<open>\<open>walk\<close> returns the key counter and whether the value was accepted; it stops at the first
  refusal.\<close>

fun walk :: "nat \<Rightarrow> nat \<Rightarrow> json \<Rightarrow> nat \<Rightarrow> nat \<Rightarrow> nat \<times> bool"
  and walk_items :: "nat \<Rightarrow> nat \<Rightarrow> json list \<Rightarrow> nat \<Rightarrow> nat \<Rightarrow> nat \<times> bool"
  and walk_entries :: "nat \<Rightarrow> nat \<Rightarrow> (string \<times> json) list \<Rightarrow> nat \<Rightarrow> nat \<Rightarrow> nat \<times> bool" where
  "walk maxDepth maxKeys node depth keyCount =
     (if depth > maxDepth then (keyCount, False)
      else case node of
        JArr items \<Rightarrow> walk_items maxDepth maxKeys items depth keyCount
      | JObj entries \<Rightarrow> walk_entries maxDepth maxKeys entries depth keyCount
      | _ \<Rightarrow> (keyCount, True))"
| "walk_items maxDepth maxKeys [] depth keyCount = (keyCount, True)"
| "walk_items maxDepth maxKeys (item # items) depth keyCount =
     (case walk maxDepth maxKeys item (depth + 1) keyCount of
        (keyCount', False) \<Rightarrow> (keyCount', False)
      | (keyCount', True) \<Rightarrow> walk_items maxDepth maxKeys items depth keyCount')"
| "walk_entries maxDepth maxKeys [] depth keyCount = (keyCount, True)"
| "walk_entries maxDepth maxKeys ((key, child) # entries) depth keyCount =
     (if keyCount + 1 > maxKeys then (keyCount + 1, False)
      else case walk maxDepth maxKeys child (depth + 1) (keyCount + 1) of
        (keyCount', False) \<Rightarrow> (keyCount', False)
      | (keyCount', True) \<Rightarrow> walk_entries maxDepth maxKeys entries depth keyCount')"

definition isJsonComplexityAcceptable :: "json \<Rightarrow> bool" where
  "isJsonComplexityAcceptable v = snd (walk MAX_JSON_DEPTH MAX_JSON_KEYS v 0 0)"

text \<open>What the gate is for, without a traversal order: the nesting depth of a value and the
  number of object keys in it.\<close>

fun json_depth :: "json \<Rightarrow> nat" where
  "json_depth (JArr xs) = fold max (map (\<lambda>x. Suc (json_depth x)) xs) 0"
| "json_depth (JObj es) = fold max (map (\<lambda>e. Suc (json_depth (snd e))) es) 0"
| "json_depth _ = 0"

fun json_keys :: "json \<Rightarrow> nat" where
  "json_keys (JArr xs) = sum_list (map json_keys xs)"
| "json_keys (JObj es) = sum_list (map (\<lambda>e. Suc (json_keys (snd e))) es)"
| "json_keys _ = 0"

lemma fold_max_le: "fold max ns (a::nat) \<le> b \<longleftrightarrow> a \<le> b \<and> (\<forall>n \<in> set ns. n \<le> b)"
  by (induction ns arbitrary: a) auto

lemma add_depth_le [simp]:
  "k + json_depth (JArr xs) \<le> b \<longleftrightarrow> k \<le> b \<and> (\<forall>x \<in> set xs. k + json_depth x < b)"
  "k + json_depth (JObj es) \<le> b \<longleftrightarrow> k \<le> b \<and> (\<forall>e \<in> set es. k + json_depth (snd e) < b)"
proof -
  have "k + fold max ns 0 \<le> b \<longleftrightarrow> k \<le> b \<and> (\<forall>n \<in> set ns. k + n \<le> b)" for ns :: "nat list"
    using fold_max_le [of ns 0 "b - k"] by (cases "k \<le> b") (auto simp: le_diff_conv2 add.commute)
  then show "k + json_depth (JArr xs) \<le> b \<longleftrightarrow> k \<le> b \<and> (\<forall>x \<in> set xs. k + json_depth x < b)"
    "k + json_depth (JObj es) \<le> b \<longleftrightarrow> k \<le> b \<and> (\<forall>e \<in> set es. k + json_depth (snd e) < b)"
    by (simp_all add: Suc_le_eq)
qed

declare json_depth.simps(1,2) [simp del]

lemma walk_spec:
  "c \<le> m \<Longrightarrow> (snd (walk d m v k c) \<longleftrightarrow> k + json_depth v \<le> d \<and> c + json_keys v \<le> m) \<and>
     (snd (walk d m v k c) \<longrightarrow> fst (walk d m v k c) = c + json_keys v)"
  "c \<le> m \<Longrightarrow> k \<le> d \<Longrightarrow> (snd (walk_items d m vs k c) \<longleftrightarrow>
       (\<forall>v \<in> set vs. k + json_depth v < d) \<and> c + sum_list (map json_keys vs) \<le> m) \<and>
     (snd (walk_items d m vs k c) \<longrightarrow> fst (walk_items d m vs k c) = c + sum_list (map json_keys vs))"
  "c \<le> m \<Longrightarrow> k \<le> d \<Longrightarrow> (snd (walk_entries d m es k c) \<longleftrightarrow>
       (\<forall>e \<in> set es. k + json_depth (snd e) < d) \<and> c + sum_list (map (\<lambda>e. Suc (json_keys (snd e))) es) \<le> m) \<and>
     (snd (walk_entries d m es k c) \<longrightarrow>
       fst (walk_entries d m es k c) = c + sum_list (map (\<lambda>e. Suc (json_keys (snd e))) es))"
proof (induction d m v k c and d m vs k c and d m es k c rule: walk_walk_items_walk_entries.induct)
  case (1 d m v k c)
  then show ?case by (cases v) auto
next
  case (3 d m v vs k c)
  then show ?case by (cases "walk d m v (k + 1) c") (auto split: bool.splits)
next
  case (5 d m key v es k c)
  then show ?case by (cases "walk d m v (k + 1) (c + 1)") (auto split: bool.splits)
qed auto


text \<open>The complexity gate accepts exactly the values that are nested at most 32 deep and contain at
  most 1024 object keys: the counter shared by the whole traversal and its early exits decide
  neither more nor less than that.\<close>

theorem complexity_gate_exact:
  "isJsonComplexityAcceptable v = (json_depth v \<le> 32 \<and> json_keys v \<le> 1024)"
  using walk_spec(1) [of 0 MAX_JSON_KEYS MAX_JSON_DEPTH v 0]
  by (simp add: isJsonComplexityAcceptable_def MAX_JSON_DEPTH_def MAX_JSON_KEYS_def)

section \<open>Parsing a body\<close>

text \<open>An error reply is its status and its code or message.\<close>

type_synonym http_error = "int \<times> string"

record request_body =
  rb_declared :: "int option"  \<comment> \<open>Content-Length, when present and a number\<close>
  rb_bytes :: int
  rb_json :: "json option"  \<comment> \<open>\<open>None\<close>: not JSON\<close>

definition BODY_LIMIT_BYTES :: int where "BODY_LIMIT_BYTES = 102400"

definition parseBody :: "(json \<Rightarrow> 'a option) \<Rightarrow> request_body \<Rightarrow> http_error + 'a" where
  "parseBody schema b =
     (if (case rb_declared b of None \<Rightarrow> False | Some declared \<Rightarrow> declared > BODY_LIMIT_BYTES)
      then Inl (413, ''PAYLOAD_TOO_LARGE'')
      else if rb_bytes b > BODY_LIMIT_BYTES then Inl (413, ''PAYLOAD_TOO_LARGE'')
      else case rb_json b of
        None \<Rightarrow> Inl (400, ''INVALID_JSON'')
      | Some raw \<Rightarrow>
          if \<not> isJsonComplexityAcceptable raw then Inl (400, ''PAYLOAD_TOO_COMPLEX'')
          else case schema raw of
            None \<Rightarrow> Inl (400, ''VALIDATION_ERROR'')
          | Some data \<Rightarrow> Inr data)"

section \<open>Schemas\<close>

text \<open>A field of an object; an optional field may be missing but not of another type.\<close>

definition int_field :: "(int \<Rightarrow> bool) \<Rightarrow> json option \<Rightarrow> int option" where
  "int_field ok v = (case v of Some (JNum n) \<Rightarrow> if ok n then Some n else None | _ \<Rightarrow> None)"

definition optional_int_field :: "(int \<Rightarrow> bool) \<Rightarrow> json option \<Rightarrow> int option option" where
  "optional_int_field ok v = (case v of None \<Rightarrow> Some None | _ \<Rightarrow> map_option Some (int_field ok v))"

definition checked_text :: "(string \<Rightarrow> bool) \<Rightarrow> json option \<Rightarrow> string option" where
  "checked_text ok v = (case v of Some (JStr s) \<Rightarrow> if ok s then Some s else None | _ \<Rightarrow> None)"

fun texts_of :: "json list \<Rightarrow> string list option" where
  "texts_of [] = Some []"
| "texts_of (JStr s # vs) = map_option (Cons s) (texts_of vs)"
| "texts_of (_ # vs) = None"

text \<open>An object without other than the listed keys.\<close>

definition strict_fields :: "string list \<Rightarrow> json \<Rightarrow> (string \<Rightarrow> json option) option" where
  "strict_fields keys v = (case v of JObj es \<Rightarrow> if set (map fst es) \<subseteq> set keys then Some (map_of es) else None | _ \<Rightarrow> None)"

definition base32 :: "char \<Rightarrow> bool" where
  "base32 c \<longleftrightarrow> c \<in> set ''ABCDEFGHIJKLMNOPQRSTUVWXYZ234567''"

definition stellar_address :: "string \<Rightarrow> bool" where
  "stellar_address s \<longleftrightarrow> length s = 56 \<and> hd s = CHR ''G'' \<and> list_all base32 (tl s)"

fun object_fields :: "json \<Rightarrow> (string \<Rightarrow> json option) option" where
  "object_fields (JObj es) = Some (map_of es)"
| "object_fields _ = None"

definition claimJobSchema :: "json \<Rightarrow> int option option" where
  "claimJobSchema v = (case object_fields v of None \<Rightarrow> None
     | Some field \<Rightarrow> optional_int_field (\<lambda>n. 0 < n \<and> n \<le> 3600) (field ''ttlSeconds''))"

definition fencingSchema :: "json \<Rightarrow> int option" where
  "fencingSchema v = (case object_fields v of None \<Rightarrow> None
     | Some field \<Rightarrow> int_field (\<lambda>n. 0 \<le> n) (field ''fencingToken''))"

definition extendLeaseSchema :: "json \<Rightarrow> (int \<times> int) option" where
  "extendLeaseSchema v = (case object_fields v of None \<Rightarrow> None
     | Some field \<Rightarrow>
         (case (int_field (\<lambda>n. 0 \<le> n) (field ''fencingToken''),
                int_field (\<lambda>n. 1 \<le> n \<and> n \<le> 3600) (field ''extendSeconds'')) of
            (Some token, Some seconds) \<Rightarrow> Some (token, seconds)
          | _ \<Rightarrow> None))"

lemma claimJobSchema_range: "claimJobSchema v = Some (Some ttl) \<Longrightarrow> 0 < ttl \<and> ttl \<le> 3600"
  by (auto simp: claimJobSchema_def optional_int_field_def int_field_def
      split: option.splits json.splits if_splits)

lemma extendLeaseSchema_range: "extendLeaseSchema v = Some (token, s) \<Longrightarrow> 0 \<le> token \<and> 1 \<le> s \<and> s \<le> 3600"
  by (auto simp: extendLeaseSchema_def int_field_def split: option.splits json.splits if_splits prod.splits)

lemma parseBody_ok: "parseBody schema b = Inr x \<Longrightarrow> \<exists>raw. rb_json b = Some raw \<and> schema raw = Some x"
  by (auto simp: parseBody_def split: if_splits option.splits)

end
