(* ===== verification/Market_Tables.thy ===== *)
theory Market_Tables
  imports Request_Boundary
begin

text \<open>
  The tables of the agent marketplace (web/src/db/schema.ts) with the columns the modelled code
  reads or writes, and how a request names its caller.  Numeric columns are the strings the
  driver gives.
\<close>

section \<open>Rows\<close>

record agent =
  ag_id :: string
  ag_status :: string
  ag_apiKey :: "string option"
  ag_agentOnline :: bool
  ag_agentLastSeen :: "instant option"
  ag_agentWalletId :: "string option"
  ag_agentWalletAddress :: "string option"

record service =
  sv_id :: string
  sv_talosId :: string
  sv_stellarPublicKey :: string
  sv_currency :: string

record market_job =
  mj_id :: string
  mj_talosId :: string
  mj_requesterTalosId :: string
  mj_payload :: json
  mj_result :: json
  mj_status :: string
  mj_txHash :: "string option"
  mj_amount :: string
  mj_leasedBy :: "string option"
  mj_leasedAt :: "instant option"
  mj_leaseExpiresAt :: "instant option"
  mj_fencingToken :: int
  mj_createdAt :: instant
  mj_updatedAt :: instant

record revenue =
  rv_talosId :: string
  rv_amount :: string
  rv_currency :: string
  rv_source :: string
  rv_txHash :: "string option"

record reputation_input =
  ri_talosId :: string
  ri_jobId :: string
  ri_requesterTalosId :: string
  ri_status :: string
  ri_jobCreatedAt :: instant
  ri_jobUpdatedAt :: instant
  ri_deadlineAt :: "instant option"
  ri_refundAmount :: "string option"
  ri_hasResult :: bool
  ri_txHash :: "string option"

record market =
  mk_agents :: "agent list"
  mk_services :: "service list"
  mk_jobs :: "market_job list"
  mk_revenues :: "revenue list"
  mk_inputs :: "reputation_input list"

section \<open>Callers\<close>

definition find_agent :: "string \<Rightarrow> market \<Rightarrow> agent option" where
  "find_agent i m = sel_one (\<lambda>a. ag_id a = i) (mk_agents m)"

definition find_market_job :: "string \<Rightarrow> market \<Rightarrow> market_job option" where
  "find_market_job i m = sel_one (\<lambda>j. mj_id j = i) (mk_jobs m)"

definition bearer :: string where "bearer = ''Bearer ''"

text \<open>The lookup of the job routes: \<open>eq(apiKey, token)\<close> is unknown for a null key.\<close>

definition resolveCallerTalos :: "string option \<Rightarrow> market \<Rightarrow> string option" where
  "resolveCallerTalos header m =
     (case header of
        None \<Rightarrow> None
      | Some h \<Rightarrow>
          if take (length bearer) h \<noteq> bearer then None
          else map_option ag_id
            (sel_one (\<lambda>a. sql_true (sql_cmp (=) (ag_apiKey a) (Some (drop 7 h)))) (mk_agents m)))"

lemma find_market_job_Some: "find_market_job i m = Some j \<Longrightarrow> j \<in> set (mk_jobs m) \<and> mj_id j = i"
  by (auto simp: find_market_job_def dest: find_SomeD)

end
