(* ===== verification/Commerce_Jobs.thy ===== *)
theory Commerce_Jobs
  imports Market_Tables
begin

text \<open>
  The leases of paid commerce jobs: the routes web/src/app/api/jobs/[id]/claim, heartbeat,
  extend-lease, release and result, web/src/app/api/jobs/pending, the cancellation in
  web/src/app/api/talos/[id]/status, and ingestJobToLedger of web/src/lib/reputation-ledger.ts.

  A handler takes the clock, the Authorization header, the body, the job id and the market, and
  returns the market and an error reply or the success value.  Drizzle renders \<open>eq(column, null)\<close>
  as a comparison with NULL, so conditions are three-valued.  Where a handler reads a row and
  writes it later, \<open>meanwhile\<close> is what other requests do in between.  The transaction of the
  result route is atomic; its retries are in Db_Retry.
\<close>

section \<open>Conditions\<close>

definition sql_eq :: "'a option \<Rightarrow> 'a option \<Rightarrow> sql_bool" where
  "sql_eq = sql_cmp (=)"

lemma sql_eq_simps [simp]: "sql_true (sql_eq (Some a) (Some b)) \<longleftrightarrow> a = b"
  "sql_eq x None = None" "sql_eq None y = None"
  by (simp_all add: sql_eq_def)

lemma sql_true_eq_Some [simp]: "sql_true (sql_eq x (Some b)) \<longleftrightarrow> x = Some b"
  by (cases x) auto

lemma sql_true_cmp: "sql_true (sql_cmp r x (Some b)) \<longleftrightarrow> (\<exists>a. x = Some a \<and> r a b)"
  by (cases x) auto

definition claimable :: "instant \<Rightarrow> string \<Rightarrow> string \<Rightarrow> market_job \<Rightarrow> sql_bool" where
  "claimable now caller i j =
     sql_and (sql_eq (Some (mj_id j)) (Some i))
      (sql_and (sql_eq (Some (mj_status j)) (Some ''pending''))
        (sql_or (sql_eq (mj_leasedBy j) (Some caller))
          (sql_or (sql_eq (mj_leasedBy j) None)
            (sql_cmp (<) (mj_leaseExpiresAt j) (Some now)))))"

definition lease_owned :: "string \<Rightarrow> string \<Rightarrow> int \<Rightarrow> market_job \<Rightarrow> sql_bool" where
  "lease_owned i caller token j =
     sql_and (sql_eq (Some (mj_id j)) (Some i))
      (sql_and (sql_eq (mj_leasedBy j) (Some caller))
        (sql_eq (Some (mj_fencingToken j)) (Some token)))"

text \<open>An UPDATE of the jobs table with its returned rows.\<close>

definition update_jobs ::
  "(market_job \<Rightarrow> sql_bool) \<Rightarrow> (market_job \<Rightarrow> market_job) \<Rightarrow> market \<Rightarrow> market \<times> market_job list" where
  "update_jobs P f m =
     (let (t, rows) = upd_returning (\<lambda>j. sql_true (P j)) f (mk_jobs m) in (m\<lparr>mk_jobs := t\<rparr>, rows))"

section \<open>Guards shared by the routes\<close>

text \<open>Authentication, the body, and the caller's own status.\<close>

definition authenticated ::
  "string option \<Rightarrow> (json \<Rightarrow> 'b option) \<Rightarrow> request_body \<Rightarrow> market \<Rightarrow> http_error + (string \<times> 'b)" where
  "authenticated header schema body m =
     (case resolveCallerTalos header m of
        None \<Rightarrow> Inl (401, ''Missing or invalid Authorization'')
      | Some caller \<Rightarrow>
          (case parseBody schema body of Inl e \<Rightarrow> Inl e | Inr data \<Rightarrow> Inr (caller, data)))"

definition active_agent :: "string \<Rightarrow> market \<Rightarrow> bool" where
  "active_agent i m = (case find_agent i m of None \<Rightarrow> False | Some a \<Rightarrow> ag_status a = ''Active'')"

section \<open>Claim\<close>

definition DEFAULT_LEASE_TTL_SECONDS :: int where "DEFAULT_LEASE_TTL_SECONDS = 300"

definition claim_job ::
  "instant \<Rightarrow> string option \<Rightarrow> request_body \<Rightarrow> string \<Rightarrow> market \<Rightarrow> market \<times> (http_error + market_job)" where
  "claim_job now header body i m =
     (case authenticated header claimJobSchema body m of
        Inl e \<Rightarrow> (m, Inl e)
      | Inr (caller, ttl) \<Rightarrow>
          (case find_agent caller m of
             None \<Rightarrow> (m, Inl (404, ''TALOS not found''))
           | Some a \<Rightarrow>
               if ag_status a \<noteq> ''Active''
               then (m, Inl (409, ''This agent is not accepting new work''))
               else
                 let expiresAt = now + coalesce ttl DEFAULT_LEASE_TTL_SECONDS * 1000;
                     (m', rows) = update_jobs (claimable now caller i)
                       (\<lambda>j. j\<lparr>mj_leasedBy := Some caller, mj_leasedAt := Some now,
                              mj_leaseExpiresAt := Some expiresAt,
                              mj_fencingToken := mj_fencingToken j + 1, mj_updatedAt := now\<rparr>) m
                 in case first_row rows of
                      Some claimed \<Rightarrow> (m', Inr claimed)
                    | None \<Rightarrow>
                        (case find_market_job i m' of
                           None \<Rightarrow> (m', Inl (404, ''Job not found''))
                         | Some j \<Rightarrow>
                             if mj_status j \<noteq> ''pending'' then (m', Inl (409, ''Job is not pending''))
                             else (m', Inl (409, ''Job is already leased by another worker'')))))"

section \<open>Heartbeat, extension, release\<close>

definition HEARTBEAT_EXTEND_SECONDS :: int where "HEARTBEAT_EXTEND_SECONDS = 300"

definition heartbeat_lease ::
  "instant \<Rightarrow> string option \<Rightarrow> request_body \<Rightarrow> string \<Rightarrow> market \<Rightarrow> market \<times> (http_error + instant option)" where
  "heartbeat_lease now header body i m =
     (case authenticated header fencingSchema body m of
        Inl e \<Rightarrow> (m, Inl e)
      | Inr (caller, token) \<Rightarrow>
          if \<not> active_agent caller m
          then (m, Inl (409, ''This agent is not accepting new work''))
          else
            let newExpiry = now + HEARTBEAT_EXTEND_SECONDS * 1000;
                (m', rows) = update_jobs
                  (\<lambda>j. sql_and (lease_owned i caller token j)
                         (sql_eq (Some (mj_status j)) (Some ''pending'')))
                  (\<lambda>j. j\<lparr>mj_leaseExpiresAt := Some newExpiry, mj_updatedAt := now\<rparr>) m
            in case first_row rows of
                 None \<Rightarrow> (m', Inl (409, ''Lease not held or fencing token mismatch''))
               | Some renewed \<Rightarrow> (m', Inr (mj_leaseExpiresAt renewed)))"

definition MAX_LEASE_SECONDS :: int where "MAX_LEASE_SECONDS = 86400"

definition extend_lease ::
  "(market \<Rightarrow> market) \<Rightarrow> instant \<Rightarrow> string option \<Rightarrow> request_body \<Rightarrow> string \<Rightarrow> market
     \<Rightarrow> market \<times> (http_error + instant option)" where
  "extend_lease meanwhile now header body i m =
     (case authenticated header extendLeaseSchema body m of
        Inl e \<Rightarrow> (m, Inl e)
      | Inr (caller, token, extendSeconds) \<Rightarrow>
          if \<not> active_agent caller m
          then (m, Inl (409, ''This agent is not accepting new work''))
          else case find_market_job i m of
            None \<Rightarrow> (m, Inl (404, ''Job not found''))
          | Some j \<Rightarrow>
              if mj_status j \<noteq> ''pending'' then (m, Inl (409, ''Job is not pending''))
              else case mj_leaseExpiresAt j of
                None \<Rightarrow> (m, Inl (409, ''Job has no active lease''))
              | Some expiry \<Rightarrow>
                  if expiry \<le> now then (m, Inl (409, ''Lease expired''))
                  else if mj_leasedBy j \<noteq> Some caller \<or> mj_fencingToken j \<noteq> token
                  then (m, Inl (409, ''Lease not held or fencing token mismatch''))
                  else
                    let newExpiry = expiry + extendSeconds * 1000;
                        horizon = now + MAX_LEASE_SECONDS * 1000
                    in if newExpiry > horizon
                       then (m, Inl (422, ''Lease extension exceeds maximum''))
                       else
                         let (m', rows) = update_jobs
                               (\<lambda>j. sql_and (lease_owned i caller token j)
                                  (sql_and (sql_eq (Some (mj_status j)) (Some ''pending''))
                                    (sql_cmp (>) (mj_leaseExpiresAt j) (Some now))))
                               (\<lambda>j. j\<lparr>mj_leaseExpiresAt := Some newExpiry, mj_updatedAt := now\<rparr>)
                               (meanwhile m)
                         in case first_row rows of
                              None \<Rightarrow> (m', Inl (409, ''Lease not held or fencing token mismatch''))
                            | Some extended \<Rightarrow> (m', Inr (mj_leaseExpiresAt extended)))"

definition release_lease ::
  "instant \<Rightarrow> string option \<Rightarrow> request_body \<Rightarrow> string \<Rightarrow> market \<Rightarrow> market \<times> (http_error + unit)" where
  "release_lease now header body i m =
     (case authenticated header fencingSchema body m of
        Inl e \<Rightarrow> (m, Inl e)
      | Inr (caller, token) \<Rightarrow>
          if \<not> active_agent caller m
          then (m, Inl (409, ''This agent is not accepting new work''))
          else
            let (m', rows) = update_jobs (lease_owned i caller token)
                  (\<lambda>j. j\<lparr>mj_leasedBy := None, mj_leasedAt := None, mj_leaseExpiresAt := None,
                         mj_updatedAt := now\<rparr>) m
            in if rows = [] then (m', Inl (409, ''Lease not held or fencing token mismatch''))
               else (m', Inr ()))"

section \<open>Result\<close>

text \<open>JavaScript truthiness of a JSON value, and property access on what \<open>typeof\<close> calls an
  object.\<close>

fun truthy_json :: "json \<Rightarrow> bool" where
  "truthy_json JNull = False"
| "truthy_json (JBool b) = b"
| "truthy_json (JNum n) = (n \<noteq> 0)"
| "truthy_json (JStr s) = (s \<noteq> [])"
| "truthy_json _ = True"

fun json_prop :: "json \<Rightarrow> string \<Rightarrow> json option" where
  "json_prop (JObj es) k = map_of es k"
| "json_prop _ k = None"

fun own_keys :: "json \<Rightarrow> nat" where
  "own_keys (JObj es) = length es"
| "own_keys (JArr xs) = length xs"
| "own_keys _ = 0"

definition TERMINAL_JOB_STATUSES :: "string list" where
  "TERMINAL_JOB_STATUSES = [''completed'', ''accepted'', ''fulfilled'', ''settled'', ''failed'',
     ''rejected'', ''cancelled'', ''disputed'', ''refunded'']"

text \<open>What the database and the runtime decide: the instant a date literal denotes (\<open>None\<close> for
  an invalid date, which the driver refuses), \<open>String(v)\<close>, and whether a text is a numeric
  literal.\<close>

record ledger_env =
  le_date :: "json \<Rightarrow> instant option"
  le_string :: "json \<Rightarrow> string"
  le_numeric :: "string \<Rightarrow> bool"

datatype ledger_error = JobNotFound | InvalidDate | InvalidNumeric

definition raw_deadline :: "json \<Rightarrow> json option" where
  "raw_deadline payload =
     (case json_prop payload ''deadlineAt'' of
        Some v \<Rightarrow> if truthy_json v then Some v else json_prop payload ''deadline''
      | None \<Rightarrow> json_prop payload ''deadline'')"

definition deadline_of :: "ledger_env \<Rightarrow> json \<Rightarrow> ledger_error + instant option" where
  "deadline_of env payload =
     (case raw_deadline payload of
        Some v \<Rightarrow> (case v of
            JStr _ \<Rightarrow> (case le_date env v of None \<Rightarrow> Inl InvalidDate | Some d \<Rightarrow> Inr (Some d))
          | JNum _ \<Rightarrow> (case le_date env v of None \<Rightarrow> Inl InvalidDate | Some d \<Rightarrow> Inr (Some d))
          | _ \<Rightarrow> Inr None)
      | None \<Rightarrow> Inr None)"

definition refund_of :: "ledger_env \<Rightarrow> json \<Rightarrow> ledger_error + string option" where
  "refund_of env result =
     (case json_prop result ''refundAmount'' of
        None \<Rightarrow> Inr None
      | Some v \<Rightarrow>
          if v = JNull then Inr None
          else let t = le_string env v
               in if t = [] then Inr None
                  else if le_numeric env t then Inr (Some t) else Inl InvalidNumeric)"

text \<open>The insert with \<open>ON CONFLICT (jobId) DO UPDATE\<close>.\<close>

definition upsert_input :: "reputation_input \<Rightarrow> reputation_input list \<Rightarrow> reputation_input list" where
  "upsert_input r t =
     (if list_ex (\<lambda>x. ri_jobId x = ri_jobId r) t
      then upd (\<lambda>x. ri_jobId x = ri_jobId r)
        (\<lambda>x. x\<lparr>ri_status := ri_status r, ri_jobUpdatedAt := ri_jobUpdatedAt r,
               ri_deadlineAt := ri_deadlineAt r, ri_refundAmount := ri_refundAmount r,
               ri_hasResult := ri_hasResult r, ri_txHash := ri_txHash r\<rparr>) t
      else t @ [r])"

definition ingestJobToLedger :: "ledger_env \<Rightarrow> string \<Rightarrow> market \<Rightarrow> ledger_error + market" where
  "ingestJobToLedger env i m =
     (case find_market_job i m of
        None \<Rightarrow> Inl JobNotFound
      | Some j \<Rightarrow>
          if mj_status j \<notin> set TERMINAL_JOB_STATUSES then Inr m
          else (case deadline_of env (mj_payload j) of
              Inl e \<Rightarrow> Inl e
            | Inr deadlineAt \<Rightarrow>
                (case refund_of env (mj_result j) of
                   Inl e \<Rightarrow> Inl e
                 | Inr refundAmount \<Rightarrow>
                     Inr (m\<lparr>mk_inputs := upsert_input
                       \<lparr>ri_talosId = mj_talosId j, ri_jobId = mj_id j,
                        ri_requesterTalosId = mj_requesterTalosId j, ri_status = mj_status j,
                        ri_jobCreatedAt = mj_createdAt j, ri_jobUpdatedAt = mj_updatedAt j,
                        ri_deadlineAt = deadlineAt, ri_refundAmount = refundAmount,
                        ri_hasResult = own_keys (mj_result j) > 0, ri_txHash = mj_txHash j\<rparr>
                       (mk_inputs m)\<rparr>))))"

text \<open>The transaction: the guarded update, the revenue row, the ledger.  \<open>Inr (m, None)\<close> is the
  null it returns when no row matched; \<open>Inl\<close> rolls back.\<close>

definition result_transaction ::
  "ledger_env \<Rightarrow> instant \<Rightarrow> market_job \<Rightarrow> json \<Rightarrow> int \<Rightarrow> market \<Rightarrow> ledger_error + (market \<times> market_job option)" where
  "result_transaction env now job result token m =
     (let (m1, rows) = update_jobs
            (\<lambda>j. sql_and (sql_eq (Some (mj_id j)) (Some (mj_id job)))
               (sql_and (sql_eq (Some (mj_fencingToken j)) (Some token))
                 (sql_eq (Some (mj_status j)) (Some ''pending''))))
            (\<lambda>j. j\<lparr>mj_result := result, mj_status := ''completed'', mj_updatedAt := now\<rparr>) m
      in case first_row rows of
           None \<Rightarrow> Inr (m1, None)
         | Some updatedJob \<Rightarrow>
             let currency = (case sel_one (\<lambda>s. sv_talosId s = mj_talosId job) (mk_services m1) of
                   None \<Rightarrow> ''USDC'' | Some s \<Rightarrow> sv_currency s);
                 m2 = m1\<lparr>mk_revenues := mk_revenues m1 @
                   [\<lparr>rv_talosId = mj_talosId job, rv_amount = mj_amount job, rv_currency = currency,
                     rv_source = ''commerce'', rv_txHash = mj_txHash job\<rparr>]\<rparr>
             in (case ingestJobToLedger env (mj_id job) m2 of
                   Inl e \<Rightarrow> Inl e
                 | Inr m3 \<Rightarrow> Inr (m3, Some updatedJob)))"

text \<open>\<open>auth\<close> is the caller resolveTalosFromRequest found, or its error; the fencing token is a
  number or missing.\<close>

definition submit_result ::
  "ledger_env \<Rightarrow> (market \<Rightarrow> market) \<Rightarrow> instant \<Rightarrow> http_error + string \<Rightarrow> json option \<Rightarrow> int option \<Rightarrow> string
     \<Rightarrow> market \<Rightarrow> market \<times> (http_error + market_job)" where
  "submit_result env meanwhile now auth result fencingToken i m =
     (case auth of
        Inl e \<Rightarrow> (m, Inl e)
      | Inr caller \<Rightarrow>
          if \<not> truthy_json (coalesce result JNull) then (m, Inl (400, ''result is required''))
          else
            let token = coalesce fencingToken 0
            in case find_market_job i m of
                 None \<Rightarrow> (m, Inl (404, ''Job not found''))
               | Some job \<Rightarrow>
                   if mj_talosId job \<noteq> caller
                   then (m, Inl (403, ''Not authorized to fulfill this job''))
                   else if \<not> active_agent caller m
                   then (m, Inl (409, ''This agent is not accepting new work''))
                   else if mj_status job = ''completed'' then (m, Inl (409, ''Job already completed''))
                   else if truthy_str (mj_leasedBy job) \<and> mj_leasedBy job \<noteq> Some caller
                     \<and> (case mj_leaseExpiresAt job of None \<Rightarrow> False | Some e \<Rightarrow> e > now)
                   then (m, Inl (409, ''Job is leased by another worker''))
                   else
                     let m' = meanwhile m
                     in (case result_transaction env now job (coalesce result JNull) token m' of
                           Inl e \<Rightarrow> (m', Inl (500, ''Internal server error''))
                         | Inr (m'', None) \<Rightarrow> (m'', Inl (409, ''Fencing token mismatch''))
                         | Inr (m'', Some updated) \<Rightarrow> (m'', Inr updated)))"

section \<open>Listing and cancelling\<close>

text \<open>The jobs a provider may work on, oldest first, a page at a time.\<close>

definition listed :: "instant \<Rightarrow> string \<Rightarrow> instant option \<Rightarrow> market \<Rightarrow> market_job \<Rightarrow> bool" where
  "listed now caller cursor m j \<longleftrightarrow>
     sql_true (sql_and (sql_eq (Some (mj_talosId j)) (Some caller))
       (sql_and (sql_eq (Some (mj_status j)) (Some ''pending''))
         (sql_or (sql_eq (mj_leasedBy j) None)
           (sql_or (sql_eq (mj_leasedBy j) (Some caller))
             (sql_cmp (<) (mj_leaseExpiresAt j) (Some now)))))) \<and>
     active_agent (mj_talosId j) m \<and>
     (case cursor of None \<Rightarrow> True | Some c \<Rightarrow> mj_createdAt j > c)"

definition pending_jobs ::
  "instant \<Rightarrow> string option \<Rightarrow> instant option \<Rightarrow> int option \<Rightarrow> market
     \<Rightarrow> http_error + (market_job list \<times> instant option)" where
  "pending_jobs now header cursor limit_param m =
     (case resolveCallerTalos header m of
        None \<Rightarrow> Inl (401, ''Missing or invalid Authorization'')
      | Some caller \<Rightarrow>
          let limit = min (max (if coalesce limit_param 50 = 0 then 50 else coalesce limit_param 50) 1) 200;
              rows = take (nat (limit + 1))
                (sort_key mj_createdAt (sel (listed now caller cursor m) (mk_jobs m)));
              hasMore = int (length rows) > limit;
              jobs = (if hasMore then take (nat limit) rows else rows)
          in Inr (jobs, if hasMore \<and> jobs \<noteq> [] then Some (mj_createdAt (last jobs)) else None))"

text \<open>Pausing or retiring an agent cancels its pending jobs and drops their leases.\<close>

definition cancel_pending :: "instant \<Rightarrow> string \<Rightarrow> market \<Rightarrow> market" where
  "cancel_pending now talosId m =
     fst (update_jobs
       (\<lambda>j. sql_and (sql_eq (Some (mj_talosId j)) (Some talosId))
              (sql_eq (Some (mj_status j)) (Some ''pending'')))
       (\<lambda>j. j\<lparr>mj_status := ''cancelled'', mj_leasedBy := None, mj_leasedAt := None,
              mj_leaseExpiresAt := None, mj_updatedAt := now\<rparr>) m)"

text \<open>The INSERTs of the ordering routes leave the lease columns to their defaults.\<close>

definition unleased :: "market_job \<Rightarrow> bool" where
  "unleased j \<longleftrightarrow> mj_leasedBy j = None \<and> mj_leasedAt j = None \<and> mj_leaseExpiresAt j = None \<and>
     mj_fencingToken j = 0"

definition create_job :: "market_job \<Rightarrow> market \<Rightarrow> market option" where
  "create_job j m =
     (if unleased j \<and> mj_status j = ''pending'' \<and> find_market_job (mj_id j) m = None
      then Some (m\<lparr>mk_jobs := mk_jobs m @ [j]\<rparr>) else None)"

end
