(* ===== verification/Commerce_Facts.thy ===== *)
theory Commerce_Facts
  imports Commerce_Jobs
begin

text \<open>
  What the lease protocol of the commerce jobs guarantees: exclusivity and fencing, bounded
  extensions, one booking per completed job; and what it does to a job that was never leased.
\<close>

section \<open>Conditions and guards\<close>

lemma claimable_iff: "sql_true (claimable now c i j) \<longleftrightarrow> mj_id j = i \<and> mj_status j = ''pending'' \<and>
    (mj_leasedBy j = Some c \<or> (\<exists>e. mj_leaseExpiresAt j = Some e \<and> e < now))"
  by (auto simp: claimable_def sql_true_cmp)

lemma lease_owned_iff: "sql_true (lease_owned i c token j) \<longleftrightarrow>
    mj_id j = i \<and> mj_leasedBy j = Some c \<and> mj_fencingToken j = token"
  by (simp add: lease_owned_def)

lemma update_jobs_eq: "update_jobs P f m =
    (m\<lparr>mk_jobs := upd (\<lambda>j. sql_true (P j)) f (mk_jobs m)\<rparr>, map f (filter (\<lambda>j. sql_true (P j)) (mk_jobs m)))"
  by (simp add: update_jobs_def upd_returning_def)

lemma update_jobs_none: "(\<And>j. j \<in> set (mk_jobs m) \<Longrightarrow> \<not> sql_true (P j)) \<Longrightarrow> update_jobs P f m = (m, [])"
  by (simp add: update_jobs_eq upd_none filter_empty_conv)

lemma update_jobs_unhit: "snd (update_jobs P f m) = [] \<Longrightarrow> fst (update_jobs P f m) = m"
  by (auto simp: update_jobs_eq filter_empty_conv upd_none)

text \<open>An error of an authenticated route leaves the market alone.\<close>

lemma agents_frame [simp]:
  "resolveCallerTalos h (m\<lparr>mk_jobs := js\<rparr>) = resolveCallerTalos h m"
  "active_agent c (m\<lparr>mk_jobs := js\<rparr>) = active_agent c m"
  by (simp_all add: resolveCallerTalos_def active_agent_def find_agent_def split: option.split)

lemma authenticated_caller:
  "authenticated h schema b m = Inr (c, x) \<Longrightarrow> resolveCallerTalos h m = Some c \<and>
     (\<exists>raw. schema raw = Some x)"
  by (auto simp: authenticated_def split: option.splits sum.splits dest!: parseBody_ok)

section \<open>Claiming\<close>

text \<open>A claim either grants the lease or changes nothing.\<close>

definition granted_job :: "instant \<Rightarrow> string \<Rightarrow> instant \<Rightarrow> market_job \<Rightarrow> market_job" where
  "granted_job now c expiry j = j\<lparr>mj_leasedBy := Some c, mj_leasedAt := Some now,
     mj_leaseExpiresAt := Some expiry, mj_fencingToken := mj_fencingToken j + 1, mj_updatedAt := now\<rparr>"

lemma claim_cases:
  assumes "claim_job now h b i m = (m', res)"
  shows "(\<exists>e. res = Inl e \<and> m' = m) \<or>
    (\<exists>c expiry j. resolveCallerTalos h m = Some c \<and> now < expiry \<and> expiry \<le> now + 3600000 \<and>
       j \<in> set (mk_jobs m) \<and> sql_true (claimable now c i j) \<and> res = Inr (granted_job now c expiry j) \<and>
       m' = m\<lparr>mk_jobs := upd (\<lambda>j. sql_true (claimable now c i j)) (granted_job now c expiry) (mk_jobs m)\<rparr>)"
proof (cases "authenticated h claimJobSchema b m")
  case (Inl e)
  then show ?thesis using assms by (intro disjI1) (auto simp: claim_job_def)
next
  case (Inr p)
  obtain c ttl where p: "p = (c, ttl)" by (cases p)
  have caller: "resolveCallerTalos h m = Some c" and ttl: "\<exists>raw. claimJobSchema raw = Some ttl"
    using authenticated_caller [OF Inr [unfolded p]] by blast+
  define expiry where "expiry = now + coalesce ttl DEFAULT_LEASE_TTL_SECONDS * 1000"
  have range: "now < expiry" "expiry \<le> now + 3600000"
    using ttl claimJobSchema_range
    by (cases ttl; force simp: expiry_def DEFAULT_LEASE_TTL_SECONDS_def)+
  let ?P = "claimable now c i" and ?f = "granted_job now c expiry"
  have f: "(\<lambda>j. j\<lparr>mj_leasedBy := Some c, mj_leasedAt := Some now, mj_leaseExpiresAt := Some expiry,
      mj_fencingToken := mj_fencingToken j + 1, mj_updatedAt := now\<rparr>) = ?f"
    by (simp add: granted_job_def fun_eq_iff)
  show ?thesis
  proof (cases "(\<exists>a. find_agent c m = Some a \<and> ag_status a = ''Active'') \<and> snd (update_jobs ?P ?f m) \<noteq> []")
    case False
    then have "m' = m \<and> (\<exists>e. res = Inl e)"
      using assms Inr p update_jobs_unhit [of ?P ?f m]
      by (auto simp: claim_job_def f expiry_def [symmetric] Let_def
          split: option.splits if_splits prod.splits)
    then show ?thesis by blast
  next
    case True
    then obtain j js where rows: "filter (\<lambda>j. sql_true (?P j)) (mk_jobs m) = j # js"
      by (auto simp: update_jobs_eq neq_Nil_conv)
    then have "j \<in> set (filter (\<lambda>j. sql_true (?P j)) (mk_jobs m))" by simp
    then have "j \<in> set (mk_jobs m)" "sql_true (?P j)" by simp_all
    moreover have "res = Inr (?f j) \<and> m' = fst (update_jobs ?P ?f m)"
      using assms Inr p True rows
      by (auto simp: claim_job_def f expiry_def [symmetric] Let_def update_jobs_eq granted_job_def)
    ultimately show ?thesis
      using caller range by (auto simp: update_jobs_eq)
  qed
qed

text \<open>The row a successful claim leaves behind.\<close>

lemma claim_row:
  assumes "distinct (map mj_id (mk_jobs m))" "claim_job now h b i m = (m', Inr j)"
  shows "distinct (map mj_id (mk_jobs m'))" "mk_agents m' = mk_agents m" "mj_id j = i"
    "j' \<in> set (mk_jobs m') \<Longrightarrow> mj_id j' = i \<Longrightarrow> j' = j"
    "\<exists>c expiry. resolveCallerTalos h m = Some c \<and> mj_leasedBy j = Some c \<and>
       mj_leaseExpiresAt j = Some expiry \<and> now < expiry \<and> expiry \<le> now + 3600000"
    "\<exists>old \<in> set (mk_jobs m). mj_id old = i \<and> mj_fencingToken j = mj_fencingToken old + 1"
proof -
  obtain c expiry old where o: "resolveCallerTalos h m = Some c" "now < expiry" "expiry \<le> now + 3600000"
      "old \<in> set (mk_jobs m)" "sql_true (claimable now c i old)" "j = granted_job now c expiry old"
      "m' = m\<lparr>mk_jobs := upd (\<lambda>j. sql_true (claimable now c i j)) (granted_job now c expiry) (mk_jobs m)\<rparr>"
    using claim_cases [OF assms(2)] by blast
  have old: "mj_id old = i" using o(5) by (simp add: claimable_iff)
  show "distinct (map mj_id (mk_jobs m'))"
    using assms(1) by (simp add: o(7) map_upd_frame granted_job_def)
  show "mk_agents m' = mk_agents m" by (simp add: o(7))
  show "mj_id j = i" using old by (simp add: o(6) granted_job_def)
  show "\<exists>c expiry. resolveCallerTalos h m = Some c \<and> mj_leasedBy j = Some c \<and>
      mj_leaseExpiresAt j = Some expiry \<and> now < expiry \<and> expiry \<le> now + 3600000"
    using o(1-3) by (simp add: o(6) granted_job_def)
  show "\<exists>old \<in> set (mk_jobs m). mj_id old = i \<and> mj_fencingToken j = mj_fencingToken old + 1"
    using o(4) old by (auto simp: o(6) granted_job_def)
  show "j' = j" if "j' \<in> set (mk_jobs m')" "mj_id j' = i"
  proof -
    have "j' = granted_job now c expiry old"
    proof (rule in_updE [OF that(1) [unfolded o(7), simplified]])
      fix r assume "r \<in> set (mk_jobs m)" "sql_true (claimable now c i r)" "j' = granted_job now c expiry r"
      moreover from this have "r = old"
        using distinct_key_unique [OF assms(1) _ o(4), of r] old by (simp add: claimable_iff)
      ultimately show ?thesis by simp
    next
      assume r: "j' \<in> set (mk_jobs m)" "\<not> sql_true (claimable now c i j')"
      then have "j' = old" using distinct_key_unique [OF assms(1) r(1) o(4)] old that(2) by simp
      with r(2) o(5) show ?thesis by simp
    qed
    then show ?thesis by (simp add: o(6))
  qed
qed

text \<open>A claimed commerce job is leased to the authenticated caller alone, for at most an hour: until the
  lease has expired, a claim by any other caller, whatever it sends, is refused and changes
  nothing.\<close>

theorem market_lease_exclusive:
  assumes "distinct (map mj_id (mk_jobs m))" "claim_job now h b i m = (m', Inr j)"
  shows "\<exists>c expiry. resolveCallerTalos h m = Some c \<and> mj_leasedBy j = Some c \<and>
    mj_leaseExpiresAt j = Some expiry \<and> now < expiry \<and> expiry \<le> now + 3600000 \<and>
    (\<forall>later h' b'. later \<le> expiry \<longrightarrow> resolveCallerTalos h' m' \<noteq> Some c \<longrightarrow>
       (\<exists>e. claim_job later h' b' i m' = (m', Inl e)))"
proof -
  note row = claim_row [OF assms]
  obtain c expiry where c: "resolveCallerTalos h m = Some c" "mj_leasedBy j = Some c"
      "mj_leaseExpiresAt j = Some expiry" "now < expiry" "expiry \<le> now + 3600000"
    using row(5) by blast
  have "\<exists>e. claim_job later h' b' i m' = (m', Inl e)"
    if "later \<le> expiry" "resolveCallerTalos h' m' \<noteq> Some c" for later h' b'
  proof -
    have "\<not> sql_true (claimable later c' i x)"
      if "x \<in> set (mk_jobs m')" "resolveCallerTalos h' m' = Some c'" for x c'
      using row(4) [OF that(1)] c(2,3) \<open>later \<le> expiry\<close> \<open>resolveCallerTalos h' m' \<noteq> Some c\<close> that(2)
      by (auto simp: claimable_iff)
    then show ?thesis
      using claim_cases [of later h' b' i m' "fst (claim_job later h' b' i m')"
          "snd (claim_job later h' b' i m')"] by (metis prod.collapse)
  qed
  then show ?thesis using c by blast
qed

section \<open>Fencing\<close>

definition fenced_off :: "string \<Rightarrow> int \<Rightarrow> market \<Rightarrow> bool" where
  "fenced_off i token m \<longleftrightarrow> (\<forall>j \<in> set (mk_jobs m). mj_id j = i \<longrightarrow> mj_fencingToken j \<noteq> token)"

lemma fenced_off_update:
  assumes "fenced_off i token m" "\<And>j. sql_true (P j) \<Longrightarrow> mj_id j = i \<and> mj_fencingToken j = token"
  shows "update_jobs P f m = (m, [])"
  using assms by (intro update_jobs_none) (auto simp: fenced_off_def)

lemma stale_heartbeat:
  "fenced_off i token m \<Longrightarrow> authenticated h fencingSchema b m = Inr (c, token) \<Longrightarrow>
     \<exists>e. heartbeat_lease now h b i m = (m, Inl e)"
  using fenced_off_update [of i token m
      "\<lambda>j. sql_and (lease_owned i c token j) (sql_eq (Some (mj_status j)) (Some ''pending''))"]
  by (simp add: heartbeat_lease_def lease_owned_iff Let_def)

lemma stale_release:
  "fenced_off i token m \<Longrightarrow> authenticated h fencingSchema b m = Inr (c, token) \<Longrightarrow>
     \<exists>e. release_lease now h b i m = (m, Inl e)"
  using fenced_off_update [of i token m "lease_owned i c token"]
  by (simp add: release_lease_def lease_owned_iff Let_def)

lemma stale_extend:
  assumes "fenced_off i token m" "authenticated h extendLeaseSchema b m = Inr (c, token, s)"
  shows "\<exists>e. extend_lease mw now h b i m = (m, Inl e)"
  using assms find_market_job_Some [of i m]
  by (auto simp: extend_lease_def fenced_off_def split: option.split)

lemma stale_result:
  assumes "fenced_off i (coalesce token 0) (mw m)"
  shows "\<exists>m' e. submit_result env mw now auth result token i m = (m', Inl e) \<and> m' \<in> {m, mw m}"
proof -
  have "result_transaction env now job r (coalesce token 0) (mw m) = Inr (mw m, None)"
    if "mj_id job = i" for job r
    using fenced_off_update [OF assms, of "\<lambda>j. sql_and (sql_eq (Some (mj_id j)) (Some (mj_id job)))
        (sql_and (sql_eq (Some (mj_fencingToken j)) (Some (coalesce token 0)))
          (sql_eq (Some (mj_status j)) (Some ''pending'')))"] that
    by (simp add: result_transaction_def)
  then show ?thesis
    using find_market_job_Some [of i m]
    by (auto simp: submit_result_def Let_def split: sum.split option.split)
qed

text \<open>Fencing tokens retire old holders: a later claim of the same job carries a larger token, and
  from then on heartbeats, extensions, releases and results sent with the earlier token, by
  whomever, are refused and change nothing.\<close>

theorem stale_token_rejected:
  assumes "distinct (map mj_id (mk_jobs m))" "claim_job now h b i m = (m1, Inr j)"
    and "claim_job later h' b' i m1 = (m2, Inr j')"
  shows "mj_fencingToken j < mj_fencingToken j' \<and>
    (\<forall>t hs bs c. authenticated hs fencingSchema bs m2 = Inr (c, mj_fencingToken j) \<longrightarrow>
       (\<exists>e. heartbeat_lease t hs bs i m2 = (m2, Inl e)) \<and> (\<exists>e. release_lease t hs bs i m2 = (m2, Inl e))) \<and>
    (\<forall>mw t hs bs c s. authenticated hs extendLeaseSchema bs m2 = Inr (c, mj_fencingToken j, s) \<longrightarrow>
       (\<exists>e. extend_lease mw t hs bs i m2 = (m2, Inl e))) \<and>
    (\<forall>env t auth result. \<exists>e.
       submit_result env id t auth result (Some (mj_fencingToken j)) i m2 = (m2, Inl e))"
proof -
  note r1 = claim_row [OF assms(1,2)] and r2 = claim_row [OF claim_row(1) [OF assms(1,2)] assms(3)]
  have less: "mj_fencingToken j < mj_fencingToken j'" using r1(4) r2(6) by force
  then have off: "fenced_off i (mj_fencingToken j) m2" using r2(4) by (auto simp: fenced_off_def)
  have "\<exists>e. submit_result env id t auth result (Some (mj_fencingToken j)) i m2 = (m2, Inl e)"
    for env t auth result
    using stale_result [of i "Some (mj_fencingToken j)" id m2 env t auth result] off by auto
  then show ?thesis
    using less stale_heartbeat [OF off] stale_release [OF off] stale_extend [OF off] by blast
qed

section \<open>Runs of the market\<close>

text \<open>Requests to the lease and result routes, cancellations, new jobs and changes of agents, of any number
  of callers in any order.  A handler that reads before it writes continues in the market that other
  requests have reached meanwhile.  The webhook of cross-chain payments, the reconciler's repair and the
  removal of old rows, which also write tls_commerce_jobs, are not among them.\<close>

inductive market_run :: "market \<Rightarrow> market \<Rightarrow> bool" where
  run_start: "market_run m m"
| run_claim: "market_run m0 m \<Longrightarrow> claim_job now h b i m = (m', r) \<Longrightarrow> market_run m0 m'"
| run_heartbeat: "market_run m0 m \<Longrightarrow> heartbeat_lease now h b i m = (m', r') \<Longrightarrow> market_run m0 m'"
| run_release: "market_run m0 m \<Longrightarrow> release_lease now h b i m = (m', u) \<Longrightarrow> market_run m0 m'"
| run_extend: "market_run m0 m \<Longrightarrow> market_run m m2 \<Longrightarrow>
    extend_lease (\<lambda>_. m2) now h b i m = (m', r') \<Longrightarrow> market_run m0 m'"
| run_result: "market_run m0 m \<Longrightarrow> market_run m m2 \<Longrightarrow>
    submit_result env (\<lambda>_. m2) now auth result token i m = (m', r) \<Longrightarrow> market_run m0 m'"
| run_cancel: "market_run m0 m \<Longrightarrow> market_run m0 (cancel_pending now a m)"
| run_create: "market_run m0 m \<Longrightarrow> create_job j m = Some m' \<Longrightarrow> market_run m0 m'"
| run_agents: "market_run m0 m \<Longrightarrow> market_run m0 (m\<lparr>mk_agents := as, mk_services := ss\<rparr>)"

text \<open>The effect of each handler on the jobs table: an update of leased rows, or nothing.\<close>

lemma heartbeat_effect:
  "\<exists>P f. fst (heartbeat_lease now h b i m) = m\<lparr>mk_jobs := upd P f (mk_jobs m)\<rparr> \<and>
     (\<forall>j. P j \<longrightarrow> mj_leasedBy j \<noteq> None) \<and> (\<forall>j. mj_id (f j) = mj_id j \<and> mj_status (f j) = mj_status j)"
proof (cases "\<exists>c token. authenticated h fencingSchema b m = Inr (c, token) \<and> active_agent c m")
  case False
  then have "fst (heartbeat_lease now h b i m) = m\<lparr>mk_jobs := upd (\<lambda>j. False) id (mk_jobs m)\<rparr>"
    by (auto simp: heartbeat_lease_def upd_none split: sum.split)
  then show ?thesis by (intro exI [of _ "\<lambda>j. False"] exI [of _ id]) simp
next
  case True
  then obtain c token where "authenticated h fencingSchema b m = Inr (c, token)" "active_agent c m" by blast
  then show ?thesis
    by (intro exI [of _ "\<lambda>j. sql_true (sql_and (lease_owned i c token j) (sql_eq (Some (mj_status j)) (Some ''pending'')))"]
        exI [of _ "\<lambda>j. j\<lparr>mj_leaseExpiresAt := Some (now + HEARTBEAT_EXTEND_SECONDS * 1000), mj_updatedAt := now\<rparr>"])
       (simp add: heartbeat_lease_def Let_def update_jobs_eq lease_owned_iff split: option.split)
qed

lemma release_effect:
  "\<exists>P f. fst (release_lease now h b i m) = m\<lparr>mk_jobs := upd P f (mk_jobs m)\<rparr> \<and>
     (\<forall>j. P j \<longrightarrow> mj_leasedBy j \<noteq> None) \<and> (\<forall>j. mj_id (f j) = mj_id j \<and> mj_status (f j) = mj_status j)"
proof (cases "\<exists>c token. authenticated h fencingSchema b m = Inr (c, token) \<and> active_agent c m")
  case False
  then have "fst (release_lease now h b i m) = m\<lparr>mk_jobs := upd (\<lambda>j. False) id (mk_jobs m)\<rparr>"
    by (auto simp: release_lease_def upd_none split: sum.split)
  then show ?thesis by (intro exI [of _ "\<lambda>j. False"] exI [of _ id]) simp
next
  case True
  then obtain c token where "authenticated h fencingSchema b m = Inr (c, token)" "active_agent c m" by blast
  then show ?thesis
    by (intro exI [of _ "\<lambda>j. sql_true (lease_owned i c token j)"]
        exI [of _ "\<lambda>j. j\<lparr>mj_leasedBy := None, mj_leasedAt := None, mj_leaseExpiresAt := None, mj_updatedAt := now\<rparr>"])
       (simp add: release_lease_def Let_def update_jobs_eq lease_owned_iff)
qed

definition extension :: "instant \<Rightarrow> instant \<Rightarrow> market_job \<Rightarrow> market_job" where
  "extension now newExpiry j = j\<lparr>mj_leaseExpiresAt := Some newExpiry, mj_updatedAt := now\<rparr>"

definition extendable :: "string \<Rightarrow> string \<Rightarrow> int \<Rightarrow> instant \<Rightarrow> market_job \<Rightarrow> bool" where
  "extendable i c token now j \<longleftrightarrow> mj_id j = i \<and> mj_leasedBy j = Some c \<and> mj_fencingToken j = token \<and>
     mj_status j = ''pending'' \<and> (\<exists>e. mj_leaseExpiresAt j = Some e \<and> now < e)"

lemma extend_cases:
  assumes "extend_lease mw now h b i m = (m', r)"
  shows "(m' = m \<and> (\<exists>e. r = Inl e)) \<or>
    (\<exists>c token s j expiry. authenticated h extendLeaseSchema b m = Inr (c, token, s) \<and>
       find_market_job i m = Some j \<and> mj_leaseExpiresAt j = Some expiry \<and> now < expiry \<and>
       expiry + s * 1000 \<le> now + 86400000 \<and>
       m' = (mw m)\<lparr>mk_jobs := upd (extendable i c token now) (extension now (expiry + s * 1000)) (mk_jobs (mw m))\<rparr> \<and>
       ((\<exists>x. r = Inr x) \<longrightarrow> r = Inr (Some (expiry + s * 1000)) \<and>
          (\<exists>x \<in> set (mk_jobs (mw m)). extendable i c token now x)))"
proof (cases "\<exists>c token s j expiry. authenticated h extendLeaseSchema b m = Inr (c, token, s) \<and> active_agent c m \<and>
    find_market_job i m = Some j \<and> mj_status j = ''pending'' \<and> mj_leaseExpiresAt j = Some expiry \<and>
    now < expiry \<and> mj_leasedBy j = Some c \<and> mj_fencingToken j = token \<and>
    expiry + s * 1000 \<le> now + MAX_LEASE_SECONDS * 1000")
  case False
  then have "m' = m \<and> (\<exists>e. r = Inl e)"
    using assms
    by (auto simp: extend_lease_def Let_def not_le split: sum.splits option.splits if_splits)
  then show ?thesis by blast
next
  case True
  then obtain c token s j expiry where t: "authenticated h extendLeaseSchema b m = Inr (c, token, s)"
      "active_agent c m" "find_market_job i m = Some j" "mj_status j = ''pending''"
      "mj_leaseExpiresAt j = Some expiry" "now < expiry" "mj_leasedBy j = Some c"
      "mj_fencingToken j = token" "expiry + s * 1000 \<le> now + MAX_LEASE_SECONDS * 1000" by blast
  have P: "(\<lambda>j. sql_true (lease_owned i c token j) \<and> mj_status j = ''pending'' \<and>
      sql_true (sql_cmp (\<lambda>x y. y < x) (mj_leaseExpiresAt j) (Some now))) = extendable i c token now"
    by (auto simp: extendable_def lease_owned_iff sql_true_cmp fun_eq_iff)
  have f: "(\<lambda>j. j\<lparr>mj_leaseExpiresAt := Some (expiry + s * 1000), mj_updatedAt := now\<rparr>)
      = extension now (expiry + s * 1000)"
    by (simp add: extension_def fun_eq_iff)
  define rows where "rows = filter (extendable i c token now) (mk_jobs (mw m))"
  have eq: "(m', r) = ((mw m)\<lparr>mk_jobs := upd (extendable i c token now) (extension now (expiry + s * 1000)) (mk_jobs (mw m))\<rparr>,
      case first_row (map (extension now (expiry + s * 1000)) rows) of
        None \<Rightarrow> Inl (409, ''Lease not held or fencing token mismatch'')
      | Some extended \<Rightarrow> Inr (mj_leaseExpiresAt extended))"
    unfolding assms [symmetric] using t
    by (simp add: extend_lease_def Let_def update_jobs_eq P f rows_def split: option.split)
  have "\<exists>x \<in> set (mk_jobs (mw m)). extendable i c token now x" if "rows \<noteq> []"
    using that by (auto simp: rows_def filter_empty_conv)
  then have "(\<exists>x. r = Inr x) \<longrightarrow> r = Inr (Some (expiry + s * 1000)) \<and>
      (\<exists>x \<in> set (mk_jobs (mw m)). extendable i c token now x)"
    using eq by (cases rows) (auto simp: extension_def)
  then show ?thesis using t eq by (auto simp: MAX_LEASE_SECONDS_def)
qed

lemma extend_effect:
  assumes "extend_lease mw now h b i m = (m', r)"
  shows "m' = m \<or> (\<exists>P f. m' = (mw m)\<lparr>mk_jobs := upd P f (mk_jobs (mw m))\<rparr> \<and>
     (\<forall>j. P j \<longrightarrow> mj_leasedBy j \<noteq> None) \<and> (\<forall>j. mj_id (f j) = mj_id j \<and> mj_status (f j) = mj_status j))"
proof -
  have "(\<forall>j. extendable i c token now j \<longrightarrow> mj_leasedBy j \<noteq> None) \<and>
      (\<forall>j. mj_id (extension now e j) = mj_id j \<and> mj_status (extension now e j) = mj_status j)" for c token e
    by (simp add: extendable_def extension_def)
  then show ?thesis using extend_cases [OF assms] by blast
qed

text \<open>A lease extension only ever lengthens a live lease of its holder, and never past a day from now:
  when it succeeds the row was pending, leased by the caller under the token it sent and unexpired,
  the new expiry is the old one plus one second to one hour, and nothing else in the table has
  changed than that row's expiry (and update time).\<close>

theorem extend_lease_bounded:
  assumes "extend_lease id now h b i m = (m', Inr x)"
  shows "\<exists>c expiry s j. resolveCallerTalos h m = Some c \<and> find_market_job i m = Some j \<and>
    mj_leaseExpiresAt j = Some expiry \<and> now < expiry \<and> 1 \<le> s \<and> s \<le> 3600 \<and>
    x = Some (expiry + s * 1000) \<and> expiry + s * 1000 \<le> now + 24 * 60 * 60 * 1000 \<and>
    length (mk_jobs m') = length (mk_jobs m) \<and>
    (\<forall>n < length (mk_jobs m). mk_jobs m' ! n = mk_jobs m ! n \<or>
       (mj_id (mk_jobs m ! n) = i \<and> mj_leasedBy (mk_jobs m ! n) = Some c \<and>
        mk_jobs m' ! n = extension now (expiry + s * 1000) (mk_jobs m ! n)))"
proof -
  obtain c token s j expiry where t: "authenticated h extendLeaseSchema b m = Inr (c, token, s)"
      "find_market_job i m = Some j" "mj_leaseExpiresAt j = Some expiry" "now < expiry"
      "expiry + s * 1000 \<le> now + 86400000" "x = Some (expiry + s * 1000)"
      "m' = m\<lparr>mk_jobs := upd (extendable i c token now) (extension now (expiry + s * 1000)) (mk_jobs m)\<rparr>"
    using extend_cases [OF assms] by auto
  moreover from t(1) have "resolveCallerTalos h m = Some c" "1 \<le> s" "s \<le> 3600"
    using authenticated_caller [OF t(1)] extendLeaseSchema_range by blast+
  moreover have "mk_jobs m' ! n = mk_jobs m ! n \<or>
      (mj_id (mk_jobs m ! n) = i \<and> mj_leasedBy (mk_jobs m ! n) = Some c \<and>
       mk_jobs m' ! n = extension now (expiry + s * 1000) (mk_jobs m ! n))" if "n < length (mk_jobs m)" for n
    using that by (simp add: t(7) upd_def extendable_def)
  moreover have "length (mk_jobs m') = length (mk_jobs m)" by (simp add: t(7))
  ultimately show ?thesis by (intro exI [of _ c] exI [of _ expiry] exI [of _ s] exI [of _ j]) simp
qed

section \<open>Results\<close>

definition completable :: "string \<Rightarrow> int \<Rightarrow> market_job \<Rightarrow> bool" where
  "completable i token j \<longleftrightarrow> mj_id j = i \<and> mj_fencingToken j = token \<and> mj_status j = ''pending''"

definition finished :: "instant \<Rightarrow> json \<Rightarrow> market_job \<Rightarrow> market_job" where
  "finished now result j = j\<lparr>mj_result := result, mj_status := ''completed'', mj_updatedAt := now\<rparr>"

lemma ingest_frame: "ingestJobToLedger env i m = Inr m' \<Longrightarrow> \<exists>ins. m' = m\<lparr>mk_inputs := ins\<rparr>"
  by (auto simp: ingestJobToLedger_def split: option.splits if_splits sum.splits)
     (metis market.surjective market.update_convs(5))+

lemma transaction_cases:
  assumes "result_transaction env now job result token m = Inr (m', u)"
  shows "(u = None \<and> m' = m) \<or>
    (\<exists>ins rv x. x \<in> set (mk_jobs m) \<and> completable (mj_id job) token x \<and> u = Some (finished now result x) \<and>
       rv_talosId rv = mj_talosId job \<and> rv_amount rv = mj_amount job \<and>
       m' = m\<lparr>mk_jobs := upd (completable (mj_id job) token) (finished now result) (mk_jobs m),
              mk_revenues := mk_revenues m @ [rv], mk_inputs := ins\<rparr>)"
proof -
  let ?P = "completable (mj_id job) token" and ?f = "finished now result"
  have P: "(\<lambda>j. mj_id j = mj_id job \<and> mj_fencingToken j = token \<and> mj_status j = ''pending'') = ?P"
    by (simp add: completable_def fun_eq_iff)
  have f: "(\<lambda>j. j\<lparr>mj_result := result, mj_status := ''completed'', mj_updatedAt := now\<rparr>) = ?f"
    by (simp add: finished_def fun_eq_iff)
  show ?thesis
  proof (cases "filter ?P (mk_jobs m)")
    case Nil
    then have "upd ?P ?f (mk_jobs m) = mk_jobs m" by (intro upd_none) (auto simp: filter_empty_conv)
    then show ?thesis using assms Nil by (simp add: result_transaction_def update_jobs_eq P f)
  next
    case (Cons x xs)
    then have "x \<in> set (filter ?P (mk_jobs m))" by simp
    then have x: "x \<in> set (mk_jobs m)" "?P x" by simp_all
    let ?m1 = "m\<lparr>mk_jobs := upd ?P ?f (mk_jobs m)\<rparr>"
    define rv where "rv = \<lparr>rv_talosId = mj_talosId job, rv_amount = mj_amount job,
      rv_currency = (case sel_one (\<lambda>s. sv_talosId s = mj_talosId job) (mk_services m) of
        None \<Rightarrow> ''USDC'' | Some s \<Rightarrow> sv_currency s), rv_source = ''commerce'', rv_txHash = mj_txHash job\<rparr>"
    have rv: "rv_talosId rv = mj_talosId job" "rv_amount rv = mj_amount job" by (simp_all add: rv_def)
    have "ingestJobToLedger env (mj_id job) (?m1\<lparr>mk_revenues := mk_revenues ?m1 @ [rv]\<rparr>) = Inr m'"
        "u = Some (?f x)"
      using assms Cons
      by (auto simp: result_transaction_def update_jobs_eq P f Let_def rv_def split: sum.splits)
    then show ?thesis using ingest_frame x rv by fastforce
  qed
qed

lemma transaction_none: "result_transaction env now job result token m = Inr (m', None) \<Longrightarrow> m' = m"
  by (drule transaction_cases) auto

lemma submit_cases:
  assumes "submit_result env mw now auth result token i m = (m', r)"
  shows "(\<exists>e. r = Inl e \<and> m' \<in> {m, mw m}) \<or>
    (\<exists>c job x ins rv res. auth = Inr c \<and> find_market_job i m = Some job \<and> mj_talosId job = c \<and>
       active_agent c m \<and> x \<in> set (mk_jobs (mw m)) \<and> completable i (coalesce token 0) x \<and>
       r = Inr (finished now res x) \<and> rv_talosId rv = c \<and> rv_amount rv = mj_amount job \<and>
       m' = (mw m)\<lparr>mk_jobs := upd (completable i (coalesce token 0)) (finished now res) (mk_jobs (mw m)),
              mk_revenues := mk_revenues (mw m) @ [rv], mk_inputs := ins\<rparr>)"
proof (cases "\<exists>e. r = Inl e")
  case True
  have "m' \<in> {m, mw m}"
    using assms True
    by (auto simp: submit_result_def Let_def dest: transaction_none
        split: sum.splits option.splits if_splits)
  then show ?thesis using True by blast
next
  case False
  then obtain c job u where c: "auth = Inr c" "find_market_job i m = Some job" "mj_talosId job = c"
      "active_agent c m" "r = Inr u"
      "result_transaction env now job (coalesce result JNull) (coalesce token 0) (mw m) = Inr (m', Some u)"
    using assms
    by (auto simp: submit_result_def Let_def split: sum.splits option.splits if_splits)
  moreover have "mj_id job = i" using find_market_job_Some [OF c(2)] by simp
  ultimately show ?thesis
    using transaction_cases [OF c(6)] by (intro disjI2) auto
qed

section \<open>Booking\<close>

definition completed_jobs :: "market \<Rightarrow> nat" where
  "completed_jobs m = length (filter (\<lambda>j. mj_status j = ''completed'') (mk_jobs m))"

definition ids_ok :: "market \<Rightarrow> bool" where
  "ids_ok m \<longleftrightarrow> distinct (map mj_id (mk_jobs m))"

text \<open>The revenue rows exceed the completed jobs by as many as before.\<close>

definition same_books :: "market \<Rightarrow> market \<Rightarrow> bool" where
  "same_books m m' \<longleftrightarrow> ids_ok m' \<and>
     length (mk_revenues m') + completed_jobs m = length (mk_revenues m) + completed_jobs m'"

lemma length_filter_upd: "(\<And>r. Q (f r) = Q r) \<Longrightarrow> length (filter Q (upd P f t)) = length (filter Q t)"
  by (induction t) auto

lemma same_books_trans: "same_books a b \<Longrightarrow> same_books b c \<Longrightarrow> same_books a c"
  by (simp add: same_books_def)

lemma same_books_refl: "ids_ok m \<Longrightarrow> same_books m m"
  by (simp add: same_books_def)

lemma same_books_ids: "same_books m m' \<Longrightarrow> ids_ok m'"
  by (simp add: same_books_def)

lemma same_books_frame:
  assumes "ids_ok m" "\<forall>j. mj_id (f j) = mj_id j \<and> mj_status (f j) = mj_status j"
  shows "same_books m (m\<lparr>mk_jobs := upd P f (mk_jobs m)\<rparr>)"
  using assms by (simp add: same_books_def ids_ok_def completed_jobs_def length_filter_upd map_upd_frame)

lemma completed_one_more:
  assumes "distinct (map mj_id t)" "x \<in> set t" "completable i token x"
  shows "length (filter (\<lambda>j. mj_status j = ''completed'') (upd (completable i token) (finished now res) t)) =
    Suc (length (filter (\<lambda>j. mj_status j = ''completed'') t))"
  using assms
proof (induction t)
  case (Cons y t)
  have unhit: "upd (completable i token) (finished now res) t = t" if "mj_id y = i"
  proof (rule upd_none)
    fix r assume "r \<in> set t"
    then have "mj_id r \<in> mj_id ` set t" by (rule imageI)
    then show "\<not> completable i token r" using Cons.prems(1) that by (auto simp: completable_def)
  qed
  have id: "mj_id x = i" "mj_status x \<noteq> ''completed''" using Cons.prems(3) by (simp_all add: completable_def)
  show ?case
  proof (cases "y = x")
    case True
    moreover have "mj_status (finished now res x) = ''completed''" by (simp add: finished_def)
    ultimately show ?thesis using unhit id Cons.prems(3) by simp
  next
    case False
    then have "x \<in> set t" using Cons.prems(2) by simp
    moreover from this have "mj_id y \<noteq> i" using Cons.prems(1) id(1) by force
    ultimately show ?thesis using Cons by (simp add: completable_def)
  qed
qed simp

lemma claim_books:
  assumes "claim_job now h b i m = (m', r)" "ids_ok m"
  shows "same_books m m'"
  using claim_cases [OF assms(1)] assms(2)
  by (elim disjE exE conjE) (simp_all add: same_books_refl same_books_frame granted_job_def)

lemma heartbeat_books: "heartbeat_lease now h b i m = (m', r) \<Longrightarrow> ids_ok m \<Longrightarrow> same_books m m'"
  using heartbeat_effect [of now h b i m] by (metis fst_conv same_books_frame)

lemma release_books: "release_lease now h b i m = (m', r) \<Longrightarrow> ids_ok m \<Longrightarrow> same_books m m'"
  using release_effect [of now h b i m] by (metis fst_conv same_books_frame)

lemma extend_books:
  "extend_lease mw now h b i m = (m', r) \<Longrightarrow> ids_ok m \<Longrightarrow> same_books m (mw m) \<Longrightarrow> same_books m m'"
  by (drule extend_effect) (metis same_books_frame same_books_ids same_books_refl same_books_trans)

lemma submit_books:
  assumes "submit_result env mw now auth result token i m = (m', r)" "ids_ok m" "same_books m (mw m)"
  shows "same_books m m'"
proof -
  consider "m' \<in> {m, mw m}"
    | x ins rv res where "x \<in> set (mk_jobs (mw m))" "completable i (coalesce token 0) x"
        "m' = (mw m)\<lparr>mk_jobs := upd (completable i (coalesce token 0)) (finished now res) (mk_jobs (mw m)),
              mk_revenues := mk_revenues (mw m) @ [rv], mk_inputs := ins\<rparr>"
    using submit_cases [OF assms(1)] by blast
  then show ?thesis
  proof cases
    case 1
    then show ?thesis using assms(2,3) same_books_refl by blast
  next
    case 2
    have "ids_ok (mw m)" using assms(3) by (rule same_books_ids)
    then have "same_books (mw m) m'"
      using completed_one_more [OF _ 2(1,2)]
      by (simp add: 2(3) same_books_def ids_ok_def completed_jobs_def map_upd_frame finished_def)
    then show ?thesis using assms(3) same_books_trans by blast
  qed
qed

lemma cancel_jobs: "mk_jobs (cancel_pending now a m) =
    upd (\<lambda>j. mj_talosId j = a \<and> mj_status j = ''pending'')
      (\<lambda>j. j\<lparr>mj_status := ''cancelled'', mj_leasedBy := None, mj_leasedAt := None,
             mj_leaseExpiresAt := None, mj_updatedAt := now\<rparr>) (mk_jobs m)"
  by (simp add: cancel_pending_def update_jobs_eq)

lemma cancel_books:
  assumes "ids_ok m"
  shows "same_books m (cancel_pending now a m)"
proof -
  have "filter (\<lambda>j. mj_status j = ''completed'') (mk_jobs (cancel_pending now a m)) =
      filter (\<lambda>j. mj_status j = ''completed'') (mk_jobs m)"
    unfolding cancel_pending_def update_jobs_eq by (simp, rule filter_upd_disjoint) auto
  moreover have "ids_ok (cancel_pending now a m) \<and> mk_revenues (cancel_pending now a m) = mk_revenues m"
    using assms by (simp add: cancel_pending_def update_jobs_eq ids_ok_def map_upd_frame)
  ultimately show ?thesis by (simp add: same_books_def completed_jobs_def)
qed

lemma find_market_job_None: "find_market_job i m = None \<Longrightarrow> i \<notin> mj_id ` set (mk_jobs m)"
  by (auto simp: find_market_job_def find_None_filter filter_empty_conv)

lemma create_books: "create_job j m = Some m' \<Longrightarrow> ids_ok m \<Longrightarrow> same_books m m'"
  using find_market_job_None [of "mj_id j" m]
  by (auto simp: create_job_def same_books_def ids_ok_def completed_jobs_def split: if_splits)

lemma run_books: "market_run m0 m \<Longrightarrow> ids_ok m0 \<Longrightarrow> same_books m0 m"
proof (induction rule: market_run.induct)
  case (run_extend m0 m m2 now h b i m' r')
  then show ?case using extend_books same_books_ids same_books_trans by metis
next
  case (run_result m0 m m2 env now auth result token i m' r)
  then show ?case using submit_books same_books_ids same_books_trans by metis
next
  case (run_agents m0 m as ss)
  then show ?case by (simp add: same_books_def ids_ok_def completed_jobs_def)
qed (metis same_books_ids same_books_trans same_books_refl claim_books heartbeat_books release_books
    cancel_books create_books)+

lemma submit_done:
  assumes "submit_result env mw now auth result token i m = (m', Inr u)"
  obtains job x ins rv where "auth = Inr (mj_talosId job)" "find_market_job i m = Some job" "active_agent (mj_talosId job) m"
    "x \<in> set (mk_jobs (mw m))" "completable i (coalesce token 0) x" "u = finished now (coalesce result JNull) x"
    "rv_talosId rv = mj_talosId job" "rv_amount rv = mj_amount job"
    "m' = (mw m)\<lparr>mk_jobs := upd (completable i (coalesce token 0)) (finished now (coalesce result JNull)) (mk_jobs (mw m)),
       mk_revenues := mk_revenues (mw m) @ [rv], mk_inputs := ins\<rparr>"
proof -
  obtain job where c: "auth = Inr (mj_talosId job)" "find_market_job i m = Some job" "active_agent (mj_talosId job) m"
      "result_transaction env now job (coalesce result JNull) (coalesce token 0) (mw m) = Inr (m', Some u)"
    using assms by (auto simp: submit_result_def Let_def split: sum.splits option.splits if_splits)
  moreover have "mj_id job = i" using find_market_job_Some [OF c(2)] by simp
  ultimately show thesis using transaction_cases [OF c(4)] that by auto
qed

lemma completed_refused:
  assumes "distinct (map mj_id (mk_jobs (mw m)))" "y \<in> set (mk_jobs (mw m))" "mj_id y = i" "mj_status y = ''completed''"
  shows "\<exists>e. snd (submit_result env mw now auth result token i m) = Inl e \<and>
    fst (submit_result env mw now auth result token i m) \<in> {m, mw m}"
proof -
  obtain m' r where run: "submit_result env mw now auth result token i m = (m', r)" by fastforce
  have "\<not> completable i (coalesce token 0) x" if "x \<in> set (mk_jobs (mw m))" for x
    using distinct_key_unique [OF assms(1) that assms(2)] assms(3,4) by (auto simp: completable_def)
  then show ?thesis using submit_cases [OF run] run by auto
qed

text \<open>C28.
  A result is booked once, whatever any other requests do between the checks of the request and its
  transaction: a refused one changes nothing itself; an accepted one came from the agent of the job, was
  sent with the fencing token of a pending row, completes that row with the result and no other, and adds
  one revenue row for the agent with the job's amount; and any request with a result for the job that
  reaches its transaction there, even one that read the job while it was pending, is refused and books
  nothing.\<close>

theorem result_books_once:
  assumes "submit_result env mw now auth result token i m = (m', r)" "distinct (map mj_id (mk_jobs (mw m)))"
  shows "(\<exists>e. r = Inl e \<and> m' \<in> {m, mw m}) \<or>
    (\<exists>job x ins rv. auth = Inr (mj_talosId job) \<and> find_market_job i m = Some job \<and> active_agent (mj_talosId job) m \<and>
       x \<in> set (mk_jobs (mw m)) \<and> mj_id x = i \<and> mj_status x = ''pending'' \<and> mj_fencingToken x = coalesce token 0 \<and>
       r = Inr (finished now (coalesce result JNull) x) \<and>
       m' = (mw m)\<lparr>mk_jobs := map (\<lambda>j. if j = x then finished now (coalesce result JNull) j else j) (mk_jobs (mw m)),
          mk_revenues := mk_revenues (mw m) @ [rv], mk_inputs := ins\<rparr> \<and>
       rv_talosId rv = mj_talosId job \<and> rv_amount rv = mj_amount job \<and>
       (\<forall>env2 mw2 now2 auth2 result2 token2 m0. mw2 m0 = m' \<longrightarrow>
          (\<exists>e. snd (submit_result env2 mw2 now2 auth2 result2 token2 i m0) = Inl e \<and>
               fst (submit_result env2 mw2 now2 auth2 result2 token2 i m0) \<in> {m0, m'})))"
proof (cases r)
  case (Inl e)
  then show ?thesis using submit_cases [OF assms(1)] by auto
next
  case (Inr u)
  from assms(1) [unfolded Inr] show ?thesis
  proof (cases rule: submit_done)
    case (1 job x ins rv)
    let ?f = "finished now (coalesce result JNull)"
    have x: "mj_id x = i" "mj_status x = ''pending''" "mj_fencingToken x = coalesce token 0"
      using 1(5) by (simp_all add: completable_def)
    have only: "completable i (coalesce token 0) j \<longleftrightarrow> j = x" if "j \<in> set (mk_jobs (mw m))" for j
      using distinct_key_unique [OF assms(2) that 1(4)] 1(5) by (auto simp: completable_def)
    have jobs: "upd (completable i (coalesce token 0)) ?f (mk_jobs (mw m)) = map (\<lambda>j. if j = x then ?f j else j) (mk_jobs (mw m))"
      using only by (auto simp: upd_def)
    have "map mj_id (mk_jobs m') = map mj_id (mk_jobs (mw m))" by (simp add: 1(9) jobs finished_def comp_def if_distrib cong: map_cong if_cong)
    then have ids: "distinct (map mj_id (mk_jobs m'))" using assms(2) by simp
    have row: "?f x \<in> set (mk_jobs m')" "mj_id (?f x) = i" "mj_status (?f x) = ''completed''"
      using 1(4) x(1) by (auto simp: 1(9) jobs finished_def)
    have again: "\<exists>e. snd (submit_result env2 mw2 now2 auth2 result2 token2 i m0) = Inl e \<and>
               fst (submit_result env2 mw2 now2 auth2 result2 token2 i m0) \<in> {m0, m'}"
      if "mw2 m0 = m'" for env2 mw2 now2 auth2 result2 token2 m0
      using completed_refused [of mw2 m0 "?f x" i] ids row unfolding that by blast
    show ?thesis
      using 1 x jobs Inr again by (intro disjI2 exI [of _ job] exI [of _ x] exI [of _ ins] exI [of _ rv]) simp
  qed
qed

text \<open>The books balance over every run of these routes: revenue rows grow by as many as jobs have become
  completed, and a second result for a completed job books nothing.\<close>

theorem completed_jobs_booked_once:
  assumes "market_run m0 m" "ids_ok m0"
  shows "int (length (mk_revenues m)) - int (length (mk_revenues m0)) =
      int (completed_jobs m) - int (completed_jobs m0) \<and>
    distinct (map mj_id (mk_jobs m)) \<and>
    (\<forall>j \<in> set (mk_jobs m). mj_status j = ''completed'' \<longrightarrow>
       (\<exists>e. submit_result env id now auth result token (mj_id j) m = (m, Inl e)))"
proof -
  have books: "same_books m0 m" using run_books assms by blast
  then have ids: "distinct (map mj_id (mk_jobs m))" by (simp add: same_books_def ids_ok_def)
  have "\<exists>e. submit_result env id now auth result token (mj_id j) m = (m, Inl e)"
    if j: "j \<in> set (mk_jobs m)" "mj_status j = ''completed''" for j
  proof -
    have "\<not> completable (mj_id j) (coalesce token 0) x" if "x \<in> set (mk_jobs m)" for x
      using distinct_key_unique [OF ids that j(1)] j(2) by (auto simp: completable_def)
    moreover obtain m' r where eq: "submit_result env id now auth result token (mj_id j) m = (m', r)"
      by (rule prod.exhaust)
    ultimately have "\<exists>e. r = Inl e \<and> m' \<in> {m, id m}" using submit_cases [OF eq] by (metis id_apply)
    then show ?thesis using eq by (elim exE conjE) simp
  qed
  then show ?thesis using books ids by (auto simp: same_books_def)
qed

section \<open>Jobs that were never leased\<close>

lemma claim_unleased:
  assumes "claim_job now h b i m = (m', r)" "\<forall>j \<in> set (mk_jobs m). unleased j"
  shows "m' = m \<and> (\<exists>e. r = Inl e)"
  using claim_cases [OF assms(1)] assms(2) by (fastforce simp: claimable_iff unleased_def)

lemma upd_unleased:
  assumes "\<forall>j. P j \<longrightarrow> mj_leasedBy j \<noteq> None" "\<forall>j \<in> set (mk_jobs m). unleased j"
  shows "m\<lparr>mk_jobs := upd P f (mk_jobs m)\<rparr> = m"
proof -
  have "upd P f (mk_jobs m) = mk_jobs m" using assms by (intro upd_none) (auto simp: unleased_def)
  then show ?thesis by simp
qed

lemma submit_unleased:
  assumes "submit_result env mw now auth result token i m = (m', r)"
    and "\<forall>j \<in> set (mk_jobs m). unleased j" "\<forall>j \<in> set (mk_jobs (mw m)). unleased j"
  shows "\<forall>j \<in> set (mk_jobs m'). unleased j"
  using submit_cases [OF assms(1)]
proof (elim disjE exE conjE)
  fix res ins rv
  assume "m' = (mw m)\<lparr>mk_jobs := upd (completable i (coalesce token 0)) (finished now res) (mk_jobs (mw m)),
      mk_revenues := mk_revenues (mw m) @ [rv], mk_inputs := ins\<rparr>"
  then show ?thesis using assms(3) by (auto simp: finished_def unleased_def elim!: in_updE)
qed (use assms(2,3) in auto)

lemma run_unleased:
  "market_run m0 m \<Longrightarrow> \<forall>j \<in> set (mk_jobs m0). unleased j \<Longrightarrow> \<forall>j \<in> set (mk_jobs m). unleased j"
proof (induction rule: market_run.induct)
  case (run_claim m0 m now h b i m' r)
  then show ?case using claim_unleased by blast
next
  case (run_heartbeat m0 m now h b i m' r')
  then show ?case using heartbeat_effect [of now h b i m] upd_unleased by (metis fst_conv)
next
  case (run_release m0 m now h b i m' u)
  then show ?case using release_effect [of now h b i m] upd_unleased by (metis fst_conv)
next
  case (run_extend m0 m m2 now h b i m' r')
  then show ?case using extend_effect [of "\<lambda>_. m2" now h b i m m' r'] upd_unleased by metis
next
  case (run_result m0 m m2 env now auth result token i m' r)
  then show ?case using submit_unleased by blast
next
  case (run_cancel m0 m now a)
  then have "\<forall>j \<in> set (mk_jobs m). unleased j" by blast
  then show ?case
    unfolding cancel_jobs by (intro all_upd) (simp_all add: unleased_def)
next
  case (run_create m0 m j m')
  then have "unleased j" "m' = m\<lparr>mk_jobs := mk_jobs m @ [j]\<rparr>"
    by (simp_all add: create_job_def split: if_splits)
  then show ?case using run_create by simp
qed simp_all

text \<open>No job is ever claimed: jobs are created without a lease, and however many requests follow, every
  claim of every job is refused and every list of pending jobs is empty, because the condition
  that should match a job without lease compares the column with NULL.  Only a result sent without
  a claim, under the token 0, gets through.\<close>

theorem new_jobs_never_claimed:
  assumes "market_run m0 m" "\<forall>j \<in> set (mk_jobs m0). unleased j"
  shows "(\<exists>e. claim_job now h b i m = (m, Inl e)) \<and>
    (\<forall>jobs cursor'. pending_jobs now h cursor n m = Inr (jobs, cursor') \<longrightarrow> jobs = [])"
proof -
  have un: "\<forall>j \<in> set (mk_jobs m). unleased j" using run_unleased assms by blast
  have "\<not> listed now c cursor m j" if "j \<in> set (mk_jobs m)" for c j
    using un that by (auto simp: listed_def unleased_def)
  then have "filter (listed now c cursor m) (mk_jobs m) = []" for c by (simp add: filter_empty_conv)
  then have "jobs = []" if "pending_jobs now h cursor n m = Inr (jobs, cursor')" for jobs cursor'
    using that by (auto simp: pending_jobs_def Let_def split: option.splits)
  moreover have "\<exists>e. claim_job now h b i m = (m, Inl e)"
    using claim_unleased [OF prod.collapse [symmetric] un, of now h b i] by (metis prod.collapse)
  ultimately show ?thesis by blast
qed

section \<open>Concrete requests\<close>

definition body_of :: "json \<Rightarrow> request_body" where
  "body_of v = \<lparr>rb_declared = None, rb_bytes = 20, rb_json = Some v\<rparr>"

definition sample_agent :: "string \<Rightarrow> string \<Rightarrow> agent" where
  "sample_agent i k = \<lparr>ag_id = i, ag_status = ''Active'', ag_apiKey = Some k, ag_agentOnline = True,
     ag_agentLastSeen = None, ag_agentWalletId = None, ag_agentWalletAddress = None\<rparr>"

definition fresh_job :: market_job where
  "fresh_job = \<lparr>mj_id = ''j1'', mj_talosId = ''a1'', mj_requesterTalosId = ''b1'', mj_payload = JObj [],
     mj_result = JNull, mj_status = ''pending'', mj_txHash = Some ''h1'', mj_amount = ''5'',
     mj_leasedBy = None, mj_leasedAt = None, mj_leaseExpiresAt = None, mj_fencingToken = 0,
     mj_createdAt = 1, mj_updatedAt = 1\<rparr>"

definition market_of :: "market_job \<Rightarrow> market" where
  "market_of j = \<lparr>mk_agents = [sample_agent ''a1'' ''k1'', sample_agent ''a2'' ''k2''], mk_services = [],
     mk_jobs = [j], mk_revenues = [], mk_inputs = []\<rparr>"

text \<open>A job whose lease by the second agent ran out at 5.\<close>

definition lapsed_market :: market where
  "lapsed_market = market_of (fresh_job\<lparr>mj_leasedBy := Some ''a2'', mj_leasedAt := Some 1,
     mj_leaseExpiresAt := Some 5, mj_fencingToken := 1\<rparr>)"

definition claim1 :: "market \<times> (http_error + market_job)" where
  "claim1 = claim_job 10 (Some ''Bearer k1'') (body_of (JObj [])) ''j1'' lapsed_market"

definition claim2 :: "market \<times> (http_error + market_job)" where
  "claim2 = claim_job 400000 (Some ''Bearer k2'') (body_of (JObj [])) ''j1'' (fst claim1)"

lemma ids_sample: "ids_ok lapsed_market" "ids_ok (market_of fresh_job)"
  by (simp_all add: ids_ok_def lapsed_market_def market_of_def)

lemma claim1_ok: "claim1 = (fst claim1, Inr (projr (snd claim1))) \<and> mj_fencingToken (projr (snd claim1)) = 2"
  by code_simp

lemma claim2_ok: "claim2 = (fst claim2, Inr (projr (snd claim2))) \<and> mj_fencingToken (projr (snd claim2)) = 3"
  by code_simp

lemma claim1_run: "claim_job 10 (Some ''Bearer k1'') (body_of (JObj [])) ''j1'' lapsed_market =
    (fst claim1, Inr (projr (snd claim1)))"
  using claim1_ok by (simp only: claim1_def [symmetric])

lemma claim2_run: "claim_job 400000 (Some ''Bearer k2'') (body_of (JObj [])) ''j1'' (fst claim1) =
    (fst claim2, Inr (projr (snd claim2)))"
  using claim2_ok by (simp only: claim2_def [symmetric])

theorem market_lease_exclusive_witness:
  "mj_leasedBy (projr (snd claim1)) = Some ''a1'' \<and>
   (\<exists>e. claim_job 11 (Some ''Bearer k2'') (body_of (JObj [])) ''j1'' (fst claim1) = (fst claim1, Inl e))"
proof -
  have callers: "resolveCallerTalos (Some ''Bearer k1'') lapsed_market = Some ''a1''"
      "resolveCallerTalos (Some ''Bearer k2'') (fst claim1) = Some ''a2''"
    by code_simp+
  obtain c expiry where x: "resolveCallerTalos (Some ''Bearer k1'') lapsed_market = Some c"
      "mj_leasedBy (projr (snd claim1)) = Some c" "10 < expiry"
      "\<forall>later h' b'. later \<le> expiry \<longrightarrow> resolveCallerTalos h' (fst claim1) \<noteq> Some c \<longrightarrow>
         (\<exists>e. claim_job later h' b' ''j1'' (fst claim1) = (fst claim1, Inl e))"
    using market_lease_exclusive [OF ids_sample(1) [unfolded ids_ok_def] claim1_run] by blast
  have c: "c = ''a1''" using x(1) callers(1) by simp
  have "resolveCallerTalos (Some ''Bearer k2'') (fst claim1) \<noteq> Some c" "11 \<le> expiry"
    using x(3) callers(2) c by simp_all
  then show ?thesis using x(2,4) c by simp
qed

theorem stale_token_rejected_witness:
  "mj_fencingToken (projr (snd claim1)) < mj_fencingToken (projr (snd claim2)) \<and>
   (\<exists>e. release_lease 400001 (Some ''Bearer k1'') (body_of (JObj [(''fencingToken'', JNum 2)])) ''j1'' (fst claim2)
          = (fst claim2, Inl e))"
proof -
  have "authenticated (Some ''Bearer k1'') fencingSchema (body_of (JObj [(''fencingToken'', JNum 2)])) (fst claim2)
      = Inr (''a1'', 2)" by code_simp
  then show ?thesis
    using stale_token_rejected [OF ids_sample(1) [unfolded ids_ok_def] claim1_run claim2_run] claim1_ok
    by simp
qed

definition extended :: "market \<times> (http_error + instant option)" where
  "extended = extend_lease id 11 (Some ''Bearer k1'')
     (body_of (JObj [(''fencingToken'', JNum 2), (''extendSeconds'', JNum 60)])) ''j1'' (fst claim1)"

theorem extend_lease_bounded_witness:
  "\<exists>expiry s. snd extended = Inr (Some (expiry + s * 1000)) \<and> 11 < expiry \<and> 1 \<le> s \<and>
     expiry + s * 1000 \<le> 11 + 24 * 60 * 60 * 1000"
proof -
  have run: "extend_lease id 11 (Some ''Bearer k1'')
      (body_of (JObj [(''fencingToken'', JNum 2), (''extendSeconds'', JNum 60)])) ''j1'' (fst claim1)
      = (fst extended, Inr (Some 360010))" by code_simp
  have "snd extended = Inr (Some 360010)" by code_simp
  then show ?thesis using extend_lease_bounded [OF run] by auto
qed

definition plain_env :: ledger_env where
  "plain_env = \<lparr>le_date = (\<lambda>v. None), le_string = (\<lambda>v. []), le_numeric = (\<lambda>s. True)\<rparr>"

definition resulted :: "market \<times> (http_error + market_job)" where
  "resulted = submit_result plain_env (\<lambda>_. fst claim1) 20 (Inr ''a1'') (Some (JObj [])) (Some 2) ''j1'' (fst claim1)"

theorem completed_jobs_booked_once_witness:
  "completed_jobs (fst resulted) = 1 \<and> length (mk_revenues (fst resulted)) = 1 \<and>
   (\<exists>e. submit_result plain_env id 21 (Inr ''a1'') (Some (JStr ''again'')) (Some 2) ''j1'' (fst resulted)
          = (fst resulted, Inl e))"
proof -
  have run: "market_run lapsed_market (fst resulted)"
    using run_result [OF run_claim [OF run_start claim1_run] run_start] resulted_def
    by (metis prod.collapse)
  have counts: "completed_jobs (fst resulted) = 1" "completed_jobs lapsed_market = 0" "mk_revenues lapsed_market = []"
    by code_simp+
  have row: "\<exists>j \<in> set (mk_jobs (fst resulted)). mj_id j = ''j1'' \<and> mj_status j = ''completed''"
    by code_simp
  show ?thesis
    using completed_jobs_booked_once [OF run ids_sample(1)] counts row by force
qed

text \<open>A result for a job nobody has leased, as every job is: it is sent with token 0.\<close>

definition plain_result :: "market \<times> (http_error + market_job)" where
  "plain_result = submit_result plain_env (\<lambda>_. market_of fresh_job) 20 (Inr ''a1'') (Some (JStr ''report'')) None ''j1'' (market_of fresh_job)"

theorem result_books_once_witness:
  "length (mk_revenues (fst plain_result)) = 1 \<and> map mj_status (mk_jobs (fst plain_result)) = [''completed''] \<and>
   (\<exists>e. snd (submit_result plain_env (\<lambda>_. fst plain_result) 21 (Inr ''a1'') (Some (JStr ''again'')) None ''j1'' (market_of fresh_job)) = Inl e)"
proof -
  have run: "submit_result plain_env (\<lambda>_. market_of fresh_job) 20 (Inr ''a1'') (Some (JStr ''report'')) None ''j1'' (market_of fresh_job)
      = (fst plain_result, snd plain_result)"
    by (simp add: plain_result_def)
  have accepted: "\<not> isl (snd plain_result)" and row: "mk_jobs (market_of fresh_job) = [fresh_job]" "mk_revenues (market_of fresh_job) = []"
    by code_simp+
  have "distinct (map mj_id (mk_jobs (market_of fresh_job)))" by (simp add: row)
  from result_books_once [OF run this] accepted obtain x ins rv where done_once:
    "x \<in> set (mk_jobs (market_of fresh_job))"
    "fst plain_result = (market_of fresh_job)\<lparr>mk_jobs := map (\<lambda>j. if j = x then finished 20 (coalesce (Some (JStr ''report'')) JNull) j else j)
       (mk_jobs (market_of fresh_job)), mk_revenues := mk_revenues (market_of fresh_job) @ [rv], mk_inputs := ins\<rparr>"
    "\<forall>env2 mw2 now2 auth2 result2 token2 m0. mw2 m0 = fst plain_result \<longrightarrow>
       (\<exists>e. snd (submit_result env2 mw2 now2 auth2 result2 token2 ''j1'' m0) = Inl e \<and>
            fst (submit_result env2 mw2 now2 auth2 result2 token2 ''j1'' m0) \<in> {m0, fst plain_result})"
    by auto
  have "\<exists>e. snd (submit_result plain_env (\<lambda>_. fst plain_result) 21 (Inr ''a1'') (Some (JStr ''again'')) None ''j1'' (market_of fresh_job)) = Inl e"
    using done_once(3) [rule_format, of "\<lambda>_. fst plain_result"] by blast
  then show ?thesis using done_once(1,2) by (simp add: row finished_def)
qed

theorem new_jobs_never_claimed_witness:
  "\<exists>e. claim_job 10 (Some ''Bearer k1'') (body_of (JObj [])) ''j1'' (market_of fresh_job) = (market_of fresh_job, Inl e)"
proof -
  have "\<forall>j \<in> set (mk_jobs (market_of fresh_job)). unleased j"
    by (simp add: market_of_def unleased_def fresh_job_def)
  then show ?thesis using new_jobs_never_claimed [OF run_start] by blast
qed

end
