(* ===== verification/Simulation.thy ===== *)
theory Simulation
  imports Prelude
begin

text \<open>
  Functional refinement: a component whose operations, through an abstraction of its state,
  compute what a specification computes.  The locale turns one step of the simulation into
  the simulation of every run; components interpret it on their own operations.
\<close>

fun run_ops :: "('a \<Rightarrow> 's \<Rightarrow> 's \<times> 'r) \<Rightarrow> 'a list \<Rightarrow> 's \<Rightarrow> 's \<times> 'r list" where
  "run_ops f [] s = (s, [])"
| "run_ops f (a # as) s = (let (s', r) = f a s; (s'', rs) = run_ops f as s' in (s'', r # rs))"

lemma run_ops_append:
  "run_ops f (as @ bs) s =
     (let (s', rs) = run_ops f as s; (s'', rs') = run_ops f bs s' in (s'', rs @ rs'))"
  by (induction as arbitrary: s) (simp_all add: case_prod_beta Let_def)

lemma run_ops_length [simp]: "length (snd (run_ops f as s)) = length as"
  by (induction as arbitrary: s) (simp_all add: case_prod_beta Let_def)

locale refinement =
  fixes inv :: "'s \<Rightarrow> bool"
    and absf :: "'s \<Rightarrow> 't"
    and conc :: "'a \<Rightarrow> 's \<Rightarrow> 's \<times> 'r"
    and spec :: "'a \<Rightarrow> 't \<Rightarrow> 't \<times> 'r"
  assumes step_inv: "inv s \<Longrightarrow> inv (fst (conc a s))"
    and step_abs: "inv s \<Longrightarrow> spec a (absf s) = (absf (fst (conc a s)), snd (conc a s))"
begin

lemma run_inv: "inv s \<Longrightarrow> inv (fst (run_ops conc as s))"
  by (induction as arbitrary: s) (simp_all add: case_prod_beta Let_def step_inv)

lemma run_refines:
  "inv s \<Longrightarrow> run_ops spec as (absf s) = (absf (fst (run_ops conc as s)), snd (run_ops conc as s))"
  by (induction as arbitrary: s) (simp_all add: case_prod_beta Let_def step_inv step_abs)

text \<open>A property of the results of every specification run holds of the component's.\<close>

lemma run_results:
  assumes "inv s" "\<And>t. t = absf s \<Longrightarrow> P (snd (run_ops spec as t))"
  shows "P (snd (run_ops conc as s))"
  using assms(2) [OF refl] by (simp add: run_refines [OF assms(1)])

end

end
