(* ===== verification/Reservations.thy ===== *)
theory Reservations
  imports Simulation
begin

text \<open>
  The idempotency reservation store, web/src/lib/idempotency/reservation-store.ts: the rows of
  tls_idempotency_keys (web/src/db/schema.ts), the operations reserve, complete, release and
  purgeExpired, and the state machine its header draws, as a specification they refine.

  reserve reads and then writes; \<open>m1\<close> and \<open>m2\<close> are what other requests do to the table after
  its SELECT and after its DELETE.  An INSERT that meets the unique index of the key column
  throws.  hashPayload is a digest, computed by the caller and a parameter here.
\<close>

section \<open>Rows and results\<close>

record key_row =
  ik_key :: string
  ik_payloadHash :: string
  ik_status :: string
  ik_result :: json
  ik_expiresAt :: instant

datatype reservation_status = StatusOk | StatusConflict | StatusReplay json | StatusHashMismatch

datatype key_error = DuplicateKey

definition key_of :: "string \<Rightarrow> key_row \<Rightarrow> bool" where
  "key_of k r \<longleftrightarrow> ik_key r = k"

definition reserved_row :: "string \<Rightarrow> key_row \<Rightarrow> bool" where
  "reserved_row k r \<longleftrightarrow> ik_key r = k \<and> ik_status r = ''reserved''"

definition insert_key :: "key_row \<Rightarrow> key_row list \<Rightarrow> key_row list \<times> (key_error + reservation_status)" where
  "insert_key r t =
     (if list_ex (key_of (ik_key r)) t then (t, Inl DuplicateKey) else (t @ [r], Inr StatusOk))"

section \<open>Operations\<close>

definition DEFAULT_TTL_MS :: int where "DEFAULT_TTL_MS = 24 * 60 * 60 * 1000"

definition reserve ::
  "(key_row list \<Rightarrow> key_row list) \<Rightarrow> (key_row list \<Rightarrow> key_row list) \<Rightarrow> instant \<Rightarrow> string \<Rightarrow> string
     \<Rightarrow> int option \<Rightarrow> key_row list \<Rightarrow> key_row list \<times> (key_error + reservation_status)" where
  "reserve m1 m2 now k h ttlMs t =
     (let expiresAt = now + coalesce ttlMs DEFAULT_TTL_MS;
          fresh = \<lparr>ik_key = k, ik_payloadHash = h, ik_status = ''reserved'', ik_result = JNull,
                   ik_expiresAt = expiresAt\<rparr>
      in case sel_one (key_of k) t of
           None \<Rightarrow> insert_key fresh (m1 t)
         | Some existing \<Rightarrow>
             if ik_expiresAt existing < now then insert_key fresh (m2 (del (key_of k) (m1 t)))
             else if ik_payloadHash existing \<noteq> h then (t, Inr StatusHashMismatch)
             else if ik_status existing = ''completed'' then (t, Inr (StatusReplay (ik_result existing)))
             else (t, Inr StatusConflict))"

definition complete :: "string \<Rightarrow> json \<Rightarrow> key_row list \<Rightarrow> key_row list" where
  "complete k result t =
     upd (reserved_row k) (\<lambda>r. r\<lparr>ik_status := ''completed'', ik_result := result\<rparr>) t"

definition release :: "string \<Rightarrow> key_row list \<Rightarrow> key_row list" where
  "release k t = del (reserved_row k) t"

definition purgeExpired :: "instant \<Rightarrow> key_row list \<Rightarrow> key_row list" where
  "purgeExpired now t = del (\<lambda>r. ik_expiresAt r < now) t"

section \<open>The state machine\<close>

text \<open>The result column is jsonb; what is read back is taken to be what was stored.\<close>

text \<open>One key is free, reserved or completed; each call on it is a transition.\<close>

datatype slot = Free | Reserved string instant | Completed string json instant

datatype store_call =
    Reserve instant string string "int option"
  | Complete string json
  | Release string
  | Purge instant

datatype store_reply = Answered reservation_status | Threw key_error | Returned

definition slot_expiry :: "slot \<Rightarrow> instant option" where
  "slot_expiry s = (case s of Free \<Rightarrow> None | Reserved h e \<Rightarrow> Some e | Completed h v e \<Rightarrow> Some e)"

definition slot_expired :: "instant \<Rightarrow> slot \<Rightarrow> bool" where
  "slot_expired now s = (case slot_expiry s of None \<Rightarrow> True | Some e \<Rightarrow> e < now)"

definition slot_reserve :: "instant \<Rightarrow> string \<Rightarrow> int \<Rightarrow> slot \<Rightarrow> slot \<times> reservation_status" where
  "slot_reserve now h ttl s =
     (if slot_expired now s then (Reserved h (now + ttl), StatusOk)
      else (s, case s of
          Reserved h' e \<Rightarrow> if h' = h then StatusConflict else StatusHashMismatch
        | Completed h' v e \<Rightarrow> if h' = h then StatusReplay v else StatusHashMismatch
        | Free \<Rightarrow> StatusOk))"

fun slot_complete :: "json \<Rightarrow> slot \<Rightarrow> slot" where
  "slot_complete v (Reserved h e) = Completed h v e"
| "slot_complete v s = s"

fun slot_release :: "slot \<Rightarrow> slot" where
  "slot_release (Reserved h e) = Free"
| "slot_release s = s"

fun slot_step :: "store_call \<Rightarrow> (string \<Rightarrow> slot) \<Rightarrow> (string \<Rightarrow> slot) \<times> store_reply" where
  "slot_step (Reserve now k h ttl) m =
     (let (s, r) = slot_reserve now h (coalesce ttl DEFAULT_TTL_MS) (m k) in (m(k := s), Answered r))"
| "slot_step (Complete k v) m = (m(k := slot_complete v (m k)), Returned)"
| "slot_step (Release k) m = (m(k := slot_release (m k)), Returned)"
| "slot_step (Purge now) m = ((\<lambda>k. if slot_expired now (m k) then Free else m k), Returned)"

section \<open>The store implements it\<close>

fun store_step :: "store_call \<Rightarrow> key_row list \<Rightarrow> key_row list \<times> store_reply" where
  "store_step (Reserve now k h ttl) t =
     (let (t', r) = reserve id id now k h ttl t
      in (t', case r of Inl e \<Rightarrow> Threw e | Inr s \<Rightarrow> Answered s))"
| "store_step (Complete k v) t = (complete k v t, Returned)"
| "store_step (Release k) t = (release k t, Returned)"
| "store_step (Purge now) t = (purgeExpired now t, Returned)"

definition slot_of_row :: "key_row \<Rightarrow> slot" where
  "slot_of_row r =
     (if ik_status r = ''completed'' then Completed (ik_payloadHash r) (ik_result r) (ik_expiresAt r)
      else Reserved (ik_payloadHash r) (ik_expiresAt r))"

definition slot_at :: "key_row list \<Rightarrow> string \<Rightarrow> slot" where
  "slot_at t k = (case sel_one (key_of k) t of None \<Rightarrow> Free | Some r \<Rightarrow> slot_of_row r)"

text \<open>The unique index, and the two values of the status column.\<close>

definition keys_ok :: "key_row list \<Rightarrow> bool" where
  "keys_ok t \<longleftrightarrow> distinct (map ik_key t) \<and> (\<forall>r \<in> set t. ik_status r \<in> {''reserved'', ''completed''})"

section \<open>Refinement\<close>

lemma find_key_upd:
  assumes "\<And>r. ik_key (f r) = ik_key r"
  shows "sel_one (key_of k) (upd P f t) = map_option (\<lambda>r. if P r then f r else r) (sel_one (key_of k) t)"
  by (induction t) (simp_all add: key_of_def assms)

lemma find_key_del:
  assumes "distinct (map ik_key t)"
  shows "sel_one (key_of k) (del P t) =
    (case sel_one (key_of k) t of None \<Rightarrow> None | Some r \<Rightarrow> if P r then None else Some r)"
  using assms
proof (induction t)
  case Nil
  then show ?case by (simp add: del_def)
next
  case (Cons r t)
  have "sel_one (key_of k) t = None" if "key_of k r"
    using Cons.prems that by (auto simp: find_None_iff key_of_def image_iff)
  then show ?case using Cons by (auto simp: del_def split: option.splits)
qed

lemma keys_ok_upd:
  "keys_ok t \<Longrightarrow> (\<And>r. ik_key (f r) = ik_key r) \<Longrightarrow>
   (\<And>r. ik_status (f r) \<in> {''reserved'', ''completed''}) \<Longrightarrow> keys_ok (upd P f t)"
  by (auto simp: keys_ok_def distinct_upd_key set_upd)

lemma keys_ok_del: "keys_ok t \<Longrightarrow> keys_ok (del P t)"
  by (auto simp: keys_ok_def distinct_del dest: subsetD [OF del_subset])

lemma insert_key_fresh:
  "\<not> list_ex (key_of (ik_key r)) t \<Longrightarrow> insert_key r t = (t @ [r], Inr StatusOk)"
  by (simp add: insert_key_def)

lemma keys_ok_append:
  "keys_ok t \<Longrightarrow> \<not> list_ex (key_of (ik_key r)) t \<Longrightarrow> ik_status r \<in> {''reserved'', ''completed''} \<Longrightarrow>
   keys_ok (t @ [r])"
  by (auto simp: keys_ok_def key_of_def list_ex_iff)

lemma no_key_after_del [simp]: "\<not> list_ex (key_of k) (del (key_of k) t)"
  by (auto simp: list_ex_iff del_def)

lemma find_none_no_key: "sel_one (key_of k) t = None \<Longrightarrow> \<not> list_ex (key_of k) t"
  by (auto simp: find_None_iff list_ex_iff)

text \<open>Without interference reserve is a case distinction on the slot of its key.\<close>

lemma reserve_cases:
  assumes "keys_ok t"
  shows "keys_ok (fst (reserve id id now k h ttl t)) \<and>
    slot_at (fst (reserve id id now k h ttl t)) =
      (slot_at t)(k := fst (slot_reserve now h (coalesce ttl DEFAULT_TTL_MS) (slot_at t k))) \<and>
    snd (reserve id id now k h ttl t) =
      Inr (snd (slot_reserve now h (coalesce ttl DEFAULT_TTL_MS) (slot_at t k)))"
proof -
  let ?fresh = "\<lparr>ik_key = k, ik_payloadHash = h, ik_status = ''reserved'', ik_result = JNull,
                 ik_expiresAt = now + coalesce ttl DEFAULT_TTL_MS\<rparr>"
  have slot_fresh: "slot_at (u @ [?fresh]) = (slot_at u)(k := Reserved h (now + coalesce ttl DEFAULT_TTL_MS))"
    if "\<not> list_ex (key_of k) u" for u
  proof -
    have "sel_one (key_of k) u = None" using that by (auto simp: find_None_iff list_ex_iff)
    then show ?thesis
      by (auto simp: slot_at_def find_append key_of_def slot_of_row_def fun_eq_iff split: option.splits)
  qed
  show ?thesis
  proof (cases "sel_one (key_of k) t")
    case None
    note fresh = find_none_no_key [OF None]
    have "keys_ok (t @ [?fresh])" using keys_ok_append [OF assms, of ?fresh] fresh by simp
    moreover have "slot_at t k = Free" using None by (simp add: slot_at_def)
    ultimately show ?thesis
      using slot_fresh [OF fresh] insert_key_fresh [of ?fresh t] fresh None
      by (simp add: reserve_def slot_reserve_def slot_expired_def slot_expiry_def Let_def)
  next
    case (Some r)
    have slot: "slot_at t k = slot_of_row r" using Some by (simp add: slot_at_def)
    show ?thesis
    proof (cases "ik_expiresAt r < now")
      case True
      let ?u = "del (key_of k) t"
      have "keys_ok (?u @ [?fresh])"
        using keys_ok_append [OF keys_ok_del [OF assms], of ?fresh "key_of k"] by simp
      moreover have "(slot_at ?u)(k := s) = (slot_at t)(k := s)" for s
        using assms by (auto simp: slot_at_def find_key_del keys_ok_def fun_eq_iff key_of_def
            dest: find_SomeD split: option.splits)
      ultimately show ?thesis
        using slot_fresh [of ?u] insert_key_fresh [of ?fresh ?u] Some slot True
        by (simp add: reserve_def slot_reserve_def slot_expired_def slot_expiry_def slot_of_row_def Let_def)
    next
      case False
      then show ?thesis using assms Some slot
        by (auto simp: reserve_def slot_reserve_def slot_expired_def slot_expiry_def slot_of_row_def Let_def)
    qed
  qed
qed

lemma complete_slot:
  assumes "keys_ok t"
  shows "slot_at (complete k v t) = (slot_at t)(k := slot_complete v (slot_at t k))"
proof
  fix x
  show "slot_at (complete k v t) x = ((slot_at t)(k := slot_complete v (slot_at t k))) x"
  proof (cases "sel_one (key_of x) t")
    case None
    then show ?thesis by (auto simp: slot_at_def complete_def find_key_upd)
  next
    case (Some r)
    then have "ik_key r = x" "r \<in> set t" by (auto simp: key_of_def dest: find_SomeD)
    then have "ik_status r = ''reserved'' \<or> ik_status r = ''completed''" using assms by (auto simp: keys_ok_def)
    then show ?thesis using Some \<open>ik_key r = x\<close>
      by (auto simp: slot_at_def complete_def find_key_upd reserved_row_def slot_of_row_def)
  qed
qed

lemma release_slot:
  assumes "keys_ok t"
  shows "slot_at (release k t) = (slot_at t)(k := slot_release (slot_at t k))"
proof
  fix x
  have d: "distinct (map ik_key t)" using assms by (simp add: keys_ok_def)
  show "slot_at (release k t) x = ((slot_at t)(k := slot_release (slot_at t k))) x"
  proof (cases "sel_one (key_of x) t")
    case None
    then show ?thesis by (auto simp: slot_at_def release_def find_key_del [OF d])
  next
    case (Some r)
    then have "ik_key r = x" "r \<in> set t" by (auto simp: key_of_def dest: find_SomeD)
    then have "ik_status r = ''reserved'' \<or> ik_status r = ''completed''" using assms by (auto simp: keys_ok_def)
    then show ?thesis using Some \<open>ik_key r = x\<close>
      by (auto simp: slot_at_def release_def find_key_del [OF d] reserved_row_def slot_of_row_def)
  qed
qed

lemma purge_slot:
  assumes "keys_ok t"
  shows "slot_at (purgeExpired now t) = (\<lambda>k. if slot_expired now (slot_at t k) then Free else slot_at t k)"
  using assms by (auto simp: fun_eq_iff slot_at_def purgeExpired_def find_key_del keys_ok_def
      slot_expired_def slot_expiry_def slot_of_row_def split: option.splits)

interpretation store: refinement keys_ok slot_at store_step slot_step
proof
  fix c t assume "keys_ok t"
  note r = reserve_cases [OF this]
  show "keys_ok (fst (store_step c t))"
    using \<open>keys_ok t\<close> r
    by (cases c) (auto simp: case_prod_beta Let_def complete_def release_def purgeExpired_def
        intro!: keys_ok_upd keys_ok_del)
  show "slot_step c (slot_at t) = (slot_at (fst (store_step c t)), snd (store_step c t))"
    using r by (cases c) (simp_all add: case_prod_beta Let_def complete_slot release_slot purge_slot \<open>keys_ok t\<close>)
qed

section \<open>What callers may rely on\<close>

text \<open>C20.
  Refinement: on a table that respects its unique index, any sequence of calls of the
  reservation store answers exactly what the state machine of its header answers, and leaves a
  table that represents the machine's state; in particular reserve never throws.\<close>

theorem reservations_refine_slots:
  assumes "keys_ok t" "run_ops store_step cs t = (t', replies)"
  shows "(keys_ok t') \<and>
    (run_ops slot_step cs (slot_at t) = (slot_at t', replies)) \<and>
    (Threw e \<notin> set replies)"
proof -
  have c1: "keys_ok t'" using store.run_inv [OF assms(1), of cs] assms(2) by simp
  have c2: "run_ops slot_step cs (slot_at t) = (slot_at t', replies)"
    using store.run_refines [OF assms(1), of cs] assms(2) by simp
  have "Threw e \<notin> set (snd (run_ops slot_step cs m))" for m
  proof (induction cs arbitrary: m)
    case (Cons c cs)
    then show ?case by (cases c) (simp_all add: case_prod_beta Let_def)
  qed simp
  then have c3: "Threw e \<notin> set replies" using c2 by (metis snd_conv)
  show ?thesis using c1 c2 c3 by blast
qed

text \<open>Calls that leave a key alone until an instant.\<close>

fun leaves_until :: "string \<Rightarrow> instant \<Rightarrow> store_call \<Rightarrow> bool" where
  "leaves_until k e (Reserve now k' h ttl) \<longleftrightarrow> now \<le> e"
| "leaves_until k e (Complete k' v) \<longleftrightarrow> k' \<noteq> k"
| "leaves_until k e (Release k') \<longleftrightarrow> k' \<noteq> k"
| "leaves_until k e (Purge now) \<longleftrightarrow> now \<le> e"

fun refused_on :: "string \<Rightarrow> store_call \<Rightarrow> store_reply \<Rightarrow> bool" where
  "refused_on k (Reserve now k' h ttl) r \<longleftrightarrow>
     k' = k \<longrightarrow> r \<in> {Answered StatusConflict, Answered StatusHashMismatch}"
| "refused_on k c r \<longleftrightarrow> True"

lemma slot_kept:
  "m k = Reserved h e \<Longrightarrow> \<forall>c \<in> set cs. leaves_until k e c \<Longrightarrow>
   fst (run_ops slot_step cs m) k = Reserved h e \<and>
   list_all2 (refused_on k) cs (snd (run_ops slot_step cs m))"
proof (induction cs arbitrary: m)
  case Nil
  then show ?case by simp
next
  case (Cons c cs)
  have "fst (slot_step c m) k = Reserved h e \<and> refused_on k c (snd (slot_step c m))"
    using Cons.prems
    by (cases c) (auto simp: slot_reserve_def slot_expired_def slot_expiry_def Let_def case_prod_beta)
  then show ?case using Cons.IH [of "fst (slot_step c m)"] Cons.prems
    by (simp add: case_prod_beta Let_def)
qed

text \<open>Safety: once reserve has answered ok, no other reserve of that key answers ok until the
  reservation expires, whatever calls come in between that do not complete or release the key;
  and completing it then makes every later reserve with the same payload before that expiry
  replay the stored result.\<close>

theorem reservation_exclusive:
  assumes "keys_ok t" "store_step (Reserve now k h ttl) t = (t1, Answered StatusOk)"
    "e = now + coalesce ttl DEFAULT_TTL_MS" "\<forall>c \<in> set cs. leaves_until k e c"
    "run_ops store_step cs t1 = (t2, replies)"
  shows "list_all2 (refused_on k) cs replies"
    "\<And>later ttl'. later \<le> e \<Longrightarrow>
       snd (store_step (Reserve later k h ttl') (fst (store_step (Complete k v) t2))) = Answered (StatusReplay v)"
proof -
  have k1: "keys_ok t1" using store.step_inv [OF assms(1), of "Reserve now k h ttl"] assms(2) by simp
  have slot1: "slot_at t1 k = Reserved h e"
  proof -
    have "slot_step (Reserve now k h ttl) (slot_at t) = (slot_at t1, Answered StatusOk)"
      using store.step_abs [OF assms(1), of "Reserve now k h ttl"] assms(2) by simp
    then show ?thesis
      using assms(3)
      by (auto simp: slot_reserve_def slot_expired_def slot_expiry_def fun_eq_iff Let_def
          split: if_splits slot.splits)
  qed
  note kept = slot_kept [of "slot_at t1", OF slot1 assms(4)]
  have run: "keys_ok t2" "run_ops slot_step cs (slot_at t1) = (slot_at t2, replies)"
    using store.run_inv [OF k1, of cs] store.run_refines [OF k1, of cs] assms(5) by simp_all
  show "list_all2 (refused_on k) cs replies" using kept run(2) by simp
  fix later ttl' assume "later \<le> e"
  let ?t3 = "fst (store_step (Complete k v) t2)"
  have "slot_at t2 k = Reserved h e" using kept run(2) by simp
  then have "slot_at ?t3 k = Completed h v e" using complete_slot [OF run(1)] by simp
  moreover have "keys_ok ?t3" using store.step_inv [OF run(1)] .
  ultimately show "snd (store_step (Reserve later k h ttl') ?t3) = Answered (StatusReplay v)"
    using store.step_abs [of ?t3 "Reserve later k h ttl'"] \<open>later \<le> e\<close>
    by (simp add: slot_reserve_def slot_expired_def slot_expiry_def case_prod_beta Let_def)
qed

lemma reserve_expired:
  assumes "sel_one (key_of k) t = Some r" "ik_expiresAt r < now"
  shows "reserve m1 id now k h ttl t =
    (del (key_of k) (m1 t) @ [\<lparr>ik_key = k, ik_payloadHash = h, ik_status = ''reserved'',
       ik_result = JNull, ik_expiresAt = now + coalesce ttl DEFAULT_TTL_MS\<rparr>], Inr StatusOk)"
  using assms by (simp add: reserve_def insert_key_fresh)

text \<open>Safety: reserve is not atomic when its key has expired.  A request that reads the expired
  row, and deletes and inserts after another request has replaced it, also answers ok: both
  proceed, and the first one's reservation is gone.\<close>

theorem expired_key_reserved_twice:
  assumes "sel_one (key_of k) t = Some r" "ik_expiresAt r < now"
    "reserve id id now k h ttl t = (t1, a)" "reserve (\<lambda>_. t1) id now k h' ttl' t = (t2, b)"
  shows "a = Inr StatusOk" "b = Inr StatusOk"
    "\<forall>x \<in> set t2. ik_key x = k \<longrightarrow> ik_payloadHash x = h'"
proof -
  have t2: "t2 = del (key_of k) t1 @ [\<lparr>ik_key = k, ik_payloadHash = h', ik_status = ''reserved'',
       ik_result = JNull, ik_expiresAt = now + coalesce ttl' DEFAULT_TTL_MS\<rparr>]"
    using assms(4) by (simp add: reserve_expired [OF assms(1,2)])
  show "a = Inr StatusOk" "b = Inr StatusOk"
    using assms(3,4) by (simp_all add: reserve_expired [OF assms(1,2)])
  show "\<forall>x \<in> set t2. ik_key x = k \<longrightarrow> ik_payloadHash x = h'"
    by (simp add: t2 del_def key_of_def)
qed

section \<open>Concrete calls\<close>

definition old_keys :: "key_row list" where
  "old_keys = [\<lparr>ik_key = ''k1'', ik_payloadHash = ''h0'', ik_status = ''completed'', ik_result = JNull, ik_expiresAt = 5\<rparr>]"

lemma old_keys_ok: "keys_ok old_keys"
  by (simp add: keys_ok_def old_keys_def)

definition two_calls :: "store_call list" where
  "two_calls = [Reserve 12 ''k1'' ''h1'' None, Purge 20]"

theorem reservations_refine_slots_witness:
  "run_ops slot_step two_calls (slot_at old_keys) =
     (slot_at (fst (run_ops store_step two_calls old_keys)), [Answered StatusOk, Returned])"
proof -
  have "run_ops store_step two_calls old_keys =
      (fst (run_ops store_step two_calls old_keys), [Answered StatusOk, Returned])"
    by code_simp
  from reservations_refine_slots [OF old_keys_ok this] show ?thesis by blast
qed

definition reserved_keys :: "key_row list" where
  "reserved_keys = fst (store_step (Reserve 10 ''k1'' ''h1'' (Some 1000)) old_keys)"

theorem reservation_exclusive_witness:
  "list_all2 (refused_on ''k1'') two_calls (snd (run_ops store_step two_calls reserved_keys)) \<and>
   snd (store_step (Reserve 900 ''k1'' ''h1'' None)
     (fst (store_step (Complete ''k1'' (JNum 7)) (fst (run_ops store_step two_calls reserved_keys)))))
     = Answered (StatusReplay (JNum 7))"
proof -
  have "store_step (Reserve 10 ''k1'' ''h1'' (Some 1000)) old_keys = (reserved_keys, Answered StatusOk)"
    by code_simp
  note ex = reservation_exclusive [OF old_keys_ok this refl _ prod.collapse [symmetric], of two_calls]
  have "\<forall>c \<in> set two_calls. leaves_until ''k1'' (10 + coalesce (Some 1000) DEFAULT_TTL_MS) c"
    by (simp add: two_calls_def)
  then show ?thesis using ex by simp
qed

theorem expired_key_reserved_twice_witness:
  "\<exists>t1 t2. reserve id id 10 ''k1'' ''h1'' None old_keys = (t1, Inr StatusOk) \<and>
     reserve (\<lambda>_. t1) id 10 ''k1'' ''h2'' None old_keys = (t2, Inr StatusOk)"
proof -
  have "sel_one (key_of ''k1'') old_keys = Some (hd old_keys)" "ik_expiresAt (hd old_keys) < 10"
    by (simp_all add: old_keys_def key_of_def)
  from expired_key_reserved_twice [OF this prod.collapse [symmetric] prod.collapse [symmetric]]
  show ?thesis by (metis prod.collapse)
qed

end
