(* ===== verification/Key_Cleanup.thy ===== *)
theory Key_Cleanup
  imports Js_Text
begin

text \<open>
  Bounded cleanup of completed idempotency records, web/src/lib/idempotency/store.ts and
  config.ts: the environment's settings, the expiry of a record, the in-process guard, and one
  cleanup run over the commerce jobs table, with the rows changing between its SELECT and its
  DELETE and with either statement failing.

  Durations are whole milliseconds; a \<open>Date\<close> is an instant and an invalid one is \<open>None\<close>.
\<close>

section \<open>Settings\<close>

definition DAY_MS :: int where "DAY_MS = 24 * 60 * 60 * 1000"
definition IDEMPOTENCY_CLEANUP_MAX_BATCH :: int where "IDEMPOTENCY_CLEANUP_MAX_BATCH = 5000"
definition DEFAULT_RETENTION_MS :: int where "DEFAULT_RETENTION_MS = 30 * DAY_MS"
definition DEFAULT_CLEANUP_BATCH_SIZE :: int where "DEFAULT_CLEANUP_BATCH_SIZE = 500"

definition envPositiveInt :: "environment \<Rightarrow> string \<Rightarrow> int \<Rightarrow> int" where
  "envPositiveInt env name fallback =
     (if \<not> truthy_str (env name) then fallback
      else case js_parseInt (the (env name)) of
             None \<Rightarrow> fallback
           | Some parsed \<Rightarrow> if parsed > 0 then parsed else fallback)"

definition clamp :: "int \<Rightarrow> int \<Rightarrow> int \<Rightarrow> int" where
  "clamp v lo hi = min (max v lo) hi"

record cleanup_config =
  retentionMs :: int
  cleanupBatchSize :: int

definition idempotencyConfig :: "environment \<Rightarrow> cleanup_config" where
  "idempotencyConfig env =
     \<lparr>retentionMs = envPositiveInt env ''IDEMPOTENCY_KEY_RETENTION_MS'' DEFAULT_RETENTION_MS,
      cleanupBatchSize = clamp (envPositiveInt env ''IDEMPOTENCY_CLEANUP_BATCH_SIZE''
        DEFAULT_CLEANUP_BATCH_SIZE) 1 IDEMPOTENCY_CLEANUP_MAX_BATCH\<rparr>"

definition resolveCleanupBatchSize :: "cleanup_config \<Rightarrow> js_number option \<Rightarrow> int" where
  "resolveCleanupBatchSize cfg requested =
     (case requested of
        None \<Rightarrow> cleanupBatchSize cfg
      | Some NotFinite \<Rightarrow> cleanupBatchSize cfg
      | Some (Finite q) \<Rightarrow>
          if q < 1 then cleanupBatchSize cfg else clamp \<lfloor>q\<rfloor> 1 IDEMPOTENCY_CLEANUP_MAX_BATCH)"

section \<open>Records and their expiry\<close>

definition COMPLETED_JOB_STATUS :: string where "COMPLETED_JOB_STATUS = ''completed''"

record idempotency_record =
  id_id :: string
  id_status :: string
  id_key :: "string option"
  id_updatedAt :: "instant option"
  id_createdAt :: "instant option"

definition MAX_DATE :: int where "MAX_DATE = 8640000000000000"  \<comment> \<open>beyond it a Date is invalid\<close>

definition computeIdempotencyExpiry :: "cleanup_config \<Rightarrow> instant option \<Rightarrow> int \<Rightarrow> instant option" where
  "computeIdempotencyExpiry cfg completedAt retention =
     (case completedAt of
        None \<Rightarrow> None
      | Some d \<Rightarrow>
          let effective = (if retention \<ge> 0 then retention else retentionMs cfg);
              e = d + effective
          in if \<bar>e\<bar> > MAX_DATE then None else Some e)"

definition completion_time :: "idempotency_record \<Rightarrow> instant option" where
  "completion_time r = (case id_updatedAt r of None \<Rightarrow> id_createdAt r | Some u \<Rightarrow> Some u)"

definition resolveIdempotencyExpiresAt :: "cleanup_config \<Rightarrow> idempotency_record \<Rightarrow> int \<Rightarrow> instant option" where
  "resolveIdempotencyExpiresAt cfg r retention = computeIdempotencyExpiry cfg (completion_time r) retention"

definition isExpiredCompletedIdempotencyKey ::
  "cleanup_config \<Rightarrow> idempotency_record \<Rightarrow> instant \<Rightarrow> int \<Rightarrow> bool" where
  "isExpiredCompletedIdempotencyKey cfg r now retention \<longleftrightarrow>
     id_status r = COMPLETED_JOB_STATUS \<and> truthy_str (id_key r) \<and>
     (case resolveIdempotencyExpiresAt cfg r retention of None \<Rightarrow> False | Some e \<Rightarrow> e \<le> now)"

record expired_selection =
  toDelete :: "string list"
  sel_skipped :: int
  sel_hasMore :: bool

definition selectExpiredIdempotencyIds ::
  "cleanup_config \<Rightarrow> idempotency_record list \<Rightarrow> instant \<Rightarrow> int \<Rightarrow> int \<Rightarrow> expired_selection" where
  "selectExpiredIdempotencyIds cfg candidates now retention limit =
     (let eligible = filter (\<lambda>r. isExpiredCompletedIdempotencyKey cfg r now retention) candidates
      in \<lparr>toDelete = map id_id (take (nat limit) eligible),
          sel_skipped = int (length candidates) - int (length eligible),
          sel_hasMore = int (length candidates) > limit\<rparr>)"

section \<open>One run\<close>

datatype failure_code = InvalidOptions | TableMissing | ColumnMissing | DependencyFailure

text \<open>A failing statement throws with an SQLSTATE code or without one.\<close>

definition classifyFailure :: "string option \<Rightarrow> failure_code" where
  "classifyFailure code =
     (if code = Some ''42P01'' then TableMissing
      else if code = Some ''42703'' then ColumnMissing else DependencyFailure)"

record cleanup_result =
  cr_ok :: bool
  cr_deleted :: int
  cr_examined :: int
  cr_skipped :: int
  cr_hasMore :: bool
  cr_limit :: int
  cr_code :: "failure_code option"

definition cleanup_failure :: "failure_code \<Rightarrow> int \<Rightarrow> cleanup_result" where
  "cleanup_failure code limit =
     \<lparr>cr_ok = False, cr_deleted = 0, cr_examined = 0, cr_skipped = 0, cr_hasMore = False,
      cr_limit = limit, cr_code = Some code\<rparr>"

text \<open>\<open>co_now = Some None\<close> is an invalid Date.\<close>

record cleanup_options =
  co_limit :: "js_number option"
  co_retentionMs :: "int option"
  co_now :: "instant option option"

definition effective_retention :: "cleanup_config \<Rightarrow> cleanup_options \<Rightarrow> int" where
  "effective_retention cfg opts =
     (case co_retentionMs opts of None \<Rightarrow> retentionMs cfg
      | Some v \<Rightarrow> if v \<ge> 0 then v else retentionMs cfg)"

definition expiry_column :: "int \<Rightarrow> idempotency_record \<Rightarrow> instant option" where
  "expiry_column retention r = map_option (\<lambda>d. d + retention) (completion_time r)"

definition expired_row :: "instant \<Rightarrow> int \<Rightarrow> idempotency_record \<Rightarrow> bool" where
  "expired_row now retention r \<longleftrightarrow>
     id_status r = COMPLETED_JOB_STATUS \<and> id_key r \<noteq> None \<and>
     sql_true (sql_cmp (\<le>) (expiry_column retention r) (Some now))"

definition cleanup_candidates ::
  "instant \<Rightarrow> int \<Rightarrow> int \<Rightarrow> idempotency_record list \<Rightarrow> idempotency_record list" where
  "cleanup_candidates now retention limit t =
     take (nat (limit + 1)) (sort_key (\<lambda>r. the (expiry_column retention r)) (filter (expired_row now retention) t))"

definition removable :: "string list \<Rightarrow> idempotency_record \<Rightarrow> bool" where
  "removable ids r \<longleftrightarrow> id_id r \<in> set ids \<and> id_status r = COMPLETED_JOB_STATUS \<and> id_key r \<noteq> None"

text \<open>\<open>select_fault\<close> and \<open>delete_fault\<close>: the error either statement throws, if it does;
  \<open>meanwhile\<close>: what other requests do to the table in between.\<close>

definition cleanupExpiredIdempotencyKeys ::
  "cleanup_config \<Rightarrow> string option option \<Rightarrow> string option option
     \<Rightarrow> (idempotency_record list \<Rightarrow> idempotency_record list) \<Rightarrow> instant \<Rightarrow> cleanup_options
     \<Rightarrow> idempotency_record list \<Rightarrow> idempotency_record list \<times> cleanup_result" where
  "cleanupExpiredIdempotencyKeys cfg select_fault delete_fault meanwhile clock opts t =
     (let limit = resolveCleanupBatchSize cfg (co_limit opts)
      in case coalesce (co_now opts) (Some clock) of
           None \<Rightarrow> (t, cleanup_failure InvalidOptions limit)
         | Some now \<Rightarrow>
             let retention = effective_retention cfg opts
             in case select_fault of
                  Some c \<Rightarrow> (t, cleanup_failure (classifyFailure c) limit)
                | None \<Rightarrow>
                    let candidates = cleanup_candidates now retention limit t;
                        chosen = selectExpiredIdempotencyIds cfg candidates now retention limit;
                        examined = int (length candidates)
                    in if toDelete chosen = []
                       then (t, \<lparr>cr_ok = True, cr_deleted = 0, cr_examined = examined,
                                 cr_skipped = sel_skipped chosen, cr_hasMore = sel_hasMore chosen,
                                 cr_limit = limit, cr_code = None\<rparr>)
                       else case delete_fault of
                         Some c \<Rightarrow> (meanwhile t, cleanup_failure (classifyFailure c) limit)
                       | None \<Rightarrow>
                           let (t', removed) = del_returning (removable (toDelete chosen)) (meanwhile t)
                           in (t', \<lparr>cr_ok = True, cr_deleted = int (length removed), cr_examined = examined,
                                    cr_skipped = sel_skipped chosen, cr_hasMore = sel_hasMore chosen,
                                    cr_limit = limit, cr_code = None\<rparr>))"

section \<open>Settings are in range\<close>

lemma config_range: "retentionMs (idempotencyConfig env) > 0" "1 \<le> cleanupBatchSize (idempotencyConfig env)"
  "cleanupBatchSize (idempotencyConfig env) \<le> IDEMPOTENCY_CLEANUP_MAX_BATCH"
  by (auto simp: idempotencyConfig_def envPositiveInt_def clamp_def IDEMPOTENCY_CLEANUP_MAX_BATCH_def
      DEFAULT_RETENTION_MS_def DAY_MS_def split: option.splits)

lemma batch_range:
  assumes "cfg = idempotencyConfig env"
  shows "1 \<le> resolveCleanupBatchSize cfg q" "resolveCleanupBatchSize cfg q \<le> 5000"
  using config_range [of env] assms
  by (auto simp: resolveCleanupBatchSize_def clamp_def IDEMPOTENCY_CLEANUP_MAX_BATCH_def
      le_floor_iff split: option.splits js_number.splits)

lemma retention_nonneg: "cfg = idempotencyConfig env \<Longrightarrow> 0 \<le> effective_retention cfg opts"
  using config_range(1) [of env] by (auto simp: effective_retention_def split: option.splits)

section \<open>What a run removes\<close>

lemma removed_length:
  assumes "distinct (map id_id t)"
  shows "length (filter (removable ids) t) \<le> length ids"
proof -
  have "length (filter (removable ids) t) = card (id_id ` set (filter (removable ids) t))"
    using assms distinct_card [of "map id_id (filter (removable ids) t)"]
    by (simp add: distinct_map_filter)
  also have "\<dots> \<le> card (set ids)" by (rule card_mono) (auto simp: removable_def)
  also have "\<dots> \<le> length ids" by (rule card_length)
  finally show ?thesis .
qed

lemma chosen_expired:
  assumes "i \<in> set (toDelete (selectExpiredIdempotencyIds cfg (cleanup_candidates now ret limit t) now ret l))"
  shows "\<exists>r \<in> set t. id_id r = i \<and> expired_row now ret r"
  using assms
  by (auto simp: selectExpiredIdempotencyIds_def cleanup_candidates_def Let_def dest!: in_set_takeD intro!: bexI)

lemma chosen_length:
  "0 \<le> limit \<Longrightarrow> int (length (toDelete (selectExpiredIdempotencyIds cfg cs now ret limit))) \<le> limit"
  by (simp add: selectExpiredIdempotencyIds_def Let_def)

text \<open>The four ways a run ends.\<close>

lemma cleanup_ends:
  assumes "cleanupExpiredIdempotencyKeys cfg f g meanwhile clock opts t = (t', res)"
  obtains (refused) c where "t' = t \<or> t' = meanwhile t"
      "res = cleanup_failure c (resolveCleanupBatchSize cfg (co_limit opts))"
  | (idle) "t' = t" "cr_ok res" "cr_deleted res = 0" "cr_limit res = resolveCleanupBatchSize cfg (co_limit opts)"
      "cr_code res = None"
  | (removed) now ids where "t' = del (removable ids) (meanwhile t)" "cr_ok res"
      "coalesce (co_now opts) (Some clock) = Some now"
      "ids = toDelete (selectExpiredIdempotencyIds cfg (cleanup_candidates now
         (effective_retention cfg opts) (cr_limit res) t) now (effective_retention cfg opts) (cr_limit res))"
      "cr_deleted res = int (length (filter (removable ids) (meanwhile t)))"
      "cr_limit res = resolveCleanupBatchSize cfg (co_limit opts)" "cr_code res = None"
  using assms
  by (auto simp: cleanupExpiredIdempotencyKeys_def Let_def del_returning_def
      split: option.splits if_splits)

text \<open>Bounds: whatever the environment, the requested limit and the changes other requests make
  between the SELECT and the DELETE, a cleanup run removes at most its limit, never more than
  5000 rows, and every row it removes is completed and keyed at that moment and had outlived its
  retention when it was selected; a run that fails removes nothing and says why.\<close>

theorem cleanup_bounded:
  assumes "cleanupExpiredIdempotencyKeys (idempotencyConfig env) f g meanwhile clock opts t = (t', res)"
    "distinct (map id_id t)" "distinct (map id_id (meanwhile t))"
  shows "0 \<le> cr_deleted res" "cr_deleted res \<le> cr_limit res" "1 \<le> cr_limit res" "cr_limit res \<le> 5000"
    "\<not> cr_ok res \<Longrightarrow> cr_deleted res = 0 \<and> cr_code res \<noteq> None \<and> (t' = t \<or> t' = meanwhile t)"
    "\<forall>r \<in> set (meanwhile t) - set t'. t' = t \<or>
       (id_status r = ''completed'' \<and> id_key r \<noteq> None \<and>
        (\<exists>r0 \<in> set t. \<exists>now. coalesce (co_now opts) (Some clock) = Some now \<and> id_id r0 = id_id r \<and>
           expired_row now (effective_retention (idempotencyConfig env) opts) r0))"
proof -
  note range = batch_range [OF refl, of env "co_limit opts"]
  have "0 \<le> cr_deleted res \<and> cr_deleted res \<le> cr_limit res \<and> 1 \<le> cr_limit res \<and> cr_limit res \<le> 5000 \<and>
    (\<not> cr_ok res \<longrightarrow> cr_deleted res = 0 \<and> cr_code res \<noteq> None \<and> (t' = t \<or> t' = meanwhile t)) \<and>
    (\<forall>r \<in> set (meanwhile t) - set t'. t' = t \<or>
       (id_status r = ''completed'' \<and> id_key r \<noteq> None \<and>
        (\<exists>r0 \<in> set t. \<exists>now. coalesce (co_now opts) (Some clock) = Some now \<and> id_id r0 = id_id r \<and>
           expired_row now (effective_retention (idempotencyConfig env) opts) r0)))"
    using assms(1)
  proof (cases rule: cleanup_ends)
    case (refused c)
    then show ?thesis using range by (auto simp: cleanup_failure_def)
  next
    case idle
    then show ?thesis using range by simp
  next
    case (removed now ids)
    have "int (length ids) \<le> cr_limit res"
      using chosen_length [of "cr_limit res"] range removed(4,6) by simp
    moreover have "\<exists>r0 \<in> set t. id_id r0 = id_id r \<and>
        expired_row now (effective_retention (idempotencyConfig env) opts) r0"
      if "removable ids r" for r
      using that chosen_expired removed(4) by (fastforce simp: removable_def)
    ultimately show ?thesis
      using removed range removed_length [OF assms(3), of ids]
      by (auto simp: del_def removable_def COMPLETED_JOB_STATUS_def)
  qed
  then show "0 \<le> cr_deleted res" "cr_deleted res \<le> cr_limit res" "1 \<le> cr_limit res" "cr_limit res \<le> 5000"
    "\<not> cr_ok res \<Longrightarrow> cr_deleted res = 0 \<and> cr_code res \<noteq> None \<and> (t' = t \<or> t' = meanwhile t)"
    "\<forall>r \<in> set (meanwhile t) - set t'. t' = t \<or>
       (id_status r = ''completed'' \<and> id_key r \<noteq> None \<and>
        (\<exists>r0 \<in> set t. \<exists>now. coalesce (co_now opts) (Some clock) = Some now \<and> id_id r0 = id_id r \<and>
           expired_row now (effective_retention (idempotencyConfig env) opts) r0))"
    by auto
qed

section \<open>Repeated runs\<close>

text \<open>Rows whose dates are valid and whose key, if any, is not the empty string.\<close>

definition usable_row :: "idempotency_record \<Rightarrow> bool" where
  "usable_row r \<longleftrightarrow> id_key r \<noteq> Some [] \<and>
     (case completion_time r of None \<Rightarrow> True | Some d \<Rightarrow> \<bar>d\<bar> \<le> MAX_DATE)"

text \<open>The in-process guard then accepts every candidate of the SELECT.\<close>

lemma guard_accepts:
  assumes "expired_row now ret r" "usable_row r" "0 \<le> ret" "\<bar>now\<bar> \<le> MAX_DATE"
  shows "isExpiredCompletedIdempotencyKey cfg r now ret"
  using assms
  by (auto simp: expired_row_def isExpiredCompletedIdempotencyKey_def usable_row_def expiry_column_def
      resolveIdempotencyExpiresAt_def computeIdempotencyExpiry_def Let_def split: option.splits)

lemma selection_exact:
  assumes "\<forall>r \<in> set t. usable_row r" "0 \<le> ret" "\<bar>now\<bar> \<le> MAX_DATE" "0 \<le> limit"
    "E = sort_key (\<lambda>r. the (expiry_column ret r)) (filter (expired_row now ret) t)"
  shows "selectExpiredIdempotencyIds cfg (cleanup_candidates now ret limit t) now ret limit =
    \<lparr>toDelete = map id_id (take (nat limit) E), sel_skipped = 0, sel_hasMore = int (length E) > limit\<rparr>"
proof -
  have "set E = {r \<in> set t. expired_row now ret r}" using assms(5) by simp
  then have all: "filter (\<lambda>r. isExpiredCompletedIdempotencyKey cfg r now ret) (take n E) = take n E" for n
    using assms(1-3) by (auto simp: filter_id_conv dest!: in_set_takeD intro!: guard_accepts)
  have "cleanup_candidates now ret limit t = take (nat (limit + 1)) E"
    using assms(5) by (simp add: cleanup_candidates_def)
  moreover have "limit < int (min (length E) (nat (limit + 1))) \<longleftrightarrow> limit < int (length E)"
    using assms(4) by (auto simp: min_def)
  ultimately show ?thesis using assms(4) by (simp add: selectExpiredIdempotencyIds_def all Let_def min.commute)
qed

definition cleanup_run ::
  "cleanup_config \<Rightarrow> instant \<Rightarrow> cleanup_options \<Rightarrow> idempotency_record list \<Rightarrow> idempotency_record list" where
  "cleanup_run cfg now opts t = fst (cleanupExpiredIdempotencyKeys cfg None None id now opts t)"

definition undisturbed_now :: "cleanup_options \<Rightarrow> instant \<Rightarrow> instant option" where
  "undisturbed_now opts clock = coalesce (co_now opts) (Some clock)"

lemma cleanup_undisturbed:
  assumes "undisturbed_now opts clock = Some now" "\<bar>now\<bar> \<le> MAX_DATE" "distinct (map id_id t)"
    "\<forall>r \<in> set t. usable_row r" "cfg = idempotencyConfig env" "ret = effective_retention cfg opts"
    "limit = resolveCleanupBatchSize cfg (co_limit opts)"
    "E = sort_key (\<lambda>r. the (expiry_column ret r)) (filter (expired_row now ret) t)"
  shows "cleanup_run cfg clock opts t = filter (\<lambda>r. r \<notin> set (take (nat limit) E)) t"
proof -
  let ?S = "take (nat limit) E"
  have limit: "1 \<le> limit" using batch_range(1) [OF assms(5)] assms(7) by simp
  note sel = selection_exact [OF assms(4) retention_nonneg [OF assms(5), of opts, folded assms(6)] assms(2) _ assms(8),
      of limit cfg]
  have E: "set E = {r \<in> set t. expired_row now ret r}" using assms(8) by simp
  have "removable (map id_id ?S) r \<longleftrightarrow> r \<in> set ?S" if "r \<in> set t" for r
  proof
    assume "removable (map id_id ?S) r"
    then obtain s where "s \<in> set ?S" "id_id s = id_id r" by (auto simp: removable_def)
    moreover from this have "s \<in> set t" using E by (auto dest: in_set_takeD)
    ultimately show "r \<in> set ?S" using distinct_key_unique [OF assms(3)] that by metis
  next
    assume "r \<in> set ?S"
    then have "expired_row now ret r" using E by (auto dest: in_set_takeD)
    then show "removable (map id_id ?S) r"
      using \<open>r \<in> set ?S\<close> by (auto simp: removable_def expired_row_def)
  qed
  then have "del (removable (map id_id ?S)) t = filter (\<lambda>r. r \<notin> set ?S) t"
    by (auto simp: del_def intro: filter_cong)
  moreover have "limit \<le> 0 \<or> E = [] \<Longrightarrow> filter (\<lambda>r. r \<notin> set ?S) t = t" by auto
  ultimately show ?thesis
    using assms(1) sel limit
    by (auto simp: cleanup_run_def cleanupExpiredIdempotencyKeys_def undisturbed_now_def
        assms(6,7) [symmetric] Let_def del_returning_def)
qed

definition expired_count :: "instant \<Rightarrow> int \<Rightarrow> idempotency_record list \<Rightarrow> nat" where
  "expired_count now ret t = length (filter (expired_row now ret) t)"

lemma cleanup_run_effect:
  assumes "undisturbed_now opts clock = Some now" "\<bar>now\<bar> \<le> MAX_DATE" "distinct (map id_id t)"
    "\<forall>r \<in> set t. usable_row r" "cfg = idempotencyConfig env" "ret = effective_retention cfg opts"
    "limit = resolveCleanupBatchSize cfg (co_limit opts)" "t' = cleanup_run cfg clock opts t"
  shows "expired_count now ret t' = expired_count now ret t - nat limit"
    "filter (\<lambda>r. \<not> expired_row now ret r) t' = filter (\<lambda>r. \<not> expired_row now ret r) t"
    "set t' \<subseteq> set t" "distinct (map id_id t')"
proof -
  define E where "E = sort_key (\<lambda>r. the (expiry_column ret r)) (filter (expired_row now ret) t)"
  let ?S = "take (nat limit) E"
  have t': "t' = filter (\<lambda>r. r \<notin> set ?S) t"
    using cleanup_undisturbed [OF assms(1-7) E_def] assms(8) by simp
  have S: "set ?S \<subseteq> {r \<in> set t. expired_row now ret r}" by (auto simp: E_def dest: in_set_takeD)
  then have S': "set ?S \<subseteq> set (filter (expired_row now ret) t)" by auto
  have "distinct t" using assms(3) by (simp add: distinct_map)
  then have dE: "distinct E" by (simp add: E_def)
  have "filter (expired_row now ret) t' = filter (\<lambda>r. r \<notin> set ?S) (filter (expired_row now ret) t)"
    using S by (auto simp: t' intro: filter_cong)
  also have "length \<dots> = card (set (filter (expired_row now ret) t) - set ?S)"
    using \<open>distinct t\<close> by (subst distinct_card [symmetric]) (auto intro!: arg_cong [of _ _ card])
  also have "\<dots> = length (filter (expired_row now ret) t) - length ?S"
    using \<open>distinct t\<close> dE
    by (subst card_Diff_subset [OF _ S']) (simp_all add: distinct_card distinct_take del: set_filter)
  also have "length ?S = min (length (filter (expired_row now ret) t)) (nat limit)"
    by (simp add: E_def)
  finally show "expired_count now ret t' = expired_count now ret t - nat limit"
    by (simp add: expired_count_def)
  show "filter (\<lambda>r. \<not> expired_row now ret r) t' = filter (\<lambda>r. \<not> expired_row now ret r) t"
    using S by (auto simp: t' intro!: filter_cong)
  show "set t' \<subseteq> set t" "distinct (map id_id t')" using assms(3) by (auto simp: t' distinct_map_filter)
qed

text \<open>C40.
  Liveness: over a table other requests leave alone, with valid dates and non-empty keys, as many
  runs as the number of expired records divided by the limit remove all of them, and no run ever
  touches a record that is not expired.\<close>

theorem cleanup_drains:
  assumes "undisturbed_now opts clock = Some now" "\<bar>now\<bar> \<le> MAX_DATE" "distinct (map id_id t)"
    "\<forall>r \<in> set t. usable_row r" "cfg = idempotencyConfig env" "ret = effective_retention cfg opts"
    "limit = resolveCleanupBatchSize cfg (co_limit opts)"
    "t' = (cleanup_run cfg clock opts ^^ n) t"
  shows "(expired_count now ret t' = expired_count now ret t - n * nat limit) \<and>
    (filter (\<lambda>r. \<not> expired_row now ret r) t' = filter (\<lambda>r. \<not> expired_row now ret r) t) \<and>
    (expired_count now ret t \<le> n * nat limit \<longrightarrow> t' = filter (\<lambda>r. \<not> expired_row now ret r) t)"
proof -
  have runs: "expired_count now ret t' = expired_count now ret t - n * nat limit \<and>
    filter (\<lambda>r. \<not> expired_row now ret r) t' = filter (\<lambda>r. \<not> expired_row now ret r) t \<and>
    set t' \<subseteq> set t \<and> distinct (map id_id t')"
    using assms(8)
  proof (induction n arbitrary: t')
    case 0
    then show ?case using assms(3) by simp
  next
    case (Suc n)
    let ?u = "(cleanup_run cfg clock opts ^^ n) t"
    have "t' = cleanup_run cfg clock opts ?u" using Suc.prems by simp
    moreover note IH = Suc.IH [OF refl]
    moreover have "\<forall>r \<in> set ?u. usable_row r" using IH assms(4) by blast
    ultimately show ?case
      using cleanup_run_effect [OF assms(1,2) _ _ assms(5-7), of ?u t'] by (auto simp: algebra_simps)
  qed
  then have c1: "expired_count now ret t' = expired_count now ret t - n * nat limit"
    "filter (\<lambda>r. \<not> expired_row now ret r) t' = filter (\<lambda>r. \<not> expired_row now ret r) t"
    by blast+
  have "t' = filter (\<lambda>r. \<not> expired_row now ret r) t" if "expired_count now ret t \<le> n * nat limit"
  proof -
  from that c1 have "filter (expired_row now ret) t' = []" using runs by (simp add: expired_count_def)
  then have "filter (\<lambda>r. \<not> expired_row now ret r) t' = t'"
    by (auto simp: filter_empty_conv filter_id_conv)
  then show ?thesis using runs by simp
  qed
  then show ?thesis using c1 by blast
qed

section \<open>A concrete run\<close>

definition old_record :: "string \<Rightarrow> idempotency_record" where
  "old_record i = \<lparr>id_id = i, id_status = ''completed'', id_key = Some ''k'', id_updatedAt = Some 1, id_createdAt = Some 0\<rparr>"

definition three_records :: "idempotency_record list" where
  "three_records = [old_record ''a'', (old_record ''b'')\<lparr>id_status := ''pending''\<rparr>, old_record ''c'']"

definition one_at_a_time :: cleanup_options where
  "one_at_a_time = \<lparr>co_limit = Some (Finite 1), co_retentionMs = Some 50, co_now = Some (Some 100)\<rparr>"

definition no_env :: environment where "no_env = (\<lambda>_. None)"

lemma batch_one: "resolveCleanupBatchSize cfg (co_limit one_at_a_time) = 1"
  by (simp add: one_at_a_time_def resolveCleanupBatchSize_def clamp_def IDEMPOTENCY_CLEANUP_MAX_BATCH_def)

lemma retention_fifty: "effective_retention cfg one_at_a_time = 50"
  by (simp add: effective_retention_def one_at_a_time_def)

theorem cleanup_bounded_witness:
  "cr_deleted (snd (cleanupExpiredIdempotencyKeys (idempotencyConfig no_env) None None id 0 one_at_a_time three_records)) \<le> 1 \<and>
   set three_records - set (fst (cleanupExpiredIdempotencyKeys (idempotencyConfig no_env) None None id 0 one_at_a_time three_records)) \<subseteq>
     {r. id_status r = ''completed''}"
proof -
  let ?run = "cleanupExpiredIdempotencyKeys (idempotencyConfig no_env) None None id 0 one_at_a_time three_records"
  have run: "?run = (fst ?run, snd ?run)" by simp
  have ids: "distinct (map id_id three_records)" "distinct (map id_id (id three_records))"
    by (simp_all add: three_records_def old_record_def)
  have "cr_limit (snd ?run) = 1"
    using run
    by (cases rule: cleanup_ends) (simp_all add: batch_one cleanup_failure_def)
  then show ?thesis
    using cleanup_bounded(2,6) [OF run ids] by auto
qed

theorem cleanup_drains_witness:
  "(cleanup_run (idempotencyConfig no_env) 0 one_at_a_time ^^ 2) three_records =
     [(old_record ''b'')\<lparr>id_status := ''pending''\<rparr>]"
proof -
  have ids: "distinct (map id_id three_records)" "\<forall>r \<in> set three_records. usable_row r"
    by (simp_all add: three_records_def old_record_def usable_row_def completion_time_def MAX_DATE_def)
  have now: "undisturbed_now one_at_a_time 0 = Some 100" "\<bar>100::int\<bar> \<le> MAX_DATE"
    by (simp_all add: undisturbed_now_def one_at_a_time_def MAX_DATE_def)
  have rows: "expired_row 100 50 (old_record i)" "\<not> expired_row 100 50 ((old_record i)\<lparr>id_status := ''pending''\<rparr>)" for i
    by (simp_all add: expired_row_def old_record_def expiry_column_def completion_time_def COMPLETED_JOB_STATUS_def)
  show ?thesis
    using cleanup_drains [OF now ids refl refl refl refl, of no_env 2, THEN conjunct2, THEN conjunct2] rows
    by (simp add: batch_one retention_fifty expired_count_def three_records_def)
qed

end
