(* ===== verification/Db_Retry.thy ===== *)
theory Db_Retry
  imports Js_Text
begin

text \<open>
  Bounded transaction retries, web/src/db/db-retry.ts: the classification of database errors, the
  jittered delay, the environment's settings and withTransactionRetry.

  A transaction is a function on the database state that commits, with the new state and its
  result, or throws; a transaction that throws is rolled back.  \<open>pause n d\<close> is what other requests
  do to the database during the delay of \<open>d\<close> milliseconds after the n-th attempt, \<open>rnd n\<close> the
  value of Math.random() for that delay.  The loop ends because each retry uses up one of the
  \<open>maxRetries\<close>; its recursion is on the number left.
\<close>

section \<open>Errors\<close>

text \<open>That a throwing transaction leaves no trace is the database's rollback; a commit whose answer is lost
  with the connection, which may have taken place, is not modelled.\<close>

text \<open>A thrown value: an object with the properties the classifier reads, or anything else.\<close>

record error_object =
  eo_code :: "string option"
  eo_sqlState :: "string option"
  eo_causeCode :: "string option"
  eo_message :: "string option"

datatype db_error = ErrorValue error_object | NotAnObject string

definition RETRYABLE_SQLSTATES :: "string list" where
  "RETRYABLE_SQLSTATES = [''40001'', ''40P01'', ''55P03'', ''08000'', ''08001'', ''08003'', ''08004'',
     ''08006'', ''57P01'', ''57P02'', ''57P03'']"

definition RETRYABLE_NETWORK_CODES :: "string list" where
  "RETRYABLE_NETWORK_CODES = [''ECONNRESET'', ''ETIMEDOUT'', ''EPIPE'', ''ECONNREFUSED'', ''EHOSTUNREACH'']"

definition retryable_phrases :: "string list" where
  "retryable_phrases = [''serialization failure'', ''deadlock detected'',
     ''could not serialize access due to concurrent update'',
     ''could not serialize access due to read/write dependencies'', ''lock not available'',
     ''connection terminated'', ''connection closed'', ''connection refused'']"

fun isRetryableDbError :: "db_error \<Rightarrow> bool" where
  "isRetryableDbError (NotAnObject s) \<longleftrightarrow> False"
| "isRetryableDbError (ErrorValue e) \<longleftrightarrow>
     (let code = (case eo_code e of Some c \<Rightarrow> c | None \<Rightarrow> coalesce (eo_sqlState e) []);
          causeCode = coalesce (eo_causeCode e) [];
          message = js_lower (coalesce (eo_message e) [])
      in code \<in> set RETRYABLE_SQLSTATES \<or> causeCode \<in> set RETRYABLE_SQLSTATES \<or>
         code \<in> set RETRYABLE_NETWORK_CODES \<or> causeCode \<in> set RETRYABLE_NETWORK_CODES \<or>
         list_ex (\<lambda>p. js_includes p message) retryable_phrases)"

section \<open>Delay and settings\<close>

definition calculateJitteredDelay :: "int \<Rightarrow> int \<Rightarrow> int \<Rightarrow> rat \<Rightarrow> int" where
  "calculateJitteredDelay attempt initialDelayMs maxDelayMs random =
     (let cappedAttempt = min attempt 30;
          exponential = initialDelayMs * 2 ^ nat (cappedAttempt - 1);
          capped = min maxDelayMs exponential
      in \<lfloor>random * of_int capped\<rfloor>)"

definition getEnvBoolean :: "environment \<Rightarrow> string \<Rightarrow> bool \<Rightarrow> bool" where
  "getEnvBoolean env key defaultValue =
     (case env key of
        None \<Rightarrow> defaultValue
      | Some val \<Rightarrow> if val = [] then defaultValue else js_lower val \<noteq> ''false'' \<and> val \<noteq> ''0'')"

definition getEnvNumber :: "environment \<Rightarrow> string \<Rightarrow> int \<Rightarrow> int" where
  "getEnvNumber env key defaultValue =
     (if \<not> truthy_str (env key) then defaultValue
      else coalesce (js_parseInt (the (env key))) defaultValue)"

datatype tx_category = MONEY | TOKEN | PATRON | JOB | GENESIS

record retry_options =
  ro_category :: "tx_category option"
  ro_maxRetries :: "int option"
  ro_initialDelayMs :: "int option"
  ro_maxDelayMs :: "int option"
  ro_enabled :: "bool option"

record retry_settings =
  rs_category :: tx_category
  rs_enabled :: bool
  rs_maxRetries :: int
  rs_initialDelayMs :: int
  rs_maxDelayMs :: int

definition retry_settings_of :: "environment \<Rightarrow> retry_options \<Rightarrow> retry_settings" where
  "retry_settings_of env o1 =
     \<lparr>rs_category = coalesce (ro_category o1) JOB,
      rs_enabled = coalesce (ro_enabled o1) (getEnvBoolean env ''DB_TRANSACTION_RETRY_ENABLED'' True),
      rs_maxRetries = coalesce (ro_maxRetries o1) (getEnvNumber env ''DB_TRANSACTION_RETRY_MAX_RETRIES'' 5),
      rs_initialDelayMs = coalesce (ro_initialDelayMs o1) (getEnvNumber env ''DB_TRANSACTION_RETRY_INITIAL_DELAY_MS'' 50),
      rs_maxDelayMs = coalesce (ro_maxDelayMs o1) (getEnvNumber env ''DB_TRANSACTION_RETRY_MAX_DELAY_MS'' 1000)\<rparr>"

section \<open>The loop\<close>

type_synonym ('s, 'a) transaction = "'s \<Rightarrow> db_error + ('s \<times> 'a)"

datatype retry_error = RetryExhausted tx_category int db_error | Rethrown db_error

text \<open>\<open>retry_loop\<close> is the body of the \<open>while (true)\<close> at a given attempt; \<open>left\<close> is the number of
  retries that remain, and the last component of the result lists the delays it slept.\<close>

fun retry_loop ::
  "retry_settings \<Rightarrow> ('s, 'a) transaction \<Rightarrow> (int \<Rightarrow> int \<Rightarrow> 's \<Rightarrow> 's) \<Rightarrow> (int \<Rightarrow> rat) \<Rightarrow> int \<Rightarrow> nat \<Rightarrow> 's
     \<Rightarrow> 's \<times> (retry_error + 'a) \<times> int list" where
  "retry_loop st tx pause rnd attempt left s =
     (case tx s of
        Inr (s', v) \<Rightarrow> (s', Inr v, [])
      | Inl e \<Rightarrow>
          if \<not> isRetryableDbError e then (s, Inl (Rethrown e), [])
          else case left of
            0 \<Rightarrow> (s, Inl (RetryExhausted (rs_category st) attempt e), [])
          | Suc m \<Rightarrow>
              let d = calculateJitteredDelay attempt (rs_initialDelayMs st) (rs_maxDelayMs st) (rnd attempt);
                  (s', r, ds) = retry_loop st tx pause rnd (attempt + 1) m (pause attempt d s)
              in (s', r, d # ds))"

declare retry_loop.simps [simp del]

definition withTransactionRetry ::
  "environment \<Rightarrow> retry_options \<Rightarrow> ('s, 'a) transaction \<Rightarrow> (int \<Rightarrow> int \<Rightarrow> 's \<Rightarrow> 's) \<Rightarrow> (int \<Rightarrow> rat) \<Rightarrow> 's
     \<Rightarrow> 's \<times> (retry_error + 'a) \<times> int list" where
  "withTransactionRetry env opts tx pause rnd s =
     (let st = retry_settings_of env opts
      in if \<not> rs_enabled st
         then (case tx s of Inr (s', v) \<Rightarrow> (s', Inr v, []) | Inl e \<Rightarrow> (s, Inl (Rethrown e), []))
         else retry_loop st tx pause rnd 1 (nat (rs_maxRetries st)) s)"

section \<open>How it ends\<close>

text \<open>The states the attempts start in when every earlier attempt failed and was retried.\<close>

fun attempt_state ::
  "retry_settings \<Rightarrow> (int \<Rightarrow> int \<Rightarrow> 's \<Rightarrow> 's) \<Rightarrow> (int \<Rightarrow> rat) \<Rightarrow> nat \<Rightarrow> 's \<Rightarrow> 's" where
  "attempt_state st pause rnd 0 s = s"
| "attempt_state st pause rnd (Suc n) s =
     pause (int n + 1) (calculateJitteredDelay (int n + 1) (rs_initialDelayMs st) (rs_maxDelayMs st) (rnd (int n + 1)))
       (attempt_state st pause rnd n s)"

definition fails_retryably :: "('s, 'a) transaction \<Rightarrow> 's \<Rightarrow> bool" where
  "fails_retryably tx s \<longleftrightarrow> (\<exists>e. tx s = Inl e \<and> isRetryableDbError e)"

text \<open>The answer of the first attempt that is not retried.\<close>

definition attempt_answer :: "('s, 'a) transaction \<Rightarrow> 's \<Rightarrow> 's \<times> (retry_error + 'a)" where
  "attempt_answer tx s = (case tx s of Inr (s', v) \<Rightarrow> (s', Inr v) | Inl e \<Rightarrow> (s, Inl (Rethrown e)))"

lemma loop_result:
  assumes "s = attempt_state st pause rnd k s0"
    "retry_loop st tx pause rnd (int k + 1) left s = (s', r, ds)"
  shows "length ds \<le> left \<and>
    (\<forall>j < length ds. fails_retryably tx (attempt_state st pause rnd (k + j) s0)) \<and>
    (if fails_retryably tx (attempt_state st pause rnd (k + length ds) s0)
     then length ds = left \<and> s' = attempt_state st pause rnd (k + left) s0 \<and>
       (\<exists>e. tx s' = Inl e \<and> r = Inl (RetryExhausted (rs_category st) (int k + int left + 1) e))
     else (s', r) = attempt_answer tx (attempt_state st pause rnd (k + length ds) s0))"
  using assms
proof (induction left arbitrary: k s s' r ds)
  case 0
  then show ?case
    by (auto simp: retry_loop.simps [of _ _ _ _ _ 0] fails_retryably_def attempt_answer_def
        split: sum.splits if_splits prod.splits)
next
  case (Suc left)
  show ?case
  proof (cases "fails_retryably tx s")
    case False
    then show ?thesis using Suc.prems
      by (auto simp: retry_loop.simps [of _ _ _ _ _ "Suc left"] fails_retryably_def attempt_answer_def
          split: sum.splits if_splits prod.splits)
  next
    case True
    then obtain e where e: "tx s = Inl e" "isRetryableDbError e" by (auto simp: fails_retryably_def)
    let ?d = "calculateJitteredDelay (int k + 1) (rs_initialDelayMs st) (rs_maxDelayMs st) (rnd (int k + 1))"
    obtain s1 r1 ds1 where rec: "retry_loop st tx pause rnd (int (Suc k) + 1) left (pause (int k + 1) ?d s) = (s1, r1, ds1)"
      by (metis prod_cases3)
    then have out: "s' = s1" "r = r1" "ds = ?d # ds1"
      using Suc.prems(2) e
      by (simp_all add: retry_loop.simps [of _ _ _ _ _ "Suc left"] add.commute add.left_commute)
    have "pause (int k + 1) ?d s = attempt_state st pause rnd (Suc k) s0"
      using Suc.prems(1) by simp
    from Suc.IH [OF this rec] show ?thesis
      using True Suc.prems(1) by (auto simp: out less_Suc_eq_0_disj)
  qed
qed

lemma jitter_range:
  assumes "0 \<le> initialMs" "0 \<le> maxMs" "0 \<le> q" "q < 1"
  shows "0 \<le> calculateJitteredDelay attempt initialMs maxMs q"
    "calculateJitteredDelay attempt initialMs maxMs q \<le> maxMs"
proof -
  let ?c = "min maxMs (initialMs * 2 ^ nat (min attempt 30 - 1))"
  have c: "0 \<le> ?c" "?c \<le> maxMs" using assms(1,2) by simp_all
  have "0 \<le> q * of_int ?c" using assms(3) c(1) by simp
  then show "0 \<le> calculateJitteredDelay attempt initialMs maxMs q"
    by (simp add: calculateJitteredDelay_def Let_def)
  have "q * of_int ?c \<le> 1 * of_int ?c" using assms(4) c(1) by (intro mult_right_mono) auto
  then have "\<lfloor>q * of_int ?c\<rfloor> \<le> ?c" by linarith
  then show "calculateJitteredDelay attempt initialMs maxMs q \<le> maxMs"
    using c(2) by (simp add: calculateJitteredDelay_def Let_def)
qed

lemma loop_delays:
  assumes "\<And>n. 0 \<le> rnd n \<and> rnd n < 1" "0 \<le> rs_initialDelayMs st" "0 \<le> rs_maxDelayMs st"
    "retry_loop st tx pause rnd attempt left s = (s', r, ds)" "d \<in> set ds"
  shows "0 \<le> d \<and> d \<le> rs_maxDelayMs st"
  using assms(4,5)
proof (induction left arbitrary: attempt s s' r ds)
  case 0
  then show ?case by (auto simp: retry_loop.simps [of _ _ _ _ _ 0] split: sum.splits if_splits)
next
  case (Suc left)
  note range = jitter_range [OF assms(2,3) conjunct1 [OF assms(1)] conjunct2 [OF assms(1)]]
  show ?case using Suc range
    by (auto simp: retry_loop.simps [of _ _ _ _ _ "Suc left"] Let_def split: sum.splits if_splits prod.splits)
qed

text \<open>C27.
  Errors: an enabled retry runs the transaction at most maxRetries + 1 times.  Every run before the
  last one failed with a retryable error; the last one committed and its value is returned, or it
  failed with an error that is not retryable and that error is thrown, or it was the last one
  allowed, failed retryably, and the exhaustion error carries the category, the number of runs and
  that failure.  Nothing but the last run changes the database, and delays stay in range.\<close>

theorem retry_ends_correctly:
  assumes "withTransactionRetry env opts tx pause rnd s0 = (s', r, ds)"
    "st = retry_settings_of env opts" "rs_enabled st" "start = attempt_state st pause rnd (length ds) s0"
  shows "(length ds \<le> nat (rs_maxRetries st)) \<and>
    (\<forall>n < length ds. fails_retryably tx (attempt_state st pause rnd n s0)) \<and>
    (r = Inr v \<longrightarrow> tx start = Inr (s', v)) \<and>
    (r = Inl (Rethrown e) \<longrightarrow> (tx start = Inl e \<and> \<not> isRetryableDbError e \<and> s' = start)) \<and>
    (r = Inl (RetryExhausted c n e) \<longrightarrow> (tx start = Inl e \<and> isRetryableDbError e \<and> s' = start \<and>
       c = rs_category st \<and> n = max 0 (rs_maxRetries st) + 1 \<and> length ds = nat (rs_maxRetries st))) \<and>
    ((\<forall>n. 0 \<le> rnd n \<and> rnd n < 1) \<longrightarrow> 0 \<le> rs_initialDelayMs st \<longrightarrow> 0 \<le> rs_maxDelayMs st \<longrightarrow> d \<in> set ds \<longrightarrow>
       (0 \<le> d \<and> d \<le> rs_maxDelayMs st))"
proof -
  have run: "retry_loop st tx pause rnd 1 (nat (rs_maxRetries st)) s0 = (s', r, ds)"
    using assms(1-3) by (simp add: withTransactionRetry_def Let_def)
  have "retry_loop st tx pause rnd (int 0 + 1) (nat (rs_maxRetries st)) s0 = (s', r, ds)"
    using run by simp
  from loop_result [OF _ this, of s0]
  have ends: "length ds \<le> nat (rs_maxRetries st)"
    "\<forall>n < length ds. fails_retryably tx (attempt_state st pause rnd n s0)"
    "if fails_retryably tx start
     then length ds = nat (rs_maxRetries st) \<and> s' = start \<and>
       (\<exists>e. tx s' = Inl e \<and> r = Inl (RetryExhausted (rs_category st) (int (nat (rs_maxRetries st)) + 1) e))
     else (s', r) = attempt_answer tx start"
    unfolding assms(4) by (auto split: if_splits)
  have c1: "length ds \<le> nat (rs_maxRetries st)" "\<forall>n < length ds. fails_retryably tx (attempt_state st pause rnd n s0)"
    using ends by auto
  have c2: "r = Inr v \<Longrightarrow> tx start = Inr (s', v)"
    using ends by (auto simp: attempt_answer_def split: if_splits sum.splits)
  have c3: "r = Inl (Rethrown e) \<Longrightarrow> tx start = Inl e \<and> \<not> isRetryableDbError e \<and> s' = start"
    using ends by (auto simp: attempt_answer_def fails_retryably_def split: if_splits sum.splits)
  have c4: "r = Inl (RetryExhausted c n e) \<Longrightarrow> tx start = Inl e \<and> isRetryableDbError e \<and> s' = start \<and>
       c = rs_category st \<and> n = max 0 (rs_maxRetries st) + 1 \<and> length ds = nat (rs_maxRetries st)"
    using ends assms(4) by (auto simp: attempt_answer_def fails_retryably_def split: if_splits sum.splits)
  have c5: "(\<And>n. 0 \<le> rnd n \<and> rnd n < 1) \<Longrightarrow> 0 \<le> rs_initialDelayMs st \<Longrightarrow> 0 \<le> rs_maxDelayMs st \<Longrightarrow>
       d \<in> set ds \<Longrightarrow> 0 \<le> d \<and> d \<le> rs_maxDelayMs st"
    using loop_delays [OF _ _ _ run] by blast
  show ?thesis using c1 c2 c3 c4 c5 by blast
qed

section \<open>A concrete run\<close>

text \<open>A counter whose increment meets a serialization failure until it has reached two.\<close>

definition serialization_failure :: db_error where
  "serialization_failure = ErrorValue \<lparr>eo_code = Some ''40001'', eo_sqlState = None, eo_causeCode = None, eo_message = None\<rparr>"

definition contended :: "(nat, string) transaction" where
  "contended n = (if n < 2 then Inl serialization_failure else Inr (n + 10, ''stored''))"

definition plain_options :: retry_options where
  "plain_options = \<lparr>ro_category = Some MONEY, ro_maxRetries = None, ro_initialDelayMs = None, ro_maxDelayMs = None, ro_enabled = None\<rparr>"

definition contended_run :: "nat \<times> (retry_error + string) \<times> int list" where
  "contended_run = withTransactionRetry (\<lambda>_. None) plain_options contended (\<lambda>_ _ n. n + 1) (\<lambda>_. 1 / 2) 0"

theorem retry_ends_correctly_witness:
  "contended_run = (12, Inr ''stored'', [25, 50]) \<and>
   contended (attempt_state (retry_settings_of (\<lambda>_. None) plain_options) (\<lambda>_ _ n. n + 1) (\<lambda>_. 1 / 2) 2 0)
     = Inr (12, ''stored'')"
proof -
  have run: "withTransactionRetry (\<lambda>_. None) plain_options contended (\<lambda>_ _ n. n + 1) (\<lambda>_. 1 / 2) 0
      = (12, Inr ''stored'', [25, 50])"
    by code_simp
  have "rs_enabled (retry_settings_of (\<lambda>_. None) plain_options)"
    by (simp add: retry_settings_of_def plain_options_def getEnvBoolean_def)
  from retry_ends_correctly [where v = "''stored''", OF run refl this refl, THEN conjunct2, THEN conjunct2, THEN conjunct1] show ?thesis
    by (simp only: contended_run_def run) (simp add: numeral_2_eq_2)
qed

end
