(* ===== verification/Webhook_Signing.thy ===== *)
theory Webhook_Signing
  imports Js_Text
begin

text \<open>
  Webhook signatures, web/src/lib/webhooks/signing.ts: signPayload and verifySignature.

  Parameters: \<open>hmac secret data\<close> is the hexadecimal HMAC-SHA256 of Node's crypto module;
  \<open>runtime\<close> is how the JavaScript runtime reads and prints the numbers that are not plain
  decimal integers.  Encryption at rest is a parameter of Webhook_Rotation.
\<close>

section \<open>Hexadecimal buffers\<close>

definition hex_value :: "char \<Rightarrow> nat option" where
  "hex_value c =
     (let n = of_char c :: nat
      in if 48 \<le> n \<and> n \<le> 57 then Some (n - 48)
         else if 97 \<le> n \<and> n \<le> 102 then Some (n - 87)
         else if 65 \<le> n \<and> n \<le> 70 then Some (n - 55) else None)"

text \<open>\<open>Buffer.from(s, "hex")\<close> decodes up to the first pair that is not hexadecimal.\<close>

fun from_hex :: "string \<Rightarrow> nat list" where
  "from_hex (a # b # s) =
     (case (hex_value a, hex_value b) of (Some x, Some y) \<Rightarrow> (16 * x + y) # from_hex s | _ \<Rightarrow> [])"
| "from_hex _ = []"

section \<open>Signing\<close>

definition MAX_TIMESTAMP_AGE_SEC :: int where "MAX_TIMESTAMP_AGE_SEC = 300"
definition CURRENT_SIGNATURE_VERSION :: nat where "CURRENT_SIGNATURE_VERSION = 1"
definition SUPPORTED_SIGNATURE_VERSIONS :: "nat list" where "SUPPORTED_SIGNATURE_VERSIONS = [1]"

record js_runtime =
  rt_read :: "string \<Rightarrow> js_number"
  rt_print :: "rat \<Rightarrow> string"

definition number_text :: "js_runtime \<Rightarrow> rat \<Rightarrow> string" where
  "number_text rt q = (if of_int \<lfloor>q\<rfloor> = q then int_string \<lfloor>q\<rfloor> else rt_print rt q)"

definition asSecretList :: "string list \<Rightarrow> string list" where
  "asSecretList secrets = filter (\<lambda>s. length s > 0) secrets"

definition data_to_sign :: "js_runtime \<Rightarrow> nat \<Rightarrow> rat \<Rightarrow> string \<Rightarrow> string" where
  "data_to_sign rt version timestamp payload =
     digits_of version @ ''.'' @ number_text rt timestamp @ ''.'' @ payload"

definition sig_part :: "(string \<Rightarrow> string \<Rightarrow> string) \<Rightarrow> nat \<Rightarrow> string \<Rightarrow> string \<Rightarrow> string" where
  "sig_part hmac version dat s = ''v'' @ digits_of version @ ''='' @ hmac s dat"

definition epoch_seconds :: "instant \<Rightarrow> int" where
  "epoch_seconds now = now div 1000"

datatype sign_error = NoSigningSecret

definition signPayload ::
  "(string \<Rightarrow> string \<Rightarrow> string) \<Rightarrow> js_runtime \<Rightarrow> instant \<Rightarrow> string \<Rightarrow> string list \<Rightarrow> nat \<Rightarrow> sign_error + string" where
  "signPayload hmac rt now payload secret version =
     (let secrets = asSecretList secret
      in if secrets = [] then Inl NoSigningSecret
         else let timestamp = epoch_seconds now;
                  dat = data_to_sign rt version (of_int timestamp) payload
              in Inr (js_join '','' (map (sig_part hmac version dat) secrets) @ '',t='' @ int_string timestamp))"

lemma signPayload_Inr:
  "asSecretList secrets \<noteq> [] \<Longrightarrow> \<exists>h. signPayload hmac rt now payload secrets version = Inr h"
  by (simp add: signPayload_def Let_def)

section \<open>Verifying\<close>

definition line_end :: "char \<Rightarrow> bool" where
  "line_end c \<longleftrightarrow> c = CHR 0x0A \<or> c = CHR 0x0D"

text \<open>\<open>/^v(\d+)=(.+)$/\<close>: the digits and the rest.\<close>

definition match_signature :: "string \<Rightarrow> (string \<times> string) option" where
  "match_signature p =
     (case p of
        [] \<Rightarrow> None
      | c # cs \<Rightarrow>
          let ds = takeWhile digit cs; rest = dropWhile digit cs
          in if c = CHR ''v'' \<and> ds \<noteq> [] \<and> starts_with ''='' rest \<and> tl rest \<noteq> [] \<and>
                \<not> list_ex line_end (tl rest)
             then Some (ds, tl rest) else None)"

definition hmac_matches ::
  "(string \<Rightarrow> string \<Rightarrow> string) \<Rightarrow> js_runtime \<Rightarrow> string \<Rightarrow> rat \<Rightarrow> string list \<Rightarrow> string \<Rightarrow> bool" where
  "hmac_matches hmac rt payload timestamp secrets p =
     (case match_signature p of
        None \<Rightarrow> False
      | Some (ds, providedHmac) \<Rightarrow>
          let version = digits_value 0 ds
          in version \<in> set SUPPORTED_SIGNATURE_VERSIONS \<and>
             (let provided = from_hex providedHmac
              in provided \<noteq> [] \<and>
                 list_ex (\<lambda>s. from_hex (hmac s (data_to_sign rt version timestamp payload)) = provided) secrets))"

definition verifySignature ::
  "(string \<Rightarrow> string \<Rightarrow> string) \<Rightarrow> js_runtime \<Rightarrow> instant \<Rightarrow> string \<Rightarrow> string option \<Rightarrow> string list \<Rightarrow> bool" where
  "verifySignature hmac rt clock payload signatureHeader secret =
     (if \<not> truthy_str signatureHeader then False
      else let secrets = asSecretList secret
           in secrets \<noteq> [] \<and>
              (let parts = map js_trim (js_split (CHR '','') (the signatureHeader))
               in case sel_one (starts_with ''t='') parts of
                    None \<Rightarrow> False
                  | Some tPart \<Rightarrow>
                      (case js_Number (rt_read rt) (drop 2 tPart) of
                         NotFinite \<Rightarrow> False
                       | Finite timestamp \<Rightarrow>
                           \<bar>of_int (epoch_seconds clock) - timestamp\<bar> \<le> of_int MAX_TIMESTAMP_AGE_SEC \<and>
                           list_ex (hmac_matches hmac rt payload timestamp secrets) parts)))"

section \<open>A signature verifies\<close>

text \<open>The documented shape of the digest: 64 hexadecimal digits.\<close>

definition hex_digest :: "string \<Rightarrow> bool" where
  "hex_digest d \<longleftrightarrow> length d = 64 \<and> list_all (\<lambda>c. hex_value c \<noteq> None) d"

definition hex_hmac :: "(string \<Rightarrow> string \<Rightarrow> string) \<Rightarrow> bool" where
  "hex_hmac hmac \<longleftrightarrow> (\<forall>s d. hex_digest (hmac s d))"

lemma hex_char:
  assumes "hex_value c \<noteq> None"
  shows "\<not> js_space c" "\<not> line_end c" "c \<noteq> CHR '',''"
  using assms by (auto simp: hex_value_def js_space_def line_end_def Let_def split: if_splits)

lemma from_hex_nonempty: "hex_digest d \<Longrightarrow> from_hex d \<noteq> []"
  by (cases d rule: from_hex.cases) (auto simp: hex_digest_def)

lemma trim_plain: "s \<noteq> [] \<Longrightarrow> \<forall>c \<in> set s. \<not> js_space c \<Longrightarrow> js_trim s = s"
  by (rule js_trim_id) (auto intro: hd_in_set last_in_set)

lemma plain_digits: "c \<in> set (digits_of n) \<Longrightarrow> \<not> js_space c \<and> c \<noteq> CHR '',''"
  using digits_of_digits [of n] digit_plain by blast

definition plain_char :: "char \<Rightarrow> bool" where
  "plain_char c \<longleftrightarrow> \<not> js_space c \<and> c \<noteq> CHR '',''"

lemma plain_literals: "plain_char (CHR ''v'')" "plain_char (CHR ''t'')" "plain_char (CHR ''='')"
  by (simp_all add: plain_char_def js_space_def)

lemma sig_part_plain:
  assumes "hex_digest (hmac s dat)"
  shows "\<forall>c \<in> set (sig_part hmac v dat s). plain_char c"
proof -
  have "\<forall>c \<in> set (hmac s dat). plain_char c"
    using assms hex_char by (auto simp: hex_digest_def list_all_iff plain_char_def)
  moreover have "\<forall>c \<in> set (digits_of v). plain_char c"
    using plain_digits by (auto simp: plain_char_def)
  ultimately show ?thesis using plain_literals by (auto simp: sig_part_def)
qed

lemma match_sig_part:
  assumes "hex_digest (hmac s dat)"
  shows "match_signature (sig_part hmac v dat s) = Some (digits_of v, hmac s dat)"
proof -
  have tail: "takeWhile digit (digits_of v @ CHR ''='' # hmac s dat) = digits_of v"
    "dropWhile digit (digits_of v @ CHR ''='' # hmac s dat) = CHR ''='' # hmac s dat"
    using digits_of_digits [of v] by (simp_all add: takeWhile_append2 dropWhile_append2 digit_def)
  have "hmac s dat \<noteq> []" "\<not> list_ex line_end (hmac s dat)"
    using assms hex_char(2) by (auto simp: hex_digest_def list_all_iff list_ex_iff)
  then show ?thesis by (simp add: match_signature_def sig_part_def tail starts_with_def)
qed

text \<open>The parts a verifier reads off a signed header.\<close>

lemma header_parts:
  assumes "secrets \<noteq> []" "\<And>s. hex_digest (hmac s dat)"
  shows "map js_trim (js_split (CHR '','') (js_join '','' (map (sig_part hmac v dat) secrets) @ '',t='' @ digits_of n))
    = map (sig_part hmac v dat) secrets @ [''t='' @ digits_of n]"
proof -
  let ?ps = "map (sig_part hmac v dat) secrets @ [''t='' @ digits_of n]"
  have join: "js_join '','' (map (sig_part hmac v dat) secrets) @ '',t='' @ digits_of n = js_join '','' ?ps"
    using assms(1) js_join_snoc [of "map (sig_part hmac v dat) secrets" "'',''" "''t='' @ digits_of n"] by simp
  have plain: "\<forall>p \<in> set ?ps. p \<noteq> [] \<and> (\<forall>c \<in> set p. plain_char c)"
  proof
    fix p assume "p \<in> set ?ps"
    then consider s where "p = sig_part hmac v dat s" | "p = ''t='' @ digits_of n" by auto
    then show "p \<noteq> [] \<and> (\<forall>c \<in> set p. plain_char c)"
    proof cases
      case (1 s)
      have "p \<noteq> []" by (simp add: 1 sig_part_def)
      with sig_part_plain [of hmac s dat v, OF assms(2)] show ?thesis by (simp only: 1 simp_thms)
    next
      case 2
      have "\<forall>c \<in> set (digits_of n). plain_char c"
        using plain_digits by (simp add: plain_char_def)
      then show ?thesis using plain_literals by (simp add: 2)
    qed
  qed
  have sep: "\<forall>p \<in> set ?ps. CHR '','' \<notin> set p"
    using plain unfolding plain_char_def by blast
  have trim: "js_trim p = p" if "p \<in> set ?ps" for p
    by (rule trim_plain) (use plain that in \<open>unfold plain_char_def, blast+\<close>)
  have "js_split (CHR '','') (js_join '','' ?ps) = ?ps"
    by (rule js_split_join) (rule snoc_eq_iff_butlast [THEN iffD1, THEN conjunct1] sep | simp)+
  then show ?thesis unfolding join using trim by (simp only: map_idI)
qed

lemma time_part:
  assumes "\<And>s. hex_digest (hmac s dat)"
  shows "sel_one (starts_with ''t='') (map (sig_part hmac v dat) secrets @ [''t='' @ digits_of n]) = Some (''t='' @ digits_of n)"
proof -
  have "\<not> starts_with ''t='' (sig_part hmac v dat s)" for s by (simp add: starts_with_def sig_part_def)
  then have "sel_one (starts_with ''t='') (map (sig_part hmac v dat) secrets) = None"
    by (auto simp: find_None_iff)
  then show ?thesis by (simp add: find_append starts_with_def)
qed

text \<open>What a verifier concludes from a header signPayload built at a non-negative time.\<close>

lemma verify_signed:
  assumes digests: "hex_hmac hmac" and "0 \<le> now"
    and signed: "signPayload hmac rt now payload secrets version = Inr header"
  shows "verifySignature hmac rt clock received (Some header) ours \<longleftrightarrow>
    asSecretList ours \<noteq> [] \<and> \<bar>epoch_seconds clock - epoch_seconds now\<bar> \<le> 300 \<and> version = 1 \<and>
    (\<exists>s \<in> set (asSecretList secrets). \<exists>s' \<in> set (asSecretList ours).
       from_hex (hmac s' (data_to_sign rt 1 (of_int (epoch_seconds now)) received))
         = from_hex (hmac s (data_to_sign rt 1 (of_int (epoch_seconds now)) payload)))"
proof -
  have digest: "hex_digest (hmac s d)" for s d using digests by (simp add: hex_hmac_def)
  let ?S = "asSecretList secrets" and ?dat = "data_to_sign rt version (of_int (epoch_seconds now)) payload"
  let ?dat' = "data_to_sign rt version (of_int (epoch_seconds now)) received"
  obtain n where n: "epoch_seconds now = int n"
    using \<open>0 \<le> now\<close> nonneg_int_cases [of "epoch_seconds now"] by (simp add: epoch_seconds_def pos_imp_zdiv_nonneg_iff) metis
  have S: "?S \<noteq> []" and h: "header = js_join '','' (map (sig_part hmac version ?dat) ?S) @ '',t='' @ digits_of n"
    using signed n by (auto simp: signPayload_def Let_def split: if_splits)
  note parts = header_parts [of ?S hmac ?dat version n, OF S digest, folded h]
  note time_sel = time_part [of hmac ?dat version ?S n, OF digest]
  have t_no_match: "match_signature (''t='' @ digits_of n) = None" by (simp add: match_signature_def)
  have time: "\<bar>of_int (epoch_seconds clock) - of_nat n :: rat\<bar> \<le> 300 \<longleftrightarrow>
      \<bar>epoch_seconds clock - int n\<bar> \<le> 300"
  proof -
    have "\<bar>of_int (epoch_seconds clock) - of_nat n :: rat\<bar> = of_int \<bar>epoch_seconds clock - int n\<bar>" by simp
    then show ?thesis by (metis of_int_le_iff of_int_numeral)
  qed
  have one: "hmac_matches hmac rt received (of_nat n) ours' (sig_part hmac version ?dat s) \<longleftrightarrow>
      version = 1 \<and> (\<exists>s' \<in> set ours'. from_hex (hmac s' ?dat') = from_hex (hmac s ?dat))" for ours' s
    using from_hex_nonempty [OF digest] n
    by (auto simp: hmac_matches_def match_sig_part [of hmac, OF digest] digits_value_digits_of
        SUPPORTED_SIGNATURE_VERSIONS_def list_ex_iff Let_def)
  have "header \<noteq> []" using h by simp
  then have "verifySignature hmac rt clock received (Some header) ours \<longleftrightarrow>
      asSecretList ours \<noteq> [] \<and> \<bar>of_int (epoch_seconds clock) - of_nat n :: rat\<bar> \<le> 300 \<and>
      list_ex (hmac_matches hmac rt received (of_nat n) (asSecretList ours))
        (map (sig_part hmac version ?dat) ?S @ [''t='' @ digits_of n])"
    unfolding verifySignature_def Let_def option.sel parts time_sel
    by (simp add: js_Number_digits MAX_TIMESTAMP_AGE_SEC_def)
  also have "\<dots> \<longleftrightarrow> asSecretList ours \<noteq> [] \<and> \<bar>epoch_seconds clock - int n\<bar> \<le> 300 \<and> version = 1 \<and>
      (\<exists>s \<in> set ?S. \<exists>s' \<in> set (asSecretList ours). from_hex (hmac s' ?dat') = from_hex (hmac s ?dat))"
    unfolding time list_ex_append
    by (auto simp: list_ex_iff one t_no_match [simplified] hmac_matches_def [of _ _ _ _ _ "_ # _"])
  finally show ?thesis using n by auto
qed

lemma data_to_sign_inj:
  "data_to_sign rt v t p = data_to_sign rt v t p' \<longleftrightarrow> p = p'"
  by (simp add: data_to_sign_def)

text \<open>C25.
  Round trip: a header signPayload builds is accepted by verifySignature for the same payload with
  any list that shares a secret with the signing list, as long as the clocks are within 300 seconds,
  and with nothing else: an accepted payload is the signed one under a shared secret unless the
  digests of two different inputs coincide, and a header more than 300 seconds old is refused.\<close>

theorem signature_roundtrip:
  assumes "hex_hmac hmac" "0 \<le> now" "signPayload hmac rt now payload secrets 1 = Inr header"
    "fresh \<longleftrightarrow> \<bar>epoch_seconds clock - epoch_seconds now\<bar> \<le> 300"
  shows "(fresh \<longrightarrow> s \<in> set secrets \<longrightarrow> s \<in> set ours \<longrightarrow> s \<noteq> [] \<longrightarrow> verifySignature hmac rt clock payload (Some header) ours) \<and>
    (\<not> fresh \<longrightarrow> \<not> verifySignature hmac rt clock received (Some header) ours) \<and>
    ((\<forall>s s'. s \<in> set secrets \<longrightarrow> s' \<in> set ours \<longrightarrow>
        from_hex (hmac s' (data_to_sign rt 1 (of_int (epoch_seconds now)) received))
          = from_hex (hmac s (data_to_sign rt 1 (of_int (epoch_seconds now)) payload)) \<longrightarrow>
        (s' = s \<and> data_to_sign rt 1 (of_int (epoch_seconds now)) received
          = data_to_sign rt 1 (of_int (epoch_seconds now)) payload)) \<longrightarrow>
      verifySignature hmac rt clock received (Some header) ours \<longrightarrow>
      (received = payload \<and> (\<exists>s. s \<in> set secrets \<and> s \<in> set ours)))"
  using verify_signed [OF assms(1-3)] assms(4)
  by (auto simp: asSecretList_def data_to_sign_inj filter_empty_conv) blast

section \<open>A concrete header\<close>

definition toy_hmac :: "string \<Rightarrow> string \<Rightarrow> string" where
  "toy_hmac s d = replicate 62 (CHR ''0'') @ map (\<lambda>n. if n mod 2 = 0 then CHR ''a'' else CHR ''5'') [length s, length d]"

lemma toy_hmac_digest: "hex_hmac toy_hmac"
  by (auto simp: hex_hmac_def hex_digest_def toy_hmac_def hex_value_def list_all_iff)

definition plain_runtime :: js_runtime where
  "plain_runtime = \<lparr>rt_read = (\<lambda>s. NotFinite), rt_print = (\<lambda>q. [])\<rparr>"

theorem signature_roundtrip_witness:
  "\<exists>header. signPayload toy_hmac plain_runtime 1700000000000 ''{}'' [''new'', ''previous''] 1 = Inr header \<and>
     verifySignature toy_hmac plain_runtime 1700000200000 ''{}'' (Some header) [''previous''] \<and>
     \<not> verifySignature toy_hmac plain_runtime 1700000400000 ''{}'' (Some header) [''previous'']"
proof -
  obtain header where h: "signPayload toy_hmac plain_runtime 1700000000000 ''{}'' [''new'', ''previous''] 1 = Inr header"
    by (simp add: signPayload_def asSecretList_def Let_def)
  show ?thesis
    using signature_roundtrip [OF toy_hmac_digest _ h refl, of 1700000200000 "''previous''" "[''previous'']", THEN conjunct1]
      signature_roundtrip [OF toy_hmac_digest _ h refl, of 1700000400000 _ "[''previous'']" "''{}''", THEN conjunct2, THEN conjunct1] h
    by (simp add: epoch_seconds_def)
qed

end
