(* ===== verification/Webhook_Config.thy ===== *)
theory Webhook_Config
  imports Js_Text
begin

text \<open>
  Settings of the webhook system, web/src/lib/webhooks/config.ts: the validating environment
  parser and the settings the module computes when it is loaded.  A setting that does not parse
  throws, which stops the load.
\<close>

definition MAX_SAFE_INTEGER :: int where "MAX_SAFE_INTEGER = 9007199254740991"

record int_env_options =
  ie_min :: "int option"
  ie_max :: "int option"
  ie_fallback :: bool  \<comment> \<open>\<open>onError: "fallback"\<close>\<close>

datatype env_error = InvalidSetting string string

text \<open>\<open>/^\+?\d+$/\<close> and the number it denotes.\<close>

definition plus_digits :: "string \<Rightarrow> int option" where
  "plus_digits s =
     (let ds = (case s of [] \<Rightarrow> [] | c # cs \<Rightarrow> if c = CHR ''+'' then cs else s)
      in if ds \<noteq> [] \<and> list_all digit ds then Some (int (digits_value 0 ds)) else None)"

definition parsePositiveIntEnv :: "environment \<Rightarrow> string \<Rightarrow> int \<Rightarrow> int_env_options \<Rightarrow> env_error + int" where
  "parsePositiveIntEnv env name defaultValue opts =
     (case env name of
        None \<Rightarrow> Inr defaultValue
      | Some raw \<Rightarrow>
          if raw = [] then Inr defaultValue
          else
            let lo = coalesce (ie_min opts) 1;
                hi = coalesce (ie_max opts) MAX_SAFE_INTEGER;
                invalid = (if ie_fallback opts then Inr defaultValue else Inl (InvalidSetting name raw))
            in case plus_digits (js_trim raw) of
                 None \<Rightarrow> invalid
               | Some parsed \<Rightarrow>
                   if \<bar>parsed\<bar> \<le> MAX_SAFE_INTEGER \<and> parsed \<ge> lo \<and> parsed \<le> hi then Inr parsed else invalid)"

definition isWebhookDeliveryEnabled :: "environment \<Rightarrow> bool" where
  "isWebhookDeliveryEnabled env \<longleftrightarrow>
     env ''WEBHOOK_DELIVERY_ENABLED'' = Some ''true'' \<or> env ''WEBHOOK_DELIVERY_ENABLED'' = Some ''1''"

definition MIN_SECRET_ROTATION_GRACE_SECONDS :: int where "MIN_SECRET_ROTATION_GRACE_SECONDS = 300"
definition MAX_SECRET_ROTATION_GRACE_SECONDS :: int where "MAX_SECRET_ROTATION_GRACE_SECONDS = 2592000"

record webhook_settings =
  DEFAULT_MAX_ATTEMPTS :: int
  BACKOFF_BASE_MS :: int
  BACKOFF_MAX_MS :: int
  DELIVERY_TIMEOUT_MS :: int
  MAX_PAYLOAD_BYTES :: int
  LEASE_TTL_SECONDS :: int
  LEASE_HEARTBEAT_SECONDS :: int
  DEFAULT_SECRET_ROTATION_GRACE_SECONDS :: int

definition setting :: "environment \<Rightarrow> string \<Rightarrow> int \<Rightarrow> int \<Rightarrow> int \<Rightarrow> env_error + int" where
  "setting env name d lo hi =
     parsePositiveIntEnv env name d \<lparr>ie_min = Some lo, ie_max = Some hi, ie_fallback = False\<rparr>"

fun and_setting :: "env_error + 'a \<Rightarrow> ('a \<Rightarrow> env_error + 'b) \<Rightarrow> env_error + 'b" where
  "and_setting (Inl e) f = Inl e"
| "and_setting (Inr v) f = f v"

definition webhook_settings_of :: "environment \<Rightarrow> env_error + webhook_settings" where
  "webhook_settings_of env =
     and_setting (setting env ''WEBHOOK_DEFAULT_MAX_ATTEMPTS'' 5 1 100) (\<lambda>attempts.
     and_setting (setting env ''WEBHOOK_BACKOFF_BASE_MS'' 1000 1 300000) (\<lambda>base.
     and_setting (setting env ''WEBHOOK_BACKOFF_MAX_MS'' 60000 1 86400000) (\<lambda>cap.
     and_setting (setting env ''WEBHOOK_DELIVERY_TIMEOUT_MS'' 10000 1 300000) (\<lambda>timeout.
     and_setting (setting env ''WEBHOOK_MAX_PAYLOAD_BYTES'' 64000 1 10485760) (\<lambda>payload.
     and_setting (setting env ''WEBHOOK_LEASE_TTL_SECONDS'' 300 1 86400) (\<lambda>ttl.
     and_setting (setting env ''WEBHOOK_HEARTBEAT_EXTEND_SECONDS'' 300 1 86400) (\<lambda>heartbeat.
     and_setting (setting env ''WEBHOOK_SECRET_ROTATION_GRACE_SECONDS'' 86400
         MIN_SECRET_ROTATION_GRACE_SECONDS MAX_SECRET_ROTATION_GRACE_SECONDS) (\<lambda>grace.
       Inr \<lparr>DEFAULT_MAX_ATTEMPTS = attempts, BACKOFF_BASE_MS = base, BACKOFF_MAX_MS = cap,
            DELIVERY_TIMEOUT_MS = timeout, MAX_PAYLOAD_BYTES = payload, LEASE_TTL_SECONDS = ttl,
            LEASE_HEARTBEAT_SECONDS = heartbeat, DEFAULT_SECRET_ROTATION_GRACE_SECONDS = grace\<rparr>))))))))"

section \<open>Loaded settings are in range\<close>

definition settings_ok :: "webhook_settings \<Rightarrow> bool" where
  "settings_ok c \<longleftrightarrow>
     1 \<le> DEFAULT_MAX_ATTEMPTS c \<and> DEFAULT_MAX_ATTEMPTS c \<le> 100 \<and>
     1 \<le> BACKOFF_BASE_MS c \<and> BACKOFF_BASE_MS c \<le> 300000 \<and>
     1 \<le> BACKOFF_MAX_MS c \<and> BACKOFF_MAX_MS c \<le> 86400000 \<and>
     1 \<le> DELIVERY_TIMEOUT_MS c \<and> DELIVERY_TIMEOUT_MS c \<le> 300000 \<and>
     1 \<le> MAX_PAYLOAD_BYTES c \<and> MAX_PAYLOAD_BYTES c \<le> 10485760 \<and>
     1 \<le> LEASE_TTL_SECONDS c \<and> LEASE_TTL_SECONDS c \<le> 86400 \<and>
     1 \<le> LEASE_HEARTBEAT_SECONDS c \<and> LEASE_HEARTBEAT_SECONDS c \<le> 86400 \<and>
     MIN_SECRET_ROTATION_GRACE_SECONDS \<le> DEFAULT_SECRET_ROTATION_GRACE_SECONDS c \<and>
     DEFAULT_SECRET_ROTATION_GRACE_SECONDS c \<le> MAX_SECRET_ROTATION_GRACE_SECONDS"

lemma setting_range:
  assumes "setting env name d lo hi = Inr v" "lo \<le> d" "d \<le> hi"
  shows "lo \<le> v \<and> v \<le> hi"
  using assms by (auto simp: setting_def parsePositiveIntEnv_def Let_def split: option.splits if_splits)

lemma and_setting_Inr [elim!]:
  assumes "and_setting x f = Inr v"
  obtains y where "x = Inr y" "f y = Inr v"
  using assms by (cases x) auto

lemma webhook_settings_range:
  assumes "webhook_settings_of env = Inr c"
  shows "settings_ok c"
proof -
  from assms obtain a b cap d p t h g where s: "setting env ''WEBHOOK_DEFAULT_MAX_ATTEMPTS'' 5 1 100 = Inr a"
    "setting env ''WEBHOOK_BACKOFF_BASE_MS'' 1000 1 300000 = Inr b"
    "setting env ''WEBHOOK_BACKOFF_MAX_MS'' 60000 1 86400000 = Inr cap"
    "setting env ''WEBHOOK_DELIVERY_TIMEOUT_MS'' 10000 1 300000 = Inr d"
    "setting env ''WEBHOOK_MAX_PAYLOAD_BYTES'' 64000 1 10485760 = Inr p"
    "setting env ''WEBHOOK_LEASE_TTL_SECONDS'' 300 1 86400 = Inr t"
    "setting env ''WEBHOOK_HEARTBEAT_EXTEND_SECONDS'' 300 1 86400 = Inr h"
    "setting env ''WEBHOOK_SECRET_ROTATION_GRACE_SECONDS'' 86400
       MIN_SECRET_ROTATION_GRACE_SECONDS MAX_SECRET_ROTATION_GRACE_SECONDS = Inr g"
    and c: "c = \<lparr>DEFAULT_MAX_ATTEMPTS = a, BACKOFF_BASE_MS = b, BACKOFF_MAX_MS = cap, DELIVERY_TIMEOUT_MS = d,
      MAX_PAYLOAD_BYTES = p, LEASE_TTL_SECONDS = t, LEASE_HEARTBEAT_SECONDS = h,
      DEFAULT_SECRET_ROTATION_GRACE_SECONDS = g\<rparr>"
    unfolding webhook_settings_of_def by (elim and_setting_Inr) simp
  have "MIN_SECRET_ROTATION_GRACE_SECONDS \<le> 86400" "86400 \<le> MAX_SECRET_ROTATION_GRACE_SECONDS"
    by (simp_all add: MIN_SECRET_ROTATION_GRACE_SECONDS_def MAX_SECRET_ROTATION_GRACE_SECONDS_def)
  then show ?thesis
    using s(1-7) [THEN setting_range] setting_range [OF s(8)] by (simp add: c settings_ok_def)
qed

text \<open>The parser reads back every number in range it is given, whatever white space surrounds it.\<close>

lemma plus_digits_digits: "plus_digits (digits_of n) = Some (int n)"
proof -
  obtain c cs where d: "digits_of n = c # cs" by (cases "digits_of n") auto
  then have "digit c" "c \<noteq> CHR ''+''" using digits_of_digits [of n] digit_plain [of c] by simp_all
  then show ?thesis using d digits_of_digits [of n] digits_value_digits_of [of n]
    by (simp add: plus_digits_def list_all_iff)
qed

text \<open>Types: if the webhook module loads, every setting it computed from the environment is an integer
  of its documented range; a setting given as the decimal digits of a number in range is that
  number, and any other non-empty text that is not digits in range makes the load fail.\<close>

theorem webhook_settings_typed:
  assumes "webhook_settings_of env = loaded"
  shows "(loaded = Inr c \<longrightarrow> settings_ok c) \<and>
    (env ''WEBHOOK_BACKOFF_MAX_MS'' = Some (digits_of n) \<longrightarrow> loaded = Inr c \<longrightarrow> BACKOFF_MAX_MS c = int n) \<and>
    (env ''WEBHOOK_BACKOFF_MAX_MS'' = Some (digits_of n) \<longrightarrow> (\<not> (1 \<le> n \<and> n \<le> 86400000)) \<longrightarrow> (\<exists>e. loaded = Inl e)) \<and>
    (env ''WEBHOOK_BACKOFF_MAX_MS'' = Some raw \<longrightarrow> raw \<noteq> [] \<longrightarrow> plus_digits (js_trim raw) = None \<longrightarrow> (\<exists>e. loaded = Inl e))"
proof -
  have c1: "loaded = Inr c \<Longrightarrow> settings_ok c" using webhook_settings_range assms by blast
  have parsed: "setting env ''WEBHOOK_BACKOFF_MAX_MS'' 60000 1 86400000 =
      (if 1 \<le> n \<and> n \<le> 86400000 then Inr (int n) else Inl (InvalidSetting ''WEBHOOK_BACKOFF_MAX_MS'' (digits_of n)))"
    if "env ''WEBHOOK_BACKOFF_MAX_MS'' = Some (digits_of n)"
    using that by (auto simp: setting_def parsePositiveIntEnv_def plus_digits_digits MAX_SAFE_INTEGER_def Let_def)
  have c2: "env ''WEBHOOK_BACKOFF_MAX_MS'' = Some (digits_of n) \<Longrightarrow> loaded = Inr c \<Longrightarrow> BACKOFF_MAX_MS c = int n"
    using assms by (auto simp: webhook_settings_of_def parsed split: if_splits)
  have c3: "\<exists>e. loaded = Inl e" if "env ''WEBHOOK_BACKOFF_MAX_MS'' = Some (digits_of n)" "\<not> (1 \<le> n \<and> n \<le> 86400000)"
  proof (cases loaded)
    case (Inr c)
    then show ?thesis using assms that by (auto simp: webhook_settings_of_def parsed)
  qed simp
  have c4: "\<exists>e. loaded = Inl e" if "env ''WEBHOOK_BACKOFF_MAX_MS'' = Some raw" "raw \<noteq> []" "plus_digits (js_trim raw) = None"
  proof (cases loaded)
    case (Inr c)
    then show ?thesis using assms that
      by (auto simp: webhook_settings_of_def setting_def [of _ "''WEBHOOK_BACKOFF_MAX_MS''"] parsePositiveIntEnv_def)
  qed simp
  show ?thesis using c1 c2 c3 c4 by blast
qed

lemma setting_absent: "env name = None \<Longrightarrow> setting env name d lo hi = Inr d"
  by (simp add: setting_def parsePositiveIntEnv_def)

lemma setting_digits:
  assumes "env name = Some (digits_of n)" "lo \<le> int n" "int n \<le> hi" "hi \<le> MAX_SAFE_INTEGER"
  shows "setting env name d lo hi = Inr (int n)"
  using assms by (simp add: setting_def parsePositiveIntEnv_def plus_digits_digits Let_def)

definition slow_env :: environment where
  "slow_env = (\<lambda>n. if n = ''WEBHOOK_BACKOFF_MAX_MS'' then Some (digits_of 120000) else None)"

theorem webhook_settings_typed_witness:
  "\<exists>c. webhook_settings_of slow_env = Inr c \<and> settings_ok c \<and> BACKOFF_MAX_MS c = 120000"
proof -
  have cap: "slow_env ''WEBHOOK_BACKOFF_MAX_MS'' = Some (digits_of 120000)" by (simp add: slow_env_def)
  have "setting slow_env ''WEBHOOK_BACKOFF_MAX_MS'' 60000 1 86400000 = Inr (int 120000)"
    by (rule setting_digits) (simp_all add: cap MAX_SAFE_INTEGER_def)
  then obtain c where c: "webhook_settings_of slow_env = Inr c"
    by (simp add: webhook_settings_of_def setting_absent slow_env_def)
  have "BACKOFF_MAX_MS c = int 120000"
    using webhook_settings_typed [where env = slow_env and n = 120000, OF refl, THEN conjunct2, THEN conjunct1] c cap by blast
  then show ?thesis using webhook_settings_typed [where env = slow_env, OF c, THEN conjunct1] c by simp
qed

end
