(* ===== verification/Webhook_Rotation.thy ===== *)
theory Webhook_Rotation
  imports Webhook_Signing Webhook_Config Request_Boundary
begin

text \<open>
  Signing-secret rotation, web/src/lib/webhooks/rotation.ts, over the rows of
  tls_webhook_subscriptions (web/src/db/schema.ts), and what a rotation means for the consumers
  that verify with the old or the new secret.

  Encryption at rest is a parameter: \<open>encryptSecret\<close> and \<open>decryptSecret\<close> call Node's AES-256-GCM,
  and \<open>None\<close> is the error they throw when the key is missing or the text does not decrypt.
  \<open>meanwhile\<close> is what other requests do between the SELECT and the UPDATE of a rotation.
\<close>

record subscription =
  sb_id :: string
  sb_talosId :: string
  sb_url :: string
  sb_secretCiphertext :: string
  sb_previousSecretCiphertext :: "string option"
  sb_previousSecretExpiresAt :: "instant option"
  sb_secretRotatedAt :: "instant option"
  sb_signatureVersion :: nat
  sb_eventTypes :: "string list"
  sb_active :: bool

record vault =
  vt_encrypt :: "string \<Rightarrow> string option"
  vt_decrypt :: "string \<Rightarrow> string option"

text \<open>\<open>clampGraceSeconds\<close>: \<open>None\<close> is undefined.\<close>

definition clampGraceSeconds :: "webhook_settings \<Rightarrow> js_number option \<Rightarrow> int" where
  "clampGraceSeconds cfg raw =
     (case raw of
        None \<Rightarrow> DEFAULT_SECRET_ROTATION_GRACE_SECONDS cfg
      | Some NotFinite \<Rightarrow> DEFAULT_SECRET_ROTATION_GRACE_SECONDS cfg
      | Some (Finite q) \<Rightarrow>
          let n = \<lfloor>q\<rfloor>
          in if n < MIN_SECRET_ROTATION_GRACE_SECONDS then MIN_SECRET_ROTATION_GRACE_SECONDS
             else if n > MAX_SECRET_ROTATION_GRACE_SECONDS then MAX_SECRET_ROTATION_GRACE_SECONDS
             else n)"

section \<open>The secrets that sign\<close>

record secret_bundle =
  bn_secrets :: "string list"
  bn_signatureVersion :: nat
  bn_rotationActive :: bool

text \<open>\<open>None\<close>: the current secret does not decrypt, and the call throws.\<close>

definition resolveSigningSecrets :: "vault \<Rightarrow> instant \<Rightarrow> subscription \<Rightarrow> secret_bundle option" where
  "resolveSigningSecrets vt now sb =
     (case vt_decrypt vt (sb_secretCiphertext sb) of
        None \<Rightarrow> None
      | Some current \<Rightarrow>
          let grace = truthy_str (sb_previousSecretCiphertext sb) \<and>
                (case sb_previousSecretExpiresAt sb of None \<Rightarrow> False | Some e \<Rightarrow> e > now);
              previous = (if grace then vt_decrypt vt (the (sb_previousSecretCiphertext sb)) else None)
          in Some \<lparr>bn_secrets = current # (case previous of None \<Rightarrow> [] | Some p \<Rightarrow> [p]),
                   bn_signatureVersion = sb_signatureVersion sb,
                   bn_rotationActive = (previous \<noteq> None)\<rparr>)"

section \<open>Rotation\<close>

record rotate_options =
  rt_subscriptionId :: string
  rt_talosId :: string
  rt_newSecret :: "string option"
  rt_generate :: bool
  rt_graceSeconds :: "js_number option"

record rotation_result =
  rr_id :: string
  rr_secretRotatedAt :: instant
  rr_previousSecretExpiresAt :: instant
  rr_graceSeconds :: int
  rr_secret :: "string option"

definition owned_subscription :: "string \<Rightarrow> string \<Rightarrow> subscription \<Rightarrow> bool" where
  "owned_subscription i talos sb \<longleftrightarrow> sb_id sb = i \<and> sb_talosId sb = talos"

text \<open>\<open>generated\<close> is what generateWebhookSecret returns.\<close>

definition rotateWebhookSecret ::
  "webhook_settings \<Rightarrow> vault \<Rightarrow> (subscription list \<Rightarrow> subscription list) \<Rightarrow> string \<Rightarrow> instant \<Rightarrow> rotate_options
     \<Rightarrow> subscription list \<Rightarrow> subscription list \<times> (http_error + rotation_result)" where
  "rotateWebhookSecret cfg vt meanwhile generated now opts t =
     (if \<not> truthy_str (rt_newSecret opts) \<and> \<not> rt_generate opts
      then (t, Inl (400, ''Provide secret or set generate=true''))
      else
        let plaintext = (if rt_generate opts \<or> \<not> truthy_str (rt_newSecret opts) then generated
                         else the (rt_newSecret opts))
        in if length plaintext < 16 \<or> length plaintext > 256
           then (t, Inl (400, ''Secret must be 16-256 characters''))
           else
             let graceSeconds = clampGraceSeconds cfg (rt_graceSeconds opts);
                 expiresAt = now + graceSeconds * 1000;
                 mine = owned_subscription (rt_subscriptionId opts) (rt_talosId opts)
             in case vt_encrypt vt plaintext of
                  None \<Rightarrow> (t, Inl (500, ''Failed to encrypt webhook secret. Check WEBHOOK_SECRET_ENCRYPTION_KEY.''))
                | Some newCiphertext \<Rightarrow>
                    (case sel_one mine t of
                       None \<Rightarrow> (t, Inl (404, ''Subscription not found''))
                     | Some existing \<Rightarrow>
                         let (t', rows) = upd_returning mine
                               (\<lambda>sb. sb\<lparr>sb_previousSecretCiphertext := Some (sb_secretCiphertext existing),
                                        sb_previousSecretExpiresAt := Some expiresAt,
                                        sb_secretCiphertext := newCiphertext,
                                        sb_secretRotatedAt := Some now,
                                        sb_signatureVersion := 1\<rparr>) (meanwhile t)
                         in case first_row rows of
                              None \<Rightarrow> (t', Inl (404, ''Subscription not found''))
                            | Some updated \<Rightarrow>
                                (t', Inr \<lparr>rr_id = sb_id updated, rr_secretRotatedAt = now,
                                          rr_previousSecretExpiresAt = expiresAt, rr_graceSeconds = graceSeconds,
                                          rr_secret = (if rt_generate opts then Some plaintext else None)\<rparr>)))"

definition finalizeWebhookSecretRotation ::
  "string \<Rightarrow> string \<Rightarrow> subscription list \<Rightarrow> subscription list \<times> (http_error + string)" where
  "finalizeWebhookSecretRotation i talos t =
     (let (t', rows) = upd_returning (owned_subscription i talos)
            (\<lambda>sb. sb\<lparr>sb_previousSecretCiphertext := None, sb_previousSecretExpiresAt := None\<rparr>) t
      in case first_row rows of
           None \<Rightarrow> (t', Inl (404, ''Subscription not found''))
         | Some updated \<Rightarrow> (t', Inr (sb_id updated)))"

text \<open>Signing a delivery of a subscription: \<open>None\<close> when the secrets do not resolve.\<close>

definition sign_delivery ::
  "(string \<Rightarrow> string \<Rightarrow> string) \<Rightarrow> js_runtime \<Rightarrow> vault \<Rightarrow> instant \<Rightarrow> string \<Rightarrow> subscription \<Rightarrow> string option" where
  "sign_delivery hmac rt vt now payload sb =
     (case resolveSigningSecrets vt now sb of
        None \<Rightarrow> None
      | Some b \<Rightarrow> (case signPayload hmac rt now payload (bn_secrets b) (bn_signatureVersion b) of
            Inl e \<Rightarrow> None | Inr h \<Rightarrow> Some h))"

text \<open>The writes to the table: subscribing, editing (route [id], PATCH, without a secret), unsubscribing,
  rotating, with its clock and generated secret, and finalizing.\<close>

datatype subscription_op =
    Subscribe subscription
  | Edit string string "string option" "string list option" "bool option"
  | Unsubscribe string string
  | Rotate instant string rotate_options
  | Finalize string string

fun subscription_step :: "webhook_settings \<Rightarrow> vault \<Rightarrow> subscription_op \<Rightarrow> subscription list \<Rightarrow> subscription list" where
  "subscription_step cfg vt (Subscribe sb) t = (if list_ex (\<lambda>x. sb_id x = sb_id sb) t then t else t @ [sb])"
| "subscription_step cfg vt (Edit i talos url eventTypes active) t =
     upd (owned_subscription i talos)
       (\<lambda>sb. sb\<lparr>sb_url := coalesce url (sb_url sb), sb_eventTypes := coalesce eventTypes (sb_eventTypes sb),
                sb_active := coalesce active (sb_active sb)\<rparr>) t"
| "subscription_step cfg vt (Unsubscribe i talos) t = del (owned_subscription i talos) t"
| "subscription_step cfg vt (Rotate now generated opts) t = fst (rotateWebhookSecret cfg vt id generated now opts t)"
| "subscription_step cfg vt (Finalize i talos) t = fst (finalizeWebhookSecretRotation i talos t)"

section \<open>What a rotation does to the consumers\<close>

definition vault_ok :: "vault \<Rightarrow> bool" where
  "vault_ok vt \<longleftrightarrow> (\<forall>p c. vt_encrypt vt p = Some c \<longrightarrow> vt_decrypt vt c = Some p)"

lemma grace_range:
  assumes "settings_ok cfg"
  shows "300 \<le> clampGraceSeconds cfg g" "clampGraceSeconds cfg g \<le> 2592000"
  using assms
  by (auto simp: clampGraceSeconds_def settings_ok_def MIN_SECRET_ROTATION_GRACE_SECONDS_def
      MAX_SECRET_ROTATION_GRACE_SECONDS_def Let_def split: option.splits js_number.splits)

definition rotated :: "string \<Rightarrow> string \<Rightarrow> instant \<Rightarrow> instant \<Rightarrow> subscription \<Rightarrow> subscription" where
  "rotated old new now expires sb =
     sb\<lparr>sb_previousSecretCiphertext := Some old, sb_previousSecretExpiresAt := Some expires,
        sb_secretCiphertext := new, sb_secretRotatedAt := Some now, sb_signatureVersion := 1\<rparr>"

text \<open>A rotation that nobody disturbs moves the current ciphertext of its row into the previous slot.\<close>

lemma rotation_effect:
  assumes "rotateWebhookSecret cfg vt id generated now opts t = (t', Inr res)"
  obtains old plain new where "sel_one (owned_subscription (rt_subscriptionId opts) (rt_talosId opts)) t = Some old"
    "vt_encrypt vt plain = Some new" "16 \<le> length plain" "length plain \<le> 256"
    "plain = (if rt_generate opts then generated else the (rt_newSecret opts))"
    "rr_graceSeconds res = clampGraceSeconds cfg (rt_graceSeconds opts)"
    "rr_previousSecretExpiresAt res = now + rr_graceSeconds res * 1000"
    "t' = upd (owned_subscription (rt_subscriptionId opts) (rt_talosId opts))
       (rotated (sb_secretCiphertext old) new now (rr_previousSecretExpiresAt res)) t"
    "sel_one (owned_subscription (rt_subscriptionId opts) (rt_talosId opts)) t' =
       Some (rotated (sb_secretCiphertext old) new now (rr_previousSecretExpiresAt res) old)"
proof -
  let ?mine = "owned_subscription (rt_subscriptionId opts) (rt_talosId opts)"
  have find: "sel_one ?mine (upd ?mine (rotated o' n x e) t) = map_option (rotated o' n x e) (sel_one ?mine t)" for o' n x e
    by (induction t) (auto simp: owned_subscription_def rotated_def)
  have key: "(\<lambda>sb. sb\<lparr>sb_previousSecretCiphertext := Some a, sb_previousSecretExpiresAt := Some e,
      sb_secretCiphertext := n, sb_secretRotatedAt := Some x, sb_signatureVersion := 1\<rparr>) = rotated a n x e" for a n x e
    by (simp add: rotated_def fun_eq_iff)
  show thesis
    using assms find
    by (auto simp: rotateWebhookSecret_def Let_def upd_returning_def key [simplified]
        split: if_splits option.splits intro!: that)
qed

lemma sign_rotated:
  assumes digest: "hex_hmac hmac" and vault: "vault_ok vt" and "0 \<le> later"
    and fresh: "vt_encrypt vt plain = Some new" "plain \<noteq> []"
    and old: "old \<noteq> []" "vt_decrypt vt old = Some secret" "secret \<noteq> []"
  shows "\<exists>header. sign_delivery hmac rt vt later payload (rotated old new now expires sb) = Some header \<and>
    (\<forall>clock received ours. verifySignature hmac rt clock received (Some header) ours \<longleftrightarrow>
      asSecretList ours \<noteq> [] \<and> \<bar>epoch_seconds clock - epoch_seconds later\<bar> \<le> 300 \<and>
      (\<exists>s \<in> (if later < expires then {plain, secret} else {plain}). \<exists>s' \<in> set (asSecretList ours).
       from_hex (hmac s' (data_to_sign rt 1 (of_int (epoch_seconds later)) received))
         = from_hex (hmac s (data_to_sign rt 1 (of_int (epoch_seconds later)) payload))))"
proof -
  let ?secrets = "if later < expires then [plain, secret] else [plain]"
  have dec: "vt_decrypt vt new = Some plain" using vault fresh(1) by (simp add: vault_ok_def)
  have resolved: "resolveSigningSecrets vt later (rotated old new now expires sb) =
      Some \<lparr>bn_secrets = ?secrets, bn_signatureVersion = 1, bn_rotationActive = (later < expires)\<rparr>"
    using dec old by (simp add: resolveSigningSecrets_def rotated_def Let_def)
  have list: "asSecretList ?secrets = ?secrets" using fresh(2) old(3) by (simp add: asSecretList_def)
  then obtain header where h: "signPayload hmac rt later payload ?secrets 1 = Inr header"
    using signPayload_Inr [of ?secrets hmac rt later payload 1] by (auto split: if_splits)
  have "sign_delivery hmac rt vt later payload (rotated old new now expires sb) = Some header"
    using h by (simp add: sign_delivery_def resolved)
  moreover have "set ?secrets = (if later < expires then {plain, secret} else {plain})" by simp
  ultimately show ?thesis
    using verify_signed [OF digest \<open>0 \<le> later\<close> h, unfolded list] by simp
qed

text \<open>Writes that spare the secrets of a subscription: all but removing, rotating or finalizing it.\<close>

fun spares :: "string \<Rightarrow> string \<Rightarrow> subscription_op \<Rightarrow> bool" where
  "spares i talos (Subscribe sb) \<longleftrightarrow> True"
| "spares i talos (Edit j other url eventTypes active) \<longleftrightarrow> True"
| "spares i talos (Unsubscribe j other) \<longleftrightarrow> (j, other) \<noteq> (i, talos)"
| "spares i talos (Rotate now generated opts) \<longleftrightarrow> (rt_subscriptionId opts, rt_talosId opts) \<noteq> (i, talos)"
| "spares i talos (Finalize j other) \<longleftrightarrow> (j, other) \<noteq> (i, talos)"

definition same_secrets :: "subscription \<Rightarrow> subscription \<Rightarrow> bool" where
  "same_secrets a b \<longleftrightarrow> sb_secretCiphertext a = sb_secretCiphertext b \<and> sb_signatureVersion a = sb_signatureVersion b \<and>
     sb_previousSecretCiphertext a = sb_previousSecretCiphertext b \<and> sb_previousSecretExpiresAt a = sb_previousSecretExpiresAt b"

lemma sign_same: "same_secrets a b \<Longrightarrow> sign_delivery hmac rt vt now payload a = sign_delivery hmac rt vt now payload b"
  by (cases "vt_decrypt vt (sb_secretCiphertext b)")
     (simp_all add: same_secrets_def sign_delivery_def resolveSigningSecrets_def Let_def)

lemma sel_upd_kept:
  assumes "\<And>x. P (f x) = P x"
  shows "sel_one P (upd Q f t) = map_option (\<lambda>x. if Q x then f x else x) (sel_one P t)"
  using assms by (induction t) auto

lemma rotate_other:
  assumes "(rt_subscriptionId opts, rt_talosId opts) \<noteq> (i, talos)"
  shows "sel_one (owned_subscription i talos) (fst (rotateWebhookSecret cfg vt id generated now opts t)) =
    sel_one (owned_subscription i talos) t"
proof -
  have "sel_one (owned_subscription i talos) (upd (owned_subscription (rt_subscriptionId opts) (rt_talosId opts))
      (\<lambda>sb. sb\<lparr>sb_previousSecretCiphertext := a, sb_previousSecretExpiresAt := e, sb_secretCiphertext := n,
        sb_secretRotatedAt := Some now, sb_signatureVersion := 1\<rparr>) t) = sel_one (owned_subscription i talos) t" for a e n
    using assms by (intro find_upd_other) (auto simp: owned_subscription_def)
  then show ?thesis by (simp add: rotateWebhookSecret_def Let_def upd_returning_def split: option.split)
qed

lemma step_spares:
  assumes "spares i talos op" "sel_one (owned_subscription i talos) t = Some sb"
  shows "\<exists>sb'. sel_one (owned_subscription i talos) (subscription_step cfg vt op t) = Some sb' \<and> same_secrets sb' sb"
proof (cases op)
  case (Subscribe new)
  then show ?thesis using assms(2) by (auto simp: same_secrets_def find_append)
next
  case (Edit j other url eventTypes active)
  then show ?thesis using assms(2)
    by (simp add: sel_upd_kept owned_subscription_def same_secrets_def)
next
  case (Unsubscribe j other)
  have "sel_one (owned_subscription i talos) (del (owned_subscription j other) t) = sel_one (owned_subscription i talos) t"
    using assms(1) Unsubscribe by (induction t) (auto simp: owned_subscription_def del_def)
  then show ?thesis using assms(2) Unsubscribe by (simp add: same_secrets_def)
next
  case (Rotate now generated opts)
  then show ?thesis using assms rotate_other by (simp add: same_secrets_def)
next
  case (Finalize j other)
  have "sel_one (owned_subscription i talos) (fst (finalizeWebhookSecretRotation j other t)) = sel_one (owned_subscription i talos) t"
    using assms(1) Finalize
    by (auto simp: finalizeWebhookSecretRotation_def upd_returning_def owned_subscription_def intro!: find_upd_other split: option.split)
  then show ?thesis using assms(2) Finalize by (simp add: same_secrets_def)
qed

lemma steps_spare:
  "\<forall>op \<in> set ops. spares i talos op \<Longrightarrow> sel_one (owned_subscription i talos) t = Some sb \<Longrightarrow>
     \<exists>sb'. sel_one (owned_subscription i talos) (fold (subscription_step cfg vt) ops t) = Some sb' \<and> same_secrets sb' sb"
proof (induction ops arbitrary: t sb)
  case (Cons op ops)
  obtain sb1 where sb1: "sel_one (owned_subscription i talos) (subscription_step cfg vt op t) = Some sb1" "same_secrets sb1 sb"
    using step_spares [of i talos op t sb cfg vt] Cons.prems by auto
  then obtain sb2 where "sel_one (owned_subscription i talos) (fold (subscription_step cfg vt) ops (subscription_step cfg vt op t)) = Some sb2"
    "same_secrets sb2 sb1"
    using Cons.IH [OF _ sb1(1)] Cons.prems(1) by auto
  then show ?case using sb1(2) by (auto simp: same_secrets_def)
qed (auto simp: same_secrets_def)

text \<open>C21.
  Zero downtime: after a rotation, and any later writes to the table that do not rotate, finalize or remove
  the same subscription, every delivery is accepted by consumers that hold the new secret, and, until the
  announced expiry, by consumers that still hold the old one; the expiry lies between five minutes and
  thirty days ahead, and from then on a header verifies only with secrets whose digest agrees with the
  new one's.\<close>

theorem rotation_zero_downtime:
  assumes "hex_hmac hmac" "vault_ok vt" "settings_ok cfg"
    "rotateWebhookSecret cfg vt id generated now opts t = (t', Inr res)"
    "sel_one (owned_subscription (rt_subscriptionId opts) (rt_talosId opts)) t = Some before"
    "sb_secretCiphertext before \<noteq> []" "vt_decrypt vt (sb_secretCiphertext before) = Some old_secret" "old_secret \<noteq> []"
    "new_secret = (if rt_generate opts then generated else the (rt_newSecret opts))"
    "0 \<le> later" "\<bar>epoch_seconds clock - epoch_seconds later\<bar> \<le> 300"
    "\<forall>op \<in> set ops. spares (rt_subscriptionId opts) (rt_talosId opts) op"
  shows "(\<exists>sb header. sel_one (owned_subscription (rt_subscriptionId opts) (rt_talosId opts)) (fold (subscription_step cfg vt) ops t') = Some sb \<and>
      sign_delivery hmac rt vt later payload sb = Some header \<and>
      verifySignature hmac rt clock payload (Some header) [new_secret] \<and>
      (later < rr_previousSecretExpiresAt res \<longrightarrow> verifySignature hmac rt clock payload (Some header) [old_secret]) \<and>
      (rr_previousSecretExpiresAt res \<le> later \<longrightarrow>
         (\<forall>s received. verifySignature hmac rt clock received (Some header) [s] \<longrightarrow>
            from_hex (hmac s (data_to_sign rt 1 (of_int (epoch_seconds later)) received))
              = from_hex (hmac new_secret (data_to_sign rt 1 (of_int (epoch_seconds later)) payload))))) \<and>
    (now + 300000 \<le> rr_previousSecretExpiresAt res) \<and>
    (rr_previousSecretExpiresAt res \<le> now + 2592000000)"
proof -
  obtain new where r: "vt_encrypt vt new_secret = Some new" "16 \<le> length new_secret"
    "rr_graceSeconds res = clampGraceSeconds cfg (rt_graceSeconds opts)"
    "rr_previousSecretExpiresAt res = now + rr_graceSeconds res * 1000"
    "sel_one (owned_subscription (rt_subscriptionId opts) (rt_talosId opts)) t' =
       Some (rotated (sb_secretCiphertext before) new now (rr_previousSecretExpiresAt res) before)"
    using rotation_effect [OF assms(4)] assms(5,9) by (metis option.inject)
  have "new_secret \<noteq> []" using r(2) by auto
  from sign_rotated [OF assms(1,2,10) r(1) this assms(6-8), where rt = rt and payload = payload
      and now = now and sb = before and expires = "rr_previousSecretExpiresAt res"]
  obtain header where h: "sign_delivery hmac rt vt later payload
      (rotated (sb_secretCiphertext before) new now (rr_previousSecretExpiresAt res) before) = Some header"
    "\<forall>clock received ours. verifySignature hmac rt clock received (Some header) ours \<longleftrightarrow>
      asSecretList ours \<noteq> [] \<and> \<bar>epoch_seconds clock - epoch_seconds later\<bar> \<le> 300 \<and>
      (\<exists>s \<in> (if later < rr_previousSecretExpiresAt res then {new_secret, old_secret} else {new_secret}).
       \<exists>s' \<in> set (asSecretList ours).
       from_hex (hmac s' (data_to_sign rt 1 (of_int (epoch_seconds later)) received))
         = from_hex (hmac s (data_to_sign rt 1 (of_int (epoch_seconds later)) payload)))"
    by (elim exE conjE)
  have "verifySignature hmac rt clock payload (Some header) [new_secret] \<and>
      (later < rr_previousSecretExpiresAt res \<longrightarrow> verifySignature hmac rt clock payload (Some header) [old_secret]) \<and>
      (rr_previousSecretExpiresAt res \<le> later \<longrightarrow>
         (\<forall>s received. verifySignature hmac rt clock received (Some header) [s] \<longrightarrow>
            from_hex (hmac s (data_to_sign rt 1 (of_int (epoch_seconds later)) received))
              = from_hex (hmac new_secret (data_to_sign rt 1 (of_int (epoch_seconds later)) payload))))"
    using \<open>new_secret \<noteq> []\<close> assms(8,11) by (auto simp: h(2) asSecretList_def split: if_splits)
  moreover obtain sb where sb: "sel_one (owned_subscription (rt_subscriptionId opts) (rt_talosId opts)) (fold (subscription_step cfg vt) ops t') = Some sb"
    "sign_delivery hmac rt vt later payload sb = Some header"
    using steps_spare [OF assms(12) r(5)] sign_same h(1) by metis
  ultimately have c1: "\<exists>sb header. sel_one (owned_subscription (rt_subscriptionId opts) (rt_talosId opts)) (fold (subscription_step cfg vt) ops t') = Some sb \<and>
      sign_delivery hmac rt vt later payload sb = Some header \<and>
      verifySignature hmac rt clock payload (Some header) [new_secret] \<and>
      (later < rr_previousSecretExpiresAt res \<longrightarrow> verifySignature hmac rt clock payload (Some header) [old_secret]) \<and>
      (rr_previousSecretExpiresAt res \<le> later \<longrightarrow>
         (\<forall>s received. verifySignature hmac rt clock received (Some header) [s] \<longrightarrow>
            from_hex (hmac s (data_to_sign rt 1 (of_int (epoch_seconds later)) received))
              = from_hex (hmac new_secret (data_to_sign rt 1 (of_int (epoch_seconds later)) payload))))"
    by blast
  have c2: "now + 300000 \<le> rr_previousSecretExpiresAt res" "rr_previousSecretExpiresAt res \<le> now + 2592000000"
    using grace_range [OF assms(3), of "rt_graceSeconds opts"] r(3,4) by linarith+
  show ?thesis using c1 c2 by (intro conjI)
qed

section \<open>A concrete rotation\<close>

text \<open>A vault that marks its ciphertexts, and the settings of an empty environment.\<close>

definition mark :: string where "mark = ''enc:''"

definition toy_vault :: vault where
  "toy_vault = \<lparr>vt_encrypt = (\<lambda>p. Some (mark @ p)),
     vt_decrypt = (\<lambda>c. if take 4 c = mark then Some (drop 4 c) else None)\<rparr>"

lemma toy_vault_ok: "vault_ok toy_vault"
  by (simp add: vault_ok_def toy_vault_def mark_def)

definition plain_settings :: webhook_settings where
  "plain_settings = \<lparr>DEFAULT_MAX_ATTEMPTS = 5, BACKOFF_BASE_MS = 1000, BACKOFF_MAX_MS = 60000,
     DELIVERY_TIMEOUT_MS = 10000, MAX_PAYLOAD_BYTES = 64000, LEASE_TTL_SECONDS = 300,
     LEASE_HEARTBEAT_SECONDS = 300, DEFAULT_SECRET_ROTATION_GRACE_SECONDS = 86400\<rparr>"

lemma plain_settings_loaded: "webhook_settings_of (\<lambda>_. None) = Inr plain_settings"
  by (simp add: webhook_settings_of_def setting_absent plain_settings_def)

lemma plain_settings_ok: "settings_ok plain_settings"
  using plain_settings_loaded by (rule webhook_settings_range)

definition sample_subscription :: subscription where
  "sample_subscription = \<lparr>sb_id = ''s1'', sb_talosId = ''t1'', sb_url = ''https://example.org/hook'',
     sb_secretCiphertext = mark @ ''the-first-secret'', sb_previousSecretCiphertext = None,
     sb_previousSecretExpiresAt = None, sb_secretRotatedAt = None, sb_signatureVersion = 1,
     sb_eventTypes = [''job.completed''], sb_active = True\<rparr>"

definition sample_rotation :: rotate_options where
  "sample_rotation = \<lparr>rt_subscriptionId = ''s1'', rt_talosId = ''t1'', rt_newSecret = Some ''the-second-secret'',
     rt_generate = False, rt_graceSeconds = Some (Finite 1)\<rparr>"

definition later_writes :: "subscription_op list" where
  "later_writes = [Edit ''s1'' ''t1'' (Some ''https://example.org/new'') None None,
     Rotate 1700000050000 ''a-generated-secret'' (sample_rotation\<lparr>rt_subscriptionId := ''s2''\<rparr>), Finalize ''s1'' ''t2'']"

theorem rotation_zero_downtime_witness:
  "\<exists>t' res sb header.
     rotateWebhookSecret plain_settings toy_vault id ''unused'' 1700000000000 sample_rotation [sample_subscription] = (t', Inr res) \<and>
     rr_previousSecretExpiresAt res = 1700000300000 \<and>
     sel_one (owned_subscription ''s1'' ''t1'') (fold (subscription_step plain_settings toy_vault) later_writes t') = Some sb \<and>
     sign_delivery toy_hmac plain_runtime toy_vault 1700000100000 ''{}'' sb = Some header \<and>
     verifySignature toy_hmac plain_runtime 1700000100000 ''{}'' (Some header) [''the-first-secret''] \<and>
     verifySignature toy_hmac plain_runtime 1700000100000 ''{}'' (Some header) [''the-second-secret'']"
proof -
  obtain t' res where run: "rotateWebhookSecret plain_settings toy_vault id ''unused'' 1700000000000
      sample_rotation [sample_subscription] = (t', Inr res)"
    and res: "rr_previousSecretExpiresAt res = 1700000300000"
    by (simp add: rotateWebhookSecret_def sample_rotation_def sample_subscription_def owned_subscription_def
        toy_vault_def truthy_str_def upd_returning_def clampGraceSeconds_def MIN_SECRET_ROTATION_GRACE_SECONDS_def
        MAX_SECRET_ROTATION_GRACE_SECONDS_def Let_def)
  have sel: "sel_one (owned_subscription (rt_subscriptionId sample_rotation) (rt_talosId sample_rotation))
      [sample_subscription] = Some sample_subscription"
    by (simp add: sample_rotation_def sample_subscription_def owned_subscription_def)
  have old: "sb_secretCiphertext sample_subscription \<noteq> []"
    "vt_decrypt toy_vault (sb_secretCiphertext sample_subscription) = Some ''the-first-secret''"
    by (simp_all add: sample_subscription_def toy_vault_def mark_def)
  have spared: "\<forall>op \<in> set later_writes. spares (rt_subscriptionId sample_rotation) (rt_talosId sample_rotation) op"
    by (simp add: later_writes_def sample_rotation_def)
  have ids: "rt_subscriptionId sample_rotation = ''s1''" "rt_talosId sample_rotation = ''t1''"
    "(if rt_generate sample_rotation then ''unused'' else the (rt_newSecret sample_rotation)) = ''the-second-secret''"
    by (simp_all add: sample_rotation_def)
  have "\<exists>sb header. sel_one (owned_subscription ''s1'' ''t1'') (fold (subscription_step plain_settings toy_vault) later_writes t') = Some sb \<and>
     sign_delivery toy_hmac plain_runtime toy_vault 1700000100000 ''{}'' sb = Some header \<and>
     verifySignature toy_hmac plain_runtime 1700000100000 ''{}'' (Some header) [''the-second-secret''] \<and>
     verifySignature toy_hmac plain_runtime 1700000100000 ''{}'' (Some header) [''the-first-secret'']"
    using rotation_zero_downtime [OF toy_hmac_digest toy_vault_ok plain_settings_ok run sel old _ refl _ _ spared,
        where later = 1700000100000 and clock = 1700000100000 and rt = plain_runtime and payload = "''{}''", THEN conjunct1]
      res unfolding ids by auto
  then show ?thesis using run res by blast
qed

end
