(* ===== verification/Json_Text.thy ===== *)
theory Json_Text
  imports Js_Text
begin

text \<open>
  \<open>JSON.stringify\<close> on strings, and that its output can be taken apart again: a quoted string is
  never a prefix of another.
\<close>

definition hex_digit :: "nat \<Rightarrow> char" where
  "hex_digit n = (if n < 10 then char_of (48 + n) else char_of (87 + n))"

definition json_escape :: "char \<Rightarrow> string" where
  "json_escape c =
     (let n = of_char c :: nat; bs = CHR 0x5C
      in if n = 34 \<or> n = 92 then [bs, c]
         else if n = 8 then [bs, CHR ''b''] else if n = 9 then [bs, CHR ''t'']
         else if n = 10 then [bs, CHR ''n''] else if n = 12 then [bs, CHR ''f'']
         else if n = 13 then [bs, CHR ''r'']
         else if n < 32 then bs # ''u00'' @ [hex_digit (n div 16), hex_digit (n mod 16)]
         else [c])"

definition json_quote :: "string \<Rightarrow> string" where
  "json_quote s = [CHR 0x22] @ concat (map json_escape s) @ [CHR 0x22]"

definition json_entry :: "string \<Rightarrow> string \<Rightarrow> string" where
  "json_entry k v = json_quote k @ '':'' @ v"

section \<open>Reading it back\<close>

definition hex_number :: "char \<Rightarrow> nat" where
  "hex_number c = (let n = of_char c in if n < 58 then n - 48 else n - 87)"

definition short_escapes :: "(char \<times> char) list" where
  "short_escapes = [(CHR ''b'', CHR 0x08), (CHR ''t'', CHR 0x09), (CHR ''n'', CHR 0x0A),
     (CHR ''f'', CHR 0x0C), (CHR ''r'', CHR 0x0D)]"

fun json_unescape :: "string \<Rightarrow> char \<times> string" where
  "json_unescape (b # x # xs) =
     (if b \<noteq> CHR 0x5C then (b, x # xs)
      else if x = CHR ''u'' then (char_of (16 * hex_number (xs ! 2) + hex_number (xs ! 3)), drop 4 xs)
      else (coalesce (map_of short_escapes x) x, xs))"
| "json_unescape (b # []) = (b, [])"
| "json_unescape [] = (CHR 0x00, [])"

lemma char_code: "(of_char c :: nat) = of_char d \<longleftrightarrow> c = d"
  by (rule of_char_eq_iff)

lemma hex_digit_number: "k < 16 \<Longrightarrow> hex_number (hex_digit k) = k"
  by (auto simp: hex_number_def hex_digit_def Let_def of_char_of)

lemma unescape_escape: "json_unescape (json_escape c @ u) = (c, u)"
proof -
  let ?n = "of_char c :: nat"
  have bs: "?n = 92 \<longleftrightarrow> c = CHR 0x5C" using char_code [of c "CHR 0x5C"] by simp
  have quote: "?n = 34 \<longleftrightarrow> c = CHR 0x22" using char_code [of c "CHR 0x22"] by simp
  have ctrl: "?n = 8 \<longleftrightarrow> c = CHR 0x08" "?n = 9 \<longleftrightarrow> c = CHR 0x09" "?n = 10 \<longleftrightarrow> c = CHR 0x0A"
    "?n = 12 \<longleftrightarrow> c = CHR 0x0C" "?n = 13 \<longleftrightarrow> c = CHR 0x0D"
    using char_code [of c "CHR 0x08"] char_code [of c "CHR 0x09"] char_code [of c "CHR 0x0A"]
      char_code [of c "CHR 0x0C"] char_code [of c "CHR 0x0D"] by simp_all
  have hex: "char_of (16 * hex_number (hex_digit (?n div 16)) + hex_number (hex_digit (?n mod 16))) = c" if "?n < 32"
    using that by (simp add: hex_digit_number)
  consider "?n = 34" | "?n = 92" | "?n = 8" | "?n = 9" | "?n = 10" | "?n = 12" | "?n = 13"
    | "?n < 32" "?n \<notin> {8, 9, 10, 12, 13}" | "32 \<le> ?n" "?n \<noteq> 34" "?n \<noteq> 92"
    by fastforce
  then show ?thesis
  proof cases
    case 1
    then show ?thesis unfolding quote by (simp add: json_escape_def short_escapes_def Let_def)
  next
    case 2
    then show ?thesis unfolding bs by (simp add: json_escape_def short_escapes_def Let_def)
  next
    case 8
    then show ?thesis using hex by (simp add: json_escape_def Let_def)
  next
    case 9
    then show ?thesis using bs by (cases u) (simp_all add: json_escape_def Let_def)
  qed (simp_all only: ctrl, simp_all add: json_escape_def short_escapes_def Let_def)
qed

lemma escape_no_quote: "\<exists>x xs. json_escape c = x # xs \<and> x \<noteq> CHR 0x22"
proof (cases "(of_char c :: nat) = 34")
  case True
  then show ?thesis by (simp add: json_escape_def)
next
  case False
  then have "c \<noteq> CHR 0x22" by auto
  then show ?thesis by (auto simp: json_escape_def Let_def)
qed

lemma quoted_prefix_free:
  "concat (map json_escape s) @ CHR 0x22 # x = concat (map json_escape t) @ CHR 0x22 # y \<Longrightarrow> s = t \<and> x = y"
proof (induction s arbitrary: t)
  case Nil
  then show ?case
  proof (cases t)
    case (Cons d t')
    then show ?thesis using Nil escape_no_quote [of d] by auto
  qed simp
next
  case (Cons c s)
  show ?case
  proof (cases t)
    case Nil
    then show ?thesis using Cons.prems escape_no_quote [of c] by auto
  next
    case t: (Cons d t')
    from Cons.prems have "json_escape c @ (concat (map json_escape s) @ CHR 0x22 # x) =
        json_escape d @ (concat (map json_escape t') @ CHR 0x22 # y)"
      by (simp add: t)
    then have "(c, concat (map json_escape s) @ CHR 0x22 # x) = (d, concat (map json_escape t') @ CHR 0x22 # y)"
      using unescape_escape by metis
    then show ?thesis using Cons.IH t by auto
  qed
qed

lemma json_quote_inj: "json_quote s @ x = json_quote t @ y \<longleftrightarrow> s = t \<and> x = y"
  using quoted_prefix_free [of s x t y] by (auto simp: json_quote_def)

lemma json_quote_eq: "json_quote s = json_quote t \<longleftrightarrow> s = t"
  using json_quote_inj [of s "[]" t "[]"] by simp

section \<open>Numbers and null before a comma\<close>

lemma int_string_inj: "int_string a = int_string b \<longleftrightarrow> a = b"
proof
  assume eq: "int_string a = int_string b"
  have sign: "hd (int_string n) = CHR ''-'' \<longleftrightarrow> n < 0" for n
    using digits_of_digits [of "nat n"] digit_plain [of "hd (digits_of (nat n))"] by (auto simp: int_string_def)
  have dig: "digits_of m = digits_of k \<Longrightarrow> m = k" for m k by (metis digits_value_digits_of)
  from eq sign have "a < 0 \<longleftrightarrow> b < 0" by metis
  then show "a = b" using eq by (auto simp: int_string_def dest!: dig split: if_splits)
qed simp

lemma before_comma:
  assumes "sep \<notin> set s" "sep \<notin> set t"
  shows "s @ sep # x = t @ sep # y \<longleftrightarrow> s = t \<and> x = y"
  using assms
proof (induction s arbitrary: t)
  case Nil
  then show ?case by (cases t) auto
next
  case (Cons c s)
  then show ?case by (cases t) auto
qed

lemma int_before_comma:
  "int_string a @ CHR '','' # x = int_string b @ CHR '','' # y \<longleftrightarrow> a = b \<and> x = y"
proof -
  have "CHR '','' \<notin> set (int_string n)" for n
    using int_string_chars [of "CHR '',''" n] by (auto simp: digit_def)
  then show ?thesis using before_comma [of "CHR '',''" "int_string a" "int_string b"] by (simp add: int_string_inj)
qed

definition json_nullable :: "string option \<Rightarrow> string" where
  "json_nullable s = (case s of None \<Rightarrow> ''null'' | Some v \<Rightarrow> json_quote v)"

lemma json_nullable_inj: "json_nullable s @ x = json_nullable t @ y \<longleftrightarrow> s = t \<and> x = y"
  by (cases s; cases t) (auto simp: json_nullable_def json_quote_inj, simp_all add: json_quote_def)

end
