(* ===== verification/Webhook_Delivery.thy ===== *)
theory Webhook_Delivery
  imports Webhook_Rotation Commerce_Jobs Json_Text
begin

text \<open>
  Webhook deliveries: web/src/lib/webhooks/delivery.ts (emission, one delivery attempt, backoff,
  payload reconstruction) and the worker routes under web/src/app/api/webhooks/deliveries (claim,
  heartbeat, result, pending), over the rows of tls_webhook_deliveries.

  The HTTP call is a parameter: a reply with a status and a body, or a thrown error.  \<open>meanwhile\<close> is
  what other requests do to the deliveries between the statements of one call; sha256 and whether a
  text is JSON are parameters.
\<close>

section \<open>Rows\<close>

record delivery =
  dv_id :: string
  dv_subscriptionId :: string
  dv_eventType :: string
  dv_payloadHash :: string
  dv_status :: string
  dv_attempts :: int
  dv_maxAttempts :: int
  dv_lastStatusCode :: "int option"
  dv_lastError :: "string option"
  dv_lastAttemptAt :: "instant option"
  dv_nextAttemptAt :: "instant option"
  dv_completedAt :: "instant option"
  dv_responseBody :: "string option"
  dv_leasedBy :: "string option"
  dv_leasedAt :: "instant option"
  dv_leaseExpiresAt :: "instant option"
  dv_fencingToken :: int
  dv_createdAt :: instant

section \<open>Emission\<close>

record webhook_event =
  we_type :: string
  we_talosId :: string
  we_payload :: string  \<comment> \<open>\<open>JSON.stringify(event.payload)\<close>, as bytes\<close>

definition subscribed :: "webhook_event \<Rightarrow> subscription \<Rightarrow> bool" where
  "subscribed ev sb \<longleftrightarrow> sb_talosId sb = we_talosId ev \<and> sb_active sb \<and> we_type ev \<in> set (sb_eventTypes sb)"

definition payload_reference :: "(string \<Rightarrow> string) \<Rightarrow> webhook_event \<Rightarrow> string" where
  "payload_reference sha256 ev = sha256 (we_payload ev) @ '':'' @ we_type ev @ ''@'' @ we_talosId ev"

text \<open>One INSERT with \<open>onConflictDoNothing\<close> under the (subscription, payload hash) index.  \<open>i\<close> is the
  id createId() gave.\<close>

definition insert_delivery ::
  "(string \<Rightarrow> string) \<Rightarrow> webhook_settings \<Rightarrow> instant \<Rightarrow> webhook_event \<Rightarrow> string \<Rightarrow> string \<Rightarrow> delivery list \<Rightarrow> delivery list" where
  "insert_delivery sha256 cfg now ev sub i t =
     (let r = \<lparr>dv_id = i, dv_subscriptionId = sub, dv_eventType = we_type ev,
               dv_payloadHash = payload_reference sha256 ev, dv_status = ''pending'', dv_attempts = 0,
               dv_maxAttempts = DEFAULT_MAX_ATTEMPTS cfg, dv_lastStatusCode = None, dv_lastError = None,
               dv_lastAttemptAt = None, dv_nextAttemptAt = Some now, dv_completedAt = None,
               dv_responseBody = None, dv_leasedBy = None, dv_leasedAt = None, dv_leaseExpiresAt = None,
               dv_fencingToken = 0, dv_createdAt = now\<rparr>
      in if list_ex (\<lambda>x. (dv_subscriptionId x = sub \<and> dv_payloadHash x = dv_payloadHash r) \<or> dv_id x = i) t
         then t else t @ [r])"

definition emitWebhookEvent ::
  "environment \<Rightarrow> (string \<Rightarrow> string) \<Rightarrow> webhook_settings \<Rightarrow> instant \<Rightarrow> (nat \<Rightarrow> string) \<Rightarrow> webhook_event
     \<Rightarrow> subscription list \<Rightarrow> delivery list \<Rightarrow> delivery list" where
  "emitWebhookEvent env sha256 cfg now new_id ev subs t =
     (if \<not> isWebhookDeliveryEnabled env then t
      else if int (length (we_payload ev)) > MAX_PAYLOAD_BYTES cfg then t
      else fold (\<lambda>(n, sb). insert_delivery sha256 cfg now ev (sb_id sb) (new_id n))
             (enumerate 0 (sel (subscribed ev) subs)) t)"

section \<open>Backoff\<close>

text \<open>\<open>random\<close> is the value of Math.random(), in [0, 1); a Date drops the fraction.\<close>

definition calculateBackoff :: "webhook_settings \<Rightarrow> instant \<Rightarrow> rat \<Rightarrow> int \<Rightarrow> instant" where
  "calculateBackoff cfg now random attempt =
     (let delay = min (BACKOFF_BASE_MS cfg * 2 ^ nat (attempt - 1)) (BACKOFF_MAX_MS cfg);
          jitter = of_int delay * (3 / 4 + random / 2)
      in \<lfloor>of_int now + jitter\<rfloor>)"

section \<open>Payload reconstruction\<close>

definition indexOf :: "char \<Rightarrow> string \<Rightarrow> int" where
  "indexOf c s = (if c \<in> set s then int (length (takeWhile (\<lambda>x. x \<noteq> c) s)) else -1)"

text \<open>The regular expression that cuts an unfinished JSON tail.\<close>

fun cut_tail :: "string \<Rightarrow> string" where
  "cut_tail [] = []"
| "cut_tail (c # cs) =
     (if c \<in> {CHR ''{'', CHR '','', CHR 0x22, CHR 0x27} \<and>
         list_all (\<lambda>x. x \<notin> {CHR ''{'', CHR ''}'', CHR 0x22, CHR 0x27, CHR '' ''}) cs
      then [] else c # cut_tail cs)"

definition reconstructPayload :: "(string \<Rightarrow> bool) \<Rightarrow> string \<Rightarrow> string" where
  "reconstructPayload is_json payloadHash =
     (let colonIndex = indexOf (CHR '':'') payloadHash;
          stub = ''{'' @ json_entry ''event'' (json_quote ''webhook_retry'') @ ''}''
      in if colonIndex > 0 \<and> colonIndex < int (length payloadHash) - 1
         then let reference = drop (nat colonIndex + 1) payloadHash
              in if CHR ''@'' \<in> set reference
                 then (let ps = js_split (CHR ''@'') reference
                       in ''{'' @ js_join '',''
                            [json_entry ''event'' (json_quote (hd ps)), json_entry ''id'' (json_quote (ps ! 1)),
                             json_entry ''_retry'' ''true''] @ ''}'')
                 else (let trimmed = cut_tail reference
                       in case List.find is_json [trimmed, trimmed @ ''}'', trimmed @ [CHR 0x22] @ ''}''] of
                            Some attempt \<Rightarrow> attempt
                          | None \<Rightarrow> stub)
         else stub)"

section \<open>One attempt\<close>

datatype http_reply = HttpReply int "string option" | HttpError thrown

text \<open>\<open>message.replace(/secret|token|key|auth|password/i, "[REDACTED]")\<close>: the first match.\<close>

definition sensitive_words :: "string list" where
  "sensitive_words = [''secret'', ''token'', ''key'', ''auth'', ''password'']"

fun redact_first :: "string \<Rightarrow> string" where
  "redact_first [] = []"
| "redact_first (c # cs) =
     (case List.find (\<lambda>w. starts_with w (js_lower (c # cs))) sensitive_words of
        Some w \<Rightarrow> ''[REDACTED]'' @ drop (length w) (c # cs)
      | None \<Rightarrow> c # redact_first cs)"

definition clip_body :: "string option \<Rightarrow> string option" where
  "clip_body b = (case b of None \<Rightarrow> None
     | Some s \<Rightarrow> if s \<noteq> [] \<and> length s > 512 then Some (take 512 s @ ''...'') else Some s)"

definition retryable_delivery :: "delivery \<Rightarrow> bool" where
  "retryable_delivery d \<longleftrightarrow> dv_status d = ''pending'' \<or> dv_status d = ''failed''"

definition delivery_claimable :: "instant \<Rightarrow> string \<Rightarrow> string \<Rightarrow> delivery \<Rightarrow> sql_bool" where
  "delivery_claimable now worker i d =
     sql_and (sql_eq (Some (dv_id d)) (Some i))
      (sql_and (Some (retryable_delivery d))
        (sql_or (sql_eq (dv_leasedBy d) None)
          (sql_or (sql_eq (dv_leasedBy d) (Some worker))
            (sql_cmp (<) (dv_leaseExpiresAt d) (Some now)))))"

definition lease_delivery :: "instant \<Rightarrow> string \<Rightarrow> int \<Rightarrow> delivery \<Rightarrow> delivery" where
  "lease_delivery now worker ttlSeconds d =
     d\<lparr>dv_leasedBy := Some worker, dv_leasedAt := Some now,
       dv_leaseExpiresAt := Some (now + ttlSeconds * 1000), dv_fencingToken := dv_fencingToken d + 1\<rparr>"

definition fenced_delivery :: "string \<Rightarrow> int \<Rightarrow> delivery \<Rightarrow> bool" where
  "fenced_delivery i token d \<longleftrightarrow> dv_id d = i \<and> dv_fencingToken d = token"

definition markDeliveryFailed :: "instant \<Rightarrow> string \<Rightarrow> string \<Rightarrow> int \<Rightarrow> delivery list \<Rightarrow> delivery list" where
  "markDeliveryFailed now i err token t =
     upd (fenced_delivery i token)
       (\<lambda>d. d\<lparr>dv_status := ''dead_letter'', dv_lastError := Some err, dv_lastAttemptAt := Some now,
              dv_completedAt := Some now, dv_nextAttemptAt := None\<rparr>) t"

record delivery_result =
  de_id :: string
  de_subscriptionId :: string
  de_status :: string
  de_attempts :: int
  de_lastStatusCode :: "int option"

definition is_success :: "int option \<Rightarrow> bool" where
  "is_success code = (case code of None \<Rightarrow> False | Some c \<Rightarrow> 200 \<le> c \<and> c < 500)"

definition settle_attempt ::
  "webhook_settings \<Rightarrow> instant \<Rightarrow> rat \<Rightarrow> delivery \<Rightarrow> http_reply \<Rightarrow> delivery list \<Rightarrow> delivery list \<times> delivery_result" where
  "settle_attempt cfg later random claimed reply t =
     (let statusCode = (case reply of HttpReply c b \<Rightarrow> Some c | HttpError e \<Rightarrow> None);
          responseBody = (case reply of HttpReply c b \<Rightarrow> clip_body b | HttpError e \<Rightarrow> None);
          err = (case reply of HttpReply c b \<Rightarrow> None | HttpError e \<Rightarrow> Some (redact_first (thrown_message e)));
          newAttempts = dv_attempts claimed + 1;
          newStatus = (if is_success statusCode then ''delivered''
            else if newAttempts \<ge> dv_maxAttempts claimed then ''dead_letter'' else ''failed'');
          write = (if is_success statusCode
            then (\<lambda>d. d\<lparr>dv_status := ''delivered'', dv_attempts := newAttempts,
              dv_lastStatusCode := statusCode, dv_responseBody := responseBody, dv_lastAttemptAt := Some later,
              dv_completedAt := Some later, dv_nextAttemptAt := None\<rparr>)
            else (\<lambda>d. d\<lparr>dv_status := newStatus, dv_attempts := newAttempts, dv_lastStatusCode := statusCode,
              dv_lastError := err, dv_responseBody := responseBody, dv_lastAttemptAt := Some later,
              dv_nextAttemptAt := (if newStatus = ''failed'' then Some (calculateBackoff cfg later random newAttempts) else None),
              dv_completedAt := (if newStatus = ''dead_letter'' then Some later else None)\<rparr>))
      in (upd (fenced_delivery (dv_id claimed) (dv_fencingToken claimed)) write t,
          \<lparr>de_id = dv_id claimed, de_subscriptionId = dv_subscriptionId claimed, de_status = newStatus,
           de_attempts = newAttempts, de_lastStatusCode = statusCode\<rparr>))"

text \<open>\<open>post url signature hint body\<close> is the HTTP call; \<open>ttl\<close> the lease in seconds.\<close>

definition attemptDelivery ::
  "environment \<Rightarrow> webhook_settings \<Rightarrow> (string \<Rightarrow> string \<Rightarrow> string) \<Rightarrow> js_runtime \<Rightarrow> vault \<Rightarrow> (string \<Rightarrow> bool)
     \<Rightarrow> (string \<Rightarrow> string \<Rightarrow> string \<Rightarrow> string \<Rightarrow> http_reply) \<Rightarrow> (delivery list \<Rightarrow> delivery list)
     \<Rightarrow> instant \<Rightarrow> instant \<Rightarrow> rat \<Rightarrow> string \<Rightarrow> string \<Rightarrow> int option \<Rightarrow> subscription list \<Rightarrow> delivery list
     \<Rightarrow> delivery list \<times> delivery_result option" where
  "attemptDelivery env cfg hmac rt vt is_json post meanwhile now later random i worker ttl subs t =
     (if \<not> isWebhookDeliveryEnabled env then (t, None)
      else
        let (t1, rows) = upd_returning (\<lambda>d. sql_true (delivery_claimable now worker i d))
              (lease_delivery now worker (coalesce ttl (LEASE_TTL_SECONDS cfg))) t
        in case first_row rows of
             None \<Rightarrow> (t1, None)
           | Some claimed \<Rightarrow>
               let failed = (\<lambda>err. (markDeliveryFailed now i err (dv_fencingToken claimed) (meanwhile t1), None))
               in (case sel_one (\<lambda>sb. sb_id sb = dv_subscriptionId claimed) subs of
                     None \<Rightarrow> failed ''subscription_not_found''
                   | Some sb \<Rightarrow>
                       if \<not> sb_active sb then failed ''subscription_inactive''
                       else
                         let payloadJson = reconstructPayload is_json (dv_payloadHash claimed)
                         in case sign_delivery hmac rt vt now payloadJson sb of
                              None \<Rightarrow> failed ''secret_decrypt_failed''
                            | Some signature \<Rightarrow>
                                let reply = post (sb_url sb) signature (take 16 (dv_payloadHash claimed)) payloadJson;
                                    (t2, res) = settle_attempt cfg later random claimed reply (meanwhile t1)
                                in (t2, Some res)))"

section \<open>The worker routes\<close>

definition claim_delivery ::
  "environment \<Rightarrow> webhook_settings \<Rightarrow> instant \<Rightarrow> string option \<Rightarrow> request_body \<Rightarrow> string \<Rightarrow> market \<Rightarrow> delivery list
     \<Rightarrow> delivery list \<times> (http_error + delivery)" where
  "claim_delivery env cfg now header body i m t =
     (if \<not> isWebhookDeliveryEnabled env then (t, Inl (503, ''Webhook delivery is disabled''))
      else case authenticated header claimJobSchema body m of
        Inl e \<Rightarrow> (t, Inl e)
      | Inr (caller, ttl) \<Rightarrow>
          let (t1, rows) = upd_returning (\<lambda>d. sql_true (delivery_claimable now caller i d))
                (lease_delivery now caller (coalesce ttl (LEASE_TTL_SECONDS cfg))) t
          in case first_row rows of
               Some claimed \<Rightarrow> (t1, Inr claimed)
             | None \<Rightarrow>
                 if sel_one (\<lambda>d. dv_id d = i) t1 = None then (t1, Inl (404, ''Delivery not found''))
                 else (t1, Inl (409, ''Delivery is already claimed by another worker'')))"

definition heartbeat_delivery ::
  "webhook_settings \<Rightarrow> instant \<Rightarrow> string option \<Rightarrow> request_body \<Rightarrow> string \<Rightarrow> market \<Rightarrow> delivery list
     \<Rightarrow> delivery list \<times> (http_error + instant option)" where
  "heartbeat_delivery cfg now header body i m t =
     (case authenticated header fencingSchema body m of
        Inl e \<Rightarrow> (t, Inl e)
      | Inr (caller, token) \<Rightarrow>
          let newExpiry = now + LEASE_HEARTBEAT_SECONDS cfg * 1000;
              (t1, rows) = upd_returning
                (\<lambda>d. dv_id d = i \<and> dv_leasedBy d = Some caller \<and> dv_fencingToken d = token \<and> retryable_delivery d)
                (\<lambda>d. d\<lparr>dv_leaseExpiresAt := Some newExpiry\<rparr>) t
          in case first_row rows of
               None \<Rightarrow> (t1, Inl (409, ''Lease not held or fencing token mismatch''))
             | Some renewed \<Rightarrow> (t1, Inr (dv_leaseExpiresAt renewed)))"

definition nullable_text_field :: "nat \<Rightarrow> json option \<Rightarrow> string option option" where
  "nullable_text_field n v =
     (case v of None \<Rightarrow> Some None | Some JNull \<Rightarrow> Some None
      | Some (JStr s) \<Rightarrow> if length s \<le> n then Some (Some s) else None | _ \<Rightarrow> None)"

text \<open>A field that may be missing (\<open>None\<close>) or null (\<open>Some None\<close>).\<close>

definition nullable_int_field :: "json option \<Rightarrow> int option option option" where
  "nullable_int_field v =
     (case v of None \<Rightarrow> Some None | Some JNull \<Rightarrow> Some (Some None)
      | Some (JNum n) \<Rightarrow> Some (Some (Some n)) | _ \<Rightarrow> None)"

record submitted_result =
  su_statusCode :: "int option option"
  su_error :: "string option"
  su_responseBody :: "string option"
  su_fencingToken :: int

definition submitResultSchema :: "json \<Rightarrow> submitted_result option" where
  "submitResultSchema v =
     (case object_fields v of
        None \<Rightarrow> None
      | Some field \<Rightarrow>
          (case (nullable_int_field (field ''statusCode''), nullable_text_field 2000 (field ''error''),
                 nullable_text_field 1024 (field ''responseBody''), int_field (\<lambda>n. 0 \<le> n) (field ''fencingToken'')) of
             (Some c, Some e, Some b, Some token) \<Rightarrow>
               Some \<lparr>su_statusCode = c, su_error = e, su_responseBody = b, su_fencingToken = token\<rparr>
           | _ \<Rightarrow> None))"

definition submit_delivery_result ::
  "webhook_settings \<Rightarrow> (delivery list \<Rightarrow> delivery list) \<Rightarrow> instant \<Rightarrow> rat \<Rightarrow> string option \<Rightarrow> json option \<Rightarrow> string
     \<Rightarrow> market \<Rightarrow> delivery list \<Rightarrow> delivery list \<times> (http_error + (string \<times> int \<times> instant option))" where
  "submit_delivery_result cfg meanwhile now random header body i m t =
     (case resolveCallerTalos header m of
        None \<Rightarrow> (t, Inl (401, ''Missing or invalid Authorization''))
      | Some caller \<Rightarrow>
          (case (case body of None \<Rightarrow> None | Some v \<Rightarrow> submitResultSchema v) of
             None \<Rightarrow> (t, Inl (400, ''Invalid request body''))
           | Some b \<Rightarrow>
               (case sel_one (\<lambda>d. dv_id d = i) t of
                  None \<Rightarrow> (t, Inl (404, ''Delivery not found''))
                | Some d0 \<Rightarrow>
                    if dv_fencingToken d0 \<noteq> su_fencingToken b then (t, Inl (409, ''Fencing token mismatch''))
                    else
                      let sc = coalesce (coalesce (su_statusCode b) None) 0;
                          newAttempts = dv_attempts d0 + 1;
                          budget = (if dv_maxAttempts d0 = 0 then DEFAULT_MAX_ATTEMPTS cfg else dv_maxAttempts d0);
                          newStatus = (if is_success (Some sc) then ''delivered''
                            else if newAttempts \<ge> budget then ''dead_letter'' else ''failed'');
                          nextAttemptAt = (if newStatus = ''failed''
                            then Some (calculateBackoff cfg now random newAttempts) else None)
                      in (upd (fenced_delivery i (su_fencingToken b))
                            (\<lambda>d. d\<lparr>dv_status := newStatus, dv_attempts := newAttempts,
                                   dv_lastStatusCode := coalesce (su_statusCode b) (dv_lastStatusCode d), dv_lastError := su_error b,
                                   dv_responseBody := su_responseBody b, dv_lastAttemptAt := Some now,
                                   dv_nextAttemptAt := nextAttemptAt,
                                   dv_completedAt := (if newStatus \<noteq> ''failed'' then Some now else None),
                                   dv_leasedBy := None, dv_leasedAt := None, dv_leaseExpiresAt := None\<rparr>)
                            (meanwhile t),
                          Inr (newStatus, newAttempts, nextAttemptAt)))))"

text \<open>The listing a worker polls; \<open>limit\<close> is the validated query parameter.\<close>

definition delivery_listed :: "instant \<Rightarrow> string \<Rightarrow> instant option \<Rightarrow> delivery \<Rightarrow> bool" where
  "delivery_listed now caller cursor d \<longleftrightarrow>
     retryable_delivery d \<and>
     (case dv_nextAttemptAt d of None \<Rightarrow> True | Some n \<Rightarrow> n \<le> now) \<and>
     sql_true (sql_or (sql_eq (dv_leasedBy d) None)
       (sql_or (sql_eq (dv_leasedBy d) (Some caller))
         (sql_cmp (<) (dv_leaseExpiresAt d) (Some now)))) \<and>
     (case cursor of None \<Rightarrow> True | Some c \<Rightarrow> dv_createdAt d > c)"

definition pending_deliveries ::
  "environment \<Rightarrow> instant \<Rightarrow> string option \<Rightarrow> instant option \<Rightarrow> nat \<Rightarrow> market \<Rightarrow> delivery list
     \<Rightarrow> http_error + (delivery list \<times> instant option)" where
  "pending_deliveries env now header cursor limit m t =
     (if \<not> isWebhookDeliveryEnabled env then Inr ([], None)
      else case resolveCallerTalos header m of
        None \<Rightarrow> Inl (401, ''Missing or invalid Authorization'')
      | Some caller \<Rightarrow>
          let rows = take (limit + 1) (sort_key dv_createdAt (sel (delivery_listed now caller cursor) t));
              hasMore = length rows > limit;
              page = (if hasMore then take limit rows else rows)
          in Inr (page, if hasMore \<and> page \<noteq> [] then Some (dv_createdAt (last page)) else None))"

end
