(* ===== verification/Webhook_Facts.thy ===== *)
theory Webhook_Facts
  imports Webhook_Delivery
begin

text \<open>
  Properties of the webhook deliveries of Webhook_Delivery: what one attempt does and when it is
  retried, fencing of stale workers, and what the two defects of the worker routes lead to.
\<close>

section \<open>Backoff\<close>

lemma backoff_range:
  assumes "settings_ok cfg" "1 \<le> n" "0 \<le> q" "q < 1"
  shows "now \<le> calculateBackoff cfg now q n" "calculateBackoff cfg now q n \<le> now + 108000000"
    "4 * (calculateBackoff cfg now q n - now) \<le> 5 * min (BACKOFF_BASE_MS cfg * 2 ^ nat (n - 1)) (BACKOFF_MAX_MS cfg)"
proof -
  let ?d = "min (BACKOFF_BASE_MS cfg * 2 ^ nat (n - 1)) (BACKOFF_MAX_MS cfg)"
  let ?j = "of_int ?d * (3 / 4 + q / 2) :: rat"
  have d: "0 \<le> ?d" "?d \<le> 86400000" using assms(1) by (auto simp: settings_ok_def)
  have j0: "0 \<le> ?j" using d(1) assms(3) by (intro mult_nonneg_nonneg) simp_all
  have "?j \<le> of_int ?d * (5 / 4)" using d(1) assms(4) by (intro mult_left_mono) auto
  then have j1: "4 * ?j \<le> of_int (5 * ?d)" by simp
  let ?b = "calculateBackoff cfg now q n"
  have b: "?b = \<lfloor>of_int now + ?j\<rfloor>" by (simp add: calculateBackoff_def Let_def)
  show "now \<le> ?b" using j0 by (simp add: b le_floor_iff)
  have "of_int ?b \<le> of_int now + ?j" unfolding b by (rule of_int_floor_le)
  then have "of_int (4 * (?b - now)) \<le> (of_int (5 * ?d) :: rat)" using j1 by simp
  then show four: "4 * (?b - now) \<le> 5 * ?d" by (simp only: of_int_le_iff)
  have "5 * ?d \<le> 5 * 86400000" using d(2) by (rule mult_left_mono) simp
  with four have "4 * (?b - now) \<le> 5 * 86400000" by (rule order.trans)
  then show "?b \<le> now + 108000000" by simp
qed

section \<open>One attempt\<close>

lemma fenced_upd_frame:
  assumes "\<And>d. dv_id (f d) = dv_id d"
  shows "filter (\<lambda>d. dv_id d \<noteq> i) (upd (fenced_delivery i token) f t) = filter (\<lambda>d. dv_id d \<noteq> i) t"
  by (rule filter_upd_disjoint) (simp_all add: fenced_delivery_def assms)

lemma fenced_upd_stale:
  "\<forall>d \<in> set t. dv_id d = i \<longrightarrow> dv_fencingToken d \<noteq> token \<Longrightarrow> upd (fenced_delivery i token) f t = t"
  by (rule upd_none) (auto simp: fenced_delivery_def)

lemma attempt_cases:
  assumes "attemptDelivery env cfg hmac rt vt is_json post meanwhile now later random i worker ttl subs t = (t', res)"
  obtains (idle) "res = None" "t' = t \<or> t' = fst (upd_returning (\<lambda>d. sql_true (delivery_claimable now worker i d))
        (lease_delivery now worker (coalesce ttl (LEASE_TTL_SECONDS cfg))) t)"
      "\<not> isWebhookDeliveryEnabled env \<or> filter (\<lambda>d. sql_true (delivery_claimable now worker i d)) t = []"
  | (failed) t1 d err where "res = None" "d \<in> set t" "dv_id d = i" "retryable_delivery d"
      "t1 = upd (\<lambda>d. sql_true (delivery_claimable now worker i d))
        (lease_delivery now worker (coalesce ttl (LEASE_TTL_SECONDS cfg))) t"
      "t' = markDeliveryFailed now i err (dv_fencingToken d + 1) (meanwhile t1)"
  | (posted) t1 d sb signature reply r where "res = Some r" "d \<in> set t" "dv_id d = i" "retryable_delivery d"
      "t1 = upd (\<lambda>d. sql_true (delivery_claimable now worker i d))
        (lease_delivery now worker (coalesce ttl (LEASE_TTL_SECONDS cfg))) t"
      "sb \<in> set subs" "sb_id sb = dv_subscriptionId d" "sb_active sb"
      "sign_delivery hmac rt vt now (reconstructPayload is_json (dv_payloadHash d)) sb = Some signature"
      "reply = post (sb_url sb) signature (take 16 (dv_payloadHash d)) (reconstructPayload is_json (dv_payloadHash d))"
      "settle_attempt cfg later random (lease_delivery now worker (coalesce ttl (LEASE_TTL_SECONDS cfg)) d)
         reply (meanwhile t1) = (t', r)"
proof (cases "isWebhookDeliveryEnabled env")
  case False
  then show thesis using assms idle by (simp add: attemptDelivery_def)
next
  case True
  let ?lease = "lease_delivery now worker (coalesce ttl (LEASE_TTL_SECONDS cfg))"
  let ?P = "\<lambda>d. sql_true (delivery_claimable now worker i d)"
  show thesis
  proof (cases "filter ?P t")
    case Nil
    then have "first_row (snd (upd_returning ?P ?lease t)) = None" by (simp add: upd_returning_def)
    then show thesis using assms True Nil idle
      by (simp add: attemptDelivery_def case_prod_beta)
  next
    case (Cons d ds)
    have d: "d \<in> set t" "?P d"
      using Cons by (metis filter_eq_ConsD in_set_conv_decomp)+
    then have id: "dv_id d = i" "retryable_delivery d" by (auto simp: delivery_claimable_def)
    have row: "first_row (map ?lease (filter ?P t)) = Some (?lease d)" using Cons by simp
    have frame: "dv_fencingToken (?lease d) = dv_fencingToken d + 1" "dv_subscriptionId (?lease d) = dv_subscriptionId d"
      "dv_payloadHash (?lease d) = dv_payloadHash d"
      by (simp_all add: lease_delivery_def)
    show thesis
      using assms True d(1) id
      by (auto simp: attemptDelivery_def upd_returning_def row frame Let_def dest!: find_SomeD
          split: option.splits if_splits prod.splits intro: failed posted)
  qed
qed

text \<open>How a reply to an attempt on \<open>d\<close> is classified, and the row it is recorded in.\<close>

definition outcome_of :: "http_reply \<Rightarrow> delivery \<Rightarrow> delivery_result \<Rightarrow> bool" where
  "outcome_of reply d res \<longleftrightarrow>
     de_attempts res = dv_attempts d + 1 \<and>
     (de_status res = ''delivered'' \<longleftrightarrow> (\<exists>c b. reply = HttpReply c b \<and> 200 \<le> c \<and> c < 500)) \<and>
     (de_status res = ''dead_letter'' \<longleftrightarrow> de_status res \<noteq> ''delivered'' \<and> dv_maxAttempts d \<le> de_attempts res) \<and>
     de_status res \<in> {''delivered'', ''dead_letter'', ''failed''}"

definition recorded_row :: "webhook_settings \<Rightarrow> instant \<Rightarrow> delivery \<Rightarrow> delivery_result \<Rightarrow> delivery \<Rightarrow> bool" where
  "recorded_row cfg later d res y \<longleftrightarrow>
     dv_id y = dv_id d \<and> dv_status y = de_status res \<and> dv_attempts y = de_attempts res \<and>
     (case dv_nextAttemptAt y of
        None \<Rightarrow> de_status res \<noteq> ''failed''
      | Some n \<Rightarrow> de_status res = ''failed'' \<and> later \<le> n \<and>
          4 * (n - later) \<le> 5 * min (BACKOFF_BASE_MS cfg * 2 ^ nat (dv_attempts d)) (BACKOFF_MAX_MS cfg))"

lemma settle_attempt_update:
  assumes "settle_attempt cfg later random (lease_delivery now worker ttl d) reply t2 = (t', res)"
    "settings_ok cfg" "0 \<le> random" "random < 1" "0 \<le> dv_attempts d"
  shows "outcome_of reply d res"
    "\<exists>f. t' = upd (fenced_delivery (dv_id d) (dv_fencingToken d + 1)) f t2 \<and>
       (\<forall>x. dv_id (f x) = dv_id x \<and> (dv_id x = dv_id d \<longrightarrow> recorded_row cfg later d res (f x)))"
proof -
  show "outcome_of reply d res"
    using assms(1) by (cases reply) (auto simp: outcome_of_def settle_attempt_def lease_delivery_def is_success_def Let_def split: if_splits)
  have "1 \<le> dv_attempts d + 1" using assms(5) by simp
  note delay = backoff_range(1,3) [OF assms(2) this assms(3,4), of later]
  obtain f where "t' = upd (fenced_delivery (dv_id d) (dv_fencingToken d + 1)) f t2"
    and "\<And>x. dv_id (f x) = dv_id x \<and> dv_status (f x) = de_status res \<and> dv_attempts (f x) = de_attempts res \<and>
      dv_nextAttemptAt (f x) = (if de_status res = ''failed''
        then Some (calculateBackoff cfg later random (dv_attempts d + 1)) else None)"
    using assms(1)
    by (cases reply) (auto simp: settle_attempt_def lease_delivery_def is_success_def Let_def)
  then show "\<exists>f. t' = upd (fenced_delivery (dv_id d) (dv_fencingToken d + 1)) f t2 \<and>
       (\<forall>x. dv_id (f x) = dv_id x \<and> (dv_id x = dv_id d \<longrightarrow> recorded_row cfg later d res (f x)))"
    using delay by (auto simp: recorded_row_def intro!: exI [of _ f])
qed

text \<open>One attempt: the request is signed with the secrets of the delivery's active subscription; a
  result is delivered exactly when the reply's status is in [200, 500), otherwise dead-lettered
  exactly when the attempts are used up, otherwise failed; it is recorded only in the row of that
  delivery and only while the row still carries the fencing token of this attempt's claim, with the
  next attempt no later than five quarters of the capped exponential delay ahead.\<close>

theorem attempt_outcome_exact:
  assumes "attemptDelivery env cfg hmac rt vt is_json post (\<lambda>_. t2) now later random i worker ttl subs t = (t', Some res)"
    "settings_ok cfg" "0 \<le> random" "random < 1" "\<forall>d \<in> set t. 0 \<le> dv_attempts d"
  shows "\<exists>d \<in> set t. \<exists>sb \<in> set subs. \<exists>signature reply.
       dv_id d = i \<and> retryable_delivery d \<and> sb_id sb = dv_subscriptionId d \<and> sb_active sb \<and>
       sign_delivery hmac rt vt now (reconstructPayload is_json (dv_payloadHash d)) sb = Some signature \<and>
       reply = post (sb_url sb) signature (take 16 (dv_payloadHash d)) (reconstructPayload is_json (dv_payloadHash d)) \<and>
       outcome_of reply d res \<and>
       (\<exists>f. t' = upd (fenced_delivery i (dv_fencingToken d + 1)) f t2 \<and>
          (\<forall>x. dv_id (f x) = dv_id x \<and> (dv_id x = i \<longrightarrow> recorded_row cfg later d res (f x))))"
  using assms(1)
proof (cases rule: attempt_cases)
  case (posted t1 d sb signature reply r)
  have "0 \<le> dv_attempts d" using assms(5) posted(2) by simp
  note settled = settle_attempt_update [OF posted(11) assms(2-4) this]
  have "r = res" using posted(1) by simp
  then show ?thesis using settled posted(2-10) by blast
qed simp_all

section \<open>Fencing\<close>

lemma claim_delivery_row:
  assumes "claim_delivery env cfg now header body i m t = (t', Inr c)" "distinct (map dv_id t)"
  shows "\<exists>d \<in> set t. dv_id d = i \<and> dv_id c = i \<and> dv_fencingToken c = dv_fencingToken d + 1"
    "\<forall>x \<in> set t'. dv_id x = i \<longrightarrow> x = c" "c \<in> set t'" "distinct (map dv_id t')"
proof -
  obtain caller ttl d ds where t': "t' = upd (\<lambda>d. sql_true (delivery_claimable now caller i d))
      (lease_delivery now caller (coalesce ttl (LEASE_TTL_SECONDS cfg))) t"
    and row: "filter (\<lambda>d. sql_true (delivery_claimable now caller i d)) t = d # ds"
    and c: "c = lease_delivery now caller (coalesce ttl (LEASE_TTL_SECONDS cfg)) d"
    using assms(1)
    by (auto simp: claim_delivery_def upd_returning_def first_row_def split: if_splits sum.splits list.splits)
  have d: "d \<in> set t" "sql_true (delivery_claimable now caller i d)"
    using row by (metis filter_eq_ConsD in_set_conv_decomp)+
  then have i: "dv_id d = i" by (simp add: delivery_claimable_def)
  show "\<exists>d \<in> set t. dv_id d = i \<and> dv_id c = i \<and> dv_fencingToken c = dv_fencingToken d + 1"
    using d(1) i by (auto simp: c lease_delivery_def)
  show "c \<in> set t'" using d by (auto simp: t' c set_upd)
  show "\<forall>x \<in> set t'. dv_id x = i \<longrightarrow> x = c"
  proof (intro ballI impI)
    fix x assume "x \<in> set t'" "dv_id x = i"
    then obtain y where y: "y \<in> set t" "dv_id y = i"
        "x = (if sql_true (delivery_claimable now caller i y)
          then lease_delivery now caller (coalesce ttl (LEASE_TTL_SECONDS cfg)) y else y)"
      by (auto simp: t' set_upd lease_delivery_def)
    then have "y = d" using distinct_key_unique [OF assms(2) _ d(1)] i by simp
    then show "x = c" using y(3) d(2) c by simp
  qed
  show "distinct (map dv_id t')"
    using assms(2) unfolding t' by (rule distinct_upd_key) (simp add: lease_delivery_def)
qed

text \<open>Fencing: once a delivery has been claimed again, a result or a heartbeat sent with an earlier
  fencing token is refused and changes nothing.\<close>

theorem stale_result_rejected:
  assumes "distinct (map dv_id t)" "claim_delivery env cfg now header body i m t = (t', Inr c)"
    "stale < dv_fencingToken c"
  shows "submitResultSchema v = Some b \<Longrightarrow> su_fencingToken b = stale \<Longrightarrow>
      \<exists>e. submit_delivery_result cfg meanwhile later q header' (Some v) i m t' = (t', Inl e)"
    "authenticated header' fencingSchema body' m = Inr (caller, stale) \<Longrightarrow>
      \<exists>e. heartbeat_delivery cfg later header' body' i m t' = (t', Inl e)"
proof -
  note row = claim_delivery_row [OF assms(2,1)]
  show "\<exists>e. submit_delivery_result cfg meanwhile later q header' (Some v) i m t' = (t', Inl e)"
    if "submitResultSchema v = Some b" "su_fencingToken b = stale"
    using that row(2) assms(3)
    by (auto simp: submit_delivery_result_def split: option.splits dest!: find_SomeD)
  have "\<forall>x \<in> set t'. \<not> (dv_id x = i \<and> dv_leasedBy x = Some caller \<and> dv_fencingToken x = stale \<and> retryable_delivery x)"
    using row(2) assms(3) by auto
  then show "\<exists>e. heartbeat_delivery cfg later header' body' i m t' = (t', Inl e)"
    if "authenticated header' fencingSchema body' m = Inr (caller, stale)"
    using that by (simp add: heartbeat_delivery_def upd_returning_none Let_def)
qed

section \<open>Deliveries are never claimed\<close>

text \<open>Every table the delivery operations reach; whatever happens between the statements of one call
  is itself such a sequence of operations, from any reachable table.\<close>

inductive delivery_reachable :: "delivery list \<Rightarrow> bool" where
  reach_empty: "delivery_reachable []"
| reach_emit: "delivery_reachable t \<Longrightarrow>
    delivery_reachable (emitWebhookEvent env sha256 cfg now new_id ev subs t)"
| reach_claim: "delivery_reachable t \<Longrightarrow>
    delivery_reachable (fst (claim_delivery env cfg now header body i m t))"
| reach_heartbeat: "delivery_reachable t \<Longrightarrow>
    delivery_reachable (fst (heartbeat_delivery cfg now header body i m t))"
| reach_result: "delivery_reachable t \<Longrightarrow> delivery_reachable t2 \<Longrightarrow>
    delivery_reachable (fst (submit_delivery_result cfg (\<lambda>_. t2) now q header v i m t))"
| reach_attempt: "delivery_reachable t \<Longrightarrow> delivery_reachable t2 \<Longrightarrow>
    delivery_reachable (fst (attemptDelivery env cfg hmac rt vt is_json post (\<lambda>_. t2) now later q i worker ttl subs t))"

definition unclaimed :: "delivery \<Rightarrow> bool" where
  "unclaimed d \<longleftrightarrow> dv_leasedBy d = None \<and> dv_leaseExpiresAt d = None \<and> dv_fencingToken d = 0"

lemma unclaimed_not_claimable: "unclaimed d \<Longrightarrow> \<not> sql_true (delivery_claimable now worker i d)"
  by (simp add: unclaimed_def delivery_claimable_def)

lemma claim_unclaimed:
  assumes "\<forall>d \<in> set t. unclaimed d"
  shows "upd_returning (\<lambda>d. sql_true (delivery_claimable now worker i d)) f t = (t, [])"
  using assms unclaimed_not_claimable by (intro upd_returning_none) blast

lemma emit_unclaimed:
  assumes "\<forall>d \<in> set t. unclaimed d"
  shows "\<forall>d \<in> set (emitWebhookEvent env sha256 cfg now new_id ev subs t). unclaimed d"
proof -
  have "\<forall>d \<in> set (fold (\<lambda>(n, sb). insert_delivery sha256 cfg now ev (sb_id sb) (new_id n)) xs t). unclaimed d" for xs
    using assms
  proof (induction xs arbitrary: t)
    case (Cons x xs)
    have "\<forall>d \<in> set (insert_delivery sha256 cfg now ev (sb_id (snd x)) (new_id (fst x)) t). unclaimed d"
      using Cons.prems by (auto simp: insert_delivery_def Let_def unclaimed_def)
    then show ?case using Cons.IH by (simp add: case_prod_beta)
  qed simp
  then show ?thesis using assms unfolding emitWebhookEvent_def by (simp only: split: if_split) blast
qed

lemma reachable_unclaimed: "delivery_reachable t \<Longrightarrow> \<forall>d \<in> set t. unclaimed d"
proof (induction rule: delivery_reachable.induct)
  case (reach_emit t env sha256 cfg now new_id ev subs)
  then show ?case using emit_unclaimed by blast
next
  case (reach_claim t env cfg now header body i m)
  then show ?case
    by (simp add: claim_delivery_def claim_unclaimed split: sum.split)
next
  case (reach_heartbeat t cfg now header body i m)
  then have "upd_returning (\<lambda>d. dv_id d = i \<and> dv_leasedBy d = Some caller \<and> dv_fencingToken d = token \<and> retryable_delivery d) f t
      = (t, [])" for caller token f
    by (intro upd_returning_none) (auto simp: unclaimed_def)
  with reach_heartbeat show ?case by (simp add: heartbeat_delivery_def Let_def split: sum.split)
next
  case (reach_result t t2 cfg now q header v i m)
  then show ?case
    by (auto simp: submit_delivery_result_def Let_def set_upd unclaimed_def split: option.split)
next
  case (reach_attempt t t2 env cfg hmac rt vt is_json post now later q i worker ttl subs)
  then show ?case by (simp add: attemptDelivery_def claim_unclaimed)
qed simp

text \<open>Liveness: because the null test of the lease column is a comparison with NULL, no delivery that
  was ever emitted can be claimed or attempted, and none is listed to the workers, in any reachable
  table; yet any authenticated agent can mark any of them delivered with fencing token 0, without
  holding a lease and whoever owns the subscription.\<close>

theorem deliveries_never_claimed:
  assumes "delivery_reachable t"
  shows "(\<exists>e. claim_delivery env cfg now header body i m t = (t, Inl e)) \<and>
    (attemptDelivery env cfg hmac rt vt is_json post meanwhile now later q i worker ttl subs t = (t, None)) \<and>
    (pending_deliveries env now header cursor limit m t = Inr (page, next) \<longrightarrow> page = []) \<and>
    (resolveCallerTalos header m = Some caller \<longrightarrow> d \<in> set t \<longrightarrow> dv_id d = i \<longrightarrow> (\<exists>t' n. submit_delivery_result cfg id now q header
           (Some (JObj [(''statusCode'', JNum 200), (''fencingToken'', JNum 0)])) i m t
           = (t', Inr (''delivered'', n, None)) \<and>
         (\<exists>x \<in> set t'. dv_id x = i \<and> dv_status x = ''delivered'')))"
proof -
  note un = reachable_unclaimed [OF assms]
  have c1: "\<exists>e. claim_delivery env cfg now header body i m t = (t, Inl e)"
    by (simp add: claim_delivery_def claim_unclaimed [OF un] split: sum.split)
  have c2: "attemptDelivery env cfg hmac rt vt is_json post meanwhile now later q i worker ttl subs t = (t, None)"
    by (simp add: attemptDelivery_def claim_unclaimed [OF un])
  have "filter (delivery_listed now c cursor) t = []" for c
    using un by (auto simp: filter_empty_conv delivery_listed_def unclaimed_def)
  then have c3: "pending_deliveries env now header cursor limit m t = Inr (page, next) \<Longrightarrow> page = []"
    by (auto simp: pending_deliveries_def Let_def split: if_splits option.splits)
  have c4: "\<exists>t' n. submit_delivery_result cfg id now q header
           (Some (JObj [(''statusCode'', JNum 200), (''fencingToken'', JNum 0)])) i m t
           = (t', Inr (''delivered'', n, None)) \<and>
         (\<exists>x \<in> set t'. dv_id x = i \<and> dv_status x = ''delivered'')"
    if caller: "resolveCallerTalos header m = Some caller" and d: "d \<in> set t" "dv_id d = i"
  proof -
  obtain d0 where d0: "sel_one (\<lambda>d. dv_id d = i) t = Some d0"
    using d by (cases "sel_one (\<lambda>d. dv_id d = i) t") (auto simp: find_None_iff)
  then have "unclaimed d0" "dv_id d0 = i" "d0 \<in> set t" using un by (auto dest: find_SomeD)
  moreover have "submitResultSchema (JObj [(''statusCode'', JNum 200), (''fencingToken'', JNum 0)]) =
      Some \<lparr>su_statusCode = Some (Some 200), su_error = None, su_responseBody = None, su_fencingToken = 0\<rparr>"
    by (simp add: submitResultSchema_def nullable_int_field_def nullable_text_field_def int_field_def)
  ultimately obtain f n where run: "submit_delivery_result cfg id now q header
       (Some (JObj [(''statusCode'', JNum 200), (''fencingToken'', JNum 0)])) i m t
       = (upd (fenced_delivery i 0) f t, Inr (''delivered'', n, None))"
     and f: "\<And>x. dv_id (f x) = dv_id x \<and> dv_status (f x) = ''delivered''"
    using caller d0 by (auto simp: submit_delivery_result_def is_success_def unclaimed_def Let_def)
  have "f d0 \<in> set (upd (fenced_delivery i 0) f t)"
    using \<open>unclaimed d0\<close> \<open>dv_id d0 = i\<close> \<open>d0 \<in> set t\<close> by (auto simp: set_upd fenced_delivery_def unclaimed_def)
  then show ?thesis
    using run f \<open>dv_id d0 = i\<close> by fastforce
  qed
  show ?thesis using c1 c2 c3 c4 by blast
qed

section \<open>Concrete deliveries\<close>

definition toy_sha256 :: "string \<Rightarrow> string" where
  "toy_sha256 s = replicate 64 (if length s mod 2 = 0 then CHR ''0'' else CHR ''f'')"

definition webhooks_on :: environment where
  "webhooks_on = (\<lambda>n. if n = ''WEBHOOK_DELIVERY_ENABLED'' then Some ''true'' else None)"

definition sample_event :: webhook_event where
  "sample_event = \<lparr>we_type = ''job.completed'', we_talosId = ''t1'', we_payload = ''{}''\<rparr>"

definition emitted :: "delivery list" where
  "emitted = emitWebhookEvent webhooks_on toy_sha256 plain_settings 1000 (\<lambda>n. ''d1'') sample_event [sample_subscription] []"

definition market_with_worker :: market where
  "market_with_worker = \<lparr>mk_agents = [\<lparr>ag_id = ''stranger'', ag_status = ''Active'', ag_apiKey = Some ''k'',
       ag_agentOnline = True, ag_agentLastSeen = None, ag_agentWalletId = None, ag_agentWalletAddress = None\<rparr>],
     mk_services = [], mk_jobs = [], mk_revenues = [], mk_inputs = []\<rparr>"

lemma emitted_row: "map dv_id emitted = [''d1'']" "map dv_attempts emitted = [0]"
  by (simp_all add: emitted_def emitWebhookEvent_def webhooks_on_def isWebhookDeliveryEnabled_def sample_event_def
      plain_settings_def subscribed_def sample_subscription_def insert_delivery_def enumerate_eq_zip Let_def)

theorem deliveries_never_claimed_witness:
  "(\<exists>e. claim_delivery webhooks_on plain_settings 2000 (Some ''Bearer k'')
      \<lparr>rb_declared = None, rb_bytes = 2, rb_json = Some (JObj [])\<rparr> ''d1'' market_with_worker emitted = (emitted, Inl e)) \<and>
   (\<exists>t' n. submit_delivery_result plain_settings id 2000 (1/2) (Some ''Bearer k'')
      (Some (JObj [(''statusCode'', JNum 200), (''fencingToken'', JNum 0)])) ''d1'' market_with_worker emitted
      = (t', Inr (''delivered'', n, None)))"
proof -
  have r: "delivery_reachable emitted" unfolding emitted_def by (intro reach_emit reach_empty)
  have caller: "resolveCallerTalos (Some ''Bearer k'') market_with_worker = Some ''stranger''" by code_simp
  obtain d where "d \<in> set emitted" "dv_id d = ''d1''"
    using emitted_row(1) by (metis list.set_intros(1) map_eq_Cons_conv)
  then show ?thesis
    using deliveries_never_claimed [OF r, THEN conjunct2, THEN conjunct2, THEN conjunct2, rule_format, OF caller, of d "''d1''"]
      deliveries_never_claimed [OF r, THEN conjunct1] by metis
qed

text \<open>A row whose earlier lease ran out: the only kind that can be claimed.\<close>

definition once_leased :: "delivery list" where
  "once_leased = map (\<lambda>d. d\<lparr>dv_leasedBy := Some ''gone'', dv_leaseExpiresAt := Some 1500, dv_fencingToken := 1\<rparr>) emitted"

theorem stale_result_rejected_witness:
  "\<exists>t' c e. claim_delivery webhooks_on plain_settings 2000 (Some ''Bearer k'')
      \<lparr>rb_declared = None, rb_bytes = 2, rb_json = Some (JObj [])\<rparr> ''d1'' market_with_worker once_leased = (t', Inr c) \<and>
    dv_fencingToken c = 2 \<and>
    submit_delivery_result plain_settings id 3000 (1/2) (Some ''Bearer k'')
      (Some (JObj [(''statusCode'', JNum 200), (''fencingToken'', JNum 1)])) ''d1'' market_with_worker t' = (t', Inl e)"
proof -
  let ?body = "\<lparr>rb_declared = None, rb_bytes = 2, rb_json = Some (JObj [])\<rparr>"
  obtain t' c where run: "claim_delivery webhooks_on plain_settings 2000 (Some ''Bearer k'') ?body ''d1'' market_with_worker once_leased
      = (t', Inr c)" and token: "dv_fencingToken c = 2"
  proof -
    have "case claim_delivery webhooks_on plain_settings 2000 (Some ''Bearer k'') ?body ''d1'' market_with_worker once_leased of
        (t', Inr c) \<Rightarrow> dv_fencingToken c = 2 | _ \<Rightarrow> False"
      by code_simp
    then show thesis using that by (auto split: prod.splits sum.splits)
  qed
  have ids: "distinct (map dv_id once_leased)" by (simp add: once_leased_def comp_def emitted_row)
  have body: "submitResultSchema (JObj [(''statusCode'', JNum 200), (''fencingToken'', JNum 1)]) =
      Some \<lparr>su_statusCode = Some (Some 200), su_error = None, su_responseBody = None, su_fencingToken = 1\<rparr>"
    by (simp add: submitResultSchema_def nullable_int_field_def nullable_text_field_def int_field_def)
  have "1 < dv_fencingToken c" using token by simp
  then have "\<exists>e. submit_delivery_result plain_settings id 3000 (1/2) (Some ''Bearer k'')
      (Some (JObj [(''statusCode'', JNum 200), (''fencingToken'', JNum 1)])) ''d1'' market_with_worker t' = (t', Inl e)"
    by (rule stale_result_rejected(1) [OF ids run _ body]) simp
  then show ?thesis using run token by blast
qed

theorem attempt_outcome_exact_witness:
  "\<exists>t' r. attemptDelivery webhooks_on plain_settings toy_hmac plain_runtime toy_vault (\<lambda>_. False)
      (\<lambda>url sig hint body. HttpReply 503 None) (\<lambda>_. once_leased) 2000 2500 (1/2) ''d1'' ''w'' None
      [sample_subscription] once_leased = (t', Some r) \<and> de_status r = ''failed'' \<and> de_attempts r = 1"
proof -
  let ?post = "\<lambda>url sig hint body. HttpReply 503 None"
  let ?run = "attemptDelivery webhooks_on plain_settings toy_hmac plain_runtime toy_vault (\<lambda>_. False)
      ?post (\<lambda>_. once_leased) 2000 2500 (1/2) ''d1'' ''w'' None [sample_subscription] once_leased"
  have "case ?run of (t', Some r) \<Rightarrow> True | _ \<Rightarrow> False" by code_simp
  then obtain t' r where run: "?run = (t', Some r)" by (auto split: prod.splits option.splits)
  have rows: "\<forall>d \<in> set once_leased. dv_attempts d = 0 \<and> dv_maxAttempts d = 5" by code_simp
  obtain d where d: "d \<in> set once_leased" "outcome_of (HttpReply 503 None) d r"
    using attempt_outcome_exact [OF run plain_settings_ok] rows by force
  have "dv_attempts d = 0" "dv_maxAttempts d = 5" using rows d(1) by simp_all
  then have "de_attempts r = 1" "de_status r = ''failed''" using d(2) by (auto simp: outcome_of_def)
  then show ?thesis using run by blast
qed

end
