(* ===== verification/Audit_Chain.thy ===== *)
theory Audit_Chain
  imports Json_Text Db_Retry
begin

text \<open>
  The tamper-evident audit log: web/src/lib/audit-chain.ts (canonical form, entry hash, verification,
  root seal), the chained and plain writers of web/src/lib/auth.ts, the queued writer of
  web/src/lib/jobs/handlers/audit-log.ts and the verification of
  web/src/app/api/talos/[id]/audit/verify/route.ts and the root seal of audit/checkpoint/route.ts, over the rows of tls_api_audit_logs.

  SHA-256, HMAC and \<open>iso8601\<close> (Date.prototype.toISOString) are parameters.
\<close>

section \<open>Entries and their hashes\<close>

record audit_row =
  al_talosId :: string
  al_method :: string
  al_path :: string
  al_statusCode :: int
  al_denialReason :: "string option"
  al_scopesRequired :: "string list option"
  al_ipAddress :: "string option"
  al_sequenceNumber :: "int option"
  al_previousHash :: "string option"
  al_entryHash :: "string option"
  al_chainVersion :: "string option"
  al_createdAt :: instant

definition AUDIT_CHAIN_DOMAIN :: string where "AUDIT_CHAIN_DOMAIN = ''talos.audit.v1''"
definition AUDIT_CHAIN_VERSION :: string where "AUDIT_CHAIN_VERSION = ''1''"
definition GENESIS_HASH :: string where "GENESIS_HASH = ''GENESIS''"

record chain_entry =
  ce_sequenceNumber :: int
  ce_talosId :: string
  ce_method :: string
  ce_path :: string
  ce_statusCode :: int
  ce_ipAddress :: "string option"
  ce_createdAt :: string

definition canonicalize :: "chain_entry \<Rightarrow> string" where
  "canonicalize e =
     ''{'' @ json_entry ''sequenceNumber'' (int_string (ce_sequenceNumber e)) @ '','' @
     json_entry ''talosId'' (json_quote (ce_talosId e)) @ '','' @
     json_entry ''method'' (json_quote (ce_method e)) @ '','' @
     json_entry ''path'' (json_quote (ce_path e)) @ '','' @
     json_entry ''statusCode'' (int_string (ce_statusCode e)) @ '','' @
     json_entry ''ipAddress'' (json_nullable (ce_ipAddress e)) @ '','' @
     json_entry ''createdAt'' (json_quote (ce_createdAt e)) @ ''}''"

definition computeEntryHash :: "(string \<Rightarrow> string) \<Rightarrow> chain_entry \<Rightarrow> string" where
  "computeEntryHash sha256 e = sha256 (AUDIT_CHAIN_DOMAIN @ '':'' @ canonicalize e)"

definition sealChainRoot :: "(string \<Rightarrow> string \<Rightarrow> string) \<Rightarrow> string \<Rightarrow> string \<Rightarrow> string" where
  "sealChainRoot hmac entryHash hmacSecret = hmac hmacSecret entryHash"

text \<open>The canonical form determines the entry.\<close>

lemma canonicalize_inj: "canonicalize e = canonicalize e' \<longleftrightarrow> e = e'"
proof
  assume eq: "canonicalize e = canonicalize e'"
  have "ce_sequenceNumber e = ce_sequenceNumber e' \<and> ce_talosId e = ce_talosId e' \<and> ce_method e = ce_method e' \<and>
      ce_path e = ce_path e' \<and> ce_statusCode e = ce_statusCode e' \<and> ce_ipAddress e = ce_ipAddress e' \<and>
      ce_createdAt e = ce_createdAt e'"
    using eq by (simp add: canonicalize_def json_entry_def int_before_comma json_quote_inj json_quote_eq json_nullable_inj)
  then show "e = e'" by (cases e; cases e') simp
qed simp

section \<open>Verification\<close>

record chain_result =
  cr_valid :: bool
  cr_totalEntries :: nat
  cr_verifiedEntries :: nat
  cr_brokenAtSequence :: "int option"
  cr_chainVersion :: "string option"

definition unchained :: "audit_row \<Rightarrow> bool" where
  "unchained r \<longleftrightarrow> al_sequenceNumber r = None \<or> \<not> truthy_str (al_entryHash r) \<or>
     \<not> truthy_str (al_previousHash r) \<or> \<not> truthy_str (al_chainVersion r)"

definition entry_of :: "(instant \<Rightarrow> string) \<Rightarrow> audit_row \<Rightarrow> chain_entry" where
  "entry_of iso8601 r =
     \<lparr>ce_sequenceNumber = the (al_sequenceNumber r), ce_talosId = al_talosId r, ce_method = al_method r,
      ce_path = al_path r, ce_statusCode = al_statusCode r, ce_ipAddress = al_ipAddress r,
      ce_createdAt = iso8601 (al_createdAt r)\<rparr>"

text \<open>The loop over the rows: the first broken row and the number verified before it, or the number
  verified altogether.\<close>

fun verify_rows ::
  "(string \<Rightarrow> string) \<Rightarrow> (instant \<Rightarrow> string) \<Rightarrow> string option \<Rightarrow> int \<Rightarrow> nat \<Rightarrow> audit_row list \<Rightarrow> (audit_row \<times> nat) + nat" where
  "verify_rows sha256 iso8601 previousEntryHash chainIndex verifiedCount [] = Inr verifiedCount"
| "verify_rows sha256 iso8601 previousEntryHash chainIndex verifiedCount (row # rows) =
     (if unchained row then verify_rows sha256 iso8601 previousEntryHash chainIndex verifiedCount rows
      else if the (al_sequenceNumber row) \<noteq> chainIndex then Inl (row, verifiedCount)
      else if the (al_previousHash row) \<noteq> coalesce previousEntryHash GENESIS_HASH then Inl (row, verifiedCount)
      else if computeEntryHash sha256 (entry_of iso8601 row) \<noteq> the (al_entryHash row) then Inl (row, verifiedCount)
      else verify_rows sha256 iso8601 (al_entryHash row) (chainIndex + 1) (verifiedCount + 1) rows)"

definition verifyChain :: "(string \<Rightarrow> string) \<Rightarrow> (instant \<Rightarrow> string) \<Rightarrow> audit_row list \<Rightarrow> chain_result" where
  "verifyChain sha256 iso8601 rows =
     (if rows = []
      then \<lparr>cr_valid = True, cr_totalEntries = 0, cr_verifiedEntries = 0, cr_brokenAtSequence = None, cr_chainVersion = None\<rparr>
      else case verify_rows sha256 iso8601 None 0 0 rows of
        Inl (row, verified) \<Rightarrow>
          \<lparr>cr_valid = False, cr_totalEntries = length rows, cr_verifiedEntries = verified,
           cr_brokenAtSequence = al_sequenceNumber row, cr_chainVersion = al_chainVersion row\<rparr>
      | Inr verified \<Rightarrow>
          \<lparr>cr_valid = True, cr_totalEntries = length rows, cr_verifiedEntries = verified,
           cr_brokenAtSequence = None, cr_chainVersion = al_chainVersion (last rows)\<rparr>)"

text \<open>The limit of the route: the number the query parameter denotes, \<open>None\<close> for NaN.\<close>

definition verify_limit :: "int option \<Rightarrow> int" where
  "verify_limit limitParam =
     min (max (if truthy_int limitParam then the limitParam else 1000) 1) 10000"

definition audit_verify ::
  "(string \<Rightarrow> string) \<Rightarrow> (string \<Rightarrow> string \<Rightarrow> string) \<Rightarrow> (instant \<Rightarrow> string) \<Rightarrow> string option \<Rightarrow> string
     \<Rightarrow> int option \<Rightarrow> string option \<Rightarrow> audit_row list \<Rightarrow> (int \<times> string) + chain_result" where
  "audit_verify sha256 hmac iso8601 hmacSecret talosId limitParam seal t =
     (let rows = take (nat (verify_limit limitParam))
            (sort_key al_createdAt (sel (\<lambda>r. al_talosId r = talosId \<and> al_entryHash r \<noteq> None) t));
          result = verifyChain sha256 iso8601 rows
      in if truthy_str seal \<and> cr_valid result \<and> cr_verifiedEntries result > 0
         then (if \<not> truthy_str hmacSecret then Inl (400, ''Audit chain seal verification is not configured'')
               else if truthy_str (al_entryHash (last rows)) \<and>
                  the seal \<noteq> sealChainRoot hmac (the (al_entryHash (last rows))) (the hmacSecret)
               then Inr (result\<lparr>cr_valid := False\<rparr>)
               else Inr result)
         else Inr result)"

text \<open>GET /api/talos/:id/audit/checkpoint: the root of the chain and its seal.\<close>

record checkpoint =
  cp_chainRoot :: "string option"
  cp_totalEntries :: nat
  cp_chainVersion :: "string option"
  cp_seal :: "string option"

definition audit_checkpoint ::
  "(string \<Rightarrow> string \<Rightarrow> string) \<Rightarrow> string option \<Rightarrow> string \<Rightarrow> audit_row list \<Rightarrow> checkpoint" where
  "audit_checkpoint hmac hmacSecret talosId t =
     (let rows = sel (\<lambda>r. al_talosId r = talosId \<and> al_entryHash r \<noteq> None) t
      in case first_row (sort_key (\<lambda>r. - al_createdAt r) rows) of
           None \<Rightarrow> \<lparr>cp_chainRoot = None, cp_totalEntries = 0, cp_chainVersion = None, cp_seal = None\<rparr>
         | Some latest \<Rightarrow>
             if \<not> truthy_str (al_entryHash latest)
             then \<lparr>cp_chainRoot = None, cp_totalEntries = 0, cp_chainVersion = None, cp_seal = None\<rparr>
             else \<lparr>cp_chainRoot = al_entryHash latest, cp_totalEntries = length rows,
                   cp_chainVersion = Some AUDIT_CHAIN_VERSION,
                   cp_seal = (if truthy_str hmacSecret
                     then Some (sealChainRoot hmac (the (al_entryHash latest)) (the hmacSecret)) else None)\<rparr>)"

section \<open>Writing\<close>

record audit_call =
  ac_talosId :: string
  ac_method :: string
  ac_path :: string
  ac_statusCode :: int
  ac_ipAddress :: "string option"
  ac_denialReason :: "string option"
  ac_scopesRequired :: "string list option"

definition plain_audit_row :: "instant \<Rightarrow> audit_call \<Rightarrow> audit_row" where
  "plain_audit_row now c =
     \<lparr>al_talosId = ac_talosId c, al_method = ac_method c, al_path = ac_path c, al_statusCode = ac_statusCode c,
      al_denialReason = ac_denialReason c, al_scopesRequired = ac_scopesRequired c, al_ipAddress = ac_ipAddress c,
      al_sequenceNumber = None, al_previousHash = None, al_entryHash = None, al_chainVersion = None,
      al_createdAt = now\<rparr>"

text \<open>The row the chained writer inserts when \<open>latest\<close> is the row it read.\<close>

definition chained_row ::
  "(string \<Rightarrow> string) \<Rightarrow> (instant \<Rightarrow> string) \<Rightarrow> instant \<Rightarrow> audit_call \<Rightarrow> audit_row option \<Rightarrow> audit_row" where
  "chained_row sha256 iso8601 now c latest =
     (let sequenceNumber = (case latest of None \<Rightarrow> -1 | Some r \<Rightarrow> coalesce (al_sequenceNumber r) (-1)) + 1;
          previousHash = (case latest of None \<Rightarrow> GENESIS_HASH | Some r \<Rightarrow> coalesce (al_entryHash r) GENESIS_HASH);
          entry = \<lparr>ce_sequenceNumber = sequenceNumber, ce_talosId = ac_talosId c, ce_method = ac_method c,
                   ce_path = ac_path c, ce_statusCode = ac_statusCode c, ce_ipAddress = ac_ipAddress c,
                   ce_createdAt = iso8601 now\<rparr>
      in (plain_audit_row now c)
           \<lparr>al_sequenceNumber := Some sequenceNumber, al_previousHash := Some previousHash,
            al_entryHash := Some (computeEntryHash sha256 entry), al_chainVersion := Some AUDIT_CHAIN_VERSION\<rparr>)"

definition latest_audit :: "string \<Rightarrow> audit_row list \<Rightarrow> audit_row option" where
  "latest_audit talosId t = first_row (sort_key (\<lambda>r. - al_createdAt r) (sel (\<lambda>r. al_talosId r = talosId) t))"

text \<open>The transaction of the chained writer.  \<open>fault\<close> is the error a statement of it throws, if any;
  \<open>meanwhile\<close> what other transactions commit between its SELECT and its INSERT.\<close>

definition chain_transaction ::
  "(string \<Rightarrow> string) \<Rightarrow> (instant \<Rightarrow> string) \<Rightarrow> (audit_row list \<Rightarrow> db_error option) \<Rightarrow> (audit_row list \<Rightarrow> audit_row list)
     \<Rightarrow> instant \<Rightarrow> audit_call \<Rightarrow> (audit_row list, unit) transaction" where
  "chain_transaction sha256 iso8601 fault meanwhile now c t =
     (case fault t of
        Some e \<Rightarrow> Inl e
      | None \<Rightarrow> Inr (meanwhile t @ [chained_row sha256 iso8601 now c (latest_audit (ac_talosId c) t)], ()))"

text \<open>A failure is only logged.\<close>

definition writeAuditLogWithChain ::
  "environment \<Rightarrow> (string \<Rightarrow> string) \<Rightarrow> (instant \<Rightarrow> string) \<Rightarrow> (audit_row list \<Rightarrow> db_error option)
     \<Rightarrow> (audit_row list \<Rightarrow> audit_row list) \<Rightarrow> (int \<Rightarrow> int \<Rightarrow> audit_row list \<Rightarrow> audit_row list) \<Rightarrow> (int \<Rightarrow> rat)
     \<Rightarrow> instant \<Rightarrow> audit_call \<Rightarrow> audit_row list \<Rightarrow> audit_row list" where
  "writeAuditLogWithChain env sha256 iso8601 fault meanwhile pause rnd now c t =
     fst (withTransactionRetry env
       \<lparr>ro_category = Some JOB, ro_maxRetries = None, ro_initialDelayMs = None, ro_maxDelayMs = None, ro_enabled = None\<rparr>
       (chain_transaction sha256 iso8601 fault meanwhile now c) pause rnd t)"

definition isAuditChainEnabled :: "environment \<Rightarrow> bool" where
  "isAuditChainEnabled env = getEnvBoolean env ''AUDIT_HASH_CHAIN_ENABLED'' True"

end
