(* ===== verification/Audit_Facts.thy ===== *)
theory Audit_Facts
  imports Audit_Chain
begin

text \<open>
  What verification of the audit chain decides, what the writers keep, and the two ways the chain
  falls short: a rewritten history that verifies, and honest writers that break it.
\<close>

section \<open>What verification decides\<close>

abbreviation chained :: "audit_row list \<Rightarrow> audit_row list" where
  "chained rows \<equiv> filter (\<lambda>r. \<not> unchained r) rows"

text \<open>The i-th of the chained rows is in its place: numbered i, linked to the row before it, and
  carrying the hash of its own content.\<close>

definition link_ok :: "(string \<Rightarrow> string) \<Rightarrow> (instant \<Rightarrow> string) \<Rightarrow> audit_row list \<Rightarrow> nat \<Rightarrow> bool" where
  "link_ok sha256 iso8601 cs i \<longleftrightarrow>
     al_sequenceNumber (cs ! i) = Some (int i) \<and>
     al_previousHash (cs ! i) = (if i = 0 then Some GENESIS_HASH else al_entryHash (cs ! (i - 1))) \<and>
     al_entryHash (cs ! i) = Some (computeEntryHash sha256 (entry_of iso8601 (cs ! i)))"

lemma chained_fields:
  assumes "\<not> unchained r"
  shows "al_sequenceNumber r = Some (the (al_sequenceNumber r))" "al_entryHash r = Some (the (al_entryHash r))"
    "al_previousHash r = Some (the (al_previousHash r))"
  using assms by (auto simp: unchained_def truthy_str_def split: option.splits)

lemma chained_eq:
  assumes "\<not> unchained r"
  shows "the (al_sequenceNumber r) = n \<longleftrightarrow> al_sequenceNumber r = Some n"
    "the (al_entryHash r) = h \<longleftrightarrow> al_entryHash r = Some h" "the (al_previousHash r) = h \<longleftrightarrow> al_previousHash r = Some h"
  using chained_fields [OF assms] by (metis option.sel)+

text \<open>What an outcome of the loop says of the chained rows \<open>cs\<close>.\<close>

definition verdict :: "(string \<Rightarrow> string) \<Rightarrow> (instant \<Rightarrow> string) \<Rightarrow> audit_row list \<Rightarrow> (audit_row \<times> nat) + nat \<Rightarrow> bool" where
  "verdict sha256 iso8601 cs res =
     (case res of
        Inr n \<Rightarrow> n = length cs \<and> (\<forall>i < n. link_ok sha256 iso8601 cs i)
      | Inl (r, n) \<Rightarrow> n < length cs \<and> r = cs ! n \<and> (\<forall>i < n. link_ok sha256 iso8601 cs i) \<and> \<not> link_ok sha256 iso8601 cs n)"

text \<open>The hash the row after the chained rows \<open>ds\<close> has to link to.\<close>

definition tip_hash :: "audit_row list \<Rightarrow> string option" where
  "tip_hash ds = (if ds = [] then None else al_entryHash (last ds))"

lemma link_ok_next:
  assumes "\<forall>r \<in> set ds. \<not> unchained r" "\<not> unchained row"
  shows "link_ok sha256 iso8601 (ds @ row # cs) (length ds) \<longleftrightarrow>
    the (al_sequenceNumber row) = int (length ds) \<and> the (al_previousHash row) = coalesce (tip_hash ds) GENESIS_HASH \<and>
    computeEntryHash sha256 (entry_of iso8601 row) = the (al_entryHash row)"
proof -
  have "(if length ds = 0 then Some GENESIS_HASH else al_entryHash ((ds @ row # cs) ! (length ds - 1)))
      = Some (coalesce (tip_hash ds) GENESIS_HASH)"
  proof (cases ds rule: rev_cases)
    case (snoc ds' d)
    then show ?thesis using assms(1) chained_fields(2) [of d]
      by (metis append_butlast_last_id butlast_snoc coalesce_simps(2) diff_Suc_1 last_in_set last_snoc length_append_singleton
          nat.simps(3) nth_append_length snoc_eq_iff_butlast tip_hash_def append.assoc append_Cons append_Nil)
  qed (simp add: tip_hash_def)
  then show ?thesis
    unfolding link_ok_def nth_append_length using chained_eq [OF assms(2)] by metis
qed

lemma verify_rows_verdict:
  assumes "\<forall>r \<in> set ds. \<not> unchained r" "\<forall>i < length ds. link_ok sha256 iso8601 (ds @ chained rows) i"
  shows "verdict sha256 iso8601 (ds @ chained rows)
    (verify_rows sha256 iso8601 (tip_hash ds) (int (length ds)) (length ds) rows)"
  using assms
proof (induction rows arbitrary: ds)
  case Nil
  then show ?case by (simp add: verdict_def)
next
  case (Cons row rows)
  show ?case
  proof (cases "unchained row")
    case True
    then show ?thesis using Cons.IH [OF Cons.prems(1)] Cons.prems(2) by simp
  next
    case False
    then have cs: "ds @ chained (row # rows) = ds @ row # chained rows" by simp
    note link = link_ok_next [OF Cons.prems(1) False, of sha256 iso8601 "chained rows"]
    show ?thesis
    proof (cases "link_ok sha256 iso8601 (ds @ row # chained rows) (length ds)")
      case True
      have "verdict sha256 iso8601 ((ds @ [row]) @ chained rows)
          (verify_rows sha256 iso8601 (tip_hash (ds @ [row])) (int (length (ds @ [row]))) (length (ds @ [row])) rows)"
        using Cons.prems True False cs by (intro Cons.IH) (auto simp: less_Suc_eq)
      then show ?thesis using False True link cs by (simp add: tip_hash_def add.commute)
    next
      case no: False
      then have "verify_rows sha256 iso8601 (tip_hash ds) (int (length ds)) (length ds) (row # rows) = Inl (row, length ds)"
        using False link by auto
      then show ?thesis using no Cons.prems(2) cs by (simp add: verdict_def)
    qed
  qed
qed

lemma verifyChain_spec:
  "if cr_valid (verifyChain sha256 iso8601 rows)
   then cr_verifiedEntries (verifyChain sha256 iso8601 rows) = length (chained rows) \<and>
     (\<forall>i < length (chained rows). link_ok sha256 iso8601 (chained rows) i)
   else (\<exists>n < length (chained rows). cr_verifiedEntries (verifyChain sha256 iso8601 rows) = n \<and>
     cr_brokenAtSequence (verifyChain sha256 iso8601 rows) = al_sequenceNumber (chained rows ! n) \<and>
     (\<forall>i < n. link_ok sha256 iso8601 (chained rows) i) \<and> \<not> link_ok sha256 iso8601 (chained rows) n)"
  using verify_rows_verdict [of "[]" sha256 iso8601 rows]
  by (auto simp: verifyChain_def verdict_def tip_hash_def split: sum.splits)

lemma verifyChain_valid:
  "cr_valid (verifyChain sha256 iso8601 rows) \<longleftrightarrow> (\<forall>i < length (chained rows). link_ok sha256 iso8601 (chained rows) i)"
  using verifyChain_spec [of sha256 iso8601 rows] by (auto split: if_splits)

lemma verifyChain_broken:
  "\<not> cr_valid (verifyChain sha256 iso8601 rows) \<Longrightarrow>
     \<exists>n < length (chained rows). cr_verifiedEntries (verifyChain sha256 iso8601 rows) = n \<and>
       cr_brokenAtSequence (verifyChain sha256 iso8601 rows) = al_sequenceNumber (chained rows ! n) \<and>
       (\<forall>i < n. link_ok sha256 iso8601 (chained rows) i) \<and> \<not> link_ok sha256 iso8601 (chained rows) n"
  using verifyChain_spec [of sha256 iso8601 rows] by (auto split: if_splits)

text \<open>C30.
  Verification is exact: a list of rows verifies if and only if every chained row of it is numbered
  by its position, linked to the hash of the one before it (the first to GENESIS) and carries the
  hash of its own content; otherwise the result points at the first row that is not.\<close>

theorem verification_exact:
  shows "(cr_valid (verifyChain sha256 iso8601 rows) \<longleftrightarrow>
      (\<forall>i < length (chained rows). link_ok sha256 iso8601 (chained rows) i)) \<and>
    (\<not> cr_valid (verifyChain sha256 iso8601 rows) \<longrightarrow>
      (\<exists>n < length (chained rows). cr_verifiedEntries (verifyChain sha256 iso8601 rows) = n \<and>
         cr_brokenAtSequence (verifyChain sha256 iso8601 rows) = al_sequenceNumber (chained rows ! n) \<and>
         (\<forall>i < n. link_ok sha256 iso8601 (chained rows) i) \<and> \<not> link_ok sha256 iso8601 (chained rows) n))"
  by (intro conjI impI verifyChain_valid verifyChain_broken)

section \<open>A rewritten history that verifies\<close>

text \<open>Rewriting the k-th row of a log: an arbitrary edit of its content, its hash recomputed, and the
  link of the next row adjusted.  No secret is needed.\<close>

definition rehash :: "(string \<Rightarrow> string) \<Rightarrow> (instant \<Rightarrow> string) \<Rightarrow> audit_row \<Rightarrow> audit_row" where
  "rehash sha256 iso8601 r = r\<lparr>al_entryHash := Some (computeEntryHash sha256 (entry_of iso8601 r))\<rparr>"

definition forge ::
  "(string \<Rightarrow> string) \<Rightarrow> (instant \<Rightarrow> string) \<Rightarrow> nat \<Rightarrow> (audit_row \<Rightarrow> audit_row) \<Rightarrow> audit_row list \<Rightarrow> audit_row list" where
  "forge sha256 iso8601 k edit rows =
     (let r = rehash sha256 iso8601 (edit (rows ! k))
      in rows[k := r, Suc k := (rows ! Suc k)\<lparr>al_previousHash := al_entryHash r\<rparr>])"

text \<open>An edit of the content: what the entry says happened, not where it stands in the chain.\<close>

definition content_edit :: "(audit_row \<Rightarrow> audit_row) \<Rightarrow> bool" where
  "content_edit edit \<longleftrightarrow> (\<forall>r. al_talosId (edit r) = al_talosId r \<and> al_sequenceNumber (edit r) = al_sequenceNumber r \<and>
     al_previousHash (edit r) = al_previousHash r \<and> al_chainVersion (edit r) = al_chainVersion r \<and>
     al_createdAt (edit r) = al_createdAt r)"

lemma entry_of_frame [simp]:
  "entry_of iso8601 (r\<lparr>al_previousHash := p\<rparr>) = entry_of iso8601 r"
  "entry_of iso8601 (r\<lparr>al_entryHash := p\<rparr>) = entry_of iso8601 r"
  by (simp_all add: entry_of_def)

lemma forge_links:
  assumes "content_edit edit" "Suc k < length rows" "\<forall>i < length rows. link_ok sha256 iso8601 rows i" "i < length rows"
  shows "link_ok sha256 iso8601 (forge sha256 iso8601 k edit rows) i"
proof -
  have base: "link_ok sha256 iso8601 rows i" using assms(3,4) by blast
  consider "i = k" | "i = Suc k" | "i = Suc (Suc k)" | "i \<noteq> k" "i \<noteq> Suc k" "i - 1 \<noteq> Suc k" "i = 0 \<or> i - 1 \<noteq> k"
    by fastforce
  then show ?thesis
  proof cases
    case 1
    then have "k = 0 \<or> (k - 1 \<noteq> k \<and> k - 1 \<noteq> Suc k)" by auto
    with 1 base assms(1,2) show ?thesis
      by (auto simp: link_ok_def forge_def rehash_def content_edit_def nth_list_update)
  next
    case 2
    with base assms(1,2) show ?thesis
      by (simp add: link_ok_def forge_def rehash_def content_edit_def nth_list_update)
  next
    case 3
    with base assms(1,2,4) show ?thesis
      by (simp add: link_ok_def forge_def rehash_def content_edit_def nth_list_update)
  next
    case 4
    with base assms(1,2,4) show ?thesis
      by (auto simp: link_ok_def forge_def rehash_def content_edit_def nth_list_update)
  qed
qed

lemma forge_frame:
  assumes "content_edit edit" "Suc k < length rows" "\<forall>r \<in> set rows. \<not> unchained r" "\<And>s. sha256 s \<noteq> []"
  shows "\<forall>r \<in> set (forge sha256 iso8601 k edit rows). \<not> unchained r"
    "map al_createdAt (forge sha256 iso8601 k edit rows) = map al_createdAt rows"
    "map al_talosId (forge sha256 iso8601 k edit rows) = map al_talosId rows"
    "al_entryHash (last (forge sha256 iso8601 k edit rows)) = al_entryHash (last rows)"
    "al_chainVersion (last (forge sha256 iso8601 k edit rows)) = al_chainVersion (last rows)"
    "length (forge sha256 iso8601 k edit rows) = length rows"
proof -
  let ?r = "rehash sha256 iso8601 (edit (rows ! k))"
  let ?n = "(rows ! Suc k)\<lparr>al_previousHash := al_entryHash ?r\<rparr>"
  have k: "k < length rows" using assms(2) by simp
  have "\<not> unchained (rows ! k)" "\<not> unchained (rows ! Suc k)" using assms(2,3) k by (meson nth_mem)+
  then have "\<not> unchained ?r" "\<not> unchained ?n"
    using assms(1,4) by (auto simp: unchained_def rehash_def content_edit_def computeEntryHash_def)
  then show "\<forall>r \<in> set (forge sha256 iso8601 k edit rows). \<not> unchained r"
    using assms(3) set_update_subset_insert [of "rows[k := ?r]" "Suc k" ?n] set_update_subset_insert [of rows k ?r]
    by (auto simp: forge_def Let_def)
  have keep: "map f (forge sha256 iso8601 k edit rows) = map f rows"
    if "f ?r = f (rows ! k)" "f ?n = f (rows ! Suc k)" for f :: "audit_row \<Rightarrow> 'x"
  proof -
    have "map f (forge sha256 iso8601 k edit rows) = (map f rows)[k := f (rows ! k), Suc k := f (rows ! Suc k)]"
      using that by (simp add: forge_def map_update Let_def)
    also have "\<dots> = map f rows" using assms(2) k by (simp add: list_update_id flip: map_update)
    finally show ?thesis .
  qed
  show "map al_createdAt (forge sha256 iso8601 k edit rows) = map al_createdAt rows"
    "map al_talosId (forge sha256 iso8601 k edit rows) = map al_talosId rows"
    using assms(1) by (auto intro!: keep simp: rehash_def content_edit_def)
  show "length (forge sha256 iso8601 k edit rows) = length rows" by (simp add: forge_def Let_def)
  have at_end: "last ys = ys ! (length rows - 1)" if "length ys = length rows" for ys :: "audit_row list"
    using that k last_conv_nth [of ys] by fastforce
  have "last (forge sha256 iso8601 k edit rows) = (if length rows = Suc (Suc k) then ?n else last rows)"
    using assms(2) by (subst (1 2) at_end) (auto simp: forge_def Let_def nth_list_update)
  then show "al_entryHash (last (forge sha256 iso8601 k edit rows)) = al_entryHash (last rows)"
    "al_chainVersion (last (forge sha256 iso8601 k edit rows)) = al_chainVersion (last rows)"
    using at_end [of rows] by auto
qed

lemma verifyChain_links:
  assumes "\<forall>r \<in> set rows. \<not> unchained r" "\<forall>i < length rows. link_ok sha256 iso8601 rows i" "rows \<noteq> []"
  shows "verifyChain sha256 iso8601 rows =
    \<lparr>cr_valid = True, cr_totalEntries = length rows, cr_verifiedEntries = length rows, cr_brokenAtSequence = None,
     cr_chainVersion = al_chainVersion (last rows)\<rparr>"
proof -
  have "chained rows = rows" using assms(1) by simp
  then have "cr_valid (verifyChain sha256 iso8601 rows)" "cr_verifiedEntries (verifyChain sha256 iso8601 rows) = length rows"
    using verifyChain_spec [of sha256 iso8601 rows] assms(2) by (auto split: if_splits)
  then show ?thesis using assms(3) by (auto simp: verifyChain_def split: sum.splits)
qed

text \<open>A table that is the complete log of one agent, in order, within the route's limit.\<close>

definition whole_log :: "string \<Rightarrow> int option \<Rightarrow> audit_row list \<Rightarrow> bool" where
  "whole_log talosId limitParam rows \<longleftrightarrow> (\<forall>r \<in> set rows. al_talosId r = talosId \<and> \<not> unchained r) \<and>
     sorted (map al_createdAt rows) \<and> length rows \<le> nat (verify_limit limitParam)"

lemma verify_whole_log:
  assumes "whole_log talosId limitParam rows"
  shows "take (nat (verify_limit limitParam))
    (sort_key al_createdAt (sel (\<lambda>r. al_talosId r = talosId \<and> al_entryHash r \<noteq> None) rows)) = rows"
proof -
  have "sel (\<lambda>r. al_talosId r = talosId \<and> al_entryHash r \<noteq> None) rows = rows"
    using assms chained_fields(2) by (auto simp: whole_log_def filter_id_conv simp del: not_None_eq)
  then show ?thesis using assms by (simp add: whole_log_def sort_key_id_if_sorted)
qed

text \<open>Tampering goes unnoticed: given a log that verifies, seal included, whatever is changed in the
  content of any entry but the last can be made to verify again without any secret, by recomputing
  that entry's hash and the next entry's link; the verification route gives the same answer, for
  every seal, because an entry's hash does not cover the hash before it.\<close>

theorem rewritten_history_verifies:
  assumes "whole_log talosId limitParam rows" "cr_valid (verifyChain sha256 iso8601 rows)"
    "content_edit edit" "Suc k < length rows" "\<forall>s. sha256 s \<noteq> []"
  shows "(audit_verify sha256 hmac iso8601 hmacSecret talosId limitParam seal (forge sha256 iso8601 k edit rows)
      = audit_verify sha256 hmac iso8601 hmacSecret talosId limitParam seal rows) \<and>
    (cr_valid (verifyChain sha256 iso8601 (forge sha256 iso8601 k edit rows)))"
proof -
  have ch: "\<forall>r \<in> set rows. \<not> unchained r" using assms(1) by (simp add: whole_log_def)
  have links: "\<forall>i < length rows. link_ok sha256 iso8601 rows i"
    using verifyChain_valid [of sha256 iso8601 rows] assms(2) ch by simp
  note frame = forge_frame [OF assms(3,4) ch, of sha256 iso8601]
  have "whole_log talosId limitParam (forge sha256 iso8601 k edit rows)"
    using assms(1,5) frame by (auto simp: whole_log_def) (metis imageI list.set_map imageE)
  note rows' = verify_whole_log [OF this] and rows = verify_whole_log [OF assms(1)]
  have ne: "rows \<noteq> []" "forge sha256 iso8601 k edit rows \<noteq> []" using assms(4) frame(6) assms(5) by auto
  have v: "verifyChain sha256 iso8601 (forge sha256 iso8601 k edit rows) = verifyChain sha256 iso8601 rows"
    using verifyChain_links [OF ch links ne(1)]
      verifyChain_links [OF frame(1) _ ne(2)] forge_links [OF assms(3,4) links] frame(5,6) assms(5) by simp
  have c1: "audit_verify sha256 hmac iso8601 hmacSecret talosId limitParam seal (forge sha256 iso8601 k edit rows)
      = audit_verify sha256 hmac iso8601 hmacSecret talosId limitParam seal rows"
    unfolding audit_verify_def Let_def rows rows' v using frame(4) assms(5) by simp
  have c2: "cr_valid (verifyChain sha256 iso8601 (forge sha256 iso8601 k edit rows))" using v assms(2) by simp
  show ?thesis using c1 c2 by blast
qed

end
