(* ===== verification/Audit_Writers.thy ===== *)
theory Audit_Writers
  imports Audit_Facts Job_Queue Request_Boundary
begin

text \<open>
  Who writes the audit log: the dispatch of writeAuditLog (web/src/lib/auth.ts) between the job
  queue, the chained and the plain writer, and the queue's handler
  (web/src/lib/jobs/handlers/audit-log.ts).  Chained writes one after another keep an agent's log
  verifying; one plain row in between breaks it for good.
\<close>

section \<open>The log of one agent\<close>

definition agent_log :: "string \<Rightarrow> audit_row list \<Rightarrow> audit_row list" where
  "agent_log talosId t = sort_key al_createdAt (sel (\<lambda>r. al_talosId r = talosId) t)"

definition log_ok :: "(string \<Rightarrow> string) \<Rightarrow> (instant \<Rightarrow> string) \<Rightarrow> string \<Rightarrow> audit_row list \<Rightarrow> bool" where
  "log_ok sha256 iso8601 talosId t \<longleftrightarrow>
     (\<forall>r \<in> set (agent_log talosId t). \<not> unchained r) \<and> sorted_wrt (<) (map al_createdAt (agent_log talosId t)) \<and>
     (\<forall>i < length (agent_log talosId t). link_ok sha256 iso8601 (agent_log talosId t) i)"

definition leaves_alone :: "string \<Rightarrow> (audit_row list \<Rightarrow> audit_row list) \<Rightarrow> bool" where
  "leaves_alone talosId f \<longleftrightarrow>
     (\<forall>u. sel (\<lambda>r. al_talosId r = talosId) (f u) = sel (\<lambda>r. al_talosId r = talosId) u)"

lemma set_agent_log: "set (agent_log talosId t) = {r \<in> set t. al_talosId r = talosId}"
  by (simp add: agent_log_def)

lemma agent_log_cong:
  "sel (\<lambda>r. al_talosId r = talosId) t = sel (\<lambda>r. al_talosId r = talosId) u \<Longrightarrow> agent_log talosId t = agent_log talosId u"
  "sel (\<lambda>r. al_talosId r = talosId) t = sel (\<lambda>r. al_talosId r = talosId) u \<Longrightarrow> latest_audit talosId t = latest_audit talosId u"
  by (simp_all add: agent_log_def latest_audit_def)

lemma insort_key_append:
  "f a \<le> f x \<Longrightarrow> insort_key f a (ys @ [x]) = insort_key f a ys @ [x]"
  by (induction ys) auto

lemma sort_key_append_max:
  "\<forall>y \<in> set xs. f y \<le> f x \<Longrightarrow> sort_key f (xs @ [x]) = sort_key f xs @ [x]"
  by (induction xs) (simp_all add: insort_key_append)

lemma agent_log_append:
  assumes "\<forall>r \<in> set (agent_log talosId t). al_createdAt r < al_createdAt x" "al_talosId x = talosId"
  shows "agent_log talosId (t @ [x]) = agent_log talosId t @ [x]"
  using assms unfolding agent_log_def by (simp add: sort_key_append_max less_imp_le)

lemma latest_audit_last:
  assumes "sorted_wrt (<) (map al_createdAt (agent_log talosId t))"
  shows "latest_audit talosId t = (if agent_log talosId t = [] then None else Some (last (agent_log talosId t)))"
proof (cases "agent_log talosId t = []")
  case True
  then have "sel (\<lambda>r. al_talosId r = talosId) t = []" by (metis agent_log_def set_sort set_empty)
  then show ?thesis using True by (simp add: latest_audit_def)
next
  case False
  let ?xs = "sel (\<lambda>r. al_talosId r = talosId) t"
  let ?down = "sort_key (\<lambda>r. - al_createdAt r) ?xs"
  have set: "set ?down = set (agent_log talosId t)" by (simp add: agent_log_def)
  then obtain d ds where d: "?down = d # ds" using False by (cases ?down) auto
  have "sorted (map (\<lambda>r. - al_createdAt r) ?down)" by (rule sorted_sort_key)
  then have top: "\<forall>y \<in> set (agent_log talosId t). al_createdAt y \<le> al_createdAt d"
    using set by (auto simp: d)
  obtain ys l where l: "agent_log talosId t = ys @ [l]" using False by (metis rev_exhaust)
  have "\<forall>y \<in> set ys. al_createdAt y < al_createdAt l" using assms by (auto simp: l sorted_wrt_append)
  moreover have "d \<in> set ys \<union> {l}" using set by (auto simp: d l)
  ultimately have "d = l" using top by (force simp: l)
  then show ?thesis using d l by (simp add: latest_audit_def)
qed

lemma log_ok_verifies:
  assumes "log_ok sha256 iso8601 talosId t"
  shows "cr_valid (verifyChain sha256 iso8601 (agent_log talosId t))"
    "sort_key al_createdAt (sel (\<lambda>r. al_talosId r = talosId \<and> al_entryHash r \<noteq> None) t) = agent_log talosId t"
proof -
  have ch: "\<forall>r \<in> set (agent_log talosId t). \<not> unchained r" using assms by (simp add: log_ok_def)
  then have "chained (agent_log talosId t) = agent_log talosId t" by simp
  then show "cr_valid (verifyChain sha256 iso8601 (agent_log talosId t))"
    using assms verifyChain_valid [of sha256 iso8601 "agent_log talosId t"] by (simp add: log_ok_def)
  have "\<forall>r \<in> set t. al_talosId r = talosId \<longrightarrow> al_entryHash r \<noteq> None"
    using ch chained_fields(2) by (auto simp: set_agent_log simp del: not_None_eq)
  then have "sel (\<lambda>r. al_talosId r = talosId \<and> al_entryHash r \<noteq> None) t = sel (\<lambda>r. al_talosId r = talosId) t"
    by (intro filter_cong) auto
  then show "sort_key al_createdAt (sel (\<lambda>r. al_talosId r = talosId \<and> al_entryHash r \<noteq> None) t) = agent_log talosId t"
    by (simp add: agent_log_def)
qed

section \<open>Chained writes\<close>

lemma chained_row_fields [simp]:
  "al_talosId (chained_row sha256 iso8601 now c l) = ac_talosId c"
  "al_createdAt (chained_row sha256 iso8601 now c l) = now"
  "al_method (chained_row sha256 iso8601 now c l) = ac_method c"
  "al_path (chained_row sha256 iso8601 now c l) = ac_path c"
  "al_statusCode (chained_row sha256 iso8601 now c l) = ac_statusCode c"
  by (simp_all add: chained_row_def plain_audit_row_def Let_def)

lemma link_ok_append: "i < length cs \<Longrightarrow> link_ok sha256 iso8601 (cs @ ds) i = link_ok sha256 iso8601 cs i"
  by (auto simp: link_ok_def nth_append)

lemma chained_write_ok:
  assumes ok: "log_ok sha256 iso8601 talosId t" and c: "ac_talosId c = talosId"
    and fresh: "\<forall>r \<in> set (agent_log talosId t). al_createdAt r < now" and "\<And>s. sha256 s \<noteq> []"
  defines "new \<equiv> chained_row sha256 iso8601 now c (latest_audit talosId t)"
  shows "agent_log talosId (t @ [new]) = agent_log talosId t @ [new]" "log_ok sha256 iso8601 talosId (t @ [new])"
proof -
  let ?log = "agent_log talosId t"
  show app: "agent_log talosId (t @ [new]) = ?log @ [new]"
    using fresh c by (intro agent_log_append) (simp_all add: new_def)
  have latest: "latest_audit talosId t = (if ?log = [] then None else Some (last ?log))"
    using ok by (intro latest_audit_last) (simp add: log_ok_def)
  have links: "link_ok sha256 iso8601 ?log i" if "i < length ?log" for i using ok that by (simp add: log_ok_def)
  have tip: "al_sequenceNumber (last ?log) = Some (int (length ?log - 1)) \<and> al_entryHash (last ?log) \<noteq> None" if "?log \<noteq> []"
    using links [of "length ?log - 1"] that by (simp add: link_ok_def last_conv_nth)
  have "link_ok sha256 iso8601 (?log @ [new]) (length ?log)"
  proof (cases "?log = []")
    case True
    then show ?thesis
      by (simp add: link_ok_def latest new_def chained_row_def plain_audit_row_def entry_of_def Let_def)
  next
    case False
    have before: "(?log @ [new]) ! (length ?log - 1) = last ?log"
      using False by (simp add: nth_append last_conv_nth)
    have "int (length ?log - 1) + 1 = int (length ?log)" using False by (cases ?log) auto
    then show ?thesis
      using False tip [OF False] unfolding link_ok_def before nth_append_length
      by (auto simp: latest new_def chained_row_def plain_audit_row_def entry_of_def Let_def)
  qed
  then have "\<forall>i < length (?log @ [new]). link_ok sha256 iso8601 (?log @ [new]) i"
    using links by (auto simp: link_ok_append less_Suc_eq)
  moreover have "\<not> unchained new"
  proof -
    have "truthy_str (al_entryHash (last ?log))" if "?log \<noteq> []"
      using ok that last_in_set [OF that] by (auto simp: log_ok_def unchained_def)
    then show ?thesis
      using assms(4) by (auto simp: unchained_def new_def chained_row_def Let_def computeEntryHash_def
          AUDIT_CHAIN_VERSION_def GENESIS_HASH_def latest elim!: truthy_strE)
  qed
  ultimately show "log_ok sha256 iso8601 talosId (t @ [new])"
    using ok fresh unfolding log_ok_def app by (auto simp: sorted_wrt_append new_def)
qed

text \<open>What a retried transaction leaves, when nothing it is interrupted by breaks \<open>P\<close>.\<close>

lemma retry_loop_keeps:
  assumes "P s" "\<And>n d u. P u \<Longrightarrow> P (pause n d u)" "retry_loop st tx pause rnd a left s = (s', r, ds)"
  shows "(P s' \<and> (\<exists>e. r = Inl e)) \<or> (\<exists>u v. P u \<and> tx u = Inr (s', v) \<and> r = Inr v)"
  using assms(1,3)
proof (induction left arbitrary: a s s' r ds)
  case 0
  then show ?case by (auto simp: retry_loop.simps [of _ _ _ _ _ 0] split: sum.splits if_splits)
next
  case (Suc m)
  show ?case
  proof (cases "\<exists>e. tx s = Inl e \<and> isRetryableDbError e")
    case True
    then obtain e where e: "tx s = Inl e" "isRetryableDbError e" by blast
    let ?d = "calculateJitteredDelay a (rs_initialDelayMs st) (rs_maxDelayMs st) (rnd a)"
    obtain u q qs where rest: "retry_loop st tx pause rnd (a + 1) m (pause a ?d s) = (u, q, qs)"
      by (metis prod_cases3)
    then have "s' = u" "r = q" using Suc.prems(2) e by (auto simp: retry_loop.simps [of _ _ _ _ _ "Suc m"] Let_def)
    then show ?thesis using Suc.IH [OF assms(2) [OF Suc.prems(1)] rest] by blast
  next
    case False
    then show ?thesis using Suc.prems
      by (auto simp: retry_loop.simps [of _ _ _ _ _ "Suc m"] split: sum.splits)
  qed
qed

lemma with_retry_keeps:
  assumes "P s" "\<And>n d u. P u \<Longrightarrow> P (pause n d u)" "withTransactionRetry env opts tx pause rnd s = (s', r, ds)"
  shows "(P s' \<and> (\<exists>e. r = Inl e)) \<or> (\<exists>u v. P u \<and> tx u = Inr (s', v) \<and> r = Inr v)"
proof (cases "rs_enabled (retry_settings_of env opts)")
  case True
  then show ?thesis using assms retry_loop_keeps [of P s pause] by (simp add: withTransactionRetry_def Let_def)
next
  case False
  then show ?thesis using assms by (auto simp: withTransactionRetry_def Let_def split: sum.splits)
qed

text \<open>C29.
  Chained writes keep the log verifying: if an agent's log verifies and the clock has moved past its
  last entry, then after a chained write, retried any number of times, that nothing interrupts in
  this agent's rows, the log verifies again; it has grown by at most one entry, which records the
  call, and by exactly one when no statement fails.\<close>

theorem honest_writes_verify:
  assumes "log_ok sha256 iso8601 talosId t" "ac_talosId c = talosId"
    "\<forall>r \<in> set t. al_talosId r = talosId \<longrightarrow> al_createdAt r < now"
    "leaves_alone talosId meanwhile" "\<forall>n d. leaves_alone talosId (pause n d)" "\<forall>s. sha256 s \<noteq> []"
    "t' = writeAuditLogWithChain env sha256 iso8601 fault meanwhile pause rnd now c t"
  shows "(log_ok sha256 iso8601 talosId t') \<and>
    (cr_valid (verifyChain sha256 iso8601 (agent_log talosId t'))) \<and>
    (agent_log talosId t' = agent_log talosId t \<or>
      (\<exists>r. agent_log talosId t' = agent_log talosId t @ [r] \<and> al_method r = ac_method c \<and> al_path r = ac_path c \<and>
         al_statusCode r = ac_statusCode c \<and> al_createdAt r = now)) \<and>
    ((\<forall>u. fault u = None) \<longrightarrow> length (agent_log talosId t') = length (agent_log talosId t) + 1)"
proof -
  let ?mine = "sel (\<lambda>r. al_talosId r = talosId)"
  let ?opts = "\<lparr>ro_category = Some JOB, ro_maxRetries = None, ro_initialDelayMs = None, ro_maxDelayMs = None, ro_enabled = None\<rparr>"
  let ?new = "chained_row sha256 iso8601 now c (latest_audit talosId t)"
  obtain res ds where run: "withTransactionRetry env ?opts (chain_transaction sha256 iso8601 fault meanwhile now c) pause rnd t
      = (t', res, ds)"
    using assms(7) by (metis writeAuditLogWithChain_def prod.exhaust_sel)
  have "\<And>n d u. ?mine u = ?mine t \<Longrightarrow> ?mine (pause n d u) = ?mine t"
    using assms(5) by (simp add: leaves_alone_def)
  note ended = with_retry_keeps [where P = "\<lambda>u. ?mine u = ?mine t", OF refl this run]
  have written: "?mine t' = ?mine (t @ [?new])"
    if "?mine u = ?mine t" "chain_transaction sha256 iso8601 fault meanwhile now c u = Inr (t', v)" for u v
  proof -
    have "t' = meanwhile u @ [chained_row sha256 iso8601 now c (latest_audit talosId u)]"
      using that(2) assms(2) by (auto simp: chain_transaction_def split: option.splits)
    then show ?thesis using that(1) assms(4) agent_log_cong(2) [OF that(1)] by (simp add: leaves_alone_def)
  qed
  have "\<forall>r \<in> set (agent_log talosId t). al_createdAt r < now" using assms(3) by (auto simp: set_agent_log)
  note one = chained_write_ok [OF assms(1,2) this, OF assms(6) [rule_format]]
  have cases: "?mine t' = ?mine t \<and> (\<exists>e. res = Inl e) \<or> ?mine t' = ?mine (t @ [?new])"
    using ended written by blast
  have "log_ok sha256 iso8601 talosId t'"
    using cases one(2) assms(1) agent_log_cong(1) unfolding log_ok_def by (elim disjE conjE) (metis, metis)
  then have c1: "log_ok sha256 iso8601 talosId t'" "cr_valid (verifyChain sha256 iso8601 (agent_log talosId t'))"
    by (simp_all add: log_ok_verifies)
  have c2: "agent_log talosId t' = agent_log talosId t \<or>
      (\<exists>r. agent_log talosId t' = agent_log talosId t @ [r] \<and> al_method r = ac_method c \<and> al_path r = ac_path c \<and>
         al_statusCode r = ac_statusCode c \<and> al_createdAt r = now)"
    using cases agent_log_cong(1) one(1) by (metis chained_row_fields(2,3,4,5))
  have c3: "length (agent_log talosId t') = length (agent_log talosId t) + 1" if "\<forall>u. fault u = None"
  proof -
    have "\<exists>v. res = Inr v"
      using run that by (simp add: withTransactionRetry_def chain_transaction_def retry_loop.simps Let_def split: if_splits)
    then have "?mine t' = ?mine (t @ [?new])" using cases by auto
    then show ?thesis using agent_log_cong(1) one(1) by (metis length_append_singleton Suc_eq_plus1)
  qed
  show ?thesis using c1 c2 c3 by blast
qed

text \<open>Nothing keeps chained writes of one agent from overlapping: two that read the same latest row both append
  with its successor's number, and the log never verifies again.\<close>

lemma overlapping_writes_break_chain:
  assumes ok: "log_ok sha256 iso8601 talosId t" and c: "ac_talosId c1 = talosId" "ac_talosId c2 = talosId"
    and fresh: "\<forall>r \<in> set (agent_log talosId t). al_createdAt r < now1" "now1 < now2" and "\<And>s. sha256 s \<noteq> []"
  defines "new1 \<equiv> chained_row sha256 iso8601 now1 c1 (latest_audit talosId t)"
    and "new2 \<equiv> chained_row sha256 iso8601 now2 c2 (latest_audit talosId t)"
  shows "\<not> cr_valid (verifyChain sha256 iso8601 (agent_log talosId (t @ [new1, new2])))"
proof -
  let ?log = "agent_log talosId t" and ?n = "length (agent_log talosId t)"
  have fresh2: "\<forall>r \<in> set ?log. al_createdAt r < now2" using fresh by fastforce
  note w1 = chained_write_ok [OF ok c(1) fresh(1) assms(6), folded new1_def]
  note w2 = chained_write_ok [OF ok c(2) fresh2 assms(6), folded new2_def]
  have numbers: "al_sequenceNumber new1 = Some (int ?n)" "al_sequenceNumber new2 = Some (int ?n)" and ch: "\<not> unchained new1" "\<not> unchained new2"
    using w1 w2 by (auto simp: log_ok_def link_ok_def nth_append dest!: spec [where x = ?n])
  have log: "agent_log talosId (t @ [new1, new2]) = ?log @ [new1, new2]"
    using agent_log_append [of talosId "t @ [new1]" new2] w1(1) fresh(2) fresh2 c by (simp add: new1_def new2_def)
  have "chained (?log @ [new1, new2]) = ?log @ [new1, new2]" using ok ch by (auto simp: log_ok_def filter_id_conv)
  moreover have "\<not> link_ok sha256 iso8601 (?log @ [new1, new2]) (Suc ?n)"
    using numbers by (simp add: link_ok_def nth_append)
  ultimately show ?thesis unfolding log verifyChain_valid by auto
qed

section \<open>The dispatch and the queued writer\<close>

definition AUDIT_LOG_WRITE_QUEUE :: string where "AUDIT_LOG_WRITE_QUEUE = ''audit_log_write''"

definition nullable_json :: "('a \<Rightarrow> json) \<Rightarrow> 'a option \<Rightarrow> json" where
  "nullable_json f v = (case v of None \<Rightarrow> JNull | Some x \<Rightarrow> f x)"

definition audit_payload :: "audit_call \<Rightarrow> json" where
  "audit_payload c = JObj
     [(''talosId'', JStr (ac_talosId c)), (''method'', JStr (ac_method c)), (''path'', JStr (ac_path c)),
      (''statusCode'', JNum (ac_statusCode c)), (''ipAddress'', nullable_json JStr (ac_ipAddress c)),
      (''denialReason'', nullable_json JStr (ac_denialReason c)),
      (''scopesRequired'', nullable_json (\<lambda>ss. JArr (map JStr ss)) (ac_scopesRequired c))]"

text \<open>The payload the handler is given: a column that is not of its type makes the INSERT fail.\<close>

fun text_value :: "json option \<Rightarrow> string option" where
  "text_value (Some (JStr s)) = Some s"
| "text_value _ = None"

fun nullable_text_value :: "json option \<Rightarrow> string option option" where
  "nullable_text_value (Some (JStr s)) = Some (Some s)"
| "nullable_text_value (Some JNull) = Some None"
| "nullable_text_value None = Some None"
| "nullable_text_value _ = None"

fun nullable_texts_value :: "json option \<Rightarrow> string list option option" where
  "nullable_texts_value (Some (JArr vs)) = map_option Some (texts_of vs)"
| "nullable_texts_value (Some JNull) = Some None"
| "nullable_texts_value None = Some None"
| "nullable_texts_value _ = None"

fun audit_call_of :: "json \<Rightarrow> audit_call option" where
  "audit_call_of (JObj es) =
     (case (text_value (map_of es ''talosId''), text_value (map_of es ''method''), text_value (map_of es ''path''),
            map_of es ''statusCode'', nullable_text_value (map_of es ''ipAddress''),
            nullable_text_value (map_of es ''denialReason''), nullable_texts_value (map_of es ''scopesRequired'')) of
        (Some talos, Some meth, Some path, Some (JNum status), Some ip, Some reason, Some scopes) \<Rightarrow>
          Some \<lparr>ac_talosId = talos, ac_method = meth, ac_path = path, ac_statusCode = status, ac_ipAddress = ip,
                ac_denialReason = reason, ac_scopesRequired = scopes\<rparr>
      | _ \<Rightarrow> None)"
| "audit_call_of _ = None"

definition audit_log_handler :: "instant \<Rightarrow> json \<Rightarrow> audit_row list \<Rightarrow> audit_row list option" where
  "audit_log_handler now payload t = map_option (\<lambda>c. t @ [plain_audit_row now c]) (audit_call_of payload)"

record audit_db =
  ad_jobs :: jobs
  ad_rows :: "audit_row list"

definition no_enqueue_options :: enqueue_options where
  "no_enqueue_options = \<lparr>opt_delayMs = None, opt_priority = None, opt_maxAttempts = None, opt_retryClass = None,
     opt_idempotencyKey = None\<rparr>"

definition writeAuditLog ::
  "environment \<Rightarrow> int \<Rightarrow> string \<Rightarrow> (string \<Rightarrow> string) \<Rightarrow> (instant \<Rightarrow> string) \<Rightarrow> (audit_row list \<Rightarrow> Db_Retry.db_error option)
     \<Rightarrow> (audit_row list \<Rightarrow> audit_row list) \<Rightarrow> (int \<Rightarrow> int \<Rightarrow> audit_row list \<Rightarrow> audit_row list) \<Rightarrow> (int \<Rightarrow> rat)
     \<Rightarrow> instant \<Rightarrow> audit_call \<Rightarrow> audit_db \<Rightarrow> audit_db" where
  "writeAuditLog env defaultMaxAttempts newId sha256 iso8601 fault meanwhile pause rnd now c d =
     (if env ''JOBS_ENABLED'' = Some ''true''
      then (case enqueue_job defaultMaxAttempts now newId AUDIT_LOG_WRITE_QUEUE (audit_payload c) no_enqueue_options (ad_jobs d) of
              Inl e \<Rightarrow> d
            | Inr (jobs, r) \<Rightarrow> d\<lparr>ad_jobs := jobs\<rparr>)
      else if isAuditChainEnabled env
      then d\<lparr>ad_rows := writeAuditLogWithChain env sha256 iso8601 fault meanwhile pause rnd now c (ad_rows d)\<rparr>
      else d\<lparr>ad_rows := ad_rows d @ [plain_audit_row now c]\<rparr>)"

lemma texts_of_map [simp]: "texts_of (map JStr ss) = Some ss"
  by (induction ss) simp_all

lemma audit_payload_roundtrip: "audit_call_of (audit_payload c) = Some c"
  by (simp add: audit_payload_def nullable_json_def split: option.splits)

text \<open>What the queue delivers is a row outside the chain.\<close>

lemma queued_write_is_plain:
  assumes "env ''JOBS_ENABLED'' = Some ''true''"
    "writeAuditLog env m newId sha256 iso8601 fault meanwhile pause rnd now c d = d'" "job_id ` set (ad_jobs d) \<inter> {newId} = {}"
  shows "ad_rows d' = ad_rows d" "\<exists>j \<in> set (ad_jobs d'). job_queue j = AUDIT_LOG_WRITE_QUEUE \<and>
     (\<forall>later t. audit_log_handler later (job_payload j) t = Some (t @ [plain_audit_row later c]))"
proof -
  have free: "\<not> list_ex (job_conflicts r) (ad_jobs d)" if "job_id r = newId" "job_idempotencyKey r = None" for r
    using assms(3) that by (auto simp: list_ex_iff job_conflicts_def)
  show "ad_rows d' = ad_rows d"
    using assms(1,2) by (auto simp: writeAuditLog_def split: sum.splits)
  show "\<exists>j \<in> set (ad_jobs d'). job_queue j = AUDIT_LOG_WRITE_QUEUE \<and>
     (\<forall>later t. audit_log_handler later (job_payload j) t = Some (t @ [plain_audit_row later c]))"
    using assms(1,2) free
    by (auto simp: writeAuditLog_def enqueue_job_def no_enqueue_options_def insert_job_def Let_def job_defaults_def
        payload_or_empty_def audit_log_handler_def audit_payload_roundtrip audit_payload_def [THEN arg_cong [where f = "\<lambda>j. j = JNull"]])
qed

section \<open>One plain row breaks the chain\<close>

text \<open>One row written outside the chain, as by the queue's handler or a key regeneration, breaks the
  agent's log for good: the next chained write starts again at number 0, and from then on the
  verification route reports the log as tampered with at sequence 0, whatever the seal.\<close>

theorem plain_write_breaks_chain:
  assumes "log_ok sha256 iso8601 talosId t" "agent_log talosId t \<noteq> []" "\<forall>s. sha256 s \<noteq> []"
    "\<forall>r \<in> set t. al_talosId r = talosId \<longrightarrow> al_createdAt r < now1" "now1 < now2"
    "ac_talosId c1 = talosId" "ac_talosId c2 = talosId" "env ''DB_TRANSACTION_RETRY_ENABLED'' = None"
    "t2 = writeAuditLogWithChain env sha256 iso8601 (\<lambda>_. None) id pause rnd now2 c2 (t @ [plain_audit_row now1 c1])"
    "length (agent_log talosId t) < nat (verify_limit limitParam)"
  shows "\<exists>r. audit_verify sha256 hmac iso8601 hmacSecret talosId limitParam seal t2 = Inr r \<and>
    \<not> cr_valid r \<and> cr_brokenAtSequence r = Some 0 \<and> cr_verifiedEntries r = length (agent_log talosId t)"
proof -
  let ?log = "agent_log talosId t" and ?plain = "plain_audit_row now1 c1"
  let ?kept = "sel (\<lambda>r. al_talosId r = talosId \<and> al_entryHash r \<noteq> None)"
  have before: "\<forall>r \<in> set ?log. al_createdAt r < now1" using assms(4) by (auto simp: set_agent_log)
  have plain: "al_talosId ?plain = talosId" "al_createdAt ?plain = now1" "al_entryHash ?plain = None"
    "al_sequenceNumber ?plain = None"
    using assms(6) by (simp_all add: plain_audit_row_def)
  have log1: "agent_log talosId (t @ [?plain]) = ?log @ [?plain]"
    using before plain by (intro agent_log_append) simp_all
  have "sorted_wrt (<) (map al_createdAt (?log @ [?plain]))"
    using assms(1) before plain by (auto simp: log_ok_def sorted_wrt_append)
  then have latest: "latest_audit talosId (t @ [?plain]) = Some ?plain"
    using latest_audit_last [of talosId "t @ [?plain]"] by (simp add: log1)
  define new where "new = chained_row sha256 iso8601 now2 c2 (Some ?plain)"
  have t2: "t2 = (t @ [?plain]) @ [new]"
    using assms(7,9) latest by (auto simp: writeAuditLogWithChain_def withTransactionRetry_def chain_transaction_def
        retry_loop.simps Let_def new_def)
  have new: "al_talosId new = talosId" "al_createdAt new = now2" "\<not> unchained new" "al_sequenceNumber new = Some 0"
    using assms(3,7) plain by (auto simp: new_def chained_row_def plain_audit_row_def unchained_def computeEntryHash_def
        AUDIT_CHAIN_VERSION_def GENESIS_HASH_def Let_def)
  have "?kept t2 = ?kept t @ [new]" using plain new chained_fields(2) [OF new(3)] by (auto simp: t2 simp del: not_None_eq)
  moreover have "\<forall>r \<in> set (?kept t). al_createdAt r \<le> al_createdAt new"
    using assms(4,5) new(2) by auto
  ultimately have rows: "sort_key al_createdAt (?kept t2) = ?log @ [new]"
    using log_ok_verifies(2) [OF assms(1)] by (simp only: sort_key_append_max)
  let ?rows = "?log @ [new]" and ?v = "verifyChain sha256 iso8601 (?log @ [new])"
  have ch: "chained ?rows = ?rows" using assms(1) new(3) by (auto simp: log_ok_def filter_id_conv)
  have links: "\<forall>i < length ?log. link_ok sha256 iso8601 ?rows i"
    using assms(1) by (simp add: log_ok_def link_ok_append)
  have broken: "\<not> link_ok sha256 iso8601 ?rows (length ?log)"
    using new(4) assms(2) by (simp add: link_ok_def)
  then have "\<not> cr_valid ?v" using verifyChain_valid [of sha256 iso8601 ?rows] ch by auto
  then obtain n where n: "n < length ?rows" "cr_verifiedEntries ?v = n" "cr_brokenAtSequence ?v = al_sequenceNumber (?rows ! n)"
    "\<not> link_ok sha256 iso8601 ?rows n"
    using verifyChain_broken [of sha256 iso8601 ?rows] unfolding ch by blast
  have "n = length ?log" using n(1,4) links by (metis length_append_singleton less_Suc_eq)
  moreover have "take (nat (verify_limit limitParam)) ?rows = ?rows" using assms(10) by simp
  ultimately show ?thesis
    using n(2,3) new(4) \<open>\<not> cr_valid ?v\<close> unfolding audit_verify_def rows by (simp add: Let_def)
qed

section \<open>Checkpoints\<close>

lemma checkpoint_of_log:
  assumes "log_ok sha256 iso8601 talosId t" "agent_log talosId t \<noteq> []" "hmacSecret = Some secret" "secret \<noteq> []"
  shows "cp_seal (audit_checkpoint hmac hmacSecret talosId t) =
      Some (sealChainRoot hmac (the (al_entryHash (last (agent_log talosId t)))) secret)"
proof -
  let ?log = "agent_log talosId t"
  have ch: "\<forall>r \<in> set ?log. \<not> unchained r" using assms(1) by (simp add: log_ok_def)
  have "\<forall>r \<in> set t. al_talosId r = talosId \<longrightarrow> al_entryHash r \<noteq> None"
    using ch chained_fields(2) by (auto simp: set_agent_log simp del: not_None_eq)
  then have "sel (\<lambda>r. al_talosId r = talosId \<and> al_entryHash r \<noteq> None) t = sel (\<lambda>r. al_talosId r = talosId) t"
    by (intro filter_cong) auto
  then have "first_row (sort_key (\<lambda>r. - al_createdAt r) (sel (\<lambda>r. al_talosId r = talosId \<and> al_entryHash r \<noteq> None) t)) = Some (last ?log)"
    using latest_audit_last [of talosId t] assms(1,2) by (simp add: latest_audit_def log_ok_def)
  moreover have "truthy_str (al_entryHash (last ?log))"
    using ch assms(2) last_in_set by (auto simp: unchained_def)
  ultimately show ?thesis using assms(3,4) by (simp add: audit_checkpoint_def Let_def)
qed

text \<open>A checkpoint's seal verifies as long as the log fits the limit of the verification route; once the
  log is longer, the route reads its oldest entries instead of its latest ones, and the untouched log
  is reported as tampered with unless two entry hashes have the same HMAC.\<close>

theorem checkpoint_seal_expires:
  assumes "log_ok sha256 iso8601 talosId t" "agent_log talosId t \<noteq> []" "hmacSecret = Some secret" "secret \<noteq> []"
    "cp_seal (audit_checkpoint hmac hmacSecret talosId t) = Some seal" "seal \<noteq> []"
    "audit_verify sha256 hmac iso8601 hmacSecret talosId limitParam (Some seal) t = answer"
  shows "(length (agent_log talosId t) \<le> nat (verify_limit limitParam) \<longrightarrow> (\<exists>r. answer = Inr r \<and> cr_valid r)) \<and>
    (nat (verify_limit limitParam) < length (agent_log talosId t) \<longrightarrow> (\<forall>r s. r \<in> set (agent_log talosId t) \<longrightarrow> s \<in> set (agent_log talosId t) \<longrightarrow> hmac secret (the (al_entryHash r)) = hmac secret (the (al_entryHash s)) \<longrightarrow> r = s) \<longrightarrow> (\<exists>r. answer = Inr r \<and> \<not> cr_valid r \<and> cr_brokenAtSequence r = None))"
proof -
  let ?log = "agent_log talosId t" and ?n = "nat (verify_limit limitParam)"
  let ?rows = "take ?n ?log"
  have n: "0 < ?n" by (simp add: verify_limit_def)
  have ch: "\<forall>r \<in> set ?log. \<not> unchained r" using assms(1) by (simp add: log_ok_def)
  have links: "link_ok sha256 iso8601 ?rows i" if "i < length ?rows" for i
    using assms(1) that link_ok_append [of i ?rows sha256 iso8601 "drop ?n ?log"] by (simp add: log_ok_def)
  have ne: "?rows \<noteq> []" using n assms(2) by simp
  have v: "verifyChain sha256 iso8601 ?rows =
    \<lparr>cr_valid = True, cr_totalEntries = length ?rows, cr_verifiedEntries = length ?rows, cr_brokenAtSequence = None,
     cr_chainVersion = al_chainVersion (last ?rows)\<rparr>"
  proof (rule verifyChain_links)
    show "\<forall>r \<in> set ?rows. \<not> unchained r" using ch by (blast dest: in_set_takeD)
    show "\<forall>i < length ?rows. link_ok sha256 iso8601 ?rows i" using links by blast
    show "?rows \<noteq> []" by (rule ne)
  qed
  have "last ?rows \<in> set ?log" using last_in_set [OF ne] by (rule in_set_takeD)
  then have truthy: "truthy_str (al_entryHash (last ?rows))" using ch by (simp add: unchained_def)
  have seal: "seal = hmac secret (the (al_entryHash (last ?log)))"
    using checkpoint_of_log [OF assms(1-4), of hmac] assms(5) by (simp add: sealChainRoot_def)
  have answer: "answer = Inr (if seal = hmac secret (the (al_entryHash (last ?rows))) then verifyChain sha256 iso8601 ?rows
      else (verifyChain sha256 iso8601 ?rows)\<lparr>cr_valid := False\<rparr>)"
    using assms(3,4,6,7) log_ok_verifies(2) [OF assms(1)] truthy ne v
    by (auto simp: audit_verify_def Let_def sealChainRoot_def)
  have c1: "\<exists>r. answer = Inr r \<and> cr_valid r" if "length ?log \<le> ?n" using that answer seal v by simp
  have c2: "\<exists>r. answer = Inr r \<and> \<not> cr_valid r \<and> cr_brokenAtSequence r = None"
    if long: "?n < length ?log" and inj: "\<And>r s. r \<in> set ?log \<Longrightarrow> s \<in> set ?log \<Longrightarrow>
         hmac secret (the (al_entryHash r)) = hmac secret (the (al_entryHash s)) \<Longrightarrow> r = s"
  proof -
    have "al_createdAt (last ?rows) \<noteq> al_createdAt (last ?log)"
    proof -
      have "last ?rows = ?log ! (?n - 1)" "last ?log = ?log ! (length ?log - 1)"
        using long n assms(2) ne by (simp_all add: last_conv_nth)
      moreover have "map al_createdAt ?log ! (?n - 1) < map al_createdAt ?log ! (length ?log - 1)"
        using assms(1) long n by (auto simp: log_ok_def sorted_wrt_iff_nth_less)
      ultimately show ?thesis using long n by simp
    qed
    then have "seal \<noteq> hmac secret (the (al_entryHash (last ?rows)))"
      using inj [of "last ?rows" "last ?log"] seal assms(2) ne by (metis in_set_takeD last_in_set)
    then show ?thesis using answer v by simp
  qed
  show ?thesis using c1 c2 by blast
qed

section \<open>A concrete log\<close>

definition mark_hash :: "string \<Rightarrow> string" where "mark_hash s = CHR ''h'' # s"
definition mark_time :: "instant \<Rightarrow> string" where "mark_time = int_string"

definition sign_call :: "string \<Rightarrow> audit_call" where
  "sign_call path = \<lparr>ac_talosId = ''t1'', ac_method = ''POST'', ac_path = path, ac_statusCode = 200,
     ac_ipAddress = Some ''10.0.0.1'', ac_denialReason = None, ac_scopesRequired = None\<rparr>"

definition write_plainly :: "instant \<Rightarrow> string \<Rightarrow> audit_row list \<Rightarrow> audit_row list" where
  "write_plainly now path =
     writeAuditLogWithChain (\<lambda>_. None) mark_hash mark_time (\<lambda>_. None) id (\<lambda>_ _. id) (\<lambda>_. 0) now (sign_call path)"

lemma empty_log_ok: "log_ok sha256 iso8601 talosId []"
  by (simp add: log_ok_def agent_log_def)

lemma undisturbed: "leaves_alone talosId id"
  by (simp add: leaves_alone_def)

definition one_write :: "audit_row list" where
  "one_write = write_plainly 1000 ''/api/sign'' []"

theorem honest_writes_verify_witness:
  "log_ok mark_hash mark_time ''t1'' one_write \<and> length (agent_log ''t1'' one_write) = 1 \<and>
   cr_valid (verifyChain mark_hash mark_time (agent_log ''t1'' one_write))"
proof -
  have hyp: "ac_talosId (sign_call p) = ''t1''" "\<forall>s. mark_hash s \<noteq> []" for p by (simp_all add: sign_call_def mark_hash_def)
  note run = honest_writes_verify [OF empty_log_ok hyp(1) _ undisturbed _ hyp(2) one_write_def [unfolded write_plainly_def]]
  show ?thesis
    using run undisturbed by (simp add: agent_log_def)
qed

lemma one_write_ok:
  "log_ok mark_hash mark_time ''t1'' one_write" "length (agent_log ''t1'' one_write) = 1"
  "\<forall>r \<in> set one_write. al_createdAt r = 1000 \<and> al_talosId r = ''t1''" "\<exists>r. one_write = [r]"
proof -
  have c: "ac_talosId (sign_call p) = ''t1''" "\<And>s. mark_hash s \<noteq> []" for p by (simp_all add: sign_call_def mark_hash_def)
  have w: "one_write = [] @ [chained_row mark_hash mark_time 1000 (sign_call ''/api/sign'') (latest_audit ''t1'' [])]"
    by (simp add: one_write_def write_plainly_def writeAuditLogWithChain_def withTransactionRetry_def chain_transaction_def
        retry_loop.simps Let_def c)
  have "\<forall>r \<in> set (agent_log ''t1'' []). al_createdAt r < 1000" by (simp add: agent_log_def)
  note one = chained_write_ok [OF empty_log_ok c(1) this c(2)]
  show "log_ok mark_hash mark_time ''t1'' one_write" "length (agent_log ''t1'' one_write) = 1"
    using one by (simp_all add: w) (simp add: agent_log_def)
  show "\<forall>r \<in> set one_write. al_createdAt r = 1000 \<and> al_talosId r = ''t1''" "\<exists>r. one_write = [r]"
    by (simp_all add: w c)
qed

theorem plain_write_breaks_chain_witness:
  "\<exists>r. audit_verify mark_hash (\<lambda>k d. d) mark_time None ''t1'' None None
      (write_plainly 3000 ''/api/sign'' (one_write @ [plain_audit_row 2000 (sign_call ''/api/talos/t1/regenerate-key'')])) = Inr r \<and>
    \<not> cr_valid r \<and> cr_brokenAtSequence r = Some 0"
proof -
  have hyp: "ac_talosId (sign_call p) = ''t1''" "\<forall>s. mark_hash s \<noteq> []" for p by (simp_all add: sign_call_def mark_hash_def)
  have ne: "agent_log ''t1'' one_write \<noteq> []" using one_write_ok(2) by auto
  have old: "\<forall>r \<in> set one_write. al_talosId r = ''t1'' \<longrightarrow> al_createdAt r < 2000" using one_write_ok(3) by simp
  have lim: "length (agent_log ''t1'' one_write) < nat (verify_limit None)" using one_write_ok(2) by (simp add: verify_limit_def)
  show ?thesis
    using plain_write_breaks_chain [OF one_write_ok(1) ne hyp(2) old _ hyp(1) hyp(1) refl
        write_plainly_def [THEN fun_cong] lim, of 3000 "\<lambda>k d. d" None None "''/api/sign''" "''/api/talos/t1/regenerate-key''"]
    by (auto simp: write_plainly_def)
qed

theorem verification_exact_witness:
  "cr_valid (verifyChain mark_hash mark_time one_write) \<and>
   (\<exists>n. cr_verifiedEntries (verifyChain mark_hash mark_time (one_write @ one_write)) = n \<and> n < 2 \<and>
      \<not> link_ok mark_hash mark_time (one_write @ one_write) n)"
proof -
  obtain r where r: "one_write = [r]" using one_write_ok(4) ..
  have log: "agent_log ''t1'' one_write = one_write" using one_write_ok(3) by (simp add: r agent_log_def)
  have u: "\<not> unchained r" "link_ok mark_hash mark_time [r] 0"
    using one_write_ok(1) log [unfolded r] by (simp_all add: log_ok_def r)
  then have "al_sequenceNumber r = Some 0" by (simp add: link_ok_def)
  then have "\<not> link_ok mark_hash mark_time [r, r] 1" by (simp add: link_ok_def)
  then have "\<not> cr_valid (verifyChain mark_hash mark_time [r, r])"
    using verification_exact [of mark_hash mark_time "[r, r]", THEN conjunct1] u(1) by auto
  then show ?thesis
    using verification_exact [of mark_hash mark_time "[r]", THEN conjunct1]
      verification_exact [of mark_hash mark_time "[r, r]", THEN conjunct2, THEN mp] u
    by (auto simp: r)
qed

definition two_writes :: "audit_row list" where
  "two_writes = one_write @ [chained_row mark_hash mark_time 2000 (sign_call ''/api/sign'') (latest_audit ''t1'' one_write)]"

definition change_path :: "audit_row \<Rightarrow> audit_row" where
  "change_path r = r\<lparr>al_path := ''/api/status''\<rparr>"

theorem rewritten_history_verifies_witness:
  "map al_path (forge mark_hash mark_time 0 change_path two_writes) = [''/api/status'', ''/api/sign''] \<and>
   cr_valid (verifyChain mark_hash mark_time (forge mark_hash mark_time 0 change_path two_writes))"
proof -
  have c: "ac_talosId (sign_call p) = ''t1''" "\<And>s. mark_hash s \<noteq> []" for p by (simp_all add: sign_call_def mark_hash_def)
  have "\<forall>r \<in> set (agent_log ''t1'' one_write). al_createdAt r < 2000" using one_write_ok(3) by (simp add: set_agent_log)
  note two = chained_write_ok [OF one_write_ok(1) c(1) [of "''/api/sign''"] this c(2), folded two_writes_def]
  obtain r where r: "one_write = [r]" using one_write_ok(4) ..
  have "al_createdAt r = 1000" "al_talosId r = ''t1''" using one_write_ok(3) by (simp_all add: r)
  then have sorted: "sorted (map al_createdAt two_writes)" "\<forall>x \<in> set two_writes. al_talosId x = ''t1''" "length two_writes = 2"
    by (auto simp: two_writes_def r c)
  have log: "agent_log ''t1'' two_writes = two_writes"
    using sorted(1,2) by (simp add: agent_log_def sort_key_id_if_sorted)
  have "whole_log ''t1'' None two_writes" "cr_valid (verifyChain mark_hash mark_time two_writes)"
    using two(2) sorted log_ok_verifies(1) [OF two(2)] by (auto simp: whole_log_def log_ok_def log verify_limit_def)
  moreover have "content_edit change_path" by (simp add: content_edit_def change_path_def)
  ultimately show ?thesis
    using rewritten_history_verifies [of "''t1''" None two_writes mark_hash mark_time change_path 0, THEN conjunct2] c(2) sorted(3)
    by (simp add: two_writes_def r forge_def rehash_def change_path_def Let_def sign_call_def)
qed

theorem checkpoint_seal_expires_witness:
  "\<exists>seal r. cp_seal (audit_checkpoint (\<lambda>k d. k @ d) (Some ''secret'') ''t1'' one_write) = Some seal \<and>
     audit_verify mark_hash (\<lambda>k d. k @ d) mark_time (Some ''secret'') ''t1'' None (Some seal) one_write = Inr r \<and> cr_valid r"
proof -
  have ne: "agent_log ''t1'' one_write \<noteq> []" using one_write_ok(2) by auto
  have lim: "length (agent_log ''t1'' one_write) \<le> nat (verify_limit None)" using one_write_ok(2) by (simp add: verify_limit_def)
  obtain seal where seal: "cp_seal (audit_checkpoint (\<lambda>k d. k @ d) (Some ''secret'') ''t1'' one_write) = Some seal" "seal \<noteq> []"
    using checkpoint_of_log [OF one_write_ok(1) ne refl, of "''secret''" "\<lambda>k d. k @ d"] by (simp add: sealChainRoot_def)
  show ?thesis
    using checkpoint_seal_expires [OF one_write_ok(1) ne refl _ seal refl, THEN conjunct1, THEN mp, OF _ lim] seal by simp
qed

end
