(* ===== verification/Api_Auth.thy ===== *)
theory Api_Auth
  imports Js_Text Request_Boundary
begin

text \<open>
  Agents as accounts and their API keys: the columns of tls_talos and tls_api_keys that decide who
  may do what (web/src/db/schema.ts), and the two authenticators of web/src/lib/auth.ts.  SHA-256 is
  a parameter.  Each authenticator returns the key table (a use is recorded), its answer and the
  audit entry it asks for; the reads of one call see one state of the tables.
\<close>

section \<open>Rows\<close>

record talos_row =
  tl_id :: string
  tl_status :: string
  tl_apiKey :: "string option"
  tl_approvalThreshold :: rat
  tl_agentOnline :: bool
  tl_agentLastSeen :: "instant option"
  tl_walletPublicKey :: "string option"
  tl_creatorPublicKey :: "string option"
  tl_investorPublicKey :: "string option"
  tl_treasuryPublicKey :: "string option"
  tl_agentWalletId :: "string option"
  tl_agentWalletAddress :: "string option"
  tl_retiredAt :: "instant option"
  tl_retiredReason :: "string option"
  tl_supersededBy :: "string option"
  tl_deletedAt :: "instant option"
  tl_deletedReason :: "string option"

record api_key =
  ak_id :: string
  ak_talosId :: string
  ak_name :: string
  ak_keyHash :: string
  ak_scopes :: "string list"
  ak_expiresAt :: "instant option"
  ak_lastUsedAt :: "instant option"
  ak_status :: string
  ak_createdAt :: instant

definition VALID_SCOPES :: "string list" where
  "VALID_SCOPES = [''admin'', ''activity:write'', ''commerce:read'', ''commerce:write'', ''wallet:read'',
     ''wallet:sign'', ''settings:read'', ''settings:write'', ''revenue:read'', ''revenue:write'']"

section \<open>Comparing secrets\<close>

text \<open>The bytes of a character in UTF-8, over the code page the strings of the model are read in.\<close>

definition utf8_width :: "char \<Rightarrow> nat" where
  "utf8_width c =
     (let n = of_char c :: nat
      in if n < 128 then 1
         else if n \<in> {128, 130, 132, 133, 134, 135, 137, 139} \<or> (145 \<le> n \<and> n \<le> 151) \<or> n = 153 \<or> n = 155 then 3
         else 2)"

definition byte_length :: "string \<Rightarrow> nat" where
  "byte_length s = sum_list (map utf8_width s)"

text \<open>\<open>timingSafeEqual(Buffer.from(a), Buffer.from(b))\<close>: it throws (\<open>None\<close>) when the buffers differ
  in length.\<close>

definition timingSafeEqual :: "string \<Rightarrow> string \<Rightarrow> bool option" where
  "timingSafeEqual a b = (if byte_length a \<noteq> byte_length b then None else Some (a = b))"

section \<open>Authenticators\<close>

datatype auth_outcome = AuthOk string | AuthDenied http_error | AuthThrew

record audit_note =
  an_talosId :: string
  an_statusCode :: int
  an_denialReason :: "string option"
  an_scopesRequired :: "string list option"

definition denied_note :: "string \<Rightarrow> string \<Rightarrow> string list \<Rightarrow> audit_note" where
  "denied_note talosId reason scopes =
     \<lparr>an_talosId = talosId, an_statusCode = 403, an_denialReason = Some reason, an_scopesRequired = Some scopes\<rparr>"

definition granted_note :: "string \<Rightarrow> audit_note" where
  "granted_note talosId = \<lparr>an_talosId = talosId, an_statusCode = 200, an_denialReason = None, an_scopesRequired = None\<rparr>"

definition extractBearerToken :: "string option \<Rightarrow> string option" where
  "extractBearerToken header =
     (case header of
        None \<Rightarrow> None
      | Some h \<Rightarrow> if h = [] \<or> \<not> starts_with ''Bearer '' h then None else Some (drop 7 h))"

definition grants :: "api_key \<Rightarrow> string list \<Rightarrow> bool" where
  "grants k requiredScopes \<longleftrightarrow> list_all (\<lambda>s. s \<in> set (ak_scopes k) \<or> ''admin'' \<in> set (ak_scopes k)) requiredScopes"

definition key_expired :: "instant \<Rightarrow> api_key \<Rightarrow> bool" where
  "key_expired now k \<longleftrightarrow> (case ak_expiresAt k of None \<Rightarrow> False | Some e \<Rightarrow> e < now)"

definition touch_key :: "instant \<Rightarrow> api_key \<Rightarrow> api_key list \<Rightarrow> api_key list" where
  "touch_key now k keys = upd (\<lambda>r. ak_id r = ak_id k) (\<lambda>r. r\<lparr>ak_lastUsedAt := Some now\<rparr>) keys"

text \<open>The legacy comparison: \<open>None\<close> is the exception.\<close>

definition legacy_match :: "string \<Rightarrow> string \<Rightarrow> bool option" where
  "legacy_match legacy token = (if length legacy = length token then timingSafeEqual legacy token else Some False)"

definition scoped_key :: "string \<Rightarrow> string \<Rightarrow> api_key \<Rightarrow> bool" where
  "scoped_key talosId tokenHash k \<longleftrightarrow> ak_talosId k = talosId \<and> ak_keyHash k = tokenHash \<and> ak_status k = ''active''"

definition verifyAgentApiKey ::
  "(string \<Rightarrow> string) \<Rightarrow> instant \<Rightarrow> string option \<Rightarrow> string \<Rightarrow> string list \<Rightarrow> talos_row list \<Rightarrow> api_key list
     \<Rightarrow> api_key list \<times> auth_outcome \<times> audit_note option" where
  "verifyAgentApiKey sha256 now header talosId requiredScopes agents keys =
     (case extractBearerToken header of
        None \<Rightarrow> (keys, AuthDenied (401, ''Missing Authorization header. Use: Bearer <api_key>''), None)
      | Some token \<Rightarrow>
          if token = [] then (keys, AuthDenied (401, ''Missing Authorization header. Use: Bearer <api_key>''), None)
          else case sel_one (\<lambda>a. tl_id a = talosId) agents of
            None \<Rightarrow> (keys, AuthDenied (404, ''TALOS not found''), None)
          | Some talos \<Rightarrow>
              let denied = (\<lambda>k msg reason. (k, AuthDenied (403, msg), Some (denied_note (tl_id talos) reason requiredScopes)));
                  finish = (\<lambda>k authorized hasRequiredScopes.
                    if \<not> authorized then denied k ''Invalid API key'' ''invalid_key''
                    else if \<not> hasRequiredScopes then denied k ''Insufficient scopes'' ''insufficient_scopes''
                    else (k, AuthOk (tl_id talos), Some (granted_note (tl_id talos))))
              in case sel_one (scoped_key talosId (sha256 token)) keys of
                   Some k \<Rightarrow>
                     if ak_status k \<noteq> ''active''
                     then (if ak_status k = ''revoked'' then denied keys ''API key has been revoked'' ''revoked_key''
                           else denied keys ''API key is not active'' ''inactive_key'')
                     else if key_expired now k then denied keys ''API key has expired'' ''expired_key''
                     else finish (touch_key now k keys) True (grants k requiredScopes)
                 | None \<Rightarrow>
                     if truthy_str (tl_apiKey talos)
                     then (case legacy_match (the (tl_apiKey talos)) token of
                             None \<Rightarrow> (keys, AuthThrew, None)
                           | Some same \<Rightarrow> finish keys same same)
                     else finish keys False False)"

text \<open>The loop over the agents with a legacy key.\<close>

fun match_legacy :: "string \<Rightarrow> talos_row list \<Rightarrow> talos_row option option" where
  "match_legacy token [] = Some None"
| "match_legacy token (a # as) =
     (if truthy_str (tl_apiKey a)
      then (case legacy_match (the (tl_apiKey a)) token of
              None \<Rightarrow> None
            | Some True \<Rightarrow> Some (Some a)
            | Some False \<Rightarrow> match_legacy token as)
      else match_legacy token as)"

definition resolveTalosFromRequest ::
  "(string \<Rightarrow> string) \<Rightarrow> instant \<Rightarrow> string option \<Rightarrow> string list \<Rightarrow> talos_row list \<Rightarrow> api_key list
     \<Rightarrow> api_key list \<times> auth_outcome \<times> audit_note option" where
  "resolveTalosFromRequest sha256 now header requiredScopes agents keys =
     (case extractBearerToken header of
        None \<Rightarrow> (keys, AuthDenied (401, ''Missing Authorization header. Use: Bearer <api_key>''), None)
      | Some token \<Rightarrow>
          if token = [] then (keys, AuthDenied (401, ''Missing Authorization header. Use: Bearer <api_key>''), None)
          else case sel_one (\<lambda>k. ak_keyHash k = sha256 token \<and> ak_status k = ''active'') keys of
            Some k \<Rightarrow>
              if key_expired now k
              then (keys, AuthDenied (403, ''API key has expired''),
                    Some (denied_note (ak_talosId k) ''expired_key'' requiredScopes))
              else if \<not> grants k requiredScopes
              then (keys, AuthDenied (403, ''Insufficient scopes''),
                    Some (denied_note (ak_talosId k) ''insufficient_scopes'' requiredScopes))
              else
                (case sel_one (\<lambda>a. tl_id a = ak_talosId k) agents of
                   None \<Rightarrow> (touch_key now k keys, AuthDenied (404, ''TALOS not found''), None)
                 | Some talos \<Rightarrow> (touch_key now k keys, AuthOk (tl_id talos), Some (granted_note (tl_id talos))))
          | None \<Rightarrow>
              (case match_legacy token (sel (\<lambda>a. tl_apiKey a \<noteq> None) agents) of
                 None \<Rightarrow> (keys, AuthThrew, None)
               | Some (Some talos) \<Rightarrow> (keys, AuthOk (tl_id talos), Some (granted_note (tl_id talos)))
               | Some None \<Rightarrow> (keys, AuthDenied (403, ''Invalid API key''), None)))"

section \<open>What the authenticators grant\<close>

lemma timingSafeEqual_true [simp]: "timingSafeEqual a b = Some True \<longleftrightarrow> a = b"
  by (auto simp: timingSafeEqual_def)

lemma legacy_match_true [simp]: "legacy_match a b = Some True \<longleftrightarrow> a = b"
  by (auto simp: legacy_match_def)

text \<open>C3.
  Authentication is exact: a request is granted to an agent exactly when the agent exists and the
  bearer token is either an active, unexpired scoped key of that agent that carries admin or every
  required scope, or, when no active scoped key of the agent has that hash, its legacy key; whatever
  is granted is audited with status 200, every other decision on an existing agent's key with 403
  and a reason, and the key table changes only in the time of last use.\<close>

theorem authentication_exact:
  assumes "verifyAgentApiKey sha256 now header talosId requiredScopes agents keys = (keys', outcome, note)"
    "extractBearerToken header = Some token" "token \<noteq> []" "sel_one (\<lambda>a. tl_id a = talosId) agents = Some talos"
  shows "(outcome = AuthOk i \<longleftrightarrow> i = talosId \<and>
      (case sel_one (scoped_key talosId (sha256 token)) keys of
         Some k \<Rightarrow> ak_talosId k = talosId \<and> ak_status k = ''active'' \<and> \<not> key_expired now k \<and>
           (''admin'' \<in> set (ak_scopes k) \<or> set requiredScopes \<subseteq> set (ak_scopes k))
       | None \<Rightarrow> tl_apiKey talos = Some token)) \<and>
    (outcome = AuthOk i \<longleftrightarrow> i = talosId \<and> note = Some (granted_note talosId)) \<and>
    (outcome \<noteq> AuthThrew \<longrightarrow> (\<exists>n. note = Some n \<and> an_talosId n = talosId \<and>
      (an_statusCode n = 403 \<longleftrightarrow> an_denialReason n \<noteq> None))) \<and>
    (map (\<lambda>k. k\<lparr>ak_lastUsedAt := None\<rparr>) keys' = map (\<lambda>k. k\<lparr>ak_lastUsedAt := None\<rparr>) keys)"
proof -
  have id: "tl_id talos = talosId" using assms(4) by (auto dest: find_SomeD)
  have touch: "map (\<lambda>k. k\<lparr>ak_lastUsedAt := None\<rparr>) (touch_key now k keys) = map (\<lambda>k. k\<lparr>ak_lastUsedAt := None\<rparr>) keys" for k
    by (simp add: touch_key_def map_upd_frame)
  have scopes: "grants k requiredScopes \<longleftrightarrow> ''admin'' \<in> set (ak_scopes k) \<or> set requiredScopes \<subseteq> set (ak_scopes k)" for k
    by (auto simp: grants_def list_all_iff)
  have active: "ak_status k = ''active'' \<and> ak_talosId k = talosId"
    if "sel_one (scoped_key talosId (sha256 token)) keys = Some k" for k
    using that by (auto simp: scoped_key_def dest: find_SomeD)
  note run = assms(1) [unfolded verifyAgentApiKey_def assms(2,4), simplified, simplified assms(3) id Let_def]
  have c1: "outcome = AuthOk i \<longleftrightarrow> i = talosId \<and>
      (case sel_one (scoped_key talosId (sha256 token)) keys of
         Some k \<Rightarrow> ak_talosId k = talosId \<and> ak_status k = ''active'' \<and> \<not> key_expired now k \<and>
           (''admin'' \<in> set (ak_scopes k) \<or> set requiredScopes \<subseteq> set (ak_scopes k))
       | None \<Rightarrow> tl_apiKey talos = Some token)"
    using run active assms(3) id
    by (auto simp: scopes legacy_match_def timingSafeEqual_def split: option.splits if_splits elim!: truthy_strE)
  have c2: "outcome = AuthOk i \<longleftrightarrow> i = talosId \<and> note = Some (granted_note talosId)"
    "outcome \<noteq> AuthThrew \<Longrightarrow> \<exists>n. note = Some n \<and> an_talosId n = talosId \<and>
      (an_statusCode n = 403 \<longleftrightarrow> an_denialReason n \<noteq> None)"
    using run id by (auto simp: denied_note_def granted_note_def split: option.splits if_splits)
  have c3: "map (\<lambda>k. k\<lparr>ak_lastUsedAt := None\<rparr>) keys' = map (\<lambda>k. k\<lparr>ak_lastUsedAt := None\<rparr>) keys"
    using run touch by (auto split: option.splits if_splits)
  show ?thesis using c1 c2 c3 by blast
qed

section \<open>Samples\<close>

definition sample_talos :: talos_row where
  "sample_talos = \<lparr>tl_id = ''t1'', tl_status = ''Active'', tl_apiKey = Some ''tlk_legacy'', tl_approvalThreshold = 10,
     tl_agentOnline = True, tl_agentLastSeen = None, tl_walletPublicKey = Some ''GWALLET'',
     tl_creatorPublicKey = Some ''GCREATOR'', tl_investorPublicKey = None, tl_treasuryPublicKey = None,
     tl_agentWalletId = None, tl_agentWalletAddress = None, tl_retiredAt = None, tl_retiredReason = None,
     tl_supersededBy = None, tl_deletedAt = None, tl_deletedReason = None\<rparr>"

definition sample_key :: api_key where
  "sample_key = \<lparr>ak_id = ''k1'', ak_talosId = ''t1'', ak_name = ''signer'', ak_keyHash = ''#tak_1'',
     ak_scopes = [''wallet:sign''], ak_expiresAt = Some 5000, ak_lastUsedAt = None, ak_status = ''active'',
     ak_createdAt = 0\<rparr>"

definition mark_sha :: "string \<Rightarrow> string" where "mark_sha s = CHR ''#'' # s"

theorem authentication_exact_witness:
  "fst (snd (verifyAgentApiKey mark_sha 4000 (Some ''Bearer tak_1'') ''t1'' [''wallet:sign''] [sample_talos] [sample_key])) = AuthOk ''t1'' \<and>
   fst (snd (verifyAgentApiKey mark_sha 6000 (Some ''Bearer tak_1'') ''t1'' [''wallet:sign''] [sample_talos] [sample_key])) \<noteq> AuthOk ''t1''"
proof -
  have token: "extractBearerToken (Some ''Bearer tak_1'') = Some ''tak_1''"
    by (simp add: extractBearerToken_def starts_with_def)
  have talos: "sel_one (\<lambda>a. tl_id a = ''t1'') [sample_talos] = Some sample_talos" by (simp add: sample_talos_def)
  have key: "sel_one (scoped_key ''t1'' (mark_sha ''tak_1'')) [sample_key] = Some sample_key"
    by (simp add: scoped_key_def sample_key_def mark_sha_def)
  have run: "verifyAgentApiKey mark_sha now (Some ''Bearer tak_1'') ''t1'' [''wallet:sign''] [sample_talos] [sample_key] =
      (fst r, fst (snd r), snd (snd r))"
    if "r = verifyAgentApiKey mark_sha now (Some ''Bearer tak_1'') ''t1'' [''wallet:sign''] [sample_talos] [sample_key]" for now r
    using that by simp
  show ?thesis
    using authentication_exact [OF run [OF refl, of 4000] token _ talos, where i = "''t1''", THEN conjunct1]
      authentication_exact [OF run [OF refl, of 6000] token _ talos, where i = "''t1''", THEN conjunct1]
    unfolding key by (simp add: sample_key_def key_expired_def)
qed

text \<open>A bearer token as long as the legacy key but of other bytes makes the comparison throw.\<close>

lemma foreign_bytes_throw:
  "fst (snd (verifyAgentApiKey mark_sha 4000 (Some (''Bearer tlk_legac'' @ [CHR 0xE9])) ''t1'' [] [sample_talos] [])) = AuthThrew"
  by code_simp

end
