(* ===== verification/Signed_Transfer.thy ===== *)
theory Signed_Transfer
  imports Api_Auth Json_Text Webhook_Signing
begin

text \<open>
  Signed transfers: web/src/lib/transfer-signature.ts, transferSchema of web/src/lib/schemas.ts and
  POST /api/talos/:id/transfer (web/src/app/api/talos/[id]/transfer/route.ts), over the rows of
  tls_consumed_nonces.  HMAC, SHA-256 and the Stellar payment are parameters; the state records
  every payment that was handed to Stellar.
\<close>

section \<open>The authorization\<close>

definition TRANSFER_SIGNATURE_DOMAIN :: string where "TRANSFER_SIGNATURE_DOMAIN = ''talos.transfer.v1''"
definition MAX_TRANSFER_AUTH_LIFETIME_SECONDS :: int where "MAX_TRANSFER_AUTH_LIFETIME_SECONDS = 5 * 60"
definition NONCE_RETENTION_SECONDS :: int where "NONCE_RETENTION_SECONDS = 3600"

record transfer_payload =
  tp_agent :: string
  tp_destination :: string
  tp_asset :: string
  tp_amount :: string
  tp_nonce :: string
  tp_expiry :: string

definition canonicalizeTransferPayload :: "transfer_payload \<Rightarrow> string" where
  "canonicalizeTransferPayload p =
     TRANSFER_SIGNATURE_DOMAIN @ '':{'' @
     json_entry ''agent'' (json_quote (tp_agent p)) @ '','' @
     json_entry ''destination'' (json_quote (tp_destination p)) @ '','' @
     json_entry ''asset'' (json_quote (tp_asset p)) @ '','' @
     json_entry ''amount'' (json_quote (tp_amount p)) @ '','' @
     json_entry ''nonce'' (json_quote (tp_nonce p)) @ '','' @
     json_entry ''expiry'' (json_quote (tp_expiry p)) @ ''}''"

definition signTransferPayload :: "(string \<Rightarrow> string \<Rightarrow> string) \<Rightarrow> transfer_payload \<Rightarrow> string \<Rightarrow> string" where
  "signTransferPayload hmac p agentApiKey = hmac agentApiKey (canonicalizeTransferPayload p)"

definition lower_hex :: "char \<Rightarrow> bool" where
  "lower_hex c \<longleftrightarrow> digit c \<or> c \<in> set ''abcdef''"

definition hex64 :: "string \<Rightarrow> bool" where
  "hex64 s \<longleftrightarrow> length s = 64 \<and> list_all lower_hex s"

definition verifyTransferSignature :: "(string \<Rightarrow> string \<Rightarrow> string) \<Rightarrow> transfer_payload \<Rightarrow> string \<Rightarrow> string \<Rightarrow> bool" where
  "verifyTransferSignature hmac p agentApiKey signature \<longleftrightarrow>
     hex64 signature \<and> from_hex (signTransferPayload hmac p agentApiKey) = from_hex signature"

section \<open>One-time use\<close>

record consumed_nonce =
  cn_talosId :: string
  cn_nonce :: string
  cn_expiry :: int

datatype nonce_refusal = Expired | ExpiryTooFar | Replayed

text \<open>\<open>Number.isSafeInteger\<close> of the number a text denotes.\<close>

fun safe_integer :: "js_number \<Rightarrow> int option" where
  "safe_integer NotFinite = None"
| "safe_integer (Finite q) = (if q = of_int \<lfloor>q\<rfloor> \<and> \<bar>\<lfloor>q\<rfloor>\<bar> \<le> 9007199254740991 then Some \<lfloor>q\<rfloor> else None)"

definition validateNonceWindow :: "(string \<Rightarrow> js_number) \<Rightarrow> string \<Rightarrow> int \<Rightarrow> nonce_refusal option" where
  "validateNonceWindow read expiry nowSeconds =
     (case safe_integer (js_Number read expiry) of
        None \<Rightarrow> Some Expired
      | Some e \<Rightarrow>
          if e \<le> nowSeconds then Some Expired
          else if e > nowSeconds + MAX_TRANSFER_AUTH_LIFETIME_SECONDS then Some ExpiryTooFar
          else None)"

text \<open>An INSERT: the expiry column is a 32-bit integer, (talosId, nonce) is unique.\<close>

datatype nonce_insert_error = NonceOutOfRange | NonceTaken

definition insert_nonce :: "consumed_nonce \<Rightarrow> consumed_nonce list \<Rightarrow> nonce_insert_error + consumed_nonce list" where
  "insert_nonce r t =
     (if cn_expiry r > 2147483647 then Inl NonceOutOfRange
      else if list_ex (\<lambda>x. cn_talosId x = cn_talosId r \<and> cn_nonce x = cn_nonce r) t then Inl NonceTaken
      else Inr (t @ [r]))"

text \<open>The answer of the consumption, or the error it throws.  \<open>code\<close> is the \<open>code\<close> property the
  database library's error has, if it has one.\<close>

datatype nonce_answer = Consumed | Refused nonce_refusal | NonceThrew nonce_insert_error

definition consumeTransferNonce ::
  "(nonce_insert_error \<Rightarrow> string option) \<Rightarrow> (string \<Rightarrow> js_number) \<Rightarrow> transfer_payload \<Rightarrow> int \<Rightarrow> consumed_nonce list
     \<Rightarrow> consumed_nonce list \<times> nonce_answer" where
  "consumeTransferNonce code read p nowSeconds t =
     (case validateNonceWindow read (tp_expiry p) nowSeconds of
        Some refusal \<Rightarrow> (t, Refused refusal)
      | None \<Rightarrow>
          (case insert_nonce \<lparr>cn_talosId = tp_agent p, cn_nonce = tp_nonce p,
                              cn_expiry = the (safe_integer (js_Number read (tp_expiry p)))\<rparr> t of
             Inr t' \<Rightarrow> (t', Consumed)
           | Inl e \<Rightarrow> (t, if code e = Some ''23505'' then Refused Replayed else NonceThrew e)))"

definition pruneExpiredNonces :: "instant \<Rightarrow> consumed_nonce list \<Rightarrow> consumed_nonce list" where
  "pruneExpiredNonces now t =
     (let cutoff = epoch_seconds now - NONCE_RETENTION_SECONDS in del (\<lambda>r. cn_expiry r < cutoff) t)"

section \<open>The request\<close>

text \<open>\<open>a < b\<close> on strings.\<close>

fun text_less :: "string \<Rightarrow> string \<Rightarrow> bool" where
  "text_less [] b \<longleftrightarrow> b \<noteq> []"
| "text_less (x # xs) [] \<longleftrightarrow> False"
| "text_less (x # xs) (y # ys) \<longleftrightarrow> (of_char x :: nat) < of_char y \<or> (x = y \<and> text_less xs ys)"

definition canonical_whole :: "string \<Rightarrow> bool" where
  "canonical_whole w \<longleftrightarrow> w = ''0'' \<or> (w \<noteq> [] \<and> length w \<le> 12 \<and> list_all digit w \<and> hd w \<noteq> CHR ''0'')"

definition canonicalTransferAmount :: "string \<Rightarrow> bool" where
  "canonicalTransferAmount amount \<longleftrightarrow>
     (case js_split (CHR ''.'') amount of
        [whole, fraction] \<Rightarrow>
          canonical_whole whole \<and> length fraction = 2 \<and> list_all digit fraction \<and> amount \<noteq> ''0.00'' \<and>
          (length whole < 12 \<or> text_less whole ''922337203685'' \<or>
           (whole = ''922337203685'' \<and> (fraction = ''47'' \<or> text_less fraction ''47'')))
      | _ \<Rightarrow> False)"

definition canonical_expiry :: "string \<Rightarrow> bool" where
  "canonical_expiry s \<longleftrightarrow> 10 \<le> length s \<and> length s \<le> 13 \<and> list_all digit s \<and> hd s \<noteq> CHR ''0''"

definition transfer_fields :: "string list" where
  "transfer_fields = [''agent'', ''destination'', ''asset'', ''amount'', ''nonce'', ''expiry'', ''signature'']"

definition transferSchema :: "json \<Rightarrow> (transfer_payload \<times> string) option" where
  "transferSchema v =
     (case v of
        JObj es \<Rightarrow>
          if \<not> set (map fst es) \<subseteq> set transfer_fields then None
          else let field = map_of es in
          (case (checked_text (\<lambda>s. 1 \<le> length s \<and> length s \<le> 128) (field ''agent''),
                 checked_text stellar_address (field ''destination''),
                 checked_text (\<lambda>s. s = ''USDC'') (field ''asset''),
                 checked_text canonicalTransferAmount (field ''amount''),
                 checked_text hex64 (field ''nonce''),
                 checked_text canonical_expiry (field ''expiry''),
                 checked_text hex64 (field ''signature'')) of
             (Some agent, Some destination, Some asset, Some amount, Some nonce, Some expiry, Some signature) \<Rightarrow>
               Some (\<lparr>tp_agent = agent, tp_destination = destination, tp_asset = asset, tp_amount = amount,
                      tp_nonce = nonce, tp_expiry = expiry\<rparr>, signature)
           | _ \<Rightarrow> None)
      | _ \<Rightarrow> None)"

text \<open>\<open>Number(amount)\<close> for a canonical amount; two decimals of at most twelve digits keep their order
  in JavaScript's floating point.\<close>

definition amount_value :: "string \<Rightarrow> rat" where
  "amount_value amount =
     (case js_split (CHR ''.'') amount of
        [whole, fraction] \<Rightarrow> of_nat (digits_value 0 whole) + of_nat (digits_value 0 fraction) / 100
      | _ \<Rightarrow> 0)"

record transfer_state =
  ts_keys :: "api_key list"
  ts_nonces :: "consumed_nonce list"
  ts_payments :: "transfer_payload list"

text \<open>\<open>now\<close> is the clock when the request reads it, \<open>send\<close> the payment: its transaction hash, or
  \<open>None\<close> when it throws.\<close>

record transfer_runtime =
  tr_sha256 :: "string \<Rightarrow> string"
  tr_hmac :: "string \<Rightarrow> string \<Rightarrow> string"
  tr_read :: "string \<Rightarrow> js_number"
  tr_env :: environment
  tr_code :: "nonce_insert_error \<Rightarrow> string option"
  tr_send :: "string \<Rightarrow> string \<Rightarrow> string \<Rightarrow> string option"

definition agent_secret :: "transfer_runtime \<Rightarrow> string \<Rightarrow> string option" where
  "agent_secret rt i = tr_env rt (''TALOS_AGENT_SECRET_'' @ i)"

definition transfer_request ::
  "transfer_runtime \<Rightarrow> talos_row list \<Rightarrow> instant \<Rightarrow> string \<Rightarrow> string option \<Rightarrow> request_body \<Rightarrow> transfer_state
     \<Rightarrow> transfer_state \<times> (http_error + string)" where
  "transfer_request rt agents now i header body st =
     (let (keys, outcome, note) = verifyAgentApiKey (tr_sha256 rt) now header i [''wallet:sign''] agents (ts_keys st);
          st1 = st\<lparr>ts_keys := keys\<rparr>
      in case outcome of
           AuthThrew \<Rightarrow> (st1, Inl (500, ''Transfer failed''))
         | AuthDenied e \<Rightarrow> (st1, Inl e)
         | AuthOk talosId \<Rightarrow>
             (case parseBody transferSchema body of
                Inl e \<Rightarrow> (st1, Inl e)
              | Inr (p, signature) \<Rightarrow>
                  if tp_agent p \<noteq> i then (st1, Inl (400, ''Signed transfer agent does not match the target TALOS''))
                  else if \<not> verifyTransferSignature (tr_hmac rt) p (drop 7 (the header)) signature
                  then (st1, Inl (403, ''Invalid transfer signature''))
                  else
                    let nowSeconds = epoch_seconds now in
                    if (case js_Number (tr_read rt) (tp_expiry p) of NotFinite \<Rightarrow> False | Finite e \<Rightarrow> e \<le> of_int nowSeconds)
                    then (st1, Inl (403, ''Transfer authorization has expired''))
                    else if (case sel_one (\<lambda>a. tl_id a = i) agents of None \<Rightarrow> False
                             | Some talos \<Rightarrow> amount_value (tp_amount p) > tl_approvalThreshold talos)
                    then (st1, Inl (403, ''Amount exceeds approval threshold. Create an approval request first.''))
                    else if \<not> truthy_str (agent_secret rt i)
                    then (st1, Inl (503, ''Agent secret key not configured for this TALOS''))
                    else
                      (let (nonces, answer) = consumeTransferNonce (tr_code rt) (tr_read rt) p nowSeconds (ts_nonces st1);
                           st2 = st1\<lparr>ts_nonces := nonces\<rparr>
                       in case answer of
                            NonceThrew e \<Rightarrow> (st2, Inl (500, ''Transfer failed''))
                          | Refused Replayed \<Rightarrow> (st2, Inl (409, ''Transfer authorization already used (replay detected)''))
                          | Refused ExpiryTooFar \<Rightarrow> (st2, Inl (403, ''Transfer authorization expiry exceeds the five-minute limit''))
                          | Refused Expired \<Rightarrow> (st2, Inl (403, ''Transfer authorization has expired''))
                          | Consumed \<Rightarrow>
                              let st3 = st2\<lparr>ts_payments := ts_payments st2 @ [p]\<rparr>
                              in (case tr_send rt (the (agent_secret rt i)) (tp_destination p) (tp_amount p) of
                                    None \<Rightarrow> (st3, Inl (500, ''Transfer failed''))
                                  | Some txHash \<Rightarrow> (st3, Inr txHash)))))"

end
