(* ===== verification/Signed_Transfer_Facts.thy ===== *)
theory Signed_Transfer_Facts
  imports Signed_Transfer
begin

text \<open>
  What the transfer route guarantees: a payment needs the agent's signing key, a signature over
  exactly what is paid, a fresh expiry and an amount below the approval threshold, and no
  authorization is paid twice, whatever is requested and pruned in between.
\<close>

lemma canonicalizeTransferPayload_inj:
  "canonicalizeTransferPayload p = canonicalizeTransferPayload q \<longleftrightarrow> p = q"
proof
  assume eq: "canonicalizeTransferPayload p = canonicalizeTransferPayload q"
  have "tp_agent p = tp_agent q \<and> tp_destination p = tp_destination q \<and> tp_asset p = tp_asset q \<and>
      tp_amount p = tp_amount q \<and> tp_nonce p = tp_nonce q \<and> tp_expiry p = tp_expiry q"
    using eq by (simp add: canonicalizeTransferPayload_def json_entry_def json_quote_inj json_quote_eq)
  then show "p = q" by (cases p; cases q) simp
qed simp

lemma checked_text_ok: "checked_text ok v = Some s \<Longrightarrow> ok s"
  by (auto simp: checked_text_def split: option.splits json.splits if_splits)

lemma transferSchema_usdc: "transferSchema v = Some (p, signature) \<Longrightarrow> tp_asset p = ''USDC''"
  by (cases v) (auto simp: transferSchema_def Let_def split: option.splits if_splits dest: checked_text_ok)

text \<open>What has been checked when a payment is handed to Stellar.\<close>

definition authorised ::
  "transfer_runtime \<Rightarrow> talos_row list \<Rightarrow> instant \<Rightarrow> string \<Rightarrow> string option \<Rightarrow> request_body \<Rightarrow> transfer_state \<Rightarrow> transfer_payload \<Rightarrow> bool" where
  "authorised rt agents now i header body st p \<longleftrightarrow>
     (\<exists>signature e.
        fst (snd (verifyAgentApiKey (tr_sha256 rt) now header i [''wallet:sign''] agents (ts_keys st))) = AuthOk i \<and>
        parseBody transferSchema body = Inr (p, signature) \<and> tp_agent p = i \<and>
        verifyTransferSignature (tr_hmac rt) p (drop 7 (the header)) signature \<and>
        safe_integer (js_Number (tr_read rt) (tp_expiry p)) = Some e \<and>
        epoch_seconds now < e \<and> e \<le> epoch_seconds now + 300 \<and>
        (\<forall>talos. sel_one (\<lambda>a. tl_id a = i) agents = Some talos \<longrightarrow> amount_value (tp_amount p) \<le> tl_approvalThreshold talos))"

definition nonce_of :: "transfer_runtime \<Rightarrow> transfer_payload \<Rightarrow> consumed_nonce" where
  "nonce_of rt p = \<lparr>cn_talosId = tp_agent p, cn_nonce = tp_nonce p,
     cn_expiry = the (safe_integer (js_Number (tr_read rt) (tp_expiry p)))\<rparr>"

lemma auth_ok_id: "fst (snd (verifyAgentApiKey sha256 now header i scopes agents keys)) = AuthOk j \<Longrightarrow> j = i"
  by (auto simp: verifyAgentApiKey_def Let_def dest!: find_SomeD split: option.splits if_splits)

lemma consume_cases:
  assumes "consumeTransferNonce code read p n t = (t', answer)"
  shows "answer = Consumed \<Longrightarrow> \<exists>e. safe_integer (js_Number read (tp_expiry p)) = Some e \<and> n < e \<and> e \<le> n + 300 \<and>
      insert_nonce \<lparr>cn_talosId = tp_agent p, cn_nonce = tp_nonce p, cn_expiry = e\<rparr> t = Inr t'"
    "answer \<noteq> Consumed \<Longrightarrow> t' = t"
  using assms
  by (auto simp: consumeTransferNonce_def validateNonceWindow_def MAX_TRANSFER_AUTH_LIFETIME_SECONDS_def
      split: option.splits sum.splits if_splits)

lemma transfer_cases:
  assumes "transfer_request rt agents now i header body st = (st', res)"
  obtains (unpaid) "ts_payments st' = ts_payments st" "ts_nonces st' = ts_nonces st" "isl res"
  | (paid) p where "ts_payments st' = ts_payments st @ [p]" "authorised rt agents now i header body st p"
      "insert_nonce (nonce_of rt p) (ts_nonces st) = Inr (ts_nonces st')"
proof -
  obtain keys outcome logged where auth: "verifyAgentApiKey (tr_sha256 rt) now header i [''wallet:sign''] agents (ts_keys st)
      = (keys, outcome, logged)"
    by (metis prod_cases3)
  show thesis
  proof (cases outcome)
    case (AuthOk j)
    have j: "j = i" using auth_ok_id [of "tr_sha256 rt" now header i] auth AuthOk by (metis fst_conv snd_conv)
    show thesis
    proof (cases "parseBody transferSchema body")
      case (Inl e)
      then show thesis using assms AuthOk auth unpaid by (auto simp: transfer_request_def)
    next
      case (Inr x)
      obtain p signature where x: "x = (p, signature)" by fastforce
      obtain nonces answer where c: "consumeTransferNonce (tr_code rt) (tr_read rt) p (epoch_seconds now) (ts_nonces st) = (nonces, answer)"
        by fastforce
      note run = assms [unfolded transfer_request_def auth Let_def prod.case AuthOk auth_outcome.case Inr x sum.case]
      show thesis
      proof (cases "answer = Consumed \<and> tp_agent p = i \<and> verifyTransferSignature (tr_hmac rt) p (drop 7 (the header)) signature \<and>
          \<not> (case sel_one (\<lambda>a. tl_id a = i) agents of None \<Rightarrow> False | Some talos \<Rightarrow> amount_value (tp_amount p) > tl_approvalThreshold talos)")
        case False
        then have "ts_payments st' = ts_payments st \<and> ts_nonces st' = ts_nonces st \<and> isl res"
          using run c consume_cases(2) [OF c]
          by (cases answer rule: nonce_answer.exhaust; cases "tp_agent p = i"; cases "verifyTransferSignature (tr_hmac rt) p (drop 7 (the header)) signature")
            (auto split: if_splits nonce_answer.splits nonce_refusal.splits)
        then show thesis using unpaid by blast
      next
        case True
        from consume_cases(1) [OF c] True obtain e where e: "safe_integer (js_Number (tr_read rt) (tp_expiry p)) = Some e"
          "epoch_seconds now < e" "e \<le> epoch_seconds now + 300" "insert_nonce (nonce_of rt p) (ts_nonces st) = Inr nonces"
          by (auto simp: nonce_of_def)
        have auth_ok: "authorised rt agents now i header body st p"
          using True e auth AuthOk j Inr x unfolding authorised_def by (auto split: option.splits)
        show thesis
          using run True c auth_ok e(4) paid [of p] unpaid by (auto split: if_splits option.splits)
      qed
    qed
  qed (use assms auth unpaid in \<open>auto simp: transfer_request_def\<close>)
qed

section \<open>Every payment is authorised\<close>

text \<open>C14.
  A transfer request hands at most one payment to Stellar.  When it does, the caller held a key of
  this agent with the wallet:sign scope, the signature was made under that key over exactly this
  agent, destination, asset, amount, nonce and expiry, the expiry lay ahead by at most 300 seconds, the
  amount was within the agent's approval threshold, the asset is USDC, no row of this agent had the
  nonce, and the table has grown by exactly the row of this nonce and expiry; without a payment the
  answer is an error and no nonce is consumed.\<close>

theorem transfer_authorised:
  assumes "transfer_request rt agents now i header body st = (st', res)"
  shows "ts_payments st' = ts_payments st \<and> ts_nonces st' = ts_nonces st \<and> isl res \<or>
    (\<exists>p. ts_payments st' = ts_payments st @ [p] \<and> authorised rt agents now i header body st p \<and> tp_asset p = ''USDC'' \<and>
      ts_nonces st' = ts_nonces st @ [nonce_of rt p] \<and>
      (\<forall>r \<in> set (ts_nonces st). \<not> (cn_talosId r = i \<and> cn_nonce r = tp_nonce p)))"
  using assms
proof (cases rule: transfer_cases)
  case (paid p)
  obtain signature where s: "parseBody transferSchema body = Inr (p, signature)" "tp_agent p = i"
    using paid(2) by (auto simp: authorised_def)
  then obtain raw where "transferSchema raw = Some (p, signature)" using parseBody_ok [of transferSchema body "(p, signature)"] by blast
  then have "tp_asset p = ''USDC''" by (rule transferSchema_usdc)
  moreover have "ts_nonces st' = ts_nonces st @ [nonce_of rt p]"
    "\<forall>r \<in> set (ts_nonces st). \<not> (cn_talosId r = i \<and> cn_nonce r = tp_nonce p)"
    using paid(3) s(2) by (auto simp: insert_nonce_def nonce_of_def list_ex_iff split: if_splits)
  ultimately show ?thesis using paid(1,2) by blast
qed blast

text \<open>A signature made for another payload is accepted only if the two texts collide under the digest.\<close>

lemma other_payload_collides:
  assumes "authorised rt agents now i header body st p"
    "parseBody transferSchema body = Inr (p, signTransferPayload (tr_hmac rt) q (drop 7 (the header)))" "q \<noteq> p"
  shows "canonicalizeTransferPayload q \<noteq> canonicalizeTransferPayload p \<and>
    from_hex (tr_hmac rt (drop 7 (the header)) (canonicalizeTransferPayload q)) =
      from_hex (tr_hmac rt (drop 7 (the header)) (canonicalizeTransferPayload p))"
  using assms by (auto simp: canonicalizeTransferPayload_inj authorised_def verifyTransferSignature_def signTransferPayload_def)

section \<open>No authorization is paid twice\<close>

text \<open>A history of the service: transfer requests, each with its agents, the clock it read and the
  later instant at which its nonce was inserted, and prunings of the nonce table.  A timely request
  stalls for at most \<open>stall\<close> seconds in between.\<close>

datatype transfer_event =
    TransferRequest "talos_row list" instant instant string "string option" request_body
  | PruneNonces instant

fun event_time :: "transfer_event \<Rightarrow> instant" where
  "event_time (TransferRequest agents now inserted i header body) = inserted"
| "event_time (PruneNonces at_time) = at_time"

fun timely :: "int \<Rightarrow> transfer_event \<Rightarrow> bool" where
  "timely stall (TransferRequest agents now inserted i header body) \<longleftrightarrow>
     epoch_seconds inserted \<le> epoch_seconds now + stall"
| "timely stall (PruneNonces at_time) \<longleftrightarrow> True"

fun transfer_step :: "transfer_runtime \<Rightarrow> transfer_event \<Rightarrow> transfer_state \<Rightarrow> transfer_state" where
  "transfer_step rt (TransferRequest agents now inserted i header body) st =
     fst (transfer_request rt agents now i header body st)"
| "transfer_step rt (PruneNonces at_time) st = st\<lparr>ts_nonces := pruneExpiredNonces at_time (ts_nonces st)\<rparr>"

definition expires :: "transfer_runtime \<Rightarrow> transfer_payload \<Rightarrow> int" where
  "expires rt p = cn_expiry (nonce_of rt p)"

definition same_nonce :: "transfer_payload \<Rightarrow> transfer_payload \<Rightarrow> bool" where
  "same_nonce p q \<longleftrightarrow> tp_agent p = tp_agent q \<and> tp_nonce p = tp_nonce q"

text \<open>A payment still has its nonce row, or its authorization is older than the retention.\<close>

definition on_record :: "transfer_runtime \<Rightarrow> int \<Rightarrow> transfer_state \<Rightarrow> bool" where
  "on_record rt seconds st \<longleftrightarrow>
     (\<forall>p \<in> set (ts_payments st). nonce_of rt p \<in> set (ts_nonces st) \<or> expires rt p + NONCE_RETENTION_SECONDS < seconds)"

text \<open>A nonce pays again only for an authorization signed for a much later expiry.\<close>

definition far_apart :: "transfer_runtime \<Rightarrow> int \<Rightarrow> transfer_state \<Rightarrow> bool" where
  "far_apart rt stall st \<longleftrightarrow>
     sorted_wrt (\<lambda>p q. same_nonce p q \<longrightarrow> expires rt p + NONCE_RETENTION_SECONDS < expires rt q + stall) (ts_payments st)"

lemma epoch_mono: "a \<le> b \<Longrightarrow> epoch_seconds a \<le> epoch_seconds b"
  by (simp add: epoch_seconds_def zdiv_mono1)

lemma transfer_step_ok:
  assumes "on_record rt (epoch_seconds t0) st" "far_apart rt stall st" "t0 \<le> event_time ev" "timely stall ev"
  shows "on_record rt (epoch_seconds (event_time ev)) (transfer_step rt ev st) \<and> far_apart rt stall (transfer_step rt ev st)"
proof (cases ev)
  case (PruneNonces at_time)
  then show ?thesis
    using assms(1-3) epoch_mono [of t0 at_time]
    by (auto simp: on_record_def far_apart_def expires_def pruneExpiredNonces_def del_def Let_def)
next
  case (TransferRequest agents now inserted i header body)
  have mono: "epoch_seconds t0 \<le> epoch_seconds inserted" using assms(3) TransferRequest epoch_mono by simp
  obtain st' res where run: "transfer_request rt agents now i header body st = (st', res)" by fastforce
  from run have "on_record rt (epoch_seconds inserted) st' \<and> far_apart rt stall st'"
  proof (cases rule: transfer_cases)
    case unpaid
    then show ?thesis using assms(1,2) mono by (auto simp: on_record_def far_apart_def)
  next
    case (paid p)
    have free: "nonce_of rt q \<notin> set (ts_nonces st)" if "same_nonce q p" for q
      using paid(3) that by (auto simp: insert_nonce_def list_ex_iff nonce_of_def same_nonce_def split: if_splits)
    have rows: "ts_nonces st' = ts_nonces st @ [nonce_of rt p]"
      using paid(3) by (auto simp: insert_nonce_def split: if_splits)
    have "epoch_seconds now < expires rt p" using paid(2) by (auto simp: authorised_def expires_def nonce_of_def)
    then have "epoch_seconds t0 < expires rt p + stall" using assms(4) TransferRequest mono by simp
    then have "expires rt q + NONCE_RETENTION_SECONDS < expires rt p + stall" if "q \<in> set (ts_payments st)" "same_nonce q p" for q
      using assms(1) free that by (fastforce simp: on_record_def)
    then show ?thesis
      using assms(1,2) mono paid(1) rows by (auto simp: on_record_def far_apart_def sorted_wrt_append)
  qed
  then show ?thesis using TransferRequest run by simp
qed

lemma transfer_run_ok:
  assumes "on_record rt (epoch_seconds t0) st" "far_apart rt stall st" "sorted (t0 # map event_time evs)" "\<forall>ev \<in> set evs. timely stall ev"
  shows "on_record rt (epoch_seconds (last (t0 # map event_time evs))) (fold (transfer_step rt) evs st) \<and>
    far_apart rt stall (fold (transfer_step rt) evs st)"
  using assms
proof (induction evs arbitrary: t0 st)
  case (Cons ev evs)
  have "on_record rt (epoch_seconds (event_time ev)) (transfer_step rt ev st) \<and> far_apart rt stall (transfer_step rt ev st)"
    using Cons.prems by (intro transfer_step_ok) auto
  then show ?case using Cons.IH [of "event_time ev" "transfer_step rt ev st"] Cons.prems(3,4) by simp
qed auto

lemma irreflexive_distinct: "sorted_wrt R xs \<Longrightarrow> (\<And>x. \<not> R x x) \<Longrightarrow> distinct xs"
  by (induction xs) auto

text \<open>C2.
  At most once: in any history of transfer requests and prunings of the nonce table, whose clocks do not
  run backwards and whose requests stall for less than the hour of retention between reading the clock
  and inserting the nonce, no signed authorization is handed to Stellar twice; two payments of an agent
  under one nonce have expiries that are an hour less the stall apart, so the nonce was signed anew
  after its row had been pruned; and every payment has its nonce row, unless its authorization expired
  more than an hour before the last event.\<close>

theorem transfer_paid_once:
  assumes "ts_payments st = []" "sorted (map event_time evs)" "\<forall>ev \<in> set evs. timely stall ev" "stall \<le> NONCE_RETENTION_SECONDS"
    "evs \<noteq> []"
  shows "distinct (ts_payments (fold (transfer_step rt) evs st)) \<and>
    sorted_wrt (\<lambda>p q. same_nonce p q \<longrightarrow> expires rt p + NONCE_RETENTION_SECONDS < expires rt q + stall)
      (ts_payments (fold (transfer_step rt) evs st)) \<and>
    (\<forall>p \<in> set (ts_payments (fold (transfer_step rt) evs st)). nonce_of rt p \<in> set (ts_nonces (fold (transfer_step rt) evs st)) \<or>
       expires rt p + NONCE_RETENTION_SECONDS < epoch_seconds (event_time (last evs)))"
proof -
  obtain ev rest where evs: "evs = ev # rest" using assms(5) by (cases evs) simp_all
  let ?final = "fold (transfer_step rt) evs st"
  have "on_record rt (epoch_seconds (event_time ev)) st" "far_apart rt stall st"
    using assms(1) by (simp_all add: on_record_def far_apart_def)
  moreover have "sorted (event_time ev # map event_time evs)" using assms(2) evs by auto
  ultimately have ok: "on_record rt (epoch_seconds (last (event_time ev # map event_time evs))) ?final" "far_apart rt stall ?final"
    using transfer_run_ok assms(3) by blast+
  have "last (event_time ev # map event_time evs) = event_time (last evs)" using assms(5) by (simp add: last_map)
  moreover have "distinct (ts_payments ?final)"
    using ok(2) assms(4) unfolding far_apart_def by (intro irreflexive_distinct) (auto simp: same_nonce_def)
  ultimately show ?thesis using ok by (simp add: on_record_def far_apart_def)
qed

section \<open>A concrete transfer\<close>

definition sample_payload :: transfer_payload where
  "sample_payload = \<lparr>tp_agent = ''t1'', tp_destination = CHR ''G'' # replicate 55 (CHR ''A''), tp_asset = ''USDC'',
     tp_amount = ''7.50'', tp_nonce = replicate 64 (CHR ''b''), tp_expiry = ''1700000100''\<rparr>"

definition sample_transfer_body :: request_body where
  "sample_transfer_body = \<lparr>rb_declared = None, rb_bytes = 400, rb_json = Some (JObj
     [(''agent'', JStr (tp_agent sample_payload)), (''destination'', JStr (tp_destination sample_payload)),
      (''asset'', JStr (tp_asset sample_payload)), (''amount'', JStr (tp_amount sample_payload)),
      (''nonce'', JStr (tp_nonce sample_payload)), (''expiry'', JStr (tp_expiry sample_payload)),
      (''signature'', JStr (signTransferPayload toy_hmac sample_payload ''tak_1''))])\<rparr>"

definition sample_runtime :: transfer_runtime where
  "sample_runtime = \<lparr>tr_sha256 = mark_sha, tr_hmac = toy_hmac, tr_read = (\<lambda>s. NotFinite), tr_env = (\<lambda>n. Some ''S''),
     tr_code = (\<lambda>e. if e = NonceTaken then Some ''23505'' else None), tr_send = (\<lambda>s d a. Some ''tx'')\<rparr>"

definition fresh_state :: transfer_state where
  "fresh_state = \<lparr>ts_keys = [sample_key\<lparr>ak_expiresAt := None\<rparr>], ts_nonces = [], ts_payments = []\<rparr>"

definition sample_request :: "transfer_state \<Rightarrow> transfer_state \<times> (http_error + string)" where
  "sample_request = transfer_request sample_runtime [sample_talos] 1700000000000 ''t1'' (Some ''Bearer tak_1'') sample_transfer_body"

lemma sample_parse: "parseBody transferSchema sample_transfer_body =
    Inr (sample_payload, signTransferPayload toy_hmac sample_payload ''tak_1'')"
  by code_simp

lemma sample_expiry: "js_Number read ''1700000100'' = Finite 1700000100"
proof -
  have "digits_of 1700000100 = ''1700000100''" by (simp add: digits_of.simps) code_simp
  then show ?thesis using js_Number_digits [of read 1700000100] by simp
qed

lemma sample_auth: "verifyAgentApiKey mark_sha 1700000000000 (Some ''Bearer tak_1'') ''t1'' [''wallet:sign''] [sample_talos] (ts_keys fresh_state)
    = ([sample_key\<lparr>ak_expiresAt := None, ak_lastUsedAt := Some 1700000000000\<rparr>], AuthOk ''t1'', Some (granted_note ''t1''))"
  by (simp add: verifyAgentApiKey_def extractBearerToken_def starts_with_def sample_talos_def fresh_state_def scoped_key_def
      sample_key_def mark_sha_def key_expired_def grants_def touch_key_def Let_def)

lemma sample_paid: "\<exists>st'. sample_request fresh_state = (st', Inr ''tx'') \<and> ts_payments st' = [sample_payload]"
proof -
  have sig: "verifyTransferSignature toy_hmac sample_payload ''tak_1'' (signTransferPayload toy_hmac sample_payload ''tak_1'')"
    by code_simp
  have fields: "tp_agent sample_payload = ''t1''" "tp_expiry sample_payload = ''1700000100''" "amount_value (tp_amount sample_payload) = 15 / 2"
    by (simp_all add: sample_payload_def amount_value_def)
  show ?thesis
    using sig unfolding sample_request_def transfer_request_def
    by (simp add: sample_runtime_def sample_auth sample_parse fields sample_expiry epoch_seconds_def agent_secret_def
        consumeTransferNonce_def validateNonceWindow_def MAX_TRANSFER_AUTH_LIFETIME_SECONDS_def insert_nonce_def
        sample_talos_def [THEN arg_cong [where f = tl_id]] sample_talos_def [THEN arg_cong [where f = tl_approvalThreshold]]
        Let_def) (simp add: fresh_state_def)
qed

theorem transfer_authorised_witness:
  "\<exists>st'. sample_request fresh_state = (st', Inr ''tx'') \<and>
     authorised sample_runtime [sample_talos] 1700000000000 ''t1'' (Some ''Bearer tak_1'') sample_transfer_body fresh_state sample_payload \<and>
     ts_nonces st' = [nonce_of sample_runtime sample_payload]"
proof -
  obtain st' where run: "sample_request fresh_state = (st', Inr ''tx'')" "ts_payments st' = [sample_payload]"
    using sample_paid by blast
  have "ts_payments fresh_state = []" "ts_nonces fresh_state = []" by (simp_all add: fresh_state_def)
  then show ?thesis
    using transfer_authorised [OF run(1) [unfolded sample_request_def]] run by auto
qed

definition replayed_history :: "transfer_event list" where
  "replayed_history =
     [TransferRequest [sample_talos] 1700000000000 1700000000500 ''t1'' (Some ''Bearer tak_1'') sample_transfer_body,
      PruneNonces 1700000001000,
      TransferRequest [sample_talos] 1700000002000 1700000002000 ''t1'' (Some ''Bearer tak_1'') sample_transfer_body]"

theorem transfer_paid_once_witness:
  "distinct (ts_payments (fold (transfer_step sample_runtime) replayed_history fresh_state)) \<and>
   sample_payload \<in> set (ts_payments (transfer_step sample_runtime (hd replayed_history) fresh_state))"
proof -
  have "ts_payments fresh_state = []" by (simp add: fresh_state_def)
  moreover have "sorted (map event_time replayed_history)" "\<forall>ev \<in> set replayed_history. timely 1 ev"
    "1 \<le> NONCE_RETENTION_SECONDS" "replayed_history \<noteq> []"
    by (simp_all add: replayed_history_def epoch_seconds_def NONCE_RETENTION_SECONDS_def)
  moreover have "sample_payload \<in> set (ts_payments (transfer_step sample_runtime (hd replayed_history) fresh_state))"
    using sample_paid by (auto simp: replayed_history_def sample_request_def)
  ultimately show ?thesis using transfer_paid_once [of fresh_state replayed_history 1 sample_runtime] by blast
qed

end
