(* ===== verification/Agent_Owner.thy ===== *)
theory Agent_Owner
  imports Audit_Writers Api_Auth Commerce_Jobs
begin

text \<open>
  What the owner of an agent can do to it: the wallet-ownership proof
  (web/src/lib/api-key-owner-auth.ts), the scoped-key routes, key regeneration, retirement, deletion
  and the status route under web/src/app/api/talos/[id].

  \<open>ed25519 address message signature\<close> is the Stellar library's check; \<open>None\<close> is the exception it
  throws on a malformed key.  Ids, key material and the parsing of ISO dates are parameters.  The
  rows that deletion marks in tables outside this model (patrons, activities, approvals, services,
  playbooks) are left out.
\<close>

section \<open>State\<close>

record owner_state =
  os_agents :: "talos_row list"
  os_keys :: "api_key list"
  os_audit :: "audit_row list"
  os_market :: market

type_synonym ed25519 = "string \<Rightarrow> string \<Rightarrow> string \<Rightarrow> bool option"

definition find_talos :: "string \<Rightarrow> talos_row list \<Rightarrow> talos_row option" where
  "find_talos i agents = sel_one (\<lambda>a. tl_id a = i) agents"

definition owns :: "string \<Rightarrow> talos_row \<Rightarrow> bool" where
  "owns address a \<longleftrightarrow> tl_creatorPublicKey a = Some address \<or> tl_walletPublicKey a = Some address"

section \<open>Proof of ownership\<close>

definition MAX_SIGNATURE_AGE_MS :: int where "MAX_SIGNATURE_AGE_MS = 5 * 60 * 1000"

record owner_headers =
  oh_address :: "string option"
  oh_message :: "string option"
  oh_signature :: "string option"
  oh_authorization :: "string option"

text \<open>The regular expression on the message; the resource names have no colon.\<close>

definition parse_proof :: "string \<Rightarrow> string \<Rightarrow> (string \<times> string \<times> int) option" where
  "parse_proof resource message =
     (case js_split (CHR '':'') message of
        [prefix, i, res, meth, stamp] \<Rightarrow>
          if prefix = ''talos'' \<and> i \<noteq> [] \<and> res = resource \<and> meth \<in> set [''GET'', ''POST'', ''PATCH'', ''DELETE''] \<and>
             length stamp = 13 \<and> list_all digit stamp
          then Some (i, meth, int (digits_value 0 stamp)) else None
      | _ \<Rightarrow> None)"

definition verifyApiKeyOwnerProof ::
  "ed25519 \<Rightarrow> instant \<Rightarrow> string \<Rightarrow> owner_headers \<Rightarrow> string \<Rightarrow> string \<Rightarrow> talos_row list \<Rightarrow> bool" where
  "verifyApiKeyOwnerProof ed now request_method h talosId resource agents \<longleftrightarrow>
     truthy_str (oh_address h) \<and> truthy_str (oh_message h) \<and> truthy_str (oh_signature h) \<and>
     (case parse_proof resource (the (oh_message h)) of
        None \<Rightarrow> False
      | Some (i, meth, timestamp) \<Rightarrow>
          i = talosId \<and> meth = request_method \<and> \<bar>now - timestamp\<bar> \<le> MAX_SIGNATURE_AGE_MS \<and>
          (case find_talos talosId agents of
             None \<Rightarrow> False
           | Some agent \<Rightarrow>
               owns (the (oh_address h)) agent \<and>
               ed (the (oh_address h)) (the (oh_message h)) (the (oh_signature h)) = Some True))"

text \<open>\<open>None\<close>: authorized.\<close>

definition authorizeApiKeyManagement ::
  "ed25519 \<Rightarrow> (string \<Rightarrow> string) \<Rightarrow> instant \<Rightarrow> string \<Rightarrow> owner_headers \<Rightarrow> string \<Rightarrow> owner_state \<Rightarrow> owner_state \<times> http_error option" where
  "authorizeApiKeyManagement ed sha256 now request_method h talosId st =
     (if verifyApiKeyOwnerProof ed now request_method h talosId ''api-keys'' (os_agents st) then (st, None)
      else
        let (keys, outcome, logged) =
              verifyAgentApiKey sha256 now (oh_authorization h) talosId [''admin''] (os_agents st) (os_keys st);
            st' = st\<lparr>os_keys := keys\<rparr>
        in case outcome of
             AuthOk i \<Rightarrow> (st', None)
           | AuthDenied e \<Rightarrow> (st', Some e)
           | AuthThrew \<Rightarrow> (st', Some (500, ''Internal server error'')))"

section \<open>Scoped keys\<close>

record key_input =
  ki_name :: "string option"
  ki_scopes :: "string list option"
  ki_expiresAt :: "string option option"

definition valid_name :: "string \<Rightarrow> bool" where
  "valid_name s \<longleftrightarrow> 1 \<le> length s \<and> length s \<le> 100"

definition scopes_field :: "json option \<Rightarrow> string list option" where
  "scopes_field v =
     (case v of Some (JArr vs) \<Rightarrow>
        (case texts_of vs of Some ss \<Rightarrow> if ss \<noteq> [] \<and> set ss \<subseteq> set VALID_SCOPES then Some ss else None | None \<Rightarrow> None)
      | _ \<Rightarrow> None)"

text \<open>\<open>is_datetime\<close>: Zod's check of an ISO date with time.\<close>

definition createApiKeySchema :: "(string \<Rightarrow> bool) \<Rightarrow> json \<Rightarrow> key_input option" where
  "createApiKeySchema is_datetime v =
     (case object_fields v of
        None \<Rightarrow> None
      | Some field \<Rightarrow>
          (case (field ''name'', scopes_field (field ''scopes''), field ''expiresAt'') of
             (Some (JStr name), Some scopes, None) \<Rightarrow>
               if valid_name name then Some \<lparr>ki_name = Some name, ki_scopes = Some scopes, ki_expiresAt = None\<rparr> else None
           | (Some (JStr name), Some scopes, Some (JStr e)) \<Rightarrow>
               if valid_name name \<and> is_datetime e
               then Some \<lparr>ki_name = Some name, ki_scopes = Some scopes, ki_expiresAt = Some (Some e)\<rparr> else None
           | _ \<Rightarrow> None))"

definition updateApiKeySchema :: "(string \<Rightarrow> bool) \<Rightarrow> json \<Rightarrow> key_input option" where
  "updateApiKeySchema is_datetime v =
     (case object_fields v of
        None \<Rightarrow> None
      | Some field \<Rightarrow>
          let name = (case field ''name'' of None \<Rightarrow> Some None
                | Some (JStr s) \<Rightarrow> if valid_name s then Some (Some s) else None | _ \<Rightarrow> None);
              scopes = (case field ''scopes'' of None \<Rightarrow> Some None | f \<Rightarrow> map_option Some (scopes_field f));
              expires = (case field ''expiresAt'' of None \<Rightarrow> Some None | Some JNull \<Rightarrow> Some (Some None)
                | Some (JStr e) \<Rightarrow> if is_datetime e then Some (Some (Some e)) else None | _ \<Rightarrow> None)
          in case (name, scopes, expires) of
               (Some n, Some s, Some e) \<Rightarrow> Some \<lparr>ki_name = n, ki_scopes = s, ki_expiresAt = e\<rparr>
             | _ \<Rightarrow> None)"

text \<open>\<open>expiresAt ? new Date(expiresAt) : null\<close>.\<close>

definition expiry_value :: "(string \<Rightarrow> instant) \<Rightarrow> string option \<Rightarrow> instant option" where
  "expiry_value parse_date e = (if truthy_str e then Some (parse_date (the e)) else None)"

definition insert_api_key :: "api_key \<Rightarrow> api_key list \<Rightarrow> api_key list option" where
  "insert_api_key k t =
     (if list_ex (\<lambda>r. ak_id r = ak_id k \<or> ak_keyHash r = ak_keyHash k) t then None else Some (t @ [k]))"

definition create_api_key ::
  "ed25519 \<Rightarrow> (string \<Rightarrow> string) \<Rightarrow> (string \<Rightarrow> bool) \<Rightarrow> (string \<Rightarrow> instant) \<Rightarrow> instant \<Rightarrow> string \<Rightarrow> string \<Rightarrow> owner_headers
     \<Rightarrow> string \<Rightarrow> request_body \<Rightarrow> owner_state \<Rightarrow> owner_state \<times> (http_error + (api_key \<times> string))" where
  "create_api_key ed sha256 is_datetime parse_date now newId raw h talosId body st =
     (case authorizeApiKeyManagement ed sha256 now ''POST'' h talosId st of
        (st1, Some e) \<Rightarrow> (st1, Inl e)
      | (st1, None) \<Rightarrow>
          (case parseBody (createApiKeySchema is_datetime) body of
             Inl e \<Rightarrow> (st1, Inl e)
           | Inr inp \<Rightarrow>
               let k = \<lparr>ak_id = newId, ak_talosId = talosId, ak_name = coalesce (ki_name inp) [], ak_keyHash = sha256 raw,
                        ak_scopes = coalesce (ki_scopes inp) [],
                        ak_expiresAt = expiry_value parse_date (coalesce (ki_expiresAt inp) None),
                        ak_lastUsedAt = None, ak_status = ''active'', ak_createdAt = now\<rparr>
               in case insert_api_key k (os_keys st1) of
                    None \<Rightarrow> (st1, Inl (500, ''Internal server error''))
                  | Some keys \<Rightarrow> (st1\<lparr>os_keys := keys\<rparr>, Inr (k, raw))))"

definition update_api_key ::
  "ed25519 \<Rightarrow> (string \<Rightarrow> string) \<Rightarrow> (string \<Rightarrow> bool) \<Rightarrow> (string \<Rightarrow> instant) \<Rightarrow> instant \<Rightarrow> owner_headers
     \<Rightarrow> string \<Rightarrow> string \<Rightarrow> request_body \<Rightarrow> owner_state \<Rightarrow> owner_state \<times> (http_error + api_key option)" where
  "update_api_key ed sha256 is_datetime parse_date now h talosId keyId body st =
     (case authorizeApiKeyManagement ed sha256 now ''PATCH'' h talosId st of
        (st1, Some e) \<Rightarrow> (st1, Inl e)
      | (st1, None) \<Rightarrow>
          (case sel_one (\<lambda>k. ak_id k = keyId \<and> ak_talosId k = talosId) (os_keys st1) of
             None \<Rightarrow> (st1, Inl (404, ''API key not found''))
           | Some k \<Rightarrow>
               (case parseBody (updateApiKeySchema is_datetime) body of
                  Inl e \<Rightarrow> (st1, Inl e)
                | Inr inp \<Rightarrow>
                    if ki_name inp = None \<and> ki_scopes inp = None \<and> ki_expiresAt inp = None
                    then (st1, Inl (400, ''No fields to update''))
                    else
                      let (keys, rows) = upd_returning (\<lambda>r. ak_id r = keyId)
                            (\<lambda>r. r\<lparr>ak_name := coalesce (ki_name inp) (ak_name r),
                                   ak_scopes := coalesce (ki_scopes inp) (ak_scopes r),
                                   ak_expiresAt := (case ki_expiresAt inp of None \<Rightarrow> ak_expiresAt r
                                                    | Some e \<Rightarrow> expiry_value parse_date e)\<rparr>) (os_keys st1)
                      in (st1\<lparr>os_keys := keys\<rparr>, Inr (first_row rows)))))"

definition revoke_api_key ::
  "ed25519 \<Rightarrow> (string \<Rightarrow> string) \<Rightarrow> instant \<Rightarrow> owner_headers \<Rightarrow> string \<Rightarrow> string \<Rightarrow> owner_state
     \<Rightarrow> owner_state \<times> (http_error + string)" where
  "revoke_api_key ed sha256 now h talosId keyId st =
     (case authorizeApiKeyManagement ed sha256 now ''DELETE'' h talosId st of
        (st1, Some e) \<Rightarrow> (st1, Inl e)
      | (st1, None) \<Rightarrow>
          (case sel_one (\<lambda>k. ak_id k = keyId \<and> ak_talosId k = talosId) (os_keys st1) of
             None \<Rightarrow> (st1, Inl (404, ''API key not found''))
           | Some k \<Rightarrow>
               (st1\<lparr>os_keys := upd (\<lambda>r. ak_id r = keyId) (\<lambda>r. r\<lparr>ak_status := ''revoked''\<rparr>) (os_keys st1)\<rparr>,
                Inr ''API key revoked'')))"

section \<open>Signed owner requests\<close>

record signed_body =
  sg_stellarPublicKey :: string
  sg_signature :: string
  sg_message :: string
  sg_reason :: string
  sg_supersededBy :: "string option"

definition nonempty_field :: "json option \<Rightarrow> string option" where
  "nonempty_field v = (case v of Some (JStr s) \<Rightarrow> if s \<noteq> [] then Some s else None | _ \<Rightarrow> None)"

definition reason_field :: "json option \<Rightarrow> string option" where
  "reason_field v = (case v of Some (JStr s) \<Rightarrow> if 1 \<le> length s \<and> length s \<le> 1000 then Some s else None | _ \<Rightarrow> None)"

definition regenerateKeySchema :: "json \<Rightarrow> signed_body option" where
  "regenerateKeySchema v =
     (case object_fields v of
        None \<Rightarrow> None
      | Some field \<Rightarrow>
          (case (nonempty_field (field ''stellarPublicKey''), nonempty_field (field ''signature''), nonempty_field (field ''message'')) of
             (Some k, Some s, Some m) \<Rightarrow>
               Some \<lparr>sg_stellarPublicKey = k, sg_signature = s, sg_message = m, sg_reason = [], sg_supersededBy = None\<rparr>
           | _ \<Rightarrow> None))"

definition deleteAgentSchema :: "json \<Rightarrow> signed_body option" where
  "deleteAgentSchema v =
     (case object_fields v of
        None \<Rightarrow> None
      | Some field \<Rightarrow>
          (case (regenerateKeySchema v, reason_field (field ''reason'')) of
             (Some b, Some r) \<Rightarrow> Some (b\<lparr>sg_reason := r\<rparr>) | _ \<Rightarrow> None))"

definition retireAgentSchema :: "json \<Rightarrow> signed_body option" where
  "retireAgentSchema v =
     (case object_fields v of
        None \<Rightarrow> None
      | Some field \<Rightarrow>
          (case (deleteAgentSchema v, field ''supersededBy'') of
             (Some b, None) \<Rightarrow> Some b
           | (Some b, Some JNull) \<Rightarrow> Some b
           | (Some b, Some (JStr s)) \<Rightarrow> Some (b\<lparr>sg_supersededBy := Some s\<rparr>)
           | _ \<Rightarrow> None))"

text \<open>The checks the three routes share after their lookups: \<open>None\<close> when they pass.\<close>

definition signature_error :: "ed25519 \<Rightarrow> signed_body \<Rightarrow> talos_row \<Rightarrow> http_error option" where
  "signature_error ed b talos =
     (if tl_walletPublicKey talos \<noteq> Some (sg_stellarPublicKey b) \<and> tl_creatorPublicKey talos \<noteq> Some (sg_stellarPublicKey b)
      then Some (403, ''Unauthorized'')
      else if ed (sg_stellarPublicKey b) (sg_message b) (sg_signature b) \<noteq> Some True
      then Some (403, ''Invalid signature'')
      else None)"

definition regenerate_key ::
  "ed25519 \<Rightarrow> instant \<Rightarrow> string \<Rightarrow> string option \<Rightarrow> string \<Rightarrow> request_body \<Rightarrow> owner_state \<Rightarrow> owner_state \<times> (http_error + string)" where
  "regenerate_key ed now newApiKey ip i body st =
     (case parseBody regenerateKeySchema body of
        Inl e \<Rightarrow> (st, Inl e)
      | Inr b \<Rightarrow>
          if \<not> js_includes i (sg_message b) then (st, Inl (400, ''Signature message must contain the TALOS ID''))
          else case find_talos i (os_agents st) of
            None \<Rightarrow> (st, Inl (404, ''TALOS not found''))
          | Some talos \<Rightarrow>
              (case signature_error ed b talos of
                 Some e \<Rightarrow> (st, Inl e)
               | None \<Rightarrow>
                   if list_ex (\<lambda>a. tl_id a \<noteq> i \<and> tl_apiKey a = Some newApiKey) (os_agents st)
                   then (st, Inl (500, ''Internal server error''))
                   else
                     (st\<lparr>os_agents := upd (\<lambda>a. tl_id a = i) (\<lambda>a. a\<lparr>tl_apiKey := Some newApiKey\<rparr>) (os_agents st),
                         os_audit := os_audit st @ [plain_audit_row now
                           \<lparr>ac_talosId = i, ac_method = ''POST'', ac_path = ''/api/talos/'' @ i @ ''/regenerate-key'',
                            ac_statusCode = 200, ac_ipAddress = ip, ac_denialReason = None, ac_scopesRequired = None\<rparr>]\<rparr>,
                      Inr newApiKey)))"

definition retire_agent ::
  "ed25519 \<Rightarrow> instant \<Rightarrow> string \<Rightarrow> request_body \<Rightarrow> owner_state \<Rightarrow> owner_state \<times> (http_error + string)" where
  "retire_agent ed now i body st =
     (case parseBody retireAgentSchema body of
        Inl e \<Rightarrow> (st, Inl e)
      | Inr b \<Rightarrow>
          if \<not> js_includes i (sg_message b) then (st, Inl (400, ''Signature message must contain the TALOS ID''))
          else if truthy_str (sg_supersededBy b) \<and> find_talos (the (sg_supersededBy b)) (os_agents st) = None
          then (st, Inl (400, ''supersededBy must reference an existing agent''))
          else case find_talos i (os_agents st) of
            None \<Rightarrow> (st, Inl (404, ''TALOS not found''))
          | Some talos \<Rightarrow>
              if tl_retiredAt talos \<noteq> None then (st, Inl (400, ''TALOS already retired''))
              else (case signature_error ed b talos of
                 Some e \<Rightarrow> (st, Inl e)
               | None \<Rightarrow>
                   (st\<lparr>os_agents := upd (\<lambda>a. tl_id a = i)
                        (\<lambda>a. a\<lparr>tl_retiredAt := Some now, tl_retiredReason := Some (sg_reason b),
                               tl_supersededBy := (if truthy_str (sg_supersededBy b) then sg_supersededBy b else None),
                               tl_status := ''Retired'', tl_agentOnline := False\<rparr>) (os_agents st)\<rparr>,
                    Inr i)))"

definition delete_agent ::
  "ed25519 \<Rightarrow> instant \<Rightarrow> string \<Rightarrow> request_body \<Rightarrow> owner_state \<Rightarrow> owner_state \<times> (http_error + string)" where
  "delete_agent ed now i body st =
     (case parseBody deleteAgentSchema body of
        Inl e \<Rightarrow> (st, Inl e)
      | Inr b \<Rightarrow>
          if \<not> js_includes i (sg_message b) then (st, Inl (400, ''Signature message must contain the TALOS ID''))
          else case find_talos i (os_agents st) of
            None \<Rightarrow> (st, Inl (404, ''TALOS not found''))
          | Some talos \<Rightarrow>
              if tl_deletedAt talos \<noteq> None then (st, Inl (409, ''TALOS already deleted''))
              else (case signature_error ed b talos of
                 Some e \<Rightarrow> (st, Inl e)
               | None \<Rightarrow>
                   (st\<lparr>os_agents := upd (\<lambda>a. tl_id a = i)
                        (\<lambda>a. a\<lparr>tl_deletedAt := Some now, tl_deletedReason := Some (sg_reason b), tl_apiKey := None,
                               tl_agentWalletId := None, tl_agentWalletAddress := None, tl_walletPublicKey := None,
                               tl_creatorPublicKey := None, tl_investorPublicKey := None, tl_treasuryPublicKey := None\<rparr>)
                        (os_agents st),
                       os_market := (os_market st)\<lparr>mk_jobs :=
                         upd (\<lambda>j. mj_talosId j = i) (\<lambda>j. j\<lparr>mj_status := ''deleted'', mj_updatedAt := now\<rparr>)
                           (mk_jobs (os_market st))\<rparr>\<rparr>,
                    Inr i)))"

section \<open>The status route\<close>

definition VALID_LIFECYCLE_STATUSES :: "string list" where
  "VALID_LIFECYCLE_STATUSES = [''Active'', ''Paused'', ''Retired'']"

text \<open>\<open>toUpperCase()\<close> of the first character; only letters that begin a valid status matter.\<close>

definition upper_first :: "char \<Rightarrow> char" where
  "upper_first c = (let n = of_char c :: nat in if 97 \<le> n \<and> n \<le> 122 then char_of (n - 32) else c)"

definition normalizeLifecycleStatus :: "json option \<Rightarrow> string option" where
  "normalizeLifecycleStatus v =
     (case v of
        Some (JStr value) \<Rightarrow>
          let normalized = js_trim value
          in if normalized = [] then None
             else let titleCased = upper_first (hd normalized) # js_lower (tl normalized)
                  in if titleCased \<in> set VALID_LIFECYCLE_STATUSES then Some titleCased else None
      | _ \<Rightarrow> None)"

definition json_bool :: "json option \<Rightarrow> bool option" where
  "json_bool v = (case v of Some (JBool b) \<Rightarrow> Some b | _ \<Rightarrow> None)"

definition patch_status ::
  "(string \<Rightarrow> string) \<Rightarrow> instant \<Rightarrow> string option \<Rightarrow> string \<Rightarrow> json option \<Rightarrow> owner_state \<Rightarrow> owner_state \<times> (http_error + talos_row option)" where
  "patch_status sha256 now header i body st =
     (let (keys, outcome, logged) = verifyAgentApiKey sha256 now header i [''settings:write''] (os_agents st) (os_keys st);
          st1 = st\<lparr>os_keys := keys\<rparr>
      in case outcome of
           AuthThrew \<Rightarrow> (st1, Inl (500, ''Internal server error''))
         | AuthDenied e \<Rightarrow> (st1, Inl e)
         | AuthOk _ \<Rightarrow>
             (case (case body of None \<Rightarrow> None | Some v \<Rightarrow> body_fields v) of
                None \<Rightarrow> (st1, Inl (500, ''Internal server error''))
              | Some field \<Rightarrow>
                  let agentOnline = json_bool (field ''agentOnline'');
                      normalized = normalizeLifecycleStatus (field ''lifecycleStatus'')
                  in if field ''agentOnline'' \<noteq> None \<and> agentOnline = None then (st1, Inl (400, ''agentOnline must be a boolean''))
                     else if field ''lifecycleStatus'' \<noteq> None \<and> normalized = None
                     then (st1, Inl (400, ''lifecycleStatus must be one of: Active, Paused, Retired''))
                     else case find_talos i (os_agents st1) of
                       None \<Rightarrow> (st1, Inl (404, ''TALOS not found''))
                     | Some current \<Rightarrow>
                         let nextStatus = coalesce normalized (tl_status current)
                         in if nextStatus = ''Retired'' \<and> json_bool (field ''governanceApproved'') \<noteq> Some True
                            then (st1, Inl (403, ''Retirement requires explicit governance confirmation''))
                            else
                              let (agents, rows) = upd_returning (\<lambda>a. tl_id a = i)
                                    (\<lambda>a. a\<lparr>tl_agentOnline := coalesce agentOnline (tl_agentOnline current),
                                           tl_agentLastSeen := Some now,
                                           tl_status := coalesce normalized (tl_status a)\<rparr>) (os_agents st1);
                                  st2 = st1\<lparr>os_agents := agents\<rparr>;
                                  st3 = (if normalized \<noteq> None \<and> (nextStatus = ''Paused'' \<or> nextStatus = ''Retired'')
                                         then st2\<lparr>os_market := cancel_pending now i (os_market st2)\<rparr> else st2)
                              in (st3, Inr (first_row rows))))"

end
