(* ===== verification/Agent_Owner_Facts.thy ===== *)
theory Agent_Owner_Facts
  imports Agent_Owner
begin

text \<open>
  What owners, keys and the status route can and cannot do: a revoked key stays out, the status route
  changes what it says, and three gaps between the routes.
\<close>

section \<open>Revoked keys\<close>

text \<open>Everything the owner routes and the authenticators do to the state.\<close>

inductive owner_step :: "(string \<Rightarrow> string) \<Rightarrow> owner_state \<Rightarrow> owner_state \<Rightarrow> bool" for sha256 where
  step_create: "owner_step sha256 st (fst (create_api_key ed sha256 is_datetime parse_date now newId raw h i body st))"
| step_update: "owner_step sha256 st (fst (update_api_key ed sha256 is_datetime parse_date now h i keyId body st))"
| step_revoke: "owner_step sha256 st (fst (revoke_api_key ed sha256 now h i keyId st))"
| step_regenerate: "owner_step sha256 st (fst (regenerate_key ed now newApiKey ip i body st))"
| step_retire: "owner_step sha256 st (fst (retire_agent ed now i body st))"
| step_delete: "owner_step sha256 st (fst (delete_agent ed now i body st))"
| step_status: "owner_step sha256 st (fst (patch_status sha256 now header i request st))"
| step_auth: "owner_step sha256 st (st\<lparr>os_keys := fst (verifyAgentApiKey sha256 now header i scopes (os_agents st) (os_keys st))\<rparr>)"
| step_resolve: "owner_step sha256 st (st\<lparr>os_keys := fst (resolveTalosFromRequest sha256 now header scopes (os_agents st) (os_keys st))\<rparr>)"

text \<open>Ids and hashes are unique, and one id with its hash is revoked.\<close>

definition keys_unique :: "api_key list \<Rightarrow> bool" where
  "keys_unique keys \<longleftrightarrow> distinct (map ak_id keys) \<and> distinct (map ak_keyHash keys)"

definition revoked_in :: "string \<Rightarrow> string \<Rightarrow> api_key list \<Rightarrow> bool" where
  "revoked_in keyId h keys \<longleftrightarrow> (\<exists>k \<in> set keys. ak_id k = keyId \<and> ak_keyHash k = h \<and> ak_status k = ''revoked'')"

definition keeps_keys :: "api_key list \<Rightarrow> api_key list \<Rightarrow> bool" where
  "keeps_keys keys keys' \<longleftrightarrow> (keys_unique keys \<longrightarrow> keys_unique keys') \<and>
     (\<forall>keyId h. revoked_in keyId h keys \<longrightarrow> revoked_in keyId h keys')"

lemma keeps_refl [simp]: "keeps_keys keys keys" by (simp add: keeps_keys_def)

lemma keeps_trans: "keeps_keys a b \<Longrightarrow> keeps_keys b c \<Longrightarrow> keeps_keys a c"
  by (auto simp: keeps_keys_def)

lemma keeps_upd:
  assumes "\<And>k. ak_id (f k) = ak_id k \<and> ak_keyHash (f k) = ak_keyHash k \<and> (ak_status k = ''revoked'' \<longrightarrow> ak_status (f k) = ''revoked'')"
  shows "keeps_keys keys (upd P f keys)"
proof -
  have "map ak_id (upd P f keys) = map ak_id keys" "map ak_keyHash (upd P f keys) = map ak_keyHash keys"
    using assms by (simp_all add: map_upd_frame)
  then show ?thesis using assms by (auto simp: keeps_keys_def keys_unique_def revoked_in_def set_upd)
qed

lemma keeps_insert: "insert_api_key k keys = Some keys' \<Longrightarrow> keeps_keys keys keys'"
  by (auto simp: insert_api_key_def keeps_keys_def keys_unique_def revoked_in_def list_ex_iff split: if_splits) metis+

lemma keeps_touch: "keeps_keys keys (touch_key now k keys)"
  unfolding touch_key_def by (rule keeps_upd) simp

lemma keeps_verify: "keeps_keys keys (fst (verifyAgentApiKey sha256 now header i scopes agents keys))"
  by (auto simp: verifyAgentApiKey_def keeps_touch Let_def split: option.split)

lemma keeps_resolve: "keeps_keys keys (fst (resolveTalosFromRequest sha256 now header scopes agents keys))"
  by (auto simp: resolveTalosFromRequest_def keeps_touch split: option.split)

lemma authorize_keeps:
  "authorizeApiKeyManagement ed sha256 now m h i st = (st1, e) \<Longrightarrow>
     keeps_keys (os_keys st) (os_keys st1) \<and> os_agents st1 = os_agents st"
  using keeps_verify [of "os_keys st" sha256 now "oh_authorization h" i "[''admin'']" "os_agents st"]
  by (auto simp: authorizeApiKeyManagement_def Let_def split: if_splits prod.splits auth_outcome.splits)

lemma owner_step_keeps: "owner_step sha256 st st' \<Longrightarrow> keeps_keys (os_keys st) (os_keys st')"
proof (induction rule: owner_step.induct)
  case (step_create st ed is_datetime parse_date now newId raw h i body)
  obtain st1 e where a: "authorizeApiKeyManagement ed sha256 now ''POST'' h i st = (st1, e)" by fastforce
  show ?case
    using authorize_keeps [OF a]
    by (auto simp: create_api_key_def a Let_def split: option.split sum.split dest: keeps_insert intro: keeps_trans)
next
  case (step_update st ed is_datetime parse_date now h i keyId body)
  obtain st1 e where a: "authorizeApiKeyManagement ed sha256 now ''PATCH'' h i st = (st1, e)" by fastforce
  have "keeps_keys (os_keys st) (upd P (\<lambda>r. r\<lparr>ak_name := n r, ak_scopes := s r, ak_expiresAt := x r\<rparr>) (os_keys st1))" for P n s x
    using authorize_keeps [OF a] by (auto intro: keeps_trans [OF _ keeps_upd])
  then show ?case
    using authorize_keeps [OF a]
    by (simp add: update_api_key_def a upd_returning_def Let_def split: option.split sum.split)
next
  case (step_revoke st ed now h i keyId)
  obtain st1 e where a: "authorizeApiKeyManagement ed sha256 now ''DELETE'' h i st = (st1, e)" by fastforce
  have "keeps_keys (os_keys st) (upd P (ak_status_update (\<lambda>_. ''revoked'')) (os_keys st1))" for P
    using authorize_keeps [OF a] by (auto intro: keeps_trans [OF _ keeps_upd])
  then show ?case
    using authorize_keeps [OF a] by (simp add: revoke_api_key_def a split: option.split)
next
  case (step_regenerate st ed now newApiKey ip i body)
  then show ?case by (auto simp: regenerate_key_def split: option.split sum.split)
next
  case (step_retire st ed now i body)
  then show ?case by (auto simp: retire_agent_def split: option.split sum.split)
next
  case (step_delete st ed now i body)
  then show ?case by (auto simp: delete_agent_def split: option.split sum.split)
next
  case (step_status st now header i request)
  obtain keys outcome logged where a: "verifyAgentApiKey sha256 now header i [''settings:write''] (os_agents st) (os_keys st)
      = (keys, outcome, logged)"
    by (metis prod_cases3)
  have "keeps_keys (os_keys st) keys"
    using keeps_verify [of "os_keys st" sha256 now header i "[''settings:write'']" "os_agents st"] by (simp add: a)
  then show ?case
    by (auto simp: patch_status_def a upd_returning_def Let_def split: auth_outcome.split option.split)
qed (simp_all add: keeps_verify keeps_resolve)

lemma owner_steps_keep: "(owner_step sha256)\<^sup>*\<^sup>* st st' \<Longrightarrow> keeps_keys (os_keys st) (os_keys st')"
  by (induction rule: rtranclp_induct) (auto intro: keeps_trans owner_step_keeps)

lemma revoked_not_active:
  assumes "keys_unique keys" "revoked_in keyId h keys" "k \<in> set keys" "ak_keyHash k = h"
  shows "ak_status k = ''revoked''"
  using assms distinct_key_unique [of ak_keyHash keys] by (auto simp: keys_unique_def revoked_in_def)

text \<open>C15.
  Revocation is final: once a scoped key is revoked, its token is refused by both authenticators
  after any sequence of creations, updates, revocations, regenerations, retirements, deletions,
  status changes and authentications, unless that token is also some agent's legacy key.\<close>

theorem revoked_key_stays_out:
  assumes "keys_unique (os_keys st)" "revoked_in keyId (sha256 token) (os_keys st)" "(owner_step sha256)\<^sup>*\<^sup>* st st'"
    "extractBearerToken header = Some token" "\<forall>a \<in> set (os_agents st'). tl_apiKey a \<noteq> Some token"
  shows "(fst (snd (verifyAgentApiKey sha256 now header i scopes (os_agents st') (os_keys st'))) \<noteq> AuthOk j) \<and>
    (fst (snd (resolveTalosFromRequest sha256 now header scopes (os_agents st') (os_keys st'))) \<noteq> AuthOk j)"
proof -
  have "keys_unique (os_keys st')" "revoked_in keyId (sha256 token) (os_keys st')"
    using owner_steps_keep [OF assms(3)] assms(1,2) by (auto simp: keeps_keys_def)
  then have revoked: "ak_status k = ''revoked''" if "k \<in> set (os_keys st')" "ak_keyHash k = sha256 token" for k
    using revoked_not_active that by blast
  have none: "sel_one (scoped_key i (sha256 token)) (os_keys st') = None"
    "sel_one (\<lambda>k. ak_keyHash k = sha256 token \<and> ak_status k = ''active'') (os_keys st') = None"
    using revoked by (auto simp: find_None_iff scoped_key_def)
  have c1: "fst (snd (verifyAgentApiKey sha256 now header i scopes (os_agents st') (os_keys st'))) \<noteq> AuthOk j"
    using assms(5) by (auto simp: verifyAgentApiKey_def assms(4) none(1) Let_def dest!: find_SomeD split: option.split elim!: truthy_strE)
  have "match_legacy token as \<noteq> Some (Some a)" if "set as \<subseteq> set (os_agents st')" for as a
    using that assms(5) by (induction as) (auto split: option.split bool.split elim!: truthy_strE)
  then have c2: "fst (snd (resolveTalosFromRequest sha256 now header scopes (os_agents st') (os_keys st'))) \<noteq> AuthOk j"
    by (auto simp: resolveTalosFromRequest_def assms(4) none(2) split: option.split)
  show ?thesis using c1 c2 by blast
qed

section \<open>One signature for everything\<close>

lemma proof_mentions_agent:
  assumes "parse_proof resource message = Some (i, meth, timestamp)"
  shows "js_includes i message"
proof -
  obtain res stamp where "js_split (CHR '':'') message = [''talos'', i, res, meth, stamp]"
    using assms by (auto simp: parse_proof_def split: list.splits if_splits)
  then have "message = (''talos'' @ '':'') @ i @ ('':'' @ res @ '':'' @ meth @ '':'' @ stamp)"
    using js_join_split [of "CHR '':''" message] by simp
  then show ?thesis using js_includes_middle by metis
qed

definition same_proof :: "owner_headers \<Rightarrow> signed_body \<Rightarrow> bool" where
  "same_proof h b \<longleftrightarrow> oh_address h = Some (sg_stellarPublicKey b) \<and> oh_message h = Some (sg_message b) \<and>
     oh_signature h = Some (sg_signature b)"

text \<open>One signature opens everything: a proof of ownership that was accepted once, for any method and
  resource (reading the list of keys, say), is accepted at any later time, however old, as the
  signature that replaces the agent's legacy key, retires the agent or deletes it, as long as the
  signer's key is still one of the agent's: those routes look only for the agent's id in the message.\<close>

theorem owner_proof_opens_everything:
  assumes "verifyApiKeyOwnerProof ed once meth h i resource agents0" "find_talos i (os_agents st) = Some talos"
    "owns (the (oh_address h)) talos" "same_proof h b"
  shows "(parseBody regenerateKeySchema body = Inr b \<longrightarrow> (\<forall>a \<in> set (os_agents st). tl_apiKey a \<noteq> Some newApiKey) \<longrightarrow> (\<exists>st'. regenerate_key ed now newApiKey ip i body st = (st', Inr newApiKey))) \<and>
    (parseBody retireAgentSchema body = Inr b \<longrightarrow> sg_supersededBy b = None \<longrightarrow> tl_retiredAt talos = None \<longrightarrow> (\<exists>st'. retire_agent ed now i body st = (st', Inr i))) \<and>
    (parseBody deleteAgentSchema body = Inr b \<longrightarrow> tl_deletedAt talos = None \<longrightarrow> (\<exists>st'. delete_agent ed now i body st = (st', Inr i)))"
proof -
  obtain timestamp where p: "parse_proof resource (sg_message b) = Some (i, meth, timestamp)"
    and sig: "ed (sg_stellarPublicKey b) (sg_message b) (sg_signature b) = Some True"
    using assms(1,4) by (auto simp: verifyApiKeyOwnerProof_def same_proof_def split: option.splits)
  have id: "js_includes i (sg_message b)" using proof_mentions_agent [OF p] .
  have ok: "signature_error ed b talos = None"
    using sig assms(3,4) by (auto simp: signature_error_def owns_def same_proof_def)
  have c1: "parseBody regenerateKeySchema body = Inr b \<Longrightarrow> \<forall>a \<in> set (os_agents st). tl_apiKey a \<noteq> Some newApiKey \<Longrightarrow>
      \<exists>st'. regenerate_key ed now newApiKey ip i body st = (st', Inr newApiKey)"
    using id ok assms(2) by (auto simp: regenerate_key_def list_ex_iff)
  have c2: "parseBody retireAgentSchema body = Inr b \<Longrightarrow> sg_supersededBy b = None \<Longrightarrow> tl_retiredAt talos = None \<Longrightarrow>
      \<exists>st'. retire_agent ed now i body st = (st', Inr i)"
    using id ok assms(2) by (auto simp: retire_agent_def)
  have c3: "parseBody deleteAgentSchema body = Inr b \<Longrightarrow> tl_deletedAt talos = None \<Longrightarrow>
      \<exists>st'. delete_agent ed now i body st = (st', Inr i)"
    using id ok assms(2) by (auto simp: delete_agent_def)
  show ?thesis using c1 c2 c3 by blast
qed

section \<open>The status route\<close>

lemma normalize_valid: "normalizeLifecycleStatus v = Some s \<Longrightarrow> s = ''Active'' \<or> s = ''Paused'' \<or> s = ''Retired''"
  by (auto simp: normalizeLifecycleStatus_def VALID_LIFECYCLE_STATUSES_def Let_def split: option.splits json.splits if_splits)

lemma patch_status_cases:
  assumes "patch_status sha256 now header i body st = (st', res)"
  obtains (refused) e where "res = Inl e" "os_agents st' = os_agents st" "os_market st' = os_market st"
  | (changed) field a row where "res = Inr (Some row)" "find_talos i (os_agents st) = Some a"
      "normalizeLifecycleStatus (field ''lifecycleStatus'') = Some ''Retired'' \<Longrightarrow> json_bool (field ''governanceApproved'') = Some True"
      "os_agents st' = upd (\<lambda>x. tl_id x = i)
         (\<lambda>x. x\<lparr>tl_agentOnline := coalesce (json_bool (field ''agentOnline'')) (tl_agentOnline a), tl_agentLastSeen := Some now,
                tl_status := coalesce (normalizeLifecycleStatus (field ''lifecycleStatus'')) (tl_status x)\<rparr>) (os_agents st)"
      "os_market st' = (if normalizeLifecycleStatus (field ''lifecycleStatus'') \<in> {Some ''Paused'', Some ''Retired''}
         then cancel_pending now i (os_market st) else os_market st)"
      "(\<exists>v. body = Some v \<and> body_fields v = Some field)"
      "fst (snd (verifyAgentApiKey sha256 now header i [''settings:write''] (os_agents st) (os_keys st))) = AuthOk i"
proof -
  obtain keys outcome logged where a: "verifyAgentApiKey sha256 now header i [''settings:write''] (os_agents st) (os_keys st)
      = (keys, outcome, logged)"
    by (metis prod_cases3)
  show thesis
  proof (cases outcome)
    case (AuthOk j)
    have j: "j = i"
      using a AuthOk by (auto simp: verifyAgentApiKey_def Let_def dest!: find_SomeD split: option.splits if_splits)
    show thesis
    proof (cases "case body of None \<Rightarrow> None | Some v \<Rightarrow> body_fields v")
      case None
      then show thesis using assms refused AuthOk a by (auto simp: patch_status_def)
    next
      case (Some field)
      then have f: "\<exists>v. body = Some v \<and> body_fields v = Some field" by (auto split: option.splits)
      let ?norm = "normalizeLifecycleStatus (field ''lifecycleStatus'')"
      show thesis
      proof (cases "find_talos i (os_agents st)")
        case none: None
        then show thesis using assms AuthOk a Some refused
          by (auto simp: patch_status_def Let_def split: if_splits)
      next
        case talos: (Some x)
        then have mem: "x \<in> set (os_agents st)" "tl_id x = i" by (auto simp: find_talos_def dest: find_SomeD)
        obtain row where row: "first_row (map f (filter (\<lambda>a. tl_id a = i) (os_agents st))) = Some (row f)" for f :: "talos_row \<Rightarrow> talos_row"
        proof -
          obtain y ys where "filter (\<lambda>a. tl_id a = i) (os_agents st) = y # ys"
            using mem by (cases "filter (\<lambda>a. tl_id a = i) (os_agents st)") (auto simp: filter_empty_conv)
          then show thesis using that [of "\<lambda>f. f y"] by simp
        qed
        show thesis
        proof (cases res)
          case (Inl e)
          then show thesis using assms AuthOk a Some talos refused
            by (auto simp: patch_status_def upd_returning_def Let_def split: if_splits)
        next
          case (Inr r)
          have ok: "\<not> (?norm = Some ''Retired'' \<and> json_bool (field ''governanceApproved'') \<noteq> Some True)"
            and st': "os_agents st' = upd (\<lambda>x. tl_id x = i)
               (\<lambda>y. y\<lparr>tl_agentOnline := coalesce (json_bool (field ''agentOnline'')) (tl_agentOnline x), tl_agentLastSeen := Some now,
                      tl_status := coalesce ?norm (tl_status y)\<rparr>) (os_agents st)"
            "os_market st' = (if ?norm \<noteq> None \<and> (coalesce ?norm (tl_status x) = ''Paused'' \<or> coalesce ?norm (tl_status x) = ''Retired'')
               then cancel_pending now i (os_market st) else os_market st)"
            "\<exists>row. res = Inr (Some row)"
            using assms unfolding patch_status_def a Let_def prod.case AuthOk auth_outcome.case Some option.case
            by (simp_all add: talos Inr upd_returning_def row split: if_splits) auto
          have market: "os_market st' = (if ?norm \<in> {Some ''Paused'', Some ''Retired''} then cancel_pending now i (os_market st) else os_market st)"
            unfolding st'(2) by (cases ?norm) auto
          show thesis
            using changed [OF _ talos _ st'(1) market f] ok st'(3) AuthOk a j by auto
        qed
      qed
    qed
  qed (use assms a refused in \<open>auto simp: patch_status_def\<close>)
qed

text \<open>The status route does what it answers: when it succeeds, the caller held a settings:write key of
  the agent, only that agent's row changed, its status is the requested one (Active, Paused or
  Retired, the last only with governanceApproved set) or unchanged, and a request to pause or retire
  cancelled and unleased exactly the agent's pending jobs and touched no other job.\<close>

theorem status_change_exact:
  assumes "patch_status sha256 now header i (Some (JObj es)) st = (st', Inr r)"
    "requested = normalizeLifecycleStatus (map_of es ''lifecycleStatus'')"
  shows "(fst (snd (verifyAgentApiKey sha256 now header i [''settings:write''] (os_agents st) (os_keys st))) = AuthOk i) \<and>
    (requested = Some ''Retired'' \<longrightarrow> map_of es ''governanceApproved'' = Some (JBool True)) \<and>
    (length (os_agents st') = length (os_agents st) \<and>
      (\<forall>n < length (os_agents st). if tl_id (os_agents st ! n) = i
         then tl_status (os_agents st' ! n) = coalesce requested (tl_status (os_agents st ! n)) \<and>
           tl_agentLastSeen (os_agents st' ! n) = Some now \<and> tl_retiredAt (os_agents st' ! n) = tl_retiredAt (os_agents st ! n)
         else os_agents st' ! n = os_agents st ! n)) \<and>
    (length (mk_jobs (os_market st')) = length (mk_jobs (os_market st)) \<and>
      (\<forall>n < length (mk_jobs (os_market st)). if requested \<in> {Some ''Paused'', Some ''Retired''} \<and>
           mj_talosId (mk_jobs (os_market st) ! n) = i \<and> mj_status (mk_jobs (os_market st) ! n) = ''pending''
         then mj_status (mk_jobs (os_market st') ! n) = ''cancelled'' \<and> mj_leasedBy (mk_jobs (os_market st') ! n) = None \<and>
           mj_leaseExpiresAt (mk_jobs (os_market st') ! n) = None
         else mk_jobs (os_market st') ! n = mk_jobs (os_market st) ! n))"
proof -
  from assms(1) obtain a field row where c: "find_talos i (os_agents st) = Some a"
      "normalizeLifecycleStatus (field ''lifecycleStatus'') = Some ''Retired'' \<Longrightarrow> json_bool (field ''governanceApproved'') = Some True"
      "os_agents st' = upd (\<lambda>x. tl_id x = i)
         (\<lambda>x. x\<lparr>tl_agentOnline := coalesce (json_bool (field ''agentOnline'')) (tl_agentOnline a), tl_agentLastSeen := Some now,
                tl_status := coalesce (normalizeLifecycleStatus (field ''lifecycleStatus'')) (tl_status x)\<rparr>) (os_agents st)"
      "os_market st' = (if normalizeLifecycleStatus (field ''lifecycleStatus'') \<in> {Some ''Paused'', Some ''Retired''}
         then cancel_pending now i (os_market st) else os_market st)"
      "field = map_of es"
      "fst (snd (verifyAgentApiKey sha256 now header i [''settings:write''] (os_agents st) (os_keys st))) = AuthOk i"
    by (cases rule: patch_status_cases) auto
  have f: "normalizeLifecycleStatus (field ''lifecycleStatus'') = requested" using assms(2) c(5) by simp
  have c1: "fst (snd (verifyAgentApiKey sha256 now header i [''settings:write''] (os_agents st) (os_keys st))) = AuthOk i"
    by (rule c(6))
  have c2: "requested = Some ''Retired'' \<Longrightarrow> map_of es ''governanceApproved'' = Some (JBool True)"
    using c(2) f c(5) by (auto simp: json_bool_def split: option.splits json.splits)
  have c3: "length (os_agents st') = length (os_agents st) \<and>
      (\<forall>n < length (os_agents st). if tl_id (os_agents st ! n) = i
         then tl_status (os_agents st' ! n) = coalesce requested (tl_status (os_agents st ! n)) \<and>
           tl_agentLastSeen (os_agents st' ! n) = Some now \<and> tl_retiredAt (os_agents st' ! n) = tl_retiredAt (os_agents st ! n)
         else os_agents st' ! n = os_agents st ! n)"
    unfolding c(3) f by (simp add: upd_def)
  have c4: "length (mk_jobs (os_market st')) = length (mk_jobs (os_market st)) \<and>
      (\<forall>n < length (mk_jobs (os_market st)). if requested \<in> {Some ''Paused'', Some ''Retired''} \<and>
           mj_talosId (mk_jobs (os_market st) ! n) = i \<and> mj_status (mk_jobs (os_market st) ! n) = ''pending''
         then mj_status (mk_jobs (os_market st') ! n) = ''cancelled'' \<and> mj_leasedBy (mk_jobs (os_market st') ! n) = None \<and>
           mj_leaseExpiresAt (mk_jobs (os_market st') ! n) = None
         else mk_jobs (os_market st') ! n = mk_jobs (os_market st) ! n)"
    unfolding c(4) f by (auto simp: cancel_pending_def update_jobs_def upd_returning_def upd_def sql_eq_simps)
  show ?thesis by (rule conjI [OF c1 conjI [OF impI [OF c2] conjI [OF c3 c4]]])
qed

section \<open>Retired and deleted agents\<close>

lemma find_first_row: "sel_one P xs = first_row (filter P xs)"
  by (induction xs) auto

lemma find_upd_id:
  assumes "\<And>a. tl_id (f a) = tl_id a"
  shows "find_talos i (upd (\<lambda>a. tl_id a = i) f agents) = map_option f (find_talos i agents)"
  using assms by (induction agents) (auto simp: find_talos_def)

lemma scoped_key_grants:
  assumes "extractBearerToken header = Some token" "token \<noteq> []" "find_talos i agents \<noteq> None"
    "sel_one (scoped_key i (sha256 token)) keys = Some k" "\<not> key_expired now k" "grants k scopes"
  shows "\<exists>keys' logged. verifyAgentApiKey sha256 now header i scopes agents keys = (keys', AuthOk i, logged)"
proof -
  obtain talos where t: "sel_one (\<lambda>a. tl_id a = i) agents = Some talos" "tl_id talos = i"
    using assms(3) by (auto simp: find_talos_def dest: find_SomeD)
  have "ak_status k = ''active''" using assms(4) by (auto simp: scoped_key_def dest: find_SomeD)
  then show ?thesis using assms t by (simp add: verifyAgentApiKey_def Let_def)
qed

text \<open>Retirement and deletion leave the scoped keys in force: with a settings:write key, an agent that
  its owner has retired can be set to Active again through the status route while retiredAt stays
  set, and the key of a deleted agent is still granted every scope it carries.\<close>

theorem retired_agents_act_again:
  assumes "extractBearerToken header = Some token" "token \<noteq> []"
    "sel_one (scoped_key i (sha256 token)) (os_keys st) = Some k" "\<not> key_expired now k" "''settings:write'' \<in> set (ak_scopes k)"
  shows "(retire_agent ed before i body st = (st1, Inr i) \<longrightarrow> (\<exists>st2 row. patch_status sha256 now header i (Some (JObj [(''lifecycleStatus'', JStr ''active'')])) st1 = (st2, Inr (Some row)) \<and>
        tl_status row = ''Active'' \<and> tl_retiredAt row = Some before)) \<and>
    (delete_agent ed before i body st = (st1, Inr i) \<longrightarrow> set scopes \<subseteq> set (ak_scopes k) \<longrightarrow> fst (snd (verifyAgentApiKey sha256 now header i scopes (os_agents st1) (os_keys st1))) = AuthOk i)"
proof -
  have active: "normalizeLifecycleStatus (Some (JStr ''active'')) = Some ''Active''" by code_simp
  have grant: "grants k [''settings:write'']" using assms(5) by (simp add: grants_def)
  have c1: "\<exists>st2 row. patch_status sha256 now header i (Some (JObj [(''lifecycleStatus'', JStr ''active'')])) st1 = (st2, Inr (Some row)) \<and>
        tl_status row = ''Active'' \<and> tl_retiredAt row = Some before"
    if "retire_agent ed before i body st = (st1, Inr i)"
  proof -
  from that obtain f talos where f: "os_agents st1 = upd (\<lambda>a. tl_id a = i) f (os_agents st)" "find_talos i (os_agents st) = Some talos"
    "\<And>a. tl_id (f a) = tl_id a \<and> tl_retiredAt (f a) = Some before" "os_keys st1 = os_keys st"
    by (auto simp: retire_agent_def split: option.splits sum.splits if_splits)
  then have found: "find_talos i (os_agents st1) = Some (f talos)" by (simp add: find_upd_id)
  then obtain keys logged where a: "verifyAgentApiKey sha256 now header i [''settings:write''] (os_agents st1) (os_keys st1) = (keys, AuthOk i, logged)"
    using scoped_key_grants [where ?sha256.0 = sha256 and agents = "os_agents st1" and scopes = "[''settings:write'']", OF assms(1,2) _ assms(3,4) grant] f(4) by auto
  have row: "first_row (map g (filter (\<lambda>a. tl_id a = i) (os_agents st1))) = Some (g (f talos))" for g :: "talos_row \<Rightarrow> talos_row"
    using found by (cases "filter (\<lambda>a. tl_id a = i) (os_agents st1)") (auto simp: find_talos_def find_first_row)
  show ?thesis
    using a found f(3) by (simp add: patch_status_def active json_bool_def upd_returning_def row Let_def)
  qed
  have c2: "fst (snd (verifyAgentApiKey sha256 now header i scopes (os_agents st1) (os_keys st1))) = AuthOk i"
    if "delete_agent ed before i body st = (st1, Inr i)" and sub: "set scopes \<subseteq> set (ak_scopes k)"
  proof -
  from that(1) obtain f talos where f: "os_agents st1 = upd (\<lambda>a. tl_id a = i) f (os_agents st)" "find_talos i (os_agents st) = Some talos"
    "\<And>a. tl_id (f a) = tl_id a" "os_keys st1 = os_keys st"
    by (auto simp: delete_agent_def split: option.splits sum.splits if_splits)
  then have "find_talos i (os_agents st1) \<noteq> None" by (simp add: find_upd_id)
  moreover have "grants k scopes" using sub by (auto simp: grants_def list_all_iff)
  ultimately show ?thesis
    using scoped_key_grants [where ?sha256.0 = sha256 and agents = "os_agents st1" and scopes = scopes, OF assms(1,2) _ assms(3,4)] f(4) by fastforce
  qed
  show ?thesis using c1 c2 by blast
qed

section \<open>Samples\<close>

definition empty_market :: market where
  "empty_market = \<lparr>mk_agents = [], mk_services = [], mk_jobs = [], mk_revenues = [], mk_inputs = []\<rparr>"

definition owned_state :: "string \<Rightarrow> owner_state" where
  "owned_state key_status = \<lparr>os_agents = [sample_talos],
     os_keys = [sample_key\<lparr>ak_status := key_status, ak_scopes := [''settings:write'']\<rparr>], os_audit = [], os_market = empty_market\<rparr>"

lemma sample_bearer: "extractBearerToken (Some ''Bearer tak_1'') = Some ''tak_1''"
  by (simp add: extractBearerToken_def starts_with_def)

theorem revoked_key_stays_out_witness:
  "fst (snd (verifyAgentApiKey mark_sha 4000 (Some ''Bearer tak_1'') ''t1'' [] [sample_talos]
     (fst (verifyAgentApiKey mark_sha 3000 (Some ''Bearer tlk_legacy'') ''t1'' [] [sample_talos] (os_keys (owned_state ''revoked'')))))) \<noteq> AuthOk ''t1''"
proof -
  let ?st = "owned_state ''revoked''"
  have "keys_unique (os_keys ?st)" "revoked_in ''k1'' (mark_sha ''tak_1'') (os_keys ?st)"
    by (simp_all add: owned_state_def keys_unique_def revoked_in_def sample_key_def mark_sha_def)
  moreover note r_into_rtranclp [of "owner_step mark_sha", OF step_auth [of mark_sha ?st 3000 "Some ''Bearer tlk_legacy''" "''t1''" "[]"]]
  ultimately show ?thesis
    using revoked_key_stays_out [of ?st "''k1''" mark_sha "''tak_1''", OF _ _ _ sample_bearer, THEN conjunct1, of _ 4000 "''t1''" "[]" "''t1''"]
    by (force simp: owned_state_def sample_talos_def)
qed

definition list_keys_proof :: owner_headers where
  "list_keys_proof = \<lparr>oh_address = Some ''GCREATOR'', oh_message = Some ''talos:t1:api-keys:GET:1700000000000'',
     oh_signature = Some ''sig'', oh_authorization = None\<rparr>"

definition reused_body :: request_body where
  "reused_body = \<lparr>rb_declared = None, rb_bytes = 200, rb_json = Some (JObj
     [(''reason'', JStr ''x''), (''stellarPublicKey'', JStr ''GCREATOR''), (''signature'', JStr ''sig''),
      (''message'', JStr ''talos:t1:api-keys:GET:1700000000000'')])\<rparr>"

definition reused_signature :: signed_body where
  "reused_signature = \<lparr>sg_stellarPublicKey = ''GCREATOR'', sg_signature = ''sig'',
     sg_message = ''talos:t1:api-keys:GET:1700000000000'', sg_reason = ''x'', sg_supersededBy = None\<rparr>"

lemma sample_stamp: "parse_proof ''api-keys'' ''talos:t1:api-keys:GET:1700000000000'' = Some (''t1'', ''GET'', 1700000000000)"
proof -
  have "digits_of 1700000000000 = ''1700000000000''" by (simp add: digits_of.simps) code_simp
  then have "digits_value 0 ''1700000000000'' = 1700000000000" by (metis digits_value_digits_of)
  moreover have "list_all digit ''1700000000000''" by (simp add: digit_def)
  ultimately show ?thesis by (simp add: parse_proof_def)
qed

theorem owner_proof_opens_everything_witness:
  "\<exists>st'. delete_agent (\<lambda>a m s. Some True) 1999999999999 ''t1'' reused_body (owned_state ''active'') = (st', Inr ''t1'')"
proof -
  have accepted: "verifyApiKeyOwnerProof (\<lambda>a m s. Some True) 1700000000000 ''GET'' list_keys_proof ''t1'' ''api-keys'' [sample_talos]"
    by (simp add: verifyApiKeyOwnerProof_def list_keys_proof_def sample_stamp MAX_SIGNATURE_AGE_MS_def find_talos_def
        sample_talos_def owns_def)
  have body: "parseBody deleteAgentSchema reused_body = Inr reused_signature" by code_simp
  have "find_talos ''t1'' (os_agents (owned_state ''active'')) = Some sample_talos" "owns ''GCREATOR'' sample_talos"
    "same_proof list_keys_proof reused_signature" "tl_deletedAt sample_talos = None"
    by (simp_all add: find_talos_def owned_state_def sample_talos_def owns_def same_proof_def list_keys_proof_def reused_signature_def)
  then show ?thesis
    using owner_proof_opens_everything [OF accepted, THEN conjunct2, THEN conjunct2, THEN mp, OF _ _ _ body] by (simp add: list_keys_proof_def)
qed

definition reactivated :: "owner_state \<times> (http_error + talos_row option)" where
  "reactivated = patch_status mark_sha 4000 (Some ''Bearer tak_1'') ''t1'' (Some (JObj [(''lifecycleStatus'', JStr ''active'')]))
     (fst (retire_agent (\<lambda>a m s. Some True) 3000 ''t1'' reused_body (owned_state ''active'')))"

lemma sample_scoped: "sel_one (scoped_key ''t1'' (mark_sha ''tak_1'')) (os_keys (owned_state ''active'')) =
    Some (sample_key\<lparr>ak_status := ''active'', ak_scopes := [''settings:write'']\<rparr>)"
  by (simp add: owned_state_def scoped_key_def sample_key_def mark_sha_def)

theorem retired_agents_act_again_witness:
  "\<exists>st2 row. reactivated = (st2, Inr (Some row)) \<and> tl_status row = ''Active'' \<and> tl_retiredAt row = Some 3000"
proof -
  have "case retire_agent (\<lambda>a m s. Some True) 3000 ''t1'' reused_body (owned_state ''active'') of
      (st1, Inr j) \<Rightarrow> j = ''t1'' | _ \<Rightarrow> False"
    by code_simp
  then obtain st1 where st1: "retire_agent (\<lambda>a m s. Some True) 3000 ''t1'' reused_body (owned_state ''active'') = (st1, Inr ''t1'')"
    by (auto split: prod.splits sum.splits)
  show ?thesis
    using retired_agents_act_again [where ?sha256.0 = mark_sha and now = 4000 and ?st1.0 = st1, OF sample_bearer _ sample_scoped, THEN conjunct1, THEN mp, OF _ _ _ st1]
    by (simp add: reactivated_def st1 sample_key_def key_expired_def)
qed

theorem status_change_exact_witness:
  "\<exists>st' r. patch_status mark_sha 4000 (Some ''Bearer tak_1'') ''t1'' (Some (JObj [(''lifecycleStatus'', JStr '' paused'')])) (owned_state ''active'')
      = (st', Inr r) \<and> tl_status (os_agents st' ! 0) = ''Paused''"
proof -
  let ?run = "patch_status mark_sha 4000 (Some ''Bearer tak_1'') ''t1'' (Some (JObj [(''lifecycleStatus'', JStr '' paused'')])) (owned_state ''active'')"
  have "case ?run of (st', Inr r) \<Rightarrow> True | _ \<Rightarrow> False" by code_simp
  then obtain st' r where run: "?run = (st', Inr r)" by (auto split: prod.splits sum.splits)
  have "normalizeLifecycleStatus (map_of [(''lifecycleStatus'', JStr '' paused'')] ''lifecycleStatus'') = Some ''Paused''" by code_simp
  then have "tl_status (os_agents st' ! 0) = ''Paused''"
    using status_change_exact [OF run refl, THEN conjunct2, THEN conjunct2, THEN conjunct1] by (simp add: owned_state_def sample_talos_def)
  then show ?thesis using run by blast
qed

end
