(* ===== verification/Lifecycle_Payloads.thy ===== *)
theory Lifecycle_Payloads
  imports Lifecycle Request_Boundary
begin

text \<open>
  The payloads of lifecycle requests, web/src/lib/governance/payloads.ts: their schemas, the parser of
  an untrusted body and the checks that need database state.  Numbers are integers; of a rejection the
  code, status and message are kept, not the list of issues.
\<close>

section \<open>Fields\<close>

text \<open>An optional field may be missing but not invalid; a defaulted one likewise.\<close>

definition optional_field :: "(json option \<Rightarrow> 'a option) \<Rightarrow> json option \<Rightarrow> 'a option option" where
  "optional_field parse v = (case v of None \<Rightarrow> Some None | _ \<Rightarrow> map_option Some (parse v))"

definition default_field :: "'a \<Rightarrow> (json option \<Rightarrow> 'a option) \<Rightarrow> json option \<Rightarrow> 'a option" where
  "default_field d parse v = (case v of None \<Rightarrow> Some d | _ \<Rightarrow> parse v)"

definition bool_field :: "json option \<Rightarrow> bool option" where
  "bool_field v = (case v of Some (JBool b) \<Rightarrow> Some b | _ \<Rightarrow> None)"

definition text_between :: "nat \<Rightarrow> nat \<Rightarrow> json option \<Rightarrow> string option" where
  "text_between lo hi = checked_text (\<lambda>s. lo \<le> length s \<and> length s \<le> hi)"

fun all_some :: "'a option list \<Rightarrow> 'a list option" where
  "all_some [] = Some []"
| "all_some (None # xs) = None"
| "all_some (Some x # xs) = map_option (Cons x) (all_some xs)"

definition url_safe :: "char \<Rightarrow> bool" where
  "url_safe c \<longleftrightarrow> c \<in> set ''ABCDEFGHIJKLMNOPQRSTUVWXYZabcdefghijklmnopqrstuvwxyz0123456789_.:-''"

definition IDEMPOTENCY_KEY :: "json option \<Rightarrow> string option" where
  "IDEMPOTENCY_KEY = checked_text (\<lambda>s. 8 \<le> length s \<and> length s \<le> 128 \<and> list_all url_safe s)"

definition REASON :: "json option \<Rightarrow> string option" where
  "REASON = text_between 1 500"

definition AGENT_PERMISSIONS :: "string list" where
  "AGENT_PERMISSIONS = [''wallet.read'', ''wallet.transfer'', ''wallet.token_issue'', ''network.http'', ''network.browser'',
     ''commerce.sell'', ''commerce.buy'', ''publishing.post'', ''data.read_private'']"

definition PRIVILEGED_PERMISSIONS :: "string list" where
  "PRIVILEGED_PERMISSIONS = [''wallet.transfer'', ''wallet.token_issue'', ''data.read_private'']"

section \<open>Payloads\<close>

record budgets =
  bd_approvalThreshold :: int
  bd_gtmBudget :: int
  bd_monthlyCapUsd :: int

record service_offer =
  so_serviceName :: string
  so_description :: "string option"
  so_price :: int
  so_fulfillmentMode :: string

record create_payload =
  cp_name :: string
  cp_category :: string
  cp_description :: string
  cp_persona :: string
  cp_targetAudience :: "string option"
  cp_permissions :: "string list"
  cp_operator :: string
  cp_budgets :: budgets
  cp_services :: "service_offer list"
  cp_idempotencyKey :: "string option"

record activate_payload =
  acp_proposalId :: string
  acp_idempotencyKey :: "string option"

record pause_payload =
  pap_reason :: string
  pap_cancelPendingJobs :: bool
  pap_idempotencyKey :: "string option"

record retire_payload =
  rtp_reason :: string
  rtp_proposalId :: string
  rtp_drainJobs :: bool
  rtp_residualBeneficiary :: "string option"
  rtp_idempotencyKey :: "string option"

record recover_payload =
  rcp_reason :: string
  rcp_jobId :: "string option"
  rcp_forceCompensate :: bool
  rcp_idempotencyKey :: "string option"

datatype lifecycle_payload =
    PCreate create_payload | PActivate activate_payload | PPause pause_payload | PRetire retire_payload
  | PRecover recover_payload

definition budgetsSchema :: "json option \<Rightarrow> budgets option" where
  "budgetsSchema v =
     (case v of None \<Rightarrow> None | Some j \<Rightarrow>
       (case strict_fields [''approvalThreshold'', ''gtmBudget'', ''monthlyCapUsd''] j of None \<Rightarrow> None
        | Some field \<Rightarrow>
            (case (int_field (\<lambda>n. 0 \<le> n \<and> n \<le> 1000000) (field ''approvalThreshold''),
                   int_field (\<lambda>n. 0 \<le> n \<and> n \<le> 10000000) (field ''gtmBudget''),
                   int_field (\<lambda>n. 0 < n \<and> n \<le> 10000000) (field ''monthlyCapUsd'')) of
               (Some threshold, Some gtm, Some cap) \<Rightarrow>
                 if threshold \<le> cap \<and> gtm \<le> cap * 12
                 then Some \<lparr>bd_approvalThreshold = threshold, bd_gtmBudget = gtm, bd_monthlyCapUsd = cap\<rparr> else None
             | _ \<Rightarrow> None)))"

definition serviceSchema :: "json \<Rightarrow> service_offer option" where
  "serviceSchema j =
     (case strict_fields [''serviceName'', ''description'', ''price'', ''fulfillmentMode''] j of None \<Rightarrow> None
      | Some field \<Rightarrow>
          (case (text_between 1 200 (field ''serviceName''), optional_field (text_between 0 2000) (field ''description''),
                 int_field (\<lambda>n. 0 < n \<and> n \<le> 1000000) (field ''price''),
                 default_field ''async'' (checked_text (\<lambda>s. s \<in> set [''instant'', ''async''])) (field ''fulfillmentMode'')) of
             (Some name, Some description, Some price, Some mode) \<Rightarrow>
               Some \<lparr>so_serviceName = name, so_description = description, so_price = price, so_fulfillmentMode = mode\<rparr>
           | _ \<Rightarrow> None))"

definition permissions_field :: "json option \<Rightarrow> string list option" where
  "permissions_field v =
     (case v of Some (JArr vs) \<Rightarrow>
        (case texts_of vs of
           Some ps \<Rightarrow> if set ps \<subseteq> set AGENT_PERMISSIONS \<and> 1 \<le> length ps \<and> length ps \<le> length AGENT_PERMISSIONS
                      then Some ps else None
         | None \<Rightarrow> None)
      | _ \<Rightarrow> None)"

definition services_field :: "json option \<Rightarrow> service_offer list option" where
  "services_field v = (case v of Some (JArr vs) \<Rightarrow> if length vs \<le> 10 then all_some (map serviceSchema vs) else None | _ \<Rightarrow> None)"

definition createAgentPayloadSchema :: "json \<Rightarrow> create_payload option" where
  "createAgentPayloadSchema j =
     (case strict_fields [''name'', ''category'', ''description'', ''persona'', ''targetAudience'', ''permissions'', ''operator'',
             ''budgets'', ''services'', ''idempotencyKey''] j of None \<Rightarrow> None
      | Some field \<Rightarrow>
          (case (text_between 1 100 (field ''name''), text_between 1 100 (field ''category''),
                 text_between 1 2000 (field ''description''), text_between 20 4000 (field ''persona''),
                 optional_field (text_between 0 2000) (field ''targetAudience''), permissions_field (field ''permissions''),
                 checked_text stellar_address (field ''operator''), budgetsSchema (field ''budgets''),
                 default_field [] services_field (field ''services''), optional_field IDEMPOTENCY_KEY (field ''idempotencyKey'')) of
             (Some name, Some category, Some description, Some persona, Some audience, Some permissions, Some operator,
              Some budgets, Some services, Some key) \<Rightarrow>
               Some \<lparr>cp_name = name, cp_category = category, cp_description = description, cp_persona = persona,
                 cp_targetAudience = audience, cp_permissions = permissions, cp_operator = operator, cp_budgets = budgets,
                 cp_services = services, cp_idempotencyKey = key\<rparr>
           | _ \<Rightarrow> None))"

definition confirmed_field :: "json option \<Rightarrow> unit option" where
  "confirmed_field v = (if v = Some (JBool True) then Some () else None)"

definition activateAgentPayloadSchema :: "json \<Rightarrow> activate_payload option" where
  "activateAgentPayloadSchema j =
     (case strict_fields [''proposalId'', ''confirmed'', ''idempotencyKey''] j of None \<Rightarrow> None
      | Some field \<Rightarrow>
          (case (text_between 1 64 (field ''proposalId''), confirmed_field (field ''confirmed''),
                 optional_field IDEMPOTENCY_KEY (field ''idempotencyKey'')) of
             (Some proposal, Some u, Some key) \<Rightarrow> Some \<lparr>acp_proposalId = proposal, acp_idempotencyKey = key\<rparr>
           | _ \<Rightarrow> None))"

definition pauseAgentPayloadSchema :: "json \<Rightarrow> pause_payload option" where
  "pauseAgentPayloadSchema j =
     (case strict_fields [''reason'', ''cancelPendingJobs'', ''idempotencyKey''] j of None \<Rightarrow> None
      | Some field \<Rightarrow>
          (case (REASON (field ''reason''), default_field True bool_field (field ''cancelPendingJobs''),
                 optional_field IDEMPOTENCY_KEY (field ''idempotencyKey'')) of
             (Some reason, Some cancel, Some key) \<Rightarrow>
               Some \<lparr>pap_reason = reason, pap_cancelPendingJobs = cancel, pap_idempotencyKey = key\<rparr>
           | _ \<Rightarrow> None))"

definition retireAgentPayloadSchema :: "json \<Rightarrow> retire_payload option" where
  "retireAgentPayloadSchema j =
     (case strict_fields [''reason'', ''proposalId'', ''confirmed'', ''drainJobs'', ''residualBeneficiary'', ''idempotencyKey''] j of
        None \<Rightarrow> None
      | Some field \<Rightarrow>
          (case (REASON (field ''reason''), text_between 1 64 (field ''proposalId''), confirmed_field (field ''confirmed''),
                 default_field True bool_field (field ''drainJobs''),
                 optional_field (checked_text stellar_address) (field ''residualBeneficiary''),
                 optional_field IDEMPOTENCY_KEY (field ''idempotencyKey'')) of
             (Some reason, Some proposal, Some u, Some drain, Some beneficiary, Some key) \<Rightarrow>
               Some \<lparr>rtp_reason = reason, rtp_proposalId = proposal, rtp_drainJobs = drain,
                 rtp_residualBeneficiary = beneficiary, rtp_idempotencyKey = key\<rparr>
           | _ \<Rightarrow> None))"

definition recoverAgentPayloadSchema :: "json \<Rightarrow> recover_payload option" where
  "recoverAgentPayloadSchema j =
     (case strict_fields [''reason'', ''jobId'', ''forceCompensate'', ''confirmed'', ''idempotencyKey''] j of None \<Rightarrow> None
      | Some field \<Rightarrow>
          (case (REASON (field ''reason''), optional_field (text_between 1 64) (field ''jobId''),
                 default_field False bool_field (field ''forceCompensate''), confirmed_field (field ''confirmed''),
                 optional_field IDEMPOTENCY_KEY (field ''idempotencyKey'')) of
             (Some reason, Some job, Some force, Some u, Some key) \<Rightarrow>
               Some \<lparr>rcp_reason = reason, rcp_jobId = job, rcp_forceCompensate = force, rcp_idempotencyKey = key\<rparr>
           | _ \<Rightarrow> None))"

definition payload_schema :: "lifecycle_action \<Rightarrow> json \<Rightarrow> lifecycle_payload option" where
  "payload_schema action j =
     (case action of
        Create \<Rightarrow> map_option PCreate (createAgentPayloadSchema j)
      | Activate \<Rightarrow> map_option PActivate (activateAgentPayloadSchema j)
      | Pause \<Rightarrow> map_option PPause (pauseAgentPayloadSchema j)
      | Retire \<Rightarrow> map_option PRetire (retireAgentPayloadSchema j)
      | Recover \<Rightarrow> map_option PRecover (recoverAgentPayloadSchema j))"

section \<open>Parsing\<close>

fun payload_action :: "lifecycle_payload \<Rightarrow> lifecycle_action" where
  "payload_action (PCreate _) = Create"
| "payload_action (PActivate _) = Activate"
| "payload_action (PPause _) = Pause"
| "payload_action (PRetire _) = Retire"
| "payload_action (PRecover _) = Recover"

fun payload_key :: "lifecycle_payload \<Rightarrow> string option" where
  "payload_key (PCreate p) = cp_idempotencyKey p"
| "payload_key (PActivate p) = acp_idempotencyKey p"
| "payload_key (PPause p) = pap_idempotencyKey p"
| "payload_key (PRetire p) = rtp_idempotencyKey p"
| "payload_key (PRecover p) = rcp_idempotencyKey p"

text \<open>\<open>Crashed\<close> is any thrown value that is no LifecycleError.\<close>

datatype route_error = Refused lifecycle_error | Crashed

text \<open>\<open>action in SCHEMAS\<close> also holds for the names every object inherits; what the lookup then gives has
  no \<open>safeParse\<close> to call.\<close>

definition PROTOTYPE_NAMES :: "string list" where
  "PROTOTYPE_NAMES = [''constructor'', ''__defineGetter__'', ''__defineSetter__'', ''hasOwnProperty'', ''__lookupGetter__'',
     ''__lookupSetter__'', ''isPrototypeOf'', ''propertyIsEnumerable'', ''toString'', ''valueOf'', ''__proto__'', ''toLocaleString'']"

definition parseLifecyclePayload :: "json \<Rightarrow> route_error + lifecycle_payload" where
  "parseLifecyclePayload raw =
     (if (case raw of JObj _ \<Rightarrow> False | JArr _ \<Rightarrow> False | _ \<Rightarrow> True)
      then Inl (Refused (lifecycleError InvalidPayload ''Request body must be an object''))
      else let field = (case raw of JObj es \<Rightarrow> map_of es | _ \<Rightarrow> (\<lambda>_. None)) in
        (case field ''action'' of
           Some (JStr name) \<Rightarrow>
             if name \<in> set PROTOTYPE_NAMES then Inl Crashed
             else (case parse_action name of
                None \<Rightarrow> Inl (Refused (lifecycleError UnknownAction ''Unknown lifecycle action''))
              | Some action \<Rightarrow>
                  let payload = (case field ''payload'' of None \<Rightarrow> JObj [] | Some JNull \<Rightarrow> JObj [] | Some p \<Rightarrow> p) in
                  (case payload_schema action payload of
                     None \<Rightarrow> Inl (Refused (lifecycleError InvalidPayload ''Payload validation failed''))
                   | Some parsed \<Rightarrow> Inr parsed))
         | _ \<Rightarrow> Inl (Refused (lifecycleError UnknownAction ''Unknown lifecycle action''))))"

section \<open>Prerequisites\<close>

record prerequisite_context =
  pc_operator :: "string option"
  pc_grantedPermissions :: "string list"
  pc_hasWallet :: bool
  pc_serviceCount :: int
  pc_inFlightJobs :: int

text \<open>The first violation, or \<open>None\<close>.\<close>

definition assertPrerequisites :: "lifecycle_payload \<Rightarrow> prerequisite_context \<Rightarrow> lifecycle_error option" where
  "assertPrerequisites parsed ctx =
     (case parsed of
        PCreate p \<Rightarrow>
          if filter (\<lambda>x. x \<in> set PRIVILEGED_PERMISSIONS) (cp_permissions p) \<noteq> [] \<and> bd_monthlyCapUsd (cp_budgets p) \<le> 0
          then Some (lifecycleError PrerequisiteFailed ''Privileged permissions require a positive monthly spend cap'')
          else if cp_services p \<noteq> [] \<and> ''commerce.sell'' \<notin> set (cp_permissions p)
          then Some (lifecycleError PrerequisiteFailed ''Services were declared without the commerce.sell permission'')
          else None
      | PActivate p \<Rightarrow>
          if \<not> truthy_str (pc_operator ctx)
          then Some (lifecycleError PrerequisiteFailed ''Agent has no operator of record'')
          else if pc_grantedPermissions ctx = []
          then Some (lifecycleError PrerequisiteFailed ''Approved proposal granted no permissions'')
          else None
      | PPause p \<Rightarrow> None
      | PRetire p \<Rightarrow>
          if rtp_drainJobs p \<and> pc_inFlightJobs ctx > 0
          then Some (lifecycleError PrerequisiteFailed ''Agent still has in-flight jobs; drain them or retire with drainJobs=false'')
          else if truthy_str (rtp_residualBeneficiary p) \<and> \<not> pc_hasWallet ctx
          then Some (lifecycleError PrerequisiteFailed ''Cannot sweep residual balance: agent has no wallet'')
          else None
      | PRecover p \<Rightarrow>
          if rcp_forceCompensate p \<and> \<not> truthy_str (rcp_jobId p)
          then Some (lifecycleError PrerequisiteFailed ''forceCompensate requires the jobId of the run to unwind'')
          else None)"

section \<open>What passes\<close>

lemmas field_defs = optional_field_def default_field_def text_between_def checked_text_def bool_field_def int_field_def
  confirmed_field_def

lemma optional_fieldE:
  assumes "optional_field parse v = Some r"
  shows "(v = None \<and> r = None) \<or> (\<exists>x. parse v = Some x \<and> r = Some x)"
  using assms by (auto simp: optional_field_def split: option.splits)

lemma key_ok: "optional_field IDEMPOTENCY_KEY v = Some (Some k) \<Longrightarrow> 8 \<le> length k \<and> length k \<le> 128 \<and> list_all url_safe k"
  by (auto simp: field_defs IDEMPOTENCY_KEY_def split: option.splits json.splits if_splits)

definition reason_ok :: "string \<Rightarrow> bool" where "reason_ok s \<longleftrightarrow> 1 \<le> length s \<and> length s \<le> 500"
definition proposal_ok :: "string \<Rightarrow> bool" where "proposal_ok s \<longleftrightarrow> 1 \<le> length s \<and> length s \<le> 64"

definition budgets_ok :: "budgets \<Rightarrow> bool" where
  "budgets_ok b \<longleftrightarrow> 0 \<le> bd_approvalThreshold b \<and> bd_approvalThreshold b \<le> min 1000000 (bd_monthlyCapUsd b) \<and>
     0 \<le> bd_gtmBudget b \<and> bd_gtmBudget b \<le> min 10000000 (12 * bd_monthlyCapUsd b) \<and>
     0 < bd_monthlyCapUsd b \<and> bd_monthlyCapUsd b \<le> 10000000"

definition sized :: "nat \<Rightarrow> nat \<Rightarrow> string \<Rightarrow> bool" where
  "sized lo hi s \<longleftrightarrow> lo \<le> length s \<and> length s \<le> hi"

definition offer_ok :: "service_offer \<Rightarrow> bool" where
  "offer_ok s \<longleftrightarrow> sized 1 200 (so_serviceName s) \<and> (\<forall>d. so_description s = Some d \<longrightarrow> sized 0 2000 d) \<and>
     0 < so_price s \<and> so_price s \<le> 1000000 \<and> so_fulfillmentMode s \<in> {''instant'', ''async''}"

fun payload_ok :: "lifecycle_payload \<Rightarrow> bool" where
  "payload_ok (PCreate p) \<longleftrightarrow> sized 1 100 (cp_name p) \<and> sized 1 100 (cp_category p) \<and>
     sized 1 2000 (cp_description p) \<and> sized 20 4000 (cp_persona p) \<and>
     (\<forall>t. cp_targetAudience p = Some t \<longrightarrow> sized 0 2000 t) \<and>
     set (cp_permissions p) \<subseteq> set AGENT_PERMISSIONS \<and> cp_permissions p \<noteq> [] \<and> length (cp_permissions p) \<le> 9 \<and>
     stellar_address (cp_operator p) \<and> budgets_ok (cp_budgets p) \<and> length (cp_services p) \<le> 10 \<and>
     (\<forall>s \<in> set (cp_services p). offer_ok s)"
| "payload_ok (PActivate p) \<longleftrightarrow> proposal_ok (acp_proposalId p)"
| "payload_ok (PPause p) \<longleftrightarrow> reason_ok (pap_reason p)"
| "payload_ok (PRetire p) \<longleftrightarrow> reason_ok (rtp_reason p) \<and> proposal_ok (rtp_proposalId p) \<and>
     (\<forall>b. rtp_residualBeneficiary p = Some b \<longrightarrow> stellar_address b)"
| "payload_ok (PRecover p) \<longleftrightarrow> reason_ok (rcp_reason p) \<and> (\<forall>i. rcp_jobId p = Some i \<longrightarrow> sized 1 64 i)"

definition carries_confirmation :: "json \<Rightarrow> bool" where
  "carries_confirmation raw \<longleftrightarrow> (\<exists>es ps. raw = JObj es \<and> map_of es ''payload'' = Some (JObj ps) \<and> map_of ps ''confirmed'' = Some (JBool True))"

definition payload_source :: "json \<Rightarrow> json" where
  "payload_source raw = (case raw of JObj es \<Rightarrow>
     (case map_of es ''payload'' of None \<Rightarrow> JObj [] | Some JNull \<Rightarrow> JObj [] | Some p \<Rightarrow> p) | _ \<Rightarrow> JObj [])"

lemma all_some_length: "all_some xs = Some ys \<Longrightarrow> length ys = length xs \<and> (\<forall>y \<in> set ys. Some y \<in> set xs)"
  by (induction xs arbitrary: ys rule: all_some.induct) auto

lemma text_sized: "text_between lo hi v = Some s \<Longrightarrow> sized lo hi s"
  by (auto simp: text_between_def checked_text_def sized_def split: option.splits json.splits if_splits)

lemma optional_sized: "optional_field (text_between lo hi) v = Some (Some s) \<Longrightarrow> sized lo hi s"
  by (auto dest!: optional_fieldE text_sized)

lemma offer_checked:
  assumes "serviceSchema x = Some s"
  shows "offer_ok s"
proof -
  obtain field where f: "text_between 1 200 (field ''serviceName'') = Some (so_serviceName s)"
    "optional_field (text_between 0 2000) (field ''description'') = Some (so_description s)"
    "int_field (\<lambda>n. 0 < n \<and> n \<le> 1000000) (field ''price'') = Some (so_price s)"
    "default_field ''async'' (checked_text (\<lambda>s. s \<in> set [''instant'', ''async''])) (field ''fulfillmentMode'') = Some (so_fulfillmentMode s)"
    using assms by (auto simp: serviceSchema_def split: option.splits)
  have "0 < so_price s \<and> so_price s \<le> 1000000" using f(3) by (auto simp: int_field_def split: option.splits json.splits if_splits)
  moreover have "so_fulfillmentMode s \<in> {''instant'', ''async''}"
    using f(4) by (auto simp: default_field_def checked_text_def split: option.splits json.splits if_splits)
  ultimately show ?thesis using text_sized [OF f(1)] f(2) optional_sized by (auto simp: offer_ok_def)
qed

lemma services_ok:
  assumes "default_field [] services_field v = Some ss"
  shows "length ss \<le> 10 \<and> (\<forall>s \<in> set ss. offer_ok s)"
proof (cases v)
  case None
  then show ?thesis using assms by (simp add: default_field_def)
next
  case (Some j)
  then obtain vs where vs: "length vs \<le> 10" "all_some (map serviceSchema vs) = Some ss"
    using assms by (auto simp: default_field_def services_field_def split: json.splits if_splits)
  then show ?thesis using all_some_length [OF vs(2)] offer_checked by fastforce
qed

lemma parse_payload:
  assumes "parseLifecyclePayload raw = Inr parsed"
  obtains action where "payload_schema action (payload_source raw) = Some parsed"
  using assms by (auto simp: parseLifecyclePayload_def payload_source_def Let_def split: json.splits option.splits if_splits)

lemma budgets_checked: "budgetsSchema v = Some b \<Longrightarrow> budgets_ok b"
  by (auto simp: budgetsSchema_def budgets_ok_def int_field_def split: option.splits json.splits if_splits)

lemma create_ok:
  assumes "createAgentPayloadSchema j = Some p"
  shows "payload_ok (PCreate p) \<and> (\<forall>k. cp_idempotencyKey p = Some k \<longrightarrow> 8 \<le> length k \<and> length k \<le> 128 \<and> list_all url_safe k)"
proof -
  obtain field where f: "text_between 1 100 (field ''name'') = Some (cp_name p)" "text_between 20 4000 (field ''persona'') = Some (cp_persona p)"
    "text_between 1 100 (field ''category'') = Some (cp_category p)" "text_between 1 2000 (field ''description'') = Some (cp_description p)"
    "optional_field (text_between 0 2000) (field ''targetAudience'') = Some (cp_targetAudience p)"
    "permissions_field (field ''permissions'') = Some (cp_permissions p)" "checked_text stellar_address (field ''operator'') = Some (cp_operator p)"
    "budgetsSchema (field ''budgets'') = Some (cp_budgets p)" "default_field [] services_field (field ''services'') = Some (cp_services p)"
    "optional_field IDEMPOTENCY_KEY (field ''idempotencyKey'') = Some (cp_idempotencyKey p)"
    using assms by (auto simp: createAgentPayloadSchema_def split: option.splits)
  have "budgets_ok (cp_budgets p)" using f(8) by (rule budgets_checked)
  moreover have "set (cp_permissions p) \<subseteq> set AGENT_PERMISSIONS \<and> cp_permissions p \<noteq> [] \<and> length (cp_permissions p) \<le> 9"
    using f(6) by (auto simp: permissions_field_def AGENT_PERMISSIONS_def split: option.splits json.splits if_splits)
  moreover have "stellar_address (cp_operator p)"
    using f(7) by (auto simp: checked_text_def split: option.splits json.splits if_splits)
  moreover have "\<forall>t. cp_targetAudience p = Some t \<longrightarrow> sized 0 2000 t" using f(5) optional_sized by auto
  moreover have "\<forall>k. cp_idempotencyKey p = Some k \<longrightarrow> 8 \<le> length k \<and> length k \<le> 128 \<and> list_all url_safe k"
    using f(10) key_ok by auto
  ultimately show ?thesis using services_ok [OF f(9)] text_sized [OF f(1)] text_sized [OF f(2)]
      text_sized [OF f(3)] text_sized [OF f(4)] by simp
qed

lemma activate_ok:
  "activateAgentPayloadSchema j = Some p \<Longrightarrow> payload_ok (PActivate p) \<and> optional_field IDEMPOTENCY_KEY (map_of (case j of JObj es \<Rightarrow> es) ''idempotencyKey'') = Some (acp_idempotencyKey p) \<and>
     (\<exists>ps. j = JObj ps \<and> map_of ps ''confirmed'' = Some (JBool True))"
  by (auto simp: activateAgentPayloadSchema_def strict_fields_def text_between_def checked_text_def confirmed_field_def proposal_ok_def
      split: option.splits json.splits if_splits)

lemma pause_ok:
  "pauseAgentPayloadSchema j = Some p \<Longrightarrow> payload_ok (PPause p) \<and> optional_field IDEMPOTENCY_KEY (map_of (case j of JObj es \<Rightarrow> es) ''idempotencyKey'') = Some (pap_idempotencyKey p)"
  by (auto simp: pauseAgentPayloadSchema_def strict_fields_def REASON_def text_between_def checked_text_def reason_ok_def
      split: option.splits json.splits if_splits)

lemma recover_ok:
  assumes "recoverAgentPayloadSchema j = Some p"
  shows "payload_ok (PRecover p) \<and> optional_field IDEMPOTENCY_KEY (map_of (case j of JObj es \<Rightarrow> es) ''idempotencyKey'') = Some (rcp_idempotencyKey p) \<and>
     (\<exists>ps. j = JObj ps \<and> map_of ps ''confirmed'' = Some (JBool True))"
proof -
  obtain ps where j: "j = JObj ps" using assms by (auto simp: recoverAgentPayloadSchema_def strict_fields_def split: json.splits option.splits)
  then have f: "REASON (map_of ps ''reason'') = Some (rcp_reason p)" "confirmed_field (map_of ps ''confirmed'') \<noteq> None"
    "optional_field (text_between 1 64) (map_of ps ''jobId'') = Some (rcp_jobId p)"
    "optional_field IDEMPOTENCY_KEY (map_of ps ''idempotencyKey'') = Some (rcp_idempotencyKey p)"
    using assms by (auto simp: recoverAgentPayloadSchema_def strict_fields_def split: option.splits if_splits)
  have "\<forall>i. rcp_jobId p = Some i \<longrightarrow> sized 1 64 i" using f(3) optional_sized by auto
  moreover have "reason_ok (rcp_reason p)"
    using f(1) by (auto simp: REASON_def text_between_def checked_text_def reason_ok_def split: option.splits json.splits if_splits)
  ultimately show ?thesis using f(2,4) j by (auto simp: confirmed_field_def split: if_splits)
qed

lemma retire_ok:
  assumes "retireAgentPayloadSchema j = Some p"
  shows "payload_ok (PRetire p) \<and> optional_field IDEMPOTENCY_KEY (map_of (case j of JObj es \<Rightarrow> es) ''idempotencyKey'') = Some (rtp_idempotencyKey p) \<and>
     (\<exists>ps. j = JObj ps \<and> map_of ps ''confirmed'' = Some (JBool True))"
proof -
  obtain ps where j: "j = JObj ps" using assms by (auto simp: retireAgentPayloadSchema_def strict_fields_def split: json.splits option.splits)
  then have f: "REASON (map_of ps ''reason'') = Some (rtp_reason p)" "text_between 1 64 (map_of ps ''proposalId'') = Some (rtp_proposalId p)"
    "confirmed_field (map_of ps ''confirmed'') \<noteq> None"
    "optional_field (checked_text stellar_address) (map_of ps ''residualBeneficiary'') = Some (rtp_residualBeneficiary p)"
    "optional_field IDEMPOTENCY_KEY (map_of ps ''idempotencyKey'') = Some (rtp_idempotencyKey p)"
    using assms by (auto simp: retireAgentPayloadSchema_def strict_fields_def split: option.splits if_splits)
  have "stellar_address b" if "rtp_residualBeneficiary p = Some b" for b
    using f(4) that by (auto simp: optional_field_def checked_text_def split: option.splits json.splits if_splits)
  moreover have "reason_ok (rtp_reason p)" "proposal_ok (rtp_proposalId p)"
    using f(1,2) by (auto simp: REASON_def text_between_def checked_text_def reason_ok_def proposal_ok_def split: option.splits json.splits if_splits)
  ultimately show ?thesis using f(3,5) j by (auto simp: confirmed_field_def split: if_splits)
qed

text \<open>C37.
  What parses as a lifecycle payload is within every bound of its schema: texts (name, category,
  description, persona, audience, reason, proposal and run ids) within their lengths, permissions from
  the catalogue, budgets below their maxima and each other, services with names, descriptions, prices and
  modes in range, addresses canonical, keys printable; and an activation, retirement or recovery carries
  the caller's own confirmation.\<close>

theorem payload_typed:
  assumes "parseLifecyclePayload raw = Inr parsed"
  shows "payload_ok parsed \<and> (\<forall>k. payload_key parsed = Some k \<longrightarrow> 8 \<le> length k \<and> length k \<le> 128 \<and> list_all url_safe k) \<and>
    (payload_action parsed \<in> {Activate, Retire, Recover} \<longrightarrow> carries_confirmation raw)"
proof -
  obtain action where a: "payload_schema action (payload_source raw) = Some parsed" using assms by (rule parse_payload)
  have source: "carries_confirmation raw" if "payload_source raw = JObj ps" "map_of ps ''confirmed'' = Some (JBool True)" for ps
    using that by (auto simp: payload_source_def carries_confirmation_def split: json.splits option.splits)
  show ?thesis
  proof (cases action)
    case Create
    then show ?thesis using a create_ok by (auto simp: payload_schema_def)
  next
    case Activate
    then obtain p where "parsed = PActivate p" "activateAgentPayloadSchema (payload_source raw) = Some p" using a by (auto simp: payload_schema_def)
    then show ?thesis using activate_ok [of "payload_source raw" p] source key_ok by auto
  next
    case Pause
    then obtain p where "parsed = PPause p" "pauseAgentPayloadSchema (payload_source raw) = Some p" using a by (auto simp: payload_schema_def)
    then show ?thesis using pause_ok [of "payload_source raw" p] key_ok by auto
  next
    case Retire
    then obtain p where "parsed = PRetire p" "retireAgentPayloadSchema (payload_source raw) = Some p" using a by (auto simp: payload_schema_def)
    then show ?thesis using retire_ok [of "payload_source raw" p] source key_ok by auto
  next
    case Recover
    then obtain p where "parsed = PRecover p" "recoverAgentPayloadSchema (payload_source raw) = Some p" using a by (auto simp: payload_schema_def)
    then show ?thesis using recover_ok [of "payload_source raw" p] source key_ok by auto
  qed
qed

text \<open>The check that privileged permissions need a spend cap never fires on a parsed payload, whose cap is
  positive: creation asks for nothing but the permission to sell when services are declared.\<close>

lemma privileged_never_refused:
  assumes "parseLifecyclePayload raw = Inr (PCreate p)"
  shows "assertPrerequisites (PCreate p) ctx = None \<longleftrightarrow> cp_services p = [] \<or> ''commerce.sell'' \<in> set (cp_permissions p)"
proof -
  obtain action where a: "payload_schema action (payload_source raw) = Some (PCreate p)" using assms by (rule parse_payload)
  then have "createAgentPayloadSchema (payload_source raw) = Some p"
    by (cases action) (auto simp: payload_schema_def)
  then have "0 < bd_monthlyCapUsd (cp_budgets p)" using create_ok by (auto simp: budgets_ok_def)
  then show ?thesis by (auto simp: assertPrerequisites_def)
qed

text \<open>A name every object inherits is taken for an action and crashes the request.\<close>

lemma inherited_name_crashes: "parseLifecyclePayload (JObj [(''action'', JStr ''toString'')]) = Inl Crashed"
  by (simp add: parseLifecyclePayload_def PROTOTYPE_NAMES_def)

definition retire_body :: json where
  "retire_body = JObj [(''action'', JStr ''retire''), (''payload'', JObj [(''reason'', JStr ''sunset''), (''proposalId'', JStr ''pr1''),
     (''confirmed'', JBool True)])]"

theorem payload_typed_witness:
  "\<exists>p. parseLifecyclePayload retire_body = Inr (PRetire p) \<and> rtp_proposalId p = ''pr1'' \<and> carries_confirmation retire_body"
proof -
  have "\<exists>p. parseLifecyclePayload retire_body = Inr (PRetire p) \<and> rtp_proposalId p = ''pr1''"
    by (simp add: parseLifecyclePayload_def retire_body_def PROTOTYPE_NAMES_def parse_action_def LIFECYCLE_ACTIONS_def
        payload_schema_def retireAgentPayloadSchema_def strict_fields_def REASON_def field_defs)
  then obtain p where p: "parseLifecyclePayload retire_body = Inr (PRetire p)" "rtp_proposalId p = ''pr1''" by blast
  then show ?thesis using payload_typed [OF p(1)] by simp
qed

end
