(* ===== verification/Provisioning_Effects.thy ===== *)
theory Provisioning_Effects
  imports Provisioning Agent_Owner
begin

text \<open>
  What the provisioning workflows do to the database: web/src/lib/governance/effects.ts and the
  workflows at the end of web/src/lib/governance/provisioning.ts.

  Random keys are drawn from two sequences, the clock and what other requests do between two
  statements of an effect (\<open>fx_meanwhile\<close>, one function per gap) are arguments.  Statements do not
  throw.  A row of tls_talos is a \<open>talos_row\<close>; services and jobs are those of the marketplace tables.
\<close>

section \<open>State\<close>

record approval =
  ap_id :: string
  ap_talosId :: string
  ap_status :: string

record gov_world =
  gw_agents :: "talos_row list"
  gw_market :: market
  gw_approvals :: "approval list"
  gw_drawn :: nat  \<comment> \<open>random values drawn so far\<close>

record effect_env =
  fx_publicKey :: "nat \<Rightarrow> string"
  fx_secretHex :: "nat \<Rightarrow> string"
  fx_now :: instant
  fx_meanwhile :: "nat \<Rightarrow> gov_world \<Rightarrow> gov_world"

definition loadAgent :: "string \<Rightarrow> gov_world \<Rightarrow> talos_row option" where
  "loadAgent i w = sel_one (\<lambda>a. tl_id a = i) (gw_agents w)"

definition update_agents :: "(talos_row \<Rightarrow> bool) \<Rightarrow> (talos_row \<Rightarrow> talos_row) \<Rightarrow> gov_world \<Rightarrow> gov_world" where
  "update_agents P f w = w\<lparr>gw_agents := upd P f (gw_agents w)\<rparr>"

definition update_services :: "(service \<Rightarrow> bool) \<Rightarrow> (service \<Rightarrow> service) \<Rightarrow> gov_world \<Rightarrow> gov_world" where
  "update_services P f w = w\<lparr>gw_market := (gw_market w)\<lparr>mk_services := upd P f (mk_services (gw_market w))\<rparr>\<rparr>"

text \<open>\<open>ctx.outputs.step?.field\<close>.\<close>

definition output_field :: "step_outputs \<Rightarrow> string \<Rightarrow> string \<Rightarrow> json option" where
  "output_field outputs step field =
     (case map_of outputs step of Some (Some (JObj es)) \<Rightarrow> map_of es field | _ \<Rightarrow> None)"

section \<open>Effects\<close>

record 'w effects =
  ef_createWallet :: "step_context \<Rightarrow> 'w \<Rightarrow> 'w \<times> (thrown + json)"
  ef_releaseWallet :: "step_context \<Rightarrow> 'w \<Rightarrow> 'w"
  ef_issueCredentials :: "step_context \<Rightarrow> 'w \<Rightarrow> 'w \<times> (thrown + json)"
  ef_revokeCredentials :: "step_context \<Rightarrow> 'w \<Rightarrow> 'w"
  ef_registerServices :: "step_context \<Rightarrow> 'w \<Rightarrow> 'w \<times> (thrown + json)"
  ef_deregisterServices :: "step_context \<Rightarrow> 'w \<Rightarrow> 'w"
  ef_startRuntime :: "step_context \<Rightarrow> 'w \<Rightarrow> 'w \<times> (thrown + json)"
  ef_stopRuntime :: "step_context \<Rightarrow> 'w \<Rightarrow> 'w"

definition createWallet :: "effect_env \<Rightarrow> step_context \<Rightarrow> gov_world \<Rightarrow> gov_world \<times> (thrown + json)" where
  "createWallet env ctx w =
     (case loadAgent (sx_talosId ctx) w of
        None \<Rightarrow> (w, Inl (ErrorObj ''agent not found''))
      | Some agent \<Rightarrow>
          if truthy_str (tl_agentWalletId agent)
          then (w, Inr (JObj [(''walletPublicKey'', JStr (the (tl_agentWalletId agent))), (''reused'', JBool True)]))
          else
            let publicKey = fx_publicKey env (gw_drawn w);
                w1 = fx_meanwhile env 0 (w\<lparr>gw_drawn := Suc (gw_drawn w)\<rparr>);
                w2 = update_agents (\<lambda>a. tl_id a = sx_talosId ctx \<and> tl_agentWalletId a = None)
                       (\<lambda>a. a\<lparr>tl_agentWalletId := Some publicKey, tl_agentWalletAddress := Some publicKey\<rparr>) w1;
                w3 = fx_meanwhile env 1 w2;
                settled = (case loadAgent (sx_talosId ctx) w3 of None \<Rightarrow> None | Some a \<Rightarrow> tl_agentWalletId a)
            in (w3, Inr (JObj [(''walletPublicKey'', JStr (coalesce settled publicKey)), (''reused'', JBool False)])))"

definition releaseWallet :: "step_context \<Rightarrow> gov_world \<Rightarrow> gov_world" where
  "releaseWallet ctx = update_agents (\<lambda>a. tl_id a = sx_talosId ctx)
     (\<lambda>a. a\<lparr>tl_agentWalletId := None, tl_agentWalletAddress := None\<rparr>)"

definition issueCredentials :: "effect_env \<Rightarrow> step_context \<Rightarrow> gov_world \<Rightarrow> gov_world \<times> (thrown + json)" where
  "issueCredentials env ctx w =
     (case loadAgent (sx_talosId ctx) w of
        None \<Rightarrow> (w, Inl (ErrorObj ''agent not found''))
      | Some agent \<Rightarrow>
          if truthy_str (tl_apiKey agent)
          then (w, Inr (JObj [(''credentialIssued'', JBool True), (''reused'', JBool True)]))
          else
            let apiKey = ''tak_'' @ fx_secretHex env (gw_drawn w);
                w1 = fx_meanwhile env 0 (w\<lparr>gw_drawn := Suc (gw_drawn w)\<rparr>)
            in (update_agents (\<lambda>a. tl_id a = sx_talosId ctx) (\<lambda>a. a\<lparr>tl_apiKey := Some apiKey\<rparr>) w1,
                Inr (JObj [(''credentialIssued'', JBool True), (''reused'', JBool False)])))"

definition revokeCredentials :: "step_context \<Rightarrow> gov_world \<Rightarrow> gov_world" where
  "revokeCredentials ctx = update_agents (\<lambda>a. tl_id a = sx_talosId ctx) (\<lambda>a. a\<lparr>tl_apiKey := None\<rparr>)"

definition previous_key :: "service \<Rightarrow> json" where
  "previous_key s = JObj [(''id'', JStr (sv_id s)), (''stellarPublicKey'', JStr (sv_stellarPublicKey s))]"

definition registerServices :: "effect_env \<Rightarrow> step_context \<Rightarrow> gov_world \<Rightarrow> gov_world \<times> (thrown + json)" where
  "registerServices env ctx w =
     (case output_field (sx_outputs ctx) ''wallet'' ''walletPublicKey'' of
        Some (JStr wallet) \<Rightarrow>
          if wallet = [] then (w, Inl (ErrorObj ''wallet step produced no public key''))
          else
            let existing = sel (\<lambda>s. sv_talosId s = sx_talosId ctx) (mk_services (gw_market w));
                w1 = fx_meanwhile env 0 w
            in (update_services (\<lambda>s. sv_talosId s = sx_talosId ctx) (\<lambda>s. s\<lparr>sv_stellarPublicKey := wallet\<rparr>) w1,
                Inr (JObj [(''serviceCount'', JNum (int (length existing))),
                           (''previousKeys'', JArr (map previous_key existing))]))
      | _ \<Rightarrow> (w, Inl (ErrorObj ''wallet step produced no public key'')))"

text \<open>One turn of the loop; an entry of another shape than \<open>previous_key\<close> gives, which nothing
  writes, is passed over.\<close>

definition restore_service :: "json \<Rightarrow> gov_world \<Rightarrow> gov_world" where
  "restore_service entry w =
     (case entry of
        JObj es \<Rightarrow>
          (case (map_of es ''id'', map_of es ''stellarPublicKey'') of
             (Some (JStr i), Some (JStr key)) \<Rightarrow>
               update_services (\<lambda>s. sv_id s = i) (\<lambda>s. s\<lparr>sv_stellarPublicKey := key\<rparr>) w
           | _ \<Rightarrow> w)
      | _ \<Rightarrow> w)"

definition deregisterServices :: "step_context \<Rightarrow> gov_world \<Rightarrow> gov_world" where
  "deregisterServices ctx w =
     (case output_field (sx_outputs ctx) ''services'' ''previousKeys'' of
        Some (JArr previous) \<Rightarrow> fold restore_service previous w
      | _ \<Rightarrow> w)"

definition startRuntime :: "effect_env \<Rightarrow> step_context \<Rightarrow> gov_world \<Rightarrow> gov_world \<times> (thrown + json)" where
  "startRuntime env ctx w =
     (update_agents (\<lambda>a. tl_id a = sx_talosId ctx)
        (\<lambda>a. a\<lparr>tl_status := ''Active'', tl_agentOnline := True, tl_agentLastSeen := Some (fx_now env)\<rparr>) w,
      Inr (JObj [(''online'', JBool True)]))"

definition stopRuntime :: "effect_env \<Rightarrow> step_context \<Rightarrow> gov_world \<Rightarrow> gov_world" where
  "stopRuntime env ctx w =
     (let w1 = fx_meanwhile env 0 (update_agents (\<lambda>a. tl_id a = sx_talosId ctx)
            (\<lambda>a. a\<lparr>tl_agentOnline := False, tl_agentLastSeen := Some (fx_now env)\<rparr>) w)
      in w1\<lparr>gw_market := cancel_pending (fx_now env) (sx_talosId ctx) (gw_market w1)\<rparr>)"

definition databaseEffects :: "effect_env \<Rightarrow> gov_world effects" where
  "databaseEffects env =
     \<lparr>ef_createWallet = createWallet env, ef_releaseWallet = releaseWallet,
      ef_issueCredentials = issueCredentials env, ef_revokeCredentials = revokeCredentials,
      ef_registerServices = registerServices env, ef_deregisterServices = deregisterServices,
      ef_startRuntime = startRuntime env, ef_stopRuntime = stopRuntime env\<rparr>"

section \<open>Workflows\<close>

text \<open>None of the compensations throws.\<close>

definition workflow_step ::
  "string \<Rightarrow> (step_context \<Rightarrow> 'w \<Rightarrow> 'w \<times> (thrown + json)) \<Rightarrow> (step_context \<Rightarrow> 'w \<Rightarrow> 'w) \<Rightarrow> 'w step_definition" where
  "workflow_step name run undo = \<lparr>sd_name = name, sd_run = run, sd_compensate = (\<lambda>ctx w. (undo ctx w, None))\<rparr>"

definition buildActivationWorkflow :: "'w effects \<Rightarrow> 'w workflow" where
  "buildActivationWorkflow effects =
     \<lparr>wf_action = ''activate'',
      wf_steps =
        [workflow_step ''wallet'' (ef_createWallet effects) (ef_releaseWallet effects),
         workflow_step ''credentials'' (ef_issueCredentials effects) (ef_revokeCredentials effects),
         workflow_step ''services'' (ef_registerServices effects) (ef_deregisterServices effects),
         workflow_step ''runtime'' (ef_startRuntime effects) (ef_stopRuntime effects)],
      wf_successState = Active, wf_failureState = Failed\<rparr>"

definition then_flag :: "string \<Rightarrow> (step_context \<Rightarrow> 'w \<Rightarrow> 'w) \<Rightarrow> step_context \<Rightarrow> 'w \<Rightarrow> 'w \<times> (thrown + json)" where
  "then_flag name f ctx w = (f ctx w, Inr (JObj [(name, JBool True)]))"

definition buildRetirementWorkflow :: "'w effects \<Rightarrow> 'w workflow" where
  "buildRetirementWorkflow effects =
     \<lparr>wf_action = ''retire'',
      wf_steps =
        [workflow_step ''runtime'' (then_flag ''stopped'' (ef_stopRuntime effects)) (\<lambda>ctx w. w),
         workflow_step ''services'' (then_flag ''deregistered'' (ef_deregisterServices effects)) (\<lambda>ctx w. w),
         workflow_step ''credentials'' (then_flag ''revoked'' (ef_revokeCredentials effects)) (\<lambda>ctx w. w)],
      wf_successState = Retired, wf_failureState = Failed\<rparr>"

definition workflowFor :: "lifecycle_action \<Rightarrow> 'w effects \<Rightarrow> lifecycle_error + 'w workflow" where
  "workflowFor action effects =
     (case action of
        Activate \<Rightarrow> Inr ((buildActivationWorkflow effects)\<lparr>wf_action := action_name action\<rparr>)
      | Recover \<Rightarrow> Inr ((buildActivationWorkflow effects)\<lparr>wf_action := action_name action\<rparr>)
      | Retire \<Rightarrow> Inr (buildRetirementWorkflow effects)
      | _ \<Rightarrow> Inl (lifecycleError InvalidTransition (''Action '' @ action_name action @ '' has no durable workflow'')))"

end
