(* ===== verification/Lifecycle_Route.thy ===== *)
theory Lifecycle_Route
  imports Lifecycle_Payloads Provisioning_Effects
begin

text \<open>
  Governed lifecycle requests, web/src/app/api/talos/[id]/lifecycle/route.ts: who may ask for what, the
  hand-over of durable actions to a provisioning run, the inline transitions, and the view a client
  polls.  \<open>ed25519 address message signature\<close> is the Stellar library's check.  A request runs on its
  own except inside submitProvisioningJob and emitLifecycleEvent, whose races their theories model.
\<close>

section \<open>Requests and replies\<close>

record lifecycle_request =
  lq_length :: int
  lq_json :: "json option"  \<comment> \<open>\<open>None\<close>: not JSON\<close>
  lq_idempotencyHeader :: "string option"

record lifecycle_env =
  lc_ed25519 :: ed25519
  lc_run :: prov_env
  lc_effects :: effect_env
  lc_newId :: string
  lc_submitting :: "prov_jobs \<Rightarrow> prov_jobs"

datatype lifecycle_reply =
    TooLarge | AgentMissing | Rejected route_error
  | Handed lifecycle_state string bool  \<comment> \<open>202: state, run, created\<close>
  | Settled lifecycle_state

definition MAX_BODY_LENGTH :: int where "MAX_BODY_LENGTH = 16384"

definition refused :: "lifecycle_code \<Rightarrow> string \<Rightarrow> lifecycle_reply" where
  "refused code message = Rejected (Refused (lifecycleError code message))"

section \<open>Roles and signatures\<close>

definition rolesFor :: "string \<Rightarrow> talos_row \<Rightarrow> governance_role list" where
  "rolesFor address agent =
     rev (remdups (rev
       ((if tl_creatorPublicKey agent = Some address then [Creator, Operator] else []) @
        (if tl_walletPublicKey agent = Some address then [Operator] else []) @
        (if tl_treasuryPublicKey agent = Some address then [Governance] else []))))"

text \<open>\<open>None\<close>: accepted.\<close>

definition verify_lifecycle_signature :: "ed25519 \<Rightarrow> string \<Rightarrow> string \<Rightarrow> string \<Rightarrow> string \<Rightarrow> lifecycle_error option" where
  "verify_lifecycle_signature ed address message signature talosId =
     (if \<not> js_includes talosId message
      then Some (lifecycleError Unauthorized ''Signature message must contain the TALOS ID'')
      else if ed address message signature \<noteq> Some True then Some (lifecycleError Unauthorized ''Invalid signature'')
      else None)"

section \<open>Checks\<close>

definition text_or_empty :: "json option \<Rightarrow> string" where
  "text_or_empty v = (case v of Some (JStr s) \<Rightarrow> s | _ \<Rightarrow> [])"

fun payload_proposal :: "lifecycle_payload \<Rightarrow> string option" where
  "payload_proposal (PActivate p) = Some (acp_proposalId p)"
| "payload_proposal (PRetire p) = Some (rtp_proposalId p)"
| "payload_proposal _ = None"

definition hasApprovedProposal :: "string \<Rightarrow> lifecycle_payload \<Rightarrow> gov_world \<Rightarrow> bool" where
  "hasApprovedProposal talosId parsed w \<longleftrightarrow>
     truthy_str (payload_proposal parsed) \<and>
     list_ex (\<lambda>r. ap_id r = the (payload_proposal parsed) \<and> ap_talosId r = talosId \<and> ap_status r = ''approved'') (gw_approvals w)"

text \<open>The state as the request sees it; a status named like a member of Object.prototype reads as that
  member's text, which is no state.\<close>

definition state_text :: "string \<Rightarrow> string" where
  "state_text status =
     (case toLifecycleState (Some status) of
        Some s \<Rightarrow> state_name s
      | None \<Rightarrow> if js_lower (js_trim status) = ''constructor'' then ''function Object() { [native code] }'' else ''[object Object]'')"

definition in_flight_jobs :: "string \<Rightarrow> gov_world \<Rightarrow> int" where
  "in_flight_jobs talosId w =
     int (length (take 100 (sel (\<lambda>j. mj_talosId j = talosId \<and> mj_status j \<in> set [''pending'', ''in_progress'']) (mk_jobs (gw_market w)))))"

definition prerequisites_for :: "lifecycle_payload \<Rightarrow> talos_row \<Rightarrow> gov_world \<Rightarrow> prerequisite_context" where
  "prerequisites_for parsed agent w =
     \<lparr>pc_operator = tl_creatorPublicKey agent,
      pc_grantedPermissions = (case parsed of PCreate p \<Rightarrow> cp_permissions p | _ \<Rightarrow> [''wallet.read'']),
      pc_hasWallet = truthy_str (tl_agentWalletId agent), pc_serviceCount = 0,
      pc_inFlightJobs = in_flight_jobs (tl_id agent) w\<rparr>"

record checked_request =
  cr_actor :: lifecycle_actor
  cr_parsed :: lifecycle_payload
  cr_from :: string
  cr_decision :: transition_decision
  cr_key :: string

definition check_request :: "ed25519 \<Rightarrow> lifecycle_request \<Rightarrow> string \<Rightarrow> gov_world \<Rightarrow> lifecycle_reply + checked_request" where
  "check_request ed req i w =
     (if lq_length req > MAX_BODY_LENGTH then Inl TooLarge
      else case lq_json req of
        None \<Rightarrow> Inl (refused InvalidPayload ''Invalid JSON body'')
      | Some body \<Rightarrow>
      (case body_fields body of
        None \<Rightarrow> Inl (Rejected Crashed)
      | Some field \<Rightarrow>
          let address = text_or_empty (field ''address''); signature = text_or_empty (field ''signature'');
              message = text_or_empty (field ''message'')
          in if address = [] \<or> signature = [] \<or> message = []
             then Inl (refused Unauthorized ''address, signature, and message are required'')
             else case loadAgent i w of
               None \<Rightarrow> Inl AgentMissing
             | Some agent \<Rightarrow>
             (case verify_lifecycle_signature ed address message signature i of
               Some e \<Rightarrow> Inl (Rejected (Refused e))
             | None \<Rightarrow>
                 let actor = \<lparr>actor_id = address, actor_roles = rolesFor address agent\<rparr>
                 in if actor_roles actor = [] then Inl (refused Unauthorized ''Address holds no role on this agent'')
                    else case parseLifecyclePayload body of
                      Inl e \<Rightarrow> Inl (Rejected e)
                    | Inr parsed \<Rightarrow>
                        let src = state_text (tl_status agent) in
                        (case evaluateTransition \<lparr>rq_action = action_name (payload_action parsed), rq_from = Some src, rq_actor = actor,
                                rq_governanceApproved = Some (hasApprovedProposal i parsed w)\<rparr> of
                           Inl e \<Rightarrow> Inl (Rejected (Refused e))
                         | Inr decision \<Rightarrow>
                             (case assertPrerequisites parsed (prerequisites_for parsed agent w) of
                                Some e \<Rightarrow> Inl (Rejected (Refused e))
                              | None \<Rightarrow>
                                  Inr \<lparr>cr_actor = actor, cr_parsed = parsed, cr_from = src, cr_decision = decision,
                                    cr_key = (if truthy_str (payload_key parsed) then the (payload_key parsed)
                                      else if truthy_str (lq_idempotencyHeader req) then the (lq_idempotencyHeader req)
                                      else action_name (payload_action parsed) @ '':'' @ src @ '':'' @ address)\<rparr>)))))"

section \<open>Effects\<close>

definition lifecycle_input :: "checked_request \<Rightarrow> string \<Rightarrow> string \<Rightarrow> string option \<Rightarrow> string \<Rightarrow> lifecycle_event_input" where
  "lifecycle_input cr i eventType jobId key =
     \<lparr>li_talosId = i, li_eventType = eventType, li_fromState = td_from (cr_decision cr), li_toState = td_to (cr_decision cr),
      li_actorId = actor_id (cr_actor cr), li_actorRole = hd (actor_roles (cr_actor cr)), li_jobId = jobId, li_stepName = None,
      li_detail = JObj [(''action'', JStr (action_name (payload_action (cr_parsed cr))))], li_idempotencyKey = Some key\<rparr>"

definition map_world :: "('w \<Rightarrow> 'w) \<Rightarrow> 'w prov_state \<Rightarrow> 'w prov_state" where
  "map_world f st = st\<lparr>ps_world := f (ps_world st)\<rparr>"

definition hand_over :: "lifecycle_env \<Rightarrow> checked_request \<Rightarrow> string \<Rightarrow> gov_world prov_state \<Rightarrow> gov_world prov_state \<times> lifecycle_reply" where
  "hand_over env cr i st =
     (case workflowFor (payload_action (cr_parsed cr)) (databaseEffects (lc_effects env)) of
        Inl e \<Rightarrow> (st, Rejected (Refused e))
      | Inr flow \<Rightarrow>
          (case submitProvisioningJob (lc_submitting env) (lc_newId env)
                  \<lparr>so_talosId = i, so_action = action_name (payload_action (cr_parsed cr)), so_requestedBy = actor_id (cr_actor cr),
                   so_idempotencyKey = cr_key cr, so_workflow = flow\<rparr> (ps_jobs st) of
             Inl e \<Rightarrow> (st\<lparr>ps_jobs := lc_submitting env (ps_jobs st)\<rparr>, Rejected (Refused e))
           | Inr (jobs, jobId, created) \<Rightarrow>
               (case emit_event (lc_run env) (lifecycle_input cr i
                        (if payload_action (cr_parsed cr) = Retire then ''agent.lifecycle.retiring''
                         else ''agent.lifecycle.provisioning_started'') (Some jobId) (jobId @ '':requested''))
                      (st\<lparr>ps_jobs := jobs\<rparr>) of
                  (st1, Inl e) \<Rightarrow> (st1, Rejected Crashed)
                | (st1, Inr _) \<Rightarrow>
                    (map_world (update_agents (\<lambda>a. tl_id a = i) (\<lambda>a. a\<lparr>tl_status := toLegacyStatus (td_to (cr_decision cr))\<rparr>)) st1,
                     Handed (td_to (cr_decision cr)) jobId created))))"

definition inline_event :: "lifecycle_state \<Rightarrow> string" where
  "inline_event dst =
     (if dst = Active then ''agent.lifecycle.activated'' else if dst = Paused then ''agent.lifecycle.paused''
      else if dst = RecoveryPending then ''agent.lifecycle.recovery_requested'' else ''agent.lifecycle.proposed'')"

definition cancels :: "lifecycle_payload \<Rightarrow> bool" where
  "cancels parsed \<longleftrightarrow> (case parsed of PPause p \<Rightarrow> pap_cancelPendingJobs p | _ \<Rightarrow> False)"

definition settle_inline :: "lifecycle_env \<Rightarrow> checked_request \<Rightarrow> string \<Rightarrow> gov_world prov_state \<Rightarrow> gov_world prov_state \<times> lifecycle_reply" where
  "settle_inline env cr i st =
     (let now = en_now (lc_run env); dst = td_to (cr_decision cr);
          st1 = (if cancels (cr_parsed cr)
                 then map_world (\<lambda>w. w\<lparr>gw_market := cancel_pending now i (gw_market w)\<rparr>) st else st);
          st2 = map_world (update_agents (\<lambda>a. tl_id a = i)
                  (\<lambda>a. a\<lparr>tl_status := toLegacyStatus dst, tl_agentOnline := (dst = Active), tl_agentLastSeen := Some now\<rparr>)) st1
      in case emit_event (lc_run env) (lifecycle_input cr i (inline_event dst) None (i @ '':'' @ cr_key cr)) st2 of
           (st3, Inl e) \<Rightarrow> (st3, Rejected Crashed)
         | (st3, Inr _) \<Rightarrow> (st3, Settled dst))"

definition lifecycle_post :: "lifecycle_env \<Rightarrow> lifecycle_request \<Rightarrow> string \<Rightarrow> gov_world prov_state \<Rightarrow> gov_world prov_state \<times> lifecycle_reply" where
  "lifecycle_post env req i st =
     (case check_request (lc_ed25519 env) req i (ps_world st) of
        Inl reply \<Rightarrow> (st, reply)
      | Inr cr \<Rightarrow> if td_durable (cr_decision cr) then hand_over env cr i st else settle_inline env cr i st)"

section \<open>The polled view\<close>

text \<open>\<open>None\<close>: 400.\<close>

definition parseLimit :: "string option \<Rightarrow> int \<Rightarrow> int \<Rightarrow> int option" where
  "parseLimit raw defaultLimit maxLimit =
     (case raw of
        None \<Rightarrow> Some defaultLimit
      | Some s \<Rightarrow>
          if s = [] \<or> \<not> list_all digit s then None
          else let n = int (digits_value 0 s) in if n = 0 then None else Some (min n maxLimit))"

record lifecycle_view =
  vw_state :: "lifecycle_state option"
  vw_allowedActions :: "lifecycle_action list"
  vw_viewerRoles :: "governance_role list"
  vw_inFlightJobs :: int
  vw_events :: event_log
  vw_nextCursor :: "int option"

definition lifecycle_get :: "string option \<Rightarrow> string option \<Rightarrow> string option \<Rightarrow> string \<Rightarrow> gov_world prov_state \<Rightarrow> http_error + lifecycle_view" where
  "lifecycle_get viewer limit_param before_param i st =
     (case loadAgent i (ps_world st) of
        None \<Rightarrow> Inl (404, ''TALOS not found'')
      | Some agent \<Rightarrow>
          let state = toLifecycleState (Some (tl_status agent));
              roles = (if truthy_str viewer then rolesFor (the viewer) agent else [])
          in (case parseLimit limit_param 25 100 of
                None \<Rightarrow> Inl (400, ''limit must be a positive integer'')
              | Some limit \<Rightarrow>
                  let before = (if truthy_str before_param then js_parseInt (the before_param) else None);
                      (events, cursor) = readLifecycleEvents i (Some limit)
                        (case before of Some n \<Rightarrow> if n > 0 then Some n else None | None \<Rightarrow> None) (ps_log st)
                  in Inr \<lparr>vw_state = state,
                       vw_allowedActions = (case state of
                          Some s \<Rightarrow> if roles \<noteq> [] then allowedActions s \<lparr>actor_id = the viewer, actor_roles = roles\<rparr> else []
                        | None \<Rightarrow> []),
                       vw_viewerRoles = roles, vw_inFlightJobs = in_flight_jobs i (ps_world st),
                       vw_events = events, vw_nextCursor = cursor\<rparr>))"

end
