(* ===== verification/Provisioning_Effects_Facts.thy ===== *)
theory Provisioning_Effects_Facts
  imports Provisioning_Effects Provisioning_Facts
begin

text \<open>
  What a provisioning run does to the marketplace: a run that reports success has done each step that
  was still open exactly once and in order; a completed activation leaves an agent that can work and be
  paid; what compensation and retirement really undo.
\<close>

section \<open>A completed run is the sequence of its steps\<close>

text \<open>The specification of a run, without leases, records and log: every step that is not completed
  yet runs on the outputs so far.\<close>

definition run_context :: "prov_job \<Rightarrow> string \<Rightarrow> step_outputs \<Rightarrow> step_context" where
  "run_context job key outputs =
     \<lparr>sx_jobId = pj_id job, sx_talosId = pj_talosId job, sx_action = pj_action job,
      sx_idempotencyKey = key, sx_outputs = outputs\<rparr>"

fun run_forward :: "prov_job \<Rightarrow> 'w step_definition list \<Rightarrow> step_record list \<Rightarrow> step_outputs \<Rightarrow> 'w \<Rightarrow> 'w option" where
  "run_forward job [] rs outputs w = Some w"
| "run_forward job (d # ds) [] outputs w = None"
| "run_forward job (d # ds) (r # rs) outputs w =
     (if sr_status r = SCompleted then run_forward job ds rs (set_output (sr_name r) (sr_output r) outputs) w
      else case sd_run d (run_context job (sr_idempotencyKey r) outputs) w of
             (w', Inl e) \<Rightarrow> None
           | (w', Inr output) \<Rightarrow> run_forward job ds rs (set_output (sr_name r) (Some output) outputs) w')"

lemma run_context_fields:
  "sx_talosId (run_context job key outputs) = pj_talosId job" "sx_outputs (run_context job key outputs) = outputs"
  by (simp_all add: run_context_def)

lemma failed_not_completed:
  "step_failed env job flow i err outputs st steps = (st', Inr res) \<Longrightarrow> rr_status res \<noteq> PvCompleted"
  by (auto simp: step_failed_def Let_def and_then_def split: prod.splits sum.splits if_splits)

lemma emit_world: "emit_event env inp s = (s', r) \<Longrightarrow> ps_world s' = ps_world s"
  by (auto simp: emit_event_def split: sum.splits if_splits)

lemma run_steps_forward:
  assumes "run_steps env job flow worker token i ds outputs st steps = (st', Inr res)"
    and "rr_status res = PvCompleted"
  shows "run_forward job ds (drop i steps) outputs (ps_world st) = Some (ps_world st')"
  using assms(1)
proof (induction ds arbitrary: i outputs st steps)
  case Nil
  then show ?case
    by (auto simp: run_finished_def Let_def and_then_def save_def split: prod.splits sum.splits dest: emit_world)
next
  case (Cons d ds)
  let ?r = "steps ! i"
  have i: "i < length steps" using Cons.prems by (auto split: if_splits)
  then have drop: "drop i steps = ?r # drop (Suc i) steps" by (simp add: Cons_nth_drop_Suc)
  show ?case
  proof (cases "sr_status ?r = SCompleted")
    case True
    then show ?thesis using Cons.IH [of "Suc i"] Cons.prems i drop by (simp add: Let_def)
  next
    case False
    have no_fail: "step_failed env job flow i err outputs2 st2 steps2 \<noteq> (st', Inr res)" for err outputs2 st2 steps2
      using failed_not_completed assms(2) by blast
    obtain w' outcome where run: "sd_run d (run_context job (sr_idempotencyKey ?r) outputs) (ps_world st) = (w', outcome)"
      by fastforce
    note open_step = Cons.prems i False run no_fail
    have "\<exists>out st4 steps2. outcome = Inr out \<and>
        run_steps env job flow worker token (Suc i) ds (set_output (sr_name ?r) (Some out) outputs) st4 steps2 = (st', Inr res) \<and>
        ps_world st4 = w' \<and> drop (Suc i) steps2 = drop (Suc i) steps"
      using open_step
      by (auto simp: Let_def run_context_def save_def split: prod.splits sum.splits if_splits dest!: emit_world)
         (intro exI conjI, assumption, simp_all)
    then show ?thesis
      using Cons.IH [of "Suc i"] False run drop by force
  qed
qed

lemma run_success_forward:
  assumes "runProvisioningJob env i flow worker token st = (st', Inr res)" "rr_status res = PvCompleted"
    and "loadJob i (ps_jobs st) = Some job" "pj_status job \<noteq> PvCompleted"
  defines "steps \<equiv> (if pj_steps job \<noteq> [] then pj_steps job else initialSteps i flow)"
  shows "run_forward job (wf_steps flow) steps (completed_outputs steps) (ps_world st) = Some (ps_world st')"
proof -
  have "pj_status job \<notin> {PvCompleted, PvFailed, PvCompensated}" using assms(1-4)
    by (auto simp: runProvisioningJob_def)
  then obtain st1 where "ps_world st1 = ps_world st"
    "run_steps env job flow worker token 0 (wf_steps flow) (completed_outputs steps) st1 steps = (st', Inr res)"
    using assms(1,3) by (auto simp: steps_def runProvisioningJob_def and_then_def Let_def split: prod.splits sum.splits dest: emit_world)
  then show ?thesis using run_steps_forward [OF _ assms(2)] by fastforce
qed

text \<open>C35.
  A run that reports success has done exactly its open steps: whatever leases, records and log entries
  it wrote on the way, its effect on the world is that of running the steps which were not completed
  before, in order, each once, on the outputs of the steps before it.\<close>

theorem completed_run_refines:
  assumes "runProvisioningJob env i flow worker token st = (st', Inr res)" "rr_status res = PvCompleted"
    and "loadJob i (ps_jobs st) = Some job" "pj_status job \<noteq> PvCompleted"
    and "steps = (if pj_steps job \<noteq> [] then pj_steps job else initialSteps i flow)"
  shows "run_forward job (wf_steps flow) steps (completed_outputs steps) (ps_world st) = Some (ps_world st')"
  using run_success_forward [OF assms(1-4)] assms(5) by simp

section \<open>Activation\<close>

text \<open>What of the world an agent's run is about: its own row and its services.\<close>

definition agent_services :: "string \<Rightarrow> gov_world \<Rightarrow> service list" where
  "agent_services i w = sel (\<lambda>s. sv_talosId s = i) (mk_services (gw_market w))"

text \<open>Other requests leave it alone between the statements of an effect.\<close>

definition undisturbed :: "string \<Rightarrow> effect_env \<Rightarrow> bool" where
  "undisturbed i env \<longleftrightarrow> (\<forall>n w. loadAgent i (fx_meanwhile env n w) = loadAgent i w \<and>
     agent_services i (fx_meanwhile env n w) = agent_services i w)"

lemma load_update:
  assumes "\<And>a. tl_id (f a) = tl_id a"
  shows "loadAgent i (update_agents (\<lambda>a. tl_id a = i \<and> Q a) f w) = map_option (\<lambda>a. if Q a then f a else a) (loadAgent i w)"
    "loadAgent i (update_agents (\<lambda>a. tl_id a = i) f w) = map_option f (loadAgent i w)"
proof -
  have "List.find (\<lambda>a. tl_id a = i) (upd (\<lambda>a. tl_id a = i \<and> R a) f t) =
      map_option (\<lambda>a. if R a then f a else a) (List.find (\<lambda>a. tl_id a = i) t)" for R t
    using assms by (induction t) auto
  from this [of Q] this [of "\<lambda>_. True"] show
    "loadAgent i (update_agents (\<lambda>a. tl_id a = i \<and> Q a) f w) = map_option (\<lambda>a. if Q a then f a else a) (loadAgent i w)"
    "loadAgent i (update_agents (\<lambda>a. tl_id a = i) f w) = map_option f (loadAgent i w)"
    by (simp_all add: loadAgent_def update_agents_def)
qed

lemma load_frame [simp]:
  "loadAgent i (update_services P f w) = loadAgent i w" "loadAgent i (w\<lparr>gw_drawn := n\<rparr>) = loadAgent i w"
  "loadAgent i (w\<lparr>gw_market := m\<rparr>) = loadAgent i w"
  by (simp_all add: loadAgent_def update_services_def)

lemma services_frame [simp]:
  "agent_services i (update_agents P g w) = agent_services i w" "agent_services i (w\<lparr>gw_drawn := n\<rparr>) = agent_services i w"
  by (simp_all add: agent_services_def update_agents_def)

lemma services_update:
  assumes "\<And>s. sv_talosId (f s) = sv_talosId s"
  shows "agent_services i (update_services (\<lambda>s. sv_talosId s = i) f w) = map f (agent_services i w)"
proof -
  have "filter (\<lambda>s. sv_talosId s = i) (upd (\<lambda>s. sv_talosId s = i) f t) = map f (filter (\<lambda>s. sv_talosId s = i) t)" for t
    using assms by (induction t) auto
  then show ?thesis by (simp add: agent_services_def update_services_def)
qed

lemma createWallet_effect:
  assumes "createWallet env ctx w = (w', Inr out)" "undisturbed (sx_talosId ctx) env"
  obtains a a' p where "loadAgent (sx_talosId ctx) w = Some a" "loadAgent (sx_talosId ctx) w' = Some a'"
    "out = JObj [(''walletPublicKey'', JStr p), (''reused'', JBool (truthy_str (tl_agentWalletId a)))]"
    "tl_agentWalletId a' = Some p" "truthy_str (tl_agentWalletId a) \<Longrightarrow> a' = a"
    "tl_apiKey a' = tl_apiKey a" "agent_services (sx_talosId ctx) w' = agent_services (sx_talosId ctx) w"
proof (cases "loadAgent (sx_talosId ctx) w")
  case None
  then show ?thesis using assms(1) by (simp add: createWallet_def)
next
  case (Some a)
  show ?thesis
  proof (cases "truthy_str (tl_agentWalletId a)")
    case True
    then have "w' = w" "out = JObj [(''walletPublicKey'', JStr (the (tl_agentWalletId a))), (''reused'', JBool True)]"
      "tl_agentWalletId a = Some (the (tl_agentWalletId a))"
      using assms(1) Some by (auto simp: createWallet_def truthy_str_def split: option.splits)
    then show ?thesis using Some True by (intro that [of a a "the (tl_agentWalletId a)"]) simp_all
  next
    case False
    let ?a = "if tl_agentWalletId a = None
        then a\<lparr>tl_agentWalletId := Some (fx_publicKey env (gw_drawn w)), tl_agentWalletAddress := Some (fx_publicKey env (gw_drawn w))\<rparr>
        else a"
    have quiet: "loadAgent (sx_talosId ctx) (fx_meanwhile env n v) = loadAgent (sx_talosId ctx) v"
      "agent_services (sx_talosId ctx) (fx_meanwhile env n v) = agent_services (sx_talosId ctx) v" for n v
      using assms(2) by (simp_all add: undisturbed_def)
    have "loadAgent (sx_talosId ctx) w' = Some ?a" "agent_services (sx_talosId ctx) w' = agent_services (sx_talosId ctx) w"
      "out = JObj [(''walletPublicKey'', JStr (coalesce (tl_agentWalletId ?a) (fx_publicKey env (gw_drawn w)))), (''reused'', JBool False)]"
      using assms(1) Some False by (auto simp: createWallet_def Let_def quiet load_update)
    then show ?thesis using Some False
      by (intro that [of a ?a "coalesce (tl_agentWalletId ?a) (fx_publicKey env (gw_drawn w))"]) (auto simp: coalesce_def)
  qed
qed

lemma issueCredentials_effect:
  assumes "issueCredentials env ctx w = (w', Inr out)" "undisturbed (sx_talosId ctx) env"
    and "loadAgent (sx_talosId ctx) w = Some a"
  obtains k where "truthy_str (Some k)" "loadAgent (sx_talosId ctx) w' = Some (a\<lparr>tl_apiKey := Some k\<rparr>)"
    "truthy_str (tl_apiKey a) \<Longrightarrow> tl_apiKey a = Some k" "agent_services (sx_talosId ctx) w' = agent_services (sx_talosId ctx) w"
proof (cases "truthy_str (tl_apiKey a)")
  case True
  then obtain k where k: "tl_apiKey a = Some k" by (auto simp: truthy_str_def split: option.splits)
  have "w' = w" using assms(1,3) True by (simp add: issueCredentials_def)
  then show ?thesis using True assms(3) k by (intro that [of k]) simp_all
next
  case False
  have quiet: "loadAgent (sx_talosId ctx) (fx_meanwhile env n v) = loadAgent (sx_talosId ctx) v"
    "agent_services (sx_talosId ctx) (fx_meanwhile env n v) = agent_services (sx_talosId ctx) v" for n v
    using assms(2) by (simp_all add: undisturbed_def)
  show ?thesis using assms(1,3) False
    by (intro that [of "''tak_'' @ fx_secretHex env (gw_drawn w)"])
       (auto simp: issueCredentials_def Let_def quiet load_update truthy_str_def)
qed

lemma registerServices_effect:
  assumes "registerServices env ctx w = (w', Inr out)" "undisturbed (sx_talosId ctx) env"
  obtains p where "output_field (sx_outputs ctx) ''wallet'' ''walletPublicKey'' = Some (JStr p)" "p \<noteq> []"
    "loadAgent (sx_talosId ctx) w' = loadAgent (sx_talosId ctx) w"
    "agent_services (sx_talosId ctx) w' = map (\<lambda>s. s\<lparr>sv_stellarPublicKey := p\<rparr>) (agent_services (sx_talosId ctx) w)"
  using assms
  by (auto simp: registerServices_def undisturbed_def Let_def services_update split: option.splits json.splits if_splits)

lemma startRuntime_effect:
  assumes "loadAgent (sx_talosId ctx) w = Some a"
  shows "loadAgent (sx_talosId ctx) (fst (startRuntime env ctx w)) =
      Some (a\<lparr>tl_status := ''Active'', tl_agentOnline := True, tl_agentLastSeen := Some (fx_now env)\<rparr>)"
    "agent_services (sx_talosId ctx) (fst (startRuntime env ctx w)) = agent_services (sx_talosId ctx) w"
  using assms by (simp_all add: startRuntime_def load_update)

abbreviation activation :: "effect_env \<Rightarrow> gov_world workflow" where
  "activation env \<equiv> buildActivationWorkflow (databaseEffects env)"

lemma activation_forward:
  assumes "run_forward job (wf_steps (activation env)) (initialSteps i (activation env)) [] w = Some w'"
    and "undisturbed (pj_talosId job) env"
  shows "\<exists>a a' p k. loadAgent (pj_talosId job) w = Some a \<and> loadAgent (pj_talosId job) w' = Some a' \<and>
    tl_agentWalletId a' = Some p \<and> p \<noteq> [] \<and> tl_apiKey a' = Some k \<and> k \<noteq> [] \<and>
    tl_status a' = ''Active'' \<and> tl_agentOnline a' \<and>
    (truthy_str (tl_agentWalletId a) \<longrightarrow> tl_agentWalletId a' = tl_agentWalletId a) \<and>
    (truthy_str (tl_apiKey a) \<longrightarrow> tl_apiKey a' = tl_apiKey a) \<and>
    agent_services (pj_talosId job) w' = map (\<lambda>s. s\<lparr>sv_stellarPublicKey := p\<rparr>) (agent_services (pj_talosId job) w)"
proof -
  let ?t = "pj_talosId job"
  let ?ctx = "\<lambda>n outs. run_context job (i @ '':'' @ n) outs"
  obtain w1 o1 w2 o2 w3 o3 where
    c1: "createWallet env (?ctx ''wallet'' []) w = (w1, Inr o1)" and
    c2: "issueCredentials env (?ctx ''credentials'' [(''wallet'', Some o1)]) w1 = (w2, Inr o2)" and
    c3: "registerServices env (?ctx ''services'' [(''wallet'', Some o1), (''credentials'', Some o2)]) w2 = (w3, Inr o3)" and
    c4: "w' = fst (startRuntime env (?ctx ''runtime'' [(''wallet'', Some o1), (''credentials'', Some o2), (''services'', Some o3)]) w3)"
    using assms(1)
    by (auto simp: buildActivationWorkflow_def databaseEffects_def workflow_step_def initialSteps_def startRuntime_def
        split: prod.splits sum.splits)
  obtain a a1 p where a: "loadAgent ?t w = Some a" "loadAgent ?t w1 = Some a1" "tl_agentWalletId a1 = Some p"
    "o1 = JObj [(''walletPublicKey'', JStr p), (''reused'', JBool (truthy_str (tl_agentWalletId a)))]"
    "truthy_str (tl_agentWalletId a) \<Longrightarrow> a1 = a" "tl_apiKey a1 = tl_apiKey a" "agent_services ?t w1 = agent_services ?t w"
    by (rule createWallet_effect [OF c1, unfolded run_context_fields, OF assms(2)]) blast
  obtain k where k: "truthy_str (Some k)" "loadAgent ?t w2 = Some (a1\<lparr>tl_apiKey := Some k\<rparr>)"
    "truthy_str (tl_apiKey a1) \<Longrightarrow> tl_apiKey a1 = Some k" "agent_services ?t w2 = agent_services ?t w1"
    by (rule issueCredentials_effect [OF c2, unfolded run_context_fields, OF assms(2) a(2)]) blast
  obtain q where q: "output_field [(''wallet'', Some o1), (''credentials'', Some o2)] ''wallet'' ''walletPublicKey'' = Some (JStr q)"
    "q \<noteq> []" "loadAgent ?t w3 = loadAgent ?t w2"
    "agent_services ?t w3 = map (\<lambda>s. s\<lparr>sv_stellarPublicKey := q\<rparr>) (agent_services ?t w2)"
    by (rule registerServices_effect [OF c3, unfolded run_context_fields, OF assms(2)]) blast
  have "q = p" using q(1) by (simp add: output_field_def a(4))
  then show ?thesis
    using a k q startRuntime_effect [of "?ctx ''runtime'' [(''wallet'', Some o1), (''credentials'', Some o2), (''services'', Some o3)]" w3,
        unfolded run_context_fields]
    unfolding c4 by (auto simp: truthy_str_def)
qed

text \<open>C36.
  A fresh activation that reports success leaves an agent that can work and be paid: it exists, is
  active and online, holds a wallet and an API key, keeps the ones it already had, and all its services
  are paid to that wallet; nothing is reported done for an agent that does not exist.\<close>

theorem activation_delivers:
  assumes "runProvisioningJob env i (activation fx) worker token st = (st', Inr res)" "rr_status res = PvCompleted"
    and "loadJob i (ps_jobs st) = Some job" "pj_status job \<noteq> PvCompleted"
    and "pj_steps job \<in> {[], initialSteps i (activation fx)}" "undisturbed (pj_talosId job) fx"
  shows "\<exists>a a' p k. loadAgent (pj_talosId job) (ps_world st) = Some a \<and> loadAgent (pj_talosId job) (ps_world st') = Some a' \<and>
    tl_agentWalletId a' = Some p \<and> p \<noteq> [] \<and> tl_apiKey a' = Some k \<and> k \<noteq> [] \<and>
    tl_status a' = ''Active'' \<and> tl_agentOnline a' \<and>
    (truthy_str (tl_agentWalletId a) \<longrightarrow> tl_agentWalletId a' = tl_agentWalletId a) \<and>
    (truthy_str (tl_apiKey a) \<longrightarrow> tl_apiKey a' = tl_apiKey a) \<and>
    agent_services (pj_talosId job) (ps_world st') =
      map (\<lambda>s. s\<lparr>sv_stellarPublicKey := p\<rparr>) (agent_services (pj_talosId job) (ps_world st))"
proof -
  let ?steps = "initialSteps i (activation fx)"
  have "completed_outputs ?steps = []" "?steps \<noteq> []"
    by (simp_all add: completed_outputs_def initialSteps_def buildActivationWorkflow_def workflow_step_def)
  then have "run_forward job (wf_steps (activation fx)) ?steps [] (ps_world st) = Some (ps_world st')"
    using run_success_forward [OF assms(1-4)] assms(5) by (auto split: if_splits)
  then show ?thesis using activation_forward assms(6) by blast
qed

section \<open>What compensation undoes\<close>

definition rows_of :: "string \<Rightarrow> gov_world \<Rightarrow> talos_row set" where
  "rows_of i w = {a \<in> set (gw_agents w). tl_id a = i}"

lemma rows_update: "(\<And>a. tl_id (f a) = tl_id a) \<Longrightarrow> rows_of i (update_agents (\<lambda>a. tl_id a = i) f w) = f ` rows_of i w"
  by (auto simp: rows_of_def update_agents_def set_upd)

lemma unwind_to_last:
  assumes "to_compensate (steps ! 0)"
  shows "unwind talosId jobId flow outputs steps (filter (\<lambda>i. to_compensate (steps ! i)) (rev [0..<Suc n])) w =
    fst (sd_compensate (wf_steps flow ! 0) (comp_context talosId jobId flow outputs (steps ! 0))
      (unwind talosId jobId flow outputs steps (filter (\<lambda>i. to_compensate (steps ! i)) (rev [1..<Suc n])) w))"
  using assms by (simp add: upt_conv_Cons unwind_def del: upt_Suc)

lemma unwind_to_second:
  assumes "to_compensate (steps ! 1)" "1 \<le> n"
  shows "unwind talosId jobId flow outputs steps (filter (\<lambda>i. to_compensate (steps ! i)) (rev [1..<Suc n])) w =
    fst (sd_compensate (wf_steps flow ! 1) (comp_context talosId jobId flow outputs (steps ! 1))
      (unwind talosId jobId flow outputs steps (filter (\<lambda>i. to_compensate (steps ! i)) (rev [2..<Suc n])) w))"
  using assms by (simp add: upt_conv_Cons unwind_def numeral_2_eq_2 del: upt_Suc)

text \<open>Compensating an activation takes the agent's wallet and key whether or not the run had created them:
  once the wallet step was completed, every row of the agent ends without a wallet, and if the
  credentials step was completed too, without an API key, whatever the steps' outputs say about reuse.\<close>

theorem compensation_takes_reused_keys:
  assumes "compensate env talosId jobId (activation fx) outputs n st steps = (st', Inr steps')" "n < length steps"
    and "sr_status (steps ! 0) = SCompleted" "a \<in> set (gw_agents (ps_world st'))" "tl_id a = talosId"
  shows "tl_agentWalletId a = None \<and> tl_agentWalletAddress a = None \<and>
    (1 \<le> n \<and> sr_status (steps ! 1) = SCompleted \<longrightarrow> tl_apiKey a = None)"
proof -
  obtain st1 st2 where loop: "ps_world st1 = ps_world st" "ps_world st' = ps_world st2"
    "compensate_loop talosId jobId (activation fx) outputs (rev [0..<Suc n]) (st1, steps) = (st2, steps')"
    using assms(1) by (auto simp: compensate_def and_then_def split: prod.splits sum.splits dest: emit_world)
  have "ps_world st' = unwind talosId jobId (activation fx) outputs steps
      (filter (\<lambda>i. to_compensate (steps ! i)) (rev [0..<Suc n])) (ps_world st)"
    using compensate_loop_exact [OF loop(3)] assms(2) loop(1,2) by simp
  then obtain w1 where w1: "ps_world st' = releaseWallet (comp_context talosId jobId (activation fx) outputs (steps ! 0)) w1"
    "w1 = unwind talosId jobId (activation fx) outputs steps (filter (\<lambda>i. to_compensate (steps ! i)) (rev [1..<Suc n])) (ps_world st)"
    using unwind_to_last [of steps talosId jobId "activation fx" outputs n] assms(3)
    by (simp add: to_compensate_def buildActivationWorkflow_def databaseEffects_def workflow_step_def)
  have ctx: "sx_talosId (comp_context talosId jobId (activation fx) outputs r) = talosId" for r by (simp add: comp_context_def)
  have "a \<in> rows_of talosId (ps_world st')" using assms(4,5) by (simp add: rows_of_def)
  then have "a \<in> (\<lambda>a. a\<lparr>tl_agentWalletId := None, tl_agentWalletAddress := None\<rparr>) ` rows_of talosId w1"
    unfolding w1(1) releaseWallet_def ctx by (subst (asm) rows_update) simp_all
  moreover have "tl_apiKey b = None" if "1 \<le> n" "sr_status (steps ! 1) = SCompleted" "b \<in> rows_of talosId w1" for b
  proof -
    note b = that
    obtain w2 where "w1 = revokeCredentials (comp_context talosId jobId (activation fx) outputs (steps ! 1)) w2"
      using unwind_to_second [of steps n talosId jobId "activation fx" outputs] b(1,2) w1(2)
      by (simp add: to_compensate_def buildActivationWorkflow_def databaseEffects_def workflow_step_def)
    then have "rows_of talosId w1 = (\<lambda>a. a\<lparr>tl_apiKey := None\<rparr>) ` rows_of talosId w2"
      by (simp add: revokeCredentials_def ctx rows_update)
    then show ?thesis using b(3) by auto
  qed
  ultimately show ?thesis by auto
qed

section \<open>Routing of the services\<close>

lemma restore_previous:
  "restore_service (previous_key s) w = update_services (\<lambda>x. sv_id x = sv_id s) (\<lambda>x. x\<lparr>sv_stellarPublicKey := sv_stellarPublicKey s\<rparr>) w"
  by (simp add: restore_service_def previous_key_def)

lemma restore_all:
  assumes "distinct (map sv_id t)" "set ss \<subseteq> set t"
    and "mk_services (gw_market w) = map (\<lambda>s. if P s then s\<lparr>sv_stellarPublicKey := k\<rparr> else s) t"
  shows "mk_services (gw_market (fold restore_service (map previous_key ss) w)) =
    map (\<lambda>s. if P s \<and> sv_id s \<notin> sv_id ` set ss then s\<lparr>sv_stellarPublicKey := k\<rparr> else s) t"
  using assms(2,3)
proof (induction ss arbitrary: w P)
  case (Cons s ss)
  let ?w = "restore_service (previous_key s) w"
  let ?P = "\<lambda>x. P x \<and> sv_id x \<noteq> sv_id s"
  have same: "x\<lparr>sv_stellarPublicKey := sv_stellarPublicKey s\<rparr> = x" if "x \<in> set t" "sv_id x = sv_id s" for x
    using distinct_key_unique [OF assms(1) that(1) _ that(2)] Cons.prems(1) by simp
  have "mk_services (gw_market ?w) = map (\<lambda>s. if ?P s then s\<lparr>sv_stellarPublicKey := k\<rparr> else s) t"
    using Cons.prems by (auto simp: restore_previous update_services_def upd_def intro: same)
  then show ?case using Cons.IH [of ?w ?P] Cons.prems(1) by (simp add: conj_assoc)
qed simp

lemma deregister_after_register:
  assumes "registerServices fx ctx w = (w', Inr out)" "distinct (map sv_id (mk_services (gw_market w)))"
    and "\<And>w. gw_market (fx_meanwhile fx 0 w) = gw_market w"
    and "map_of (sx_outputs ctx') ''services'' = Some (Some out)"
  shows "mk_services (gw_market (deregisterServices ctx' w')) = mk_services (gw_market w)"
proof -
  let ?t = "mk_services (gw_market w)"
  let ?mine = "filter (\<lambda>s. sv_talosId s = sx_talosId ctx) ?t"
  obtain k where k: "out = JObj [(''serviceCount'', JNum (int (length ?mine))), (''previousKeys'', JArr (map previous_key ?mine))]"
    "mk_services (gw_market w') = upd (\<lambda>s. sv_talosId s = sx_talosId ctx) (\<lambda>s. s\<lparr>sv_stellarPublicKey := k\<rparr>) ?t"
    using assms(1,3) by (auto simp: registerServices_def Let_def update_services_def split: option.splits json.splits if_splits)
  have dereg: "deregisterServices ctx' w' = fold restore_service (map previous_key ?mine) w'"
    using assms(4) by (simp add: deregisterServices_def output_field_def k(1))
  have "mk_services (gw_market (fold restore_service (map previous_key ?mine) w')) =
      map (\<lambda>s. if sv_talosId s = sx_talosId ctx \<and> sv_id s \<notin> sv_id ` set ?mine then s\<lparr>sv_stellarPublicKey := k\<rparr> else s) ?t"
    by (rule restore_all [OF assms(2)]) (auto simp: k(2) upd_def)
  also have "\<dots> = ?t" by (auto intro!: map_idI)
  finally show ?thesis by (simp add: dereg)
qed

text \<open>Deregistering with the output of a registration restores the service table exactly, as long as
  nothing else changed it.\<close>

theorem services_restored:
  assumes "registerServices fx ctx w = (w', Inr out)" "distinct (map sv_id (mk_services (gw_market w)))"
    and "\<And>w. gw_market (fx_meanwhile fx 0 w) = gw_market w"
    and "map_of (sx_outputs ctx') ''services'' = Some (Some out)"
  shows "mk_services (gw_market (deregisterServices ctx' w')) = mk_services (gw_market w)"
  using assms by (rule deregister_after_register)

text \<open>A registration that is repeated, as an ambiguous failure makes it, has forgotten the former keys:
  undoing it leaves the services routed to the new wallet.\<close>

lemma repeated_registration_forgets:
  assumes "registerServices fx ctx w = (w1, Inr out1)" "registerServices fx ctx w1 = (w2, Inr out2)"
    and "distinct (map sv_id (mk_services (gw_market w1)))" "\<And>w. gw_market (fx_meanwhile fx 0 w) = gw_market w"
    and "output_field (sx_outputs ctx) ''wallet'' ''walletPublicKey'' = Some (JStr p)"
    and "map_of (sx_outputs ctx') ''services'' = Some (Some out2)"
  shows "\<forall>s \<in> set (mk_services (gw_market (deregisterServices ctx' w2))).
    sv_talosId s = sx_talosId ctx \<longrightarrow> sv_stellarPublicKey s = p"
  using assms(1,4,5) deregister_after_register [OF assms(2,3,4,6)]
  by (auto simp: registerServices_def Let_def update_services_def set_upd split: if_splits)

section \<open>Stopping and retiring\<close>

abbreviation retirement :: "effect_env \<Rightarrow> gov_world workflow" where
  "retirement env \<equiv> buildRetirementWorkflow (databaseEffects env)"

lemma cancel_pending_jobs:
  "mk_jobs (cancel_pending now i m) = upd (\<lambda>j. mj_talosId j = i \<and> mj_status j = ''pending'')
     (\<lambda>j. j\<lparr>mj_status := ''cancelled'', mj_leasedBy := None, mj_leasedAt := None, mj_leaseExpiresAt := None,
        mj_updatedAt := now\<rparr>) (mk_jobs m)"
  "mk_services (cancel_pending now i m) = mk_services m" "mk_revenues (cancel_pending now i m) = mk_revenues m"
  by (simp_all add: cancel_pending_def update_jobs_def upd_returning_def)

lemma no_pending_left:
  "j \<in> set (mk_jobs (cancel_pending now i m)) \<Longrightarrow> mj_talosId j = i \<Longrightarrow> mj_status j \<noteq> ''pending''"
  unfolding cancel_pending_jobs(1) by (elim in_updE) auto

text \<open>A completed retirement run takes the agent offline, cancels its pending jobs and clears its legacy key,
  and that is all: its status, its wallet and the routing of its services stay as they were, because
  the run has no registration whose keys it could restore.\<close>

theorem retirement_outcome:
  assumes "runProvisioningJob env i (retirement fx) worker token st = (st', Inr res)" "rr_status res = PvCompleted"
    and "loadJob i (ps_jobs st) = Some job" "pj_status job \<noteq> PvCompleted"
    and "pj_steps job \<in> {[], initialSteps i (retirement fx)}" "undisturbed (pj_talosId job) fx"
  shows "loadAgent (pj_talosId job) (ps_world st') =
      map_option (\<lambda>a. a\<lparr>tl_agentOnline := False, tl_agentLastSeen := Some (fx_now fx), tl_apiKey := None\<rparr>)
        (loadAgent (pj_talosId job) (ps_world st)) \<and>
    agent_services (pj_talosId job) (ps_world st') = agent_services (pj_talosId job) (ps_world st) \<and>
    (\<forall>j \<in> set (mk_jobs (gw_market (ps_world st'))). mj_talosId j = pj_talosId job \<longrightarrow> mj_status j \<noteq> ''pending'')"
proof -
  let ?steps = "initialSteps i (retirement fx)" and ?t = "pj_talosId job"
  have "completed_outputs ?steps = []" "?steps \<noteq> []"
    by (simp_all add: completed_outputs_def initialSteps_def buildRetirementWorkflow_def workflow_step_def)
  then have "run_forward job (wf_steps (retirement fx)) ?steps [] (ps_world st) = Some (ps_world st')"
    using run_success_forward [OF assms(1-4)] assms(5) by (auto split: if_splits)
  then have run: "ps_world st' = revokeCredentials (run_context job (i @ '':credentials'')
        [(''runtime'', Some (JObj [(''stopped'', JBool True)])), (''services'', Some (JObj [(''deregistered'', JBool True)]))])
      (stopRuntime fx (run_context job (i @ '':runtime'') []) (ps_world st))"
    by (simp add: buildRetirementWorkflow_def databaseEffects_def workflow_step_def initialSteps_def then_flag_def
        deregisterServices_def output_field_def run_context_fields)
  have quiet: "loadAgent ?t (fx_meanwhile fx n v) = loadAgent ?t v" "agent_services ?t (fx_meanwhile fx n v) = agent_services ?t v" for n v
    using assms(6) by (simp_all add: undisturbed_def)
  have stop: "loadAgent ?t (stopRuntime fx (run_context job k outs) w) =
      map_option (\<lambda>a. a\<lparr>tl_agentOnline := False, tl_agentLastSeen := Some (fx_now fx)\<rparr>) (loadAgent ?t w)"
    "agent_services ?t (stopRuntime fx (run_context job k outs) w) = agent_services ?t w"
    "\<forall>j \<in> set (mk_jobs (gw_market (stopRuntime fx (run_context job k outs) w))). mj_talosId j = ?t \<longrightarrow> mj_status j \<noteq> ''pending''"
    for k outs w
  proof -
    show "loadAgent ?t (stopRuntime fx (run_context job k outs) w) =
        map_option (\<lambda>a. a\<lparr>tl_agentOnline := False, tl_agentLastSeen := Some (fx_now fx)\<rparr>) (loadAgent ?t w)"
      by (simp add: stopRuntime_def Let_def run_context_fields quiet load_update)
    show "agent_services ?t (stopRuntime fx (run_context job k outs) w) = agent_services ?t w"
      using quiet(2) services_frame(1) by (simp add: stopRuntime_def Let_def run_context_fields agent_services_def cancel_pending_jobs)
    show "\<forall>j \<in> set (mk_jobs (gw_market (stopRuntime fx (run_context job k outs) w))). mj_talosId j = ?t \<longrightarrow> mj_status j \<noteq> ''pending''"
      by (auto simp: stopRuntime_def Let_def run_context_fields dest: no_pending_left)
  qed
  show ?thesis
    using stop by (auto simp: run revokeCredentials_def run_context_fields load_update map_option_case split: option.splits)
      (auto simp: update_agents_def)
qed

text \<open>Stopping an agent's runtime cancels also the jobs a worker is holding a lease on: whatever token the
  worker presents afterwards, its result is refused and nothing is booked for it.\<close>

theorem stopped_work_is_refused:
  assumes "distinct (map mj_id (mk_jobs m))" "j \<in> set (mk_jobs m)" "mj_talosId j = i" "mj_status j = ''pending''"
    and "submit_result ledger id now (Inr caller) result token (mj_id j) (cancel_pending stopped i m) = (m', reply)"
  shows "(\<exists>e. reply = Inl e) \<and> mk_revenues m' = mk_revenues m \<and>
    (\<exists>j' \<in> set (mk_jobs m'). mj_id j' = mj_id j \<and> mj_status j' = ''cancelled'' \<and> mj_leasedBy j' = None)"
proof -
  let ?m = "cancel_pending stopped i m"
  let ?j = "j\<lparr>mj_status := ''cancelled'', mj_leasedBy := None, mj_leasedAt := None, mj_leaseExpiresAt := None, mj_updatedAt := stopped\<rparr>"
  have j: "?j \<in> set (mk_jobs ?m)" using assms(2-4) by (auto simp: cancel_pending_jobs set_upd)
  have ids: "distinct (map mj_id (mk_jobs ?m))" unfolding cancel_pending_jobs(1) by (rule distinct_upd_key [OF assms(1)]) simp
  have only: "x = ?j" if "x \<in> set (mk_jobs ?m)" "mj_id x = mj_id j" for x
    using distinct_key_unique [OF ids that(1) j] that(2) by simp
  have "\<not> (mj_id x = mj_id j \<and> mj_status x = ''pending'')" if "x \<in> set (mk_jobs ?m)" for x
    using only [OF that] by auto
  then have tx: "result_transaction ledger now job r tk ?m = Inr (?m, None)" if "mj_id job = mj_id j" for job r tk
    by (simp add: result_transaction_def update_jobs_def upd_returning_none that)
  have "m' = ?m \<and> (\<exists>e. reply = Inl e)"
  proof (cases "find_market_job (mj_id j) ?m")
    case None
    then show ?thesis using assms(5) by (auto simp: submit_result_def split: if_splits)
  next
    case (Some job)
    then show ?thesis using assms(5) tx [of job] find_market_job_Some [OF Some]
      by (auto simp: submit_result_def Let_def split: if_splits)
  qed
  then show ?thesis using j by (intro conjI bexI [of _ ?j]) (simp_all add: cancel_pending_jobs(3))
qed

section \<open>One agent, activated and retired\<close>

definition gov_agent :: talos_row where
  "gov_agent = sample_talos\<lparr>tl_id := ''a1'', tl_status := ''Paused'', tl_apiKey := None, tl_agentOnline := False,
     tl_creatorPublicKey := Some ''GC'', tl_treasuryPublicKey := Some ''GT''\<rparr>"

definition gov_service :: service where
  "gov_service = \<lparr>sv_id = ''s1'', sv_talosId = ''a1'', sv_stellarPublicKey = ''GC'', sv_currency = ''USDC''\<rparr>"

definition gov_job :: market_job where
  "gov_job = \<lparr>mj_id = ''j1'', mj_talosId = ''a1'', mj_requesterTalosId = ''a2'', mj_payload = JNull, mj_result = JNull,
     mj_status = ''pending'', mj_txHash = None, mj_amount = ''5'', mj_leasedBy = Some ''a1'', mj_leasedAt = Some 10,
     mj_leaseExpiresAt = Some 90, mj_fencingToken = 1, mj_createdAt = 1, mj_updatedAt = 10\<rparr>"

definition gov_start :: gov_world where
  "gov_start = \<lparr>gw_agents = [gov_agent], gw_market = \<lparr>mk_agents = [], mk_services = [gov_service], mk_jobs = [gov_job],
     mk_revenues = [], mk_inputs = []\<rparr>, gw_approvals = [], gw_drawn = 0\<rparr>"

definition gov_env :: effect_env where
  "gov_env = \<lparr>fx_publicKey = (\<lambda>n. ''GA''), fx_secretHex = (\<lambda>n. ''ff''), fx_now = 50, fx_meanwhile = (\<lambda>n w. w)\<rparr>"

definition gov_run :: "gov_world prov_state" where
  "gov_run = \<lparr>ps_jobs = [sample_prov\<lparr>pj_status := PvRunning, pj_leasedBy := Some ''w1'', pj_leaseExpiresAt := Some 100,
     pj_fencingToken := 1, pj_steps := []\<rparr>], ps_log = [], ps_world = gov_start\<rparr>"

lemma gov_run_succeeds:
  "case runProvisioningJob quiet_env ''p1'' (activation gov_env) ''w1'' 1 gov_run of
     (st', Inr res) \<Rightarrow> rr_status res = PvCompleted | _ \<Rightarrow> False"
  by code_simp

lemma gov_retirement_succeeds:
  "case runProvisioningJob quiet_env ''p1'' (retirement gov_env) ''w1'' 1 gov_run of
     (st', Inr res) \<Rightarrow> rr_status res = PvCompleted | _ \<Rightarrow> False"
  by code_simp

lemma gov_job_found: "loadJob ''p1'' (ps_jobs gov_run) = Some (hd (ps_jobs gov_run))"
  "pj_status (hd (ps_jobs gov_run)) \<noteq> PvCompleted" "pj_steps (hd (ps_jobs gov_run)) = []"
  "pj_talosId (hd (ps_jobs gov_run)) = ''a1''" "undisturbed t gov_env"
  by (simp_all add: loadJob_def gov_run_def sample_prov_def undisturbed_def gov_env_def)

theorem completed_run_refines_witness:
  "\<exists>st' res. runProvisioningJob quiet_env ''p1'' (activation gov_env) ''w1'' 1 gov_run = (st', Inr res) \<and>
     run_forward (hd (ps_jobs gov_run)) (wf_steps (activation gov_env)) (initialSteps ''p1'' (activation gov_env)) [] gov_start = Some (ps_world st')"
proof -
  obtain st' res where run: "runProvisioningJob quiet_env ''p1'' (activation gov_env) ''w1'' 1 gov_run = (st', Inr res)"
    "rr_status res = PvCompleted" using gov_run_succeeds by (auto split: prod.splits sum.splits)
  have "completed_outputs (initialSteps ''p1'' (activation gov_env)) = []" "ps_world gov_run = gov_start"
    by (simp_all add: completed_outputs_def initialSteps_def buildActivationWorkflow_def workflow_step_def gov_run_def)
  then show ?thesis using run completed_run_refines [OF run gov_job_found(1,2) refl] gov_job_found(3) by simp
qed

theorem activation_delivers_witness:
  "\<exists>st' res a'. runProvisioningJob quiet_env ''p1'' (activation gov_env) ''w1'' 1 gov_run = (st', Inr res) \<and>
     loadAgent ''a1'' (ps_world st') = Some a' \<and> tl_agentOnline a' \<and> tl_agentWalletId a' \<noteq> None"
proof -
  obtain st' res where run: "runProvisioningJob quiet_env ''p1'' (activation gov_env) ''w1'' 1 gov_run = (st', Inr res)"
    "rr_status res = PvCompleted" using gov_run_succeeds by (auto split: prod.splits sum.splits)
  from activation_delivers [OF run gov_job_found(1,2) _ gov_job_found(5)] show ?thesis
    using run(1) by (auto simp: gov_job_found(3,4))
qed

theorem retirement_outcome_witness:
  "\<exists>st' res a'. runProvisioningJob quiet_env ''p1'' (retirement gov_env) ''w1'' 1 gov_run = (st', Inr res) \<and>
     loadAgent ''a1'' (ps_world st') = Some a' \<and> tl_status a' = ''Paused'' \<and> \<not> tl_agentOnline a'"
proof -
  obtain st' res where run: "runProvisioningJob quiet_env ''p1'' (retirement gov_env) ''w1'' 1 gov_run = (st', Inr res)"
    "rr_status res = PvCompleted" using gov_retirement_succeeds by (auto split: prod.splits sum.splits)
  have "loadAgent ''a1'' (ps_world gov_run) = Some gov_agent"
    by (simp add: loadAgent_def gov_run_def gov_start_def gov_agent_def)
  with retirement_outcome [OF run gov_job_found(1,2) _ gov_job_found(5)] show ?thesis
    using run(1) by (simp add: gov_job_found(3,4)) (simp add: gov_agent_def)
qed

definition gov_steps :: "step_record list" where
  "gov_steps = [step_of ''wallet'' SCompleted, step_of ''credentials'' SCompleted, step_of ''services'' SFailed,
     step_of ''runtime'' SPending]"

definition gov_owned :: "gov_world prov_state" where
  "gov_owned = gov_run\<lparr>ps_world := gov_start\<lparr>gw_agents := [gov_agent\<lparr>tl_agentWalletId := Some ''GOLD'',
     tl_apiKey := Some ''tak_old''\<rparr>]\<rparr>\<rparr>"

definition reused_outputs :: step_outputs where
  "reused_outputs = [(''wallet'', Some (JObj [(''walletPublicKey'', JStr ''GOLD''), (''reused'', JBool True)])),
     (''credentials'', Some (JObj [(''credentialIssued'', JBool True), (''reused'', JBool True)]))]"

lemma gov_compensation:
  "case compensate quiet_env ''a1'' ''p1'' (activation gov_env) reused_outputs 2 gov_owned gov_steps of
     (st', Inr steps') \<Rightarrow> map tl_id (gw_agents (ps_world st')) = [''a1''] | _ \<Rightarrow> False"
  by code_simp

theorem compensation_takes_reused_keys_witness:
  "\<exists>st' steps' a. compensate quiet_env ''a1'' ''p1'' (activation gov_env) reused_outputs 2 gov_owned gov_steps = (st', Inr steps') \<and>
     gw_agents (ps_world st') = [a] \<and> tl_agentWalletId a = None \<and> tl_apiKey a = None"
proof -
  obtain st' steps' where run: "compensate quiet_env ''a1'' ''p1'' (activation gov_env) reused_outputs 2 gov_owned gov_steps = (st', Inr steps')"
    "map tl_id (gw_agents (ps_world st')) = [''a1'']" using gov_compensation by (auto split: prod.splits sum.splits)
  from run(2) obtain a where a: "gw_agents (ps_world st') = [a]" "tl_id a = ''a1''" by auto
  have "tl_agentWalletId a = None \<and> tl_agentWalletAddress a = None \<and>
      (1 \<le> (2::nat) \<and> sr_status (gov_steps ! 1) = SCompleted \<longrightarrow> tl_apiKey a = None)"
    by (rule compensation_takes_reused_keys [OF run(1)]) (simp_all add: gov_steps_def step_of_def a)
  then show ?thesis using run(1) a by (simp add: gov_steps_def step_of_def)
qed

definition gov_context :: "step_outputs \<Rightarrow> step_context" where
  "gov_context outputs = run_context (hd (ps_jobs gov_run)) ''p1:services'' outputs"

theorem services_restored_witness:
  "\<exists>w' out. registerServices gov_env (gov_context reused_outputs) gov_start = (w', Inr out) \<and>
     mk_services (gw_market (deregisterServices (gov_context [(''services'', Some out)]) w')) = [gov_service]"
proof -
  obtain w' out where r: "registerServices gov_env (gov_context reused_outputs) gov_start = (w', Inr out)"
    by (simp add: registerServices_def gov_context_def run_context_fields output_field_def reused_outputs_def Let_def)
  have "mk_services (gw_market (deregisterServices (gov_context [(''services'', Some out)]) w')) = mk_services (gw_market gov_start)"
    by (rule services_restored [OF r]) (simp_all add: gov_start_def gov_env_def gov_context_def run_context_fields)
  then show ?thesis using r by (simp add: gov_start_def)
qed

theorem stopped_work_is_refused_witness:
  "\<exists>m' e. submit_result \<lparr>le_date = (\<lambda>v. None), le_string = (\<lambda>v. []), le_numeric = (\<lambda>s. True)\<rparr> id 60 (Inr ''a1'') (Some (JStr ''report'')) (Some 1) ''j1''
       (cancel_pending 50 ''a1'' (gw_market gov_start)) = (m', Inl e) \<and> mk_revenues m' = []"
proof -
  let ?run = "submit_result \<lparr>le_date = (\<lambda>v. None), le_string = (\<lambda>v. []), le_numeric = (\<lambda>s. True)\<rparr> id 60 (Inr ''a1'') (Some (JStr ''report'')) (Some 1) ''j1''
       (cancel_pending 50 ''a1'' (gw_market gov_start))"
  have j: "''j1'' = mj_id gov_job" by (simp add: gov_job_def)
  obtain m' reply where run: "?run = (m', reply)" by fastforce
  have "(\<exists>e. reply = Inl e) \<and> mk_revenues m' = mk_revenues (gw_market gov_start) \<and>
    (\<exists>j' \<in> set (mk_jobs m'). mj_id j' = mj_id gov_job \<and> mj_status j' = ''cancelled'' \<and> mj_leasedBy j' = None)"
    by (rule stopped_work_is_refused [OF _ _ _ _ run [unfolded j]]) (simp_all add: gov_start_def gov_job_def)
  then show ?thesis using run by (auto simp: gov_start_def)
qed

end
