(* ===== verification/Lifecycle_Route_Facts.thy ===== *)
theory Lifecycle_Route_Facts
  imports Lifecycle_Route Provisioning_Effects_Facts
begin

text \<open>
  What the lifecycle route guarantees, whose signature moves an agent and with which approval, and what
  the two-valued status column it stores its result in costs: most of the state machine is out of
  reach, and a retirement is taken back by an ordinary request.
\<close>

section \<open>Accepted requests\<close>

lemma check_requestE:
  assumes "check_request ed req i w = Inr cr"
  obtains body field address agent where "lq_json req = Some body" "body_fields body = Some field"
    "address = text_or_empty (field ''address'')" "address \<noteq> []" "loadAgent i w = Some agent"
    "js_includes i (text_or_empty (field ''message''))"
    "ed address (text_or_empty (field ''message'')) (text_or_empty (field ''signature'')) = Some True"
    "cr_actor cr = \<lparr>actor_id = address, actor_roles = rolesFor address agent\<rparr>" "rolesFor address agent \<noteq> []"
    "parseLifecyclePayload body = Inr (cr_parsed cr)"
    "evaluateTransition \<lparr>rq_action = action_name (payload_action (cr_parsed cr)), rq_from = Some (state_text (tl_status agent)),
       rq_actor = cr_actor cr, rq_governanceApproved = Some (hasApprovedProposal i (cr_parsed cr) w)\<rparr> = Inr (cr_decision cr)"
    "assertPrerequisites (cr_parsed cr) (prerequisites_for (cr_parsed cr) agent w) = None"
  using assms
  by (auto simp: check_request_def Let_def refused_def verify_lifecycle_signature_def
      split: if_splits option.splits sum.splits)

lemma post_cases:
  assumes "lifecycle_post env req i st = (st', reply)"
  obtains (rejected) "check_request (lc_ed25519 env) req i (ps_world st) = Inl reply" "st' = st"
  | (handed) cr where "check_request (lc_ed25519 env) req i (ps_world st) = Inr cr" "td_durable (cr_decision cr)"
      "hand_over env cr i st = (st', reply)"
  | (settled) cr where "check_request (lc_ed25519 env) req i (ps_world st) = Inr cr" "\<not> td_durable (cr_decision cr)"
      "settle_inline env cr i st = (st', reply)"
  using assms by (auto simp: lifecycle_post_def split: sum.splits if_splits)

lemma check_rejects: "check_request ed req i w = Inl reply \<Longrightarrow> reply \<in> {TooLarge, AgentMissing} \<union> range Rejected"
  by (auto simp: check_request_def Let_def refused_def split: if_splits option.splits sum.splits)

lemma roles_of: "role \<in> set (rolesFor address agent) \<Longrightarrow>
    (role \<in> {Creator, Operator} \<and> (tl_creatorPublicKey agent = Some address \<or> tl_walletPublicKey agent = Some address)) \<or>
    (role = Governance \<and> tl_treasuryPublicKey agent = Some address)"
  by (auto simp: rolesFor_def split: if_splits)

lemma handed_cases:
  assumes "hand_over env cr i st = (st', reply)"
  obtains (failed) e where "reply = Rejected e" "ps_world st' = ps_world st"
  | (accepted) jobId created where "reply = Handed (td_to (cr_decision cr)) jobId created"
      "ps_world st' = update_agents (\<lambda>a. tl_id a = i) (\<lambda>a. a\<lparr>tl_status := toLegacyStatus (td_to (cr_decision cr))\<rparr>) (ps_world st)"
  using assms
  by (auto simp: hand_over_def map_world_def split: sum.splits prod.splits dest!: emit_world)

lemma settled_world:
  assumes "settle_inline env cr i st = (st', reply)"
  shows "ps_world st' = update_agents (\<lambda>a. tl_id a = i)
      (\<lambda>a. a\<lparr>tl_status := toLegacyStatus (td_to (cr_decision cr)), tl_agentOnline := (td_to (cr_decision cr) = Active),
             tl_agentLastSeen := Some (en_now (lc_run env))\<rparr>)
      (if cancels (cr_parsed cr) then (ps_world st)\<lparr>gw_market := cancel_pending (en_now (lc_run env)) i (gw_market (ps_world st))\<rparr>
       else ps_world st)" "reply = Settled (td_to (cr_decision cr)) \<or> reply = Rejected Crashed"
  using assms
  by (auto simp: settle_inline_def map_world_def Let_def split: sum.splits prod.splits if_splits dest!: emit_world)

text \<open>C34.
  Whatever a lifecycle request changes, a signature over a message with the agent's id by an address
  that holds a role on the agent stands behind it; and a request that is handed to a provisioning run
  names an approved proposal of the agent and comes from an operator or the treasury, a retirement from
  the treasury alone.\<close>

theorem lifecycle_route_authorised:
  assumes "lifecycle_post env req i st = (st', reply)" "st' \<noteq> st \<or> (\<exists>s. reply = Settled s)"
  shows "\<exists>body field address agent. lq_json req = Some body \<and> body_fields body = Some field \<and>
    address = text_or_empty (field ''address'') \<and> loadAgent i (ps_world st) = Some agent \<and>
    js_includes i (text_or_empty (field ''message'')) \<and>
    lc_ed25519 env address (text_or_empty (field ''message'')) (text_or_empty (field ''signature'')) = Some True \<and>
    (tl_creatorPublicKey agent = Some address \<or> tl_walletPublicKey agent = Some address \<or> tl_treasuryPublicKey agent = Some address) \<and>
    (\<forall>s j c. reply = Handed s j c \<longrightarrow>
       (\<exists>r \<in> set (gw_approvals (ps_world st)). ap_talosId r = i \<and> ap_status r = ''approved'') \<and>
       s \<in> {Provisioning, Retiring} \<and> (s = Retiring \<longrightarrow> tl_treasuryPublicKey agent = Some address))"
proof -
  obtain cr where cr: "check_request (lc_ed25519 env) req i (ps_world st) = Inr cr"
    "\<forall>s j c. reply = Handed s j c \<longrightarrow> td_durable (cr_decision cr) \<and> s = td_to (cr_decision cr)"
  proof (rule post_cases [OF assms(1)])
    assume "check_request (lc_ed25519 env) req i (ps_world st) = Inl reply" "st' = st"
    then show thesis using assms(2) check_rejects by fastforce
  next
    fix cr assume "check_request (lc_ed25519 env) req i (ps_world st) = Inr cr" "td_durable (cr_decision cr)"
      "hand_over env cr i st = (st', reply)"
    then show thesis by (intro that [of cr]) (auto elim: handed_cases)
  next
    fix cr assume "check_request (lc_ed25519 env) req i (ps_world st) = Inr cr" "settle_inline env cr i st = (st', reply)"
    then show thesis using settled_world(2) [of env cr i st st' reply] by (intro that [of cr]) auto
  qed
  obtain body field address agent where c: "lq_json req = Some body" "body_fields body = Some field"
    "address = text_or_empty (field ''address'')" "loadAgent i (ps_world st) = Some agent"
    "js_includes i (text_or_empty (field ''message''))"
    "lc_ed25519 env address (text_or_empty (field ''message'')) (text_or_empty (field ''signature'')) = Some True"
    "cr_actor cr = \<lparr>actor_id = address, actor_roles = rolesFor address agent\<rparr>" "rolesFor address agent \<noteq> []"
    "evaluateTransition \<lparr>rq_action = action_name (payload_action (cr_parsed cr)), rq_from = Some (state_text (tl_status agent)),
       rq_actor = cr_actor cr, rq_governanceApproved = Some (hasApprovedProposal i (cr_parsed cr) (ps_world st))\<rparr> = Inr (cr_decision cr)"
    by (rule check_requestE [OF cr(1)]) blast
  have role: "tl_creatorPublicKey agent = Some address \<or> tl_walletPublicKey agent = Some address \<or> tl_treasuryPublicKey agent = Some address"
    using roles_of [OF hd_in_set [OF c(8)]] by blast
  have durable: "(\<exists>r \<in> set (gw_approvals (ps_world st)). ap_talosId r = i \<and> ap_status r = ''approved'') \<and>
      td_to (cr_decision cr) \<in> {Provisioning, Retiring} \<and>
      (td_to (cr_decision cr) = Retiring \<longrightarrow> tl_treasuryPublicKey agent = Some address)" if "td_durable (cr_decision cr)"
  proof -
    obtain action rule src where r: "findRule action src = Some rule" "shares_role (rule_roles rule) (cr_actor cr)"
      "rule_approval rule \<longrightarrow> hasApprovedProposal i (cr_parsed cr) (ps_world st)" "cr_decision cr = \<lparr>td_action = action, td_from = src,
        td_to = rule_to rule, td_durable = rule_durable rule, td_actor = cr_actor cr\<rparr>"
      using c(9) by (auto simp: evaluate_ok)
    have m: "rule \<in> set TRANSITION_RULES" using findRule_in [OF r(1)] by simp
    have "rule_to rule = Retiring \<longrightarrow> rule_roles rule = [Governance]" using m by (auto simp: TRANSITION_RULES_def)
    then have gov: "rule_to rule = Retiring \<longrightarrow> Governance \<in> set (rolesFor address agent)"
      using r(2) by (auto simp: shares_role_iff c(7))
    have "rule_approval rule \<and> rule_to rule \<in> {Provisioning, Retiring}" using that r(4) bspec [OF rules_checked m] by auto
    then show ?thesis using r(3,4) gov roles_of [of Governance address agent]
      by (auto simp: hasApprovedProposal_def list_ex_iff)
  qed
  have handed: "\<forall>s j c. reply = Handed s j c \<longrightarrow>
      (\<exists>r \<in> set (gw_approvals (ps_world st)). ap_talosId r = i \<and> ap_status r = ''approved'') \<and>
      s \<in> {Provisioning, Retiring} \<and> (s = Retiring \<longrightarrow> tl_treasuryPublicKey agent = Some address)"
  proof (intro allI impI)
    fix s j c assume "reply = Handed s j c"
    then have "td_durable (cr_decision cr)" "s = td_to (cr_decision cr)" using cr(2) by blast+
    then show "(\<exists>r \<in> set (gw_approvals (ps_world st)). ap_talosId r = i \<and> ap_status r = ''approved'') \<and>
        s \<in> {Provisioning, Retiring} \<and> (s = Retiring \<longrightarrow> tl_treasuryPublicKey agent = Some address)"
      using durable by simp
  qed
  show ?thesis
    by (rule exI [of _ body], rule exI [of _ field], rule exI [of _ address], rule exI [of _ agent], intro conjI)
       (fact c role handed)+
qed

section \<open>Two states\<close>

definition two_valued :: "gov_world \<Rightarrow> bool" where
  "two_valued w \<longleftrightarrow> (\<forall>a \<in> set (gw_agents w). tl_status a \<in> {''Active'', ''Paused''})"

definition lifecycle_posts :: "(lifecycle_env \<times> lifecycle_request \<times> string) list \<Rightarrow> gov_world prov_state \<Rightarrow> gov_world prov_state" where
  "lifecycle_posts reqs st = fold (\<lambda>(env, req, i) st. fst (lifecycle_post env req i st)) reqs st"

lemma state_text_two: "state_text ''Active'' = state_name Active" "state_text ''Paused'' = state_name Paused"
  by code_simp+

lemma state_name_inject: "state_name s = state_name s' \<longleftrightarrow> s = s'"
  by (metis option.inject parse_state_name)

lemma load_in: "loadAgent i w = Some a \<Longrightarrow> a \<in> set (gw_agents w) \<and> tl_id a = i"
  unfolding loadAgent_def by (drule find_SomeD) simp

lemma two_valued_decision:
  assumes "two_valued w" "check_request ed req i w = Inr cr"
  shows "payload_action (cr_parsed cr) \<in> {Activate, Pause, Retire} \<and> td_to (cr_decision cr) \<in> {Active, Paused, Retiring} \<and>
    (td_durable (cr_decision cr) \<longleftrightarrow> td_to (cr_decision cr) = Retiring)"
proof -
  obtain agent where agent: "loadAgent i w = Some agent"
    and d: "evaluateTransition \<lparr>rq_action = action_name (payload_action (cr_parsed cr)), rq_from = Some (state_text (tl_status agent)),
       rq_actor = cr_actor cr, rq_governanceApproved = Some (hasApprovedProposal i (cr_parsed cr) w)\<rparr> = Inr (cr_decision cr)"
    by (rule check_requestE [OF assms(2)]) blast
  have "tl_status agent \<in> {''Active'', ''Paused''}" using assms(1) load_in [OF agent] by (simp add: two_valued_def)
  then obtain s where s: "state_text (tl_status agent) = state_name s" "s \<in> {Active, Paused}"
    using state_text_two by (metis insert_iff singletonD)
  obtain action rule src where r: "action_name (payload_action (cr_parsed cr)) = action_name action"
    "Some (state_name s) = map_option state_name src" "findRule action src = Some rule" "cr_decision cr = \<lparr>td_action = action, td_from = src,
      td_to = rule_to rule, td_durable = rule_durable rule, td_actor = cr_actor cr\<rparr>"
    using d s(1) by (auto simp: evaluate_ok)
  have "src = Some s" using r(2) by (cases src) (simp_all add: state_name_inject)
  then have "rule \<in> set TRANSITION_RULES" "Some s \<in> set (rule_from rule)" "rule_action rule = action"
    using findRule_in [OF r(3)] by auto
  then have "action \<in> {Activate, Pause, Retire} \<and> rule_to rule \<in> {Active, Paused, Retiring} \<and> (rule_durable rule \<longleftrightarrow> rule_to rule = Retiring)"
    using s(2) unfolding TRANSITION_RULES_def by auto
  moreover have "payload_action (cr_parsed cr) = action" using r(1) by (metis option.inject parse_action_name)
  ultimately show ?thesis by (simp add: r(4))
qed

lemma two_valued_update:
  assumes "two_valued w" "\<And>a. tl_status (f a) \<in> {''Active'', ''Paused''}"
  shows "two_valued (update_agents P f w)"
  using assms unfolding two_valued_def update_agents_def by (auto elim!: in_updE)

lemma two_valued_post:
  assumes "two_valued (ps_world st)" "lifecycle_post env req i st = (st', reply)"
  shows "two_valued (ps_world st') \<and> (\<forall>s j c. reply \<in> {Settled s, Handed s j c} \<longrightarrow> s \<in> {Active, Paused, Retiring})"
  using assms(2)
proof (cases rule: post_cases)
  case rejected
  then show ?thesis using assms(1) check_rejects [OF rejected(1)] by auto
next
  case (handed cr)
  have two: "td_to (cr_decision cr) = Retiring" using two_valued_decision [OF assms(1) handed(1)] handed(2) by simp
  show ?thesis using handed(3)
  proof (cases rule: handed_cases)
    case (failed e)
    then show ?thesis using assms(1) by simp
  next
    case (accepted jobId created)
    then show ?thesis using two_valued_update [OF assms(1)] two by (simp add: toLegacyStatus_def)
  qed
next
  case (settled cr)
  have two: "td_to (cr_decision cr) \<in> {Active, Paused}" using two_valued_decision [OF assms(1) settled(1)] settled(2) by auto
  have base: "two_valued ((ps_world st)\<lparr>gw_market := m\<rparr>)" for m using assms(1) by (simp add: two_valued_def)
  have "two_valued (ps_world st')" unfolding settled_world(1) [OF settled(3)]
    by (rule two_valued_update) (use assms(1) base two in \<open>auto simp: toLegacyStatus_def\<close>)
  then show ?thesis using settled_world(2) [OF settled(3)] two by auto
qed

text \<open>The lifecycle never gets past two states: starting from agents that are active or paused, as every
  agent is created, whatever requests follow, each agent's stored status stays Active or Paused, and no
  request to create or recover is ever accepted nor any agent moved to proposed, provisioning, failed
  or recovery-pending.\<close>

theorem only_two_states:
  assumes "two_valued (ps_world st)"
  shows "two_valued (ps_world (lifecycle_posts reqs st)) \<and>
    (\<forall>ed req i cr. check_request ed req i (ps_world (lifecycle_posts reqs st)) = Inr cr \<longrightarrow>
       payload_action (cr_parsed cr) \<in> {Activate, Pause, Retire} \<and> td_to (cr_decision cr) \<in> {Active, Paused, Retiring})"
proof -
  have "two_valued (ps_world (lifecycle_posts reqs st))" using assms
  proof (induction reqs arbitrary: st)
    case (Cons x reqs)
    obtain env req i where x: "x = (env, req, i)" by (cases x)
    show ?case using Cons.IH [of "fst (lifecycle_post env req i st)"] two_valued_post [OF Cons.prems prod.collapse [symmetric]]
      by (simp add: lifecycle_posts_def x)
  qed (simp add: lifecycle_posts_def)
  then show ?thesis using two_valued_decision by blast
qed

section \<open>A retirement taken back\<close>

text \<open>A retirement is not final: after a retirement was handed over, and whether or not its run has finished
  meanwhile, an activation request signed by the creator brings the agent back to Active and online,
  whatever string it names as a proposal.\<close>

theorem retirement_taken_back:
  assumes "lifecycle_post env req i st = (st1, Handed Retiring j c)"
    and "loadAgent i (ps_world st2) = map_option (\<lambda>a. a\<lparr>tl_agentOnline := x, tl_agentLastSeen := y, tl_apiKey := k\<rparr>) (loadAgent i (ps_world st1))"
    and "loadAgent i (ps_world st) = Some agent" "tl_creatorPublicKey agent = Some address"
    and "lq_length req2 \<le> MAX_BODY_LENGTH" "lq_json req2 = Some body" "body_fields body = Some field"
    and "parseLifecyclePayload body = Inr (PActivate p)" "text_or_empty (field ''address'') = address" "address \<noteq> []"
    and "text_or_empty (field ''signature'') \<noteq> []" "js_includes i (text_or_empty (field ''message''))" "i \<noteq> []"
    and "lc_ed25519 env2 address (text_or_empty (field ''message'')) (text_or_empty (field ''signature'')) = Some True"
  shows "\<exists>a. loadAgent i (ps_world (fst (lifecycle_post env2 req2 i st2))) = Some a \<and> tl_status a = ''Active'' \<and> tl_agentOnline a"
proof -
  have "ps_world st1 = update_agents (\<lambda>a. tl_id a = i) (\<lambda>a. a\<lparr>tl_status := ''Paused''\<rparr>) (ps_world st)"
    using assms(1)
  proof (cases rule: post_cases)
    case rejected
    then show ?thesis using check_rejects by fastforce
  next
    case (handed cr)
    from handed(3) show ?thesis by (cases rule: handed_cases) (auto simp: toLegacyStatus_def)
  next
    case (settled cr)
    then show ?thesis using settled_world(2) [OF settled(3)] by simp
  qed
  then have agent: "loadAgent i (ps_world st2) = Some (agent\<lparr>tl_status := ''Paused'', tl_agentOnline := x, tl_agentLastSeen := y, tl_apiKey := k\<rparr>)"
    (is "_ = Some ?a") using assms(2,3) by (simp add: load_update)
  have nonempty: "text_or_empty (field ''message'') \<noteq> []" using assms(12,13) by auto
  have roles: "rolesFor address ?a \<noteq> []" "Operator \<in> set (rolesFor address ?a)" using assms(4) by (simp_all add: rolesFor_def)
  have decide: "evaluateTransition \<lparr>rq_action = action_name Activate, rq_from = Some (state_text ''Paused''),
      rq_actor = \<lparr>actor_id = address, actor_roles = rolesFor address ?a\<rparr>, rq_governanceApproved = g\<rparr> =
      Inr \<lparr>td_action = Activate, td_from = Some Paused, td_to = Active, td_durable = False,
        td_actor = \<lparr>actor_id = address, actor_roles = rolesFor address ?a\<rparr>\<rparr>" for g
    unfolding evaluate_ok using roles(2)
    by (intro exI [of _ Activate] exI [of _ "TRANSITION_RULES ! 3"] exI [of _ "Some Paused"])
       (simp add: state_text_two findRule_def TRANSITION_RULES_def shares_role_iff)
  have pre: "assertPrerequisites (PActivate p) (prerequisites_for (PActivate p) ?a (ps_world st2)) = None"
    using assms(4,10) by (simp add: assertPrerequisites_def prerequisites_for_def truthy_str_def)
  obtain cr where cr: "check_request (lc_ed25519 env2) req2 i (ps_world st2) = Inr cr"
    "td_to (cr_decision cr) = Active" "\<not> td_durable (cr_decision cr)" "cr_parsed cr = PActivate p"
    using assms(5-14) agent nonempty roles(1) decide pre
    by (auto simp: check_request_def Let_def verify_lifecycle_signature_def)
  obtain st' reply where settle: "settle_inline env2 cr i st2 = (st', reply)" by fastforce
  have "lifecycle_post env2 req2 i st2 = (st', reply)" using cr settle by (simp add: lifecycle_post_def)
  then show ?thesis using settled_world(1) [OF settle] agent cr by (simp add: load_update toLegacyStatus_def cancels_def)
qed

section \<open>Actions under one key\<close>

lemma emit_event_key:
  assumes "emit_event env inp st = (st', Inr ())" "li_idempotencyKey inp = Some (c # cs)"
  shows "event_for_key (li_talosId inp) (Some (c # cs)) (ps_log st') \<noteq> None"
proof -
  obtain i n d where "emitLifecycleEvent inp (en_now env) (en_meanwhile env) (en_fresh env (c # cs)) (ps_log st) = Inr (ps_log st', i, n, d)"
    using assms by (auto simp: emit_event_def coalesce_def split: if_splits sum.splits)
  then show ?thesis using assms(2)
    by (auto simp: emitLifecycleEvent_def split: option.splits prod.splits dest: emit_loop_key)
qed

lemma emit_event_again:
  assumes "event_for_key (li_talosId inp) (Some (c # cs)) (ps_log st) \<noteq> None" "li_idempotencyKey inp = Some (c # cs)"
    and "emit_event env inp st = (st', r)"
  shows "ps_log st' = ps_log st"
  using assms by (auto simp: emit_event_def emitLifecycleEvent_def split: if_splits)

lemma event_for_key_more: "event_for_key i k t \<noteq> None \<Longrightarrow> set t \<subseteq> set t' \<Longrightarrow> event_for_key i k t' \<noteq> None"
  unfolding event_for_key_def by (auto simp: find_None_iff)

text \<open>An inline transition is logged once per key, and the key a request gets when it names none is made of
  the action, the state and the address: when the same address pauses an agent a second time, after it
  was active again, the status changes but the log does not, whatever was appended in between.\<close>

theorem repeated_transition_unlogged:
  assumes "check_request (lc_ed25519 env) req i (ps_world st) = Inr cr" "lifecycle_post env req i st = (st1, Settled s)"
    and "set (ps_log st1) \<subseteq> set (ps_log st2)" "i \<noteq> []"
    and "check_request (lc_ed25519 env2) req2 i (ps_world st2) = Inr cr2" "lifecycle_post env2 req2 i st2 = (st3, Settled s2)"
    and "cr_key cr2 = cr_key cr" "a \<in> set (gw_agents (ps_world st3))" "tl_id a = i"
  shows "ps_log st3 = ps_log st2 \<and> tl_status a = toLegacyStatus s2"
proof -
  obtain c cs where key: "i @ '':'' @ cr_key cr = c # cs" using assms(4) by (cases i) auto
  have input: "li_talosId (lifecycle_input x i ty j k) = i" "li_idempotencyKey (lifecycle_input x i ty j k) = Some k" for x ty j k
    by (simp_all add: lifecycle_input_def)
  have inline: "\<exists>st0. emit_event (lc_run e) (lifecycle_input x i (inline_event (td_to (cr_decision x))) None (c # cs)) st0 = (st'', Inr ()) \<and>
      ps_log st0 = ps_log st'" "settle_inline e x i st' = (st'', Settled s')" "s' = td_to (cr_decision x)"
    if "check_request (lc_ed25519 e) r i (ps_world st') = Inr x" "lifecycle_post e r i st' = (st'', Settled s')" "cr_key x = cr_key cr"
    for e r st' st'' s' x
  proof -
    show settle: "settle_inline e x i st' = (st'', Settled s')"
      using that(1,2) by (auto simp: lifecycle_post_def hand_over_def split: if_splits sum.splits prod.splits)
    then show "\<exists>st0. emit_event (lc_run e) (lifecycle_input x i (inline_event (td_to (cr_decision x))) None (c # cs)) st0 = (st'', Inr ()) \<and>
      ps_log st0 = ps_log st'"
      using key that(3) by (auto simp: settle_inline_def map_world_def Let_def split: sum.splits prod.splits if_splits)
    show "s' = td_to (cr_decision x)" using settled_world(2) [OF settle] by simp
  qed
  obtain st0 where "emit_event (lc_run env) (lifecycle_input cr i (inline_event (td_to (cr_decision cr))) None (c # cs)) st0 = (st1, Inr ())"
    using inline(1) [OF assms(1,2) refl] by blast
  from emit_event_key [OF this] have "event_for_key i (Some (c # cs)) (ps_log st1) \<noteq> None" by (simp add: input)
  then have seen: "event_for_key i (Some (c # cs)) (ps_log st2) \<noteq> None" using assms(3) by (rule event_for_key_more)
  obtain st0' where again: "emit_event (lc_run env2) (lifecycle_input cr2 i (inline_event (td_to (cr_decision cr2))) None (c # cs)) st0' = (st3, Inr ())"
    "ps_log st0' = ps_log st2" using inline(1) [OF assms(5-7)] by blast
  have "ps_log st3 = ps_log st2"
    using emit_event_again [OF _ _ again(1)] seen again(2) by (simp add: input)
  moreover have "tl_status a = toLegacyStatus s2"
  proof -
    have "a \<in> rows_of i (ps_world st3)" using assms(8,9) by (simp add: rows_of_def)
    then show ?thesis unfolding settled_world(1) [OF inline(2) [OF assms(5-7)]] inline(3) [OF assms(5-7)]
      by (subst (asm) rows_update) auto
  qed
  ultimately show ?thesis by simp
qed

section \<open>An agent retired and reactivated\<close>

definition route_env :: lifecycle_env where
  "route_env = \<lparr>lc_ed25519 = (\<lambda>a m s. Some True), lc_run = quiet_env, lc_effects = gov_env, lc_newId = ''p9'', lc_submitting = (\<lambda>t. t)\<rparr>"

definition route_start :: "gov_world prov_state" where
  "route_start = \<lparr>ps_jobs = [], ps_log = [], ps_world = gov_start\<lparr>gw_approvals :=
     [\<lparr>ap_id = ''pr1'', ap_talosId = ''a1'', ap_status = ''approved''\<rparr>]\<rparr>\<rparr>"

definition ask :: "string \<Rightarrow> string \<Rightarrow> (string \<times> json) list \<Rightarrow> lifecycle_request" where
  "ask address action payload = \<lparr>lq_length = 300, lq_json = Some (JObj [(''address'', JStr address), (''signature'', JStr ''sig''),
     (''message'', JStr ''lifecycle a1''), (''action'', JStr action), (''payload'', JObj payload)]), lq_idempotencyHeader = None\<rparr>"

definition ask_retire :: lifecycle_request where
  "ask_retire = ask ''GT'' ''retire'' [(''reason'', JStr ''sunset''), (''proposalId'', JStr ''pr1''), (''confirmed'', JBool True),
     (''drainJobs'', JBool False)]"

definition ask_activate :: lifecycle_request where
  "ask_activate = ask ''GC'' ''activate'' [(''proposalId'', JStr ''none''), (''confirmed'', JBool True)]"

definition ask_pause :: lifecycle_request where
  "ask_pause = ask ''GC'' ''pause'' [(''reason'', JStr ''maintenance'')]"

lemma retire_handed:
  "case lifecycle_post route_env ask_retire ''a1'' route_start of
     (st', Handed s j c) \<Rightarrow> s = Retiring \<and> ps_jobs st' \<noteq> [] | _ \<Rightarrow> False"
  by code_simp

theorem lifecycle_route_authorised_witness:
  "\<exists>st' j c agent. lifecycle_post route_env ask_retire ''a1'' route_start = (st', Handed Retiring j c) \<and>
     loadAgent ''a1'' (ps_world route_start) = Some agent \<and> tl_treasuryPublicKey agent = Some ''GT''"
proof -
  obtain st' j c where run: "lifecycle_post route_env ask_retire ''a1'' route_start = (st', Handed Retiring j c)" "ps_jobs st' \<noteq> []"
    using retire_handed by (auto split: prod.splits lifecycle_reply.splits)
  then have "st' \<noteq> route_start" by (auto simp: route_start_def)
  then show ?thesis using lifecycle_route_authorised [OF run(1)] run(1)
    by (auto simp: ask_retire_def ask_def text_or_empty_def)
qed

theorem only_two_states_witness:
  "two_valued (ps_world (lifecycle_posts [(route_env, ask_retire, ''a1''), (route_env, ask_activate, ''a1'')] route_start))"
proof -
  have "two_valued (ps_world route_start)" by (simp add: two_valued_def route_start_def gov_start_def gov_agent_def)
  then show ?thesis using only_two_states by blast
qed

theorem retirement_taken_back_witness:
  "\<exists>st1 j c a. lifecycle_post route_env ask_retire ''a1'' route_start = (st1, Handed Retiring j c) \<and>
     loadAgent ''a1'' (ps_world (fst (lifecycle_post route_env ask_activate ''a1'' st1))) = Some a \<and> tl_status a = ''Active''"
proof -
  obtain st1 j c where run: "lifecycle_post route_env ask_retire ''a1'' route_start = (st1, Handed Retiring j c)"
    using retire_handed by (auto split: prod.splits lifecycle_reply.splits)
  obtain a where a: "loadAgent ''a1'' (ps_world st1) = Some a"
    using run
  proof (cases rule: post_cases)
    case (handed cr)
    from handed(3) show ?thesis
      by (cases rule: handed_cases) (auto simp: load_update route_start_def loadAgent_def gov_start_def gov_agent_def update_agents_def intro: that)
  qed (use check_rejects settled_world(2) in fastforce)+
  have "\<exists>p. parseLifecyclePayload (the (lq_json ask_activate)) = Inr (PActivate p)"
    by (simp add: ask_activate_def ask_def parseLifecyclePayload_def PROTOTYPE_NAMES_def parse_action_def LIFECYCLE_ACTIONS_def
        payload_schema_def activateAgentPayloadSchema_def strict_fields_def field_defs)
  then obtain p where p: "parseLifecyclePayload (the (lq_json ask_activate)) = Inr (PActivate p)" by blast
  have start: "loadAgent ''a1'' (ps_world route_start) = Some gov_agent" "tl_creatorPublicKey gov_agent = Some ''GC''"
    by (simp_all add: route_start_def gov_start_def loadAgent_def gov_agent_def)
  let ?field = "map_of [(''address'', JStr ''GC''), (''signature'', JStr ''sig''), (''message'', JStr ''lifecycle a1''),
      (''action'', JStr ''activate''), (''payload'', JObj [(''proposalId'', JStr ''none''), (''confirmed'', JBool True)])]"
  have body: "lq_length ask_activate \<le> MAX_BODY_LENGTH" "lq_json ask_activate = Some (the (lq_json ask_activate))"
    "body_fields (the (lq_json ask_activate)) = Some ?field"
    by (simp_all add: ask_activate_def ask_def MAX_BODY_LENGTH_def)
  have texts: "text_or_empty (?field ''address'') = ''GC''" "text_or_empty (?field ''signature'') = ''sig''"
    "text_or_empty (?field ''message'') = ''lifecycle a1''" "js_includes ''a1'' ''lifecycle a1''"
    by (simp_all add: text_or_empty_def starts_with_def)
  have same: "loadAgent ''a1'' (ps_world st1) = map_option (\<lambda>b. b\<lparr>tl_agentOnline := tl_agentOnline a,
      tl_agentLastSeen := tl_agentLastSeen a, tl_apiKey := tl_apiKey a\<rparr>) (loadAgent ''a1'' (ps_world st1))"
    by (simp add: a)
  have "\<exists>a. loadAgent ''a1'' (ps_world (fst (lifecycle_post route_env ask_activate ''a1'' st1))) = Some a \<and> tl_status a = ''Active'' \<and> tl_agentOnline a"
    by (rule retirement_taken_back [OF run same start body p])
       (simp_all only: texts, simp_all add: route_env_def)
  then show ?thesis using run by blast
qed

definition route_active :: "gov_world prov_state" where
  "route_active = route_start\<lparr>ps_world := gov_start\<lparr>gw_agents := [gov_agent\<lparr>tl_status := ''Active''\<rparr>]\<rparr>\<rparr>"

lemma paused_twice:
  "let (st1, r1) = lifecycle_post route_env ask_pause ''a1'' route_active;
       (st2, r2) = lifecycle_post route_env ask_activate ''a1'' st1;
       (st3, r3) = lifecycle_post route_env ask_pause ''a1'' st2
   in r1 = Settled Paused \<and> r3 = Settled Paused \<and>
      (case (check_request (lc_ed25519 route_env) ask_pause ''a1'' (ps_world route_active),
             check_request (lc_ed25519 route_env) ask_pause ''a1'' (ps_world st2)) of
         (Inr cr, Inr cr2) \<Rightarrow> cr_key cr2 = cr_key cr | _ \<Rightarrow> False) \<and>
      list_all (\<lambda>r. r \<in> set (ps_log st2)) (ps_log st1) \<and> map tl_id (gw_agents (ps_world st3)) = [''a1'']"
  by code_simp

theorem repeated_transition_unlogged_witness:
  "\<exists>st2 st3. lifecycle_post route_env ask_pause ''a1'' st2 = (st3, Settled Paused) \<and> ps_log st3 = ps_log st2"
proof -
  obtain st1 st2 cr cr2 st3 where r: "lifecycle_post route_env ask_pause ''a1'' route_active = (st1, Settled Paused)"
    "check_request (lc_ed25519 route_env) ask_pause ''a1'' (ps_world route_active) = Inr cr"
    "check_request (lc_ed25519 route_env) ask_pause ''a1'' (ps_world st2) = Inr cr2"
    "lifecycle_post route_env ask_pause ''a1'' st2 = (st3, Settled Paused)" "cr_key cr2 = cr_key cr"
    "set (ps_log st1) \<subseteq> set (ps_log st2)" "\<exists>a. gw_agents (ps_world st3) = [a] \<and> tl_id a = ''a1''"
    using paused_twice by (auto simp: list_all_iff subset_iff Let_def split: prod.splits sum.splits)
  from r(7) obtain a where "a \<in> set (gw_agents (ps_world st3))" "tl_id a = ''a1''" by auto
  then have "ps_log st3 = ps_log st2"
    using repeated_transition_unlogged [OF r(2,1,6) _ r(3,4,5)] by simp
  then show ?thesis using r(4) by blast
qed

end
