(* ===== verification/Contract_Decoder.thy ===== *)
theory Contract_Decoder
  imports Js_Text "HOL-Library.AList"
begin

text \<open>
  The typed decoder of Soroban contract events, packages/sdk/src/contract-events.ts: the catalog, the
  validation of a raw event against its descriptor, batches and event cursors.

  A ScVal comes from the network unchecked, so it is a JSON value here, whose \<open>type\<close> and \<open>value\<close> are
  property accesses that may throw.  The events' TypeScript interfaces have no run-time content.
\<close>

section \<open>Events and the catalog\<close>

record field_descriptor =
  fd_position :: nat
  fd_type :: string
  fd_name :: string

record event_descriptor =
  ed_contract :: string
  ed_topics :: "field_descriptor list"
  ed_data :: "field_descriptor list"

type_synonym event_catalog = "(string \<times> (string \<times> event_descriptor) list) list"  \<comment> \<open>family, symbol\<close>

record raw_event =
  re_contract :: string
  re_topics :: json
  re_data :: json
  re_ledger_sequence :: int
  re_tx_index_in_ledger :: "int option"
  re_event_index_in_tx :: "int option"
  re_tx_hash :: "string option"

record event_cursor =
  ec_ledger_sequence :: int
  ec_tx_index_in_ledger :: int
  ec_event_index_in_tx :: int

type_synonym fields = "(string \<times> json option) list"  \<comment> \<open>\<open>None\<close> is \<open>undefined\<close>\<close>

record decoded_event =
  de_event :: string
  de_family :: string
  de_contract :: string
  de_cursor :: event_cursor
  de_topics :: fields
  de_data :: fields

datatype mismatch =
    TopicsEmpty
  | HeadNotSymbol "json option"
  | DataNotArray
  | TopicCount nat nat
  | TopicType nat string "json option"
  | DataCount nat nat
  | DataType nat string "json option"
  | Rethrown

text \<open>\<open>DecodeThrew\<close> is an exception that is not one of the decoder's own.\<close>

datatype decode_error = Malformed mismatch | UnknownEvent string | UnsupportedVersion int | DecodeThrew

definition descriptors :: "(string \<times> string) list \<Rightarrow> field_descriptor list" where
  "descriptors fs = map (\<lambda>(i, ty, name). \<lparr>fd_position = i, fd_type = ty, fd_name = name\<rparr>) (enumerate 0 fs)"

definition event_entry :: "string \<Rightarrow> string \<Rightarrow> (string \<times> string) list \<Rightarrow> (string \<times> string) list \<Rightarrow> string \<times> event_descriptor" where
  "event_entry symbol contract topics data =
     (symbol, \<lparr>ed_contract = contract, ed_topics = descriptors ((''symbol'', ''event'') # topics), ed_data = descriptors data\<rparr>)"

definition BUILTIN_EVENT_CATALOG :: event_catalog where
  "BUILTIN_EVENT_CATALOG =
     [(''creation'',
        [event_entry ''tls_crt'' ''talos_registry'' [(''address'', ''creator'')]
           [(''u32'', ''talos_id''), (''string'', ''name''), (''string'', ''category'')],
         event_entry ''tls_crt2'' ''talos_registry'' [(''address'', ''creator'')]
           [(''u32'', ''version''), (''u32'', ''talos_id''), (''string'', ''name''), (''string'', ''category'')]]),
      (''update'',
        [event_entry ''pat_upd'' ''talos_registry'' [(''u32'', ''talos_id'')]
           [(''address'', ''creator_addr''), (''u32'', ''creator_share''), (''u32'', ''investor_share'')],
         event_entry ''reg_upd'' ''talos_name_service'' []
           [(''address'', ''old_registry''), (''address'', ''new_registry'')]]),
      (''governance'',
        [event_entry ''prop_crt'' ''talos_governance'' [(''u32'', ''proposal_id'')]
           [(''u32'', ''talos_id''), (''address'', ''proposer'')],
         event_entry ''vote'' ''talos_governance'' [(''u32'', ''proposal_id'')]
           [(''address'', ''voter''), (''symbol'', ''choice''), (''i128'', ''weight'')],
         event_entry ''prop_stat'' ''talos_governance'' [(''u32'', ''proposal_id'')] [(''symbol'', ''status'')]]),
      (''payment'',
        [event_entry ''ep_cmt'' ''talos_dividends'' [(''u32'', ''talos_id'')]
           [(''u64'', ''epoch_id''), (''i128'', ''total''), (''u64'', ''expiry_secs'')],
         event_entry ''div_clm'' ''talos_dividends'' [(''u64'', ''epoch_id''), (''address'', ''patron'')]
           [(''u32'', ''talos_id''), (''i128'', ''amount''), (''symbol'', ''role'')]])]"

section \<open>Decoding\<close>

text \<open>The symbol map: a symbol of two families belongs to the later one.\<close>

definition symbol_family :: "event_catalog \<Rightarrow> string \<Rightarrow> string option" where
  "symbol_family catalog symbol =
     map_of (rev (concat (map (\<lambda>(family, es). map (\<lambda>(s, _). (s, family)) es) catalog))) symbol"

definition catalog_entry :: "event_catalog \<Rightarrow> string \<Rightarrow> string \<Rightarrow> event_descriptor option" where
  "catalog_entry catalog family symbol = (case map_of catalog family of None \<Rightarrow> None | Some es \<Rightarrow> map_of es symbol)"

text \<open>\<open>v[name]\<close>: \<open>None\<close> when it throws.\<close>

definition js_member :: "json \<Rightarrow> string \<Rightarrow> json option option" where
  "js_member v name = map_option (\<lambda>f. f name) (body_fields v)"

text \<open>\<open>String(v)\<close>.\<close>

fun js_String :: "json \<Rightarrow> string" where
  "js_String JNull = ''null''"
| "js_String (JBool b) = (if b then ''true'' else ''false'')"
| "js_String (JNum n) = int_string n"
| "js_String (JStr s) = s"
| "js_String (JArr xs) = js_join '','' (map (\<lambda>x. if x = JNull then [] else js_String x) xs)"
| "js_String (JObj _) = ''[object Object]''"

definition optional_String :: "json option \<Rightarrow> string" where
  "optional_String v = (case v of None \<Rightarrow> ''undefined'' | Some x \<Rightarrow> js_String x)"

text \<open>The loop that compares the types of a tuple with its descriptors; the tuples have the same
  length.\<close>

fun check_types ::
  "(nat \<Rightarrow> string \<Rightarrow> json option \<Rightarrow> mismatch) \<Rightarrow> nat \<Rightarrow> field_descriptor list \<Rightarrow> json list \<Rightarrow> decode_error option" where
  "check_types wrong i (d # ds) (v # vs) =
     (case js_member v ''type'' of
        None \<Rightarrow> Some DecodeThrew
      | Some ty \<Rightarrow> if ty \<noteq> Some (JStr (fd_type d)) then Some (Malformed (wrong i (fd_type d) ty))
                  else check_types wrong (Suc i) ds vs)"
| "check_types wrong i _ _ = None"

definition value_of :: "json \<Rightarrow> json option" where
  "value_of v = (case js_member v ''value'' of None \<Rightarrow> None | Some x \<Rightarrow> x)"

definition read_fields :: "field_descriptor list \<Rightarrow> json list \<Rightarrow> fields" where
  "read_fields ds vs = fold (\<lambda>(d, v) m. AList.update (fd_name d) (value_of v) m) (zip ds vs) []"

definition unsupported_version :: "int \<Rightarrow> fields \<Rightarrow> int option" where
  "unsupported_version maxVersion data =
     (case map_of data ''version'' of Some (Some (JNum n)) \<Rightarrow> if n > maxVersion then Some n else None | _ \<Rightarrow> None)"

definition raw_cursor :: "raw_event \<Rightarrow> event_cursor" where
  "raw_cursor raw = \<lparr>ec_ledger_sequence = re_ledger_sequence raw,
     ec_tx_index_in_ledger = coalesce (re_tx_index_in_ledger raw) 0,
     ec_event_index_in_tx = coalesce (re_event_index_in_tx raw) 0\<rparr>"

definition decodeContractEvent :: "event_catalog \<Rightarrow> int \<Rightarrow> raw_event \<Rightarrow> decode_error + decoded_event" where
  "decodeContractEvent catalog maxVersion raw =
     (case re_topics raw of
        JArr (head # topics) \<Rightarrow>
          (case js_member head ''type'' of
             None \<Rightarrow> Inl DecodeThrew
           | Some ty \<Rightarrow>
               if ty \<noteq> Some (JStr ''symbol'') then Inl (Malformed (HeadNotSymbol ty))
               else case re_data raw of
                 JArr data \<Rightarrow>
                   let eventSymbol = optional_String (value_of head)
                   in (case symbol_family catalog eventSymbol of
                         None \<Rightarrow> Inl (UnknownEvent eventSymbol)
                       | Some family \<Rightarrow>
                      (case catalog_entry catalog family eventSymbol of
                         None \<Rightarrow> Inl (UnknownEvent eventSymbol)
                       | Some entry \<Rightarrow>
                           if length (head # topics) \<noteq> length (ed_topics entry)
                           then Inl (Malformed (TopicCount (length (ed_topics entry)) (length (head # topics))))
                           else case check_types TopicType 0 (ed_topics entry) (head # topics) of Some e \<Rightarrow> Inl e | None \<Rightarrow>
                           if length data \<noteq> length (ed_data entry)
                           then Inl (Malformed (DataCount (length (ed_data entry)) (length data)))
                           else case check_types DataType 0 (ed_data entry) data of Some e \<Rightarrow> Inl e | None \<Rightarrow>
                           let decodedData = read_fields (ed_data entry) data
                           in (case unsupported_version maxVersion decodedData of
                                 Some n \<Rightarrow> Inl (UnsupportedVersion n)
                               | None \<Rightarrow>
                                   Inr \<lparr>de_event = eventSymbol, de_family = family, de_contract = re_contract raw,
                                        de_cursor = raw_cursor raw,
                                        de_topics = read_fields (ed_topics entry) (head # topics),
                                        de_data = decodedData\<rparr>)))
               | _ \<Rightarrow> Inl (Malformed DataNotArray))
      | _ \<Rightarrow> Inl (Malformed TopicsEmpty))"

section \<open>Batches, guards and cursors\<close>

fun decode_batch ::
  "event_catalog \<Rightarrow> int \<Rightarrow> nat \<Rightarrow> raw_event list \<Rightarrow> decoded_event list \<times> (nat \<times> decode_error) list" where
  "decode_batch catalog maxVersion i [] = ([], [])"
| "decode_batch catalog maxVersion i (raw # raws) =
     (let (decoded, errors) = decode_batch catalog maxVersion (Suc i) raws
      in case decodeContractEvent catalog maxVersion raw of
           Inr e \<Rightarrow> (e # decoded, errors)
         | Inl DecodeThrew \<Rightarrow> (decoded, (i, Malformed Rethrown) # errors)
         | Inl err \<Rightarrow> (decoded, (i, err) # errors))"

definition decodeContractEvents ::
  "event_catalog \<Rightarrow> int \<Rightarrow> raw_event list \<Rightarrow> decoded_event list \<times> (nat \<times> decode_error) list" where
  "decodeContractEvents catalog maxVersion raws = decode_batch catalog maxVersion 0 raws"

definition isContractEvent :: "decoded_event \<Rightarrow> string \<Rightarrow> bool" where
  "isContractEvent d event \<longleftrightarrow> de_event d = event"

definition isContractEventFamily :: "decoded_event \<Rightarrow> string \<Rightarrow> bool" where
  "isContractEventFamily d family \<longleftrightarrow> de_family d = family"

definition compareEventCursors :: "event_cursor \<Rightarrow> event_cursor \<Rightarrow> int" where
  "compareEventCursors a b =
     (if ec_ledger_sequence a \<noteq> ec_ledger_sequence b
      then if ec_ledger_sequence a < ec_ledger_sequence b then -1 else 1
      else if ec_tx_index_in_ledger a \<noteq> ec_tx_index_in_ledger b
      then if ec_tx_index_in_ledger a < ec_tx_index_in_ledger b then -1 else 1
      else if ec_event_index_in_tx a \<noteq> ec_event_index_in_tx b
      then if ec_event_index_in_tx a < ec_event_index_in_tx b then -1 else 1
      else 0)"

end
