(* ===== verification/Contract_Decoder_Facts.thy ===== *)
theory Contract_Decoder_Facts
  imports Contract_Decoder
begin

text \<open>
  What the contract event decoder accepts and returns: exactly the raw events that carry the fields of
  their catalog entry, and back; batches account for every input; event cursors are linearly ordered.
\<close>

section \<open>Fields\<close>

lemma js_member_obj [simp]: "js_member (JObj es) name = Some (map_of es name)"
  by (simp add: js_member_def)

lemma update_fresh: "k \<notin> fst ` set m \<Longrightarrow> AList.update k v m = m @ [(k, v)]"
  by (induction m) auto

lemma read_fields_from:
  "length ds = length vs \<Longrightarrow> distinct (map fd_name ds) \<Longrightarrow> fst ` set m \<inter> fd_name ` set ds = {} \<Longrightarrow>
     fold (\<lambda>(d, v) m. AList.update (fd_name d) (value_of v) m) (zip ds vs) m =
       m @ zip (map fd_name ds) (map value_of vs)"
  by (induction ds vs arbitrary: m rule: list_induct2) (auto simp: update_fresh)

lemma read_fields_zip:
  "length ds = length vs \<Longrightarrow> distinct (map fd_name ds) \<Longrightarrow>
     read_fields ds vs = zip (map fd_name ds) (map value_of vs)"
  by (simp add: read_fields_def read_fields_from)

definition of_type :: "field_descriptor \<Rightarrow> json \<Rightarrow> bool" where
  "of_type d v \<longleftrightarrow> js_member v ''type'' = Some (Some (JStr (fd_type d)))"

lemma check_types_None:
  "length ds = length vs \<Longrightarrow> check_types wrong i ds vs = None \<longleftrightarrow> list_all2 of_type ds vs"
  by (induction ds vs arbitrary: i rule: list_induct2) (auto simp: of_type_def split: option.splits)

section \<open>Which raw events decode\<close>

definition entry_ok :: "event_descriptor \<Rightarrow> bool" where
  "entry_ok e \<longleftrightarrow> ed_topics e \<noteq> [] \<and> fd_type (hd (ed_topics e)) = ''symbol'' \<and>
     distinct (map fd_name (ed_topics e)) \<and> distinct (map fd_name (ed_data e))"

definition catalog_ok :: "event_catalog \<Rightarrow> bool" where
  "catalog_ok catalog \<longleftrightarrow> (\<forall>(family, es) \<in> set catalog. \<forall>(s, e) \<in> set es. entry_ok e)"

lemma builtin_catalog_ok: "catalog_ok BUILTIN_EVENT_CATALOG"
  by (simp add: catalog_ok_def BUILTIN_EVENT_CATALOG_def event_entry_def entry_ok_def descriptors_def enumerate_eq_zip)

lemma catalog_entry_ok: "catalog_ok catalog \<Longrightarrow> catalog_entry catalog family s = Some e \<Longrightarrow> entry_ok e"
  by (fastforce simp: catalog_ok_def catalog_entry_def split: option.splits dest!: map_of_SomeD)

text \<open>A decoded event has the fields its catalog entry names, and its symbol in its first topic; a version
  that is a number is at most the supported one.\<close>

definition event_conforms :: "event_catalog \<Rightarrow> int \<Rightarrow> decoded_event \<Rightarrow> event_descriptor \<Rightarrow> bool" where
  "event_conforms catalog maxVersion e entry \<longleftrightarrow>
     symbol_family catalog (de_event e) = Some (de_family e) \<and>
     catalog_entry catalog (de_family e) (de_event e) = Some entry \<and>
     map fst (de_topics e) = map fd_name (ed_topics entry) \<and> map fst (de_data e) = map fd_name (ed_data entry) \<and>
     optional_String (snd (hd (de_topics e))) = de_event e \<and>
     (\<forall>n. map_of (de_data e) ''version'' = Some (Some (JNum n)) \<longrightarrow> n \<le> maxVersion)"

lemma version_supported:
  "unsupported_version maxVersion fs = None \<longleftrightarrow> (\<forall>n. map_of fs ''version'' = Some (Some (JNum n)) \<longrightarrow> n \<le> maxVersion)"
  by (auto simp: unsupported_version_def split: option.splits json.splits)

definition tuple_of :: "json \<Rightarrow> field_descriptor list \<Rightarrow> fields \<Rightarrow> bool" where
  "tuple_of v ds fs \<longleftrightarrow> (\<exists>vs. v = JArr vs \<and> list_all2 of_type ds vs \<and> map value_of vs = map snd fs)"

definition raw_of :: "raw_event \<Rightarrow> decoded_event \<Rightarrow> event_descriptor \<Rightarrow> bool" where
  "raw_of raw e entry \<longleftrightarrow> re_contract raw = de_contract e \<and> raw_cursor raw = de_cursor e \<and>
     tuple_of (re_topics raw) (ed_topics entry) (de_topics e) \<and> tuple_of (re_data raw) (ed_data entry) (de_data e)"

definition encode_tuple :: "field_descriptor list \<Rightarrow> fields \<Rightarrow> json" where
  "encode_tuple ds fs = JArr (map2 (\<lambda>d f. JObj ((''type'', JStr (fd_type d)) #
     (case snd f of None \<Rightarrow> [] | Some v \<Rightarrow> [(''value'', v)]))) ds fs)"

definition encode_event :: "event_descriptor \<Rightarrow> decoded_event \<Rightarrow> raw_event" where
  "encode_event entry e = \<lparr>re_contract = de_contract e, re_topics = encode_tuple (ed_topics entry) (de_topics e),
     re_data = encode_tuple (ed_data entry) (de_data e), re_ledger_sequence = ec_ledger_sequence (de_cursor e),
     re_tx_index_in_ledger = Some (ec_tx_index_in_ledger (de_cursor e)),
     re_event_index_in_tx = Some (ec_event_index_in_tx (de_cursor e)), re_tx_hash = None\<rparr>"

lemma encode_tuple_of:
  assumes "map fst fs = map fd_name ds"
  shows "tuple_of (encode_tuple ds fs) ds fs"
proof -
  have "length ds = length fs" using assms by (metis length_map)
  then show ?thesis
    by (auto simp: tuple_of_def encode_tuple_def list_all2_conv_all_nth of_type_def value_of_def
        intro!: nth_equalityI split: option.split)
qed

lemma encode_raw_of: "event_conforms catalog maxVersion e entry \<Longrightarrow> raw_of (encode_event entry e) e entry"
  by (simp add: raw_of_def encode_event_def raw_cursor_def event_conforms_def encode_tuple_of)

lemma fields_of_tuple:
  assumes "list_all2 of_type ds vs" "map value_of vs = map snd fs" "map fst fs = map fd_name ds" "distinct (map fd_name ds)"
  shows "read_fields ds vs = fs"
  using assms read_fields_zip [OF list_all2_lengthD [OF assms(1)] assms(4)] by (metis zip_map_fst_snd)

lemma decode_complete:
  assumes "catalog_ok catalog" "event_conforms catalog maxVersion e entry" "raw_of raw e entry"
  shows "decodeContractEvent catalog maxVersion raw = Inr e"
proof -
  have ok: "entry_ok entry" using assms(1,2) catalog_entry_ok by (auto simp: event_conforms_def)
  obtain ts where ts: "re_topics raw = JArr ts" "list_all2 of_type (ed_topics entry) ts" "map value_of ts = map snd (de_topics e)"
    using assms(3) by (auto simp: raw_of_def tuple_of_def)
  obtain vs where vs: "re_data raw = JArr vs" "list_all2 of_type (ed_data entry) vs" "map value_of vs = map snd (de_data e)"
    using assms(3) by (auto simp: raw_of_def tuple_of_def)
  obtain d ds where ds: "ed_topics entry = d # ds" "fd_type d = ''symbol''" using ok by (cases "ed_topics entry") (auto simp: entry_ok_def)
  then obtain head topics where head: "ts = head # topics" "of_type d head" using ts(2) by (cases ts) auto
  have ty: "js_member head ''type'' = Some (Some (JStr ''symbol''))" using head(2) ds(2) by (simp add: of_type_def)
  have sym: "optional_String (value_of head) = de_event e"
    using ts(3) head(1) assms(2) by (cases "de_topics e") (auto simp: event_conforms_def)
  have fields: "read_fields (ed_topics entry) ts = de_topics e" "read_fields (ed_data entry) vs = de_data e"
    using ok ts vs assms(2) by (auto simp: event_conforms_def entry_ok_def intro!: fields_of_tuple)
  have len: "length ts = length (ed_topics entry)" "length vs = length (ed_data entry)"
    using ts(2) vs(2) by (auto dest: list_all2_lengthD)
  have types: "check_types TopicType 0 (ed_topics entry) ts = None" "check_types DataType 0 (ed_data entry) vs = None"
    using ts(2) vs(2) len by (simp_all add: check_types_None)
  show ?thesis
    using assms(2,3) ty sym fields len types vs(1) ts(1)
    by (simp add: decodeContractEvent_def head(1) event_conforms_def version_supported [symmetric] raw_of_def Let_def)
qed

lemma decode_sound:
  assumes "catalog_ok catalog" "decodeContractEvent catalog maxVersion raw = Inr e"
  shows "\<exists>entry. event_conforms catalog maxVersion e entry \<and> raw_of raw e entry"
proof -
  obtain head topics where ts: "re_topics raw = JArr (head # topics)" and ty: "js_member head ''type'' = Some (Some (JStr ''symbol''))"
    using assms(2) by (auto simp: decodeContractEvent_def split: json.splits list.splits option.splits if_splits)
  obtain vs where vs: "re_data raw = JArr vs"
    using assms(2) by (auto simp: decodeContractEvent_def ts ty split: json.splits)
  let ?s = "optional_String (value_of head)"
  obtain family entry where f: "symbol_family catalog ?s = Some family" "catalog_entry catalog family ?s = Some entry"
    and len: "length (head # topics) = length (ed_topics entry)" "length vs = length (ed_data entry)"
    and types: "check_types TopicType 0 (ed_topics entry) (head # topics) = None" "check_types DataType 0 (ed_data entry) vs = None"
    and version: "unsupported_version maxVersion (read_fields (ed_data entry) vs) = None"
    and e: "e = \<lparr>de_event = ?s, de_family = family, de_contract = re_contract raw, de_cursor = raw_cursor raw,
      de_topics = read_fields (ed_topics entry) (head # topics), de_data = read_fields (ed_data entry) vs\<rparr>"
    using assms(2) by (auto simp: decodeContractEvent_def ts ty vs Let_def split: option.splits if_splits)
  have ok: "entry_ok entry" using assms(1) f(2) by (rule catalog_entry_ok)
  have fields: "read_fields (ed_topics entry) (head # topics) = zip (map fd_name (ed_topics entry)) (map value_of (head # topics))"
    "read_fields (ed_data entry) vs = zip (map fd_name (ed_data entry)) (map value_of vs)"
    using ok len read_fields_zip [of "ed_topics entry" "head # topics"] read_fields_zip [of "ed_data entry" vs]
    by (simp_all add: entry_ok_def)
  have "snd (hd (de_topics e)) = value_of head"
    using ok len(1) unfolding e fields by (cases "ed_topics entry") (auto simp: entry_ok_def)
  then have "event_conforms catalog maxVersion e entry"
    using f version len by (simp add: event_conforms_def version_supported [symmetric] e fields)
  moreover have "raw_of raw e entry"
    using types len by (simp add: raw_of_def tuple_of_def e ts vs fields check_types_None)
  ultimately show ?thesis by blast
qed

text \<open>C33.
  The decoder is exact and loses nothing: a raw event decodes to e exactly when e has the fields of a
  catalog entry, its version field, if it is a number, is at most the supported version (a version given
  as anything else is not checked), and the raw event carries e's values with the types that entry asks
  for; and every such e is decoded from its own encoding.\<close>

theorem decoding_exact:
  assumes "catalog_ok catalog"
  shows "(decodeContractEvent catalog maxVersion raw = Inr e \<longleftrightarrow>
      (\<exists>entry. event_conforms catalog maxVersion e entry \<and> raw_of raw e entry)) \<and>
    (event_conforms catalog maxVersion e entry \<longrightarrow>
      decodeContractEvent catalog maxVersion (encode_event entry e) = Inr e)"
  using decode_sound [OF assms] decode_complete [OF assms] encode_raw_of by blast

section \<open>Batches and cursors\<close>

lemma batch_accounts:
  "decode_batch catalog maxVersion i raws = (decoded, errors) \<Longrightarrow>
     map Inr decoded = filter (\<lambda>r. \<not> isl r) (map (decodeContractEvent catalog maxVersion) raws) \<and>
     map fst errors = map fst (filter (\<lambda>(n, raw). isl (decodeContractEvent catalog maxVersion raw)) (enumerate i raws))"
proof (induction raws arbitrary: i decoded errors)
  case (Cons raw raws)
  obtain d es where r: "decode_batch catalog maxVersion (Suc i) raws = (d, es)" by force
  then show ?case using Cons.IH [OF r] Cons.prems by (auto split: sum.splits decode_error.splits)
qed simp

text \<open>Every event of a batch is either decoded, in input order, or reported under its index.\<close>

lemma batch_complete:
  assumes "decodeContractEvents catalog maxVersion raws = (decoded, errors)"
  shows "length decoded + length errors = length raws" "sorted_wrt (<) (map fst errors)"
proof -
  note acc = batch_accounts [OF assms [unfolded decodeContractEvents_def]]
  have "length (filter (\<lambda>r. \<not> isl r) (map (decodeContractEvent catalog maxVersion) raws)) +
      length (filter (\<lambda>(n, raw). isl (decodeContractEvent catalog maxVersion raw)) (enumerate i raws)) = length raws" for i
    by (induction raws arbitrary: i) auto
  then show "length decoded + length errors = length raws" using acc by (metis length_map)
  have "sorted_wrt (<) (map fst (filter P (enumerate i raws)))" for P :: "nat \<times> raw_event \<Rightarrow> bool" and i
    by (induction raws arbitrary: i) (auto dest!: in_set_enumerate_eq [THEN iffD1])
  then show "sorted_wrt (<) (map fst errors)" using acc by simp
qed

lemma cursors_linear:
  "compareEventCursors a b = - compareEventCursors b a"
  "compareEventCursors a b = 0 \<longleftrightarrow> a = b"
  "compareEventCursors a b \<le> 0 \<Longrightarrow> compareEventCursors b c \<le> 0 \<Longrightarrow> compareEventCursors a c \<le> 0"
  by (cases a; cases b; cases c; auto simp: compareEventCursors_def split: if_splits)+

section \<open>A vote\<close>

definition scval :: "string \<Rightarrow> json \<Rightarrow> json" where
  "scval ty v = JObj [(''type'', JStr ty), (''value'', v)]"

definition raw_vote :: raw_event where
  "raw_vote = \<lparr>re_contract = ''talos_governance'', re_topics = JArr [scval ''symbol'' (JStr ''vote''), scval ''u32'' (JNum 7)],
     re_data = JArr [scval ''address'' (JStr ''GVOTER''), scval ''symbol'' (JStr ''yes''), scval ''i128'' (JNum 12)],
     re_ledger_sequence = 100, re_tx_index_in_ledger = None, re_event_index_in_tx = Some 2, re_tx_hash = None\<rparr>"

definition decoded_vote :: decoded_event where
  "decoded_vote = \<lparr>de_event = ''vote'', de_family = ''governance'', de_contract = ''talos_governance'',
     de_cursor = \<lparr>ec_ledger_sequence = 100, ec_tx_index_in_ledger = 0, ec_event_index_in_tx = 2\<rparr>,
     de_topics = [(''event'', Some (JStr ''vote'')), (''proposal_id'', Some (JNum 7))],
     de_data = [(''voter'', Some (JStr ''GVOTER'')), (''choice'', Some (JStr ''yes'')), (''weight'', Some (JNum 12))]\<rparr>"

definition raw_creation :: "int \<Rightarrow> raw_event" where
  "raw_creation version = \<lparr>re_contract = ''talos_registry'', re_topics = JArr [scval ''symbol'' (JStr ''tls_crt2''), scval ''address'' (JStr ''GC'')],
     re_data = JArr [scval ''u32'' (JNum version), scval ''u32'' (JNum 7), scval ''string'' (JStr ''n''), scval ''string'' (JStr ''c'')],
     re_ledger_sequence = 1, re_tx_index_in_ledger = None, re_event_index_in_tx = None, re_tx_hash = None\<rparr>"

theorem decoding_exact_witness:
  "decodeContractEvent BUILTIN_EVENT_CATALOG 1 raw_vote = Inr decoded_vote \<and>
   (\<exists>entry. decodeContractEvent BUILTIN_EVENT_CATALOG 1 (encode_event entry decoded_vote) = Inr decoded_vote) \<and>
   \<not> (\<exists>e entry. raw_of (raw_creation 2) e entry \<and> event_conforms BUILTIN_EVENT_CATALOG 1 e entry)"
proof -
  have run: "decodeContractEvent BUILTIN_EVENT_CATALOG 1 raw_vote = Inr decoded_vote"
    "decodeContractEvent BUILTIN_EVENT_CATALOG 1 (raw_creation 2) = Inl (UnsupportedVersion 2)" by code_simp+
  then show ?thesis
    using decoding_exact [OF builtin_catalog_ok, of 1 raw_vote decoded_vote]
      decoding_exact [OF builtin_catalog_ok, of 1 _ decoded_vote] decoding_exact [OF builtin_catalog_ok, of 1 "raw_creation 2"]
    by (metis Inl_Inr_False)
qed

text \<open>The version gate looks at numbers only: a version that arrives as text passes it.\<close>

lemma text_version_accepted:
  "\<exists>e. decodeContractEvent BUILTIN_EVENT_CATALOG 1
     \<lparr>re_contract = ''c'', re_topics = JArr [scval ''symbol'' (JStr ''tls_crt2''), scval ''address'' (JStr ''G'')],
      re_data = JArr [scval ''u32'' (JStr ''9''), scval ''u32'' (JNum 1), scval ''string'' (JStr ''n''), scval ''string'' (JStr ''c'')],
      re_ledger_sequence = 1, re_tx_index_in_ledger = None, re_event_index_in_tx = None, re_tx_hash = None\<rparr> = Inr e \<and>
     map_of (de_data e) ''version'' = Some (Some (JStr ''9''))"
  (is "\<exists>e. ?run = Inr e \<and> ?P e")
proof -
  have "case ?run of Inr e \<Rightarrow> ?P e | Inl _ \<Rightarrow> False" by code_simp
  then show ?thesis by (auto split: sum.splits)
qed

end
