(* ===== verification/Event_Indexer.thy ===== *)
theory Event_Indexer
  imports Contract_Decoder
begin

text \<open>
  The contract event indexer (web/src/lib/contract-events/indexer.ts) and the listing of indexed events
  (web/src/lib/contract-events/store.ts).  The Soroban RPC server, the parsing of its timestamps and
  the failures of single INSERTs are parameters; a poll that is interrupted between its statements
  leaves the state of the statements already run.
\<close>

section \<open>State\<close>

text \<open>A row of tls_contract_events; \<open>cv_topics\<close> and \<open>cv_data\<close> are the JSON columns.\<close>

record contract_row =
  cv_id :: string
  cv_contractId :: string
  cv_ledger :: int
  cv_ledgerClosedAt :: "string option"
  cv_txHash :: string
  cv_topic :: string
  cv_topics :: "json option"
  cv_data :: "json option"
  cv_decodedPayload :: "decoded_event option"
  cv_eventVersion :: "int option"

record index_state =
  ix_events :: "contract_row list"
  ix_cursors :: "(string \<times> int) list"

text \<open>An item of a getEvents response.\<close>

record rpc_event =
  rp_id :: string
  rp_ledger :: int
  rp_ledgerClosedAt :: "string option"
  rp_contractId :: string
  rp_txHash :: "string option"
  rp_topic :: "json option"
  rp_value :: "json option"
  rp_topics :: "json option"
  rp_data :: "json option"
  rp_tx_index_in_ledger :: "int option"
  rp_event_index_in_tx :: "int option"

record indexer_config =
  ic_cursorId :: string
  ic_defaultStartLedger :: int
  ic_batchLimit :: int

definition getMonitoredContractIds :: "string option list \<Rightarrow> string list" where
  "getMonitoredContractIds ids = concat (map (\<lambda>i. case i of Some s \<Rightarrow> if js_trim s \<noteq> [] then [s] else [] | None \<Rightarrow> []) ids)"

definition getPersistedCursor :: "string \<Rightarrow> index_state \<Rightarrow> int option" where
  "getPersistedCursor cursorId st = map_of (ix_cursors st) cursorId"

definition saveCursor :: "int \<Rightarrow> string \<Rightarrow> index_state \<Rightarrow> index_state" where
  "saveCursor lastLedger cursorId st = st\<lparr>ix_cursors := AList.update cursorId lastLedger (ix_cursors st)\<rparr>"

section \<open>Normalization\<close>

text \<open>Whether a value is a non-empty array whose head is an object with a \<open>type\<close>; \<open>None\<close> when the test
  throws, on a head that is null.\<close>

definition typed_array :: "json option \<Rightarrow> bool option" where
  "typed_array v =
     (case v of
        Some (JArr (JNull # _)) \<Rightarrow> None
      | Some (JArr (JObj es # _)) \<Rightarrow> Some (map_of es ''type'' \<noteq> None)
      | _ \<Rightarrow> Some False)"

fun is_array :: "json option \<Rightarrow> bool" where
  "is_array (Some (JArr _)) \<longleftrightarrow> True"
| "is_array _ \<longleftrightarrow> False"

definition normalizeRpcEvent :: "rpc_event \<Rightarrow> raw_event option" where
  "normalizeRpcEvent raw =
     (let chosen = (case typed_array (rp_topics raw) of
                      None \<Rightarrow> None
                    | Some True \<Rightarrow> rp_topics raw
                    | Some False \<Rightarrow> (case typed_array (rp_topic raw) of
                        None \<Rightarrow> None | Some True \<Rightarrow> rp_topic raw | Some False \<Rightarrow> None))
      in case chosen of
           None \<Rightarrow> None
         | Some topics \<Rightarrow>
             Some \<lparr>re_contract = rp_contractId raw, re_topics = topics,
                   re_data = (if is_array (rp_data raw) then the (rp_data raw)
                              else if is_array (rp_value raw) then the (rp_value raw) else JArr []),
                   re_ledger_sequence = rp_ledger raw,
                   re_tx_index_in_ledger = Some (coalesce (rp_tx_index_in_ledger raw) 0),
                   re_event_index_in_tx = Some (coalesce (rp_event_index_in_tx raw) 0),
                   re_tx_hash = Some (coalesce (rp_txHash raw) [])\<rparr>)"

section \<open>Ingestion\<close>

text \<open>The row of an event, and whether it counts as skipped; \<open>None\<close> for the row when building it throws,
  on a timestamp that is no date.\<close>

definition head_symbol :: "json \<Rightarrow> string" where
  "head_symbol topics =
     (case topics of JArr (head # _) \<Rightarrow>
        (case value_of head of None \<Rightarrow> ''unknown'' | Some JNull \<Rightarrow> ''unknown'' | Some v \<Rightarrow> js_String v)
      | _ \<Rightarrow> ''unknown'')"

definition decode_of :: "raw_event option \<Rightarrow> decoded_event option" where
  "decode_of normalized =
     (case normalized of
        None \<Rightarrow> None
      | Some n \<Rightarrow> (case decodeContractEvent BUILTIN_EVENT_CATALOG 1 n of Inl _ \<Rightarrow> None | Inr d \<Rightarrow> Some d))"

definition event_version :: "decoded_event option \<Rightarrow> int option" where
  "event_version d =
     (case d of
        None \<Rightarrow> None
      | Some e \<Rightarrow> (case map_of (de_data e) ''version'' of Some (Some (JNum n)) \<Rightarrow> Some n | _ \<Rightarrow> None))"

definition or_else :: "'a option \<Rightarrow> 'a option \<Rightarrow> 'a option" where
  "or_else x y = (case x of None \<Rightarrow> y | Some _ \<Rightarrow> x)"

text \<open>A JSON column: \<open>null\<close> and \<open>undefined\<close> both end as NULL.\<close>

definition non_null :: "json option \<Rightarrow> json option" where
  "non_null v = (if v = Some JNull then None else v)"

definition contract_row_of :: "(string \<Rightarrow> string option) \<Rightarrow> rpc_event \<Rightarrow> contract_row option" where
  "contract_row_of to_iso raw =
     (let normalized = normalizeRpcEvent raw;
          row = (\<lambda>closed. \<lparr>cv_id = rp_id raw, cv_contractId = rp_contractId raw, cv_ledger = rp_ledger raw,
                   cv_ledgerClosedAt = closed, cv_txHash = coalesce (rp_txHash raw) [],
                   cv_topic = (case normalized of None \<Rightarrow> ''unknown'' | Some n \<Rightarrow> head_symbol (re_topics n)),
                   cv_topics = (case normalized of
                      Some n \<Rightarrow> Some (re_topics n)
                    | None \<Rightarrow> or_else (non_null (rp_topics raw)) (non_null (rp_topic raw))),
                   cv_data = (case normalized of
                      Some n \<Rightarrow> Some (re_data n)
                    | None \<Rightarrow> or_else (non_null (rp_data raw)) (non_null (rp_value raw))),
                   cv_decodedPayload = decode_of normalized,
                   cv_eventVersion = event_version (decode_of normalized)\<rparr>)
      in if truthy_str (rp_ledgerClosedAt raw)
         then (case to_iso (the (rp_ledgerClosedAt raw)) of None \<Rightarrow> None | Some s \<Rightarrow> Some (row (Some s)))
         else Some (row None))"

text \<open>\<open>INSERT .. ON CONFLICT (id) DO NOTHING\<close>.\<close>

definition insert_ignore :: "contract_row \<Rightarrow> contract_row list \<Rightarrow> contract_row list" where
  "insert_ignore r t = (if list_ex (\<lambda>x. cv_id x = cv_id r) t then t else t @ [r])"

record ingest_counts =
  ig_stored :: nat
  ig_skipped :: nat
  ig_maxLedgerSeen :: int

text \<open>One turn of the loop; \<open>refused id\<close> tells whether the database refuses the INSERT of that row.\<close>

definition ingest_one ::
  "(string \<Rightarrow> string option) \<Rightarrow> (string \<Rightarrow> bool) \<Rightarrow> rpc_event \<Rightarrow> contract_row list \<times> ingest_counts \<Rightarrow> contract_row list \<times> ingest_counts" where
  "ingest_one to_iso refused raw acc =
     (let (t, c) = acc;
          c1 = (if rp_ledger raw > ig_maxLedgerSeen c then c\<lparr>ig_maxLedgerSeen := rp_ledger raw\<rparr> else c)
      in if rp_id raw = [] then (t, c1\<lparr>ig_skipped := ig_skipped c1 + 1\<rparr>)
         else let c2 = (if decode_of (normalizeRpcEvent raw) = None then c1\<lparr>ig_skipped := ig_skipped c1 + 1\<rparr> else c1)
              in case contract_row_of to_iso raw of
                   None \<Rightarrow> (t, c2)
                 | Some row \<Rightarrow> if refused (rp_id raw) then (t, c2)
                              else (insert_ignore row t, c2\<lparr>ig_stored := ig_stored c2 + 1\<rparr>))"

record ingest_result =
  ir_processed :: nat
  ir_stored :: nat
  ir_skipped :: nat
  ir_lastLedger :: int

definition ingestEvents ::
  "(string \<Rightarrow> string option) \<Rightarrow> (string \<Rightarrow> bool) \<Rightarrow> rpc_event list \<Rightarrow> string \<Rightarrow> int option \<Rightarrow> index_state
     \<Rightarrow> index_state \<times> ingest_result" where
  "ingestEvents to_iso refused events cursorId newCursorLedger st =
     (let (t, c) = fold (ingest_one to_iso refused) events
            (ix_events st, \<lparr>ig_stored = 0, ig_skipped = 0, ig_maxLedgerSeen = 0\<rparr>);
          targetLedger = (case newCursorLedger of
             Some n \<Rightarrow> Some n
           | None \<Rightarrow> if ig_maxLedgerSeen c > 0 then Some (ig_maxLedgerSeen c) else None);
          st1 = st\<lparr>ix_events := t\<rparr>
      in ((case targetLedger of None \<Rightarrow> st1 | Some n \<Rightarrow> saveCursor n cursorId st1),
          \<lparr>ir_processed = length events, ir_stored = ig_stored c, ir_skipped = ig_skipped c,
           ir_lastLedger = coalesce targetLedger 0\<rparr>))"

section \<open>Polling\<close>

text \<open>\<open>getEvents startLedger limit filter\<close>: the page and the latest ledger, or \<open>None\<close> when the call
  fails.\<close>

type_synonym get_events = "int \<Rightarrow> int \<Rightarrow> string list option \<Rightarrow> (rpc_event list option \<times> int option) option"

definition start_ledger :: "indexer_config \<Rightarrow> index_state \<Rightarrow> int" where
  "start_ledger cfg st =
     (case getPersistedCursor (ic_cursorId cfg) st of Some c \<Rightarrow> c + 1 | None \<Rightarrow> ic_defaultStartLedger cfg)"

definition next_cursor :: "int \<Rightarrow> rpc_event list \<Rightarrow> int option \<Rightarrow> int" where
  "next_cursor startLedger events latestLedger =
     (if truthy_int latestLedger \<and> the latestLedger \<ge> startLedger then the latestLedger
      else if events \<noteq> [] then Max (set (map rp_ledger events))
      else startLedger - 1)"

definition pollContractEventsOnce ::
  "indexer_config \<Rightarrow> string option list \<Rightarrow> get_events \<Rightarrow> (string \<Rightarrow> string option) \<Rightarrow> (string \<Rightarrow> bool) \<Rightarrow> index_state
     \<Rightarrow> index_state \<times> ingest_result option" where
  "pollContractEventsOnce cfg ids getEvents to_iso refused st =
     (let startLedger = start_ledger cfg st;
          contractIds = getMonitoredContractIds ids
      in case getEvents startLedger (ic_batchLimit cfg) (if contractIds \<noteq> [] then Some contractIds else None) of
           None \<Rightarrow> (st, None)
         | Some (page, latestLedger) \<Rightarrow>
             let events = coalesce page [];
                 newCursor = next_cursor startLedger events latestLedger;
                 (st', r) = ingestEvents to_iso refused events (ic_cursorId cfg)
                   (if newCursor > 0 then Some newCursor else None) st
             in (st', Some r))"

section \<open>Listing\<close>

record list_params =
  lp_contractId :: "string option"
  lp_topic :: "string option"
  lp_cursor :: "string option"
  lp_limit :: "int option"

text \<open>\<open>collate\<close> is the database's collation key of an id.\<close>

definition row_before :: "(string \<Rightarrow> 'k::linorder) \<Rightarrow> int \<Rightarrow> string \<Rightarrow> contract_row \<Rightarrow> bool" where
  "row_before collate ledger i r \<longleftrightarrow> cv_ledger r < ledger \<or> (cv_ledger r = ledger \<and> collate (cv_id r) < collate i)"

text \<open>The position a cursor stands for: the ledger and id written in it, or those of the row it names.\<close>

definition cursor_position :: "string \<Rightarrow> contract_row list \<Rightarrow> (int \<times> string) option" where
  "cursor_position cursor t =
     (let written = (if js_includes ''_'' cursor
            then (case js_split (CHR ''_'') cursor of
                    ledgerStr # rest \<Rightarrow> (case js_parseInt ledgerStr of Some l \<Rightarrow> Some (l, js_join ''_'' rest) | None \<Rightarrow> None)
                  | [] \<Rightarrow> None)
            else None)
      in case written of
           Some p \<Rightarrow> Some p
         | None \<Rightarrow> map_option (\<lambda>r. (cv_ledger r, cv_id r)) (sel_one (\<lambda>r. cv_id r = cursor) t))"

definition event_listed :: "(string \<Rightarrow> 'k::linorder) \<Rightarrow> list_params \<Rightarrow> contract_row list \<Rightarrow> contract_row \<Rightarrow> bool" where
  "event_listed collate params t r \<longleftrightarrow>
     (truthy_str (lp_contractId params) \<longrightarrow> cv_contractId r = the (lp_contractId params)) \<and>
     (truthy_str (lp_topic params) \<longrightarrow> cv_topic r = the (lp_topic params)) \<and>
     (truthy_str (lp_cursor params) \<longrightarrow>
        (case cursor_position (the (lp_cursor params)) t of None \<Rightarrow> True | Some (l, i) \<Rightarrow> row_before collate l i r))"

text \<open>ORDER BY ledger DESC, id DESC.\<close>

definition event_order :: "(string \<Rightarrow> 'k::linorder) \<Rightarrow> contract_row list \<Rightarrow> contract_row list" where
  "event_order collate rows = rev (sort_key cv_ledger (sort_key (\<lambda>r. collate (cv_id r)) rows))"

definition cursor_of :: "contract_row \<Rightarrow> string" where
  "cursor_of r = int_string (cv_ledger r) @ ''_'' @ cv_id r"

definition listContractEvents ::
  "(string \<Rightarrow> 'k::linorder) \<Rightarrow> list_params \<Rightarrow> contract_row list \<Rightarrow> contract_row list \<times> string option" where
  "listContractEvents collate params t =
     (let limit = min (max (coalesce (lp_limit params) 50) 1) 100;
          rows = take (nat (limit + 1)) (event_order collate (sel (event_listed collate params t) t));
          hasMore = int (length rows) > limit;
          events = (if hasMore then take (nat limit) rows else rows)
      in (events, if hasMore \<and> events \<noteq> [] then Some (cursor_of (last events)) else None))"

end
