(* ===== verification/Event_Indexer_Facts.thy ===== *)
theory Event_Indexer_Facts
  imports Event_Indexer Contract_Decoder_Facts
begin

text \<open>
  What the contract event indexer keeps: an event gets one chance, the poll whose ledger range it falls
  into; what that page leaves out is never indexed.  The listing of what was indexed is complete.
\<close>

section \<open>One page\<close>

abbreviation row_ids :: "contract_row list \<Rightarrow> string set" where
  "row_ids t \<equiv> cv_id ` set t"

definition storable :: "(string \<Rightarrow> string option) \<Rightarrow> (string \<Rightarrow> bool) \<Rightarrow> rpc_event \<Rightarrow> bool" where
  "storable to_iso refused e \<longleftrightarrow> rp_id e \<noteq> [] \<and> contract_row_of to_iso e \<noteq> None \<and> \<not> refused (rp_id e)"

lemma insert_ignore_ids [simp]: "row_ids (insert_ignore r t) = insert (cv_id r) (row_ids t)"
  by (auto simp: insert_ignore_def list_ex_iff) (metis imageI)

lemma insert_ignore_distinct: "distinct (map cv_id t) \<Longrightarrow> distinct (map cv_id (insert_ignore r t))"
  by (auto simp: insert_ignore_def list_ex_iff)

lemma row_of_id: "contract_row_of to_iso e = Some r \<Longrightarrow> cv_id r = rp_id e \<and> cv_ledger r = rp_ledger e"
  by (auto simp: contract_row_of_def Let_def split: if_splits option.splits)

lemma ingest_one_ids:
  "row_ids (fst (ingest_one to_iso refused e (t, c))) =
     (if storable to_iso refused e then insert (rp_id e) (row_ids t) else row_ids t)"
  by (auto simp: ingest_one_def storable_def Let_def dest: row_of_id split: option.splits)

lemma ingest_ids:
  "row_ids (fst (fold (ingest_one to_iso refused) es (t, c))) =
     row_ids t \<union> rp_id ` {e \<in> set es. storable to_iso refused e}"
proof (induction es arbitrary: t c)
  case (Cons e es)
  obtain t' c' where step: "ingest_one to_iso refused e (t, c) = (t', c')" by force
  then have "row_ids t' = (if storable to_iso refused e then insert (rp_id e) (row_ids t) else row_ids t)"
    using ingest_one_ids [of to_iso refused e t c] by simp
  then show ?case using Cons [of t' c'] by (auto simp: step)
qed simp

lemma ingest_distinct:
  "distinct (map cv_id t) \<Longrightarrow> distinct (map cv_id (fst (fold (ingest_one to_iso refused) es (t, c))))"
proof (induction es arbitrary: t c)
  case (Cons e es)
  obtain t' c' where step: "ingest_one to_iso refused e (t, c) = (t', c')" by force
  then have "distinct (map cv_id t')"
    using Cons.prems by (auto simp: ingest_one_def Let_def insert_ignore_distinct split: if_splits option.splits)
  then show ?case using Cons.IH [of t' c'] by (simp add: step)
qed simp

text \<open>Ingesting a batch again changes nothing, as long as the same rows are refused.\<close>

lemma ingest_again:
  "row_ids (fst (fold (ingest_one to_iso refused) es (t, c))) \<subseteq> row_ids t \<Longrightarrow>
     fst (fold (ingest_one to_iso refused) es (t, c)) = t"
proof (induction es arbitrary: t c)
  case (Cons e es)
  obtain t' c' where step: "ingest_one to_iso refused e (t, c) = (t', c')" by force
  have "row_ids t' \<subseteq> row_ids t" using Cons.prems ingest_ids [of to_iso refused es t' c'] by (auto simp: step)
  then have "t' = t" using step
    by (auto simp: ingest_one_def Let_def insert_ignore_def list_ex_iff split: if_splits option.splits; blast)
  then show ?case using Cons.IH [of t c'] Cons.prems by (simp add: step)
qed simp

section \<open>An honest server\<close>

text \<open>The documented behaviour of getEvents on a chain whose events are \<open>chain\<close> and whose latest closed
  ledger is \<open>latest\<close>: a start beyond it is an error, otherwise the answer is the first \<open>limit\<close> events
  that pass the filter, in chain order.\<close>

definition wanted :: "string list option \<Rightarrow> rpc_event \<Rightarrow> bool" where
  "wanted contracts e \<longleftrightarrow> (case contracts of None \<Rightarrow> True | Some cs \<Rightarrow> rp_contractId e \<in> set cs)"

definition due_events :: "rpc_event list \<Rightarrow> string list option \<Rightarrow> int \<Rightarrow> int \<Rightarrow> rpc_event list" where
  "due_events chain contracts start latest =
     sel (\<lambda>e. start \<le> rp_ledger e \<and> rp_ledger e \<le> latest \<and> wanted contracts e) chain"

text \<open>A server that answers with the due events in order, cut at the batch limit.  The limit of ledgers it
  scans per call and the window it retains, outside which it answers with an error, are not part of it.\<close>

definition honest_rpc :: "rpc_event list \<Rightarrow> int \<Rightarrow> get_events" where
  "honest_rpc chain latest start limit contracts =
     (if latest < start then None
      else Some (Some (take (nat limit) (due_events chain contracts start latest)), Some latest))"

definition filter_of :: "string option list \<Rightarrow> string list option" where
  "filter_of ids = (if getMonitoredContractIds ids \<noteq> [] then Some (getMonitoredContractIds ids) else None)"

text \<open>Polls one after another: each sees the chain up to its own latest ledger and its own refusals.\<close>

definition index_poll ::
  "indexer_config \<Rightarrow> string option list \<Rightarrow> (string \<Rightarrow> string option) \<Rightarrow> rpc_event list
     \<Rightarrow> int \<times> (string \<Rightarrow> bool) \<Rightarrow> index_state \<Rightarrow> index_state" where
  "index_poll cfg ids to_iso chain p st =
     fst (pollContractEventsOnce cfg ids (honest_rpc chain (fst p)) to_iso (snd p) st)"

lemma poll_effect:
  assumes "start_ledger cfg st \<le> latest" "0 < start_ledger cfg st"
    "page = take (nat (ic_batchLimit cfg)) (due_events chain (filter_of ids) (start_ledger cfg st) latest)"
  shows "row_ids (ix_events (index_poll cfg ids to_iso chain (latest, refused) st)) =
      row_ids (ix_events st) \<union> rp_id ` {e \<in> set page. storable to_iso refused e}"
    "start_ledger cfg (index_poll cfg ids to_iso chain (latest, refused) st) = latest + 1"
proof -
  have "index_poll cfg ids to_iso chain (latest, refused) st =
      fst (ingestEvents to_iso refused page (ic_cursorId cfg) (Some latest) st)"
    using assms(1,2)
    by (simp add: index_poll_def pollContractEventsOnce_def honest_rpc_def assms(3) filter_of_def next_cursor_def
        Let_def case_prod_beta)
  then show "row_ids (ix_events (index_poll cfg ids to_iso chain (latest, refused) st)) =
      row_ids (ix_events st) \<union> rp_id ` {e \<in> set page. storable to_iso refused e}"
    "start_ledger cfg (index_poll cfg ids to_iso chain (latest, refused) st) = latest + 1"
    by (simp_all add: ingestEvents_def saveCursor_def Let_def case_prod_beta ingest_ids start_ledger_def
        getPersistedCursor_def update_conv)
qed

lemma poll_early:
  "latest < start_ledger cfg st \<Longrightarrow> index_poll cfg ids to_iso chain (latest, refused) st = st"
  by (simp add: index_poll_def pollContractEventsOnce_def honest_rpc_def Let_def)

lemma polls_never_look_back:
  assumes "0 < start_ledger cfg st" "distinct (map rp_id chain)" "e \<in> set chain" "rp_ledger e < start_ledger cfg st"
  shows "start_ledger cfg st \<le> start_ledger cfg (fold (index_poll cfg ids to_iso chain) ps st) \<and>
    (rp_id e \<in> row_ids (ix_events (fold (index_poll cfg ids to_iso chain) ps st)) \<longleftrightarrow> rp_id e \<in> row_ids (ix_events st))"
  using assms
proof (induction ps arbitrary: st)
  case (Cons p ps)
  obtain latest refused where p: "p = (latest, refused)" by force
  let ?st = "index_poll cfg ids to_iso chain p st"
  have "start_ledger cfg st \<le> start_ledger cfg ?st \<and>
    (rp_id e \<in> row_ids (ix_events ?st) \<longleftrightarrow> rp_id e \<in> row_ids (ix_events st))"
  proof (cases "latest < start_ledger cfg st")
    case True
    then show ?thesis by (simp add: p poll_early)
  next
    case False
    then have "start_ledger cfg st \<le> latest" by simp
    note eff = poll_effect [OF this Cons.prems(1) refl, of ids to_iso chain refused]
    have "rp_id e \<noteq> rp_id x" if "x \<in> set (due_events chain (filter_of ids) (start_ledger cfg st) latest)" for x
    proof
      assume "rp_id e = rp_id x"
      moreover have "x \<in> set chain" "start_ledger cfg st \<le> rp_ledger x" using that by (auto simp: due_events_def)
      ultimately show False using distinct_key_unique [OF Cons.prems(2,3)] Cons.prems(4) by auto
    qed
    then have "rp_id e \<notin> rp_id ` {e \<in> set (take (nat (ic_batchLimit cfg))
        (due_events chain (filter_of ids) (start_ledger cfg st) latest)). storable to_iso refused e}"
      by (blast dest: in_set_takeD)
    then show ?thesis using eff \<open>start_ledger cfg st \<le> latest\<close> by (simp add: p)
  qed
  then show ?case using Cons.IH [of ?st] Cons.prems by auto
qed simp

text \<open>C32.
  An event gets one chance: against a server that behaves as documented, an event that falls into the
  ledger range of a poll is in the index after any number of later polls exactly when it was there
  before or was among the first batchLimit events of that page and its row could be stored; what the
  page limit cut off or a failed insert dropped is skipped for good, because the cursor moves to the
  latest ledger all the same.\<close>

theorem events_get_one_chance:
  assumes "distinct (map rp_id chain)" "0 < start_ledger cfg st" "start_ledger cfg st \<le> latest"
    "due = due_events chain (filter_of ids) (start_ledger cfg st) latest" "e \<in> set due"
    "st' = fold (index_poll cfg ids to_iso chain) later (index_poll cfg ids to_iso chain (latest, refused) st)"
  shows "rp_id e \<in> row_ids (ix_events st') \<longleftrightarrow>
    rp_id e \<in> row_ids (ix_events st) \<or> (e \<in> set (take (nat (ic_batchLimit cfg)) due) \<and> storable to_iso refused e)"
proof -
  let ?st1 = "index_poll cfg ids to_iso chain (latest, refused) st"
  have e: "e \<in> set chain" "rp_ledger e \<le> latest" using assms(4,5) by (auto simp: due_events_def)
  note eff = poll_effect [OF assms(3,2) refl, of ids to_iso chain refused, folded assms(4)]
  have "rp_id e \<in> row_ids (ix_events st') \<longleftrightarrow> rp_id e \<in> row_ids (ix_events ?st1)"
    using polls_never_look_back [of cfg ?st1 chain e ids to_iso later] eff(2) assms(1,2,3,6) e by simp
  moreover have "x = e" if "x \<in> set (take (nat (ic_batchLimit cfg)) due)" "rp_id x = rp_id e" for x
  proof -
    have "x \<in> set chain" using that(1) by (auto simp: assms(4) due_events_def dest: in_set_takeD)
    then show ?thesis using distinct_key_unique [OF assms(1) _ e(1)] that(2) by blast
  qed
  ultimately show ?thesis using eff(1) by auto
qed

section \<open>An index without gaps\<close>

text \<open>The polls go well: no page is cut off and every row of it can be stored.\<close>

fun polls_fit ::
  "indexer_config \<Rightarrow> string option list \<Rightarrow> (string \<Rightarrow> string option) \<Rightarrow> rpc_event list
     \<Rightarrow> (int \<times> (string \<Rightarrow> bool)) list \<Rightarrow> index_state \<Rightarrow> bool" where
  "polls_fit cfg ids to_iso chain [] st \<longleftrightarrow> True"
| "polls_fit cfg ids to_iso chain (p # ps) st \<longleftrightarrow>
     (let due = due_events chain (filter_of ids) (start_ledger cfg st) (fst p)
      in length due \<le> nat (ic_batchLimit cfg) \<and> list_all (storable to_iso (snd p)) due) \<and>
     polls_fit cfg ids to_iso chain ps (index_poll cfg ids to_iso chain p st)"

definition no_gaps :: "indexer_config \<Rightarrow> string option list \<Rightarrow> rpc_event list \<Rightarrow> index_state \<Rightarrow> bool" where
  "no_gaps cfg ids chain st \<longleftrightarrow>
     (\<forall>e \<in> set chain. wanted (filter_of ids) e \<and> ic_defaultStartLedger cfg \<le> rp_ledger e \<and> rp_ledger e < start_ledger cfg st
        \<longrightarrow> rp_id e \<in> row_ids (ix_events st))"

lemma poll_no_gaps:
  assumes "no_gaps cfg ids chain st" "0 < start_ledger cfg st" "polls_fit cfg ids to_iso chain [p] st"
  shows "no_gaps cfg ids chain (index_poll cfg ids to_iso chain p st) \<and>
    0 < start_ledger cfg (index_poll cfg ids to_iso chain p st)"
proof -
  obtain latest refused where p: "p = (latest, refused)" by force
  show ?thesis
  proof (cases "latest < start_ledger cfg st")
    case True
    then show ?thesis using assms(1,2) by (simp add: p poll_early)
  next
    case False
    then have "start_ledger cfg st \<le> latest" by simp
    note eff = poll_effect [OF this assms(2) refl, of ids to_iso chain refused]
    have fits: "take (nat (ic_batchLimit cfg)) (due_events chain (filter_of ids) (start_ledger cfg st) latest) =
        due_events chain (filter_of ids) (start_ledger cfg st) latest"
      "\<forall>e \<in> set (due_events chain (filter_of ids) (start_ledger cfg st) latest). storable to_iso refused e"
      using assms(3) by (simp_all add: p Let_def list_all_iff)
    have "rp_id e \<in> row_ids (ix_events (index_poll cfg ids to_iso chain p st))"
      if e: "e \<in> set chain" "wanted (filter_of ids) e" "ic_defaultStartLedger cfg \<le> rp_ledger e" "rp_ledger e \<le> latest" for e
    proof (cases "rp_ledger e < start_ledger cfg st")
      case True
      then show ?thesis using assms(1) e eff(1) by (auto simp: no_gaps_def p)
    next
      case False
      then have "e \<in> set (due_events chain (filter_of ids) (start_ledger cfg st) latest)"
        using e by (simp add: due_events_def)
      then show ?thesis using eff(1) fits by (auto simp: p)
    qed
    then show ?thesis using eff(2) \<open>start_ledger cfg st \<le> latest\<close> assms(2) by (auto simp: no_gaps_def p)
  qed
qed

text \<open>While every page fits the batch limit and every row can be stored, the index has no gap: it holds every
  event of the monitored contracts from the configured start up to the cursor, whatever the pace at which
  the polls follow the chain.\<close>

theorem index_without_gaps:
  assumes "no_gaps cfg ids chain st" "0 < start_ledger cfg st" "polls_fit cfg ids to_iso chain ps st"
  shows "no_gaps cfg ids chain (fold (index_poll cfg ids to_iso chain) ps st)"
  using assms
proof (induction ps arbitrary: st)
  case (Cons p ps)
  have "polls_fit cfg ids to_iso chain [p] st" using Cons.prems(3) by simp
  from poll_no_gaps [OF Cons.prems(1,2) this] show ?case using Cons.IH Cons.prems(3) by simp
qed simp

section \<open>Paging through the index\<close>

lemma parseInt_digits: "js_parseInt (digits_of n) = Some (int n)"
proof -
  have d: "\<forall>c \<in> set (digits_of n). digit c" by (rule digits_of_digits)
  obtain c cs where c: "digits_of n = c # cs" by (cases "digits_of n") auto
  then have "digit c" using d by simp
  then show ?thesis using d digit_plain [of c] digits_value_digits_of [of n] c
    by (simp add: js_parseInt_def Let_def takeWhile_eq_all_conv [THEN iffD2])
qed

lemma parseInt_int_string: "js_parseInt (int_string i) = Some i"
proof (cases "i < 0")
  case True
  have tw: "takeWhile digit (digits_of (nat (- i))) = digits_of (nat (- i))"
    using digits_of_digits by (simp add: takeWhile_eq_all_conv)
  show ?thesis using True digits_value_digits_of [of "nat (- i)"]
    by (simp add: int_string_def js_parseInt_def js_space_def Let_def tw)
qed (simp add: int_string_def parseInt_digits)

lemma underscore_free: "CHR ''_'' \<notin> set (int_string i)"
  using int_string_chars [of "CHR ''_''" i] by (auto simp: digit_def)

lemma cursor_round_trip: "cursor_position (cursor_of r) t = Some (cv_ledger r, cv_id r)"
proof -
  have "js_split (CHR ''_'') (cursor_of r) = int_string (cv_ledger r) # js_split (CHR ''_'') (cv_id r)"
    by (simp add: cursor_of_def js_split_sep underscore_free)
  moreover have "js_includes ''_'' (cursor_of r)" unfolding cursor_of_def by (rule js_includes_middle)
  ultimately show ?thesis
    using js_join_split [of "CHR ''_''" "cv_id r"] by (simp add: cursor_position_def parseInt_int_string Let_def)
qed

abbreviation all_listed :: "(string \<Rightarrow> 'k::linorder) \<Rightarrow> list_params \<Rightarrow> contract_row list \<Rightarrow> contract_row list" where
  "all_listed collate params t \<equiv> event_order collate (sel (event_listed collate params t) t)"

abbreviation follows :: "(string \<Rightarrow> 'k::linorder) \<Rightarrow> contract_row \<Rightarrow> contract_row \<Rightarrow> bool" where
  "follows collate a b \<equiv> row_before collate (cv_ledger a) (cv_id a) b"

lemma set_event_order [simp]: "set (event_order collate rows) = set rows"
  by (simp add: event_order_def)

lemma filter_event_order: "filter P (event_order collate rows) = event_order collate (filter P rows)"
  by (simp add: event_order_def filter_sort rev_filter [symmetric])

lemma event_order_strict:
  assumes "distinct (map cv_id rows)" "inj_on collate (row_ids rows)"
  shows "sorted_wrt (follows collate) (event_order collate rows)"
proof -
  let ?ys = "sort_key cv_ledger (sort_key (\<lambda>r. collate (cv_id r)) rows)"
  have "distinct (map cv_id ?ys)" using assms(1) by (simp add: distinct_map)
  then have "sorted_wrt (\<lambda>a b. cv_id a \<noteq> cv_id b) ?ys"
    by (simp add: distinct_conv_nth sorted_wrt_iff_nth_less)
  moreover have "sorted_wrt (lex_le cv_ledger (\<lambda>r. collate (cv_id r))) ?ys" by (rule sort_two_columns)
  ultimately have "sorted_wrt (\<lambda>a b. lex_le cv_ledger (\<lambda>r. collate (cv_id r)) a b \<and> cv_id a \<noteq> cv_id b) ?ys"
    by (simp add: sorted_wrt_iff_nth_less)
  then have "sorted_wrt (\<lambda>a b. follows collate b a) ?ys"
    by (rule sorted_wrt_mono_rel [rotated])
      (use assms(2) in \<open>auto simp: lex_le_def row_before_def order_less_le inj_on_def\<close>)
  then show ?thesis by (simp add: event_order_def sorted_wrt_rev)
qed

lemma next_page:
  assumes "l \<in> set (sel (event_listed collate params t) t)"
  shows "sel (event_listed collate (params\<lparr>lp_cursor := Some (cursor_of l)\<rparr>) t) t =
    filter (follows collate l) (sel (event_listed collate params t) t)"
proof -
  have "cursor_of l \<noteq> []" by (simp add: cursor_of_def)
  then have "event_listed collate (params\<lparr>lp_cursor := Some (cursor_of l)\<rparr>) t r \<longleftrightarrow>
      event_listed collate params t r \<and> follows collate l r" for r
    using assms
    by (auto simp: event_listed_def cursor_round_trip row_before_def split: option.splits)
  then show ?thesis by (simp add: filter_filter conj_commute cong: filter_cong)
qed

text \<open>Paging through the indexed events is complete and without repeats, whatever the filters, the page size
  and the order of ids: a page has at most 100 rows, and followed by what its cursor leads to it is the
  listing it was cut from, also where several events share a ledger.\<close>

theorem event_pages_complete:
  assumes "distinct (map cv_id t)" "inj_on collate (row_ids t)" "listContractEvents collate params t = (page, next)"
  shows "length page \<le> 100 \<and> all_listed collate params t = page @
    (case next of None \<Rightarrow> [] | Some c \<Rightarrow> all_listed collate (params\<lparr>lp_cursor := Some c\<rparr>) t)"
proof -
  define n where "n = nat (min (max (coalesce (lp_limit params) 50) 1) 100)"
  let ?rows = "all_listed collate params t"
  have n: "0 < n" "n \<le> 100" "nat (min (max (coalesce (lp_limit params) 50) 1) 100 + 1) = Suc n"
    "min (max (coalesce (lp_limit params) 50) 1) 100 = int n" by (auto simp: n_def)
  have sn: "nat (int n + 1) = Suc n" by simp
  note run = assms(3) [unfolded listContractEvents_def Let_def n(4) sn nat_int page_cut]
  have page: "page = take n ?rows" and nxt: "next = (if n < length ?rows then Some (cursor_of (last page)) else None)"
    using run n(1) by auto
  show ?thesis
  proof (cases "n < length ?rows")
    case False
    then show ?thesis using page nxt n(2) by simp
  next
    case True
    have ne: "take n ?rows \<noteq> []" using n(1) True by auto
    have "last page \<in> set ?rows" using last_in_set [OF ne] unfolding page by (rule in_set_takeD)
    then have "all_listed collate (params\<lparr>lp_cursor := Some (cursor_of (last page))\<rparr>) t = filter (follows collate (last page)) ?rows"
      by (simp add: next_page filter_event_order)
    also have "\<dots> = drop n ?rows"
    proof -
      have "sorted_wrt (follows collate) ?rows"
        using assms(1,2) by (intro event_order_strict distinct_map_filter) (auto simp: inj_on_def)
      then have "filter (follows collate (last (take n ?rows))) (take n ?rows @ drop n ?rows) = drop n ?rows"
        using ne by (intro keyset_rest) (auto simp: row_before_def)
      then show ?thesis by (simp add: page)
    qed
    finally show ?thesis using page nxt True n(2) by simp
  qed
qed

section \<open>Three events in one page of two\<close>

definition sample_event_at :: "string \<Rightarrow> int \<Rightarrow> rpc_event" where
  "sample_event_at i ledger = \<lparr>rp_id = i, rp_ledger = ledger, rp_ledgerClosedAt = None, rp_contractId = ''C1'', rp_txHash = None,
     rp_topic = None, rp_value = None, rp_topics = None, rp_data = None,
     rp_tx_index_in_ledger = None, rp_event_index_in_tx = None\<rparr>"

definition sample_chain :: "rpc_event list" where
  "sample_chain = [sample_event_at ''a'' 5, sample_event_at ''b'' 6, sample_event_at ''c'' 6]"

definition page_of :: "int \<Rightarrow> indexer_config" where
  "page_of n = \<lparr>ic_cursorId = ''default'', ic_defaultStartLedger = 1, ic_batchLimit = n\<rparr>"

definition fresh_index :: index_state where
  "fresh_index = \<lparr>ix_events = [], ix_cursors = []\<rparr>"

lemma sample_polls:
  "start_ledger (page_of n) fresh_index = 1" "filter_of [Some ''C1'', None] = Some [''C1'']"
  "due_events sample_chain (Some [''C1'']) 1 7 = sample_chain" "storable to_iso (\<lambda>i. False) (sample_event_at (x # i) l)"
proof -
  have "js_trim ''C1'' = ''C1''" by (simp add: js_trim_def js_space_def)
  then show "filter_of [Some ''C1'', None] = Some [''C1'']" by (simp add: filter_of_def getMonitoredContractIds_def)
qed (simp_all add: start_ledger_def page_of_def fresh_index_def getPersistedCursor_def due_events_def sample_chain_def
    sample_event_at_def wanted_def storable_def contract_row_of_def Let_def)

theorem events_get_one_chance_witness:
  "let st = fold (index_poll (page_of 2) [Some ''C1'', None] Some sample_chain) [(8, \<lambda>i. False), (9, \<lambda>i. False)]
         (index_poll (page_of 2) [Some ''C1'', None] Some sample_chain (7, \<lambda>i. False) fresh_index)
   in ''b'' \<in> row_ids (ix_events st) \<and> ''c'' \<notin> row_ids (ix_events st)"
proof -
  have ids: "distinct (map rp_id sample_chain)" by (simp add: sample_chain_def sample_event_at_def)
  have start: "0 < start_ledger (page_of 2) fresh_index" "start_ledger (page_of 2) fresh_index \<le> 7" by (simp_all add: sample_polls)
  have due: "sample_chain = due_events sample_chain (filter_of [Some ''C1'', None]) (start_ledger (page_of 2) fresh_index) 7"
    by (simp add: sample_polls)
  note once = events_get_one_chance [OF ids start due _ refl, where refused = "\<lambda>i. False" and to_iso = Some
      and later = "[(8, \<lambda>i. False), (9, \<lambda>i. False)]"]
  show ?thesis
    using once [of "sample_event_at ''b'' 6"] once [of "sample_event_at ''c'' 6"] sample_polls(4)
    by (simp add: sample_chain_def page_of_def fresh_index_def) (simp add: sample_event_at_def numeral_2_eq_2)
qed

theorem index_without_gaps_witness:
  "no_gaps (page_of 10) [Some ''C1'', None] sample_chain
     (fold (index_poll (page_of 10) [Some ''C1'', None] Some sample_chain) [(7, \<lambda>i. False)] fresh_index) \<and>
   start_ledger (page_of 10) (fold (index_poll (page_of 10) [Some ''C1'', None] Some sample_chain) [(7, \<lambda>i. False)] fresh_index) = 8"
proof -
  have "no_gaps (page_of 10) [Some ''C1'', None] sample_chain fresh_index"
    unfolding no_gaps_def sample_polls(1) by (simp add: sample_chain_def sample_event_at_def)
  moreover have fit: "polls_fit (page_of 10) [Some ''C1'', None] Some sample_chain [(7, \<lambda>i. False)] fresh_index"
    by (simp add: sample_polls) (simp add: sample_chain_def page_of_def sample_polls(4))
  moreover have "start_ledger (page_of 10) (fold (index_poll (page_of 10) [Some ''C1'', None] Some sample_chain) [(7, \<lambda>i. False)] fresh_index) = 8"
    using poll_effect(2) [of "page_of 10" fresh_index 7] by (simp add: sample_polls)
  ultimately show ?thesis using index_without_gaps [of "page_of 10" "[Some ''C1'', None]" sample_chain fresh_index, OF _ _ fit]
    by (simp only: sample_polls(1) zero_less_one simp_thms)
qed

definition sample_rows :: "contract_row list" where
  "sample_rows = map (\<lambda>e. the (contract_row_of Some e)) sample_chain"

definition no_params :: list_params where
  "no_params = \<lparr>lp_contractId = None, lp_topic = None, lp_cursor = None, lp_limit = Some 2\<rparr>"

definition by_initial :: "string \<Rightarrow> nat" where "by_initial s = of_char (hd s)"

theorem event_pages_complete_witness:
  "\<exists>page cursor. listContractEvents by_initial no_params sample_rows = (page, Some cursor) \<and> map cv_id page = [''c'', ''b''] \<and>
     map cv_id (all_listed by_initial (no_params\<lparr>lp_cursor := Some cursor\<rparr>) sample_rows) = [''a'']"
proof -
  have rows: "map cv_id sample_rows = [''a'', ''b'', ''c'']" "map cv_ledger sample_rows = [5, 6, 6]" by code_simp+
  from rows(1) obtain a b c where abc: "sample_rows = [a, b, c]" "cv_id a = ''a''" "cv_id b = ''b''" "cv_id c = ''c''" by auto
  have ledgers: "cv_ledger a = 5" "cv_ledger b = 6" "cv_ledger c = 6"
    using rows(2) unfolding abc(1) by auto
  have d: "distinct (map cv_id sample_rows)" "inj_on by_initial (row_ids sample_rows)"
    unfolding abc(1) by (simp_all add: by_initial_def inj_on_def abc)
  have all: "all_listed by_initial no_params sample_rows = [c, b, a]"
    unfolding abc(1) by (simp add: abc(2-4) ledgers event_order_def event_listed_def no_params_def by_initial_def)
  have run: "listContractEvents by_initial no_params sample_rows = ([c, b], Some (cursor_of b))"
    using all by (simp add: listContractEvents_def no_params_def Let_def)
  from event_pages_complete [OF d run] all
  have "all_listed by_initial (no_params\<lparr>lp_cursor := Some (cursor_of b)\<rparr>) sample_rows = [a]" by simp
  with run show ?thesis by (simp add: abc(2-4))
qed

end
