(* ===== verification/Calendar.thy ===== *)
theory Calendar
  imports Prelude
begin

text \<open>
  The UTC calendar of a JavaScript Date (ECMAScript, "Day Number", "Year Number", "Month Number"): a
  day is its number since 1970-01-01, a month counts from 0.  The bounds at the end say that a day
  lies in the month the functions name.
\<close>

definition ms_per_hour :: int where "ms_per_hour = 3600000"
definition ms_per_day :: int where "ms_per_day = 86400000"

section \<open>Years\<close>

definition day_from_year :: "int \<Rightarrow> int" where
  "day_from_year y = 365 * (y - 1970) + (y - 1969) div 4 - (y - 1901) div 100 + (y - 1601) div 400"

text \<open>The mean year is 146097/400 days; the estimate is at most one year off.\<close>

definition year_from_day :: "int \<Rightarrow> int" where
  "year_from_day d =
     (let y = 1970 + (400 * d) div 146097
      in if d < day_from_year y then y - 1 else if day_from_year (y + 1) \<le> d then y + 1 else y)"

lemma day_from_year_mean:
  "146097 * (y - 1970) - 506 \<le> 400 * day_from_year y" "400 * day_from_year y \<le> 146097 * (y - 1970) + 589"
proof -
  define a b c where "a = (y - 1969) div 4" and "b = (y - 1901) div 100" and "c = (y - 1601) div 400"
  have "4 * a \<le> y - 1969" "y - 1969 \<le> 4 * a + 3" "100 * b \<le> y - 1901" "y - 1901 \<le> 100 * b + 99"
    "400 * c \<le> y - 1601" "y - 1601 \<le> 400 * c + 399"
    unfolding a_def b_def c_def by linarith+
  moreover have "day_from_year y = 365 * (y - 1970) + a - b + c"
    by (simp add: day_from_year_def a_def b_def c_def)
  ultimately show "146097 * (y - 1970) - 506 \<le> 400 * day_from_year y"
    "400 * day_from_year y \<le> 146097 * (y - 1970) + 589" by (simp_all add: algebra_simps)
qed

lemma year_from_day_bounds: "day_from_year (year_from_day d) \<le> d" "d < day_from_year (year_from_day d + 1)"
proof -
  define q where "q = (400 * d) div 146097"
  have q: "146097 * q \<le> 400 * d" "400 * d < 146097 * q + 146097" unfolding q_def by linarith+
  have "day_from_year (1970 + q - 1) \<le> d" "d < day_from_year (1970 + q + 2)"
    using q day_from_year_mean(2) [of "1970 + q - 1"] day_from_year_mean(1) [of "1970 + q + 2"] by (simp_all add: algebra_simps)
  then show "day_from_year (year_from_day d) \<le> d" "d < day_from_year (year_from_day d + 1)"
    by (auto simp: year_from_day_def Let_def q_def [symmetric] add.assoc)
qed

section \<open>Months\<close>

definition leap_year :: "int \<Rightarrow> bool" where
  "leap_year y \<longleftrightarrow> y mod 4 = 0 \<and> (y mod 100 \<noteq> 0 \<or> y mod 400 = 0)"

definition month_offsets :: "bool \<Rightarrow> int list" where
  "month_offsets leap =
     (if leap then [0, 31, 60, 91, 121, 152, 182, 213, 244, 274, 305, 335, 366]
      else [0, 31, 59, 90, 120, 151, 181, 212, 243, 273, 304, 334, 365])"

text \<open>The first day of a month, which may run past December.\<close>

definition month_day :: "int \<Rightarrow> nat \<Rightarrow> int" where
  "month_day y m = (let y' = y + int (m div 12) in day_from_year y' + month_offsets (leap_year y') ! (m mod 12))"

definition month_from_day :: "int \<Rightarrow> nat" where
  "month_from_day d =
     (let y = year_from_day d
      in length (takeWhile (\<lambda>k. k \<le> d - day_from_year y) (tl (month_offsets (leap_year y)))))"

text \<open>The day of the month, from 1.\<close>

definition date_from_day :: "int \<Rightarrow> int" where
  "date_from_day d = d - month_day (year_from_day d) (month_from_day d) + 1"

lemma int_succ_div:
  fixes x k :: int
  assumes "0 < k"
  shows "(x + 1) div k = x div k + (if (x + 1) mod k = 0 then 1 else 0)"
proof -
  define q r where "q = (x + 1) div k" and "r = (x + 1) mod k"
  have x: "x = k * q + (r - 1)" "0 \<le> r" "r < k" using assms by (simp_all add: q_def r_def minus_mod_eq_mult_div [symmetric])
  have "x div k = (if r = 0 then q - 1 else q)"
  proof (cases "r = 0")
    case True
    then have "x = k * (q - 1) + (k - 1)" using x by (simp add: algebra_simps)
    then show ?thesis using True assms by (simp add: int_div_pos_eq [of x k "q - 1" "k - 1"])
  qed (use x in \<open>simp add: int_div_pos_eq [of x k q "r - 1"]\<close>)
  then show ?thesis unfolding r_def [symmetric] q_def [symmetric] by simp
qed

lemma year_length: "day_from_year (y + 1) = day_from_year y + (if leap_year y then 366 else 365)"
proof -
  have shift: "y + 1 - 1969 = y - 1969 + 1" "y + 1 - 1901 = y - 1901 + 1" "y + 1 - 1601 = y - 1601 + 1" by simp_all
  have base: "(y - 1969 + 1) mod 4 = y mod 4" "(y - 1901 + 1) mod 100 = y mod 100" "(y - 1601 + 1) mod 400 = y mod 400"
    using mod_mult_self1 [of y "-492" 4] mod_mult_self1 [of y "-19" 100] mod_mult_self1 [of y "-4" 400] by simp_all
  define p q r where "p \<longleftrightarrow> y mod 4 = 0" and "q \<longleftrightarrow> y mod 100 = 0" and "r \<longleftrightarrow> y mod 400 = 0"
  have nested: "r \<Longrightarrow> q" "q \<Longrightarrow> p"
    unfolding p_def q_def r_def by (simp_all add: mod_eq_0_iff_dvd) (auto intro: dvd_trans)
  have div: "(y - 1969 + 1) div 4 = (y - 1969) div 4 + (if p then 1 else 0)"
    "(y - 1901 + 1) div 100 = (y - 1901) div 100 + (if q then 1 else 0)"
    "(y - 1601 + 1) div 400 = (y - 1601) div 400 + (if r then 1 else 0)"
    by (simp_all only: int_succ_div base p_def q_def r_def zero_less_numeral)
  have sum: "365 * (y + 1 - 1970) + (a + (if p then 1 else 0)) - (b + (if q then 1 else 0)) + (c + (if r then 1 else 0)) =
      365 * (y - 1970) + a - b + c + (if p \<and> (\<not> q \<or> r) then 366 else 365)" for a b c :: int
  proof -
    consider "p" "q" "r" | "p" "q" "\<not> r" | "p" "\<not> q" "\<not> r" | "\<not> p" "\<not> q" "\<not> r" using nested by blast
    then show ?thesis by cases simp_all
  qed
  show ?thesis
    unfolding day_from_year_def shift div leap_year_def p_def [symmetric] q_def [symmetric] r_def [symmetric]
    by (rule sum)
qed

lemma takeWhile_sorted_bounds:
  fixes x :: int
  assumes "hd ks \<le> x" "x < last ks" "ks \<noteq> []"
  defines "n \<equiv> length (takeWhile (\<lambda>k. k \<le> x) (tl ks))"
  shows "ks ! n \<le> x" "x < ks ! Suc n" "Suc n < length ks"
proof -
  have lt: "n < length (tl ks)"
  proof (rule ccontr)
    assume "\<not> n < length (tl ks)"
    then have "takeWhile (\<lambda>k. k \<le> x) (tl ks) = tl ks"
      unfolding n_def by (metis takeWhile_eq_take take_all linorder_not_less)
    then have "\<forall>k \<in> set (tl ks). k \<le> x" by (simp add: takeWhile_eq_all_conv)
    moreover have "last ks \<in> insert (hd ks) (set (tl ks))" using assms(3) by (cases ks) auto
    ultimately show False using assms(1,2) by auto
  qed
  then show "Suc n < length ks" by simp
  have "\<not> tl ks ! n \<le> x" using lt unfolding n_def by (rule nth_length_takeWhile)
  then show "x < ks ! Suc n" using lt by (simp add: nth_tl)
  show "ks ! n \<le> x"
  proof (cases n)
    case 0
    then show ?thesis using assms by (simp add: hd_conv_nth)
  next
    case (Suc k)
    then have "takeWhile (\<lambda>k. k \<le> x) (tl ks) ! k \<in> set (takeWhile (\<lambda>k. k \<le> x) (tl ks))"
      by (intro nth_mem) (simp add: n_def)
    then have "tl ks ! k \<le> x" using Suc by (metis n_def lessI set_takeWhileD takeWhile_nth)
    then show ?thesis using Suc lt by (simp add: nth_tl)
  qed
qed

lemma month_offsets_shape [simp]:
  "length (month_offsets l) = 13" "hd (month_offsets l) = 0" "month_offsets l \<noteq> []"
  "last (month_offsets l) = (if l then 366 else 365)" "month_offsets l ! 12 = (if l then 366 else 365)"
  "month_offsets l ! 0 = 0"
  by (simp_all add: month_offsets_def)

lemma month_from_day_bounds:
  "month_day (year_from_day d) (month_from_day d) \<le> d"
  "d < month_day (year_from_day d) (Suc (month_from_day d))"
  "month_from_day d < 12"
proof -
  define y x where "y = year_from_day d" and "x = d - day_from_year y"
  have ks: "hd (month_offsets (leap_year y)) \<le> x" "x < last (month_offsets (leap_year y))"
    using year_from_day_bounds [of d] by (auto simp: x_def y_def year_length split: if_splits)
  note b = takeWhile_sorted_bounds [OF ks month_offsets_shape(3)]
  have m: "length (takeWhile (\<lambda>k. k \<le> x) (tl (month_offsets (leap_year y)))) = month_from_day d"
    by (simp add: month_from_day_def Let_def x_def y_def)
  note b = b [unfolded m]
  show lt: "month_from_day d < 12" using b(3) by simp
  show "month_day (year_from_day d) (month_from_day d) \<le> d"
    using b(1) lt by (simp add: month_day_def y_def [symmetric] x_def)
  show "d < month_day (year_from_day d) (Suc (month_from_day d))"
  proof (cases "Suc (month_from_day d) = 12")
    case True
    then have "d < day_from_year y + month_offsets (leap_year y) ! 12" using b(2) by (simp add: x_def)
    then show ?thesis using True by (simp add: month_day_def y_def [symmetric] year_length)
  next
    case False
    then have "Suc (month_from_day d) < 12" using lt by simp
    then show ?thesis using b(2) by (simp add: month_day_def y_def [symmetric] x_def)
  qed
qed

section \<open>Reading a day back\<close>

lemma day_from_year_less: "y < z \<Longrightarrow> day_from_year y < day_from_year z"
proof (induction "nat (z - y)" arbitrary: z)
  case (Suc n)
  have step: "day_from_year (z - 1) < day_from_year z" using year_length [of "z - 1"] by (simp split: if_splits)
  show ?case
  proof (cases "y = z - 1")
    case False
    then have "n = nat (z - 1 - y)" "y < z - 1" using Suc(2,3) by auto
    then show ?thesis using Suc(1) [of "z - 1"] step by simp
  qed (use step in simp)
qed simp

lemma day_from_year_le: "y \<le> z \<Longrightarrow> day_from_year y \<le> day_from_year z"
  using day_from_year_less [of y z] by (cases "y = z") auto

lemma year_from_day_unique: "day_from_year y \<le> d \<Longrightarrow> d < day_from_year (y + 1) \<Longrightarrow> year_from_day d = y"
  using year_from_day_bounds [of d] day_from_year_le [of "year_from_day d + 1" y] day_from_year_le [of "y + 1" "year_from_day d"]
  by linarith

lemma month_offsets_less: "i < j \<Longrightarrow> j \<le> 12 \<Longrightarrow> month_offsets l ! i < month_offsets l ! j"
proof -
  assume ij: "i < j" "j \<le> 12"
  have "sorted_wrt (<) (month_offsets l)" by (cases l) (simp_all add: month_offsets_def)
  then show ?thesis using ij by (simp add: sorted_wrt_nth_less)
qed

lemma month_offsets_le: "i \<le> j \<Longrightarrow> j \<le> 12 \<Longrightarrow> month_offsets l ! i \<le> month_offsets l ! j"
  using month_offsets_less [of i j l] by (cases "i = j") auto

text \<open>The first day of the next month, also after December.\<close>

lemma month_day_next: "m < 12 \<Longrightarrow> month_day y (Suc m) = day_from_year y + month_offsets (leap_year y) ! Suc m"
  by (cases "Suc m = 12") (auto simp: month_day_def year_length)

lemma month_from_day_unique:
  assumes "month_day y m \<le> d" "d < month_day y (Suc m)" "m < 12"
  shows "year_from_day d = y \<and> month_from_day d = m"
proof -
  have first: "month_day y m = day_from_year y + month_offsets (leap_year y) ! m" using assms(3) by (simp add: month_day_def)
  note last = month_day_next [OF assms(3), of y]
  have "0 \<le> month_offsets (leap_year y) ! m" "month_offsets (leap_year y) ! Suc m \<le> month_offsets (leap_year y) ! 12"
    using month_offsets_le [of 0 m "leap_year y"] month_offsets_le [of "Suc m" 12 "leap_year y"] assms(3) by simp_all
  then have y: "year_from_day d = y"
    using assms(1,2) first last by (intro year_from_day_unique) (auto simp: year_length split: if_splits)
  define k where "k = month_from_day d"
  have k: "day_from_year y + month_offsets (leap_year y) ! k \<le> d" "d < day_from_year y + month_offsets (leap_year y) ! Suc k" "k < 12"
    using month_from_day_bounds [of d] month_day_next [of k y] by (simp_all add: y k_def month_day_def)
  have "\<not> k < m" "\<not> m < k"
    using month_offsets_le [of "Suc k" m "leap_year y"] month_offsets_le [of "Suc m" k "leap_year y"] k assms first last
    by linarith+
  then show ?thesis using y by (simp add: k_def)
qed

lemma date_from_day_bounds: "1 \<le> date_from_day d"
  using month_from_day_bounds(1) [of d] by (simp add: date_from_day_def)

lemma first_of_month: "date_from_day (month_day (year_from_day d) (month_from_day d)) = 1"
  "year_from_day (month_day (year_from_day d) (month_from_day d)) = year_from_day d"
  "month_from_day (month_day (year_from_day d) (month_from_day d)) = month_from_day d"
proof -
  let ?f = "month_day (year_from_day d) (month_from_day d)"
  have "year_from_day ?f = year_from_day d \<and> month_from_day ?f = month_from_day d"
    using month_from_day_bounds [of d] by (intro month_from_day_unique) auto
  then show "date_from_day ?f = 1" "year_from_day ?f = year_from_day d" "month_from_day ?f = month_from_day d"
    by (simp_all add: date_from_day_def)
qed

end
