(* ===== verification/Quota.thy ===== *)
theory Quota
  imports Calendar Api_Auth
begin

text \<open>
  Resource quotas of an agent (web/src/lib/quota.ts, web/src/app/api/talos/[id]/quota/route.ts,
  web/drizzle/0013_add_quota_tables.sql): reset windows, the configuration in force, the counter and
  the two routes.  The timestamps no operation reads are left out.  The increment is one upsert, so
  concurrent checks are sequences of increments with configurations read before.
\<close>

section \<open>Windows\<close>

text \<open>Minutes, seconds and milliseconds are cleared, then the hour, then the day of the month; a size
  that is neither hourly nor daily is monthly.\<close>

definition floorToWindow :: "instant \<Rightarrow> string \<Rightarrow> instant" where
  "floorToWindow date windowSize =
     (if windowSize = ''hourly'' then date div ms_per_hour * ms_per_hour
      else let d = date div ms_per_day
           in if windowSize = ''daily'' then d * ms_per_day
              else (d - (date_from_day d - 1)) * ms_per_day)"

definition nextWindowStart :: "instant \<Rightarrow> string \<Rightarrow> instant" where
  "nextWindowStart windowStart windowSize =
     (if windowSize = ''hourly'' then windowStart + ms_per_hour
      else if windowSize = ''daily'' then windowStart + ms_per_day
      else let d = windowStart div ms_per_day
           in (month_day (year_from_day d) (Suc (month_from_day d)) + (date_from_day d - 1)) * ms_per_day
              + windowStart mod ms_per_day)"

section \<open>Tables\<close>

record quota_config =
  qc_talosId :: "string option"  \<comment> \<open>\<open>None\<close>: the platform default\<close>
  qc_resource :: string
  qc_maxCount :: int
  qc_windowSize :: string
  qc_enabled :: bool
  qc_notes :: "string option"

record quota_usage =
  qu_talosId :: string
  qu_resource :: string
  qu_windowStart :: instant
  qu_count :: int

record quota_db =
  qd_configs :: "quota_config list"
  qd_usage :: "quota_usage list"

record quota_result =
  qr_ok :: bool
  qr_limit :: int
  qr_remaining :: int
  qr_used :: int
  qr_resetAt :: instant
  qr_resource :: string

definition ALL_QUOTA_RESOURCES :: "string list" where
  "ALL_QUOTA_RESOURCES = [''activity_writes'', ''job_writes'', ''revenue_writes'', ''sse_connections'']"

definition max_int4 :: int where "max_int4 = 2147483647"  \<comment> \<open>the largest value of an integer column\<close>

section \<open>Configuration in force\<close>

definition resolveQuotaConfig :: "string \<Rightarrow> string \<Rightarrow> quota_config list \<Rightarrow> quota_config" where
  "resolveQuotaConfig talosId resource configs =
     (let rows = sel (\<lambda>r. qc_resource r = resource \<and> (qc_talosId r = Some talosId \<or> qc_talosId r = None)) configs
      in case List.find (\<lambda>r. qc_talosId r = Some talosId) rows of
           Some agentRow \<Rightarrow> agentRow
         | None \<Rightarrow>
             (case List.find (\<lambda>r. qc_talosId r = None) rows of
                Some platformRow \<Rightarrow> platformRow
              | None \<Rightarrow> \<lparr>qc_talosId = None, qc_resource = resource, qc_maxCount = 10000, qc_windowSize = ''daily'',
                         qc_enabled = False,
                         qc_notes = Some (''No quota config found '' @ [CHR 0x97] @ '' enforcement disabled (safe fallback)'')\<rparr>))"

section \<open>Counter\<close>

definition usage_key :: "string \<Rightarrow> string \<Rightarrow> instant \<Rightarrow> quota_usage \<Rightarrow> bool" where
  "usage_key talosId resource windowStart r \<longleftrightarrow>
     qu_talosId r = talosId \<and> qu_resource r = resource \<and> qu_windowStart r = windowStart"

text \<open>INSERT .. ON CONFLICT (key) DO UPDATE SET count = count + 1 RETURNING count; \<open>None\<close>: the sum
  leaves the range of the column and the statement fails.\<close>

definition upsert_usage :: "string \<Rightarrow> string \<Rightarrow> instant \<Rightarrow> quota_usage list \<Rightarrow> (quota_usage list \<times> int) option" where
  "upsert_usage talosId resource windowStart t =
     (case sel_one (usage_key talosId resource windowStart) t of
        None \<Rightarrow> Some (t @ [\<lparr>qu_talosId = talosId, qu_resource = resource, qu_windowStart = windowStart, qu_count = 1\<rparr>], 1)
      | Some row \<Rightarrow>
          if qu_count row + 1 > max_int4 then None
          else Some (upd (usage_key talosId resource windowStart) (\<lambda>r. r\<lparr>qu_count := qu_count r + 1\<rparr>) t, qu_count row + 1))"

definition quota_window :: "instant \<Rightarrow> quota_config \<Rightarrow> instant" where
  "quota_window now config = floorToWindow now (qc_windowSize config)"

definition quota_outcome :: "quota_config \<Rightarrow> instant \<Rightarrow> string \<Rightarrow> int \<Rightarrow> quota_result" where
  "quota_outcome config now resource used =
     \<lparr>qr_ok = (used \<le> qc_maxCount config), qr_limit = qc_maxCount config,
      qr_remaining = max 0 (qc_maxCount config - used), qr_used = used,
      qr_resetAt = nextWindowStart (quota_window now config) (qc_windowSize config), qr_resource = resource\<rparr>"

text \<open>What follows the reading of the configuration.\<close>

definition consume_quota ::
  "quota_config \<Rightarrow> instant \<Rightarrow> string \<Rightarrow> string \<Rightarrow> quota_usage list \<Rightarrow> (quota_usage list \<times> quota_result) option" where
  "consume_quota config now talosId resource usage =
     (if \<not> qc_enabled config
      then Some (usage, (quota_outcome config now resource 0)\<lparr>qr_ok := True, qr_remaining := qc_maxCount config\<rparr>)
      else map_option (\<lambda>(t, used). (t, quota_outcome config now resource used))
             (upsert_usage talosId resource (quota_window now config) usage))"

definition checkAndIncrementQuota ::
  "instant \<Rightarrow> string \<Rightarrow> string \<Rightarrow> quota_db \<Rightarrow> (quota_db \<times> quota_result) option" where
  "checkAndIncrementQuota now talosId resource st =
     map_option (\<lambda>(t, r). (st\<lparr>qd_usage := t\<rparr>, r))
       (consume_quota (resolveQuotaConfig talosId resource (qd_configs st)) now talosId resource (qd_usage st))"

definition readQuotaUsage :: "instant \<Rightarrow> string \<Rightarrow> string \<Rightarrow> quota_db \<Rightarrow> quota_result" where
  "readQuotaUsage now talosId resource st =
     (let config = resolveQuotaConfig talosId resource (qd_configs st);
          row = sel_one (usage_key talosId resource (quota_window now config)) (qd_usage st)
      in quota_outcome config now resource (coalesce (map_option qu_count row) 0))"

section \<open>Replies\<close>

text \<open>\<open>Math.ceil(x / 1000)\<close>.\<close>

definition ceil_seconds :: "int \<Rightarrow> int" where
  "ceil_seconds x = - ((- x) div 1000)"

definition buildQuotaHeaders :: "quota_result \<Rightarrow> (string \<times> string) list" where
  "buildQuotaHeaders result =
     [(''X-Quota-Limit'', int_string (qr_limit result)),
      (''X-Quota-Remaining'', int_string (qr_remaining result)),
      (''X-Quota-Used'', int_string (qr_used result)),
      (''X-Quota-Reset'', int_string (ceil_seconds (qr_resetAt result))),
      (''X-Quota-Resource'', qr_resource result)]"

record quota_reply =
  qp_status :: int
  qp_headers :: "(string \<times> string) list"
  qp_body :: "(string \<times> json) list"

text \<open>\<open>iso8601\<close> is Date.prototype.toISOString.\<close>

definition quotaExceededResponse :: "(instant \<Rightarrow> string) \<Rightarrow> quota_result \<Rightarrow> quota_reply" where
  "quotaExceededResponse iso8601 result =
     \<lparr>qp_status = 429, qp_headers = (''Content-Type'', ''application/json'') # buildQuotaHeaders result,
      qp_body = [(''error'', JStr ''Quota exceeded''), (''resource'', JStr (qr_resource result)),
        (''limit'', JNum (qr_limit result)), (''resetAt'', JStr (iso8601 (qr_resetAt result)))]\<rparr>"

definition set_header :: "string \<times> string \<Rightarrow> (string \<times> string) list \<Rightarrow> (string \<times> string) list" where
  "set_header h hs = filter (\<lambda>(k, _). k \<noteq> fst h) hs @ [h]"

definition applyQuotaHeaders :: "(string \<times> string) list \<Rightarrow> quota_result \<Rightarrow> (string \<times> string) list" where
  "applyQuotaHeaders headers result = fold set_header (buildQuotaHeaders result) headers"

section \<open>Routes\<close>

record quota_view =
  qv_config :: quota_config
  qv_override :: bool
  qv_usage :: quota_result

definition quota_auth ::
  "(string \<Rightarrow> string) \<Rightarrow> instant \<Rightarrow> string option \<Rightarrow> string \<Rightarrow> talos_row list \<Rightarrow> api_key list \<Rightarrow> api_key list \<times> http_error option" where
  "quota_auth sha256 now header i agents keys =
     (case verifyAgentApiKey sha256 now header i [] agents keys of
        (keys', AuthOk _, _) \<Rightarrow> (keys', None)
      | (keys', AuthDenied e, _) \<Rightarrow> (keys', Some e)
      | (keys', AuthThrew, _) \<Rightarrow> (keys', Some (500, ''Internal server error'')))"

definition get_quotas ::
  "(string \<Rightarrow> string) \<Rightarrow> instant \<Rightarrow> string option \<Rightarrow> string \<Rightarrow> talos_row list \<Rightarrow> api_key list \<Rightarrow> quota_db
     \<Rightarrow> api_key list \<times> (http_error + (string \<times> quota_view) list)" where
  "get_quotas sha256 now header i agents keys st =
     (case quota_auth sha256 now header i agents keys of
        (keys', Some e) \<Rightarrow> (keys', Inl e)
      | (keys', None) \<Rightarrow>
          (case sel_one (\<lambda>a. tl_id a = i) agents of
             None \<Rightarrow> (keys', Inl (404, ''TALOS not found''))
           | Some _ \<Rightarrow>
               let configRows = sel (\<lambda>r. qc_talosId r = Some i \<or> qc_talosId r = None) (qd_configs st)
               in (keys', Inr (map (\<lambda>resource. (resource,
                    \<lparr>qv_config = resolveQuotaConfig i resource (qd_configs st),
                     qv_override = list_ex (\<lambda>r. qc_talosId r = Some i \<and> qc_resource r = resource) configRows,
                     qv_usage = readQuotaUsage now i resource st\<rparr>)) ALL_QUOTA_RESOURCES))))"

record quota_patch =
  qx_resource :: string
  qx_maxCount :: "int option"
  qx_windowSize :: "string option"
  qx_enabled :: "bool option"
  qx_notes :: "string option"

definition validWindowSizes :: "string list" where
  "validWindowSizes = [''hourly'', ''daily'', ''monthly'']"

text \<open>The checks of the body, in their order; a body of null throws in the destructuring.\<close>

definition parse_quota_patch :: "json option \<Rightarrow> http_error + quota_patch" where
  "parse_quota_patch body =
     (case body of
        None \<Rightarrow> Inl (400, ''Invalid JSON body'')
      | Some v \<Rightarrow>
          (case body_fields v of
             None \<Rightarrow> Inl (500, ''Internal server error'')
           | Some field \<Rightarrow>
               (case checked_text (\<lambda>s. s \<in> set ALL_QUOTA_RESOURCES) (field ''resource'') of
                  None \<Rightarrow> Inl (400, ''resource must be one of: '' @ js_join '', '' ALL_QUOTA_RESOURCES)
                | Some resource \<Rightarrow>
                    (case optional_int_field (\<lambda>n. n \<ge> 1) (field ''maxCount'') of
                       None \<Rightarrow> Inl (400, ''maxCount must be a positive integer'')
                     | Some maxCount \<Rightarrow>
                         if field ''windowSize'' \<noteq> None \<and> checked_text (\<lambda>s. s \<in> set validWindowSizes) (field ''windowSize'') = None
                         then Inl (400, ''windowSize must be one of: '' @ js_join '', '' validWindowSizes)
                         else if field ''enabled'' \<noteq> None \<and> (\<forall>b \<in> {True, False}. field ''enabled'' \<noteq> Some (JBool b))
                         then Inl (400, ''enabled must be a boolean'')
                         else Inr \<lparr>qx_resource = resource, qx_maxCount = maxCount,
                                   qx_windowSize = checked_text (\<lambda>_. True) (field ''windowSize''),
                                   qx_enabled = (case field ''enabled'' of Some (JBool b) \<Rightarrow> Some b | _ \<Rightarrow> None),
                                   qx_notes = checked_text (\<lambda>_. True) (field ''notes'')\<rparr>))))"

definition same_config_key :: "quota_config \<Rightarrow> quota_config \<Rightarrow> bool" where
  "same_config_key c r \<longleftrightarrow> qc_talosId r \<noteq> None \<and> qc_talosId r = qc_talosId c \<and> qc_resource r = qc_resource c"

definition upsert_config :: "quota_config \<Rightarrow> quota_config list \<Rightarrow> quota_config list" where
  "upsert_config c t =
     (if list_ex (same_config_key c) t
      then upd (same_config_key c)
             (\<lambda>r. r\<lparr>qc_maxCount := qc_maxCount c, qc_windowSize := qc_windowSize c, qc_enabled := qc_enabled c,
                    qc_notes := qc_notes c\<rparr>) t
      else t @ [c])"

definition patched_config :: "string \<Rightarrow> quota_patch \<Rightarrow> quota_config \<Rightarrow> quota_config" where
  "patched_config i p current =
     \<lparr>qc_talosId = Some i, qc_resource = qx_resource p,
      qc_maxCount = coalesce (qx_maxCount p) (qc_maxCount current),
      qc_windowSize = coalesce (qx_windowSize p) (qc_windowSize current),
      qc_enabled = coalesce (qx_enabled p) (qc_enabled current),
      qc_notes = (case qx_notes p of Some n \<Rightarrow> Some n | None \<Rightarrow> qc_notes current)\<rparr>"

definition patch_quota ::
  "(string \<Rightarrow> string) \<Rightarrow> instant \<Rightarrow> string option \<Rightarrow> string \<Rightarrow> json option \<Rightarrow> talos_row list \<Rightarrow> api_key list \<Rightarrow> quota_db
     \<Rightarrow> api_key list \<times> quota_db \<times> (http_error + quota_view)" where
  "patch_quota sha256 now header i body agents keys st =
     (case quota_auth sha256 now header i agents keys of
        (keys', Some e) \<Rightarrow> (keys', st, Inl e)
      | (keys', None) \<Rightarrow>
          (case parse_quota_patch body of
             Inl e \<Rightarrow> (keys', st, Inl e)
           | Inr p \<Rightarrow>
               let c = patched_config i p (resolveQuotaConfig i (qx_resource p) (qd_configs st))
               in if qc_maxCount c > max_int4 then (keys', st, Inl (500, ''Internal server error''))
                  else
                    let st' = st\<lparr>qd_configs := upsert_config c (qd_configs st)\<rparr>
                    in (keys', st', Inr \<lparr>qv_config = resolveQuotaConfig i (qx_resource p) (qd_configs st'), qv_override = True,
                          qv_usage = readQuotaUsage now i (qx_resource p) st'\<rparr>)))"

end
