(* ===== verification/Quota_Facts.thy ===== *)
theory Quota_Facts
  imports Quota
begin

text \<open>
  What quotas guarantee: the windows of each size partition time, a window grants exactly its limit
  whatever else runs in between, and a patched configuration is the one in force for its agent and
  resource and no other.
\<close>

section \<open>Windows\<close>

lemma div_between:
  fixes t k :: int
  assumes "0 < k"
  shows "a * k \<le> t \<and> t < b * k \<longleftrightarrow> a \<le> t div k \<and> t div k < b"
proof -
  have "t < c * k \<longleftrightarrow> t div k < c" for c
  proof -
    have t: "t = k * (t div k) + t mod k" "0 \<le> t mod k" "t mod k < k" using assms by simp_all
    show ?thesis
    proof
      assume "t < c * k"
      then have "k * (t div k) < k * c" using t(1,2) by (simp only: mult.commute [of c])
      then show "t div k < c" using assms by simp
    next
      assume "t div k < c"
      then have "k * (t div k + 1) \<le> k * c" using assms by simp
      then have "k * (t div k) + k \<le> c * k" by (simp add: algebra_simps)
      then show "t < c * k" using t by linarith
    qed
  qed
  then show ?thesis by (metis linorder_not_less)
qed

lemma window_units [simp]: "0 < ms_per_hour" "0 < ms_per_day" "ms_per_hour \<noteq> 0" "ms_per_day \<noteq> 0"
  by (simp_all add: ms_per_hour_def ms_per_day_def)

text \<open>A window of a fixed length.\<close>

lemma fixed_window:
  fixes k :: int
  assumes "0 < k"
  shows "t div k * k \<le> t \<and> t < t div k * k + k \<and>
    (u div k * k = t div k * k \<longleftrightarrow> t div k * k \<le> u \<and> u < t div k * k + k)"
  using div_between [OF assms, of "t div k" t "t div k + 1"] div_between [OF assms, of "t div k" u "t div k + 1"] assms
  by (simp add: algebra_simps) linarith

text \<open>The windows of each size partition time: an instant lies at or after the start of its window and
  before the start of the next one, and two instants share a window exactly when the second lies
  between these bounds of the first, in leap years and over the turn of the year too.\<close>

theorem windows_partition_time:
  "floorToWindow t windowSize \<le> t \<and> t < nextWindowStart (floorToWindow t windowSize) windowSize \<and>
   (floorToWindow u windowSize = floorToWindow t windowSize \<longleftrightarrow>
      floorToWindow t windowSize \<le> u \<and> u < nextWindowStart (floorToWindow t windowSize) windowSize)"
proof -
  consider "windowSize = ''hourly''" | "windowSize = ''daily''" | "windowSize \<noteq> ''hourly''" "windowSize \<noteq> ''daily''" by blast
  then show ?thesis
  proof cases
    case 3
    define first where "first d = month_day (year_from_day d) (month_from_day d)" for d
    define nxt_day where "nxt_day d = month_day (year_from_day d) (Suc (month_from_day d))" for d
    have floor: "floorToWindow x windowSize = first (x div ms_per_day) * ms_per_day" for x
      using 3 by (simp add: floorToWindow_def Let_def date_from_day_def first_def)
    have nxt: "nextWindowStart (first d * ms_per_day) windowSize = nxt_day d * ms_per_day" for d
      using 3 by (simp add: nextWindowStart_def Let_def first_of_month first_def nxt_day_def)
    have in_month: "first d = first e \<longleftrightarrow> first e \<le> d \<and> d < nxt_day e" for d e
    proof
      assume "first d = first e"
      moreover have "first d \<le> d" "d < nxt_day d"
        using month_from_day_bounds [of d] by (simp_all add: first_def nxt_day_def)
      moreover have "year_from_day d = year_from_day (first d)" "month_from_day d = month_from_day (first d)"
        "year_from_day e = year_from_day (first e)" "month_from_day e = month_from_day (first e)"
        by (simp_all add: first_def first_of_month)
      ultimately show "first e \<le> d \<and> d < nxt_day e" by (simp add: nxt_day_def)
    next
      assume "first e \<le> d \<and> d < nxt_day e"
      then show "first d = first e"
        using month_from_day_unique [of "year_from_day e" "month_from_day e" d] month_from_day_bounds(3) [of e]
        by (simp add: first_def nxt_day_def)
    qed
    have t: "first (t div ms_per_day) * ms_per_day \<le> t \<and> t < nxt_day (t div ms_per_day) * ms_per_day"
      unfolding div_between [OF window_units(2)] using in_month [of "t div ms_per_day" "t div ms_per_day"] by simp
    show ?thesis
      unfolding floor nxt div_between [OF window_units(2)] conj_assoc [symmetric]
      using t [unfolded div_between [OF window_units(2)]] in_month [of "u div ms_per_day" "t div ms_per_day"] by simp
  qed (use fixed_window [of ms_per_hour t u] fixed_window [of ms_per_day t u] in
      \<open>simp_all add: floorToWindow_def nextWindowStart_def Let_def\<close>)
qed

section \<open>Counting\<close>

text \<open>A check whose configuration has been read, as the database sees it among others.\<close>

record quota_call =
  cl_config :: quota_config
  cl_now :: instant
  cl_talosId :: string
  cl_resource :: string

fun quota_run :: "quota_call list \<Rightarrow> quota_usage list \<Rightarrow> quota_result option list" where
  "quota_run [] usage = []"
| "quota_run (c # cs) usage =
     (case consume_quota (cl_config c) (cl_now c) (cl_talosId c) (cl_resource c) usage of
        None \<Rightarrow> None # quota_run cs usage
      | Some (usage', r) \<Rightarrow> Some r # quota_run cs usage')"

definition used_in :: "string \<Rightarrow> string \<Rightarrow> instant \<Rightarrow> quota_usage list \<Rightarrow> int" where
  "used_in i r w usage = coalesce (map_option qu_count (sel_one (usage_key i r w) usage)) 0"

definition counts_for :: "string \<Rightarrow> string \<Rightarrow> instant \<Rightarrow> quota_call \<Rightarrow> bool" where
  "counts_for i r w c \<longleftrightarrow> qc_enabled (cl_config c) \<and> cl_talosId c = i \<and> cl_resource c = r \<and>
     quota_window (cl_now c) (cl_config c) = w"

definition granted_call :: "quota_result option \<Rightarrow> bool" where
  "granted_call res \<longleftrightarrow> (case res of None \<Rightarrow> False | Some r \<Rightarrow> qr_ok r)"

lemma find_upd_map: "(\<And>r. P (f r) = P r) \<Longrightarrow> List.find P (upd Q f t) = map_option (\<lambda>r. if Q r then f r else r) (List.find P t)"
  by (induction t) auto

lemma usage_key_frame [simp]: "usage_key i r w (u\<lparr>qu_count := n\<rparr>) = usage_key i r w u"
  by (simp add: usage_key_def)

lemma upsert_usage_Some:
  assumes "upsert_usage i r w t = Some (t', u)"
  shows "u = used_in i r w t + 1" "used_in i' r' w' t' = used_in i' r' w' t + (if (i', r', w') = (i, r, w) then 1 else 0)"
proof -
  have same: "usage_key i r w x \<and> usage_key i' r' w' x \<Longrightarrow> (i', r', w') = (i, r, w)" for x
    by (auto simp: usage_key_def)
  show "u = used_in i r w t + 1"
    using assms by (auto simp: upsert_usage_def used_in_def split: option.splits if_splits)
  show "used_in i' r' w' t' = used_in i' r' w' t + (if (i', r', w') = (i, r, w) then 1 else 0)"
  proof (cases "sel_one (usage_key i r w) t")
    case None
    then show ?thesis
      using assms by (auto simp: upsert_usage_def used_in_def find_append usage_key_def split: option.splits)
  next
    case (Some row)
    then have "t' = upd (usage_key i r w) (\<lambda>r. r\<lparr>qu_count := qu_count r + 1\<rparr>) t"
      using assms by (simp add: upsert_usage_def split: if_splits)
    then have after: "sel_one (usage_key i' r' w') t' =
        map_option (\<lambda>x. if usage_key i r w x then x\<lparr>qu_count := qu_count x + 1\<rparr> else x) (sel_one (usage_key i' r' w') t)"
      by (simp add: find_upd_map)
    show ?thesis
    proof (cases "sel_one (usage_key i' r' w') t")
      case (Some other)
      then have "usage_key i' r' w' other" by (auto dest: find_SomeD)
      then have "usage_key i r w other \<longleftrightarrow> (i', r', w') = (i, r, w)" using same [of other] by auto
      then show ?thesis using Some after by (simp add: used_in_def)
    qed (use \<open>sel_one (usage_key i r w) t = Some row\<close> after in \<open>auto simp: used_in_def\<close>)
  qed
qed

lemma upsert_usage_None: "upsert_usage i r w t = None \<Longrightarrow> used_in i r w t \<ge> max_int4"
  by (auto simp: upsert_usage_def used_in_def split: option.splits if_splits)

lemma used_in_after:
  "consume_quota (cl_config c) (cl_now c) (cl_talosId c) (cl_resource c) t = Some (t', res) \<Longrightarrow>
   used_in i r w t' = used_in i r w t + (if counts_for i r w c then 1 else 0)"
  by (auto simp: consume_quota_def counts_for_def upsert_usage_Some(2) split: if_splits)

text \<open>C11.
  A window grants exactly its limit: whatever checks of whatever agents, resources, windows and
  configurations the database runs in whatever order, the checks of an agent and a resource in a window
  of limit M that are granted number as many as were made, up to what M leaves of the count at the
  start; neither is a slot granted twice nor is one wasted.\<close>

theorem window_grants_exactly:
  assumes "\<forall>c \<in> set calls. counts_for i r w c \<longrightarrow> qc_maxCount (cl_config c) = M" "M \<le> max_int4"
  shows "length (filter (\<lambda>(c, res). counts_for i r w c \<and> granted_call res) (zip calls (quota_run calls usage))) =
    min (length (filter (counts_for i r w) calls)) (nat (M - used_in i r w usage))"
  using assms(1)
proof (induction calls arbitrary: usage)
  case (Cons c cs)
  show ?case
  proof (cases "consume_quota (cl_config c) (cl_now c) (cl_talosId c) (cl_resource c) usage")
    case None
    then have "upsert_usage i r w usage = None" if "counts_for i r w c"
      using that by (auto simp: consume_quota_def counts_for_def split: if_splits)
    then have "counts_for i r w c \<Longrightarrow> M \<le> used_in i r w usage"
      using upsert_usage_None [of i r w usage] assms(2) by simp
    then show ?thesis using None Cons by (auto simp: granted_call_def)
  next
    case (Some a)
    obtain t' res where a: "a = (t', res)" by force
    note used = used_in_after [OF Some [unfolded a], of i r w]
    have ok: "qr_ok res \<longleftrightarrow> used_in i r w usage < M" if "counts_for i r w c"
      using Some that Cons(2) upsert_usage_Some(1)
      by (fastforce simp: a consume_quota_def counts_for_def quota_outcome_def split: if_splits)
    show ?thesis using Some Cons ok used by (auto simp: a granted_call_def nat_diff_distrib)
  qed
qed simp


section \<open>Configuration\<close>

lemma resolve_cases:
  "resolveQuotaConfig i r configs =
     (case List.find (\<lambda>c. qc_resource c = r \<and> qc_talosId c = Some i) configs of
        Some c \<Rightarrow> c
      | None \<Rightarrow> (case List.find (\<lambda>c. qc_resource c = r \<and> qc_talosId c = None) configs of
          Some c \<Rightarrow> c | None \<Rightarrow> resolveQuotaConfig i r []))"
proof -
  let ?rows = "sel (\<lambda>c. qc_resource c = r \<and> (qc_talosId c = Some i \<or> qc_talosId c = None)) configs"
  have "List.find (\<lambda>c. qc_talosId c = Some i) ?rows = List.find (\<lambda>c. qc_resource c = r \<and> qc_talosId c = Some i) configs"
    "List.find (\<lambda>c. qc_talosId c = None) ?rows = List.find (\<lambda>c. qc_resource c = r \<and> qc_talosId c = None) configs"
    by (auto simp: find_Some_first intro!: arg_cong [where f = first_row] filter_cong)
  then show ?thesis by (simp add: resolveQuotaConfig_def Let_def cong: option.case_cong)
qed

lemma upsert_config_other:
  assumes "\<And>r. P (r\<lparr>qc_maxCount := qc_maxCount c, qc_windowSize := qc_windowSize c, qc_enabled := qc_enabled c,
      qc_notes := qc_notes c\<rparr>) = P r" "\<not> P c" "\<And>r. same_config_key c r \<Longrightarrow> \<not> P r"
  shows "List.find P (upsert_config c t) = List.find P t"
proof -
  have "map_option (\<lambda>r. if same_config_key c r then f r else r) (List.find P t) = List.find P t" for f
    using assms(3) by (cases "List.find P t") (auto dest: find_SomeD)
  then show ?thesis using assms by (simp add: upsert_config_def find_upd_map find_append split: option.split)
qed

lemma upsert_config_same:
  assumes "qc_talosId c = Some i" "qc_resource c = r"
  shows "List.find (\<lambda>d. qc_resource d = r \<and> qc_talosId d = Some i) (upsert_config c t) = Some c"
proof -
  have key: "same_config_key c = (\<lambda>d. qc_resource d = r \<and> qc_talosId d = Some i)"
    using assms by (auto simp: same_config_key_def)
  show ?thesis
  proof (cases "list_ex (same_config_key c) t")
    case True
    then obtain d where d: "List.find (\<lambda>d. qc_resource d = r \<and> qc_talosId d = Some i) t = Some d"
      by (cases "List.find (\<lambda>d. qc_resource d = r \<and> qc_talosId d = Some i) t") (auto simp: key find_None_iff list_ex_iff)
    have "qc_resource d = r" "qc_talosId d = Some i" using d by (auto dest: find_SomeD)
    then show ?thesis using True d assms by (simp add: upsert_config_def find_upd_map key)
  next
    case False
    then have "List.find (\<lambda>d. qc_resource d = r \<and> qc_talosId d = Some i) t = None"
      by (simp add: find_None_iff key list_ex_iff)
    then show ?thesis using False assms by (simp add: upsert_config_def find_append)
  qed
qed

text \<open>A patched configuration takes effect, alone: after a successful request the configuration in force
  for the agent and the resource is the request's fields over the one in force before, the reply
  shows it, and the configuration in force for every other agent or resource and all the counters are
  what they were.\<close>

theorem patch_in_force:
  assumes "patch_quota sha256 now header i body agents keys st = (keys', st', Inr v)"
  shows "\<exists>p. parse_quota_patch body = Inr p \<and>
    resolveQuotaConfig i (qx_resource p) (qd_configs st') =
      patched_config i p (resolveQuotaConfig i (qx_resource p) (qd_configs st)) \<and>
    qv_config v = resolveQuotaConfig i (qx_resource p) (qd_configs st') \<and>
    (\<forall>j r. (j, r) \<noteq> (i, qx_resource p) \<longrightarrow>
      resolveQuotaConfig j r (qd_configs st') = resolveQuotaConfig j r (qd_configs st)) \<and>
    qd_usage st' = qd_usage st"
proof -
  obtain p where p: "parse_quota_patch body = Inr p"
    using assms by (auto simp: patch_quota_def split: prod.splits option.splits sum.splits)
  define c where "c = patched_config i p (resolveQuotaConfig i (qx_resource p) (qd_configs st))"
  have st': "st' = st\<lparr>qd_configs := upsert_config c (qd_configs st)\<rparr>"
    and v: "qv_config v = resolveQuotaConfig i (qx_resource p) (qd_configs st')"
    using assms by (auto simp: patch_quota_def p Let_def c_def split: prod.splits option.splits if_splits)
  have c: "qc_talosId c = Some i" "qc_resource c = qx_resource p" by (simp_all add: c_def patched_config_def)
  have "resolveQuotaConfig i (qx_resource p) (qd_configs st') = c"
    using upsert_config_same [OF c] by (simp add: st' resolve_cases [of i])
  moreover have "resolveQuotaConfig j r (qd_configs st') = resolveQuotaConfig j r (qd_configs st)"
    if "(j, r) \<noteq> (i, qx_resource p)" for j r
  proof -
    have "List.find (\<lambda>d. qc_resource d = r \<and> qc_talosId d = Some j) (upsert_config c t) =
        List.find (\<lambda>d. qc_resource d = r \<and> qc_talosId d = Some j) t"
      "List.find (\<lambda>d. qc_resource d = r \<and> qc_talosId d = None) (upsert_config c t) =
        List.find (\<lambda>d. qc_resource d = r \<and> qc_talosId d = None) t" for t
      using that c by (auto simp: same_config_key_def intro!: upsert_config_other)
    then have "resolveQuotaConfig j r (upsert_config c t) = resolveQuotaConfig j r t" for t
      by (simp only: resolve_cases [of j r "upsert_config c t"] resolve_cases [of j r t])
    then show ?thesis by (simp add: st')
  qed
  ultimately show ?thesis using p v st' by (auto simp: c_def)
qed


section \<open>Samples\<close>

definition platform_quota :: quota_config where
  "platform_quota = \<lparr>qc_talosId = None, qc_resource = ''job_writes'', qc_maxCount = 2, qc_windowSize = ''daily'',
     qc_enabled = True, qc_notes = None\<rparr>"

definition quota_call_at :: "instant \<Rightarrow> string \<Rightarrow> quota_call" where
  "quota_call_at now i = \<lparr>cl_config = platform_quota, cl_now = now, cl_talosId = i, cl_resource = ''job_writes''\<rparr>"

definition sample_calls :: "quota_call list" where
  "sample_calls = [quota_call_at 5 ''t1'', quota_call_at 6 ''t2'', quota_call_at 7 ''t1'', quota_call_at 8 ''t1'', quota_call_at 86400001 ''t1'']"

theorem window_grants_exactly_witness:
  "length (filter (\<lambda>(c, res). counts_for ''t1'' ''job_writes'' 0 c \<and> granted_call res)
     (zip sample_calls (quota_run sample_calls []))) = 2"
proof -
  have all: "\<forall>c \<in> set sample_calls. counts_for ''t1'' ''job_writes'' 0 c \<longrightarrow> qc_maxCount (cl_config c) = 2"
    by (simp add: sample_calls_def quota_call_at_def platform_quota_def)
  have "length (filter (counts_for ''t1'' ''job_writes'' 0) sample_calls) = 3" by code_simp
  then show ?thesis
    using window_grants_exactly [OF all, of "[]"] by (simp add: max_int4_def used_in_def)
qed

definition sample_quotas :: quota_db where
  "sample_quotas = \<lparr>qd_configs = [platform_quota], qd_usage = []\<rparr>"

definition disabling_patch :: json where
  "disabling_patch = JObj [(''resource'', JStr ''job_writes''), (''enabled'', JBool False)]"

definition patched_sample :: "api_key list \<times> quota_db \<times> (http_error + quota_view)" where
  "patched_sample = patch_quota mark_sha 4000 (Some ''Bearer tak_1'') ''t1'' (Some disabling_patch) [sample_talos] [sample_key] sample_quotas"

theorem patch_in_force_witness:
  "(case patched_sample of
      (_, st', Inr v) \<Rightarrow> qc_enabled (resolveQuotaConfig ''t1'' ''job_writes'' (qd_configs st')) = False \<and>
        resolveQuotaConfig ''t2'' ''job_writes'' (qd_configs st') = platform_quota
    | _ \<Rightarrow> False)"
proof -
  have ok: "case patched_sample of (_, _, Inr v) \<Rightarrow> True | _ \<Rightarrow> False" by code_simp
  then obtain keys' st' v where run: "patched_sample = (keys', st', Inr v)"
    by (auto split: prod.splits sum.splits)
  have p: "parse_quota_patch (Some disabling_patch) =
      Inr \<lparr>qx_resource = ''job_writes'', qx_maxCount = None, qx_windowSize = None, qx_enabled = Some False, qx_notes = None\<rparr>"
    by code_simp
  have before: "resolveQuotaConfig ''t2'' ''job_writes'' (qd_configs sample_quotas) = platform_quota" by code_simp
  show ?thesis
    using patch_in_force [OF run [unfolded patched_sample_def]] before
    by (auto simp: run p patched_config_def)
qed

text \<open>A key scoped to signing transfers is enough to switch the quota of its agent off: every check
  then passes and counts nothing.\<close>

lemma scoped_key_disables_quota:
  "(case patched_sample of
      (_, st', _) \<Rightarrow> map_option (\<lambda>(st'', r). (qr_ok r, qr_used r, qd_usage st'')) (checkAndIncrementQuota 5000 ''t1'' ''job_writes'' st')
        = Some (True, 0, []))"
  by code_simp

text \<open>Hourly and daily windows share the counter of the hour that begins the day.\<close>

lemma windows_of_two_sizes_collide:
  "quota_window 5 platform_quota = quota_window 5 (platform_quota\<lparr>qc_windowSize := ''hourly''\<rparr>)"
  by code_simp

text \<open>Rows without an agent violate the primary key of the migration; without them the quota of an
  agent that has no row of its own is not enforced.\<close>

lemma unenforced_without_platform_row:
  "\<forall>c \<in> set configs. qc_talosId c \<noteq> None \<and> qc_talosId c \<noteq> Some i \<Longrightarrow>
   map_option (\<lambda>(st, r). qr_ok r) (checkAndIncrementQuota now i r \<lparr>qd_configs = configs, qd_usage = usage\<rparr>) = Some True"
proof -
  assume none: "\<forall>c \<in> set configs. qc_talosId c \<noteq> None \<and> qc_talosId c \<noteq> Some i"
  then have "sel (\<lambda>c. qc_resource c = r \<and> (qc_talosId c = Some i \<or> qc_talosId c = None)) configs = []"
    by (auto simp: filter_empty_conv)
  then show ?thesis by (simp add: checkAndIncrementQuota_def consume_quota_def resolveQuotaConfig_def)
qed

end
