(* ===== verification/Rate_Limit.thy ===== *)
theory Rate_Limit
  imports Api_Auth
begin

text \<open>
  Rate limiting (web/src/lib/rate-limit-store.ts, web/src/lib/rate-limit.ts): the in-process store, the
  wire format of the Redis client and what it reads from the replies, the Redis store with its
  fallback, the verdict and its headers.  Redis answers are parameters; sockets and timeouts show as a
  missing answer.
\<close>

section \<open>The in-process store\<close>

record mem_window =
  mw_count :: int
  mw_resetAt :: instant

type_synonym mem_store = "string \<Rightarrow> mem_window option"

definition mem_prune :: "instant \<Rightarrow> mem_store \<Rightarrow> mem_store" where
  "mem_prune now store =
     (\<lambda>k. case store k of None \<Rightarrow> None | Some w \<Rightarrow> if mw_resetAt w < now then None else Some w)"

definition mem_increment :: "instant \<Rightarrow> string \<Rightarrow> int \<Rightarrow> mem_store \<Rightarrow> mem_store \<times> mem_window" where
  "mem_increment now key windowMs store =
     (let fresh = \<lparr>mw_count = 1, mw_resetAt = now + windowMs\<rparr>;
          win = (case store key of
                   None \<Rightarrow> fresh
                 | Some w \<Rightarrow> if mw_resetAt w < now then fresh else w\<lparr>mw_count := mw_count w + 1\<rparr>)
      in (store(key \<mapsto> win), win))"

section \<open>The Redis client\<close>

definition crlf :: string where "crlf = [CHR 0x0D, CHR 0x0A]"

definition resp_bulk :: "string \<Rightarrow> string" where
  "resp_bulk a = CHR ''$'' # digits_of (byte_length a) @ crlf @ a @ crlf"

definition resp :: "string list \<Rightarrow> string" where
  "resp args = CHR ''*'' # digits_of (length args) @ crlf @ concat (map resp_bulk args)"

record redis_url =
  ru_password :: "string option"
  ru_db :: int

definition login_commands :: "redis_url \<Rightarrow> string list list" where
  "login_commands u =
     (if truthy_str (ru_password u) then [[''AUTH'', the (ru_password u)]] else []) @
     (if ru_db u \<noteq> 0 then [[''SELECT'', int_string (ru_db u)]] else [])"

definition incr_commands :: "redis_url \<Rightarrow> string \<Rightarrow> instant \<Rightarrow> string list list" where
  "incr_commands u key expireAtMs =
     login_commands u @ [[''INCR'', key], [''PEXPIREAT'', key, int_string expireAtMs]]"

definition pttl_commands :: "redis_url \<Rightarrow> string \<Rightarrow> string list list" where
  "pttl_commands u key = login_commands u @ [[''PTTL'', key]]"

definition request_text :: "string list list \<Rightarrow> string" where
  "request_text commands = concat (map resp commands)"

text \<open>\<open>buf.split("\r\n")\<close>.\<close>

fun split_crlf :: "string \<Rightarrow> string list" where
  "split_crlf [] = [[]]"
| "split_crlf [c] = [[c]]"
| "split_crlf (c # d # cs) =
     (if c = CHR 0x0D \<and> d = CHR 0x0A then [] # split_crlf cs
      else case split_crlf (d # cs) of [] \<Rightarrow> [[c]] | l # ls \<Rightarrow> (c # l) # ls)"

text \<open>What one chunk of data settles: nothing yet, the number read, or the server's error.\<close>

datatype reply_state = Waiting | Answered int | Failed string

fun scan_lines :: "int option \<Rightarrow> string list \<Rightarrow> reply_state" where
  "scan_lines found [] = (case found of None \<Rightarrow> Waiting | Some n \<Rightarrow> Answered n)"
| "scan_lines found (l # ls) =
     (let found' = (if starts_with '':'' l \<and> found = None then js_parseInt (tl l) else found)
      in if starts_with ''-'' l then Failed (tl l) else scan_lines found' ls)"

fun scan_pttl :: "string list \<Rightarrow> reply_state" where
  "scan_pttl [] = Waiting"
| "scan_pttl (l # ls) =
     (case (if starts_with '':'' l then js_parseInt (tl l) else None) of
        Some n \<Rightarrow> Answered n
      | None \<Rightarrow> if starts_with ''-'' l then Failed (tl l) else scan_pttl ls)"

fun read_chunks :: "(string list \<Rightarrow> reply_state) \<Rightarrow> string \<Rightarrow> string list \<Rightarrow> reply_state" where
  "read_chunks scan buf [] = Waiting"
| "read_chunks scan buf (chunk # chunks) =
     (case scan (split_crlf (buf @ chunk)) of
        Waiting \<Rightarrow> read_chunks scan (buf @ chunk) chunks
      | r \<Rightarrow> r)"

text \<open>\<open>None\<close>: the call rejects, on an error reply or because no answer came.\<close>

definition incr_answer :: "string list \<Rightarrow> int option" where
  "incr_answer chunks = (case read_chunks (scan_lines None) [] chunks of Answered n \<Rightarrow> Some n | _ \<Rightarrow> None)"

definition pttl_answer :: "string list \<Rightarrow> int option" where
  "pttl_answer chunks = (case read_chunks scan_pttl [] chunks of Answered n \<Rightarrow> Some n | _ \<Rightarrow> None)"

section \<open>The Redis store\<close>

definition MAX_SAFE_INTEGER :: int where "MAX_SAFE_INTEGER = 9007199254740991"

text \<open>\<open>incr\<close> and \<open>pttl\<close> are the answers of the two calls, \<open>later\<close> the clock after the second one and
  \<open>fallbackNow\<close> the clock of the fallback.\<close>

definition redis_increment ::
  "bool \<Rightarrow> instant \<Rightarrow> instant \<Rightarrow> instant \<Rightarrow> int option \<Rightarrow> int option \<Rightarrow> string \<Rightarrow> int \<Rightarrow> mem_store \<Rightarrow> mem_store \<times> mem_window" where
  "redis_increment failClosed now later fallbackNow incr pttl key windowMs store =
     (let resetAt = now + windowMs
      in case incr of
           Some count \<Rightarrow>
             (store,
              if count = 1 then \<lparr>mw_count = count, mw_resetAt = resetAt\<rparr>
              else let ttlMs = coalesce pttl windowMs
                   in \<lparr>mw_count = count, mw_resetAt = (if ttlMs > 0 then later + ttlMs else resetAt)\<rparr>)
         | None \<Rightarrow>
             if failClosed then (store, \<lparr>mw_count = MAX_SAFE_INTEGER, mw_resetAt = resetAt\<rparr>)
             else mem_increment fallbackNow key windowMs store)"

datatype rate_store = RedisStore string bool | MemoryStore

definition getRateLimitStore :: "environment \<Rightarrow> rate_store" where
  "getRateLimitStore env =
     (if truthy_str (env ''REDIS_URL'')
      then RedisStore (the (env ''REDIS_URL'')) (env ''RATE_LIMIT_FAIL_CLOSED'' = Some ''true'')
      else MemoryStore)"

section \<open>Verdict\<close>

record rate_result =
  rr_ok :: bool
  rr_limit :: int
  rr_remaining :: int
  rr_resetAt :: instant
  rr_policy :: "string option"

text \<open>\<open>None\<close>: the store threw.\<close>

definition rate_verdict :: "instant \<Rightarrow> int \<Rightarrow> int \<Rightarrow> mem_window option \<Rightarrow> rate_result" where
  "rate_verdict now limit windowMs answer =
     (case answer of
        None \<Rightarrow> \<lparr>rr_ok = True, rr_limit = limit, rr_remaining = 1, rr_resetAt = now + windowMs, rr_policy = None\<rparr>
      | Some w \<Rightarrow> \<lparr>rr_ok = (mw_count w \<le> limit), rr_limit = limit, rr_remaining = max 0 (limit - mw_count w),
                   rr_resetAt = mw_resetAt w, rr_policy = None\<rparr>)"

definition rateLimit :: "instant \<Rightarrow> string \<Rightarrow> int \<Rightarrow> int \<Rightarrow> mem_store \<Rightarrow> mem_store \<times> rate_result" where
  "rateLimit now key limit windowMs store =
     (let (store', w) = mem_increment now key windowMs store in (store', rate_verdict now limit windowMs (Some w)))"

text \<open>\<open>Math.ceil(x / 1000)\<close>.\<close>

definition whole_seconds :: "int \<Rightarrow> int" where
  "whole_seconds x = - ((- x) div 1000)"

definition policy_header :: "rate_result \<Rightarrow> (string \<times> string) list" where
  "policy_header r = (if truthy_str (rr_policy r) then [(''X-RateLimit-Policy'', the (rr_policy r))] else [])"

definition limit_headers :: "rate_result \<Rightarrow> (string \<times> string) list" where
  "limit_headers r =
     [(''X-RateLimit-Limit'', int_string (rr_limit r)),
      (''X-RateLimit-Remaining'', int_string (rr_remaining r)),
      (''X-RateLimit-Reset'', int_string (whole_seconds (rr_resetAt r)))]"

definition retry_after :: "instant \<Rightarrow> rate_result \<Rightarrow> int" where
  "retry_after now r = max 1 (whole_seconds (rr_resetAt r - now))"

definition rateLimitResponse :: "instant \<Rightarrow> rate_result \<Rightarrow> int \<times> (string \<times> string) list" where
  "rateLimitResponse now r =
     (429, (''Content-Type'', ''application/json'') # limit_headers r @
           [(''Retry-After'', int_string (retry_after now r))] @ policy_header r)"

section \<open>Policies\<close>

record endpoint_policy =
  ep_keyPrefix :: string
  ep_name :: string
  ep_limit :: int
  ep_windowMs :: int

definition envInt :: "environment \<Rightarrow> string \<Rightarrow> int \<Rightarrow> int" where
  "envInt env name fallback =
     (if truthy_str (env name) then coalesce (js_parseInt (the (env name))) fallback else fallback)"

definition policy_auth :: "environment \<Rightarrow> endpoint_policy" where
  "policy_auth env = \<lparr>ep_keyPrefix = ''auth'', ep_name = ''auth'', ep_limit = envInt env ''RATE_LIMIT_AUTH_LIMIT'' 20,
     ep_windowMs = envInt env ''RATE_LIMIT_AUTH_WINDOW_MS'' 60000\<rparr>"

definition policy_read :: "environment \<Rightarrow> endpoint_policy" where
  "policy_read env = \<lparr>ep_keyPrefix = ''read'', ep_name = ''read'', ep_limit = envInt env ''RATE_LIMIT_READ_LIMIT'' 100,
     ep_windowMs = envInt env ''RATE_LIMIT_READ_WINDOW_MS'' 60000\<rparr>"

definition policy_writeKey :: "environment \<Rightarrow> endpoint_policy" where
  "policy_writeKey env = \<lparr>ep_keyPrefix = ''write_key'', ep_name = ''write-key'',
     ep_limit = envInt env ''RATE_LIMIT_WRITE_KEY_LIMIT'' 30, ep_windowMs = envInt env ''RATE_LIMIT_WRITE_WINDOW_MS'' 60000\<rparr>"

definition policy_writeIp :: "environment \<Rightarrow> endpoint_policy" where
  "policy_writeIp env = \<lparr>ep_keyPrefix = ''write_ip'', ep_name = ''write-ip'',
     ep_limit = envInt env ''RATE_LIMIT_WRITE_IP_LIMIT'' 30, ep_windowMs = envInt env ''RATE_LIMIT_WRITE_WINDOW_MS'' 60000\<rparr>"

definition policy_cspReport :: "environment \<Rightarrow> endpoint_policy" where
  "policy_cspReport env = \<lparr>ep_keyPrefix = ''csp_report'', ep_name = ''csp-report'',
     ep_limit = envInt env ''RATE_LIMIT_CSP_REPORT_LIMIT'' 120, ep_windowMs = envInt env ''RATE_LIMIT_CSP_REPORT_WINDOW_MS'' 60000\<rparr>"

end
