(* ===== verification/Proxy.thy ===== *)
theory Proxy
  imports Rate_Limit
begin

text \<open>
  The request proxy (web/src/proxy.ts) and API versions (web/src/lib/api-versioning.ts): whose
  requests are counted together, the rewriting of versioned paths and the headers every API reply
  carries.  Pages are not modelled (their nonce and policy are headers only); an Accept-Version header
  is never passed by the proxy.
\<close>

section \<open>Clients\<close>

record proxy_request =
  pr_pathname :: string
  pr_method :: string
  pr_forwardedFor :: "string option"
  pr_realIp :: "string option"
  pr_authorization :: "string option"

definition trusted_proxy_depth :: "environment \<Rightarrow> nat" where
  "trusted_proxy_depth env =
     (case js_parseInt (coalesce (env ''TRUSTED_PROXY_DEPTH'') ''1'') of
        None \<Rightarrow> 1 | Some n \<Rightarrow> if n < 0 then 1 else nat n)"

definition forwarded_ips :: "string \<Rightarrow> string list" where
  "forwarded_ips xff = filter (\<lambda>s. s \<noteq> []) (map js_trim (js_split (CHR '','') xff))"

definition getClientIp :: "nat \<Rightarrow> proxy_request \<Rightarrow> string" where
  "getClientIp depth request =
     (let ips = (if truthy_str (pr_forwardedFor request) then forwarded_ips (the (pr_forwardedFor request)) else [])
      in if length ips \<ge> depth + 1 then ips ! (length ips - depth - 1)
         else if ips \<noteq> [] then hd ips
         else if truthy_str (pr_realIp request) then the (pr_realIp request)
         else ''unknown'')"

definition getApiKey :: "proxy_request \<Rightarrow> string option" where
  "getApiKey request =
     (case pr_authorization request of
        None \<Rightarrow> None
      | Some h \<Rightarrow> if starts_with ''Bearer '' h then Some (js_trim (drop 7 h)) else None)"

definition sanitizeApiKey :: "string \<Rightarrow> string" where
  "sanitizeApiKey apiKey = (if length apiKey \<le> 16 then apiKey else take 8 apiKey @ drop (length apiKey - 8) apiKey)"

definition CSP_REPORT_ENDPOINT :: string where "CSP_REPORT_ENDPOINT = ''/api/csp-report''"

definition ends_with :: "string \<Rightarrow> string \<Rightarrow> bool" where
  "ends_with p s \<longleftrightarrow> drop (length s - length p) s = p"

definition is_auth_route :: "string \<Rightarrow> bool" where
  "is_auth_route pathname \<longleftrightarrow>
     ends_with ''/me'' pathname \<or> js_includes ''check-name'' pathname \<or> js_includes ''regenerate-key'' pathname"

definition upper_char :: "char \<Rightarrow> char" where
  "upper_char c = (let n = of_char c :: nat in if 97 \<le> n \<and> n \<le> 122 then char_of (n - 32) else c)"

text \<open>The policy and the store key of an API request.\<close>

definition request_bucket :: "environment \<Rightarrow> proxy_request \<Rightarrow> endpoint_policy \<times> string" where
  "request_bucket env request =
     (let ip = getClientIp (trusted_proxy_depth env) request;
          apiKey = getApiKey request;
          meth = map upper_char (pr_method request);
          by_ip = (\<lambda>p. (p, ep_keyPrefix p @ '':'' @ ip))
      in if is_auth_route (pr_pathname request) then by_ip (policy_auth env)
         else if pr_pathname request = CSP_REPORT_ENDPOINT then by_ip (policy_cspReport env)
         else if meth = ''GET'' then by_ip (policy_read env)
         else if meth = ''POST'' \<and> truthy_str apiKey
         then (policy_writeKey env, ep_keyPrefix (policy_writeKey env) @ '':'' @ sanitizeApiKey (the apiKey))
         else by_ip (policy_writeIp env))"

section \<open>Versions\<close>

record api_version =
  av_version :: string
  av_deprecated :: bool
  av_sunset :: "string option"

definition API_DEFAULT_VERSION :: string where "API_DEFAULT_VERSION = ''1''"

definition SUPPORTED_VERSIONS :: "(string \<times> api_version) list" where
  "SUPPORTED_VERSIONS = [(''1'', \<lparr>av_version = ''1'', av_deprecated = False, av_sunset = None\<rparr>)]"

text \<open>\<open>/^\/api\/v(\d+)\//\<close>: the digits and what follows the match.\<close>

definition version_match :: "string \<Rightarrow> (string \<times> string) option" where
  "version_match pathname =
     (if starts_with ''/api/v'' pathname
      then let rest = drop 6 pathname; ds = takeWhile digit rest; tail = dropWhile digit rest
           in if ds \<noteq> [] \<and> tail \<noteq> [] \<and> hd tail = CHR ''/'' then Some (ds, tl tail) else None
      else None)"

definition parseVersionFromPath :: "string \<Rightarrow> string option" where
  "parseVersionFromPath pathname = map_option fst (version_match pathname)"

definition isVersionedPath :: "string \<Rightarrow> bool" where
  "isVersionedPath pathname \<longleftrightarrow> version_match pathname \<noteq> None"

definition getVersionConfig :: "string \<Rightarrow> api_version option" where
  "getVersionConfig version = map_of SUPPORTED_VERSIONS version"

definition negotiateApiVersion :: "string \<Rightarrow> string option \<Rightarrow> string \<times> api_version" where
  "negotiateApiVersion pathname acceptVersion =
     (let by_header =
            (case (if truthy_str acceptVersion then getVersionConfig (the acceptVersion) else None) of
               Some c \<Rightarrow> (the acceptVersion, c)
             | None \<Rightarrow> (API_DEFAULT_VERSION, the (map_of SUPPORTED_VERSIONS API_DEFAULT_VERSION)))
      in case parseVersionFromPath pathname of
           None \<Rightarrow> by_header
         | Some v \<Rightarrow> (case getVersionConfig v of Some c \<Rightarrow> (v, c) | None \<Rightarrow> by_header))"

definition stripVersionPrefix :: "string \<Rightarrow> string" where
  "stripVersionPrefix pathname =
     (case version_match pathname of None \<Rightarrow> pathname | Some (_, rest) \<Rightarrow> ''/api/'' @ rest)"

definition version_headers :: "string \<times> api_version \<Rightarrow> (string \<times> string) list" where
  "version_headers info =
     (''X-API-Version'', fst info) #
     (if av_deprecated (snd info)
      then (''Deprecation'', ''true'') #
           (if truthy_str (av_sunset (snd info)) then [(''Sunset'', the (av_sunset (snd info)))] else [])
      else [])"

section \<open>The proxy on an API request\<close>

datatype proxy_reply =
    Page
  | LimitReached "(string \<times> string) list"
  | Forwarded string "(string \<times> string) list"  \<comment> \<open>to the path, with the headers of the reply\<close>

text \<open>With the in-process store; \<open>later\<close> is the clock when the refusal is built.\<close>

definition proxy :: "environment \<Rightarrow> instant \<Rightarrow> instant \<Rightarrow> proxy_request \<Rightarrow> mem_store \<Rightarrow> mem_store \<times> proxy_reply" where
  "proxy env now later request store =
     (if \<not> starts_with ''/api/'' (pr_pathname request) then (store, Page)
      else
        let versionInfo = negotiateApiVersion (pr_pathname request) None;
            (p, key) = request_bucket env request;
            (store', r) = rateLimit now key (ep_limit p) (ep_windowMs p) store;
            result = r\<lparr>rr_policy := Some (ep_name p)\<rparr>;
            headers = version_headers versionInfo @ limit_headers result @ policy_header result
        in (store',
            if \<not> rr_ok result then LimitReached (snd (rateLimitResponse later result) @ version_headers versionInfo)
            else if isVersionedPath (pr_pathname request) then Forwarded (stripVersionPrefix (pr_pathname request)) headers
            else Forwarded (pr_pathname request) headers))"

end
