(* ===== verification/Rate_Limit_Facts.thy ===== *)
theory Rate_Limit_Facts
  imports Proxy
begin

text \<open>
  What the rate limiter guarantees: commands on the wire are read back as written, the in-process
  store grants exactly the limit in a window and at most twice the limit in any interval of that
  length, and versioned paths are served under the name without the version.
\<close>

section \<open>What the server reads\<close>

text \<open>The bytes of a text in UTF-8.  A character above 127 is the one windows-1252 has at its place, as for
  \<open>byte_length\<close>.\<close>

definition code_point :: "char \<Rightarrow> nat" where
  "code_point c =
     (let n = of_char c
      in case map_of [(128, 8364), (130, 8218), (131, 402), (132, 8222), (133, 8230), (134, 8224), (135, 8225), (136, 710),
             (137, 8240), (138, 352), (139, 8249), (140, 338), (142, 381), (145, 8216), (146, 8217), (147, 8220), (148, 8221),
             (149, 8226), (150, 8211), (151, 8212), (152, 732), (153, 8482), (154, 353), (155, 8250), (156, 339), (158, 382),
             (159, 376)] n of None \<Rightarrow> n | Some m \<Rightarrow> m)"

definition utf8_char :: "char \<Rightarrow> nat list" where
  "utf8_char c =
     (let n = code_point c
      in if n < 128 then [n]
         else if n < 2048 then [192 + n div 64, 128 + n mod 64]
         else [224 + n div 4096, 128 + n div 64 mod 64, 128 + n mod 64])"

definition utf8 :: "string \<Rightarrow> nat list" where
  "utf8 s = concat (map utf8_char s)"

text \<open>The reader of the Redis protocol: commands are arrays \<open>*n\<close> of bulk strings \<open>$n\<close>, whose length counts
  bytes.\<close>

fun read_count :: "nat \<Rightarrow> nat list \<Rightarrow> (nat \<times> nat list) option" where
  "read_count n [] = None"
| "read_count n (b # bs) =
     (if 48 \<le> b \<and> b \<le> 57 then read_count (10 * n + (b - 48)) bs
      else if b = 13 \<and> take 1 bs = [10] then Some (n, drop 1 bs) else None)"

definition read_header :: "nat \<Rightarrow> nat list \<Rightarrow> (nat \<times> nat list) option" where
  "read_header mark bs = (case bs of [] \<Rightarrow> None | b # rest \<Rightarrow> if b = mark then read_count 0 rest else None)"

definition read_bulk :: "nat list \<Rightarrow> (nat list \<times> nat list) option" where
  "read_bulk bs =
     (case read_header 36 bs of
        None \<Rightarrow> None
      | Some (n, rest) \<Rightarrow>
          if n \<le> length rest \<and> take 2 (drop n rest) = [13, 10] then Some (take n rest, drop (n + 2) rest) else None)"

fun read_bulks :: "nat \<Rightarrow> nat list \<Rightarrow> (nat list list \<times> nat list) option" where
  "read_bulks 0 bs = Some ([], bs)"
| "read_bulks (Suc k) bs =
     (case read_bulk bs of
        None \<Rightarrow> None
      | Some (a, rest) \<Rightarrow> map_option (\<lambda>(as, rest'). (a # as, rest')) (read_bulks k rest))"

definition read_command :: "nat list \<Rightarrow> (nat list list \<times> nat list) option" where
  "read_command bs = (case read_header 42 bs of None \<Rightarrow> None | Some (n, rest) \<Rightarrow> read_bulks n rest)"

lemma read_count_shorter: "read_count n bs = Some (m, rest) \<Longrightarrow> length rest < length bs"
  by (induction n bs rule: read_count.induct) (auto split: if_splits)

lemma read_header_shorter: "read_header mark bs = Some (m, rest) \<Longrightarrow> length rest < length bs"
  by (auto simp: read_header_def split: list.splits if_splits dest: read_count_shorter)

lemma read_bulks_shorter: "read_bulks k bs = Some (as, rest) \<Longrightarrow> length rest \<le> length bs"
proof (induction k arbitrary: bs as)
  case (Suc k)
  then obtain a mid as' where mid: "read_bulk bs = Some (a, mid)" "read_bulks k mid = Some (as', rest)"
    by (auto split: option.splits)
  have "length mid \<le> length bs"
    using mid(1) read_header_shorter by (fastforce simp: read_bulk_def split: option.splits if_splits)
  then show ?case using Suc.IH [OF mid(2)] by simp
qed simp

lemma read_command_shorter: "read_command bs = Some (c, rest) \<Longrightarrow> length rest < length bs"
  using read_header_shorter read_bulks_shorter by (fastforce simp: read_command_def split: option.splits)

function read_commands :: "nat list \<Rightarrow> nat list list list option" where
  "read_commands bs =
     (if bs = [] then Some []
      else case read_command bs of None \<Rightarrow> None | Some (c, rest) \<Rightarrow> map_option (Cons c) (read_commands rest))"
  by pat_completeness auto
termination by (relation "measure length") (auto dest: read_command_shorter)

declare read_commands.simps [simp del]

section \<open>Requests are read as written\<close>

lemma utf8_append [simp]: "utf8 (a @ b) = utf8 a @ utf8 b"
  by (simp add: utf8_def)

lemma utf8_char_length: "length (utf8_char c) = utf8_width c"
proof -
  have "of_char c < (256 :: nat)" by simp
  then have "of_char c < (2048 :: nat)" by (rule less_trans) simp
  then show ?thesis by (auto simp: utf8_char_def code_point_def utf8_width_def Let_def)
qed

lemma utf8_length [simp]: "length (utf8 s) = byte_length s"
  by (simp add: utf8_def byte_length_def length_concat comp_def utf8_char_length)

lemma utf8_plain: "of_char c < (128 :: nat) \<Longrightarrow> utf8_char c = [of_char c]"
  by (auto simp: utf8_char_def code_point_def Let_def)

lemma utf8_digits: "\<forall>c \<in> set ds. digit c \<Longrightarrow> utf8 ds = map of_char ds"
  by (induction ds) (auto simp: utf8_def digit_def utf8_plain)

lemma utf8_crlf: "utf8 crlf = [13, 10]"
  by (simp add: utf8_def crlf_def utf8_plain)

lemma read_digits:
  "\<forall>c \<in> set ds. digit c \<Longrightarrow> read_count n (map of_char ds @ 13 # 10 # rest) = Some (digits_value n ds, rest)"
  by (induction ds arbitrary: n) (auto simp: digit_def)

lemma read_number: "read_count 0 (utf8 (digits_of n) @ 13 # 10 # rest) = Some (n, rest)"
  using read_digits [OF digits_of_digits] by (simp add: utf8_digits digits_of_digits digits_value_digits_of)

lemma read_one_bulk: "read_bulk (utf8 (resp_bulk a) @ rest) = Some (utf8 a, rest)"
proof -
  have "utf8 (resp_bulk a) @ rest = 36 # utf8 (digits_of (byte_length a)) @ 13 # 10 # utf8 a @ 13 # 10 # rest"
    using utf8_crlf by (simp add: resp_bulk_def) (simp add: utf8_def utf8_plain)
  then show ?thesis by (simp add: read_bulk_def read_header_def read_number)
qed

lemma read_all_bulks: "read_bulks (length as) (utf8 (concat (map resp_bulk as)) @ rest) = Some (map utf8 as, rest)"
proof (induction as)
  case Nil
  show ?case by (simp add: utf8_def)
qed (simp add: read_one_bulk)

lemma read_one_command: "read_command (utf8 (resp as) @ rest) = Some (map utf8 as, rest)"
proof -
  have "utf8 (resp as) @ rest = 42 # utf8 (digits_of (length as)) @ 13 # 10 # utf8 (concat (map resp_bulk as)) @ rest"
    using utf8_crlf by (simp add: resp_def) (simp add: utf8_def utf8_plain)
  then show ?thesis by (simp add: read_command_def read_header_def read_number read_all_bulks)
qed

text \<open>C13.
  A server that follows the protocol reads exactly the commands the client meant: from the UTF-8 bytes of
  a pipeline it reads back the commands in order, each with its arguments byte for byte, whatever
  characters the arguments hold, so no client address or key, line ends or characters of several bytes
  included, can smuggle a command into the request to Redis.\<close>

theorem pipeline_unambiguous: "read_commands (utf8 (request_text cs)) = Some (map (map utf8) cs)"
proof (induction cs)
  case Nil
  show ?case by (simp add: read_commands.simps request_text_def utf8_def)
next
  case (Cons c cs)
  have split: "utf8 (request_text (c # cs)) = utf8 (resp c) @ utf8 (request_text cs)"
    by (simp add: request_text_def)
  have "utf8 (resp c) \<noteq> []" by (simp add: resp_def utf8_def utf8_plain)
  then show ?case
    unfolding split by (subst read_commands.simps) (simp add: read_one_command Cons.IH)
qed

section \<open>The in-process store\<close>

datatype store_event = Request instant string int int | Prune instant  \<comment> \<open>clock, key, limit, window\<close>

fun store_run :: "store_event list \<Rightarrow> mem_store \<Rightarrow> rate_result option list" where
  "store_run [] store = []"
| "store_run (Prune now # es) store = None # store_run es (mem_prune now store)"
| "store_run (Request now key limit windowMs # es) store =
     (let (store', r) = rateLimit now key limit windowMs store in Some r # store_run es store')"

fun event_clock :: "store_event \<Rightarrow> instant" where
  "event_clock (Request now _ _ _) = now"
| "event_clock (Prune now) = now"

fun asks :: "string \<Rightarrow> store_event \<Rightarrow> bool" where
  "asks k (Request _ key _ _) \<longleftrightarrow> key = k"
| "asks k (Prune _) \<longleftrightarrow> False"

fun under_policy :: "string \<Rightarrow> int \<Rightarrow> int \<Rightarrow> store_event \<Rightarrow> bool" where
  "under_policy k L W (Request _ key limit windowMs) \<longleftrightarrow> (key = k \<longrightarrow> limit = L \<and> windowMs = W)"
| "under_policy k L W (Prune _) \<longleftrightarrow> True"

definition let_through :: "rate_result option \<Rightarrow> bool" where
  "let_through res \<longleftrightarrow> (case res of None \<Rightarrow> False | Some r \<Rightarrow> rr_ok r)"

definition granted_to :: "string \<Rightarrow> store_event list \<Rightarrow> mem_store \<Rightarrow> nat" where
  "granted_to k es store = length (filter (\<lambda>(e, res). asks k e \<and> let_through res) (zip es (store_run es store)))"

lemma granted_to_simps [simp]:
  "granted_to k [] store = 0"
  "granted_to k (Prune now # es) store = granted_to k es (mem_prune now store)"
  "granted_to k (Request now key L W # es) store =
     (if key = k \<and> rr_ok (snd (rateLimit now key L W store)) then 1 else 0) +
     granted_to k es (fst (rateLimit now key L W store))"
  by (auto simp: granted_to_def let_through_def split: prod.splits)

lemma rateLimit_other: "key \<noteq> k \<Longrightarrow> fst (rateLimit now key L W store) k = store k"
  by (auto simp: rateLimit_def mem_increment_def Let_def)

lemma rateLimit_same:
  "fst (rateLimit now k L W store) k = Some (snd (mem_increment now k W store))"
  "rr_ok (snd (rateLimit now k L W store)) \<longleftrightarrow> mw_count (snd (mem_increment now k W store)) \<le> L"
  by (auto simp: rateLimit_def rate_verdict_def mem_increment_def Let_def)

lemma window_after:
  "snd (mem_increment now k W store) =
     (case store k of
        None \<Rightarrow> \<lparr>mw_count = 1, mw_resetAt = now + W\<rparr>
      | Some w \<Rightarrow> if mw_resetAt w < now then \<lparr>mw_count = 1, mw_resetAt = now + W\<rparr> else w\<lparr>mw_count := mw_count w + 1\<rparr>)"
  by (simp add: mem_increment_def Let_def)

text \<open>What a store can still grant to a key until \<open>a + W\<close>: the rest of a window that lasts that long,
  or the rest of one that does not and a whole one after it.\<close>

definition grants_left :: "instant \<Rightarrow> string \<Rightarrow> int \<Rightarrow> mem_store \<Rightarrow> int" where
  "grants_left horizon k L store =
     (case store k of
        None \<Rightarrow> max 0 L
      | Some w \<Rightarrow> max 0 (L - mw_count w) + (if mw_resetAt w < horizon then max 0 L else 0))"

lemma interval_grants:
  assumes "\<forall>e \<in> set es. a \<le> event_clock e \<and> event_clock e \<le> a + W \<and> under_policy k L W e"
  shows "int (granted_to k es store) \<le> grants_left (a + W) k L store"
  using assms
proof (induction es arbitrary: store)
  case Nil
  then show ?case by (simp add: grants_left_def split: option.split)
next
  case (Cons e es)
  show ?case
  proof (cases e)
    case (Prune now)
    have "grants_left (a + W) k L (mem_prune now store) \<le> grants_left (a + W) k L store"
      using Cons.prems Prune by (auto simp: grants_left_def mem_prune_def split: option.split)
    then show ?thesis using Cons.IH [of "mem_prune now store"] Cons.prems Prune by simp
  next
    case (Request now key limit windowMs)
    let ?store = "fst (rateLimit now key limit windowMs store)"
    have IH: "int (granted_to k es ?store) \<le> grants_left (a + W) k L ?store" using Cons by simp
    show ?thesis
    proof (cases "key = k")
      case False
      then show ?thesis using IH rateLimit_other [of key k now limit windowMs store] Request by (simp add: grants_left_def)
    next
      case True
      then have same: "limit = L" "windowMs = W" "a \<le> now" "now \<le> a + W" using Cons.prems Request by auto
      let ?ok = "mw_count (snd (mem_increment now k W store)) \<le> L"
      have "(if ?ok then 1 else 0) + grants_left (a + W) k L ?store \<le> grants_left (a + W) k L store"
        using same by (auto simp: True grants_left_def rateLimit_same window_after split: option.splits)
      moreover have "int (granted_to k (e # es) store) = (if ?ok then 1 else 0) + int (granted_to k es ?store)"
        using True same Request by (simp add: rateLimit_same)
      ultimately show ?thesis using IH by linarith
    qed
  qed
qed

text \<open>Two limits at most: in any interval as long as the window, whatever requests of other clients and
  whatever prunings fall into it and in whatever order, a client is let through at most twice the
  limit, and at most the limit when it has no window yet.\<close>

theorem interval_bounded:
  assumes "\<forall>e \<in> set es. a \<le> event_clock e \<and> event_clock e \<le> a + W \<and> under_policy k L W e"
    "0 \<le> L" "\<forall>w. store k = Some w \<longrightarrow> 0 \<le> mw_count w"
  shows "granted_to k es store \<le> (if store k = None then nat L else 2 * nat L)"
  using interval_grants [OF assms(1), of store] assms(2,3)
  by (cases "store k") (auto simp: grants_left_def max_def split: if_splits)

text \<open>A window of one client, from the request that opens it.\<close>

lemma live_window_grants:
  assumes "store k = Some w" "\<forall>e \<in> set es. event_clock e \<le> mw_resetAt w \<and> under_policy k L W e"
  shows "granted_to k es store = min (length (filter (asks k) es)) (nat (L - mw_count w))"
  using assms
proof (induction es arbitrary: store w)
  case (Cons e es)
  show ?case
  proof (cases e)
    case (Prune now)
    have "mem_prune now store k = Some w" using Cons.prems Prune by (simp add: mem_prune_def)
    then show ?thesis using Cons.IH [of "mem_prune now store" w] Cons.prems Prune by simp
  next
    case (Request now key limit windowMs)
    let ?store = "fst (rateLimit now key limit windowMs store)"
    show ?thesis
    proof (cases "key = k")
      case False
      then have "?store k = Some w" using rateLimit_other [of key k] Cons.prems by simp
      then show ?thesis using Cons.IH [of ?store w] Cons.prems Request False by simp
    next
      case True
      then have same: "limit = L" "windowMs = W" "now \<le> mw_resetAt w" using Cons.prems Request by auto
      then have win: "snd (mem_increment now k W store) = w\<lparr>mw_count := mw_count w + 1\<rparr>"
        using Cons.prems by (simp add: window_after)
      then have "?store k = Some (w\<lparr>mw_count := mw_count w + 1\<rparr>)" using True same by (simp add: rateLimit_same)
      then have rest: "granted_to k es ?store = min (length (filter (asks k) es)) (nat (L - (mw_count w + 1)))"
        using Cons.IH [of ?store "w\<lparr>mw_count := mw_count w + 1\<rparr>"] Cons.prems by simp
      have "granted_to k (e # es) store = (if mw_count w + 1 \<le> L then 1 else 0) + granted_to k es ?store"
        using True same Request win by (simp add: rateLimit_same)
      then show ?thesis using rest True Request by auto
    qed
  qed
qed simp

text \<open>C12.
  A window grants exactly its limit: from the request that opens a window on, through the requests
  of the client made until it ends, whatever other clients and prunings come between, the client is
  let through as often as it asked, up to the limit.\<close>

theorem window_exact:
  assumes "case store k of None \<Rightarrow> True | Some w \<Rightarrow> mw_resetAt w < now"
    "\<forall>e \<in> set es. event_clock e \<le> now + W \<and> under_policy k L W e" "0 \<le> L"
  shows "granted_to k (Request now k L W # es) store = min (Suc (length (filter (asks k) es))) (nat L)"
proof -
  have win: "snd (mem_increment now k W store) = \<lparr>mw_count = 1, mw_resetAt = now + W\<rparr>"
    using assms(1) by (auto simp: window_after split: option.splits)
  then have "fst (rateLimit now k L W store) k = Some \<lparr>mw_count = 1, mw_resetAt = now + W\<rparr>"
    by (simp add: rateLimit_same)
  then have "granted_to k es (fst (rateLimit now k L W store)) = min (length (filter (asks k) es)) (nat (L - 1))"
    using live_window_grants [of _ k "\<lparr>mw_count = 1, mw_resetAt = now + W\<rparr>" es L W] assms(2) by simp
  then show ?thesis using win assms(3) by (auto simp: rateLimit_same)
qed

definition sample_events :: "store_event list" where
  "sample_events = [Request 10 ''a'' 2 100, Request 20 ''b'' 9 50, Prune 30, Request 40 ''a'' 2 100, Request 110 ''a'' 2 100]"

theorem window_exact_witness: "granted_to ''a'' (Request 10 ''a'' 2 100 # sample_events) Map.empty = 2"
proof -
  have "\<forall>e \<in> set sample_events. event_clock e \<le> 10 + 100 \<and> under_policy ''a'' 2 100 e"
    by (simp add: sample_events_def)
  then show ?thesis
    using window_exact [where store = Map.empty and k = "''a''" and now = 10 and es = sample_events and W = 100 and L = 2]
    by (simp add: sample_events_def)
qed

definition turning_events :: "store_event list" where
  "turning_events = [Request 99 ''a'' 2 100, Request 100 ''a'' 2 100, Request 101 ''a'' 2 100, Request 102 ''a'' 2 100]"

definition opened_store :: mem_store where
  "opened_store = [''a'' \<mapsto> \<lparr>mw_count = 0, mw_resetAt = 100\<rparr>]"

theorem interval_bounded_witness: "granted_to ''a'' turning_events opened_store \<le> 4"
proof -
  have "\<forall>e \<in> set turning_events. 99 \<le> event_clock e \<and> event_clock e \<le> 99 + 100 \<and> under_policy ''a'' 2 100 e"
    by (simp add: turning_events_def)
  then show ?thesis
    using interval_bounded [where es = turning_events and a = 99 and W = 100 and k = "''a''" and L = 2 and store = opened_store]
    by (simp add: opened_store_def)
qed

text \<open>The bound is met at the turn of two windows: the windows are fixed, not sliding.\<close>

lemma burst_at_the_turn: "granted_to ''a'' turning_events opened_store = 4"
  by code_simp

section \<open>The Redis store\<close>

text \<open>A number cut in two by the network is read short, and the count of a busy client as a small one.\<close>

lemma number_cut_in_two:
  "incr_answer [CHR '':'' # ''12'' @ crlf] = Some 12" "incr_answer [CHR '':'' # ''1'', ''2'' @ crlf] = Some 1"
  by code_simp+

text \<open>What Redis documents of the pipeline on one key: INCR on a key that has expired starts at 1, and
  PEXPIREAT sets the expiry.  \<open>view r\<close> is the value and the expiry of the key.\<close>

definition redis_counts :: "(instant \<Rightarrow> string list list \<Rightarrow> 'r \<Rightarrow> 'r \<times> int) \<Rightarrow> ('r \<Rightarrow> (int \<times> instant) option) \<Rightarrow> redis_url \<Rightarrow> string \<Rightarrow> bool" where
  "redis_counts exec view u key \<longleftrightarrow>
     (\<forall>t e r. let c = (case view r of None \<Rightarrow> 0 | Some (c, expiry) \<Rightarrow> if t < expiry then c else 0)
             in snd (exec t (incr_commands u key e) r) = c + 1 \<and> view (fst (exec t (incr_commands u key e) r)) = Some (c + 1, e))"

text \<open>The answers to requests at the given instants.\<close>

fun redis_run :: "(instant \<Rightarrow> string list list \<Rightarrow> 'r \<Rightarrow> 'r \<times> int) \<Rightarrow> redis_url \<Rightarrow> string \<Rightarrow> int \<Rightarrow> instant list \<Rightarrow> 'r \<Rightarrow> int list" where
  "redis_run exec u key W [] r = []"
| "redis_run exec u key W (t # ts) r =
     (let (r', n) = exec t (incr_commands u key (t + W)) r in n # redis_run exec u key W ts r')"

text \<open>The expiry is set anew by every request, so under requests closer than the window the count never
  starts again: the client stays refused for as long as it keeps asking.\<close>

lemma redis_window_never_ends:
  assumes "redis_counts exec view u key" "view r = Some (c, e)" "t < e" "sorted_wrt (<) (t # ts)"
    "successively (\<lambda>x y. y < x + W) (t # ts)"
  shows "redis_run exec u key W (t # ts) r = map (\<lambda>n. c + 1 + int n) [0..<Suc (length ts)]"
  using assms(2-)
proof (induction ts arbitrary: t r c e)
  case Nil
  have "snd (exec t (incr_commands u key (t + W)) r) = c + 1"
    using assms(1) Nil by (simp add: redis_counts_def Let_def)
  then show ?case by (cases "exec t (incr_commands u key (t + W)) r") simp
next
  case (Cons s ts)
  let ?r = "fst (exec t (incr_commands u key (t + W)) r)"
  have step: "snd (exec t (incr_commands u key (t + W)) r) = c + 1" "view ?r = Some (c + 1, t + W)"
    using assms(1) Cons.prems by (simp_all add: redis_counts_def Let_def)
  have "redis_run exec u key W (s # ts) ?r = map (\<lambda>n. c + 1 + 1 + int n) [0..<Suc (length ts)]"
    using Cons.IH [OF step(2)] Cons.prems by simp
  moreover have "redis_run exec u key W (t # s # ts) r = (c + 1) # redis_run exec u key W (s # ts) ?r"
    using step(1) by (cases "exec t (incr_commands u key (t + W)) r") simp
  moreover have "map (\<lambda>n. c + 1 + int n) [0..<Suc (length (s # ts))] =
      (c + 1) # map (\<lambda>n. c + 1 + 1 + int n) [0..<Suc (length ts)]"
    by (subst upt_conv_Cons) (simp_all add: map_Suc_upt [symmetric] comp_def del: upt_Suc)
  ultimately show ?case by simp
qed

text \<open>A store of one key that does what is documented.\<close>

definition one_key_redis :: "instant \<Rightarrow> string list list \<Rightarrow> (int \<times> instant) option \<Rightarrow> (int \<times> instant) option \<times> int" where
  "one_key_redis t commands r =
     (let c = (case r of None \<Rightarrow> 0 | Some (c, expiry) \<Rightarrow> if t < expiry then c else 0)
      in (Some (c + 1, the (js_parseInt (last (last commands)))), c + 1))"

lemma one_key_redis_counts: "redis_counts one_key_redis (\<lambda>r. r) u key"
  by (simp add: redis_counts_def one_key_redis_def incr_commands_def js_parseInt_int_string Let_def)

section \<open>Clients and versions\<close>

text \<open>Behind one proxy that appends the address it sees, the address taken at depth 1 is the one the
  client wrote.\<close>

lemma client_chooses_address:
  "getClientIp 1 \<lparr>pr_pathname = p, pr_method = m, pr_forwardedFor = Some ''6.6.6.6, 203.0.113.9'', pr_realIp = r,
      pr_authorization = a\<rparr> = ''6.6.6.6''"
  by (simp add: getClientIp_def Let_def forwarded_ips_def js_trim_def js_space_def)

text \<open>The bearer token is not verified before it names the bucket: short tokens are the key itself, so a
  client gets a bucket of its own for every token it makes up.\<close>

lemma made_up_tokens_made_up_buckets:
  assumes "request_bucket env r = (policy_writeKey env, k)" "request_bucket env r' = (policy_writeKey env, k')"
    "getApiKey r = Some t" "getApiKey r' = Some t'" "length t \<le> 16" "length t' \<le> 16"
  shows "k = k' \<longleftrightarrow> t = t'"
  using assms
  by (auto simp: request_bucket_def Let_def sanitizeApiKey_def policy_auth_def policy_cspReport_def policy_read_def
      policy_writeKey_def policy_writeIp_def split: if_splits)

text \<open>Versions are exact: a path is versioned exactly when it is /api/v, one or more digits, a slash and
  a rest; it is then served under /api/ and the rest, as version 1 when those digits are "1", and every
  other path is left as it is.\<close>

theorem versioned_paths_exact:
  "(version_match p = Some (ds, rest) \<longleftrightarrow> ds \<noteq> [] \<and> list_all digit ds \<and> p = ''/api/v'' @ ds @ ''/'' @ rest) \<and>
   (p = ''/api/v'' @ ds @ ''/'' @ rest \<and> ds \<noteq> [] \<and> list_all digit ds \<longrightarrow> stripVersionPrefix p = ''/api/'' @ rest) \<and>
   (version_match p = None \<longrightarrow> stripVersionPrefix p = p)"
proof -
  have split: "version_match p = Some (ds, rest)" if "ds \<noteq> []" "list_all digit ds" "p = ''/api/v'' @ ds @ ''/'' @ rest" for ds rest
  proof -
    have slash: "\<not> digit (CHR ''/'')" by (simp add: digit_def)
    moreover have "\<forall>d \<in> set ds. digit d" using that(2) by (simp add: list_all_iff)
    ultimately have "takeWhile digit (ds @ ''/'' @ rest) = ds" "dropWhile digit (ds @ ''/'' @ rest) = ''/'' @ rest"
      by (simp_all add: takeWhile_append dropWhile_append)
    moreover have "drop 6 p = ds @ ''/'' @ rest" using that(3) by simp
    ultimately show ?thesis using that(1,3) slash by (simp add: version_match_def starts_with_def Let_def)
  qed
  have parsed: "ds \<noteq> [] \<and> list_all digit ds \<and> p = ''/api/v'' @ ds @ ''/'' @ rest" if "version_match p = Some (ds, rest)" for ds rest
  proof -
    have start: "take 6 p = ''/api/v''" using that by (simp add: version_match_def starts_with_def numeral_eq_Suc split: if_splits)
    have parts: "ds = takeWhile digit (drop 6 p)" "ds \<noteq> []" "dropWhile digit (drop 6 p) \<noteq> []"
      "hd (dropWhile digit (drop 6 p)) = CHR ''/''" "rest = tl (dropWhile digit (drop 6 p))"
      using that by (auto simp: version_match_def Let_def split: if_splits)
    have "dropWhile digit (drop 6 p) = CHR ''/'' # rest" using parts by (cases "dropWhile digit (drop 6 p)") auto
    then have "drop 6 p = ds @ ''/'' @ rest" using parts(1) takeWhile_dropWhile_id [of digit "drop 6 p"] by simp
    then have "p = ''/api/v'' @ ds @ ''/'' @ rest" using start append_take_drop_id [of 6 p] by metis
    moreover have "list_all digit ds" using parts(1) set_takeWhileD by (fastforce simp: list_all_iff)
    ultimately show ?thesis using parts(2) by simp
  qed
  have iff: "version_match p = Some (ds, rest) \<longleftrightarrow> ds \<noteq> [] \<and> list_all digit ds \<and> p = ''/api/v'' @ ds @ ''/'' @ rest"
    using split parsed by blast
  have "version_match p = Some (ds, rest) \<Longrightarrow> stripVersionPrefix p = ''/api/'' @ rest"
    "version_match p = None \<Longrightarrow> stripVersionPrefix p = p"
    by (simp_all add: stripVersionPrefix_def)
  then show ?thesis unfolding iff by blast
qed

theorem versioned_paths_exact_witness:
  "stripVersionPrefix ''/api/v1/talos'' = ''/api/talos'' \<and> stripVersionPrefix ''/api/talos'' = ''/api/talos''"
proof -
  have "version_match ''/api/talos'' = None" by code_simp
  moreover have "list_all digit ''1''" by (simp add: digit_def)
  ultimately show ?thesis
    using versioned_paths_exact [of "''/api/v1/talos''" "''1''" "''talos''"] versioned_paths_exact [of "''/api/talos''" "[]" "[]"]
    by simp
qed

text \<open>A version the server does not know is served as version 1.\<close>

lemma unknown_version_served:
  "stripVersionPrefix ''/api/v99/talos'' = ''/api/talos''" "fst (negotiateApiVersion ''/api/v99/talos'' None) = ''1''"
  by code_simp+

end
