(* ===== verification/Job_Orders.thy ===== *)
theory Job_Orders
  imports Commerce_Jobs Reconciler Quota
begin

text \<open>
  Ordering a service, web/src/app/api/talos/[id]/jobs/route.ts: guards, the idempotency key, the
  quota, submission and verification of the payment, instant fulfillment or queueing, and the polling
  route.  tls_commerce_jobs is split in two: the columns the lease routes use are in the market, the
  others in \<open>order_columns\<close>, joined by the job id.

  Horizon, the fulfillment handlers, parseFloat and how PostgreSQL stores a jsonb value are
  parameters.  \<open>around_payment\<close> and \<open>before_insert\<close> are what other requests do while this one waits;
  the transaction is one step, its retries are in Db_Retry.  The texts of a body are taken as texts.
\<close>

section \<open>Tables\<close>

record offered_service =
  of_talosId :: string
  of_serviceName :: string
  of_price :: string
  of_currency :: string
  of_stellarPublicKey :: string
  of_fulfillmentMode :: string

record order_columns =
  oc_jobId :: string
  oc_serviceName :: string
  oc_paymentSig :: string
  oc_idempotencyKey :: "string option"
  oc_response :: "json option"

record order_world =
  ow_market :: market
  ow_services :: "offered_service list"
  ow_orders :: "order_columns list"
  ow_quota :: quota_db
  ow_txs :: "tx_record list"
  ow_submitted :: "string list"  \<comment> \<open>transactions handed to the network\<close>

section \<open>Payment\<close>

record payment_op =
  po_type :: string
  po_asset :: "(string \<times> string) option"  \<comment> \<open>code and issuer\<close>
  po_destination :: "string option"
  po_amount :: "string option"

record order_env =
  oe_submit :: "string \<Rightarrow> thrown + (string \<times> payment_op list)"
  oe_parseFloat :: "string \<Rightarrow> rat option"  \<comment> \<open>\<open>None\<close>: NaN\<close>
  oe_issuer :: string
  oe_fulfill :: "string \<Rightarrow> json \<Rightarrow> thrown + json"
  oe_jsonb :: "json \<Rightarrow> json"
  oe_number :: "string \<Rightarrow> json"  \<comment> \<open>\<open>Number(price)\<close> in a body\<close>
  oe_visible :: bool  \<comment> \<open>a unique violation shows its code and constraint on the caught error\<close>
  oe_ledger :: ledger_env
  oe_newId :: string
  oe_newTxId :: string
  oe_now :: instant
  oe_later :: instant  \<comment> \<open>the clock after the job was stored\<close>

definition pays :: "order_env \<Rightarrow> string \<Rightarrow> string \<Rightarrow> payment_op \<Rightarrow> bool" where
  "pays env amount recipient op \<longleftrightarrow>
     po_type op = ''payment'' \<and> po_asset op = Some (''USDC'', oe_issuer env) \<and> po_destination op = Some recipient \<and>
     (case (oe_parseFloat env (coalesce (po_amount op) ''0''), oe_parseFloat env amount) of
        (Some paid, Some due) \<Rightarrow> paid \<ge> due | _ \<Rightarrow> False)"

datatype payment_outcome = Paid string | WrongPayment | SubmitFailed thrown

definition submitAndVerifyPayment :: "order_env \<Rightarrow> string \<Rightarrow> string \<Rightarrow> string \<Rightarrow> payment_outcome" where
  "submitAndVerifyPayment env signedXdr amount recipient =
     (case oe_submit env signedXdr of
        Inl e \<Rightarrow> SubmitFailed e
      | Inr (hash, ops) \<Rightarrow> if list_ex (pays env amount recipient) ops then Paid hash else WrongPayment)"

section \<open>Requests and replies\<close>

record order_request =
  oq_buyer :: "string option"
  oq_signedXdr :: "string option"
  oq_txHash :: "string option"
  oq_payload :: "json option"
  oq_header :: "string option"  \<comment> \<open>Idempotency-Key\<close>

datatype order_reply =
    Refused_order int string
  | Over_quota quota_result
  | Created json quota_result  \<comment> \<open>201\<close>
  | Replayed string json  \<comment> \<open>201 with the headers of a replay\<close>

definition IDEMPOTENCY_KEY_MAX_BYTES :: nat where "IDEMPOTENCY_KEY_MAX_BYTES = 128"

definition order_key :: "order_request \<Rightarrow> string option" where
  "order_key q =
     (case oq_header q of None \<Rightarrow> None | Some h \<Rightarrow> if js_trim h = [] then None else Some (js_trim h))"

text \<open>\<open>payload ?? {}\<close>.\<close>

definition order_payload :: "order_request \<Rightarrow> json" where
  "order_payload q = (case oq_payload q of None \<Rightarrow> JObj [] | Some JNull \<Rightarrow> JObj [] | Some v \<Rightarrow> v)"

definition or_empty :: "json \<Rightarrow> json" where
  "or_empty v = (if v = JNull then JObj [] else v)"

text \<open>The checks before the idempotency key is looked at.\<close>

definition order_guards :: "order_request \<Rightarrow> string \<Rightarrow> order_world \<Rightarrow> http_error + (offered_service \<times> agent)" where
  "order_guards q talosId w =
     (if \<not> truthy_str (oq_buyer q) then Inl (400, ''buyerPublicKey is required'')
      else if \<not> truthy_str (oq_signedXdr q) \<and> \<not> truthy_str (oq_txHash q)
      then Inl (400, ''signedXdr (or txHash) is required'')
      else if (case order_key q of None \<Rightarrow> False | Some k \<Rightarrow> byte_length k > IDEMPOTENCY_KEY_MAX_BYTES)
      then Inl (400, ''Idempotency-Key must be at most 128 bytes'')
      else case (find_agent talosId (ow_market w), sel_one (\<lambda>s. of_talosId s = talosId) (ow_services w)) of
        (None, _) \<Rightarrow> Inl (404, ''TALOS not found'')
      | (Some a, None) \<Rightarrow> Inl (404, ''This agent offers no services'')
      | (Some a, Some s) \<Rightarrow>
          if ag_status a = ''Paused'' then Inl (409, ''This agent is paused and cannot accept new work'')
          else if ag_status a = ''Retired'' then Inl (409, ''This agent is retired and cannot accept new work'')
          else Inr (s, a))"

section \<open>The idempotency key\<close>

text \<open>The two halves of a row of the table.\<close>

definition order_of :: "string \<Rightarrow> order_world \<Rightarrow> order_columns option" where
  "order_of i w = sel_one (\<lambda>c. oc_jobId c = i) (ow_orders w)"

definition keyed_job :: "string \<Rightarrow> string \<Rightarrow> order_world \<Rightarrow> market_job \<Rightarrow> bool" where
  "keyed_job talosId key w j \<longleftrightarrow> mj_talosId j = talosId \<and>
     (case order_of (mj_id j) w of None \<Rightarrow> False | Some c \<Rightarrow> oc_idempotencyKey c = Some key)"

definition key_lookup :: "string \<Rightarrow> string \<Rightarrow> order_world \<Rightarrow> (market_job \<times> order_columns) option" where
  "key_lookup talosId key w =
     (case sel_one (keyed_job talosId key w) (mk_jobs (ow_market w)) of
        None \<Rightarrow> None | Some j \<Rightarrow> map_option (Pair j) (order_of (mj_id j) w))"

definition IN_FLIGHT :: string where "IN_FLIGHT = ''Request with this Idempotency-Key is already being processed''"

text \<open>\<open>None\<close>: go on.  JSON texts are equal exactly when the values are, keys in order.\<close>

definition idempotency_check :: "string \<Rightarrow> order_request \<Rightarrow> offered_service \<Rightarrow> order_world \<Rightarrow> order_reply option" where
  "idempotency_check talosId q s w =
     (case order_key q of
        None \<Rightarrow> None
      | Some key \<Rightarrow>
          (case key_lookup talosId key w of
             None \<Rightarrow> None
           | Some (job, cols) \<Rightarrow>
               if oc_serviceName cols \<noteq> of_serviceName s \<or> order_payload q \<noteq> or_empty (mj_payload job)
               then Some (Refused_order 409 ''Idempotency-Key reused with a different payload. Use a new key for a different request.'')
               else (case oc_response cols of
                       Some r \<Rightarrow> Some (Replayed key r)
                     | None \<Rightarrow> Some (Refused_order 409 IN_FLIGHT))))"

section \<open>Storing the job\<close>

datatype order_conflict = SameId | SamePayment | SameKey

text \<open>The unique columns and the partial unique index; of several violations the first counts.\<close>

definition same_key_row :: "market_job \<Rightarrow> string \<Rightarrow> order_world \<Rightarrow> market_job \<Rightarrow> bool" where
  "same_key_row j key w x \<longleftrightarrow> mj_requesterTalosId x = mj_requesterTalosId j \<and> keyed_job (mj_talosId j) key w x"

definition insert_order :: "market_job \<Rightarrow> order_columns \<Rightarrow> order_world \<Rightarrow> order_conflict + order_world" where
  "insert_order j c w =
     (if list_ex (\<lambda>x. mj_id x = mj_id j) (mk_jobs (ow_market w)) then Inl SameId
      else if list_ex (\<lambda>x. oc_paymentSig x = oc_paymentSig c) (ow_orders w) then Inl SamePayment
      else if (case oc_idempotencyKey c of None \<Rightarrow> False | Some k \<Rightarrow> list_ex (same_key_row j k w) (mk_jobs (ow_market w)))
      then Inl SameKey
      else Inr (w\<lparr>ow_market := (ow_market w)\<lparr>mk_jobs := mk_jobs (ow_market w) @ [j]\<rparr>, ow_orders := ow_orders w @ [c]\<rparr>))"

text \<open>\<open>human:\<close> and the buyer; the lease columns take their defaults.\<close>

definition ordered_job :: "order_env \<Rightarrow> string \<Rightarrow> order_request \<Rightarrow> offered_service \<Rightarrow> string \<Rightarrow> string \<Rightarrow> json \<Rightarrow> market_job" where
  "ordered_job env talosId q s txHash status result =
     \<lparr>mj_id = oe_newId env, mj_talosId = talosId, mj_requesterTalosId = ''human:'' @ coalesce (oq_buyer q) [],
      mj_payload = oe_jsonb env (order_payload q), mj_result = result, mj_status = status, mj_txHash = Some txHash,
      mj_amount = of_price s, mj_leasedBy = None, mj_leasedAt = None, mj_leaseExpiresAt = None, mj_fencingToken = 0,
      mj_createdAt = oe_now env, mj_updatedAt = oe_now env\<rparr>"

definition ordered_columns :: "order_env \<Rightarrow> order_request \<Rightarrow> offered_service \<Rightarrow> string \<Rightarrow> order_columns" where
  "ordered_columns env q s txHash =
     \<lparr>oc_jobId = oe_newId env, oc_serviceName = of_serviceName s, oc_paymentSig = txHash,
      oc_idempotencyKey = order_key q, oc_response = None\<rparr>"

definition cache_response :: "order_env \<Rightarrow> order_request \<Rightarrow> json \<Rightarrow> order_world \<Rightarrow> order_world" where
  "cache_response env q body w =
     (if order_key q = None then w
      else w\<lparr>ow_orders := upd (\<lambda>c. oc_jobId c = oe_newId env) (\<lambda>c. c\<lparr>oc_response := Some (oe_jsonb env body)\<rparr>) (ow_orders w)\<rparr>)"

text \<open>What the catch block makes of a failed transaction.\<close>

definition conflict_reply :: "order_env \<Rightarrow> order_conflict \<Rightarrow> order_reply" where
  "conflict_reply env c =
     (if \<not> oe_visible env then Refused_order 500 ''Internal server error''
      else if c = SameKey then Refused_order 409 IN_FLIGHT
      else Refused_order 409 ''Transaction already used for a job (replay)'')"

definition instant_body :: "order_env \<Rightarrow> offered_service \<Rightarrow> string \<Rightarrow> json \<Rightarrow> json" where
  "instant_body env s txHash result =
     JObj [(''jobId'', JStr (oe_newId env)), (''status'', JStr ''completed''), (''serviceName'', JStr (of_serviceName s)),
           (''result'', result), (''txHash'', JStr txHash)]"

definition queued_body :: "order_env \<Rightarrow> offered_service \<Rightarrow> string \<Rightarrow> json" where
  "queued_body env s txHash =
     JObj [(''jobId'', JStr (oe_newId env)), (''status'', JStr ''pending''), (''serviceName'', JStr (of_serviceName s)),
           (''amount'', oe_number env (of_price s)), (''txHash'', JStr txHash),
           (''message'', JStr ''Job queued. The agent will process your request and you can poll for results.'')]"

definition store_instant ::
  "order_env \<Rightarrow> string \<Rightarrow> order_request \<Rightarrow> offered_service \<Rightarrow> string \<Rightarrow> json \<Rightarrow> order_world \<Rightarrow> order_reply + order_world" where
  "store_instant env talosId q s txHash result w =
     (case insert_order (ordered_job env talosId q s txHash ''completed'' (oe_jsonb env result)) (ordered_columns env q s txHash) w of
        Inl c \<Rightarrow> Inl (conflict_reply env c)
      | Inr w1 \<Rightarrow>
          let m = ow_market w1;
              w2 = w1\<lparr>ow_market := m\<lparr>mk_revenues := mk_revenues m @
                     [\<lparr>rv_talosId = talosId, rv_amount = of_price s, rv_currency = of_currency s, rv_source = ''commerce'',
                       rv_txHash = Some txHash\<rparr>]\<rparr>\<rparr>;
              w3 = cache_response env q (instant_body env s txHash result) w2
          in case ingestJobToLedger (oe_ledger env) (oe_newId env) (ow_market w3) of
               Inl e \<Rightarrow> Inl (Refused_order 500 ''Internal server error'')
             | Inr m' \<Rightarrow> Inr (w3\<lparr>ow_market := m'\<rparr>))"

definition store_queued ::
  "order_env \<Rightarrow> string \<Rightarrow> order_request \<Rightarrow> offered_service \<Rightarrow> string \<Rightarrow> order_world \<Rightarrow> order_reply + order_world" where
  "store_queued env talosId q s txHash w =
     (case insert_order (ordered_job env talosId q s txHash ''pending'' JNull) (ordered_columns env q s txHash) w of
        Inl c \<Rightarrow> Inl (conflict_reply env c)
      | Inr w1 \<Rightarrow> Inr (cache_response env q (queued_body env s txHash) w1))"

text \<open>Registration with the reconciler; its failure is only logged.\<close>

definition track_payment :: "order_env \<Rightarrow> string \<Rightarrow> order_world \<Rightarrow> order_world" where
  "track_payment env txHash w =
     (case registerTx (oe_later env) (oe_newTxId env)
             \<lparr>ro_txHash = txHash, ro_sourceType = CommerceJob, ro_sourceId = Some (oe_newId env), ro_ledgerSubmitted = None,
              ro_expiresAt = Some (oe_later env + 2 * 60 * 60 * 1000)\<rparr> (ow_txs w) of
        Inl _ \<Rightarrow> w | Inr (t, _) \<Rightarrow> w\<lparr>ow_txs := t\<rparr>)"

section \<open>The route\<close>

text \<open>From the payment hash on.\<close>

definition fulfil_order ::
  "order_env \<Rightarrow> (order_world \<Rightarrow> order_world) \<Rightarrow> string \<Rightarrow> order_request \<Rightarrow> offered_service \<Rightarrow> string \<Rightarrow> quota_result
     \<Rightarrow> order_world \<Rightarrow> order_world \<times> order_reply" where
  "fulfil_order env before_insert talosId q s txHash quota w =
     (if list_ex (\<lambda>j. mj_txHash j = Some txHash) (mk_jobs (ow_market w))
      then (w, Refused_order 409 ''Transaction already used for a job (replay)'')
      else if of_fulfillmentMode s = ''instant''
      then (case oe_fulfill env (of_serviceName s) (order_payload q) of
              Inl e \<Rightarrow> (w, Refused_order 502 (''Fulfillment failed: '' @
                          (case e of ErrorObj m \<Rightarrow> m | OtherThrown _ \<Rightarrow> ''unknown error'')))
            | Inr result \<Rightarrow>
                (case store_instant env talosId q s txHash result (before_insert w) of
                   Inl r \<Rightarrow> (before_insert w, r)
                 | Inr w' \<Rightarrow> (w', Created (instant_body env s txHash result) quota)))
      else (case store_queued env talosId q s txHash (before_insert w) of
              Inl r \<Rightarrow> (before_insert w, r)
            | Inr w' \<Rightarrow> (track_payment env txHash w', Created (queued_body env s txHash) quota)))"

definition post_order ::
  "order_env \<Rightarrow> (order_world \<Rightarrow> order_world) \<Rightarrow> (order_world \<Rightarrow> order_world) \<Rightarrow> string \<Rightarrow> order_request
     \<Rightarrow> order_world \<Rightarrow> order_world \<times> order_reply" where
  "post_order env around_payment before_insert talosId q w =
     (case order_guards q talosId w of
        Inl (status, message) \<Rightarrow> (w, Refused_order status message)
      | Inr (s, a) \<Rightarrow>
          (case idempotency_check talosId q s w of
             Some r \<Rightarrow> (w, r)
           | None \<Rightarrow>
               (case checkAndIncrementQuota (oe_now env) talosId ''job_writes'' (ow_quota w) of
                  None \<Rightarrow> (w, Refused_order 500 ''Internal server error'')
                | Some (qdb, quota) \<Rightarrow>
                    let w1 = w\<lparr>ow_quota := qdb\<rparr>
                    in if \<not> qr_ok quota then (w1, Over_quota quota)
                       else if truthy_str (oq_signedXdr q)
                       then let xdr = the (oq_signedXdr q);
                                w2 = around_payment (w1\<lparr>ow_submitted := ow_submitted w1 @ [xdr]\<rparr>)
                            in (case submitAndVerifyPayment env xdr (of_price s) (of_stellarPublicKey s) of
                                  WrongPayment \<Rightarrow>
                                    (w2, Refused_order 402 ''Payment was submitted but did not match the expected amount or recipient'')
                                | SubmitFailed e \<Rightarrow>
                                    (w2, Refused_order 402 (case e of ErrorObj m \<Rightarrow> m | OtherThrown _ \<Rightarrow> ''Payment submission failed''))
                                | Paid hash \<Rightarrow> fulfil_order env before_insert talosId q s hash quota w2)
                       else fulfil_order env before_insert talosId q s (the (oq_txHash q)) quota (around_payment w1))))"

section \<open>Polling\<close>

definition get_order :: "string \<Rightarrow> string option \<Rightarrow> string option \<Rightarrow> order_world \<Rightarrow> http_error + market_job" where
  "get_order talosId jobId txHash w =
     (if \<not> truthy_str jobId \<and> \<not> truthy_str txHash then Inl (400, ''Provide jobId or txHash'')
      else let job = (if truthy_str jobId then find_market_job (the jobId) (ow_market w)
                      else sel_one (\<lambda>j. mj_txHash j = txHash) (mk_jobs (ow_market w)))
           in case job of
                None \<Rightarrow> Inl (404, ''Job not found'')
              | Some j \<Rightarrow> if mj_talosId j \<noteq> talosId then Inl (404, ''Job not found'') else Inr j)"

end
