(* ===== verification/Job_Orders_Facts.thy ===== *)
theory Job_Orders_Facts
  imports Job_Orders Commerce_Facts
begin

text \<open>
  What ordering guarantees: a payment hash, a job id and a buyer's key each name at most one order in
  any interleaving; an order is stored whole or not at all; a retry under the same key is answered from
  the stored order without paying again; completed orders are booked once.
\<close>

section \<open>Invariant\<close>

definition order_row :: "order_world \<Rightarrow> market_job \<Rightarrow> order_columns \<Rightarrow> bool" where
  "order_row w j c \<longleftrightarrow> j \<in> set (mk_jobs (ow_market w)) \<and> c \<in> set (ow_orders w) \<and> oc_jobId c = mj_id j"

definition orders_ok :: "order_world \<Rightarrow> bool" where
  "orders_ok w \<longleftrightarrow>
     distinct (map mj_id (mk_jobs (ow_market w))) \<and>
     distinct (map oc_jobId (ow_orders w)) \<and>
     distinct (map oc_paymentSig (ow_orders w)) \<and>
     oc_jobId ` set (ow_orders w) \<subseteq> mj_id ` set (mk_jobs (ow_market w)) \<and>
     (\<forall>c \<in> set (ow_orders w). oc_idempotencyKey c \<noteq> None \<longrightarrow> oc_response c \<noteq> None) \<and>
     (\<forall>j c j' c'. order_row w j c \<and> order_row w j' c' \<and> oc_idempotencyKey c \<noteq> None \<and>
        oc_idempotencyKey c' = oc_idempotencyKey c \<and> mj_talosId j' = mj_talosId j \<and>
        mj_requesterTalosId j' = mj_requesterTalosId j \<longrightarrow> j' = j)"

lemma order_of_Some: "distinct (map oc_jobId (ow_orders w)) \<Longrightarrow> order_of i w = Some c \<longleftrightarrow> c \<in> set (ow_orders w) \<and> oc_jobId c = i"
proof
  assume "order_of i w = Some c"
  then show "c \<in> set (ow_orders w) \<and> oc_jobId c = i" by (auto simp: order_of_def dest: find_SomeD)
next
  assume d: "distinct (map oc_jobId (ow_orders w))" and c: "c \<in> set (ow_orders w) \<and> oc_jobId c = i"
  then obtain c' where c': "order_of i w = Some c'"
    by (cases "order_of i w") (auto simp: order_of_def find_None_iff)
  then have "c' \<in> set (ow_orders w)" "oc_jobId c' = i" by (auto simp: order_of_def dest: find_SomeD)
  then have "c' = c" using d c by (auto simp: distinct_map dest: inj_onD)
  then show "order_of i w = Some c" using c' by simp
qed

lemma insert_order_Inr:
  assumes "insert_order j c w = Inr w'"
  shows "w' = w\<lparr>ow_market := (ow_market w)\<lparr>mk_jobs := mk_jobs (ow_market w) @ [j]\<rparr>, ow_orders := ow_orders w @ [c]\<rparr>"
    "mj_id j \<notin> mj_id ` set (mk_jobs (ow_market w))" "oc_paymentSig c \<notin> oc_paymentSig ` set (ow_orders w)"
    "oc_idempotencyKey c = Some k \<Longrightarrow> x \<in> set (mk_jobs (ow_market w)) \<Longrightarrow> \<not> same_key_row j k w x"
  using assms by (auto simp: insert_order_def list_ex_iff split: if_splits)

text \<open>The new row with the cached response.\<close>

lemma stored_ok:
  assumes w: "orders_ok w" and i: "insert_order j c w = Inr w1" and jc: "oc_jobId c = mj_id j"
    and resp: "oc_idempotencyKey c \<noteq> None \<Longrightarrow> r \<noteq> None"
    and w': "mk_jobs (ow_market w') = mk_jobs (ow_market w) @ [j]" "ow_orders w' = ow_orders w @ [c\<lparr>oc_response := r\<rparr>]"
  shows "orders_ok w'"
proof -
  note ins = insert_order_Inr [OF i]
  let ?c = "c\<lparr>oc_response := r\<rparr>"
  have fresh: "mj_id j \<notin> oc_jobId ` set (ow_orders w)" using w ins(2) by (auto simp: orders_ok_def)
  have row: "order_row w' x d \<longleftrightarrow> order_row w x d \<or> (x = j \<and> d = ?c)" for x d
    using w ins(2) fresh jc by (auto simp: order_row_def w' orders_ok_def image_iff)
  have clash: False
    if "order_row w x d" "oc_idempotencyKey c = Some k" "oc_idempotencyKey d = Some k" "mj_talosId x = mj_talosId j"
      "mj_requesterTalosId x = mj_requesterTalosId j" for x d k
  proof -
    have "order_of (mj_id x) w = Some d"
      using that(1) w by (subst order_of_Some) (auto simp: order_row_def orders_ok_def)
    then have "same_key_row j k w x" using that by (simp add: same_key_row_def keyed_job_def)
    then show False using ins(4) [OF that(2), of x] that(1) by (simp add: order_row_def)
  qed
  have "\<forall>x d x' d'. order_row w' x d \<and> order_row w' x' d' \<and> oc_idempotencyKey d \<noteq> None \<and>
      oc_idempotencyKey d' = oc_idempotencyKey d \<and> mj_talosId x' = mj_talosId x \<and>
      mj_requesterTalosId x' = mj_requesterTalosId x \<longrightarrow> x' = x"
  proof (intro allI impI; elim conjE)
    fix x d x' d'
    assume *: "order_row w' x d" "order_row w' x' d'" "oc_idempotencyKey d \<noteq> None"
      "oc_idempotencyKey d' = oc_idempotencyKey d" "mj_talosId x' = mj_talosId x"
      "mj_requesterTalosId x' = mj_requesterTalosId x"
    show "x' = x"
    proof (cases "order_row w x d"; cases "order_row w x' d'")
      assume "order_row w x d" "order_row w x' d'"
      then show ?thesis using w * unfolding orders_ok_def by metis
    qed (use * row clash in \<open>fastforce\<close>)+
  qed
  then show ?thesis
    using w ins(2,3) fresh jc resp by (auto simp: orders_ok_def w')
qed

lemma store_queued_Inr:
  assumes "store_queued env i q s h w = Inr w'"
  obtains w1 where "insert_order (ordered_job env i q s h ''pending'' JNull) (ordered_columns env q s h) w = Inr w1"
    "w' = cache_response env q (queued_body env s h) w1"
  using assms by (auto simp: store_queued_def split: sum.splits)

lemma store_instant_Inr:
  assumes "store_instant env i q s h result w = Inr w'"
  obtains w1 m' where
    "insert_order (ordered_job env i q s h ''completed'' (oe_jsonb env result)) (ordered_columns env q s h) w = Inr w1"
    "ingestJobToLedger (oe_ledger env) (oe_newId env) (ow_market w1\<lparr>mk_revenues := mk_revenues (ow_market w1) @
       [\<lparr>rv_talosId = i, rv_amount = of_price s, rv_currency = of_currency s, rv_source = ''commerce'', rv_txHash = Some h\<rparr>]\<rparr>) = Inr m'"
    "w' = (cache_response env q (instant_body env s h result) w1)\<lparr>ow_market := m'\<rparr>"
  using assms
  by (auto simp: store_instant_def Let_def cache_response_def split: sum.splits if_splits)

lemma order_ingest_frame:
  "ingestJobToLedger env i m = Inr m' \<Longrightarrow> mk_jobs m' = mk_jobs m \<and> mk_revenues m' = mk_revenues m \<and>
     mk_agents m' = mk_agents m \<and> mk_services m' = mk_services m"
  by (auto simp: ingestJobToLedger_def split: option.splits if_splits sum.splits)

text \<open>What caching does to the row just inserted.\<close>

lemma cache_response_orders:
  assumes "oe_newId env \<notin> oc_jobId ` set t" "ow_orders w = t @ [c]" "oc_jobId c = oe_newId env" "oc_response c = None"
  shows "ow_orders (cache_response env q body w) =
      t @ [c\<lparr>oc_response := (if order_key q = None then None else Some (oe_jsonb env body))\<rparr>]"
    "ow_market (cache_response env q body w) = ow_market w" "ow_txs (cache_response env q body w) = ow_txs w"
    "ow_quota (cache_response env q body w) = ow_quota w" "ow_services (cache_response env q body w) = ow_services w"
proof -
  have "upd (\<lambda>c. oc_jobId c = oe_newId env) f t = t" for f using assms(1) by (intro upd_none) (metis imageI)
  moreover have "c\<lparr>oc_response := None\<rparr> = c" using assms(4) by simp
  ultimately show "ow_orders (cache_response env q body w) =
      t @ [c\<lparr>oc_response := (if order_key q = None then None else Some (oe_jsonb env body))\<rparr>]"
    using assms by (simp add: cache_response_def upd_append)
qed (simp_all add: cache_response_def)

text \<open>What one stored order adds, whether queued or fulfilled at once.\<close>

definition order_added :: "order_env \<Rightarrow> string \<Rightarrow> order_request \<Rightarrow> offered_service \<Rightarrow> string \<Rightarrow> json \<Rightarrow> order_world \<Rightarrow> order_world \<Rightarrow> bool" where
  "order_added env i q s h body w w' \<longleftrightarrow>
     (\<exists>j. mj_id j = oe_newId env \<and> mj_talosId j = i \<and> mj_txHash j = Some h \<and> mj_payload j = oe_jsonb env (order_payload q) \<and>
        mj_requesterTalosId j = ''human:'' @ coalesce (oq_buyer q) [] \<and> unleased j \<and>
        mk_jobs (ow_market w') = mk_jobs (ow_market w) @ [j] \<and>
        ow_orders w' = ow_orders w @ [(ordered_columns env q s h)\<lparr>oc_response :=
          (if order_key q = None then None else Some (oe_jsonb env body))\<rparr>] \<and>
        (if of_fulfillmentMode s = ''instant''
         then mj_status j = ''completed'' \<and> mk_revenues (ow_market w') = mk_revenues (ow_market w) @
           [\<lparr>rv_talosId = i, rv_amount = of_price s, rv_currency = of_currency s, rv_source = ''commerce'', rv_txHash = Some h\<rparr>]
         else mj_status j = ''pending'' \<and> mk_revenues (ow_market w') = mk_revenues (ow_market w)) \<and>
        orders_ok w')"

lemma columns_frame [simp]:
  "oc_jobId (ordered_columns env q s h) = oe_newId env" "oc_paymentSig (ordered_columns env q s h) = h"
  "oc_idempotencyKey (ordered_columns env q s h) = order_key q" "oc_response (ordered_columns env q s h) = None"
  "oc_serviceName (ordered_columns env q s h) = of_serviceName s"
  by (simp_all add: ordered_columns_def)

lemma store_queued_adds:
  assumes "store_queued env i q s h w = Inr w'" "orders_ok w" "of_fulfillmentMode s \<noteq> ''instant''"
  shows "order_added env i q s h (queued_body env s h) w w'"
proof -
  let ?j = "ordered_job env i q s h ''pending'' JNull" and ?c = "ordered_columns env q s h"
  obtain w1 where i: "insert_order ?j ?c w = Inr w1" and w': "w' = cache_response env q (queued_body env s h) w1"
    using store_queued_Inr [OF assms(1)] by metis
  note ins = insert_order_Inr [OF i]
  have fresh: "oe_newId env \<notin> oc_jobId ` set (ow_orders w)"
    using ins(2) assms(2) by (auto simp: orders_ok_def ordered_job_def)
  note cached = cache_response_orders [OF fresh, of w1 ?c q "queued_body env s h"]
  have tables: "mk_jobs (ow_market w') = mk_jobs (ow_market w) @ [?j]" "mk_revenues (ow_market w') = mk_revenues (ow_market w)"
    "ow_orders w' = ow_orders w @ [?c\<lparr>oc_response := (if order_key q = None then None else Some (oe_jsonb env (queued_body env s h)))\<rparr>]"
    using cached by (simp_all add: w' ins(1))
  have "orders_ok w'" by (rule stored_ok [OF assms(2) i _ _ tables(1,3)]) (auto simp: ordered_job_def)
  then show ?thesis
    unfolding order_added_def using tables assms(3)
    by (intro exI [of _ ?j]) (simp add: ordered_job_def unleased_def)
qed

lemma store_instant_adds:
  assumes "store_instant env i q s h result w = Inr w'" "orders_ok w" "of_fulfillmentMode s = ''instant''"
  shows "order_added env i q s h (instant_body env s h result) w w'"
proof -
  let ?j = "ordered_job env i q s h ''completed'' (oe_jsonb env result)" and ?c = "ordered_columns env q s h"
  obtain w1 m' where i: "insert_order ?j ?c w = Inr w1"
    and m': "ingestJobToLedger (oe_ledger env) (oe_newId env) (ow_market w1\<lparr>mk_revenues := mk_revenues (ow_market w1) @
       [\<lparr>rv_talosId = i, rv_amount = of_price s, rv_currency = of_currency s, rv_source = ''commerce'', rv_txHash = Some h\<rparr>]\<rparr>) = Inr m'"
    and w': "w' = (cache_response env q (instant_body env s h result) w1)\<lparr>ow_market := m'\<rparr>"
    using store_instant_Inr [OF assms(1)] by metis
  note ins = insert_order_Inr [OF i] and market = order_ingest_frame [OF m']
  have fresh: "oe_newId env \<notin> oc_jobId ` set (ow_orders w)"
    using ins(2) assms(2) by (auto simp: orders_ok_def ordered_job_def)
  note cached = cache_response_orders [OF fresh, of w1 ?c q "instant_body env s h result"]
  have tables: "mk_jobs (ow_market w') = mk_jobs (ow_market w) @ [?j]"
    "ow_orders w' = ow_orders w @ [?c\<lparr>oc_response := (if order_key q = None then None else Some (oe_jsonb env (instant_body env s h result)))\<rparr>]"
    "mk_revenues (ow_market w') = mk_revenues (ow_market w) @
       [\<lparr>rv_talosId = i, rv_amount = of_price s, rv_currency = of_currency s, rv_source = ''commerce'', rv_txHash = Some h\<rparr>]"
    using cached market by (simp_all add: w' ins(1))
  have "orders_ok w'" by (rule stored_ok [OF assms(2) i _ _ tables(1,2)]) (auto simp: ordered_job_def)
  then show ?thesis
    unfolding order_added_def using tables assms(3)
    by (intro exI [of _ ?j]) (simp add: ordered_job_def unleased_def)
qed


section \<open>One order\<close>

lemma track_payment_frame [simp]:
  "ow_market (track_payment env h w) = ow_market w" "ow_orders (track_payment env h w) = ow_orders w"
  "ow_submitted (track_payment env h w) = ow_submitted w" "ow_services (track_payment env h w) = ow_services w"
  "ow_quota (track_payment env h w) = ow_quota w"
  by (simp_all add: track_payment_def split: sum.splits prod.splits)

lemma order_added_track [simp]: "order_added env i q s h body w (track_payment env h w') = order_added env i q s h body w w'"
  by (simp add: order_added_def orders_ok_def order_row_def)

text \<open>The part after the payment: the order is stored whole, or nothing is.\<close>

lemma fulfil_order_cases:
  assumes "fulfil_order env before i q s h quota w = (w', r)" "orders_ok w" "orders_ok (before w)"
  obtains (stored) body where "r = Created body quota" "order_added env i q s h body (before w) w'"
      "Some h \<notin> mj_txHash ` set (mk_jobs (ow_market w))"
    | (unstored) "w' = w \<or> w' = before w" "\<forall>body qr. r \<noteq> Created body qr"
proof -
  have plain: "conflict_reply env c \<noteq> Created body qr" for c body qr by (simp add: conflict_reply_def)
  consider "list_ex (\<lambda>j. mj_txHash j = Some h) (mk_jobs (ow_market w))"
    | (instant) "\<not> list_ex (\<lambda>j. mj_txHash j = Some h) (mk_jobs (ow_market w))" "of_fulfillmentMode s = ''instant''"
    | (queued) "\<not> list_ex (\<lambda>j. mj_txHash j = Some h) (mk_jobs (ow_market w))" "of_fulfillmentMode s \<noteq> ''instant''"
    by blast
  then show thesis
  proof cases
    case 1
    then show thesis using assms(1) unstored by (auto simp: fulfil_order_def)
  next
    case instant
    have new: "Some h \<notin> mj_txHash ` set (mk_jobs (ow_market w))"
      using instant(1) by (force simp: list_ex_iff)
    show thesis
    proof (cases "oe_fulfill env (of_serviceName s) (order_payload q)")
      case (Inl e)
      then show thesis using assms(1) instant unstored by (auto simp: fulfil_order_def)
    next
      case (Inr result)
      show thesis
      proof (cases "store_instant env i q s h result (before w)")
        case (Inl x)
        then have "\<forall>body qr. x \<noteq> Created body qr"
          using plain by (auto simp: store_instant_def Let_def split: sum.splits)
        then show thesis using assms(1) instant Inr Inl unstored by (auto simp: fulfil_order_def)
      next
        case (Inr w1)
        then show thesis
          using assms(1) instant \<open>oe_fulfill env _ _ = Inr result\<close> store_instant_adds [OF Inr assms(3) instant(2)] stored [OF _ _ new]
          by (auto simp: fulfil_order_def)
      qed
    qed
  next
    case queued
    have new: "Some h \<notin> mj_txHash ` set (mk_jobs (ow_market w))"
      using queued(1) by (force simp: list_ex_iff)
    show thesis
    proof (cases "store_queued env i q s h (before w)")
      case (Inl x)
      then have "\<forall>body qr. x \<noteq> Created body qr" using plain by (auto simp: store_queued_def split: sum.splits)
      then show thesis using assms(1) queued Inl unstored by (auto simp: fulfil_order_def)
    next
      case (Inr w1)
      then show thesis
        using assms(1) queued store_queued_adds [OF Inr assms(3) queued(2)] stored [OF _ _ new]
        by (auto simp: fulfil_order_def)
    qed
  qed
qed

lemma orders_ok_frame: "ow_market w' = ow_market w \<Longrightarrow> ow_orders w' = ow_orders w \<Longrightarrow> orders_ok w' = orders_ok w"
  by (simp add: orders_ok_def order_row_def)

lemma orders_ok_id: "\<forall>v. orders_ok v \<longrightarrow> orders_ok (id v)"
  by simp

text \<open>The whole request, with what others do in between.\<close>

lemma post_order_cases:
  assumes "post_order env around before i q w = (w', r)" "orders_ok w"
    "\<forall>v. orders_ok v \<longrightarrow> orders_ok (around v)" "\<forall>v. orders_ok v \<longrightarrow> orders_ok (before v)"
  obtains (stored) s a qdb quota h body w1 where "order_guards q i w = Inr (s, a)" "r = Created body quota"
      "idempotency_check i q s w = None"
      "checkAndIncrementQuota (oe_now env) i ''job_writes'' (ow_quota w) = Some (qdb, quota)" "qr_ok quota"
      "w1 = around (w\<lparr>ow_quota := qdb, ow_submitted := ow_submitted w @ (if truthy_str (oq_signedXdr q) then [the (oq_signedXdr q)] else [])\<rparr>)"
      "order_added env i q s h body (before w1) w'" "Some h \<notin> mj_txHash ` set (mk_jobs (ow_market w1))"
      "if truthy_str (oq_signedXdr q) then submitAndVerifyPayment env (the (oq_signedXdr q)) (of_price s) (of_stellarPublicKey s) = Paid h
       else oq_txHash q = Some h"
    | (unstored) v where "\<forall>body qr. r \<noteq> Created body qr" "ow_market v = ow_market w" "ow_orders v = ow_orders w" "ow_txs v = ow_txs w"
      "w' = v \<or> w' = around v \<or> w' = before (around v)"
proof (cases "order_guards q i w")
  case (Inl e)
  then show thesis using assms(1) unstored [of w] by (cases e) (auto simp: post_order_def)
next
  case (Inr sa)
  obtain s a where guards: "order_guards q i w = Inr (s, a)" using Inr by (cases sa) auto
  show thesis
  proof (cases "idempotency_check i q s w")
    case (Some x)
    then have "\<forall>body qr. x \<noteq> Created body qr"
      by (auto simp: idempotency_check_def split: option.splits prod.splits if_splits)
    then show thesis using assms(1) guards Some unstored [of w] by (auto simp: post_order_def)
  next
    case check: None
    show thesis
    proof (cases "checkAndIncrementQuota (oe_now env) i ''job_writes'' (ow_quota w)")
      case None
      then show thesis using assms(1) guards check unstored [of w] by (auto simp: post_order_def)
    next
      case (Some qq)
      obtain qdb quota where quota: "checkAndIncrementQuota (oe_now env) i ''job_writes'' (ow_quota w) = Some (qdb, quota)"
        using Some by (cases qq) auto
      let ?xdr = "the (oq_signedXdr q)" and ?signed = "truthy_str (oq_signedXdr q)"
      define v where "v = w\<lparr>ow_quota := qdb, ow_submitted := ow_submitted w @ (if ?signed then [?xdr] else [])\<rparr>"
      have v: "ow_market v = ow_market w" "ow_orders v = ow_orders w" "ow_txs v = ow_txs w" by (simp_all add: v_def)
      have ok: "orders_ok v" "orders_ok (around v)" "orders_ok (before (around v))"
        using assms(2-4) orders_ok_frame [OF v(1,2)] by auto
      have signed_hash: "oq_txHash q = Some (the (oq_txHash q))" if "\<not> ?signed"
        using guards that by (cases "oq_txHash q") (auto simp: order_guards_def split: if_splits)
      show thesis
      proof (cases "qr_ok quota")
        case False
        then show thesis
          using assms(1) guards check quota unstored [of "w\<lparr>ow_quota := qdb\<rparr>"] by (auto simp: post_order_def Let_def)
      next
        case True
        note run = assms(1) [unfolded post_order_def guards sum.case prod.case check option.case quota Let_def, simplified True]
        show thesis
        proof (cases ?signed)
          case signed: True
          show thesis
          proof (cases "submitAndVerifyPayment env ?xdr (of_price s) (of_stellarPublicKey s)")
            case (Paid h)
            have f: "fulfil_order env before i q s h quota (around v) = (w', r)"
              using run signed Paid by (simp add: v_def)
            from f ok(2,3) show thesis
            proof (cases rule: fulfil_order_cases)
              case (stored body)
              then show thesis
                using that(1) [OF guards _ check quota True, of body "around v" h] signed Paid by (simp add: v_def)
            next
              case unstored
              then show thesis using that(2) [OF _ v] by blast
            qed
          qed (use run signed that(2) [OF _ v] in \<open>auto simp: v_def\<close>)
        next
          case unsigned: False
          have f: "fulfil_order env before i q s (the (oq_txHash q)) quota (around v) = (w', r)"
            using run unsigned by (simp add: v_def)
          from f ok(2,3) show thesis
          proof (cases rule: fulfil_order_cases)
            case (stored body)
            then show thesis
              using that(1) [OF guards _ check quota True, of body "around v" "the (oq_txHash q)"] unsigned signed_hash
              by (simp add: v_def)
          next
            case unstored
            then show thesis using that(2) [OF _ v] by blast
          qed
        qed
      qed
    qed
  qed
qed


section \<open>What ordering guarantees\<close>

text \<open>C10.
  Orders stay unique: however requests of other buyers and workers fall between the steps of an
  ordering request, job ids and payment hashes stay unique over the orders, no buyer has two orders of
  one agent under one key, and every order with a key has its cached response.\<close>

theorem orders_stay_unique:
  assumes "post_order env around before i q w = (w', r)" "orders_ok w"
    "\<forall>v. orders_ok v \<longrightarrow> orders_ok (around v)" "\<forall>v. orders_ok v \<longrightarrow> orders_ok (before v)"
  shows "orders_ok w'"
proof -
  have "orders_ok v" if "ow_market v = ow_market w" "ow_orders v = ow_orders w" for v
    using orders_ok_frame [OF that] assms(2) by simp
  note base = this
  from assms show ?thesis
  proof (cases rule: post_order_cases)
    case (stored s a qdb quota h body w1)
    show ?thesis using stored(7) unfolding order_added_def by blast
  next
    case (unstored v)
    then show ?thesis using base [of v] assms(3,4) by auto
  qed
qed

text \<open>C4.
  An order is all or nothing: an undisturbed request that answers 201 with a new order has passed the
  guards and the quota, was paid with a hash no job had, by a submitted transaction that pays the
  service's price in USDC to its account or by the hash the buyer named, and has stored exactly one job,
  with its key, its cached response and, when fulfilled at once, one revenue row; any other answer
  leaves jobs, orders, revenues, the ledger and the tracked transactions as they were.\<close>

theorem order_all_or_nothing:
  assumes "post_order env id id i q w = (w', r)" "orders_ok w"
  shows "(case r of
      Created body quota \<Rightarrow> qr_ok quota \<and>
        (\<exists>s a h v. order_guards q i w = Inr (s, a) \<and> mk_jobs (ow_market v) = mk_jobs (ow_market w) \<and>
           mk_revenues (ow_market v) = mk_revenues (ow_market w) \<and> ow_orders v = ow_orders w \<and>
           order_added env i q s h body v w' \<and> Some h \<notin> mj_txHash ` set (mk_jobs (ow_market w)) \<and>
           (if truthy_str (oq_signedXdr q)
            then ow_submitted v = ow_submitted w @ [the (oq_signedXdr q)] \<and>
              (\<exists>ops op. oe_submit env (the (oq_signedXdr q)) = Inr (h, ops) \<and> op \<in> set ops \<and>
                 po_destination op = Some (of_stellarPublicKey s) \<and> po_asset op = Some (''USDC'', oe_issuer env) \<and>
                 pays env (of_price s) (of_stellarPublicKey s) op)
            else oq_txHash q = Some h))
    | _ \<Rightarrow> ow_market w' = ow_market w \<and> ow_orders w' = ow_orders w \<and> ow_txs w' = ow_txs w)"
  using assms orders_ok_id orders_ok_id
proof (cases rule: post_order_cases)
  case (stored s a qdb quota h body w1)
  have paid: "\<exists>ops op. oe_submit env x = Inr (h, ops) \<and> op \<in> set ops \<and> po_destination op = Some (of_stellarPublicKey s) \<and> po_asset op = Some (''USDC'', oe_issuer env) \<and>
                 pays env (of_price s) (of_stellarPublicKey s) op"
    if "submitAndVerifyPayment env x (of_price s) (of_stellarPublicKey s) = Paid h" for x
    using that by (fastforce simp: submitAndVerifyPayment_def list_ex_iff pays_def split: sum.splits prod.splits if_splits)
  have w1: "ow_market w1 = ow_market w" "ow_orders w1 = ow_orders w" by (simp_all add: stored(6))
  have "(if truthy_str (oq_signedXdr q)
            then ow_submitted w1 = ow_submitted w @ [the (oq_signedXdr q)] \<and>
              (\<exists>ops op. oe_submit env (the (oq_signedXdr q)) = Inr (h, ops) \<and> op \<in> set ops \<and>
                 po_destination op = Some (of_stellarPublicKey s) \<and> po_asset op = Some (''USDC'', oe_issuer env) \<and>
                 pays env (of_price s) (of_stellarPublicKey s) op)
            else oq_txHash q = Some h)"
    using stored(6,9) paid by (auto split: if_splits)
  then have "\<exists>s a h v. order_guards q i w = Inr (s, a) \<and> mk_jobs (ow_market v) = mk_jobs (ow_market w) \<and>
      mk_revenues (ow_market v) = mk_revenues (ow_market w) \<and> ow_orders v = ow_orders w \<and>
      order_added env i q s h body v w' \<and> Some h \<notin> mj_txHash ` set (mk_jobs (ow_market w)) \<and>
      (if truthy_str (oq_signedXdr q)
       then ow_submitted v = ow_submitted w @ [the (oq_signedXdr q)] \<and>
         (\<exists>ops op. oe_submit env (the (oq_signedXdr q)) = Inr (h, ops) \<and> op \<in> set ops \<and>
            po_destination op = Some (of_stellarPublicKey s) \<and> po_asset op = Some (''USDC'', oe_issuer env) \<and>
                 pays env (of_price s) (of_stellarPublicKey s) op)
       else oq_txHash q = Some h)"
    using stored(1,7,8) w1 by (intro exI [of _ s] exI [of _ a] exI [of _ h] exI [of _ w1]) (simp add: id_def)
  then show ?thesis using stored(2,5) by simp
next
  case (unstored v)
  then show ?thesis by (cases r) auto
qed

text \<open>The key finds the order just stored.\<close>

lemma sel_one_snoc: "sel_one P (xs @ [x]) = (case sel_one P xs of Some y \<Rightarrow> Some y | None \<Rightarrow> if P x then Some x else None)"
  by (simp add: find_append split: option.split)

lemma key_lookup_frame: "ow_market v = ow_market w \<Longrightarrow> ow_orders v = ow_orders w \<Longrightarrow> key_lookup i k v = key_lookup i k w"
  by (simp add: key_lookup_def keyed_job_def [abs_def] order_of_def cong: option.case_cong)

lemma key_lookup_stored:
  assumes w: "orders_ok w" and none: "key_lookup i k w = None" and ok: "orders_ok w'"
    and w': "mk_jobs (ow_market w') = mk_jobs (ow_market w) @ [j]" "ow_orders w' = ow_orders w @ [c]"
    and row: "oc_jobId c = mj_id j" "mj_talosId j = i" "oc_idempotencyKey c = Some k"
  shows "key_lookup i k w' = Some (j, c)"
proof -
  have d: "distinct (map oc_jobId (ow_orders w'))" "distinct (map mj_id (mk_jobs (ow_market w')))"
    using ok by (simp_all add: orders_ok_def)
  have c: "order_of (mj_id j) w' = Some c" using order_of_Some [OF d(1)] row(1) by (simp add: w')
  have old: "\<not> keyed_job i k w' x" if x: "x \<in> set (mk_jobs (ow_market w))" for x
  proof
    assume k: "keyed_job i k w' x"
    then obtain e where e: "order_of (mj_id x) w' = Some e" "oc_idempotencyKey e = Some k" "mj_talosId x = i"
      by (auto simp: keyed_job_def split: option.splits)
    have "mj_id x \<noteq> mj_id j" using d(2) x by (simp add: w') (metis imageI)
    then have "e \<in> set (ow_orders w)" "oc_jobId e = mj_id x"
      using e(1) order_of_Some [OF d(1)] row(1) by (auto simp: w')
    then have "order_of (mj_id x) w = Some e" using w order_of_Some [of w] by (simp add: orders_ok_def)
    then have "keyed_job i k w x" using e by (simp add: keyed_job_def)
    then have "sel_one (keyed_job i k w) (mk_jobs (ow_market w)) \<noteq> None"
      using x by (auto simp: find_None_iff)
    then obtain y where y: "sel_one (keyed_job i k w) (mk_jobs (ow_market w)) = Some y" by auto
    then have "keyed_job i k w y" by (auto dest: find_SomeD)
    then have "order_of (mj_id y) w \<noteq> None" by (auto simp: keyed_job_def split: option.splits)
    then show False using none y by (auto simp: key_lookup_def)
  qed
  have "sel_one (keyed_job i k w') (mk_jobs (ow_market w)) = None"
    using old by (auto simp: find_None_iff)
  moreover have "keyed_job i k w' j" using c row by (simp add: keyed_job_def)
  ultimately have "sel_one (keyed_job i k w') (mk_jobs (ow_market w')) = Some j"
    by (simp add: w'(1) sel_one_snoc)
  then show ?thesis using c by (simp add: key_lookup_def)
qed

definition PAYLOAD_CONFLICT :: order_reply where
  "PAYLOAD_CONFLICT =
     Refused_order 409 ''Idempotency-Key reused with a different payload. Use a new key for a different request.''"

text \<open>C9.
  A retry never pays twice: once a request with a key was answered 201, any later request to the agent
  under that key which passes the checks before it, while the row keeps its order columns and payload
  and whatever else has changed meanwhile, changes nothing: no transaction is submitted, no quota
  consumed, no job stored.  It is answered with the stored response when the service still has its name
  and the payload is the one the database gives back for the first, and with 409 otherwise.\<close>

theorem retry_replays:
  assumes "post_order env id id i q w = (w', Created body quota)" "orders_ok w" "order_key q = Some k"
    "order_guards q i w = Inr (s, a)" "order_key q' = Some k" "order_guards q' i v = Inr (s', a')"
    "case key_lookup i k w' of None \<Rightarrow> True
     | Some (j, c) \<Rightarrow> \<exists>j'. key_lookup i k v = Some (j', c) \<and> mj_payload j' = mj_payload j"
  shows "post_order env' around before i q' v = (v,
     if of_serviceName s' = of_serviceName s \<and> order_payload q' = or_empty (oe_jsonb env (order_payload q))
     then Replayed k (oe_jsonb env body) else PAYLOAD_CONFLICT)"
  using assms(1,2) orders_ok_id orders_ok_id
proof (cases rule: post_order_cases)
  case (stored s0 a0 qdb quota' h body' w1)
  have s0: "s0 = s" using stored(1) assms(4) by simp
  have same: "ow_market w1 = ow_market w" "ow_orders w1 = ow_orders w" by (simp_all add: stored(6))
  have ok1: "orders_ok w1" using orders_ok_frame [OF same] assms(2) by simp
  have none: "key_lookup i k w = None"
    using stored(3) assms(3) by (auto simp: idempotency_check_def split: option.splits if_splits prod.splits)
  then have none1: "key_lookup i k w1 = None" using key_lookup_frame [OF same] by simp
  obtain j where j: "mj_id j = oe_newId env" "mj_talosId j = i" "mj_payload j = oe_jsonb env (order_payload q)"
    "mk_jobs (ow_market w') = mk_jobs (ow_market w1) @ [j]"
    "ow_orders w' = ow_orders w1 @ [(ordered_columns env q s h)\<lparr>oc_response := Some (oe_jsonb env body')\<rparr>]" "orders_ok w'"
    using stored(7) assms(3) s0 by (auto simp: order_added_def)
  have "key_lookup i k w' = Some (j, (ordered_columns env q s h)\<lparr>oc_response := Some (oe_jsonb env body')\<rparr>)"
    using j assms(3) by (intro key_lookup_stored [OF ok1 none1 j(6) j(4,5)]) simp_all
  then obtain j' where found: "key_lookup i k v = Some (j', (ordered_columns env q s h)\<lparr>oc_response := Some (oe_jsonb env body')\<rparr>)"
    "mj_payload j' = oe_jsonb env (order_payload q)"
    using assms(7) j(3) by auto
  have "body' = body" using stored(2) by simp
  then have "idempotency_check i q' s' v = Some (if of_serviceName s' = of_serviceName s \<and>
      order_payload q' = or_empty (oe_jsonb env (order_payload q)) then Replayed k (oe_jsonb env body) else PAYLOAD_CONFLICT)"
    using assms(5) found by (auto simp: idempotency_check_def PAYLOAD_CONFLICT_def)
  then show ?thesis using assms(6) by (simp add: post_order_def)
qed auto


text \<open>Orders are booked once: an ordering request, whatever requests that keep the books fall between its
  steps, adds as many revenue rows as completed jobs, so an instant order books its price, a queued one
  nothing until its result is accepted.\<close>

theorem orders_booked_once:
  assumes "post_order env around before i q w = (w', r)" "orders_ok w"
    "\<forall>v. orders_ok v \<longrightarrow> orders_ok (around v) \<and> same_books (ow_market v) (ow_market (around v))"
    "\<forall>v. orders_ok v \<longrightarrow> orders_ok (before v) \<and> same_books (ow_market v) (ow_market (before v))"
  shows "same_books (ow_market w) (ow_market w')"
proof -
  have steps: "\<forall>v. orders_ok v \<longrightarrow> orders_ok (around v)" "\<forall>v. orders_ok v \<longrightarrow> orders_ok (before v)"
    using assms(3,4) by auto
  have books: "same_books (ow_market w) (ow_market v) \<and> same_books (ow_market w) (ow_market (around v)) \<and>
      same_books (ow_market w) (ow_market (before (around v))) \<and> orders_ok (before (around v))"
    if "ow_market v = ow_market w" "ow_orders v = ow_orders w" for v
  proof -
    have v: "orders_ok v" using orders_ok_frame [OF that] assms(2) by simp
    have s0: "same_books (ow_market w) (ow_market v)"
      using that(1) assms(2) by (simp add: same_books_refl ids_ok_def orders_ok_def)
    have a: "orders_ok (around v)" "same_books (ow_market v) (ow_market (around v))" using assms(3) v by simp_all
    have b: "orders_ok (before (around v))" "same_books (ow_market (around v)) (ow_market (before (around v)))"
      using assms(4) a(1) by simp_all
    note s1 = same_books_trans [OF s0 a(2)]
    show ?thesis using s0 s1 same_books_trans [OF s1 b(2)] b(1) by simp
  qed
  from assms(1,2) steps show ?thesis
  proof (cases rule: post_order_cases)
    case (stored s a qdb quota h body w1)
    have before: "same_books (ow_market w) (ow_market (before w1))"
      unfolding stored(6) using books by simp
    have "same_books (ow_market (before w1)) (ow_market w')"
      using stored(7) before
      by (auto simp: order_added_def same_books_def ids_ok_def completed_jobs_def orders_ok_def split: if_splits)
    then show ?thesis using before same_books_trans by blast
  next
    case (unstored v)
    then show ?thesis using books [of v] by auto
  qed
qed

section \<open>Samples\<close>

definition order_agent :: agent where
  "order_agent = \<lparr>ag_id = ''a1'', ag_status = ''Active'', ag_apiKey = Some ''k1'', ag_agentOnline = True,
     ag_agentLastSeen = None, ag_agentWalletId = None, ag_agentWalletAddress = None\<rparr>"

definition order_service :: offered_service where
  "order_service = \<lparr>of_talosId = ''a1'', of_serviceName = ''find_leads'', of_price = ''2'', of_currency = ''USDC'',
     of_stellarPublicKey = ''GSELLER'', of_fulfillmentMode = ''async''\<rparr>"

definition order_start :: order_world where
  "order_start = \<lparr>ow_market = \<lparr>mk_agents = [order_agent], mk_services = [], mk_jobs = [], mk_revenues = [], mk_inputs = []\<rparr>,
     ow_services = [order_service], ow_orders = [], ow_quota = \<lparr>qd_configs = [], qd_usage = []\<rparr>, ow_txs = [], ow_submitted = []\<rparr>"

definition right_payment :: payment_op where
  "right_payment = \<lparr>po_type = ''payment'', po_asset = Some (''USDC'', ''GISSUER''), po_destination = Some ''GSELLER'',
     po_amount = Some ''2''\<rparr>"

definition order_sample_env :: order_env where
  "order_sample_env = \<lparr>oe_submit = (\<lambda>xdr. Inr (''h-'' @ xdr, [right_payment])),
     oe_parseFloat = (\<lambda>s. if s = ''2'' then Some 2 else None), oe_issuer = ''GISSUER'',
     oe_fulfill = (\<lambda>_ _. Inr (JObj [])), oe_jsonb = (\<lambda>v. v), oe_number = (\<lambda>_. JNum 2), oe_visible = True,
     oe_ledger = plain_env, oe_newId = ''j1'', oe_newTxId = ''t1'', oe_now = 10, oe_later = 20\<rparr>"

definition order_sample :: order_request where
  "order_sample = \<lparr>oq_buyer = Some ''GBUYER'', oq_signedXdr = Some ''xdr'', oq_txHash = None,
     oq_payload = Some (JObj [(''query'', JStr ''cafes''), (''n'', JNum 3)]), oq_header = Some ''key-1''\<rparr>"

definition ordered :: "order_world \<times> order_reply" where
  "ordered = post_order order_sample_env id id ''a1'' order_sample order_start"

lemma order_start_ok: "orders_ok order_start"
  by (simp add: orders_ok_def order_start_def order_row_def)

lemma ordered_created: "snd ordered = Created (queued_body order_sample_env order_service ''h-xdr'')
    \<lparr>qr_ok = True, qr_limit = 10000, qr_remaining = 10000, qr_used = 0, qr_resetAt = 86400000, qr_resource = ''job_writes''\<rparr>"
  by code_simp

theorem orders_stay_unique_witness: "orders_ok (fst ordered)"
proof -
  have run: "post_order order_sample_env id id ''a1'' order_sample order_start = (fst ordered, snd ordered)"
    by (simp add: ordered_def)
  show ?thesis by (rule orders_stay_unique [OF run order_start_ok orders_ok_id orders_ok_id])
qed

theorem order_all_or_nothing_witness:
  "\<exists>h. ow_submitted (fst ordered) = [''xdr''] \<and> h = ''h-xdr'' \<and> length (mk_jobs (ow_market (fst ordered))) = 1"
proof -
  have run: "post_order order_sample_env id id ''a1'' order_sample order_start = (fst ordered, snd ordered)"
    by (simp add: ordered_def)
  have "length (mk_jobs (ow_market (fst ordered))) = 1"
    using order_all_or_nothing [OF run order_start_ok] by (auto simp: ordered_created order_added_def order_start_def)
  moreover have "ow_submitted (fst ordered) = [''xdr'']" by code_simp
  ultimately show ?thesis by simp
qed

theorem orders_booked_once_witness: "same_books (ow_market order_start) (ow_market (fst ordered))"
proof -
  have calm: "\<forall>v. orders_ok v \<longrightarrow> orders_ok (id v) \<and> same_books (ow_market v) (ow_market (id v))"
    by (simp add: same_books_refl ids_ok_def orders_ok_def)
  have run: "post_order order_sample_env id id ''a1'' order_sample order_start = (fst ordered, snd ordered)"
    by (simp add: ordered_def)
  show ?thesis by (rule orders_booked_once [OF run order_start_ok calm calm])
qed

text \<open>jsonb keeps the members of an object by length of their names, so a retry of the same request is
  refused as a different payload when its names were in another order.\<close>

definition by_name_length :: "json \<Rightarrow> json" where
  "by_name_length v = (case v of JObj es \<Rightarrow> JObj (sort_key (\<lambda>(k, _). length k) es) | _ \<Rightarrow> v)"

definition jsonb_env :: order_env where
  "jsonb_env = order_sample_env\<lparr>oe_jsonb := by_name_length\<rparr>"

definition short_first :: order_request where
  "short_first = order_sample\<lparr>oq_payload := Some (JObj [(''n'', JNum 3), (''query'', JStr ''cafes'')])\<rparr>"

lemma jsonb_created:
  "snd (post_order jsonb_env id id ''a1'' short_first order_start) = Created (queued_body jsonb_env order_service ''h-xdr'')
    \<lparr>qr_ok = True, qr_limit = 10000, qr_remaining = 10000, qr_used = 0, qr_resetAt = 86400000, qr_resource = ''job_writes''\<rparr>"
  "snd (post_order jsonb_env id id ''a1'' order_sample order_start) = Created (queued_body jsonb_env order_service ''h-xdr'')
    \<lparr>qr_ok = True, qr_limit = 10000, qr_remaining = 10000, qr_used = 0, qr_resetAt = 86400000, qr_resource = ''job_writes''\<rparr>"
  by code_simp+

theorem retry_replays_witness:
  "(let first = fst (post_order jsonb_env id id ''a1'' short_first order_start)
    in post_order jsonb_env id id ''a1'' short_first first =
       (first, Replayed ''key-1'' (by_name_length (queued_body jsonb_env order_service ''h-xdr'')))) \<and>
   (let first = fst (post_order jsonb_env id id ''a1'' order_sample order_start)
    in post_order jsonb_env id id ''a1'' order_sample first = (first, PAYLOAD_CONFLICT))"
proof -
  let ?first = "\<lambda>q. fst (post_order jsonb_env id id ''a1'' q order_start)"
  have run: "post_order jsonb_env id id ''a1'' q order_start = (?first q, snd (post_order jsonb_env id id ''a1'' q order_start))" for q
    by simp
  have key: "order_key short_first = Some ''key-1''" "order_key order_sample = Some ''key-1''" by code_simp+
  have guards: "order_guards short_first ''a1'' order_start = Inr (order_service, order_agent)"
    "order_guards order_sample ''a1'' order_start = Inr (order_service, order_agent)"
    "order_guards short_first ''a1'' (?first short_first) = Inr (order_service, order_agent)"
    "order_guards order_sample ''a1'' (?first order_sample) = Inr (order_service, order_agent)"
    by code_simp+
  have kept: "case key_lookup i k u of None \<Rightarrow> True | Some (j, c) \<Rightarrow> \<exists>j'. key_lookup i k u = Some (j', c) \<and> mj_payload j' = mj_payload j"
    for i k u by (simp split: option.split)
  have jsonb: "oe_jsonb jsonb_env = by_name_length" by (simp add: jsonb_env_def)
  have payload: "(order_payload short_first = or_empty (by_name_length (order_payload short_first))) = True"
    "(order_payload order_sample = or_empty (by_name_length (order_payload order_sample))) = False"
    by code_simp+
  show ?thesis
    using retry_replays [OF run [of short_first, unfolded jsonb_created] order_start_ok key(1) guards(1) key(1) guards(3) kept, of jsonb_env id id]
      retry_replays [OF run [of order_sample, unfolded jsonb_created] order_start_ok key(2) guards(2) key(2) guards(4) kept, of jsonb_env id id]
    by (simp only: Let_def jsonb payload simp_thms if_True if_False)
qed

text \<open>The key is looked up per agent, not per buyer: another buyer who sends the same key and payload is
  answered with the first buyer's order, without paying.\<close>

lemma foreign_key_replays:
  "snd (post_order order_sample_env id id ''a1'' (order_sample\<lparr>oq_buyer := Some ''GOTHER'', oq_signedXdr := Some ''xdr2''\<rparr>) (fst ordered)) =
     Replayed ''key-1'' (queued_body order_sample_env order_service ''h-xdr'')"
  by code_simp

text \<open>A deadline in the payload that is no date rolls the order back after payment and fulfillment.\<close>

lemma bad_deadline_loses_paid_order:
  "(let (w, reply) = post_order order_sample_env id id ''a1''
          (order_sample\<lparr>oq_payload := Some (JObj [(''deadlineAt'', JStr ''soon'')])\<rparr>)
          (order_start\<lparr>ow_services := [order_service\<lparr>of_fulfillmentMode := ''instant''\<rparr>]\<rparr>)
    in ow_submitted w = [''xdr''] \<and> mk_jobs (ow_market w) = [] \<and> reply = Refused_order 500 ''Internal server error'')"
  by code_simp

text \<open>A hash is taken on the buyer's word: nothing looks the transaction up.\<close>

lemma made_up_hash_accepted:
  "(case snd (post_order order_sample_env id id ''a1''
       (order_sample\<lparr>oq_signedXdr := None, oq_txHash := Some ''made-up''\<rparr>) order_start) of
      Created _ _ \<Rightarrow> True | _ \<Rightarrow> False)"
  by code_simp

text \<open>What a queued order adds to the market is the insertion the lease routes are proved against.\<close>

lemma queued_order_creates_job:
  assumes "store_queued env i q s h w = Inr w'"
  shows "create_job (ordered_job env i q s h ''pending'' JNull) (ow_market w) = Some (ow_market w')"
proof -
  let ?j = "ordered_job env i q s h ''pending'' JNull"
  obtain w1 where i: "insert_order ?j (ordered_columns env q s h) w = Inr w1"
    and w': "w' = cache_response env q (queued_body env s h) w1"
    using store_queued_Inr [OF assms] by metis
  have "find_market_job (mj_id ?j) (ow_market w) = None"
    unfolding find_market_job_def find_None_iff using insert_order_Inr(2) [OF i] by (metis imageI)
  moreover have "ow_market w' = (ow_market w)\<lparr>mk_jobs := mk_jobs (ow_market w) @ [?j]\<rparr>"
    using insert_order_Inr(1) [OF i] by (simp add: w' cache_response_def)
  ultimately show ?thesis by (simp add: create_job_def unleased_def ordered_job_def)
qed

end
