(* ===== verification/Js_Double.thy ===== *)
theory Js_Double
  imports Js_Text "HOL-Library.Log_Nat"
begin

text \<open>
  JavaScript arithmetic on fractions: a number is the rational it denotes and every operation rounds
  its exact result to the nearest double, ties to even.  Results lie in the normal range: the program
  works on amounts of money, below 2^1023 and, unless zero, above 2^-1022.  Also \<open>toFixed\<close>, and
  the texts PostgreSQL gives for numeric columns.
\<close>

section \<open>Rounding\<close>

definition half_even :: "rat \<Rightarrow> int" where
  "half_even x =
     (let n = \<lfloor>x\<rfloor>; r = x - of_int n
      in if r < 1/2 then n else if r > 1/2 then n + 1 else if even n then n else n + 1)"

text \<open>The exponent of the last bit of the 53-bit significand.\<close>

definition dbl_exponent :: "rat \<Rightarrow> int" where
  "dbl_exponent x =
     (let (p, q) = quotient_of \<bar>x\<bar>;
          e = bitlen p - bitlen q - 53
      in if \<bar>x\<bar> < 2 powi (e + 53) then e else e + 1)"

definition dbl :: "rat \<Rightarrow> rat" where
  "dbl x =
     (if x = 0 then 0
      else let u = 2 powi dbl_exponent x in sgn x * of_int (half_even (\<bar>x\<bar> / u)) * u)"

text \<open>\<open>x.toFixed(n)\<close> for |x| < 10^21, as the integer its digits without the point are, and a decimal of
  that many places as text.\<close>

definition to_fixed :: "nat \<Rightarrow> rat \<Rightarrow> int" where
  "to_fixed n x = (if x < 0 then - \<lfloor>- x * 10 ^ n + 1/2\<rfloor> else \<lfloor>x * 10 ^ n + 1/2\<rfloor>)"

function decimal_digits :: "int \<Rightarrow> string" where
  "decimal_digits n = (if n < 10 then [char_of (48 + n)] else decimal_digits (n div 10) @ [char_of (48 + n mod 10)])"
  by auto
termination by (relation "measure nat") auto

declare decimal_digits.simps [simp del]

definition fixed_text :: "nat \<Rightarrow> int \<Rightarrow> string" where
  "fixed_text n v =
     (let m = \<bar>v\<bar>; fraction = decimal_digits (m mod 10 ^ n)
      in (if v < 0 then ''-'' else []) @ decimal_digits (m div 10 ^ n) @ ''.'' @
         replicate (n - length fraction) (CHR ''0'') @ fraction)"

text \<open>\<open>Math.round\<close>, for results below 2^53.\<close>

definition js_round :: "rat \<Rightarrow> int" where
  "js_round x = \<lfloor>x + 1/2\<rfloor>"

section \<open>Error bounds\<close>

lemma half_even_error: "\<bar>of_int (half_even x) - x\<bar> \<le> 1/2"
proof -
  have "of_int \<lfloor>x\<rfloor> \<le> x" "x < of_int \<lfloor>x\<rfloor> + 1" by linarith+
  then show ?thesis by (auto simp: half_even_def Let_def abs_le_iff)
qed

lemma half_even_int [simp]: "half_even (of_int n) = n"
  by (simp add: half_even_def)

lemma powi_int: "0 \<le> n \<Longrightarrow> (2::rat) powi n = of_int (2 ^ nat n)"
  by (simp add: power_int_def)

lemma dbl_exponent_lower:
  assumes "x \<noteq> 0"
  shows "2 powi (dbl_exponent x + 52) \<le> \<bar>x\<bar>"
proof -
  obtain p q where pq: "quotient_of \<bar>x\<bar> = (p, q)" by (cases "quotient_of \<bar>x\<bar>")
  have x: "\<bar>x\<bar> = of_int p / of_int q" and q: "0 < q" using quotient_of_div [OF pq] quotient_of_denom_pos [OF pq] by auto
  have "0 < of_int p / (of_int q :: rat)" using assms by (simp flip: x)
  then have p: "0 < p" using q by (simp add: zero_less_divide_iff)
  let ?e = "bitlen p - bitlen q - 53"
  have low: "2 powi (?e + 52) \<le> \<bar>x\<bar>"
  proof -
    have b: "2 ^ nat (bitlen p - 1) \<le> p" "q < 2 ^ nat (bitlen q)" using bitlen_bounds [OF p] bitlen_bounds [OF q] by auto
    have "1 \<le> bitlen p" using p bitlen_eq_zero_iff [of p] bitlen_nonneg [of p] by linarith
    then have "(2::rat) powi (bitlen p - 1) \<le> of_int p" "of_int q \<le> (2::rat) powi (bitlen q)"
      using b bitlen_nonneg [of q] by (simp_all add: powi_int)
    then have "(2::rat) powi (bitlen p - 1) / 2 powi (bitlen q) \<le> of_int p / of_int q"
      using p q by (intro frac_le) auto
    moreover have "(2::rat) powi (bitlen p - 1) / 2 powi (bitlen q) = 2 powi (?e + 52)"
      by (simp add: diff_right_commute flip: power_int_diff)
    ultimately show ?thesis by (simp add: x)
  qed
  show ?thesis using low by (auto simp: dbl_exponent_def pq Let_def add.commute add.left_commute)
qed

lemma dbl_error: "\<bar>dbl x - x\<bar> \<le> \<bar>x\<bar> / 2 ^ 53"
proof (cases "x = 0")
  case False
  let ?u = "(2::rat) powi dbl_exponent x"
  have u: "0 < ?u" by simp
  have "?u * 2 ^ 52 \<le> \<bar>x\<bar>" using dbl_exponent_lower [OF False] by (simp add: power_int_add)
  then have half: "?u / 2 \<le> \<bar>x\<bar> / 2 ^ 53" by simp
  have "dbl x - x = sgn x * (of_int (half_even (\<bar>x\<bar> / ?u)) * ?u - \<bar>x\<bar>)"
    using False by (simp add: dbl_def Let_def right_diff_distrib sgn_mult_abs mult.assoc)
  also have "\<dots> = sgn x * ((of_int (half_even (\<bar>x\<bar> / ?u)) - \<bar>x\<bar> / ?u) * ?u)" by (simp add: field_simps)
  finally have "\<bar>dbl x - x\<bar> = \<bar>of_int (half_even (\<bar>x\<bar> / ?u)) - \<bar>x\<bar> / ?u\<bar> * ?u"
    using False by (simp add: abs_mult)
  also have "\<dots> \<le> 1/2 * ?u" using half_even_error u by (intro mult_right_mono) auto
  finally show ?thesis using half by simp
qed (simp add: dbl_def)

lemma dbl_between: "0 \<le> x \<Longrightarrow> x - x / 2 ^ 53 \<le> dbl x \<and> dbl x \<le> x + x / 2 ^ 53"
  using dbl_error [of x] by (simp only: abs_of_nonneg abs_diff_le_iff)

lemma dbl_upper: "0 \<le> x \<Longrightarrow> dbl x \<le> x * (1 + 1 / 2 ^ 53)"
  using dbl_between [of x] by (simp add: algebra_simps)

lemma dbl_nonneg: "0 \<le> x \<Longrightarrow> 0 \<le> dbl x"
  using dbl_between [of x] by simp

lemma dbl_0 [simp]: "dbl 0 = 0"
  by (simp add: dbl_def)

lemma dbl_pos: "0 < x \<Longrightarrow> 0 < dbl x"
  using dbl_between [of x] by simp

section \<open>Columns of numbers\<close>

text \<open>What an integer column makes of a JavaScript number; \<open>None\<close>: the statement fails.\<close>

definition int_column :: "rat \<Rightarrow> int option" where
  "int_column x = (let n = \<lfloor>x\<rfloor> in if of_int n = x \<and> - (2 ^ 31) \<le> n \<and> n < 2 ^ 31 then Some n else None)"

lemma int_column_Some: "int_column x = Some n \<Longrightarrow> x = of_int n \<and> - (2 ^ 31) \<le> n \<and> n < 2 ^ 31"
  by (auto simp: int_column_def Let_def split: if_splits)

fun decimal_value :: "int \<Rightarrow> string \<Rightarrow> int" where
  "decimal_value n [] = n"
| "decimal_value n (c # cs) = decimal_value (10 * n + (of_char c - 48)) cs"

text \<open>The number a text like -12.345000 denotes.\<close>

definition numeric_value :: "string \<Rightarrow> rat" where
  "numeric_value s =
     (let (neg, u) = (case s of [] \<Rightarrow> (False, []) | c # cs \<Rightarrow> if c = CHR ''-'' then (True, cs) else (False, s));
          v = (case js_split (CHR ''.'') u of
                 [whole, fraction] \<Rightarrow> of_int (decimal_value 0 (whole @ fraction)) / 10 ^ length fraction
               | [whole] \<Rightarrow> of_int (decimal_value 0 whole)
               | _ \<Rightarrow> 0)
      in if neg then - v else v)"

section \<open>A numeric column gives back what was stored\<close>

lemma decimal_value_append: "decimal_value n (xs @ ys) = decimal_value (decimal_value n xs) ys"
  by (induction xs arbitrary: n) simp_all

lemma digit_value: "0 \<le> k \<Longrightarrow> k < 10 \<Longrightarrow> (of_char (char_of (48 + k :: int)) :: int) = 48 + k"
  by (simp add: of_char_of)

lemma decimal_digits_value: "0 \<le> n \<Longrightarrow> decimal_value 0 (decimal_digits n) = n"
proof (induction n rule: decimal_digits.induct)
  case (1 n)
  have "0 \<le> n mod 10" "n mod 10 < 10" by simp_all
  then show ?case
    using 1 digit_value [of n] digit_value [of "n mod 10"]
    by (subst decimal_digits.simps) (simp add: decimal_value_append)
qed

lemma decimal_digits_digit: "0 \<le> n \<Longrightarrow> \<forall>c \<in> set (decimal_digits n). digit c"
proof (induction n rule: decimal_digits.induct)
  case (1 n)
  have "digit (char_of (48 + k))" if "0 \<le> k" "k < 10" for k :: int
  proof -
    have "(of_char (char_of (48 + k)) :: int) = 48 + k" using that by (rule digit_value)
    then have "int (of_char (char_of (48 + k) :: char)) = 48 + k" by (simp only: of_nat_of_char)
    then show ?thesis using that unfolding digit_def by linarith
  qed
  then show ?case using 1 by (subst decimal_digits.simps) auto
qed

lemma decimal_digits_length: "0 \<le> k \<Longrightarrow> k < 10 ^ n \<Longrightarrow> 0 < n \<Longrightarrow> length (decimal_digits k) \<le> n"
proof (induction n arbitrary: k)
  case (Suc n)
  show ?case
  proof (cases "k < 10")
    case True
    then show ?thesis by (subst decimal_digits.simps) simp
  next
    case False
    then have "0 < n" using Suc.prems by (cases n) auto
    moreover have "k div 10 < 10 ^ n" using Suc.prems by (simp add: div_less_iff_less_mult mult.commute)
    ultimately have "length (decimal_digits (k div 10)) \<le> n" using Suc.prems(1) Suc.IH by simp
    then show ?thesis using False by (subst decimal_digits.simps) simp
  qed
qed simp

lemma decimal_value_shift: "decimal_value (n * 10 ^ l + m) xs = n * 10 ^ (l + length xs) + decimal_value m xs"
proof (induction xs arbitrary: m l)
  case (Cons x xs)
  have eq: "10 * (n * 10 ^ l + m) + (of_char x - 48) = n * 10 ^ Suc l + (10 * m + (of_char x - 48))"
    by (simp add: algebra_simps)
  show ?case unfolding decimal_value.simps eq Cons.IH by simp
qed simp

lemma decimal_digits_Nonempty [simp]: "decimal_digits n \<noteq> []"
  by (subst decimal_digits.simps) simp

lemma decimal_value_zeros: "decimal_value n (replicate k (CHR ''0'')) = n * 10 ^ k"
  by (induction k arbitrary: n) simp_all

lemma numeric_value_split:
  assumes "u \<noteq> []" "hd u \<noteq> CHR ''-''" "js_split (CHR ''.'') u = [a, b]"
  shows "numeric_value u = of_int (decimal_value 0 (a @ b)) / 10 ^ length b"
    "numeric_value (CHR ''-'' # u) = - (of_int (decimal_value 0 (a @ b)) / 10 ^ length b)"
proof -
  have "(case u of [] \<Rightarrow> (False, []) | c # cs \<Rightarrow> if c = CHR ''-'' then (True, cs) else (False, u)) = (False, u)"
    using assms(1,2) by (cases u) auto
  then show "numeric_value u = of_int (decimal_value 0 (a @ b)) / 10 ^ length b"
    by (simp only: numeric_value_def) (simp add: assms(3))
  show "numeric_value (CHR ''-'' # u) = - (of_int (decimal_value 0 (a @ b)) / 10 ^ length b)"
    by (simp add: numeric_value_def assms(3))
qed

text \<open>Reading a decimal of \<open>n\<close> places gives back the number.\<close>

lemma numeric_fixed:
  assumes "0 < n"
  shows "numeric_value (fixed_text n v) = of_int v / 10 ^ n"
proof -
  let ?w = "decimal_digits (\<bar>v\<bar> div 10 ^ n)" and ?f = "decimal_digits (\<bar>v\<bar> mod 10 ^ n)"
  let ?z = "replicate (n - length ?f) (CHR ''0'')"
  have w: "0 \<le> \<bar>v\<bar> div 10 ^ n" "0 \<le> \<bar>v\<bar> mod 10 ^ n" "\<bar>v\<bar> mod 10 ^ n < 10 ^ n" by (simp_all add: pos_imp_zdiv_nonneg_iff)
  have len: "length (?z @ ?f) = n" using decimal_digits_length [OF w(2,3) assms] by simp
  have point: "\<not> digit (CHR ''.'')" "\<not> digit (CHR ''-'')" "digit (CHR ''0'')" by (simp_all add: digit_def)
  have d: "\<forall>c \<in> set ?w. digit c" "\<forall>c \<in> set (?z @ ?f). digit c"
    using decimal_digits_digit [OF w(1)] decimal_digits_digit [OF w(2)] point(3) by auto
  then have plain: "CHR ''.'' \<notin> set ?w" "CHR ''.'' \<notin> set (?z @ ?f)" "CHR ''-'' \<notin> set ?w" using point by blast+
  have split: "js_split (CHR ''.'') (?w @ ''.'' @ ?z @ ?f) = [?w, ?z @ ?f]"
    using js_split_sep [OF plain(1)] js_split_none [OF plain(2)] by simp
  have "decimal_value 0 (?w @ ?z @ ?f) = \<bar>v\<bar> div 10 ^ n * 10 ^ n + \<bar>v\<bar> mod 10 ^ n"
  proof -
    have "decimal_value 0 (?w @ ?z @ ?f) = decimal_value (\<bar>v\<bar> div 10 ^ n * 10 ^ length ?z + 0) ?f"
      by (simp add: decimal_value_append decimal_digits_value [OF w(1)] decimal_value_zeros)
    also have "\<dots> = \<bar>v\<bar> div 10 ^ n * 10 ^ n + \<bar>v\<bar> mod 10 ^ n"
      using len unfolding decimal_value_shift by (simp add: decimal_digits_value [OF w(2)])
    finally show ?thesis .
  qed
  then have read: "decimal_value 0 (?w @ ?z @ ?f) = \<bar>v\<bar>" by (metis div_mult_mod_eq)
  let ?u = "?w @ ''.'' @ ?z @ ?f"
  have "hd ?u = hd ?w" "?u \<noteq> []" using hd_append2 [OF decimal_digits_Nonempty] by blast+
  moreover have "hd ?w \<noteq> CHR ''-''" using plain(3) hd_in_set [of ?w] decimal_digits_Nonempty by metis
  ultimately have "?u \<noteq> []" "hd ?u \<noteq> CHR ''-''" by simp_all
  note u = numeric_value_split [OF this split]
  have "numeric_value (fixed_text n v) = (if v < 0 then - (of_int \<bar>v\<bar> / 10 ^ n) else of_int \<bar>v\<bar> / 10 ^ n)"
  proof (cases "v < 0")
    case True
    then have "fixed_text n v = CHR ''-'' # ?u" by (simp add: fixed_text_def Let_def)
    then show ?thesis using True by (simp only: u(2) read len if_True)
  next
    case False
    then have "fixed_text n v = ?u" by (simp add: fixed_text_def Let_def)
    then show ?thesis using False by (simp only: u(1) read len if_False)
  qed
  then show ?thesis by simp
qed

end
