(* ===== verification/Patronage.thy ===== *)
theory Patronage
  imports Lifecycle_Route Webhook_Delivery Json_Text Js_Double
begin

text \<open>
  Patrons and their decisions: web/src/app/api/talos/[id]/patrons/route.ts,
  web/src/app/api/talos/[id]/approvals/route.ts with approvals/[approvalId]/route.ts, the helpers of
  web/src/lib/stellar.ts they call, and web/src/lib/analytics-limits.ts.

  The Stellar library's signature check and the network are parameters; \<open>between\<close> is what other
  requests do between the reads and the write of one.  Texts of a body are taken as texts, instants
  in a query as already parsed.
\<close>

section \<open>Tables\<close>

text \<open>The columns of tls_talos that concern its token.\<close>

record talos_token =
  tt_id :: string
  tt_creatorPublicKey :: "string option"
  tt_agentWalletAddress :: "string option"
  tt_totalSupply :: int
  tt_minPatronPulse :: "int option"
  tt_investorShare :: int
  tt_pulsePrice :: string
  tt_stellarAssetCode :: "string option"
  tt_tokenSymbol :: "string option"

record patron =
  pn_id :: string
  pn_talosId :: string
  pn_stellarPublicKey :: string
  pn_role :: string
  pn_pulseAmount :: int
  pn_share :: int  \<comment> \<open>hundredths of a percent\<close>
  pn_status :: string
  pn_createdAt :: instant

record approval_row =
  aw_id :: string
  aw_talosId :: string
  aw_type :: string
  aw_title :: string
  aw_amount :: "string option"
  aw_status :: string
  aw_decidedAt :: "instant option"
  aw_decidedBy :: "string option"
  aw_txHash :: "string option"
  aw_createdAt :: instant

definition find_token :: "string \<Rightarrow> talos_token list \<Rightarrow> talos_token option" where
  "find_token i tokens = sel_one (\<lambda>t. tt_id t = i) tokens"

definition of_wallet :: "string \<Rightarrow> string \<Rightarrow> patron \<Rightarrow> bool" where
  "of_wallet talosId key p \<longleftrightarrow> pn_talosId p = talosId \<and> pn_stellarPublicKey p = key"

definition active_patron :: "string \<Rightarrow> string \<Rightarrow> patron \<Rightarrow> bool" where
  "active_patron talosId key p \<longleftrightarrow> of_wallet talosId key p \<and> pn_status p = ''active''"

section \<open>Stellar helpers\<close>

record balance_line =
  bl_type :: string
  bl_code :: "string option"
  bl_issuer :: "string option"
  bl_balance :: string

text \<open>\<open>load\<close> is Horizon's account lookup, \<open>None\<close> when it throws.\<close>

definition getUSDCBalance :: "(string \<Rightarrow> balance_line list option) \<Rightarrow> string \<Rightarrow> string \<Rightarrow> string" where
  "getUSDCBalance load issuer key =
     (case load key of
        None \<Rightarrow> ''0''
      | Some lines \<Rightarrow>
          (case List.find (\<lambda>b. bl_type b \<noteq> ''native'' \<and> bl_code b = Some ''USDC'' \<and> bl_issuer b = Some issuer) lines of
             None \<Rightarrow> ''0'' | Some b \<Rightarrow> bl_balance b))"

definition getXLMBalance :: "(string \<Rightarrow> balance_line list option) \<Rightarrow> string \<Rightarrow> string" where
  "getXLMBalance load key =
     (case load key of
        None \<Rightarrow> ''0''
      | Some lines \<Rightarrow> (case List.find (\<lambda>b. bl_type b = ''native'') lines of None \<Rightarrow> ''0'' | Some b \<Rightarrow> bl_balance b))"

record account_info =
  ai_exists :: bool
  ai_xlmBalance :: string
  ai_usdcBalance :: string

definition getAccountInfo :: "(string \<Rightarrow> balance_line list option) \<Rightarrow> string \<Rightarrow> string \<Rightarrow> account_info" where
  "getAccountInfo load issuer key =
     \<lparr>ai_exists = True, ai_xlmBalance = getXLMBalance load key, ai_usdcBalance = getUSDCBalance load issuer key\<rparr>"

definition verifyStellarSignature :: "ed25519 \<Rightarrow> string \<Rightarrow> string \<Rightarrow> string \<Rightarrow> bool" where
  "verifyStellarSignature ed publicKey message signature \<longleftrightarrow> ed publicKey message signature = Some True"

text \<open>\<open>submit\<close> sends a payment with that memo: its hash, or \<open>None\<close> when anything throws.\<close>

definition approval_memo :: "string \<Rightarrow> string \<Rightarrow> string \<Rightarrow> string" where
  "approval_memo approvalId talosId status = take 8 talosId @ '':'' @ take 8 approvalId @ '':'' @ take 1 status"

definition recordApprovalOnChain ::
  "environment \<Rightarrow> (string \<Rightarrow> string option) \<Rightarrow> string \<Rightarrow> string \<Rightarrow> string \<Rightarrow> string \<Rightarrow> string option" where
  "recordApprovalOnChain env submit approvalId talosId status decidedBy =
     (if \<not> truthy_str (env ''STELLAR_OPERATOR_SECRET_KEY'') then None else submit (approval_memo approvalId talosId status))"

section \<open>Listing limits\<close>

definition parseAnalyticsLimit :: "string option \<Rightarrow> int \<Rightarrow> int \<Rightarrow> int option" where
  "parseAnalyticsLimit raw defaultLimit maxLimit =
     (case raw of
        None \<Rightarrow> Some defaultLimit
      | Some s \<Rightarrow>
          if s = [] \<or> \<not> list_all digit s then None
          else let n = int (digits_value 0 s) in if n = 0 \<or> n > maxLimit then None else Some n)"

section \<open>Registering as a patron\<close>

record patron_env =
  pv_ed25519 :: ed25519
  pv_load :: "string \<Rightarrow> balance_line list option"
  pv_issuer :: string
  pv_newId :: string
  pv_now :: instant

text \<open>A body whose fields have the types the schema asks for.\<close>

record patron_request =
  pq_stellarPublicKey :: string
  pq_pulseAmount :: rat
  pq_signature :: string
  pq_message :: string

datatype patron_reply = Patron_refused int string | Patron_answer int patron

definition becomePatronSchema :: "patron_request \<Rightarrow> bool" where
  "becomePatronSchema q \<longleftrightarrow>
     pq_stellarPublicKey q \<noteq> [] \<and> pq_pulseAmount q > 0 \<and> pq_signature q \<noteq> [] \<and> pq_message q \<noteq> []"

definition revokePatronSchema :: "patron_request \<Rightarrow> bool" where
  "revokePatronSchema q \<longleftrightarrow> pq_stellarPublicKey q \<noteq> [] \<and> pq_signature q \<noteq> [] \<and> pq_message q \<noteq> []"

definition quoted :: "string \<Rightarrow> string" where "quoted s = [CHR 0x27] @ s @ [CHR 0x27]"

text \<open>The explicit minimum, or 0.1 percent of the supply.\<close>

definition min_required :: "talos_token \<Rightarrow> int" where
  "min_required t = coalesce (tt_minPatronPulse t) \<lfloor>dbl (of_int (tt_totalSupply t) * dbl (1 / 1000))\<rfloor>"

text \<open>A numeric column of five digits, two of them decimals; \<open>None\<close>: the statement fails, as it does
  on the \<open>Infinity\<close> of an empty supply.\<close>

definition share_percent :: "rat \<Rightarrow> int \<Rightarrow> int option" where
  "share_percent pulse supply =
     (if supply = 0 then None
      else let v = to_fixed 2 (dbl (dbl (pulse / of_int supply) * 100)) in if \<bar>v\<bar> < 100000 then Some v else None)"

definition patron_guards :: "patron_env \<Rightarrow> string \<Rightarrow> patron_request \<Rightarrow> talos_token list \<Rightarrow> http_error + talos_token" where
  "patron_guards env talosId q tokens =
     (if \<not> becomePatronSchema q then Inl (400, ''VALIDATION_ERROR'')
      else if \<not> js_includes talosId (pq_message q) \<or> \<not> js_includes ''register-patron'' (pq_message q)
      then Inl (400, ''Signature message must contain the TALOS id and the action '' @ quoted ''register-patron'')
      else if \<not> verifyStellarSignature (pv_ed25519 env) (pq_stellarPublicKey q) (pq_message q) (pq_signature q)
      then Inl (403, ''Invalid signature'')
      else case find_token talosId tokens of
        None \<Rightarrow> Inl (404, ''TALOS not found'')
      | Some t \<Rightarrow>
          if pq_pulseAmount q < of_int (min_required t)
          then Inl (403, ''Minimum '' @ int_string (min_required t) @ '' Pulse required to become Patron'')
          else let info = getAccountInfo (pv_load env) (pv_issuer env) (pq_stellarPublicKey q)
               in if \<not> ai_exists info then Inl (400, ''Stellar account '' @ pq_stellarPublicKey q @ '' does not exist'')
                  else if \<not> dbl (numeric_value (ai_usdcBalance info)) > 0
                  then Inl (400, ''Account has no USDC trustline. Establish USDC trustline first.'')
                  else Inr t)"

text \<open>One INSERT under the primary key and the index on agent and wallet.\<close>

definition insert_patron :: "patron \<Rightarrow> patron list \<Rightarrow> patron list option" where
  "insert_patron p ps =
     (if list_ex (\<lambda>x. pn_id x = pn_id p \<or> of_wallet (pn_talosId p) (pn_stellarPublicKey p) x) ps then None else Some (ps @ [p]))"

definition server_error :: patron_reply where
  "server_error = Patron_refused 500 ''Internal server error''"

definition reactivate_patron :: "string \<Rightarrow> int \<Rightarrow> int \<Rightarrow> patron list \<Rightarrow> patron list \<times> patron_reply" where
  "reactivate_patron i pulse share ps =
     (let (ps', rows) = upd_returning (\<lambda>x. pn_id x = i)
            (\<lambda>x. x\<lparr>pn_status := ''active'', pn_pulseAmount := pulse, pn_role := ''Investor'', pn_share := share\<rparr>) ps
      in (ps', case first_row rows of None \<Rightarrow> server_error | Some r \<Rightarrow> Patron_answer 200 r))"

definition enrol_patron ::
  "patron_env \<Rightarrow> string \<Rightarrow> patron_request \<Rightarrow> int \<Rightarrow> int \<Rightarrow> patron list \<Rightarrow> patron list \<times> patron_reply" where
  "enrol_patron env talosId q pulse share ps =
     (let p = \<lparr>pn_id = pv_newId env, pn_talosId = talosId, pn_stellarPublicKey = pq_stellarPublicKey q,
               pn_role = ''Investor'', pn_pulseAmount = pulse, pn_share = share, pn_status = ''active'',
               pn_createdAt = pv_now env\<rparr>
      in case insert_patron p ps of None \<Rightarrow> (ps, server_error) | Some ps' \<Rightarrow> (ps', Patron_answer 201 p))"

definition register_patron ::
  "patron_env \<Rightarrow> (patron list \<Rightarrow> patron list) \<Rightarrow> string \<Rightarrow> patron_request \<Rightarrow> talos_token list \<Rightarrow> patron list
     \<Rightarrow> patron list \<times> patron_reply" where
  "register_patron env between talosId q tokens ps =
     (case patron_guards env talosId q tokens of
        Inl (status, message) \<Rightarrow> (ps, Patron_refused status message)
      | Inr t \<Rightarrow>
          let existing = sel_one (of_wallet talosId (pq_stellarPublicKey q)) ps; ps1 = between ps
          in if (case existing of None \<Rightarrow> False | Some p \<Rightarrow> pn_status p = ''active'')
             then (ps, Patron_refused 409 ''Already a Patron of this TALOS'')
             else case (int_column (pq_pulseAmount q), share_percent (pq_pulseAmount q) (tt_totalSupply t)) of
               (Some pulse, Some share) \<Rightarrow>
                 (case existing of
                    Some p \<Rightarrow>
                      if pn_status p = ''revoked'' then reactivate_patron (pn_id p) pulse share ps1
                      else enrol_patron env talosId q pulse share ps1
                  | None \<Rightarrow> enrol_patron env talosId q pulse share ps1)
             | _ \<Rightarrow> (ps1, server_error))"

section \<open>Withdrawing and listing\<close>

definition withdraw_patron ::
  "patron_env \<Rightarrow> (patron list \<Rightarrow> patron list) \<Rightarrow> string \<Rightarrow> patron_request \<Rightarrow> patron list \<Rightarrow> patron list \<times> patron_reply" where
  "withdraw_patron env between talosId q ps =
     (if \<not> revokePatronSchema q then (ps, Patron_refused 400 ''VALIDATION_ERROR'')
      else if \<not> js_includes talosId (pq_message q) \<or> \<not> js_includes ''revoke-patron'' (pq_message q)
      then (ps, Patron_refused 400 (''Signature message must contain the TALOS id and the action '' @ quoted ''revoke-patron''))
      else if \<not> verifyStellarSignature (pv_ed25519 env) (pq_stellarPublicKey q) (pq_message q) (pq_signature q)
      then (ps, Patron_refused 403 ''Invalid signature'')
      else case sel_one (of_wallet talosId (pq_stellarPublicKey q)) ps of
        None \<Rightarrow> (ps, Patron_refused 404 ''No active Patron found for this wallet'')
      | Some p \<Rightarrow>
          if pn_status p \<noteq> ''active'' then (ps, Patron_refused 404 ''No active Patron found for this wallet'')
          else if pn_role p = ''Creator'' then (ps, Patron_refused 403 ''Creator cannot withdraw Patron status'')
          else let (ps', rows) = upd_returning (\<lambda>x. pn_id x = pn_id p) (\<lambda>x. x\<lparr>pn_status := ''revoked''\<rparr>) (between ps)
               in (ps', case first_row rows of None \<Rightarrow> server_error | Some r \<Rightarrow> Patron_answer 200 r))"

definition list_patrons :: "string \<Rightarrow> string option \<Rightarrow> talos_token list \<Rightarrow> patron list \<Rightarrow> http_error + patron list" where
  "list_patrons talosId rawLimit tokens ps =
     (case parseAnalyticsLimit rawLimit 50 100 of
        None \<Rightarrow> Inl (400, ''limit'')
      | Some limit \<Rightarrow>
          if find_token talosId tokens = None then Inl (404, ''TALOS not found'')
          else Inr (take (nat limit) (sort_key (\<lambda>p. - pn_createdAt p)
                      (sel (\<lambda>p. pn_talosId p = talosId \<and> pn_status p = ''active'') ps))))"

section \<open>Approvals\<close>

record patron_world =
  pw_tokens :: "talos_token list"
  pw_agents :: "talos_row list"
  pw_keys :: "api_key list"
  pw_patrons :: "patron list"
  pw_approvals :: "approval_row list"
  pw_events :: "webhook_event list"  \<comment> \<open>handed to emitWebhookEvent\<close>

text \<open>\<open>amount\<close> of a body: absent, the number a text denotes, or anything else.\<close>

datatype amount_field = NoAmount | AmountOf rat | OddAmount

record approval_request =
  aq_authorization :: "string option"
  aq_type :: "string option"
  aq_title :: "string option"
  aq_amount :: amount_field
  aq_proposerPublicKey :: "string option"

datatype approval_reply = Approval_refused int string | Approval_answer int approval_row

definition approval_error :: approval_reply where
  "approval_error = Approval_refused 500 ''Internal server error''"

definition validTypes :: "string list" where
  "validTypes = [''transaction'', ''strategy'', ''policy'', ''channel'']"

text \<open>A numeric column of 18 digits, 6 of them decimals.\<close>

definition numeric6 :: "rat \<Rightarrow> string option" where
  "numeric6 x = (let v = to_fixed 6 x in if \<bar>v\<bar> < 10 ^ 18 then Some (fixed_text 6 v) else None)"

text \<open>Who asks: an agent with a key of the admin scope, or any caller who names an active patron.\<close>

definition proposer_guard ::
  "(string \<Rightarrow> string) \<Rightarrow> instant \<Rightarrow> string \<Rightarrow> approval_request \<Rightarrow> patron_world \<Rightarrow> patron_world \<times> http_error option" where
  "proposer_guard sha256 now talosId q w =
     (if (case aq_authorization q of None \<Rightarrow> False | Some h \<Rightarrow> starts_with ''Bearer '' h)
      then let (keys, outcome, note) =
             verifyAgentApiKey sha256 now (aq_authorization q) talosId [''admin''] (pw_agents w) (pw_keys w)
           in (w\<lparr>pw_keys := keys\<rparr>,
               case outcome of AuthOk _ \<Rightarrow> None | AuthDenied e \<Rightarrow> Some e | AuthThrew \<Rightarrow> Some (500, ''Internal server error''))
      else (w, if \<not> truthy_str (aq_proposerPublicKey q) then Some (401, ''proposerPublicKey required for patron proposals'')
               else if \<not> list_ex (active_patron talosId (the (aq_proposerPublicKey q))) (pw_patrons w)
               then Some (403, ''Only active patrons can propose approvals'')
               else None))"

definition approval_checks :: "approval_request \<Rightarrow> http_error option" where
  "approval_checks q =
     (if \<not> truthy_str (aq_type q) \<or> \<not> truthy_str (aq_title q) then Some (400, ''type, title are required'')
      else if the (aq_type q) \<notin> set validTypes then Some (400, ''type must be one of: '' @ js_join '', '' validTypes)
      else case aq_amount q of
        AmountOf x \<Rightarrow> if x < 0 then Some (400, ''amount must be a non-negative number'') else None
      | OddAmount \<Rightarrow> Some (400, ''amount must be a non-negative number'')
      | NoAmount \<Rightarrow> None)"

definition pending_of_type :: "string \<Rightarrow> string \<Rightarrow> approval_row \<Rightarrow> bool" where
  "pending_of_type talosId type r \<longleftrightarrow> aw_talosId r = talosId \<and> aw_type r = type \<and> aw_status r = ''pending''"

text \<open>The column's text; \<open>None\<close>: the INSERT fails.\<close>

fun amount_column :: "amount_field \<Rightarrow> string option option" where
  "amount_column (AmountOf x) = map_option Some (numeric6 x)"
| "amount_column _ = Some None"

definition propose_approval ::
  "(string \<Rightarrow> string) \<Rightarrow> instant \<Rightarrow> string \<Rightarrow> (patron_world \<Rightarrow> patron_world) \<Rightarrow> string \<Rightarrow> approval_request
     \<Rightarrow> patron_world \<Rightarrow> patron_world \<times> approval_reply" where
  "propose_approval sha256 now newId between talosId q w =
     (if find_token talosId (pw_tokens w) = None then (w, Approval_refused 404 ''TALOS not found'')
      else case proposer_guard sha256 now talosId q w of
        (w1, Some (status, message)) \<Rightarrow> (w1, Approval_refused status message)
      | (w1, None) \<Rightarrow>
          (case approval_checks q of
             Some (status, message) \<Rightarrow> (w1, Approval_refused status message)
           | None \<Rightarrow>
               if list_ex (pending_of_type talosId (the (aq_type q))) (pw_approvals w1)
               then (w1, Approval_refused 409 ''An approval of this type is already pending'')
               else let w2 = between w1
                    in (case amount_column (aq_amount q) of
                          None \<Rightarrow> (w2, approval_error)
                        | Some amount \<Rightarrow>
                            let r = \<lparr>aw_id = newId, aw_talosId = talosId, aw_type = the (aq_type q), aw_title = the (aq_title q),
                                     aw_amount = amount, aw_status = ''pending'', aw_decidedAt = None, aw_decidedBy = None,
                                     aw_txHash = None, aw_createdAt = now\<rparr>
                            in if list_ex (\<lambda>x. aw_id x = newId) (pw_approvals w2) then (w2, approval_error)
                               else (w2\<lparr>pw_approvals := pw_approvals w2 @ [r]\<rparr>, Approval_answer 201 r))))"

section \<open>Deciding\<close>

record decision_request =
  dq_status :: "string option"
  dq_decidedBy :: "string option"
  dq_signature :: "string option"
  dq_message :: "string option"

record decision_env =
  dn_ed25519 :: ed25519
  dn_env :: environment
  dn_submit :: "string \<Rightarrow> string option"
  dn_now :: instant

definition decision_guards ::
  "decision_env \<Rightarrow> string \<Rightarrow> string \<Rightarrow> decision_request \<Rightarrow> patron_world \<Rightarrow> http_error + approval_row" where
  "decision_guards env talosId approvalId q w =
     (if find_token talosId (pw_tokens w) = None then Inl (404, ''TALOS not found'')
      else case sel_one (\<lambda>r. aw_id r = approvalId) (pw_approvals w) of
        None \<Rightarrow> Inl (404, ''Approval not found'')
      | Some existing \<Rightarrow>
          if aw_talosId existing \<noteq> talosId then Inl (404, ''Approval not found'')
          else if dq_status q \<noteq> Some ''approved'' \<and> dq_status q \<noteq> Some ''rejected''
          then Inl (400, ''status must be '' @ quoted ''approved'' @ '' or '' @ quoted ''rejected'')
          else if \<not> truthy_str (dq_decidedBy q) then Inl (400, ''decidedBy (Stellar public key) is required'')
          else if \<not> truthy_str (dq_signature q) \<or> \<not> truthy_str (dq_message q)
          then Inl (400, ''signature and message are required'')
          else if \<not> list_ex (active_patron talosId (the (dq_decidedBy q))) (pw_patrons w)
          then Inl (403, ''Only active Patrons can approve or reject decisions'')
          else if \<not> verifyStellarSignature (dn_ed25519 env) (the (dq_decidedBy q)) (the (dq_message q)) (the (dq_signature q))
          then Inl (403, ''Signature verification failed for the deciding patron'')
          else Inr existing)"

definition nullable_json :: "string option \<Rightarrow> string" where
  "nullable_json s = (case s of None \<Rightarrow> ''null'' | Some v \<Rightarrow> json_quote v)"

definition decision_event :: "string \<Rightarrow> approval_row \<Rightarrow> approval_row \<Rightarrow> string \<Rightarrow> string \<Rightarrow> webhook_event" where
  "decision_event talosId existing r status decidedBy =
     \<lparr>we_type = ''approval.'' @ status, we_talosId = talosId,
      we_payload = ''{'' @ js_join '',''
        [json_entry ''approvalId'' (json_quote (aw_id existing)), json_entry ''type'' (json_quote (aw_type existing)),
         json_entry ''title'' (json_quote (aw_title existing)), json_entry ''amount'' (nullable_json (aw_amount existing)),
         json_entry ''status'' (json_quote status), json_entry ''decidedBy'' (json_quote decidedBy),
         json_entry ''txHash'' (nullable_json (aw_txHash r))] @ ''}''\<rparr>"

definition decide_approval ::
  "decision_env \<Rightarrow> (patron_world \<Rightarrow> patron_world) \<Rightarrow> string \<Rightarrow> string \<Rightarrow> decision_request
     \<Rightarrow> patron_world \<Rightarrow> patron_world \<times> approval_reply" where
  "decide_approval env between talosId approvalId q w =
     (case decision_guards env talosId approvalId q w of
        Inl (status, message) \<Rightarrow> (w, Approval_refused status message)
      | Inr existing \<Rightarrow>
          let status = the (dq_status q); decidedBy = the (dq_decidedBy q);
              txHash = recordApprovalOnChain (dn_env env) (dn_submit env) approvalId talosId status decidedBy;
              w1 = between w;
              (rows, changed) = upd_returning (\<lambda>r. aw_id r = approvalId)
                 (\<lambda>r. r\<lparr>aw_status := status, aw_decidedAt := Some (dn_now env), aw_decidedBy := Some decidedBy, aw_txHash := txHash\<rparr>)
                 (pw_approvals w1);
              w2 = w1\<lparr>pw_approvals := rows\<rparr>
          in case first_row changed of
               None \<Rightarrow> (w2, approval_error)
             | Some r \<Rightarrow> (w2\<lparr>pw_events := pw_events w2 @ [decision_event talosId existing r status decidedBy]\<rparr>, Approval_answer 200 r))"

text \<open>\<open>None\<close>: the limit is refused.  The second part is the next cursor.\<close>

definition list_approvals ::
  "string \<Rightarrow> string option \<Rightarrow> instant option \<Rightarrow> string option \<Rightarrow> approval_row list \<Rightarrow> (approval_row list \<times> instant option) option" where
  "list_approvals talosId status cursor rawLimit t =
     (case parseLimit rawLimit 50 200 of
        None \<Rightarrow> None
      | Some limit \<Rightarrow>
          let listed = (\<lambda>r. aw_talosId r = talosId \<and> (\<not> truthy_str status \<or> Some (aw_status r) = status) \<and>
                         (case cursor of None \<Rightarrow> True | Some c \<Rightarrow> aw_createdAt r < c));
              rows = take (Suc (nat limit)) (sort_key (\<lambda>r. - aw_createdAt r) (sel listed t));
              page = (if int (length rows) > limit then take (nat limit) rows else rows)
          in Some (page, if int (length rows) > limit then Some (aw_createdAt (last page)) else None))"

text \<open>The columns the lifecycle route reads.\<close>

definition gov_approval :: "approval_row \<Rightarrow> approval" where
  "gov_approval r = \<lparr>ap_id = aw_id r, ap_talosId = aw_talosId r, ap_status = aw_status r\<rparr>"

end
