(* ===== verification/Dividends.thy ===== *)
theory Dividends
  imports Patronage
begin

text \<open>
  Sharing revenue with patrons, web/src/app/api/talos/[id]/revenue/distribute/route.ts, and the
  dividend history of web/src/app/api/talos/[id]/dividends/route.ts.

  A payment is a call of \<open>dx_send\<close>, numbered within the request: whether the network carried it out
  and what the caller sees, an error text or a hash.  Amounts are computed in doubles; the network
  counts in stroops, ten millionths.  \<open>during\<close> is what other requests do while the payments run.
\<close>

section \<open>Tables\<close>

record payout =
  py_patron :: string
  py_amount :: rat
  py_txHash :: string

record dividend =
  dd_id :: string
  dd_talosId :: string
  dd_amount :: string
  dd_patronCount :: int
  dd_totalPulse :: int
  dd_txHash :: "string option"
  dd_breakdown :: "payout list"
  dd_status :: string
  dd_distributionId :: "string option"
  dd_retryCount :: int
  dd_lastError :: "string option"
  dd_createdAt :: instant

record dividend_world =
  dw_tokens :: "talos_token list"
  dw_patrons :: "patron list"
  dw_revenues :: "revenue list"
  dw_dividends :: "dividend list"
  dw_paid :: "(string \<times> int) list"  \<comment> \<open>payments the network carried out, in stroops\<close>

record dividend_env =
  dx_operator :: string  \<comment> \<open>OPERATOR_PUBLIC_KEY\<close>
  dx_env :: environment
  dx_send :: "nat \<Rightarrow> string \<Rightarrow> int \<Rightarrow> bool \<times> (string + string)"
  dx_newDistribution :: string  \<comment> \<open>\<open>createId()\<close>\<close>
  dx_newId :: string
  dx_now :: instant

section \<open>Shares\<close>

text \<open>\<open>parseFloat\<close> of the sum over the column, which PostgreSQL adds exactly.\<close>

definition total_revenue :: "string \<Rightarrow> revenue list \<Rightarrow> rat" where
  "total_revenue talosId rs = dbl (sum_list (map (\<lambda>r. numeric_value (rv_amount r)) (sel (\<lambda>r. rv_talosId r = talosId) rs)))"

definition distributable_amount :: "rat \<Rightarrow> int \<Rightarrow> rat" where
  "distributable_amount received share = dbl (dbl (received * of_int share) / 100)"

definition active_patrons :: "string \<Rightarrow> patron list \<Rightarrow> patron list" where
  "active_patrons talosId ps = sel (\<lambda>p. pn_talosId p = talosId \<and> pn_status p = ''active'') ps"

definition total_pulse :: "patron list \<Rightarrow> int" where
  "total_pulse ps = sum_list (map pn_pulseAmount ps)"

definition patron_amount :: "rat \<Rightarrow> int \<Rightarrow> int \<Rightarrow> rat" where
  "patron_amount distributable totalPulse pulse =
     (let shareRatio = dbl (of_int pulse / of_int totalPulse)
      in dbl (of_int \<lfloor>dbl (dbl (distributable * shareRatio) * 10 ^ 7)\<rfloor> / 10 ^ 7))"

definition is_dust :: "rat \<Rightarrow> bool" where
  "is_dust amount \<longleftrightarrow> amount < dbl (1 / 10 ^ 7)"

section \<open>Paying\<close>

record payments =
  pt_paid :: "(string \<times> int) list"
  pt_transfers :: "payout list"
  pt_errors :: "(string \<times> string) list"

fun pay_patrons :: "dividend_env \<Rightarrow> rat \<Rightarrow> int \<Rightarrow> nat \<Rightarrow> patron list \<Rightarrow> payments" where
  "pay_patrons env distributable totalPulse n [] = \<lparr>pt_paid = [], pt_transfers = [], pt_errors = []\<rparr>"
| "pay_patrons env distributable totalPulse n (p # ps) =
     (let amount = patron_amount distributable totalPulse (pn_pulseAmount p)
      in if is_dust amount then pay_patrons env distributable totalPulse n ps
         else let stroops = to_fixed 7 amount; key = pn_stellarPublicKey p;
                  (applied, answer) = dx_send env n key stroops;
                  rest = pay_patrons env distributable totalPulse (Suc n) ps
              in \<lparr>pt_paid = (if applied then [(key, stroops)] else []) @ pt_paid rest,
                  pt_transfers = (case answer of Inl _ \<Rightarrow> []
                    | Inr hash \<Rightarrow> [\<lparr>py_patron = key, py_amount = amount, py_txHash = hash\<rparr>]) @ pt_transfers rest,
                  pt_errors = (case answer of Inl e \<Rightarrow> [(key, e)] | Inr _ \<Rightarrow> []) @ pt_errors rest\<rparr>)"

text \<open>\<open>transfers.reduce((s, t) => s + t.amount, 0)\<close>.\<close>

definition distributed_total :: "payout list \<Rightarrow> rat" where
  "distributed_total ts = foldl (\<lambda>s t. dbl (s + py_amount t)) 0 ts"

section \<open>Recording\<close>

text \<open>One INSERT: the primary key, the unique distributionId and the integer column; \<open>None\<close>: it fails.\<close>

definition insert_dividend :: "dividend \<Rightarrow> dividend_world \<Rightarrow> dividend_world option" where
  "insert_dividend r w =
     (if list_ex (\<lambda>x. dd_id x = dd_id r \<or> (dd_distributionId r \<noteq> None \<and> dd_distributionId x = dd_distributionId r)) (dw_dividends w)
         \<or> int_column (of_int (dd_totalPulse r)) = None
      then None else Some (w\<lparr>dw_dividends := dw_dividends w @ [r]\<rparr>))"

definition failed_dividend :: "dividend_env \<Rightarrow> string \<Rightarrow> string \<Rightarrow> int \<Rightarrow> string \<Rightarrow> dividend" where
  "failed_dividend env talosId distributionId totalPulse lastError =
     \<lparr>dd_id = dx_newId env, dd_talosId = talosId, dd_amount = ''0'', dd_patronCount = 0, dd_totalPulse = totalPulse,
      dd_txHash = None, dd_breakdown = [], dd_status = ''failed'', dd_distributionId = Some distributionId,
      dd_retryCount = 1, dd_lastError = Some lastError, dd_createdAt = dx_now env\<rparr>"

definition paid_dividend :: "dividend_env \<Rightarrow> string \<Rightarrow> string \<Rightarrow> int \<Rightarrow> payments \<Rightarrow> dividend" where
  "paid_dividend env talosId distributionId totalPulse ps =
     \<lparr>dd_id = dx_newId env, dd_talosId = talosId, dd_amount = fixed_text 6 (to_fixed 6 (distributed_total (pt_transfers ps))),
      dd_patronCount = int (length (pt_transfers ps)), dd_totalPulse = totalPulse,
      dd_txHash = map_option py_txHash (first_row (pt_transfers ps)), dd_breakdown = pt_transfers ps,
      dd_status = (if pt_errors ps \<noteq> [] then ''partial'' else ''completed''), dd_distributionId = Some distributionId,
      dd_retryCount = 0, dd_lastError = None, dd_createdAt = dx_now env\<rparr>"

text \<open>The id of the record, when there is one.  Failures to record are only logged.\<close>

definition record_distribution ::
  "dividend_env \<Rightarrow> string \<Rightarrow> string \<Rightarrow> int \<Rightarrow> payments \<Rightarrow> dividend_world \<Rightarrow> dividend_world \<times> string option" where
  "record_distribution env talosId distributionId totalPulse ps w =
     (let failed = (\<lambda>e. coalesce (insert_dividend (failed_dividend env talosId distributionId totalPulse e) w) w)
      in if pt_transfers ps \<noteq> [] \<and> distributed_total (pt_transfers ps) > 0
         then (case insert_dividend (paid_dividend env talosId distributionId totalPulse ps) w of
                 Some w' \<Rightarrow> (w', Some (dx_newId env))
               | None \<Rightarrow> (failed ''insert failed'', None))
         else if pt_errors ps \<noteq> [] then (failed (js_join '', '' (map snd (pt_errors ps))), None)
         else (w, None))"

section \<open>The route\<close>

record distribute_request =
  dt_requesterPublicKey :: "string option"
  dt_distributionId :: "string option"

datatype distribute_reply =
    Not_distributed int string
  | Already_executed dividend
  | Distributed "string option" rat payments  \<comment> \<open>the record, the amount to share out, what was paid\<close>

definition distribute_id :: "dividend_env \<Rightarrow> distribute_request \<Rightarrow> string" where
  "distribute_id env q = (if truthy_str (dt_distributionId q) then the (dt_distributionId q) else dx_newDistribution env)"

definition distribution_of :: "string \<Rightarrow> string \<Rightarrow> dividend_world \<Rightarrow> dividend option" where
  "distribution_of talosId d w = sel_one (\<lambda>r. dd_talosId r = talosId \<and> dd_distributionId r = Some d) (dw_dividends w)"

text \<open>What is shared among whom; \<open>Inl\<close>: nothing is.\<close>

definition distribution_plan ::
  "dividend_env \<Rightarrow> string \<Rightarrow> distribute_request \<Rightarrow> dividend_world \<Rightarrow> distribute_reply + (rat \<times> int \<times> patron list)" where
  "distribution_plan env talosId q w =
     (if \<not> truthy_str (dt_requesterPublicKey q) then Inl (Not_distributed 400 ''requesterPublicKey is required'')
      else case find_token talosId (dw_tokens w) of
        None \<Rightarrow> Inl (Not_distributed 404 ''TALOS not found'')
      | Some t \<Rightarrow>
          (case distribution_of talosId (distribute_id env q) w of
             Some r \<Rightarrow> Inl (Already_executed r)
           | None \<Rightarrow>
               if dt_requesterPublicKey q \<noteq> tt_creatorPublicKey t \<and> dt_requesterPublicKey q \<noteq> Some (dx_operator env)
               then Inl (Not_distributed 403 ''Only the creator or operator can trigger distribution'')
               else let received = total_revenue talosId (dw_revenues w); ps = active_patrons talosId (dw_patrons w)
                    in if received \<le> 0 then Inl (Not_distributed 400 ''No revenue to distribute'')
                       else if ps = [] then Inl (Not_distributed 400 ''No active patrons to distribute to'')
                       else if total_pulse ps = 0 then Inl (Not_distributed 400 ''Total Mitos held by patrons is 0'')
                       else if \<not> truthy_str (dx_env env ''STELLAR_OPERATOR_SECRET_KEY'')
                       then Inl (Not_distributed 500 ''STELLAR_OPERATOR_SECRET_KEY not configured'')
                       else Inr (distributable_amount received (tt_investorShare t), total_pulse ps, ps)))"

definition distribute ::
  "dividend_env \<Rightarrow> (dividend_world \<Rightarrow> dividend_world) \<Rightarrow> string \<Rightarrow> distribute_request
     \<Rightarrow> dividend_world \<Rightarrow> dividend_world \<times> distribute_reply" where
  "distribute env during talosId q w =
     (case distribution_plan env talosId q w of
        Inl r \<Rightarrow> (w, r)
      | Inr (distributable, totalPulse, ps) \<Rightarrow>
          let p = pay_patrons env distributable totalPulse 0 ps;
              w1 = during (w\<lparr>dw_paid := dw_paid w @ pt_paid p\<rparr>);
              (w2, dividendId) = record_distribution env talosId (distribute_id env q) totalPulse p w1
          in (w2, Distributed dividendId distributable p))"

text \<open>The preview: what each active patron would get, in millionths.\<close>

definition preview_distribution :: "string \<Rightarrow> dividend_world \<Rightarrow> (rat \<times> (string \<times> int) list) option" where
  "preview_distribution talosId w =
     (case find_token talosId (dw_tokens w) of
        None \<Rightarrow> None
      | Some t \<Rightarrow>
          let ps = active_patrons talosId (dw_patrons w); totalPulse = total_pulse ps;
              d = distributable_amount (total_revenue talosId (dw_revenues w)) (tt_investorShare t)
          in Some (d, map (\<lambda>p. (pn_stellarPublicKey p,
               if totalPulse > 0 then to_fixed 6 (dbl (dbl (d * of_int (pn_pulseAmount p)) / of_int totalPulse)) else 0)) ps))"

definition list_dividends :: "string \<Rightarrow> string option \<Rightarrow> dividend_world \<Rightarrow> http_error + dividend list" where
  "list_dividends talosId rawLimit w =
     (case parseAnalyticsLimit rawLimit 50 100 of
        None \<Rightarrow> Inl (400, ''limit'')
      | Some limit \<Rightarrow>
          if find_token talosId (dw_tokens w) = None then Inl (404, ''TALOS not found'')
          else Inr (take (nat limit) (sort_key (\<lambda>r. - dd_createdAt r) (sel (\<lambda>r. dd_talosId r = talosId) (dw_dividends w)))))"

end
