(* ===== verification/Patronage_Facts.thy ===== *)
theory Patronage_Facts
  imports Patronage
begin

text \<open>
  What the patron and approval routes guarantee, and how far a signature reaches in them.
\<close>

section \<open>The table of patrons\<close>

definition patrons_ok :: "patron list \<Rightarrow> bool" where
  "patrons_ok ps \<longleftrightarrow> distinct (map pn_id ps) \<and> distinct (map (\<lambda>p. (pn_talosId p, pn_stellarPublicKey p)) ps)"

text \<open>Requests one after the other or overlapping: while one that read \<open>ps1\<close> waits, others lead to \<open>ps2\<close>.\<close>

inductive patrons_run :: "patron list \<Rightarrow> patron list \<Rightarrow> bool" where
  start: "patrons_run ps ps"
| register: "patrons_run ps ps1 \<Longrightarrow> patrons_run ps1 ps2 \<Longrightarrow>
    patrons_run ps (fst (register_patron env (\<lambda>_. ps2) talosId q tokens ps1))"
| withdraw: "patrons_run ps ps1 \<Longrightarrow> patrons_run ps1 ps2 \<Longrightarrow>
    patrons_run ps (fst (withdraw_patron env (\<lambda>_. ps2) talosId q ps1))"

text \<open>An active creator, and the columns no write changes.\<close>

definition seated :: "patron \<Rightarrow> bool" where
  "seated c \<longleftrightarrow> pn_role c = ''Creator'' \<and> pn_status c = ''active''"

definition same_wallet :: "patron \<Rightarrow> patron \<Rightarrow> bool" where
  "same_wallet p x \<longleftrightarrow> pn_id x = pn_id p \<and> pn_talosId x = pn_talosId p \<and> pn_stellarPublicKey x = pn_stellarPublicKey p"

text \<open>What one request may make of the table: nothing, what the others made of it, an update of a row it
  had read, or a new row.\<close>

inductive patron_write :: "string \<Rightarrow> string \<Rightarrow> patron list \<Rightarrow> patron list \<Rightarrow> patron list \<Rightarrow> bool"
  for talosId key ps1 ps2 where
  kept: "patron_write talosId key ps1 ps2 ps1"
| others: "patron_write talosId key ps1 ps2 ps2"
| updated: "sel_one (of_wallet talosId key) ps1 = Some p \<Longrightarrow> \<not> seated p \<Longrightarrow> \<forall>x. same_wallet x (f x) \<Longrightarrow>
    patron_write talosId key ps1 ps2 (upd (\<lambda>x. pn_id x = pn_id p) f ps2)"
| added: "of_wallet talosId key p \<Longrightarrow> insert_patron p ps2 = Some ps' \<Longrightarrow> patron_write talosId key ps1 ps2 ps'"

lemma enrol_write:
  "patron_write talosId (pq_stellarPublicKey q) ps1 ps2 (fst (enrol_patron env talosId q pulse share ps2))"
  by (auto simp: enrol_patron_def Let_def of_wallet_def intro: patron_write.others split: option.splits)
    (rule patron_write.added, simp_all add: of_wallet_def)

lemma reactivate_write:
  assumes "sel_one (of_wallet talosId key) ps1 = Some p" "\<not> seated p"
  shows "patron_write talosId key ps1 ps2 (fst (reactivate_patron (pn_id p) pulse share ps2))"
  using patron_write.updated [OF assms] by (simp add: reactivate_patron_def upd_returning_def same_wallet_def)

lemma register_write:
  "patron_write talosId (pq_stellarPublicKey q) ps (between ps) (fst (register_patron env between talosId q tokens ps))"
proof (cases "patron_guards env talosId q tokens")
  case (Inl e)
  then show ?thesis by (simp add: register_patron_def patron_write.kept split: prod.splits)
next
  case (Inr t)
  then show ?thesis
    by (auto simp: register_patron_def Let_def seated_def intro!: patron_write.kept patron_write.others enrol_write reactivate_write
      split: option.splits)
qed

lemma withdraw_write:
  "patron_write talosId (pq_stellarPublicKey q) ps (between ps) (fst (withdraw_patron env between talosId q ps))"
  using patron_write.updated [of talosId "pq_stellarPublicKey q" ps _ "\<lambda>x. x\<lparr>pn_status := ''revoked''\<rparr>" "between ps"]
  by (auto simp: withdraw_patron_def upd_returning_def seated_def same_wallet_def intro: patron_write.kept split: option.splits)

lemma insert_patron_Some:
  "insert_patron p ps = Some ps' \<Longrightarrow>
     ps' = ps @ [p] \<and> (\<forall>x \<in> set ps. pn_id x \<noteq> pn_id p \<and> \<not> of_wallet (pn_talosId p) (pn_stellarPublicKey p) x)"
  by (auto simp: insert_patron_def list_ex_iff split: if_splits)

lemma write_ok: "patron_write talosId key ps1 ps2 ps' \<Longrightarrow> patrons_ok ps1 \<Longrightarrow> patrons_ok ps2 \<Longrightarrow> patrons_ok ps'"
proof (induction rule: patron_write.induct)
  case (updated p f)
  then show ?case by (simp add: patrons_ok_def map_upd_frame same_wallet_def)
next
  case (added p ps')
  then show ?case using insert_patron_Some [OF added(2)] by (auto simp: patrons_ok_def of_wallet_def)
qed

lemma upd_other_row: "c \<in> set ps \<Longrightarrow> \<not> P c \<Longrightarrow> c \<in> set (upd P f ps)"
  by (auto simp: upd_def intro: image_eqI [where x = c])

lemma write_seated:
  assumes "patron_write talosId key ps1 ps2 ps'" "patrons_ok ps1" "c \<in> set ps1" "c \<in> set ps2" "seated c"
  shows "c \<in> set ps'"
  using assms
proof (induction rule: patron_write.induct)
  case (updated p f)
  then have "p \<noteq> c" "p \<in> set ps1" by (auto dest: find_SomeD)
  then have "pn_id c \<noteq> pn_id p"
    using updated.prems(1,2) distinct_key_unique [of pn_id ps1 c p] by (auto simp: patrons_ok_def)
  then show ?case using updated.prems(3) by (simp add: upd_other_row)
next
  case (added p ps')
  then show ?case using insert_patron_Some [OF added(2)] by simp
qed

lemma patrons_run_keeps:
  "patrons_run ps ps' \<Longrightarrow> patrons_ok ps \<Longrightarrow> patrons_ok ps' \<and> (\<forall>c \<in> set ps. seated c \<longrightarrow> c \<in> set ps')"
proof (induction rule: patrons_run.induct)
  case (start ps)
  then show ?case by simp
next
  case (register ps ps1 ps2 env talosId q tokens)
  then show ?case
    using register_write [of talosId q ps1 "\<lambda>_. ps2"] write_ok write_seated by blast
next
  case (withdraw ps ps1 ps2 env talosId q)
  then show ?case
    using withdraw_write [of talosId q ps1 "\<lambda>_. ps2"] write_ok write_seated by blast
qed

text \<open>However registrations and withdrawals overlap, a wallet has at most one row per agent and ids stay
  unique, and the row of an active creator stays exactly as it is: nobody withdraws or overwrites it.\<close>

theorem patron_rows_stable:
  assumes "patrons_run ps ps'" "patrons_ok ps"
  shows "distinct (map pn_id ps') \<and> distinct (map (\<lambda>p. (pn_talosId p, pn_stellarPublicKey p)) ps') \<and>
    (\<forall>c \<in> set ps. pn_role c = ''Creator'' \<and> pn_status c = ''active'' \<longrightarrow> c \<in> set ps')"
  using patrons_run_keeps [OF assms] by (simp add: patrons_ok_def seated_def)

section \<open>Who may change what\<close>

lemma guards_signed:
  "patron_guards env talosId q tokens = Inr t \<Longrightarrow>
     js_includes talosId (pq_message q) \<and> js_includes ''register-patron'' (pq_message q) \<and>
     verifyStellarSignature (pv_ed25519 env) (pq_stellarPublicKey q) (pq_message q) (pq_signature q) \<and>
     find_token talosId tokens = Some t \<and> of_int (min_required t) \<le> pq_pulseAmount q"
  by (auto simp: patron_guards_def Let_def split: if_splits option.splits)

lemma register_unsigned:
  "patron_guards env talosId q tokens = Inl e \<Longrightarrow> fst (register_patron env between talosId q tokens ps) = ps"
  by (simp add: register_patron_def split: prod.splits)

lemma withdraw_signed:
  "fst (withdraw_patron env between talosId q ps) \<noteq> ps \<Longrightarrow>
     js_includes talosId (pq_message q) \<and> js_includes ''revoke-patron'' (pq_message q) \<and>
     verifyStellarSignature (pv_ed25519 env) (pq_stellarPublicKey q) (pq_message q) (pq_signature q)"
  by (auto simp: withdraw_patron_def split: if_splits)

lemma write_keeps_wallets:
  assumes "patron_write talosId key ps1 ps2 ps'" "\<exists>y \<in> set ps1. same_wallet p y" "\<exists>z \<in> set ps2. same_wallet p z"
  shows "\<exists>y \<in> set ps'. same_wallet p y"
  using assms
proof (induction rule: patron_write.induct)
  case (updated p' f)
  then obtain z where z: "z \<in> set ps2" "same_wallet p z" by blast
  then have "same_wallet p (f z)" using updated.hyps(3) by (auto simp: same_wallet_def)
  then show ?case using z by (auto simp: set_upd)
next
  case (added p' ps')
  then show ?case using insert_patron_Some [OF added(2)] by auto
qed

lemma same_wallet_trans: "same_wallet x y \<Longrightarrow> same_wallet y z \<Longrightarrow> same_wallet x z"
  by (simp add: same_wallet_def)

lemma run_keeps_wallets: "patrons_run ps ps' \<Longrightarrow> \<forall>p \<in> set ps. \<exists>y \<in> set ps'. same_wallet p y"
proof (induction rule: patrons_run.induct)
  case (start ps)
  then show ?case by (auto simp: same_wallet_def)
next
  case (register ps ps1 ps2 env talosId q tokens)
  then show ?case
    using write_keeps_wallets [OF register_write [of talosId q ps1 "\<lambda>_. ps2"]] by (meson same_wallet_trans)
next
  case (withdraw ps ps1 ps2 env talosId q)
  then show ?case
    using write_keeps_wallets [OF withdraw_write [of talosId q ps1 "\<lambda>_. ps2"]] by (meson same_wallet_trans)
qed

lemma update_only_wallet:
  assumes "patrons_run ps1 ps2" "patrons_ok ps1" "p \<in> set ps1" "of_wallet talosId key p"
    "\<forall>x. same_wallet x (f x)" "\<not> of_wallet talosId key x"
  shows "x \<in> set (upd (\<lambda>x. pn_id x = pn_id p) f ps2) \<longleftrightarrow> x \<in> set ps2"
proof -
  obtain y where y: "y \<in> set ps2" "same_wallet p y" using run_keeps_wallets [OF assms(1)] assms(3) by blast
  have ok: "patrons_ok ps2" using patrons_run_keeps [OF assms(1,2)] by simp
  have only: "z = y" if "z \<in> set ps2" "pn_id z = pn_id p" for z
    using distinct_key_unique [of pn_id ps2 z y] ok y that by (auto simp: patrons_ok_def same_wallet_def)
  have "of_wallet talosId key y" "of_wallet talosId key (f y)"
    using y(2) assms(4) assms(5) by (auto simp: same_wallet_def of_wallet_def)
  then show ?thesis using only assms(6) by (auto simp: set_upd)
qed

lemma write_frame:
  assumes "patron_write talosId key ps1 ps2 ps'" "patrons_run ps1 ps2" "patrons_ok ps1" "\<not> of_wallet talosId key x"
  shows "ps' = ps1 \<or> (x \<in> set ps' \<longleftrightarrow> x \<in> set ps2)"
  using assms
proof (induction rule: patron_write.induct)
  case (updated p f)
  then show ?case using update_only_wallet [of ps1 ps2 p talosId key f x] by (auto dest: find_SomeD)
next
  case (added p ps')
  then show ?case using insert_patron_Some [OF added(2)] by auto
qed simp_all

text \<open>C7.
  A registration or withdrawal changes nothing, or the wallet it names has signed a text with the id
  of the agent and the name of the action; then no other wallet's row and no other agent's row changes,
  whatever other requests did meanwhile.  Registering also takes at least the minimum of Pulse.\<close>

theorem patron_changes_signed:
  assumes "patrons_run ps1 ps2" "patrons_ok ps1"
    "ps' = fst (register_patron env (\<lambda>_. ps2) talosId q tokens ps1) \<and> action = ''register-patron'' \<or>
     ps' = fst (withdraw_patron env (\<lambda>_. ps2) talosId q ps1) \<and> action = ''revoke-patron''"
  shows "ps' = ps1 \<or> ps' = ps2 \<or>
    (js_includes talosId (pq_message q) \<and> js_includes action (pq_message q) \<and>
     pv_ed25519 env (pq_stellarPublicKey q) (pq_message q) (pq_signature q) = Some True \<and>
     (action = ''register-patron'' \<longrightarrow> (\<exists>t. find_token talosId tokens = Some t \<and> of_int (min_required t) \<le> pq_pulseAmount q)) \<and>
     (\<forall>x. \<not> of_wallet talosId (pq_stellarPublicKey q) x \<longrightarrow> (x \<in> set ps' \<longleftrightarrow> x \<in> set ps2)))"
proof -
  let ?key = "pq_stellarPublicKey q"
  have "patron_write talosId ?key ps1 ps2 ps'" using assms(3) register_write withdraw_write by metis
  then have frame: "ps' = ps1 \<or> (\<forall>x. \<not> of_wallet talosId ?key x \<longrightarrow> (x \<in> set ps' \<longleftrightarrow> x \<in> set ps2))"
    using write_frame [OF _ assms(1,2)] by blast
  have "ps' = ps1" if "ps' = fst (register_patron env (\<lambda>_. ps2) talosId q tokens ps1)" "patron_guards env talosId q tokens = Inl e" for e
    using that register_unsigned by simp
  then show ?thesis
    using assms(3) frame guards_signed [of env talosId q tokens] withdraw_signed [of env "\<lambda>_. ps2" talosId q ps1]
    unfolding verifyStellarSignature_def by (cases "patron_guards env talosId q tokens") fastforce+
qed

section \<open>Decisions\<close>

lemma decision_guards_ok:
  "decision_guards env talosId a q w = Inr r \<Longrightarrow>
     sel_one (\<lambda>r. aw_id r = a) (pw_approvals w) = Some r \<and> aw_talosId r = talosId \<and>
     the (dq_status q) \<in> {''approved'', ''rejected''} \<and> dq_decidedBy q = Some (the (dq_decidedBy q)) \<and>
     (\<exists>p \<in> set (pw_patrons w). active_patron talosId (the (dq_decidedBy q)) p) \<and>
     dn_ed25519 env (the (dq_decidedBy q)) (the (dq_message q)) (the (dq_signature q)) = Some True"
  by (auto simp: decision_guards_def verifyStellarSignature_def list_ex_iff truthy_str_def split: if_splits option.splits)

text \<open>C6.
  An approval changes by a decision only when an active patron of its own agent is named and a text
  verifies under that patron's key; the new status is approved or rejected, with the patron on record, and
  no other approval changes.\<close>

theorem decision_by_active_patron:
  assumes "decide_approval env between talosId a q w = (w', reply)"
    "pw_approvals w' \<noteq> pw_approvals w" "pw_approvals w' \<noteq> pw_approvals (between w)"
  shows "\<exists>key. dq_decidedBy q = Some key \<and> (\<exists>p \<in> set (pw_patrons w). active_patron talosId key p) \<and>
    dn_ed25519 env key (the (dq_message q)) (the (dq_signature q)) = Some True \<and>
    (\<exists>r \<in> set (pw_approvals w). aw_id r = a \<and> aw_talosId r = talosId) \<and>
    (\<forall>r \<in> set (pw_approvals w'). aw_id r = a \<longrightarrow> aw_status r \<in> {''approved'', ''rejected''} \<and> aw_decidedBy r = Some key) \<and>
    (\<forall>r. aw_id r \<noteq> a \<longrightarrow> (r \<in> set (pw_approvals w') \<longleftrightarrow> r \<in> set (pw_approvals (between w))))"
proof (cases "decision_guards env talosId a q w")
  case (Inl e)
  then show ?thesis using assms by (cases e) (simp add: decide_approval_def)
next
  case (Inr r)
  let ?f = "\<lambda>r. r\<lparr>aw_status := the (dq_status q), aw_decidedAt := Some (dn_now env), aw_decidedBy := Some (the (dq_decidedBy q)),
    aw_txHash := recordApprovalOnChain (dn_env env) (dn_submit env) a talosId (the (dq_status q)) (the (dq_decidedBy q))\<rparr>"
  have "pw_approvals w' = upd (\<lambda>r. aw_id r = a) ?f (pw_approvals (between w))"
    using assms(1) by (auto simp: decide_approval_def Inr Let_def upd_returning_def split: option.splits)
  then show ?thesis
    using decision_guards_ok [OF Inr] by (fastforce simp: set_upd dest: find_SomeD)
qed

text \<open>The text need not name the approval, the decision or the agent, and a decided approval can be decided
  again: any text an active patron ever signed settles every approval of the agent either way, and the
  lifecycle route takes it as the governance decision.\<close>

lemma any_signature_decides:
  assumes "find_token talosId (pw_tokens w) = Some t" "sel_one (\<lambda>r. aw_id r = a) (pw_approvals w) = Some r" "aw_talosId r = talosId"
    "p \<in> set (pw_patrons w)" "active_patron talosId key p" "key \<noteq> []"
    "dn_ed25519 env key message signature = Some True" "message \<noteq> []" "signature \<noteq> []"
    "status = ''approved'' \<or> status = ''rejected''"
  shows "\<exists>w' r'. decide_approval env (\<lambda>w. w) talosId a
      \<lparr>dq_status = Some status, dq_decidedBy = Some key, dq_signature = Some signature, dq_message = Some message\<rparr> w =
        (w', Approval_answer 200 r') \<and> aw_status r' = status \<and> r' \<in> set (pw_approvals w') \<and>
      (status = ''approved'' \<and> payload_proposal parsed = Some a \<and> a \<noteq> [] \<longrightarrow>
        hasApprovedProposal talosId parsed (g\<lparr>gw_approvals := map gov_approval (pw_approvals w')\<rparr>))"
proof -
  let ?q = "\<lparr>dq_status = Some status, dq_decidedBy = Some key, dq_signature = Some signature, dq_message = Some message\<rparr>"
  have guards: "decision_guards env talosId a ?q w = Inr r"
    using assms by (auto simp: decision_guards_def verifyStellarSignature_def list_ex_iff)
  let ?f = "\<lambda>r. r\<lparr>aw_status := status, aw_decidedAt := Some (dn_now env), aw_decidedBy := Some key,
    aw_txHash := recordApprovalOnChain (dn_env env) (dn_submit env) a talosId status key\<rparr>"
  obtain u rows where rows: "filter (\<lambda>r. aw_id r = a) (pw_approvals w) = u # rows" "r = u"
    using assms(2) find_Some_first [of "\<lambda>r. aw_id r = a" "pw_approvals w"]
    by (cases "filter (\<lambda>r. aw_id r = a) (pw_approvals w)") auto
  have r: "r \<in> set (pw_approvals w)" "aw_id r = a" using find_SomeD [OF assms(2)] by auto
  then have mem: "?f r \<in> set (upd (\<lambda>r. aw_id r = a) ?f (pw_approvals w))" by (auto simp: set_upd)
  let ?w = "w\<lparr>pw_approvals := upd (\<lambda>r. aw_id r = a) ?f (pw_approvals w),
    pw_events := pw_events w @ [decision_event talosId r (?f r) status key]\<rparr>"
  have "decide_approval env (\<lambda>w. w) talosId a ?q w = (?w, Approval_answer 200 (?f r))"
    unfolding decide_approval_def guards by (simp add: Let_def upd_returning_def rows)
  moreover have "hasApprovedProposal talosId parsed (g\<lparr>gw_approvals := map gov_approval (pw_approvals ?w)\<rparr>)"
    if "status = ''approved''" "payload_proposal parsed = Some a" "a \<noteq> []"
    using mem that r(2) assms(3) by (auto simp: hasApprovedProposal_def list_ex_iff gov_approval_def intro!: bexI [where x = "?f r"])
  ultimately show ?thesis using mem by (auto intro!: exI [where x = ?w])
qed

section \<open>Proposals\<close>

definition pending_unique :: "approval_row list \<Rightarrow> bool" where
  "pending_unique t \<longleftrightarrow> (\<forall>talosId type. length (sel (pending_of_type talosId type) t) \<le> 1)"

datatype governance_request =
    Propose string approval_request string instant  \<comment> \<open>agent, body, new id, clock\<close>
  | Decide decision_env string string decision_request

fun governance_step :: "(string \<Rightarrow> string) \<Rightarrow> governance_request \<Rightarrow> patron_world \<Rightarrow> patron_world" where
  "governance_step sha256 (Propose talosId q newId now) w = fst (propose_approval sha256 now newId (\<lambda>w. w) talosId q w)"
| "governance_step sha256 (Decide env talosId a q) w = fst (decide_approval env (\<lambda>w. w) talosId a q w)"

lemma proposer_guard_approvals: "pw_approvals (fst (proposer_guard sha256 now talosId q w)) = pw_approvals w"
  by (simp add: proposer_guard_def split: prod.splits)

lemma propose_cases:
  "pw_approvals (fst (propose_approval sha256 now newId (\<lambda>w. w) talosId q w)) = pw_approvals w \<or>
   (\<exists>r. pw_approvals (fst (propose_approval sha256 now newId (\<lambda>w. w) talosId q w)) = pw_approvals w @ [r] \<and>
      \<not> list_ex (pending_of_type (aw_talosId r) (aw_type r)) (pw_approvals w))"
  using proposer_guard_approvals [of sha256 now talosId q w]
  by (auto simp: propose_approval_def Let_def split: prod.splits option.splits)

lemma propose_pending:
  assumes "pending_unique t" "\<not> list_ex (pending_of_type (aw_talosId r) (aw_type r)) t"
  shows "pending_unique (t @ [r])"
proof -
  have "sel (pending_of_type i ty) t = []" if "pending_of_type i ty r" for i ty
    using assms(2) that by (auto simp: list_ex_iff filter_empty_conv pending_of_type_def)
  then show ?thesis using assms(1) by (auto simp: pending_unique_def)
qed

lemma decide_pending:
  assumes "pending_unique t" "\<And>r. aw_status (f r) \<in> {''approved'', ''rejected''}"
  shows "pending_unique (upd P f t)"
proof -
  have "length (sel (pending_of_type i ty) (upd P f t)) \<le> length (sel (pending_of_type i ty) t)" for i ty
  proof (induction t)
    case (Cons r t)
    then show ?case using assms(2) [of r] by (auto simp: pending_of_type_def)
  qed simp
  then show ?thesis using assms(1) unfolding pending_unique_def by (meson order_trans)
qed

lemma decide_cases:
  "pw_approvals (fst (decide_approval env (\<lambda>w. w) talosId a q w)) = pw_approvals w \<or>
   (\<exists>P f. pw_approvals (fst (decide_approval env (\<lambda>w. w) talosId a q w)) = upd P f (pw_approvals w) \<and>
      (\<forall>r. aw_status (f r) \<in> {''approved'', ''rejected''}))"
proof (cases "decision_guards env talosId a q w")
  case (Inl e)
  then show ?thesis by (cases e) (simp add: decide_approval_def)
next
  case (Inr r)
  let ?f = "\<lambda>r. r\<lparr>aw_status := the (dq_status q), aw_decidedAt := Some (dn_now env), aw_decidedBy := Some (the (dq_decidedBy q)),
    aw_txHash := recordApprovalOnChain (dn_env env) (dn_submit env) a talosId (the (dq_status q)) (the (dq_decidedBy q))\<rparr>"
  have "pw_approvals (fst (decide_approval env (\<lambda>w. w) talosId a q w)) = upd (\<lambda>r. aw_id r = a) ?f (pw_approvals w)"
    by (simp add: decide_approval_def Inr Let_def upd_returning_def split: option.splits)
  then show ?thesis using decision_guards_ok [OF Inr] by (intro disjI2 exI [where x = "\<lambda>r. aw_id r = a"] exI [where x = ?f]) simp
qed

text \<open>With requests one after the other there is never more than one pending approval of a type per
  agent, whatever is proposed and decided.\<close>

theorem one_pending_per_type:
  assumes "pending_unique (pw_approvals w)"
  shows "pending_unique (pw_approvals (fold (governance_step sha256) rqs w))"
  using assms
proof (induction rqs arbitrary: w)
  case (Cons rq rqs)
  have "pending_unique (pw_approvals (governance_step sha256 rq w))"
  proof (cases rq)
    case (Propose talosId q newId now)
    then show ?thesis using propose_cases [of sha256 now newId talosId q w] propose_pending Cons.prems by auto
  next
    case (Decide env talosId a q)
    then show ?thesis using decide_cases [of env talosId a q w] decide_pending Cons.prems by auto
  qed
  then show ?case using Cons.IH by simp
qed simp

section \<open>Samples\<close>

definition echo_ed :: ed25519 where "echo_ed key message signature = Some (signature = message)"

definition gov_token :: talos_token where
  "gov_token = \<lparr>tt_id = ''t1'', tt_creatorPublicKey = Some ''GC'', tt_agentWalletAddress = Some ''GA'', tt_totalSupply = 1000000,
     tt_minPatronPulse = None, tt_investorShare = 25, tt_pulsePrice = ''0.010000'', tt_stellarAssetCode = Some ''MIT:GI'',
     tt_tokenSymbol = None\<rparr>"

definition gov_creator :: patron where
  "gov_creator = \<lparr>pn_id = ''p0'', pn_talosId = ''t1'', pn_stellarPublicKey = ''GC'', pn_role = ''Creator'', pn_pulseAmount = 600000,
     pn_share = 6000, pn_status = ''active'', pn_createdAt = 0\<rparr>"

definition dust_ledger :: "string \<Rightarrow> balance_line list option" where
  "dust_ledger key = Some [\<lparr>bl_type = ''credit_alphanum4'', bl_code = Some ''USDC'', bl_issuer = Some ''GU'', bl_balance = ''0.0000001''\<rparr>]"

definition gov_env :: "string \<Rightarrow> patron_env" where
  "gov_env i = \<lparr>pv_ed25519 = echo_ed, pv_load = dust_ledger, pv_issuer = ''GU'', pv_newId = i, pv_now = 5\<rparr>"

definition gov_request :: "string \<Rightarrow> rat \<Rightarrow> string \<Rightarrow> patron_request" where
  "gov_request key pulse message = \<lparr>pq_stellarPublicKey = key, pq_pulseAmount = pulse, pq_signature = message, pq_message = message\<rparr>"

definition after_register :: "rat \<Rightarrow> patron list \<Rightarrow> patron list \<times> patron_reply" where
  "after_register pulse ps = register_patron (gov_env ''p1'') (\<lambda>ps. ps) ''t1'' (gov_request ''GW'' pulse ''t1 register-patron'') [gov_token] ps"

definition after_withdraw :: "patron list \<Rightarrow> patron list \<times> patron_reply" where
  "after_withdraw ps = withdraw_patron (gov_env ''p2'') (\<lambda>ps. ps) ''t1'' (gov_request ''GW'' 1 ''t1 revoke-patron'') ps"

text \<open>A wallet that holds the smallest amount of USDC and no Pulse registers nine times the supply.\<close>

lemma unheld_pulse_accepted:
  "map (\<lambda>p. (pn_stellarPublicKey p, pn_pulseAmount p, pn_share p)) (fst (after_register 9000000 [gov_creator])) =
     [(''GC'', 600000, 6000), (''GW'', 9000000, 90000)]"
  by code_simp

text \<open>After a withdrawal anyone who has seen the signed text enters the wallet again, with an amount of
  their own.\<close>

definition withdrawn :: "patron list" where
  "withdrawn = fst (after_withdraw (fst (after_register 1000 [gov_creator])))"

lemma gov_values:
  "min_required gov_token = 1000" "share_percent 1000 1000000 = Some 10" "share_percent 2000 1000000 = Some 20"
  "dbl (numeric_value ''0.0000001'') > 0"
  by code_simp+

lemma gov_guards:
  "1000 \<le> pulse \<Longrightarrow> patron_guards (gov_env i) ''t1'' (gov_request ''GW'' pulse ''t1 register-patron'') [gov_token] = Inr gov_token"
  by (simp add: patron_guards_def becomePatronSchema_def gov_env_def gov_request_def verifyStellarSignature_def echo_ed_def
      getAccountInfo_def getUSDCBalance_def dust_ledger_def find_token_def gov_values starts_with_def
      gov_token_def [THEN arg_cong [where f = tt_id]])

lemma registration_replayed:
  "map (\<lambda>p. (pn_stellarPublicKey p, pn_pulseAmount p, pn_status p)) withdrawn =
     [(''GC'', 600000, ''active''), (''GW'', 1000, ''revoked'')]"
  "map (\<lambda>p. (pn_stellarPublicKey p, pn_pulseAmount p, pn_status p)) (fst (after_register 2000 withdrawn)) =
     [(''GC'', 600000, ''active''), (''GW'', 2000, ''active'')]"
proof -
  have million: "tt_totalSupply gov_token = 1000000" by (simp add: gov_token_def)
  have ints: "int_column 1000 = Some 1000" "int_column 2000 = Some 2000" by code_simp+
  let ?p = "\<lparr>pn_id = ''p1'', pn_talosId = ''t1'', pn_stellarPublicKey = ''GW'', pn_role = ''Investor'', pn_pulseAmount = 1000,
     pn_share = 10, pn_status = ''active'', pn_createdAt = 5\<rparr>"
  have one: "fst (after_register 1000 [gov_creator]) = [gov_creator, ?p]"
    unfolding after_register_def register_patron_def gov_guards [of 1000, simplified]
    by (simp add: million Let_def gov_request_def gov_env_def of_wallet_def ints gov_values enrol_patron_def insert_patron_def gov_creator_def)
  have two: "withdrawn = [gov_creator, ?p\<lparr>pn_status := ''revoked''\<rparr>]"
    unfolding withdrawn_def one
    by (simp add: after_withdraw_def withdraw_patron_def revokePatronSchema_def gov_request_def gov_env_def starts_with_def
        verifyStellarSignature_def echo_ed_def of_wallet_def gov_creator_def upd_returning_def)
  show "map (\<lambda>p. (pn_stellarPublicKey p, pn_pulseAmount p, pn_status p)) withdrawn =
     [(''GC'', 600000, ''active''), (''GW'', 1000, ''revoked'')]"
    unfolding two by (simp add: gov_creator_def)
  show "map (\<lambda>p. (pn_stellarPublicKey p, pn_pulseAmount p, pn_status p)) (fst (after_register 2000 withdrawn)) =
     [(''GC'', 600000, ''active''), (''GW'', 2000, ''active'')]"
    unfolding two after_register_def register_patron_def gov_guards [of 2000, simplified]
    by (simp add: million Let_def gov_request_def of_wallet_def ints gov_values reactivate_patron_def upd_returning_def gov_creator_def)
qed

theorem patron_rows_stable_witness:
  "length (fst (after_register 1000 [gov_creator])) = 2 \<and> distinct (map pn_id (fst (after_register 1000 [gov_creator]))) \<and>
   gov_creator \<in> set (fst (after_register 1000 [gov_creator]))"
proof -
  have run: "patrons_run [gov_creator] (fst (register_patron (gov_env ''p1'') (\<lambda>_. [gov_creator]) ''t1''
      (gov_request ''GW'' 1000 ''t1 register-patron'') [gov_token] [gov_creator]))"
    by (intro patrons_run.register patrons_run.start)
  have same: "register_patron (gov_env ''p1'') (\<lambda>_. [gov_creator]) ''t1'' (gov_request ''GW'' 1000 ''t1 register-patron'')
      [gov_token] [gov_creator] = after_register 1000 [gov_creator]"
    by (simp add: after_register_def register_patron_def)
  have "patrons_ok [gov_creator]" by (simp add: patrons_ok_def)
  moreover have "length (fst (after_register 1000 [gov_creator])) = 2" by code_simp
  moreover have "pn_role gov_creator = ''Creator'' \<and> pn_status gov_creator = ''active''" by (simp add: gov_creator_def)
  ultimately show ?thesis using patron_rows_stable [OF run] unfolding same by simp
qed

theorem patron_changes_signed_witness:
  "fst (after_register 1000 [gov_creator]) \<noteq> [gov_creator] \<and> echo_ed ''GW'' ''t1 register-patron'' ''t1 register-patron'' = Some True"
proof -
  have "patrons_ok [gov_creator]" by (simp add: patrons_ok_def)
  moreover have same: "fst (after_register 1000 [gov_creator]) = fst (register_patron (gov_env ''p1'') (\<lambda>_. [gov_creator]) ''t1''
      (gov_request ''GW'' 1000 ''t1 register-patron'') [gov_token] [gov_creator])"
    by (simp add: after_register_def register_patron_def)
  moreover have "length (fst (after_register 1000 [gov_creator])) = 2" by code_simp
  then have "fst (after_register 1000 [gov_creator]) \<noteq> [gov_creator]" by auto
  ultimately show ?thesis
    using patron_changes_signed [OF patrons_run.start, of "[gov_creator]" "fst (after_register 1000 [gov_creator])" "gov_env ''p1''"
        "''t1''" "gov_request ''GW'' 1000 ''t1 register-patron''" "[gov_token]" "''register-patron''"]
    by (auto simp: gov_env_def gov_request_def)
qed

definition gov_proposal :: approval_request where
  "gov_proposal = \<lparr>aq_authorization = None, aq_type = Some ''policy'', aq_title = Some ''Raise the budget'',
     aq_amount = NoAmount, aq_proposerPublicKey = Some ''GC''\<rparr>"

definition gov_world0 :: patron_world where
  "gov_world0 = \<lparr>pw_tokens = [gov_token], pw_agents = [], pw_keys = [], pw_patrons = [gov_creator], pw_approvals = [], pw_events = []\<rparr>"

definition gov_proposed :: patron_world where
  "gov_proposed = governance_step (\<lambda>s. s) (Propose ''t1'' gov_proposal ''a1'' 10) gov_world0"

definition gov_decider :: decision_env where
  "gov_decider = \<lparr>dn_ed25519 = echo_ed, dn_env = (\<lambda>_. None), dn_submit = (\<lambda>_. None), dn_now = 20\<rparr>"

definition gov_decision :: "string \<Rightarrow> decision_request" where
  "gov_decision status = \<lparr>dq_status = Some status, dq_decidedBy = Some ''GC'', dq_signature = Some ''hello'', dq_message = Some ''hello''\<rparr>"

text \<open>Naming an active patron is enough to propose: nothing is signed.\<close>

lemma unsigned_proposal:
  "map (\<lambda>r. (aw_id r, aw_status r)) (pw_approvals gov_proposed) = [(''a1'', ''pending'')]"
  by code_simp

text \<open>Two proposals that overlap are both pending.\<close>

lemma pending_twice:
  "map aw_status (pw_approvals (fst (propose_approval (\<lambda>s. s) 11 ''a2''
     (governance_step (\<lambda>s. s) (Propose ''t1'' gov_proposal ''a1'' 10)) ''t1'' gov_proposal gov_world0))) = [''pending'', ''pending'']"
  by code_simp

text \<open>A decided approval is decided again, the other way, by a text that names neither.\<close>

lemma decision_flipped:
  "map aw_status (pw_approvals (fold (governance_step (\<lambda>s. s))
     [Decide gov_decider ''t1'' ''a1'' (gov_decision ''rejected''), Decide gov_decider ''t1'' ''a1'' (gov_decision ''approved'')] gov_proposed)) =
   [''approved'']"
  by code_simp

theorem decision_by_active_patron_witness:
  "echo_ed ''GC'' ''hello'' ''hello'' = Some True \<and> (\<exists>p \<in> set (pw_patrons gov_proposed). active_patron ''t1'' ''GC'' p)"
proof -
  let ?run = "decide_approval gov_decider (\<lambda>w. w) ''t1'' ''a1'' (gov_decision ''approved'') gov_proposed"
  have run: "?run = (fst ?run, snd ?run)" by simp
  have "map aw_status (pw_approvals (fst ?run)) = [''approved'']" "map aw_status (pw_approvals gov_proposed) = [''pending'']"
    by code_simp+
  then have "map aw_status (pw_approvals (fst ?run)) \<noteq> map aw_status (pw_approvals gov_proposed)" by simp
  then have "pw_approvals (fst ?run) \<noteq> pw_approvals gov_proposed" by metis
  then show ?thesis using decision_by_active_patron [OF run] by (auto simp: gov_decision_def gov_decider_def)
qed

theorem one_pending_per_type_witness:
  "pending_unique (pw_approvals (fold (governance_step (\<lambda>s. s))
     [Propose ''t1'' gov_proposal ''a1'' 10, Propose ''t1'' gov_proposal ''a2'' 11] gov_world0))"
proof -
  have "pending_unique (pw_approvals gov_world0)" by (simp add: pending_unique_def gov_world0_def)
  then show ?thesis by (rule one_pending_per_type)
qed

text \<open>Approvals created in the same millisecond as the last one of a page are on no page.\<close>

lemma approvals_fall_between_pages:
  "(let r = \<lambda>i c. \<lparr>aw_id = i, aw_talosId = ''t1'', aw_type = ''policy'', aw_title = i, aw_amount = None, aw_status = ''pending'',
              aw_decidedAt = None, aw_decidedBy = None, aw_txHash = None, aw_createdAt = c\<rparr>;
        t = [r ''a1'' 7, r ''a2'' 7, r ''a3'' 3];
        ids = map_option (\<lambda>(page, c). (map aw_id page, c))
    in ids (list_approvals ''t1'' None None (Some ''1'') t) = Some ([''a1''], Some 7) \<and>
       ids (list_approvals ''t1'' None (Some 7) (Some ''1'') t) = Some ([''a3''], None))"
  by code_simp

end
