(* ===== verification/Dividends_Facts.thy ===== *)
theory Dividends_Facts
  imports Dividends Patronage_Facts Simulation
begin

text \<open>
  What one distribution pays, when a distribution id is paid only once, and what neither prevents.
\<close>

section \<open>Amounts\<close>

definition patron_stroops :: "rat \<Rightarrow> int \<Rightarrow> int \<Rightarrow> int" where
  "patron_stroops d totalPulse pulse = \<lfloor>dbl (dbl (d * dbl (of_int pulse / of_int totalPulse)) * 10 ^ 7)\<rfloor>"

lemma dbl_scale:
  assumes "0 \<le> x" "x \<le> y * c" "y * c' \<le> x" "0 \<le> y" "0 \<le> k"
  shows "dbl (x * k) \<le> y * k * (c * (1 + 1 / 2 ^ 53))" "y * k * (c' * (1 - 1 / 2 ^ 53)) \<le> dbl (x * k)" "0 \<le> dbl (x * k)"
proof -
  have b: "x * k - x * k / 2 ^ 53 \<le> dbl (x * k)" "dbl (x * k) \<le> x * k + x * k / 2 ^ 53"
    using dbl_between [of "x * k"] assms(1,5) by simp_all
  have k: "x * k \<le> y * c * k" "y * c' * k \<le> x * k" using assms(2,3,5) by (simp_all add: mult_right_mono)
  have "x * k * (1 + 1 / 2 ^ 53) \<le> y * c * k * (1 + 1 / 2 ^ 53)" using k(1) by (rule mult_right_mono) simp
  then show "dbl (x * k) \<le> y * k * (c * (1 + 1 / 2 ^ 53))" using b(2) by (simp add: algebra_simps)
  have "y * c' * k * (1 - 1 / 2 ^ 53) \<le> x * k * (1 - 1 / 2 ^ 53)" using k(2) by (rule mult_right_mono) simp
  then show "y * k * (c' * (1 - 1 / 2 ^ 53)) \<le> dbl (x * k)" using b(1) by (simp add: algebra_simps)
  show "0 \<le> dbl (x * k)" using assms(1,5) by (simp add: dbl_nonneg)
qed

lemma three_roundings:
  assumes "0 \<le> r" "0 \<le> d"
  defines "v \<equiv> dbl (dbl (d * dbl r) * 10 ^ 7)"
  shows "0 \<le> v" "v \<le> d * 10 ^ 7 * r * (1 + 1 / 2 ^ 51)" "d * 10 ^ 7 * r * (1 - 1 / 2 ^ 51) \<le> v"
proof -
  let ?p = "1 + 1 / 2 ^ 53 :: rat" and ?m = "1 - 1 / 2 ^ 53 :: rat"
  have one: "dbl r \<le> r * ?p" "r * ?m \<le> dbl r" "0 \<le> dbl r" using dbl_scale [of r r 1 1 1] assms(1) by simp_all
  have two: "dbl (dbl r * d) \<le> r * d * (?p * ?p)" "r * d * (?m * ?m) \<le> dbl (dbl r * d)" "0 \<le> dbl (dbl r * d)"
    using dbl_scale [OF one(3,1,2) assms(1,2)] by simp_all
  have rd: "0 \<le> r * d" using assms(1,2) by simp
  note three = dbl_scale [OF two(3,1,2) rd, of "10 ^ 7"]
  have v: "v = dbl (dbl (dbl r * d) * 10 ^ 7)" by (simp add: v_def mult.commute)
  show "0 \<le> v" using three(3) by (simp add: v)
  have big: "0 \<le> r * d * 10 ^ 7" using rd by simp
  have "r * d * 10 ^ 7 * (?p * ?p * ?p) \<le> r * d * 10 ^ 7 * (1 + 1 / 2 ^ 51)"
    by (rule mult_left_mono [OF _ big]) simp
  then show "v \<le> d * 10 ^ 7 * r * (1 + 1 / 2 ^ 51)" using three(1) by (simp add: v mult_ac)
  have "r * d * 10 ^ 7 * (1 - 1 / 2 ^ 51) \<le> r * d * 10 ^ 7 * (?m * ?m * ?m)"
    by (rule mult_left_mono [OF _ big]) simp
  then show "d * 10 ^ 7 * r * (1 - 1 / 2 ^ 51) \<le> v" using three(2) by (simp add: v mult_ac)
qed

lemma stroops_exact:
  assumes "0 \<le> f" "f < 2 ^ 52"
  shows "to_fixed 7 (dbl (of_int f / 10 ^ 7)) = f"
proof -
  let ?x = "of_int f / 10 ^ 7 :: rat" and ?a = "dbl (of_int f / 10 ^ 7)"
  have x: "0 \<le> ?x" using assms(1) by simp
  have f: "(of_int f :: rat) < 2 ^ 52" using assms(2) of_int_less_iff [of f "2 ^ 52", where 'a = rat] by simp
  have "?x - ?x / 2 ^ 53 \<le> ?a" "?a \<le> ?x + ?x / 2 ^ 53" using dbl_between [OF x] by simp_all
  then have "(?x - ?x / 2 ^ 53) * 10 ^ 7 \<le> ?a * 10 ^ 7" "?a * 10 ^ 7 \<le> (?x + ?x / 2 ^ 53) * 10 ^ 7"
    by (simp_all only: mult_right_mono zero_le_power zero_le_numeral)
  moreover have "(?x - ?x / 2 ^ 53) * 10 ^ 7 = of_int f - of_int f / 2 ^ 53"
    "(?x + ?x / 2 ^ 53) * 10 ^ 7 = of_int f + of_int f / 2 ^ 53"
    by (simp_all add: algebra_simps)
  ultimately have "of_int f \<le> ?a * 10 ^ 7 + 1/2" "?a * 10 ^ 7 + 1/2 < of_int f + 1" using f by simp_all
  then have "\<lfloor>?a * 10 ^ 7 + 1/2\<rfloor> = f" by (simp add: floor_eq_iff)
  then show ?thesis using dbl_nonneg [OF x] by (simp add: to_fixed_def)
qed

definition fair_share :: "rat \<Rightarrow> int \<Rightarrow> int \<Rightarrow> rat" where
  "fair_share d totalPulse pulse = d * 10 ^ 7 * (of_int pulse / of_int totalPulse)"

lemma stroops_near:
  assumes "0 \<le> d" "d * 10 ^ 7 < 2 ^ 51" "0 \<le> pulse" "pulse \<le> totalPulse" "0 < totalPulse"
  shows "0 \<le> patron_stroops d totalPulse pulse"
    "of_int (patron_stroops d totalPulse pulse) \<le> fair_share d totalPulse pulse * (1 + 1 / 2 ^ 51)"
    "fair_share d totalPulse pulse - 2 < of_int (patron_stroops d totalPulse pulse)"
    "fair_share d totalPulse pulse < 2 ^ 51"
    "to_fixed 7 (patron_amount d totalPulse pulse) = patron_stroops d totalPulse pulse"
proof -
  let ?r = "of_int pulse / of_int totalPulse :: rat" and ?f = "patron_stroops d totalPulse pulse"
  have r: "0 \<le> ?r" "?r \<le> 1" using assms(3-5) by simp_all
  have dd: "0 \<le> d * 10 ^ 7" using assms(1) by simp
  note v = three_roundings [OF r(1) assms(1), folded fair_share_def]
  have s: "0 \<le> fair_share d totalPulse pulse" "fair_share d totalPulse pulse \<le> d * 10 ^ 7"
    unfolding fair_share_def using mult_nonneg_nonneg [OF dd r(1)] mult_left_le [OF r(2) dd] by blast+
  then show below: "fair_share d totalPulse pulse < 2 ^ 51" using assms(2) by linarith
  show nonneg: "0 \<le> ?f" using v(1) by (simp add: patron_stroops_def)
  have f: "of_int ?f \<le> dbl (dbl (d * dbl ?r) * 10 ^ 7)" "dbl (dbl (d * dbl ?r) * 10 ^ 7) < of_int ?f + 1"
    unfolding patron_stroops_def by linarith+
  show upper: "of_int ?f \<le> fair_share d totalPulse pulse * (1 + 1 / 2 ^ 51)"
    using f(1) v(2) unfolding fair_share_def by linarith
  show "fair_share d totalPulse pulse - 2 < of_int ?f"
    using f(2) v(3) below unfolding fair_share_def by (simp add: algebra_simps)
  have "(of_int ?f :: rat) < 2 ^ 52" using upper below by (simp add: algebra_simps)
  then have "?f < 2 ^ 52" using of_int_less_iff [of ?f "2 ^ 52", where 'a = rat] by simp
  then show "to_fixed 7 (patron_amount d totalPulse pulse) = ?f"
    using stroops_exact [OF nonneg] by (simp add: patron_amount_def patron_stroops_def Let_def)
qed

lemma fair_share_sum:
  "sum_list (map (\<lambda>p. fair_share d totalPulse (pn_pulseAmount p)) ps) = d * 10 ^ 7 * (of_int (total_pulse ps) / of_int totalPulse)"
  by (induction ps) (simp_all add: fair_share_def total_pulse_def algebra_simps add_divide_distrib)

section \<open>A run of payments\<close>

lemma pulse_le_total: "\<forall>p \<in> set ps. 0 \<le> pn_pulseAmount p \<Longrightarrow> p \<in> set ps \<Longrightarrow> pn_pulseAmount p \<le> total_pulse ps"
  unfolding total_pulse_def by (rule member_le_sum_list) auto

text \<open>Every payment is that of a patron; in total no more than the sum over the patrons.\<close>

lemma pay_patrons_paid:
  "set (pt_paid (pay_patrons env d totalPulse n ps)) \<subseteq>
     (\<lambda>p. (pn_stellarPublicKey p, to_fixed 7 (patron_amount d totalPulse (pn_pulseAmount p)))) ` set ps"
  by (induction ps arbitrary: n) (auto simp: Let_def split: prod.splits)

lemma pay_patrons_total:
  assumes "\<forall>p \<in> set ps. 0 \<le> to_fixed 7 (patron_amount d totalPulse (pn_pulseAmount p))"
  shows "sum_list (map snd (pt_paid (pay_patrons env d totalPulse n ps))) \<le>
    sum_list (map (\<lambda>p. to_fixed 7 (patron_amount d totalPulse (pn_pulseAmount p))) ps)"
  using assms
proof (induction ps arbitrary: n)
  case (Cons p ps)
  from Cons.IH [of n] Cons.IH [of "Suc n"] Cons.prems show ?case
    by (auto simp: Let_def split: prod.splits)
qed simp

lemma rat_sum_list: "(of_int (sum_list (map f xs)) :: rat) = sum_list (map (\<lambda>x. of_int (f x)) xs)"
  by (induction xs) simp_all

lemma plan_ok:
  "distribution_plan env talosId q w = Inr (d, totalPulse, ps) \<Longrightarrow>
     ps = active_patrons talosId (dw_patrons w) \<and> totalPulse = total_pulse ps \<and> ps \<noteq> [] \<and> totalPulse \<noteq> 0 \<and>
     distribution_of talosId (distribute_id env q) w = None \<and>
     (\<exists>t. find_token talosId (dw_tokens w) = Some t \<and> d = distributable_amount (total_revenue talosId (dw_revenues w)) (tt_investorShare t))"
  by (auto simp: distribution_plan_def Let_def split: if_splits option.splits)

lemma plan_not_done: "distribution_plan env talosId q w \<noteq> Inl (Distributed record d p)"
  by (auto simp: distribution_plan_def Let_def split: option.splits)

text \<open>C5.
  What one request pays: each payment goes to a patron active at its start and is within two stroops of
  that patron's share by Pulse of the amount to share out, and all payments together stay below that amount
  plus one stroop, although every step rounds to a double.  (The amount is below 225 million USDC and no
  patron has a negative holding.)  The amount is the investors' part of all revenue.\<close>

theorem dividends_within_share:
  assumes "distribute env during talosId q w = (w', Distributed record d p)"
    "\<forall>x \<in> set (dw_patrons w). 0 \<le> pn_pulseAmount x" "0 \<le> d" "d * 10 ^ 7 < 2 ^ 51"
  shows "(\<exists>t. find_token talosId (dw_tokens w) = Some t \<and>
      d = distributable_amount (total_revenue talosId (dw_revenues w)) (tt_investorShare t)) \<and>
    of_int (sum_list (map snd (pt_paid p))) < d * 10 ^ 7 + 1 \<and>
    (\<forall>(key, v) \<in> set (pt_paid p). \<exists>x \<in> set (dw_patrons w). active_patron talosId key x \<and>
       \<bar>of_int v - d * 10 ^ 7 * of_int (pn_pulseAmount x) / of_int (total_pulse (active_patrons talosId (dw_patrons w)))\<bar> < 2)"
proof -
  obtain totalPulse ps where plan: "distribution_plan env talosId q w = Inr (d, totalPulse, ps)"
    and p: "p = pay_patrons env d totalPulse 0 ps"
    using assms(1) plan_not_done by (fastforce simp: distribute_def Let_def split: sum.splits prod.splits)
  have ps: "ps = active_patrons talosId (dw_patrons w)" "totalPulse = total_pulse ps" "totalPulse \<noteq> 0"
    using plan_ok [OF plan] by blast+
  have nn: "\<forall>x \<in> set ps. 0 \<le> pn_pulseAmount x" using assms(2) by (simp add: ps(1) active_patrons_def)
  then have "0 \<le> total_pulse ps" by (auto simp: total_pulse_def intro!: sum_list_nonneg)
  then have pos: "0 < totalPulse" using ps(2,3) by simp
  have le: "pn_pulseAmount x \<le> totalPulse" if "x \<in> set ps" for x using pulse_le_total [OF nn that] ps(2) by simp
  note near = stroops_near [OF assms(3,4) _ _ pos]
  have fixed: "to_fixed 7 (patron_amount d totalPulse (pn_pulseAmount x)) = patron_stroops d totalPulse (pn_pulseAmount x)"
    "0 \<le> patron_stroops d totalPulse (pn_pulseAmount x)" if "x \<in> set ps" for x
    using near(1,5) nn le that by simp_all
  have shares: "sum_list (map (\<lambda>x. fair_share d totalPulse (pn_pulseAmount x)) ps) = d * 10 ^ 7"
    using fair_share_sum [of d totalPulse ps] pos by (simp add: ps(2))
  have "sum_list (map snd (pt_paid p)) \<le> sum_list (map (\<lambda>x. patron_stroops d totalPulse (pn_pulseAmount x)) ps)"
    using pay_patrons_total [of ps d totalPulse env 0] fixed unfolding p by (simp cong: map_cong)
  then have "(of_int (sum_list (map snd (pt_paid p))) :: rat)
      \<le> sum_list (map (\<lambda>x. of_int (patron_stroops d totalPulse (pn_pulseAmount x))) ps)"
    by (metis of_int_le_iff rat_sum_list)
  also have "\<dots> \<le> sum_list (map (\<lambda>x. fair_share d totalPulse (pn_pulseAmount x) * (1 + 1 / 2 ^ 51)) ps)"
    using near(2) nn le by (intro sum_list_mono) simp
  also have "\<dots> = d * 10 ^ 7 * (1 + 1 / 2 ^ 51)"
    by (simp only: sum_list_mult_const shares)
  also have "\<dots> < d * 10 ^ 7 + 1" using assms(4) by (simp add: algebra_simps)
  finally have total: "of_int (sum_list (map snd (pt_paid p))) < d * 10 ^ 7 + 1" .
  have each: "\<exists>x \<in> set (dw_patrons w). active_patron talosId key x \<and>
       \<bar>of_int v - d * 10 ^ 7 * of_int (pn_pulseAmount x) / of_int (total_pulse (active_patrons talosId (dw_patrons w)))\<bar> < 2"
    if kv: "(key, v) \<in> set (pt_paid p)" for key v
  proof -
    obtain x where x: "x \<in> set ps" "key = pn_stellarPublicKey x" "v = patron_stroops d totalPulse (pn_pulseAmount x)"
      using kv pay_patrons_paid [of env d totalPulse 0 ps] fixed unfolding p by fastforce
    let ?s = "fair_share d totalPulse (pn_pulseAmount x)"
    have "?s - 2 < of_int v" "of_int v \<le> ?s * (1 + 1 / 2 ^ 51)" "?s < 2 ^ 51"
      using near(2,3,4) nn le x by simp_all
    then have "\<bar>of_int v - ?s\<bar> < 2" by (simp add: algebra_simps abs_less_iff)
    then show ?thesis
      using x by (auto simp: ps(1,2) active_patrons_def active_patron_def of_wallet_def fair_share_def intro!: bexI [where x = x])
  qed
  show ?thesis using total each plan_ok [OF plan] by blast
qed

section \<open>Distribution ids\<close>

type_synonym distribute_call = "dividend_env \<times> string \<times> distribute_request"

fun distribute_step :: "distribute_call \<Rightarrow> dividend_world \<Rightarrow> dividend_world" where
  "distribute_step (env, talosId, q) w = fst (distribute env (\<lambda>w. w) talosId q w)"

lemma insert_dividend_Some:
  "insert_dividend r w = Some w' \<Longrightarrow> w' = w\<lparr>dw_dividends := dw_dividends w @ [r]\<rparr> \<and>
     (dd_distributionId r \<noteq> None \<longrightarrow> (\<forall>x \<in> set (dw_dividends w). dd_distributionId x \<noteq> dd_distributionId r))"
  by (auto simp: insert_dividend_def list_ex_iff split: if_splits)

lemma record_appends:
  "\<exists>rs. fst (record_distribution env i d totalPulse p w) = w\<lparr>dw_dividends := dw_dividends w @ rs\<rparr>"
proof -
  have "\<exists>rs. coalesce (insert_dividend r w) w = w\<lparr>dw_dividends := dw_dividends w @ rs\<rparr>" for r
    using insert_dividend_Some [of r w] by (cases "insert_dividend r w") (auto intro: exI [where x = "[]"])
  then show ?thesis
    using insert_dividend_Some [of "paid_dividend env i d totalPulse p" w]
    by (auto simp: record_distribution_def Let_def intro: exI [where x = "[]"] split: option.splits)
qed

lemma record_paid: "dw_paid (fst (record_distribution env i d totalPulse p w)) = dw_paid w"
  using record_appends [of env i d totalPulse p w] by auto

lemma step_dividends: "\<exists>rs. dw_dividends (distribute_step c w) = dw_dividends w @ rs"
proof (cases c)
  case (fields env i q)
  show ?thesis
  proof (cases "distribution_plan env i q w")
    case (Inl r)
    then show ?thesis by (simp add: fields distribute_def)
  next
    case (Inr a)
    obtain d totalPulse ps where a: "a = (d, totalPulse, ps)" by (cases a)
    let ?p = "pay_patrons env d totalPulse 0 ps"
    show ?thesis
      using record_appends [of env i "distribute_id env q" totalPulse ?p "w\<lparr>dw_paid := dw_paid w @ pt_paid ?p\<rparr>"]
      by (auto simp: fields distribute_def Inr a Let_def split: prod.splits)
  qed
qed

lemma steps_dividends: "\<exists>rs. dw_dividends (fold distribute_step cs w) = dw_dividends w @ rs"
proof (induction cs arbitrary: w)
  case (Cons c cs)
  then show ?case using step_dividends [of c w] by (metis append_assoc fold_simps(2))
qed simp

lemma recorded_row:
  assumes "distribute env during i q w = (w', Distributed (Some record) d p)"
  shows "\<exists>r. distribution_of i (distribute_id env q) w' = Some r \<and> dd_breakdown r = pt_transfers p"
proof -
  let ?id = "distribute_id env q"
  obtain totalPulse ps where plan: "distribution_plan env i q w = Inr (d, totalPulse, ps)"
    and p: "p = pay_patrons env d totalPulse 0 ps"
    and stored: "record_distribution env i ?id totalPulse p (during (w\<lparr>dw_paid := dw_paid w @ pt_paid p\<rparr>)) = (w', Some record)"
    using assms plan_not_done by (fastforce simp: distribute_def Let_def split: sum.splits prod.splits)
  let ?w = "during (w\<lparr>dw_paid := dw_paid w @ pt_paid p\<rparr>)" and ?r = "paid_dividend env i ?id totalPulse p"
  have "insert_dividend ?r ?w = Some w'"
    using stored by (auto simp: record_distribution_def Let_def split: if_splits option.splits)
  then have w': "w' = ?w\<lparr>dw_dividends := dw_dividends ?w @ [?r]\<rparr>"
    and fresh: "\<forall>x \<in> set (dw_dividends ?w). dd_distributionId x \<noteq> Some ?id"
    using insert_dividend_Some [of ?r ?w w'] by (simp_all add: paid_dividend_def)
  have "sel_one (\<lambda>r. dd_talosId r = i \<and> dd_distributionId r = Some ?id) (dw_dividends ?w) = None"
    using fresh by (auto simp: find_None_iff)
  then have "distribution_of i ?id w' = Some ?r"
    by (simp add: w' distribution_of_def find_append) (simp add: paid_dividend_def)
  then show ?thesis by (simp add: paid_dividend_def)
qed

text \<open>C8.
  Once a distribution is on record, its id pays no more: after any later requests, repeating it leaves
  everything as it is and answers with the transfers of the first time, or refuses.\<close>

theorem recorded_distribution_pays_once:
  assumes "distribute env during i q w = (w', Distributed (Some record) d p)" "distribute_id env2 q2 = distribute_id env q"
  shows "fst (distribute env2 during2 i q2 (fold distribute_step cs w')) = fold distribute_step cs w' \<and>
    (case snd (distribute env2 during2 i q2 (fold distribute_step cs w')) of
       Already_executed r \<Rightarrow> dd_breakdown r = pt_transfers p | Not_distributed _ _ \<Rightarrow> True | Distributed _ _ _ \<Rightarrow> False)"
proof -
  let ?w = "fold distribute_step cs w'" and ?id = "distribute_id env q"
  obtain r where r: "distribution_of i ?id w' = Some r" "dd_breakdown r = pt_transfers p" using recorded_row [OF assms(1)] by blast
  obtain rs where "dw_dividends ?w = dw_dividends w' @ rs" using steps_dividends by blast
  then have later: "distribution_of i (distribute_id env2 q2) ?w = Some r"
    using r(1) by (simp add: assms(2) distribution_of_def find_append)
  have "\<exists>x. distribution_plan env2 i q2 ?w = Inl x \<and> (x = Already_executed r \<or> (\<exists>s m. x = Not_distributed s m))"
    by (simp add: distribution_plan_def later split: option.split)
  then show ?thesis using r(2) by (auto simp: distribute_def)
qed

section \<open>Samples\<close>

definition div_patron :: "string \<Rightarrow> string \<Rightarrow> int \<Rightarrow> patron" where
  "div_patron i key pulse = \<lparr>pn_id = i, pn_talosId = ''t1'', pn_stellarPublicKey = key, pn_role = ''Investor'', pn_pulseAmount = pulse,
     pn_share = 0, pn_status = ''active'', pn_createdAt = 0\<rparr>"

definition div_start :: dividend_world where
  "div_start = \<lparr>dw_tokens = [gov_token], dw_patrons = [div_patron ''p1'' ''GA1'' 3, div_patron ''p2'' ''GB1'' 1],
     dw_revenues = [\<lparr>rv_talosId = ''t1'', rv_amount = ''400.000000'', rv_currency = ''USDC'', rv_source = ''commerce'', rv_txHash = None\<rparr>],
     dw_dividends = [], dw_paid = []\<rparr>"

definition div_env :: "string \<Rightarrow> bool \<Rightarrow> dividend_env" where
  "div_env i accepted = \<lparr>dx_operator = ''GOP'', dx_env = (\<lambda>_. Some ''secret''),
     dx_send = (\<lambda>n key v. if accepted then (True, Inr (''h'' @ key)) else (False, Inl ''op_no_trust'')),
     dx_newDistribution = ''new'' @ i, dx_newId = i, dx_now = 9\<rparr>"

definition div_request :: "string option \<Rightarrow> distribute_request" where
  "div_request i = \<lparr>dt_requesterPublicKey = Some ''GC'', dt_distributionId = i\<rparr>"

definition div_reply :: "distribute_reply \<Rightarrow> string" where
  "div_reply r = (case r of Not_distributed _ m \<Rightarrow> m | Already_executed x \<Rightarrow> ''already '' @ dd_status x
     | Distributed None _ _ \<Rightarrow> ''unrecorded'' | Distributed (Some i) _ _ \<Rightarrow> i)"

lemma div_values:
  "\<not> is_dust (patron_amount 100 4 3)" "\<not> is_dust (patron_amount 100 4 1)"
  "to_fixed 7 (patron_amount 100 4 3) = 750000000" "to_fixed 7 (patron_amount 100 4 1) = 250000000"
  "0 < dbl (dbl (patron_amount 100 4 3) + patron_amount 100 4 1)"
  by code_simp+

lemma div_revenue:
  "distributable_amount (total_revenue ''t1'' (dw_revenues div_start)) 25 = 100"
  "0 < total_revenue ''t1'' (dw_revenues div_start)"
  by code_simp+

lemma div_column: "int_column 4 = Some 4"
  by code_simp

lemma div_plan:
  "distribution_plan (div_env i a) ''t1'' (div_request d) div_start = Inr (100, 4, dw_patrons div_start)"
proof -
  have "active_patrons ''t1'' (dw_patrons div_start) = dw_patrons div_start" "total_pulse (dw_patrons div_start) = 4"
    "dw_patrons div_start \<noteq> []" "dw_tokens div_start = [gov_token]" "dw_dividends div_start = []"
    by (simp_all add: active_patrons_def total_pulse_def div_start_def div_patron_def)
  moreover have "find_token ''t1'' [gov_token] = Some gov_token" "tt_investorShare gov_token = 25" "tt_creatorPublicKey gov_token = Some ''GC''"
    by (simp_all add: find_token_def gov_token_def)
  ultimately show ?thesis
    using div_revenue by (simp add: distribution_plan_def distribution_of_def div_request_def div_env_def not_le [symmetric])
qed

definition div_payments :: payments where
  "div_payments = pay_patrons (div_env ''d1'' True) 100 4 0 (dw_patrons div_start)"

lemma div_paid: "pt_paid div_payments = [(''GA1'', 750000000), (''GB1'', 250000000)]" "pt_errors div_payments = []"
  "distributed_total (pt_transfers div_payments) > 0" "pt_transfers div_payments \<noteq> []"
  using div_values by (simp_all add: div_payments_def div_start_def div_patron_def div_env_def distributed_total_def Let_def)

definition div_after :: dividend_world where
  "div_after = fst (distribute (div_env ''d1'' True) (\<lambda>w. w) ''t1'' (div_request (Some ''x'')) div_start)"

lemma div_run:
  "distribute (div_env ''d1'' True) (\<lambda>w. w) ''t1'' (div_request (Some ''x'')) div_start =
     (div_after, Distributed (Some ''d1'') 100 div_payments)"
proof -
  have dw: "dw_dividends div_start = []" by (simp add: div_start_def)
  have "snd (distribute (div_env ''d1'' True) (\<lambda>w. w) ''t1'' (div_request (Some ''x'')) div_start) =
      Distributed (Some ''d1'') 100 div_payments"
    using div_paid div_column
    by (simp add: distribute_def div_plan record_distribution_def insert_dividend_def dw paid_dividend_def Let_def
        split_beta div_env_def [THEN arg_cong [where f = dx_newId]] flip: div_payments_def)
  then show ?thesis by (simp add: div_after_def prod_eq_iff)
qed

theorem dividends_within_share_witness:
  "of_int (sum_list (map snd (pt_paid div_payments))) < (100 :: rat) * 10 ^ 7 + 1 \<and>
   map snd (pt_paid div_payments) = [750000000, 250000000]"
proof -
  have "\<forall>x \<in> set (dw_patrons div_start). 0 \<le> pn_pulseAmount x" by (simp add: div_start_def div_patron_def)
  then show ?thesis using dividends_within_share [OF div_run] div_paid(1) by simp
qed

theorem recorded_distribution_pays_once_witness:
  "fst (distribute (div_env ''d2'' True) (\<lambda>w. w) ''t1'' (div_request (Some ''x'')) div_after) = div_after"
proof -
  have "distribute_id (div_env ''d2'' True) (div_request (Some ''x'')) = distribute_id (div_env ''d1'' True) (div_request (Some ''x''))"
    by (simp add: distribute_id_def div_request_def)
  from recorded_distribution_pays_once [OF div_run this, of "\<lambda>w. w" "[]"] show ?thesis by simp
qed

section \<open>What is not prevented\<close>

text \<open>Revenue is never marked as shared out: under a fresh id the same plan is paid again, in full.\<close>

lemma dividends_paid_again:
  assumes "distribution_plan env talosId q w = Inr plan" "w' = fst (distribute env (\<lambda>w. w) talosId q w)"
    "ds = distribute_id env2 q2" "distribution_of talosId ds w' = None"
    "dt_requesterPublicKey q2 = dt_requesterPublicKey q" "dx_operator env2 = dx_operator env" "dx_env env2 = dx_env env"
  shows "distribution_plan env2 talosId q2 w' = Inr plan"
proof -
  obtain d totalPulse ps where plan: "plan = (d, totalPulse, ps)" by (cases plan)
  let ?p = "pay_patrons env d totalPulse 0 ps"
  obtain rs where "w' = w\<lparr>dw_paid := dw_paid w @ pt_paid ?p, dw_dividends := dw_dividends w @ rs\<rparr>"
    using assms(2) record_appends [of env talosId "distribute_id env q" totalPulse ?p "w\<lparr>dw_paid := dw_paid w @ pt_paid ?p\<rparr>"]
    by (auto simp: distribute_def assms(1) plan Let_def split: prod.splits)
  then show ?thesis
    using assms(1,4) unfolding assms(3)
    by (auto simp: distribution_plan_def assms(5-7) Let_def split: if_splits option.splits)
qed

text \<open>Payments stay unrecorded when another agent's record has the id, or when the holdings of the patrons
  add up to more than the column takes; repeating the request then pays again.\<close>

lemma unrecorded_payments:
  assumes "(\<exists>x \<in> set (dw_dividends w). dd_distributionId x = Some d) \<or> 2 ^ 31 \<le> totalPulse"
  shows "record_distribution env talosId d totalPulse p w = (w, None)"
proof -
  have "insert_dividend r w = None" if "dd_distributionId r = Some d" "dd_totalPulse r = totalPulse" for r
    using assms that by (auto simp: insert_dividend_def list_ex_iff int_column_def Let_def)
  then show ?thesis by (simp add: record_distribution_def paid_dividend_def failed_dividend_def)
qed

text \<open>A distribution of which no payment went through cannot be tried again under its id.\<close>

lemma failed_distribution_blocks:
  assumes "pt_transfers p = []" "pt_errors p \<noteq> []" "record_distribution env talosId d totalPulse p w = (w', r)" "w' \<noteq> w"
    "distribution_of talosId d w = None"
  shows "map_option dd_status (distribution_of talosId d w') = Some ''failed''"
proof -
  let ?r = "failed_dividend env talosId d totalPulse (js_join '', '' (map snd (pt_errors p)))"
  have "w' = coalesce (insert_dividend ?r w) w" using assms(1-3) by (simp add: record_distribution_def)
  then have "insert_dividend ?r w = Some w'" using assms(4) by (cases "insert_dividend ?r w") simp_all
  from insert_dividend_Some [OF this] have "w' = w\<lparr>dw_dividends := dw_dividends w @ [?r]\<rparr>" by blast
  then have rows: "dw_dividends w' = dw_dividends w @ [?r]" by simp
  have "dd_talosId ?r = talosId" "dd_distributionId ?r = Some d" "dd_status ?r = ''failed''"
    unfolding failed_dividend_def by simp_all
  then show ?thesis using assms(5) unfolding distribution_of_def rows find_append by simp
qed

text \<open>Two overlapping requests with one id both pay.\<close>

lemma overlapping_distributions_both_pay:
  "dw_paid (fst (distribute (div_env ''d1'' True)
     (\<lambda>w. w\<lparr>dw_paid := dw_paid w @ pt_paid (pay_patrons (div_env ''d2'' True) 100 4 0 (dw_patrons div_start))\<rparr>)
     ''t1'' (div_request (Some ''x'')) div_start)) =
   [(''GA1'', 750000000), (''GB1'', 250000000), (''GA1'', 750000000), (''GB1'', 250000000)]"
  "distribution_plan (div_env ''d2'' True) ''t1'' (div_request (Some ''x'')) div_start = Inr (100, 4, dw_patrons div_start)"
proof -
  have paid: "pt_paid (pay_patrons (div_env i True) 100 4 0 (dw_patrons div_start)) = [(''GA1'', 750000000), (''GB1'', 250000000)]" for i
    using div_values by (simp add: div_start_def div_patron_def div_env_def Let_def)
  have "dw_paid div_start = []" by (simp add: div_start_def)
  then show "dw_paid (fst (distribute (div_env ''d1'' True)
     (\<lambda>w. w\<lparr>dw_paid := dw_paid w @ pt_paid (pay_patrons (div_env ''d2'' True) 100 4 0 (dw_patrons div_start))\<rparr>)
     ''t1'' (div_request (Some ''x'')) div_start)) =
   [(''GA1'', 750000000), (''GB1'', 250000000), (''GA1'', 750000000), (''GB1'', 250000000)]"
    by (simp add: distribute_def div_plan Let_def split_beta record_paid paid)
qed (rule div_plan)

text \<open>Pulse nobody holds draws dividends: with the registration of \<open>unheld_pulse_accepted\<close> the wallet's
  part is more than nine tenths.\<close>

lemma unheld_pulse_draws_dividends:
  "to_fixed 7 (patron_amount 100 (total_pulse [gov_creator, div_patron ''p1'' ''GW'' 9000000]) 9000000) = 937500000"
  by code_simp

end
