(* ===== verification/Token_Sales.thy ===== *)
theory Token_Sales
  imports Patronage Job_Orders
begin

text \<open>
  Buying an agent's tokens, web/src/app/api/talos/[id]/buy-token/route.ts: the purchase row that claims
  the buyer's payment, its verification on the ledger, the transfer of tokens, and the transaction that
  enters patron, revenue and the completed purchase.

  Horizon, the transfer and parseFloat are parameters.  \<open>se_between n\<close> is what other requests do in the
  n-th gap: before the claim (0), before the transfer (1), before the patron is read (2), before the
  transaction (3).  The transaction is one step, \<open>se_commits\<close> tells whether its retries succeed.
\<close>

section \<open>Tables\<close>

datatype patron_status = Status_registered | Status_updated | Status_pending rat string

record sale_body =
  sl_txHash :: string
  sl_mitosTxHash :: "string option"
  sl_tokenSymbol :: string
  sl_amount :: rat
  sl_totalCost :: rat
  sl_buyerPublicKey :: string
  sl_totalPulseHeld :: rat
  sl_patronStatus :: patron_status

record purchase =
  ph_txHash :: string
  ph_talosId :: string
  ph_buyerPublicKey :: string
  ph_amount :: int
  ph_totalCost :: string
  ph_status :: string
  ph_responseBody :: "sale_body option"

text \<open>An attempt to send tokens: for which payment, and whether the caller saw it succeed.\<close>

record token_send =
  tk_txHash :: string
  tk_buyer :: string
  tk_asset :: "string \<times> string"
  tk_amount :: rat
  tk_applied :: bool
  tk_confirmed :: bool

record sale_world =
  sw_tokens :: "talos_token list"
  sw_patrons :: "patron list"
  sw_revenues :: "revenue list"
  sw_purchases :: "purchase list"
  sw_txs :: "tx_record list"
  sw_sends :: "token_send list"

record horizon_tx =
  hz_successful :: bool
  hz_source_account :: string
  hz_envelope :: "(string \<times> payment_op list) option"  \<comment> \<open>source and operations; \<open>None\<close>: cannot be read\<close>

record sale_env =
  se_operator :: string
  se_issuer :: string
  se_env :: environment
  se_horizon :: "string \<Rightarrow> horizon_tx option"
  se_parseFloat :: "string \<Rightarrow> rat option"
  se_load :: "string \<Rightarrow> balance_line list option"
  se_send :: "string \<Rightarrow> string \<times> string \<Rightarrow> rat \<Rightarrow> bool \<times> string option"
  se_between :: "nat \<Rightarrow> sale_world \<Rightarrow> sale_world"
  se_commits :: bool
  se_newPatronId :: string
  se_newTxId :: string
  se_now :: instant

record sale_request =
  sq_buyerPublicKey :: "string option"
  sq_amount :: "rat option"  \<comment> \<open>\<open>None\<close>: missing or not a number\<close>
  sq_txHash :: "string option"

datatype sale_reply = Sale_refused int string | Sale_replayed sale_body | Sold sale_body

section \<open>The claim\<close>

definition total_cost :: "rat \<Rightarrow> string \<Rightarrow> rat" where
  "total_cost amount price =
     dbl (of_int (js_round (dbl (dbl (amount * dbl (numeric_value price)) * 10 ^ 6))) / 10 ^ 6)"

definition sale_guards :: "string \<Rightarrow> sale_request \<Rightarrow> sale_world \<Rightarrow> http_error + (talos_token \<times> string \<times> rat \<times> string)" where
  "sale_guards talosId q w =
     (if \<not> truthy_str (sq_buyerPublicKey q) then Inl (400, ''buyerPublicKey is required'')
      else if (case sq_amount q of None \<Rightarrow> True | Some x \<Rightarrow> x \<le> 0) then Inl (400, ''amount must be a positive number'')
      else if \<not> truthy_str (sq_txHash q) then Inl (400, ''txHash is required'')
      else case find_token talosId (sw_tokens w) of
        None \<Rightarrow> Inl (404, ''TALOS not found'')
      | Some t \<Rightarrow>
          if dbl (numeric_value (tt_pulsePrice t)) \<le> 0 then Inl (400, ''Token is not available for purchase'')
          else Inr (t, the (sq_buyerPublicKey q), the (sq_amount q), the (sq_txHash q)))"

definition find_purchase :: "string \<Rightarrow> sale_world \<Rightarrow> purchase option" where
  "find_purchase h w = sel_one (\<lambda>r. ph_txHash r = h) (sw_purchases w)"

definition set_purchase :: "string \<Rightarrow> (purchase \<Rightarrow> purchase) \<Rightarrow> sale_world \<Rightarrow> sale_world" where
  "set_purchase h f w = w\<lparr>sw_purchases := upd (\<lambda>r. ph_txHash r = h) f (sw_purchases w)\<rparr>"

definition mark_failed :: "string \<Rightarrow> sale_world \<Rightarrow> sale_world" where
  "mark_failed h w = set_purchase h (\<lambda>r. r\<lparr>ph_status := ''failed''\<rparr>) w"

definition IN_PROGRESS :: sale_reply where
  "IN_PROGRESS = Sale_refused 409 ''Purchase is already in progress for this transaction''"

text \<open>What an existing row answers; \<open>None\<close>: go on.\<close>

definition replay_purchase :: "purchase option \<Rightarrow> sale_reply option" where
  "replay_purchase existing =
     (case existing of
        None \<Rightarrow> None
      | Some r \<Rightarrow>
          if ph_status r = ''completed'' \<and> ph_responseBody r \<noteq> None then Some (Sale_replayed (the (ph_responseBody r)))
          else if ph_status r = ''pending'' then Some IN_PROGRESS
          else None)"

text \<open>The claim, on the world the other requests left.\<close>

definition claim_purchase ::
  "purchase option \<Rightarrow> string \<Rightarrow> string \<Rightarrow> rat \<Rightarrow> rat \<Rightarrow> string \<Rightarrow> sale_world \<Rightarrow> sale_reply + sale_world" where
  "claim_purchase existing talosId buyer amount cost h w =
     (case existing of
        Some _ \<Rightarrow> Inr (set_purchase h (\<lambda>r. r\<lparr>ph_status := ''pending'', ph_responseBody := None\<rparr>) w)
      | None \<Rightarrow>
          (case (int_column amount, numeric6 cost) of
             (Some n, Some costText) \<Rightarrow>
               if find_purchase h w \<noteq> None then Inl IN_PROGRESS
               else Inr (w\<lparr>sw_purchases := sw_purchases w @
                      [\<lparr>ph_txHash = h, ph_talosId = talosId, ph_buyerPublicKey = buyer, ph_amount = n, ph_totalCost = costText,
                        ph_status = ''pending'', ph_responseBody = None\<rparr>]\<rparr>)
           | _ \<Rightarrow> Inl (Sale_refused 500 ''Internal server error'')))"

section \<open>Verification and transfer\<close>

definition covers :: "sale_env \<Rightarrow> talos_token \<Rightarrow> rat \<Rightarrow> payment_op \<Rightarrow> bool" where
  "covers env t cost op \<longleftrightarrow>
     po_type op = ''payment'' \<and> po_asset op = Some (''USDC'', se_issuer env) \<and>
     coalesce (po_destination op) [] \<in>
       set (se_operator env # (if truthy_str (tt_agentWalletAddress t) then [the (tt_agentWalletAddress t)] else [])) \<and>
     (case se_parseFloat env (coalesce (po_amount op) ''0'') of
        None \<Rightarrow> False | Some paid \<Rightarrow> \<bar>dbl (paid - cost)\<bar> \<le> dbl (1 / 10 ^ 6))"

text \<open>\<open>None\<close>: the payment is accepted.\<close>

definition verify_purchase :: "sale_env \<Rightarrow> talos_token \<Rightarrow> string \<Rightarrow> rat \<Rightarrow> string \<Rightarrow> http_error option" where
  "verify_purchase env t buyer cost h =
     (case se_horizon env h of
        None \<Rightarrow> Some (400, ''Transaction not found on Stellar network'')
      | Some tx \<Rightarrow>
          if \<not> hz_successful tx then Some (400, ''Transaction was not successful on-chain'')
          else case hz_envelope tx of
            None \<Rightarrow> Some (400, ''Failed to verify transaction details'')
          | Some (src, ops) \<Rightarrow>
              if src \<noteq> buyer \<and> hz_source_account tx \<noteq> buyer
              then Some (400, ''Transaction signer does not match buyerPublicKey'')
              else if \<not> list_ex (covers env t cost) ops then Some (400, ''No matching USDC payment found in transaction'')
              else if \<not> ai_exists (getAccountInfo (se_load env) (se_issuer env) buyer)
              then Some (400, ''Stellar account '' @ buyer @ '' does not exist'')
              else None)"

text \<open>The token's code and issuer, when there is a transfer to make.\<close>

definition token_asset :: "sale_env \<Rightarrow> talos_token \<Rightarrow> (string \<times> string) option" where
  "token_asset env t =
     (case tt_stellarAssetCode t of
        None \<Rightarrow> None
      | Some c \<Rightarrow>
          (case js_split (CHR '':'') c of
             code # issuer # _ \<Rightarrow> if truthy_str (se_env env ''STELLAR_OPERATOR_SECRET_KEY'') then Some (code, issuer) else None
           | _ \<Rightarrow> None))"

text \<open>\<open>Inl\<close>: the transfer failed, as far as the caller can see.\<close>

definition send_tokens ::
  "sale_env \<Rightarrow> talos_token \<Rightarrow> string \<Rightarrow> rat \<Rightarrow> string \<Rightarrow> sale_world \<Rightarrow> sale_world + (sale_world \<times> string option)" where
  "send_tokens env t buyer amount h w =
     (case token_asset env t of
        None \<Rightarrow> Inr (w, None)
      | Some asset \<Rightarrow>
          let (applied, answer) = se_send env buyer asset amount;
              w' = w\<lparr>sw_sends := sw_sends w @ [\<lparr>tk_txHash = h, tk_buyer = buyer, tk_asset = asset, tk_amount = amount,
                       tk_applied = applied, tk_confirmed = (answer \<noteq> None)\<rparr>]\<rparr>
          in case answer of None \<Rightarrow> Inl w' | Some hash \<Rightarrow> Inr (w', Some hash))"

section \<open>The transaction\<close>

definition DEFAULT_MIN_PATRON :: int where "DEFAULT_MIN_PATRON = 100"

definition buyer_patron :: "string \<Rightarrow> string \<Rightarrow> sale_world \<Rightarrow> patron option" where
  "buyer_patron talosId buyer w = sel_one (of_wallet talosId buyer) (sw_patrons w)"

text \<open>What the buyer will hold, as the row the request read says.\<close>

definition new_pulse :: "patron option \<Rightarrow> rat \<Rightarrow> rat" where
  "new_pulse existing amount = dbl (of_int (case existing of None \<Rightarrow> 0 | Some p \<Rightarrow> pn_pulseAmount p) + amount)"

definition becomes_patron :: "talos_token \<Rightarrow> rat \<Rightarrow> bool" where
  "becomes_patron t pulse \<longleftrightarrow> pulse \<ge> of_int (coalesce (tt_minPatronPulse t) DEFAULT_MIN_PATRON)"

definition sale_response ::
  "talos_token \<Rightarrow> patron option \<Rightarrow> string \<Rightarrow> rat \<Rightarrow> rat \<Rightarrow> string \<Rightarrow> string option \<Rightarrow> sale_body" where
  "sale_response t existing buyer amount cost h mitosTxHash =
     (let pulse = new_pulse existing amount; symbol = coalesce (tt_tokenSymbol t) ''MITOS'';
          minForPatron = of_int (coalesce (tt_minPatronPulse t) DEFAULT_MIN_PATRON)
      in \<lparr>sl_txHash = h, sl_mitosTxHash = mitosTxHash, sl_tokenSymbol = symbol, sl_amount = amount, sl_totalCost = cost,
          sl_buyerPublicKey = buyer, sl_totalPulseHeld = pulse,
          sl_patronStatus = (if becomes_patron t pulse then (if existing \<noteq> None then Status_updated else Status_registered)
                             else Status_pending (dbl (minForPatron - pulse)) symbol)\<rparr>)"

text \<open>\<open>None\<close>: a statement fails.\<close>

definition upsert_patron ::
  "sale_env \<Rightarrow> talos_token \<Rightarrow> string \<Rightarrow> patron option \<Rightarrow> string \<Rightarrow> rat \<Rightarrow> patron list \<Rightarrow> patron list option" where
  "upsert_patron env t talosId existing buyer pulse ps =
     (case existing of
        Some p \<Rightarrow>
          map_option (\<lambda>n. upd (\<lambda>x. pn_id x = pn_id p) (\<lambda>x. x\<lparr>pn_pulseAmount := n\<rparr>) ps) (int_column pulse)
      | None \<Rightarrow>
          if \<not> becomes_patron t pulse then Some ps
          else (case int_column pulse of
                  None \<Rightarrow> None
                | Some n \<Rightarrow>
                    insert_patron \<lparr>pn_id = se_newPatronId env, pn_talosId = talosId, pn_stellarPublicKey = buyer,
                      pn_role = ''patron'', pn_pulseAmount = n, pn_share = 0, pn_status = ''active'', pn_createdAt = se_now env\<rparr> ps))"

definition commit_sale ::
  "sale_env \<Rightarrow> talos_token \<Rightarrow> string \<Rightarrow> patron option \<Rightarrow> string \<Rightarrow> rat \<Rightarrow> rat \<Rightarrow> string \<Rightarrow> sale_body
     \<Rightarrow> sale_world \<Rightarrow> sale_world option" where
  "commit_sale env t talosId existing buyer amount cost h body w =
     (case (upsert_patron env t talosId existing buyer (new_pulse existing amount) (sw_patrons w), numeric6 cost) of
        (Some ps, Some costText) \<Rightarrow>
          if \<not> se_commits env then None
          else Some (set_purchase h (\<lambda>r. r\<lparr>ph_status := ''completed'', ph_responseBody := Some body\<rparr>)
                 (w\<lparr>sw_patrons := ps,
                    sw_revenues := sw_revenues w @ [\<lparr>rv_talosId = talosId, rv_amount = costText, rv_currency = ''USDC'',
                      rv_source = ''token_sale'', rv_txHash = Some h\<rparr>]\<rparr>))
      | _ \<Rightarrow> None)"

definition track_sale :: "sale_env \<Rightarrow> string \<Rightarrow> sale_world \<Rightarrow> sale_world" where
  "track_sale env h w =
     (case registerTx (se_now env) (se_newTxId env)
             \<lparr>ro_txHash = h, ro_sourceType = TokenPurchase, ro_sourceId = Some h, ro_ledgerSubmitted = None,
              ro_expiresAt = Some (se_now env + 2 * 60 * 60 * 1000)\<rparr> (sw_txs w) of
        Inl _ \<Rightarrow> w | Inr (t, _) \<Rightarrow> w\<lparr>sw_txs := t\<rparr>)"

section \<open>The route\<close>

text \<open>From the accepted payment on.\<close>

definition deliver_sale ::
  "sale_env \<Rightarrow> string \<Rightarrow> talos_token \<Rightarrow> string \<Rightarrow> rat \<Rightarrow> rat \<Rightarrow> string \<Rightarrow> sale_world \<Rightarrow> sale_world \<times> sale_reply" where
  "deliver_sale env talosId t buyer amount cost h w =
     (case send_tokens env t buyer amount h w of
        Inl w1 \<Rightarrow> (mark_failed h w1, Sale_refused 500 ''Failed to send Mitos tokens to buyer. Purchase cancelled.'')
      | Inr (w1, mitosTxHash) \<Rightarrow>
          let w2 = se_between env 2 w1; existing = buyer_patron talosId buyer w2;
              body = sale_response t existing buyer amount cost h mitosTxHash;
              w3 = se_between env 3 w2
          in case commit_sale env t talosId existing buyer amount cost h body w3 of
               None \<Rightarrow> (w3, Sale_refused 500 ''Internal server error'')
             | Some w4 \<Rightarrow> (track_sale env h w4, Sold body))"

definition buy_tokens :: "sale_env \<Rightarrow> string \<Rightarrow> sale_request \<Rightarrow> sale_world \<Rightarrow> sale_world \<times> sale_reply" where
  "buy_tokens env talosId q w =
     (case sale_guards talosId q w of
        Inl (status, message) \<Rightarrow> (w, Sale_refused status message)
      | Inr (t, buyer, amount, h) \<Rightarrow>
          let cost = total_cost amount (tt_pulsePrice t); existing = find_purchase h w
          in case replay_purchase existing of
               Some r \<Rightarrow> (w, r)
             | None \<Rightarrow>
                 (case claim_purchase existing talosId buyer amount cost h (se_between env 0 w) of
                    Inl r \<Rightarrow> (se_between env 0 w, r)
                  | Inr w1 \<Rightarrow>
                      (case verify_purchase env t buyer cost h of
                         Some (status, message) \<Rightarrow> (mark_failed h (se_between env 1 w1), Sale_refused status message)
                       | None \<Rightarrow> deliver_sale env talosId t buyer amount cost h (se_between env 1 w1))))"

end
