(* ===== verification/Single_Payment.thy ===== *)
theory Single_Payment
  imports Prelude
begin

text \<open>
  The contract of a payment that is claimed before it is made: under a key that is settled nothing is
  paid, and an open key is paid at most once, settling it.  Requests without a key make no claim.
  The components that pay interpret it on their own handlers.
\<close>

locale single_payment =
  fixes settled :: "'s \<Rightarrow> 'k \<Rightarrow> bool"
    and paid :: "'s \<Rightarrow> 'k \<Rightarrow> nat"
    and step :: "'a \<Rightarrow> 's \<Rightarrow> 's"
    and key :: "'a \<Rightarrow> 'k option"
  assumes other_key: "key a \<noteq> Some k \<Longrightarrow> settled (step a s) k = settled s k \<and> paid (step a s) k = paid s k"
    and settled_key: "key a = Some k \<Longrightarrow> settled s k \<Longrightarrow> settled (step a s) k \<and> paid (step a s) k = paid s k"
    and open_key: "key a = Some k \<Longrightarrow> \<not> settled s k \<Longrightarrow>
      paid (step a s) k = paid s k \<or> (paid (step a s) k = Suc (paid s k) \<and> settled (step a s) k)"
begin

definition paid_ok :: "'s \<Rightarrow> bool" where
  "paid_ok s \<longleftrightarrow> (\<forall>k. paid s k \<le> (if settled s k then 1 else 0))"

lemma step_paid_ok:
  assumes "paid_ok s"
  shows "paid_ok (step a s)"
proof (unfold paid_ok_def, intro allI)
  fix k
  have "paid s k \<le> (if settled s k then 1 else 0)" using assms by (simp add: paid_ok_def)
  then show "paid (step a s) k \<le> (if settled (step a s) k then 1 else 0)"
    using other_key [of a k s] settled_key [of a k s] open_key [of a k s]
    by (cases "key a = Some k"; cases "settled s k") (auto split: if_splits)
qed

lemma run_paid_ok: "paid_ok s \<Longrightarrow> paid_ok (fold step as s)"
  by (induction as arbitrary: s) (simp_all add: step_paid_ok)

lemma paid_once: "paid_ok s \<Longrightarrow> paid (fold step as s) k \<le> 1"
  using run_paid_ok [of s as] by (auto simp: paid_ok_def split: if_splits intro: order_trans dest: spec [of _ k])

lemma settled_stays: "settled s k \<Longrightarrow> settled (fold step as s) k \<and> paid (fold step as s) k = paid s k"
proof (induction as arbitrary: s)
  case (Cons a as)
  then have "settled (step a s) k \<and> paid (step a s) k = paid s k"
    using other_key [of a k s] settled_key [of a k s] by (cases "key a = Some k") simp_all
  then show ?case using Cons.IH by simp
qed simp

end

end
