(* ===== verification/Token_Sales_Facts.thy ===== *)
theory Token_Sales_Facts
  imports Token_Sales Single_Payment
begin

text \<open>
  What a token sale guarantees: tokens leave only against a verified payment and, with requests one after
  the other, once per payment; and what an unclear transfer, a lost transaction, overlapping retries and
  small purchases lead to.
\<close>

section \<open>One request at a time\<close>

type_synonym sale_call = "sale_env \<times> string \<times> sale_request"

fun sale_step :: "sale_call \<Rightarrow> sale_world \<Rightarrow> sale_world" where
  "sale_step (env, talosId, q) w = fst (buy_tokens (env\<lparr>se_between := \<lambda>_ w. w\<rparr>) talosId q w)"

fun sale_key :: "sale_call \<Rightarrow> string option" where
  "sale_key (env, talosId, q) = sq_txHash q"

definition sale_settled :: "sale_world \<Rightarrow> string \<Rightarrow> bool" where
  "sale_settled w h \<longleftrightarrow> replay_purchase (find_purchase h w) \<noteq> None"

definition confirmed_sends :: "sale_world \<Rightarrow> string \<Rightarrow> nat" where
  "confirmed_sends w h = length (filter (\<lambda>s. tk_txHash s = h \<and> tk_confirmed s) (sw_sends w))"

lemma sale_guards_ok:
  "sale_guards talosId q w = Inr (t, buyer, amount, h) \<Longrightarrow>
     sq_buyerPublicKey q = Some buyer \<and> sq_amount q = Some amount \<and> 0 < amount \<and> sq_txHash q = Some h \<and>
     find_token talosId (sw_tokens w) = Some t"
  by (auto simp: sale_guards_def truthy_str_def split: if_splits option.splits)

lemma find_set_purchase:
  assumes "\<And>r. ph_txHash (f r) = ph_txHash r"
  shows "find_purchase k (set_purchase h f w) = (if k = h then map_option f (find_purchase k w) else find_purchase k w)"
proof -
  have "List.find (\<lambda>r. ph_txHash r = k) (upd (\<lambda>r. ph_txHash r = h) f t) =
      (if k = h then map_option f (List.find (\<lambda>r. ph_txHash r = k) t) else List.find (\<lambda>r. ph_txHash r = k) t)" for t
    using assms by (induction t) auto
  then show ?thesis by (simp add: find_purchase_def set_purchase_def)
qed

lemma set_purchase_sends [simp]: "sw_sends (set_purchase h f w) = sw_sends w"
  by (simp add: set_purchase_def)

lemma mark_failed_find:
  "find_purchase k (mark_failed h w) = (if k = h then map_option (\<lambda>r. r\<lparr>ph_status := ''failed''\<rparr>) (find_purchase k w) else find_purchase k w)"
  unfolding mark_failed_def by (rule find_set_purchase) simp

lemma mark_failed_sends [simp]: "sw_sends (mark_failed h w) = sw_sends w"
  by (simp add: mark_failed_def)

lemma track_sale_frame [simp]: "find_purchase k (track_sale env h w) = find_purchase k w" "sw_sends (track_sale env h w) = sw_sends w"
  by (simp_all add: track_sale_def find_purchase_def split: sum.split)

lemma claim_find:
  assumes "claim_purchase existing talosId buyer amount cost h w = Inr w1" "existing = find_purchase h w"
  shows "sw_sends w1 = sw_sends w \<and> (\<exists>r. find_purchase h w1 = Some r \<and> ph_status r = ''pending'') \<and>
    (k \<noteq> h \<longrightarrow> find_purchase k w1 = find_purchase k w)"
proof (cases existing)
  case None
  then show ?thesis
    using assms by (auto simp: claim_purchase_def find_purchase_def find_append split: option.splits if_splits)
next
  case (Some r)
  then have "w1 = set_purchase h (\<lambda>r. r\<lparr>ph_status := ''pending'', ph_responseBody := None\<rparr>) w"
    using assms(1) by (simp add: claim_purchase_def)
  then show ?thesis using find_set_purchase [of "\<lambda>r. r\<lparr>ph_status := ''pending'', ph_responseBody := None\<rparr>"] Some assms(2)
    by (simp add: set_purchase_def)
qed

lemma commit_find:
  assumes "commit_sale env t talosId existing buyer amount cost h body w = Some w'"
  shows "sw_sends w' = sw_sends w \<and>
    find_purchase k w' = (if k = h then map_option (\<lambda>r. r\<lparr>ph_status := ''completed'', ph_responseBody := Some body\<rparr>) (find_purchase k w)
                          else find_purchase k w)"
proof -
  obtain ps c where "w' = set_purchase h (\<lambda>r. r\<lparr>ph_status := ''completed'', ph_responseBody := Some body\<rparr>)
      (w\<lparr>sw_patrons := ps, sw_revenues := sw_revenues w @ [c]\<rparr>)"
    using assms by (auto simp: commit_sale_def split: option.splits if_splits)
  then show ?thesis
    using find_set_purchase [of "\<lambda>r. r\<lparr>ph_status := ''completed'', ph_responseBody := Some body\<rparr>"] by (simp add: find_purchase_def)
qed

lemmas commit_sends = commit_find [where k = "[]", THEN conjunct1]

text \<open>The transfer: at most one attempt, for this payment.\<close>

lemma send_cases:
  obtains (none) "token_asset env t = None" "send_tokens env t buyer amount h w = Inr (w, None)"
  | (unclear) s where "send_tokens env t buyer amount h w = Inl (w\<lparr>sw_sends := sw_sends w @ [s]\<rparr>)"
      "tk_txHash s = h" "tk_buyer s = buyer" "tk_amount s = amount" "\<not> tk_confirmed s"
  | (sent) s hash where "send_tokens env t buyer amount h w = Inr (w\<lparr>sw_sends := sw_sends w @ [s]\<rparr>, Some hash)"
      "tk_txHash s = h" "tk_buyer s = buyer" "tk_amount s = amount" "tk_confirmed s"
proof (cases "token_asset env t")
  case None
  then show ?thesis using none by (simp add: send_tokens_def)
next
  case (Some asset)
  obtain applied answer where "se_send env buyer asset amount = (applied, answer)" by (cases "se_send env buyer asset amount")
  then have eq: "send_tokens env t buyer amount h w =
      (let w' = w\<lparr>sw_sends := sw_sends w @ [\<lparr>tk_txHash = h, tk_buyer = buyer, tk_asset = asset, tk_amount = amount,
           tk_applied = applied, tk_confirmed = (answer \<noteq> None)\<rparr>]\<rparr>
       in case answer of None \<Rightarrow> Inl w' | Some hash \<Rightarrow> Inr (w', Some hash))"
    by (simp add: send_tokens_def Some Let_def)
  show ?thesis
  proof (cases answer)
    case None
    show ?thesis by (rule unclear) (simp add: eq None Let_def, simp_all)
  next
    case (Some hash)
    show ?thesis by (rule sent) (simp add: eq Some Let_def, simp_all)
  qed
qed

lemma sends_find [simp]: "find_purchase k (w\<lparr>sw_sends := ss\<rparr>) = find_purchase k w"
  by (simp add: find_purchase_def)

lemma deliver_outcome:
  assumes "find_purchase h w = Some r" "ph_status r = ''pending''"
    and w'_def: "w' = fst (deliver_sale (env\<lparr>se_between := \<lambda>_ w. w\<rparr>) talosId t buyer amount cost h w)"
  shows "(k \<noteq> h \<longrightarrow> find_purchase k w' = find_purchase k w \<and> confirmed_sends w' k = confirmed_sends w k) \<and>
    (confirmed_sends w' h = confirmed_sends w h \<or> (confirmed_sends w' h = Suc (confirmed_sends w h) \<and> sale_settled w' h))"
proof -
  let ?env = "env\<lparr>se_between := \<lambda>_ w. w\<rparr>"
  have rest: "(k \<noteq> h \<longrightarrow> find_purchase k u = find_purchase k v \<and> confirmed_sends u k = confirmed_sends v k) \<and>
      confirmed_sends u h = confirmed_sends v h \<and> sale_settled u h"
    if "find_purchase h v = Some r" "u = (case commit_sale ?env t talosId e buyer amount cost h body v of None \<Rightarrow> v | Some x \<Rightarrow> track_sale ?env h x)"
    for u v e body
  proof (cases "commit_sale ?env t talosId e buyer amount cost h body v")
    case None
    then show ?thesis using that assms(2) by (simp add: sale_settled_def replay_purchase_def)
  next
    case (Some x)
    then show ?thesis
      using that commit_find [OF Some] by (simp add: sale_settled_def replay_purchase_def confirmed_sends_def)
  qed
  show ?thesis
  proof (cases rule: send_cases [of ?env t buyer amount h w])
    case none
    then have "w' = (case commit_sale ?env t talosId (buyer_patron talosId buyer w) buyer amount cost h
        (sale_response t (buyer_patron talosId buyer w) buyer amount cost h None) w of None \<Rightarrow> w | Some x \<Rightarrow> track_sale ?env h x)"
      by (simp add: w'_def deliver_sale_def Let_def split: option.split)
    then show ?thesis using rest [OF assms(1)] by blast
  next
    case (unclear s)
    then have "w' = mark_failed h (w\<lparr>sw_sends := sw_sends w @ [s]\<rparr>)" by (simp add: w'_def deliver_sale_def)
    then show ?thesis using unclear by (simp add: mark_failed_find confirmed_sends_def)
  next
    case (sent s hash)
    let ?w = "w\<lparr>sw_sends := sw_sends w @ [s]\<rparr>"
    have "w' = (case commit_sale ?env t talosId (buyer_patron talosId buyer ?w) buyer amount cost h
        (sale_response t (buyer_patron talosId buyer ?w) buyer amount cost h (Some hash)) ?w of None \<Rightarrow> ?w | Some x \<Rightarrow> track_sale ?env h x)"
      using sent(1) by (simp add: w'_def deliver_sale_def Let_def split: option.split)
    moreover have "confirmed_sends ?w h = Suc (confirmed_sends w h)" "k \<noteq> h \<Longrightarrow> confirmed_sends ?w k = confirmed_sends w k"
      using sent by (auto simp: confirmed_sends_def)
    moreover have "find_purchase h ?w = Some r" using assms(1) by simp
    ultimately show ?thesis using rest [of ?w] by auto
  qed
qed

lemma step_outcome:
  assumes "sale_step a w = w'"
  shows "(sale_key a \<noteq> Some k \<longrightarrow> find_purchase k w' = find_purchase k w \<and> confirmed_sends w' k = confirmed_sends w k) \<and>
    (sale_key a = Some k \<longrightarrow> sale_settled w k \<longrightarrow> w' = w) \<and>
    (sale_key a = Some k \<longrightarrow> \<not> sale_settled w k \<longrightarrow>
      confirmed_sends w' k = confirmed_sends w k \<or> (confirmed_sends w' k = Suc (confirmed_sends w k) \<and> sale_settled w' k))"
proof (cases a)
  case (fields env talosId q)
  let ?env = "env\<lparr>se_between := \<lambda>_ w. w\<rparr>"
  show ?thesis
  proof (cases "sale_guards talosId q w")
    case (Inl e)
    then have "w' = w" using assms by (cases e) (simp add: fields buy_tokens_def)
    then show ?thesis by simp
  next
    case (Inr g)
    obtain t buyer amount h where g: "g = (t, buyer, amount, h)" by (cases g)
    then have h: "sale_key a = Some h" using sale_guards_ok Inr by (simp add: fields)
    let ?cost = "total_cost amount (tt_pulsePrice t)" and ?old = "find_purchase h w"
    show ?thesis
    proof (cases "replay_purchase ?old")
      case (Some r)
      then have "w' = w" using assms Inr g by (simp add: fields buy_tokens_def Let_def)
      then show ?thesis using Some h by (auto simp: sale_settled_def)
    next
      case open_row: None
      then have open_key: "\<not> sale_settled w h" by (simp add: sale_settled_def)
      show ?thesis
      proof (cases "claim_purchase ?old talosId buyer amount ?cost h w")
        case (Inl r)
        then have "w' = w" using assms Inr g open_row by (simp add: fields buy_tokens_def Let_def)
        then show ?thesis using h open_key by auto
      next
        case claimed: (Inr w1)
        obtain r where r: "find_purchase h w1 = Some r" "ph_status r = ''pending''" and keep: "sw_sends w1 = sw_sends w"
          and others: "k \<noteq> h \<Longrightarrow> find_purchase k w1 = find_purchase k w"
          using claim_find [OF claimed refl, of k] by blast
        have sends: "confirmed_sends w1 i = confirmed_sends w i" for i using keep by (simp add: confirmed_sends_def)
        show ?thesis
        proof (cases "verify_purchase ?env t buyer ?cost h")
          case (Some e)
          then have "w' = mark_failed h w1"
            using assms Inr g open_row claimed by (cases e) (simp add: fields buy_tokens_def Let_def)
          then show ?thesis using h others sends open_key by (auto simp: mark_failed_find confirmed_sends_def keep)
        next
          case None
          then have "w' = fst (deliver_sale ?env talosId t buyer amount ?cost h w1)"
            using assms Inr g open_row claimed by (simp add: fields buy_tokens_def Let_def)
          from deliver_outcome [OF r this, of k] show ?thesis using h others sends open_key by auto
        qed
      qed
    qed
  qed
qed

interpretation sale: single_payment sale_settled confirmed_sends sale_step sale_key
proof unfold_locales
  show "sale_settled (sale_step a s) k = sale_settled s k \<and> confirmed_sends (sale_step a s) k = confirmed_sends s k"
    if "sale_key a \<noteq> Some k" for a k s
    using step_outcome [OF refl, of a k s] that by (simp add: sale_settled_def)
  show "sale_settled (sale_step a s) k \<and> confirmed_sends (sale_step a s) k = confirmed_sends s k"
    if "sale_key a = Some k" "sale_settled s k" for a k s
    using step_outcome [OF refl, of a k s] that by simp
  show "confirmed_sends (sale_step a s) k = confirmed_sends s k \<or>
      (confirmed_sends (sale_step a s) k = Suc (confirmed_sends s k) \<and> sale_settled (sale_step a s) k)"
    if "sale_key a = Some k" "\<not> sale_settled s k" for a k s
    using step_outcome [OF refl, of a k s] that by simp
qed

text \<open>With requests one after the other, whoever buys from whichever agent and whatever fails, at most one
  transfer of tokens is confirmed for a payment, and after a pending or completed purchase none.\<close>

theorem tokens_sent_once:
  assumes "sw_sends w = []"
  shows "length (filter (\<lambda>s. tk_txHash s = h \<and> tk_confirmed s) (sw_sends (fold sale_step calls w))) \<le> 1 \<and>
    (sale_settled w h \<longrightarrow> filter (\<lambda>s. tk_txHash s = h \<and> tk_confirmed s) (sw_sends (fold sale_step calls w)) = [])"
proof -
  have zero: "confirmed_sends w k = 0" for k using assms by (simp add: confirmed_sends_def)
  then have "sale.paid_ok w" by (simp add: sale.paid_ok_def)
  then show ?thesis
    using sale.paid_once [of w calls h] sale.settled_stays [of w h calls] zero by (simp add: confirmed_sends_def)
qed

section \<open>Tokens only against payment\<close>


section \<open>Samples\<close>

definition sale_token :: talos_token where
  "sale_token = \<lparr>tt_id = ''t1'', tt_creatorPublicKey = Some ''GC'', tt_agentWalletAddress = Some ''GA'', tt_totalSupply = 1000000,
     tt_minPatronPulse = None, tt_investorShare = 25, tt_pulsePrice = ''1.000000'', tt_stellarAssetCode = Some ''MIT:GI'',
     tt_tokenSymbol = None\<rparr>"

definition sale_start :: sale_world where
  "sale_start = \<lparr>sw_tokens = [sale_token], sw_patrons = [], sw_revenues = [], sw_purchases = [], sw_txs = [], sw_sends = []\<rparr>"

definition sale_env_of :: "bool \<times> string option \<Rightarrow> bool \<Rightarrow> sale_env" where
  "sale_env_of answer commits = \<lparr>se_operator = ''GOP'', se_issuer = ''GU'', se_env = (\<lambda>_. Some ''secret''),
     se_horizon = (\<lambda>_. Some \<lparr>hz_successful = True, hz_source_account = ''GB'', hz_envelope = Some (''GB'',
       [\<lparr>po_type = ''payment'', po_asset = Some (''USDC'', ''GU''), po_destination = Some ''GA'', po_amount = Some ''2.0000000''\<rparr>])\<rparr>),
     se_parseFloat = (\<lambda>s. Some (numeric_value s)), se_load = (\<lambda>_. None), se_send = (\<lambda>_ _ _. answer), se_between = (\<lambda>_ w. w),
     se_commits = commits, se_newPatronId = ''p1'', se_newTxId = ''x1'', se_now = 7\<rparr>"

definition sale_ask :: sale_request where
  "sale_ask = \<lparr>sq_buyerPublicKey = Some ''GB'', sq_amount = Some 2, sq_txHash = Some ''pay''\<rparr>"

lemma sale_values:
  "total_cost 2 ''1.000000'' = 2" "numeric6 2 = Some ''2.000000''" "int_column 2 = Some 2" "numeric_value ''2.0000000'' = 2"
  "\<bar>dbl (2 - 2)\<bar> \<le> dbl (1 / 10 ^ 6)" "0 < dbl (numeric_value ''1.000000'')"
  by code_simp+

lemma sale_guards_sample:
  "sw_tokens w = [sale_token] \<Longrightarrow> sale_guards ''t1'' sale_ask w = Inr (sale_token, ''GB'', 2, ''pay'')"
  using sale_values(6) by (simp add: sale_guards_def sale_ask_def find_token_def sale_token_def)

lemma sale_verified: "verify_purchase (sale_env_of answer commits) sale_token ''GB'' 2 ''pay'' = None"
  using sale_values by (simp add: verify_purchase_def sale_env_of_def covers_def sale_token_def getAccountInfo_def)

lemma sale_gap [simp]: "se_between (sale_env_of a c) n v = v"
  by (simp add: sale_env_of_def)

lemma sale_sent:
  "sw_tokens w = [sale_token] \<Longrightarrow> replay_purchase (find_purchase ''pay'' w) = None \<Longrightarrow>
     sw_sends (fst (buy_tokens (sale_env_of (applied, answer) commits) ''t1'' sale_ask w)) =
       sw_sends w @ [\<lparr>tk_txHash = ''pay'', tk_buyer = ''GB'', tk_asset = (''MIT'', ''GI''), tk_amount = 2, tk_applied = applied,
         tk_confirmed = (answer \<noteq> None)\<rparr>]"
proof -
  assume w: "sw_tokens w = [sale_token]" and free: "replay_purchase (find_purchase ''pay'' w) = None"
  let ?env = "sale_env_of (applied, answer) commits"
  have price: "tt_pulsePrice sale_token = ''1.000000''" by (simp add: sale_token_def)
  have asset: "token_asset ?env sale_token = Some (''MIT'', ''GI'')" by (simp add: token_asset_def sale_token_def sale_env_of_def)
  have send: "se_send ?env b x a = (applied, answer)" for b x a by (simp add: sale_env_of_def)
  obtain w1 where claimed: "claim_purchase (find_purchase ''pay'' w) ''t1'' ''GB'' 2 2 ''pay'' w = Inr w1"
    using sale_values by (cases "find_purchase ''pay'' w") (simp_all add: claim_purchase_def)
  have same: "sw_sends w1 = sw_sends w" using claim_find [OF claimed refl] by blast
  have request: "fst (buy_tokens ?env ''t1'' sale_ask w) = fst (deliver_sale ?env ''t1'' sale_token ''GB'' 2 2 ''pay'' w1)"
    by (simp add: buy_tokens_def sale_guards_sample [OF w] price sale_values(1) free claimed sale_verified Let_def)
  have "sw_sends (fst (deliver_sale ?env ''t1'' sale_token ''GB'' 2 2 ''pay'' w1)) = sw_sends w @ [\<lparr>tk_txHash = ''pay'', tk_buyer = ''GB'', tk_asset = (''MIT'', ''GI''), tk_amount = 2,
      tk_applied = applied, tk_confirmed = (answer \<noteq> None)\<rparr>]"
    by (auto simp: deliver_sale_def send_tokens_def asset send same Let_def dest!: commit_sends split: option.split)
  then show ?thesis unfolding request .
qed

lemma sale_start_fields: "sw_tokens sale_start = [sale_token]" "find_purchase ''pay'' sale_start = None" "sw_sends sale_start = []"
  by (simp_all add: sale_start_def find_purchase_def)

theorem tokens_sent_once_witness:
  "length (filter (\<lambda>s. tk_txHash s = ''pay'' \<and> tk_confirmed s) (sw_sends (fold sale_step
     [(sale_env_of (True, Some ''m'') False, ''t1'', sale_ask), (sale_env_of (True, Some ''m'') True, ''t1'', sale_ask)] sale_start))) \<le> 1"
  using tokens_sent_once [OF sale_start_fields(3)] by blast


section \<open>What is not prevented\<close>

text \<open>A transfer whose outcome the caller did not see counts as failed, and the next request sends again.\<close>

lemma unclear_transfer_repeated:
  "map (\<lambda>s. (tk_amount s, tk_applied s)) (sw_sends (fst (buy_tokens (sale_env_of (True, None) True) ''t1'' sale_ask
     (fst (buy_tokens (sale_env_of (True, None) True) ''t1'' sale_ask sale_start))))) = [(2, True), (2, True)]"
proof -
  let ?env = "sale_env_of (True, None) True"
  let ?w = "fst (buy_tokens ?env ''t1'' sale_ask sale_start)"
  have free: "replay_purchase (find_purchase ''pay'' sale_start) = None" by (simp add: sale_start_fields replay_purchase_def)
  have price: "tt_pulsePrice sale_token = ''1.000000''" by (simp add: sale_token_def)
  have asset: "token_asset ?env sale_token = Some (''MIT'', ''GI'')" by (simp add: token_asset_def sale_token_def sale_env_of_def)
  have env: "se_send ?env b x a = (True, None)" for b x a by (simp add: sale_env_of_def)
  have "?w = mark_failed ''pay'' (sale_start\<lparr>sw_purchases := [\<lparr>ph_txHash = ''pay'', ph_talosId = ''t1'', ph_buyerPublicKey = ''GB'',
      ph_amount = 2, ph_totalCost = ''2.000000'', ph_status = ''pending'', ph_responseBody = None\<rparr>],
      sw_sends := [\<lparr>tk_txHash = ''pay'', tk_buyer = ''GB'', tk_asset = (''MIT'', ''GI''), tk_amount = 2, tk_applied = True,
        tk_confirmed = False\<rparr>]\<rparr>)"
    by (simp add: buy_tokens_def sale_guards_sample sale_start_fields price sale_values replay_purchase_def claim_purchase_def env
        sale_verified deliver_sale_def send_tokens_def asset Let_def) (simp add: sale_start_def)
  then have "sw_tokens ?w = [sale_token]" "replay_purchase (find_purchase ''pay'' ?w) = None"
    by (simp_all add: mark_failed_def set_purchase_def sale_start_def find_purchase_def replay_purchase_def)
  then show ?thesis
    using sale_sent [of ?w True None True] sale_sent [OF sale_start_fields(1) free, of True None True] by (simp add: sale_start_fields)
qed

text \<open>When the transaction is lost after the transfer, the purchase stays pending and every later request for
  the payment is told that it is in progress.\<close>

lemma lost_transaction_sticks:
  assumes "find_purchase h w = Some r" "ph_status r = ''pending''" "sale_guards talosId q w = Inr (t, buyer, amount, h)"
  shows "buy_tokens env talosId q w = (w, IN_PROGRESS)"
  using assms by (simp add: buy_tokens_def Let_def replay_purchase_def)

text \<open>The retry of a failed purchase claims the row whatever its state is by then, so two that overlap both
  go on to the transfer.\<close>

lemma overlapping_retries_both_claim:
  "\<exists>w'. claim_purchase (Some r) talosId buyer amount cost h w = Inr w'"
  by (simp add: claim_purchase_def)

text \<open>Tokens bought below the threshold are not remembered for a wallet without a row.\<close>

lemma small_purchases_forgotten:
  "\<not> becomes_patron t (new_pulse None amount) \<Longrightarrow> upsert_patron env t talosId None buyer (new_pulse None amount) ps = Some ps"
  by (simp add: upsert_patron_def)

text \<open>Without the operator's key, or for a token without an issuer, the sale completes and nothing is sent.\<close>

lemma sold_without_transfer: "token_asset env t = None \<Longrightarrow> send_tokens env t buyer amount h w = Inr (w, None)"
  by (simp add: send_tokens_def)

end
