(* ===== verification/Buybacks.thy ===== *)
theory Buybacks
  imports Patronage
begin

text \<open>
  Buying back tokens, web/src/app/api/talos/[id]/revenue/buyback/route.ts (POST): authentication, the
  optional idempotency key with its claim in tls_buyback_requests, the burning payment and the revenue
  entry.  The schema is the one its header describes, the first of the two declarations in
  web/src/lib/schemas.ts.

  \<open>bv_send\<close> is the payment: whether the network carried it out and how the call ended.  \<open>bv_between n\<close>
  is what other requests do before the claim (0), before the payment (1) and before the transaction (2);
  the transaction is one step, \<open>bv_commits\<close> tells whether its retries succeed.
\<close>

section \<open>Tables\<close>

record buyback_body =
  bb_txHash :: string
  bb_mitosBurned :: rat
  bb_usdcSpent :: rat

record buyback_row =
  bk_talosId :: string
  bk_idempotencyKey :: string
  bk_requestHash :: string
  bk_status :: string
  bk_responseBody :: "buyback_body option"

text \<open>A payment to the issuer: under which claim, and whether the caller saw it succeed.\<close>

record burn =
  bu_claim :: "(string \<times> string) option"
  bu_asset :: "string \<times> string"
  bu_amount :: rat
  bu_applied :: bool
  bu_confirmed :: bool

record buyback_world =
  bw_tokens :: "talos_token list"
  bw_agents :: "talos_row list"
  bw_keys :: "api_key list"
  bw_requests :: "buyback_row list"
  bw_revenues :: "revenue list"
  bw_burns :: "burn list"

datatype burn_answer = Burn_done string | Burn_rejected string | Burn_unclear string

record buyback_env =
  bv_sha256 :: "string \<Rightarrow> string"
  bv_text :: "rat \<Rightarrow> string"  \<comment> \<open>a number in a template literal\<close>
  bv_env :: environment
  bv_send :: "string \<times> string \<Rightarrow> rat \<Rightarrow> bool \<times> burn_answer"
  bv_between :: "nat \<Rightarrow> buyback_world \<Rightarrow> buyback_world"
  bv_commits :: bool
  bv_now :: instant

record buyback_request =
  bq_authorization :: "string option"
  bq_usdcAmount :: rat
  bq_mitosAmount :: rat
  bq_header :: "string option"

datatype buyback_reply = Buyback_refused int string | Buyback_replayed buyback_body | Bought_back buyback_body

section \<open>Checks\<close>

definition buybackAmountSchema :: "rat \<Rightarrow> bool" where
  "buybackAmountSchema x \<longleftrightarrow> x > 0 \<and> dbl (of_int (to_fixed 7 x) / 10 ^ 7) = x"

definition buybackSchema :: "buyback_request \<Rightarrow> bool" where
  "buybackSchema q \<longleftrightarrow> buybackAmountSchema (bq_usdcAmount q) \<and> buybackAmountSchema (bq_mitosAmount q)"

text \<open>\<open>None\<close>: refused.\<close>

definition idempotencyKeySchema :: "string option \<Rightarrow> string option option" where
  "idempotencyKeySchema header =
     (case header of
        None \<Rightarrow> Some None
      | Some h \<Rightarrow> let k = js_trim h in if k = [] \<or> length k > 255 then None else Some (Some k))"

definition buyback_hash :: "buyback_env \<Rightarrow> buyback_request \<Rightarrow> string" where
  "buyback_hash env q = bv_sha256 env (bv_text env (bq_usdcAmount q) @ '':'' @ bv_text env (bq_mitosAmount q))"

text \<open>The claim, if any, and the token's code and issuer.\<close>

definition buyback_guards ::
  "buyback_env \<Rightarrow> string \<Rightarrow> buyback_request \<Rightarrow> buyback_world \<Rightarrow> http_error + (string option \<times> string \<times> string)" where
  "buyback_guards env talosId q w =
     (if \<not> buybackSchema q then Inl (400, ''VALIDATION_ERROR'')
      else case idempotencyKeySchema (bq_header q) of
        None \<Rightarrow> Inl (400, ''VALIDATION_ERROR'')
      | Some key \<Rightarrow>
          (case find_token talosId (bw_tokens w) of
             None \<Rightarrow> Inl (404, ''TALOS not found'')
           | Some t \<Rightarrow>
               (case map_option (js_split (CHR '':'')) (tt_stellarAssetCode t) of
                  Some (code # issuer # _) \<Rightarrow>
                    if \<not> truthy_str (bv_env env ''STELLAR_OPERATOR_SECRET_KEY'')
                    then Inl (500, ''STELLAR_OPERATOR_SECRET_KEY not configured'')
                    else Inr (key, code, issuer)
                | _ \<Rightarrow> Inl (400, ''No Mitos token configured for this TALOS''))))"

section \<open>The claim\<close>

definition bk_key :: "buyback_row \<Rightarrow> string \<times> string" where
  "bk_key r = (bk_talosId r, bk_idempotencyKey r)"

definition find_buyback :: "string \<times> string \<Rightarrow> buyback_world \<Rightarrow> buyback_row option" where
  "find_buyback k w = sel_one (\<lambda>r. bk_key r = k) (bw_requests w)"

definition set_buyback :: "string \<times> string \<Rightarrow> (buyback_row \<Rightarrow> buyback_row) \<Rightarrow> buyback_world \<Rightarrow> buyback_world" where
  "set_buyback k f w = w\<lparr>bw_requests := upd (\<lambda>r. bk_key r = k) f (bw_requests w)\<rparr>"

definition BUYBACK_IN_PROGRESS :: buyback_reply where
  "BUYBACK_IN_PROGRESS = Buyback_refused 409 ''A buyback is already in progress for this Idempotency-Key''"

definition replay_buyback :: "string \<Rightarrow> buyback_row option \<Rightarrow> buyback_reply option" where
  "replay_buyback hash existing =
     (case existing of
        None \<Rightarrow> None
      | Some r \<Rightarrow>
          if bk_requestHash r \<noteq> hash
          then Some (Buyback_refused 422 ''Idempotency-Key was already used with a different request body'')
          else if bk_status r = ''completed'' \<and> bk_responseBody r \<noteq> None then Some (Buyback_replayed (the (bk_responseBody r)))
          else if bk_status r = ''pending'' then Some BUYBACK_IN_PROGRESS
          else None)"

definition claim_buyback :: "buyback_row option \<Rightarrow> string \<times> string \<Rightarrow> string \<Rightarrow> buyback_world \<Rightarrow> buyback_world option" where
  "claim_buyback existing k hash w =
     (case existing of
        Some _ \<Rightarrow> Some (set_buyback k (\<lambda>r. r\<lparr>bk_status := ''pending'', bk_responseBody := None\<rparr>) w)
      | None \<Rightarrow>
          if find_buyback k w \<noteq> None then None
          else Some (w\<lparr>bw_requests := bw_requests w @
                 [\<lparr>bk_talosId = fst k, bk_idempotencyKey = snd k, bk_requestHash = hash, bk_status = ''pending'',
                   bk_responseBody = None\<rparr>]\<rparr>))"

section \<open>The route\<close>

definition on_claim :: "(string \<times> string) option \<Rightarrow> (buyback_row \<Rightarrow> buyback_row) \<Rightarrow> buyback_world \<Rightarrow> buyback_world" where
  "on_claim claim f w = (case claim of None \<Rightarrow> w | Some k \<Rightarrow> set_buyback k f w)"

text \<open>Revenue entry and completed row; \<open>None\<close>: the transaction fails.\<close>

definition commit_buyback ::
  "buyback_env \<Rightarrow> string \<Rightarrow> (string \<times> string) option \<Rightarrow> buyback_body \<Rightarrow> buyback_world \<Rightarrow> buyback_world option" where
  "commit_buyback env talosId claim body w =
     (case numeric6 (- bb_usdcSpent body) of
        None \<Rightarrow> None
      | Some amount \<Rightarrow>
          if \<not> bv_commits env then None
          else Some (on_claim claim (\<lambda>r. r\<lparr>bk_status := ''completed'', bk_responseBody := Some body\<rparr>)
                 (w\<lparr>bw_revenues := bw_revenues w @
                    [\<lparr>rv_talosId = talosId, rv_amount = amount, rv_currency = ''USDC'', rv_source = ''buyback'',
                      rv_txHash = Some (bb_txHash body)\<rparr>]\<rparr>)))"

definition burn_tokens ::
  "buyback_env \<Rightarrow> string \<Rightarrow> (string \<times> string) option \<Rightarrow> string \<times> string \<Rightarrow> buyback_request
     \<Rightarrow> buyback_world \<Rightarrow> buyback_world \<times> buyback_reply" where
  "burn_tokens env talosId claim asset q w =
     (let (applied, answer) = bv_send env asset (bq_mitosAmount q);
          w1 = w\<lparr>bw_burns := bw_burns w @ [\<lparr>bu_claim = claim, bu_asset = asset, bu_amount = bq_mitosAmount q,
                   bu_applied = applied, bu_confirmed = (case answer of Burn_done _ \<Rightarrow> True | _ \<Rightarrow> False)\<rparr>]\<rparr>
      in case answer of
           Burn_rejected e \<Rightarrow> (on_claim claim (\<lambda>r. r\<lparr>bk_status := ''failed''\<rparr>) w1, Buyback_refused 500 e)
         | Burn_unclear e \<Rightarrow> (w1, Buyback_refused 500 e)
         | Burn_done txHash \<Rightarrow>
             let body = \<lparr>bb_txHash = txHash, bb_mitosBurned = bq_mitosAmount q, bb_usdcSpent = bq_usdcAmount q\<rparr>;
                 w2 = bv_between env 2 w1
             in (case commit_buyback env talosId claim body w2 of
                   None \<Rightarrow> (w2, Buyback_refused 500 ''Buyback failed'')
                 | Some w3 \<Rightarrow> (w3, Bought_back body)))"

definition buyback :: "buyback_env \<Rightarrow> string \<Rightarrow> buyback_request \<Rightarrow> buyback_world \<Rightarrow> buyback_world \<times> buyback_reply" where
  "buyback env talosId q w =
     (let (keys, outcome, note) =
            verifyAgentApiKey (bv_sha256 env) (bv_now env) (bq_authorization q) talosId [''revenue:write''] (bw_agents w) (bw_keys w);
          w0 = w\<lparr>bw_keys := keys\<rparr>
      in case outcome of
           AuthThrew \<Rightarrow> (w0, Buyback_refused 500 ''Buyback failed'')
         | AuthDenied (status, message) \<Rightarrow> (w0, Buyback_refused status message)
         | AuthOk _ \<Rightarrow>
             (case buyback_guards env talosId q w0 of
                Inl (status, message) \<Rightarrow> (w0, Buyback_refused status message)
              | Inr (None, asset) \<Rightarrow> burn_tokens env talosId None asset q (bv_between env 1 w0)
              | Inr (Some key, asset) \<Rightarrow>
                  let k = (talosId, key); existing = find_buyback k w0
                  in (case replay_buyback (buyback_hash env q) existing of
                        Some r \<Rightarrow> (w0, r)
                      | None \<Rightarrow>
                          (case claim_buyback existing k (buyback_hash env q) (bv_between env 0 w0) of
                             None \<Rightarrow> (bv_between env 0 w0, BUYBACK_IN_PROGRESS)
                           | Some w1 \<Rightarrow> burn_tokens env talosId (Some k) asset q (bv_between env 1 w1)))))"

end
