(* ===== verification/Spec2Isabelle.thy ===== *)
theory Spec2Isabelle
  imports Job_Runner Outbox_Facts Reconciler_Facts Reconciler_Queue Provisioning_Facts Commerce_Facts
    Reservations Key_Cleanup Db_Retry Webhook_Facts Audit_Writers Signed_Transfer_Facts Agent_Owner_Facts
    Lifecycle_Route_Facts
    Contract_Decoder_Facts Event_Indexer_Facts Quota_Facts Rate_Limit_Facts Job_Orders_Facts Dividends_Facts Token_Sales_Facts Buybacks_Facts
begin

text \<open>
  Verification development for TALOS, a marketplace of autonomous agents on the Stellar network.  The
  models are of its TypeScript server (web/src) and of the event decoder it takes from the SDK
  (packages/sdk/src/contract-events.ts).  Names are those of the source.

  \<^bold>\<open>The program.\<close>  Agents (rows of tls_talos) offer services.  A buyer orders one with a payment on the
  ledger (talos/[id]/jobs); the order is fulfilled at once or becomes a commerce job that an agent leases,
  works on and answers (jobs/[id]/...), which books revenue.  Revenue is shared out among patrons
  (revenue/distribute), who buy their tokens (buy-token), which the treasury buys back (revenue/buyback), and who also decide approvals (approvals) that the governance of an agent's life
  (lib/governance, lifecycle) asks for.  Around this run queues and pollers: background jobs (lib/jobs),
  an outbox of events (lib/outbox), webhook deliveries (lib/webhooks), the reconciler that follows
  transactions to finality (lib/reconciler) and the indexer of contract events (lib/contract-events).
  Requests pass a proxy with rate limits, then authentication, quotas and idempotency keys, and leave an
  audit log.

  \<^bold>\<open>How it is modelled.\<close>  A table is the list of its rows; the row operations of Prelude stand for the SQL
  statements, with three-valued conditions where a column may be null.  An operation is a function from
  the state, the clock, fresh ids and random draws to the new state and its answer, every error reply and
  exception a value of it.  What other requests do while one waits is an argument (\<open>between\<close>,
  \<open>during\<close>, \<open>fx_meanwhile\<close>), or an inductive relation or a list of operations over which the theorems
  quantify.  Hashing, signatures, the ledger, the HTTP client and handlers are parameters.  Fractions are
  rationals; where rounding matters (Dividends, Patronage) every operation rounds to a double as
  Js_Double defines it.  Other JavaScript numbers are integers below 2^53.

  \<^bold>\<open>Theories.\<close>  A theory \<open>X_Facts\<close> holds what is proved of \<open>X\<close>.
  \<^item> Shared: Prelude (nullable values, JSON, SQL conditions, tables, keyset pages), Js_Text, Json_Text,
    Js_Double, Calendar (the language); Leases, Dedupe, Single_Payment and Simulation hold the interfaces, as locales, that
    the job queue, the outbox, the reconciler's registration, provisioning, the lifecycle log, token sales,
    buybacks and the reservation store are interpreted in.
  \<^item> Queues: Job_Queue and Job_Runner (lib/jobs), Outbox (lib/outbox).  Table invariants in every reachable
    state, leases settled once, batches in order, dead letters after the last attempt.
  \<^item> Transactions: Reconciler (state machine, polling, repair), Reconciler_Queue (the bounded in-process
    queue), Db_Retry (db/db-retry.ts).  Terminal states absorb, a missing transaction ends, retries end.
  \<^item> Agents: Lifecycle, Lifecycle_Events, Lifecycle_Payloads, Lifecycle_Route, Provisioning,
    Provisioning_Effects (lib/governance and the lifecycle route), Agent_Owner (keys, retirement, deletion,
    status).  Who may move an agent, gap-free logs, resumable runs with a single holder, compensation.
  \<^item> Market: Market_Tables, Commerce_Jobs (leases and results), Job_Orders (ordering).  Exclusive leases,
    one booking per completed job, payments used once, retries answered from the stored order.
  \<^item> Money and votes: Signed_Transfer, Patronage (patrons and approvals), Dividends, Token_Sales, Buybacks.
    Authorised and single payments, tokens only against payment, dividends within the investors' share in
    double arithmetic.
  \<^item> Requests: Request_Boundary (lib/schemas.ts), Api_Auth (lib/auth.ts), Reservations and Key_Cleanup
    (lib/idempotency), Quota, Calendar, Rate_Limit, Proxy (lib/quota.ts, lib/rate-limit*.ts, proxy.ts).
    Exact authentication, slots per idempotency key, exact quota and rate windows.
  \<^item> Audit and events: Audit_Chain and Audit_Writers (lib/audit-chain.ts), Webhook_Config,
    Webhook_Signing, Webhook_Rotation, Webhook_Delivery (lib/webhooks), Contract_Decoder, Event_Indexer.
    What verification decides, signatures and rotation, delivery attempts, exact decoding, what an index
    contains and misses.

  Each component states an invariant or a contract, that every operation keeps it, the outcome of each
  operation branch by branch, and, where the code falls short of its comments, a theorem or a concrete run
  that shows it.  A property that has hypotheses is followed by a witness on sample data.

  \<^bold>\<open>Bounds and fuel.\<close>  Retry loops carry the number of attempts left, which the source bounds too
  (maxRetries, MAX_SEQUENCE_ATTEMPTS); \<open>cleanup_drains\<close> and \<open>retry_ends_correctly\<close> state that they end.  Every other
  recursion is over data.  The dividend bound needs an amount below 2^51 stroops, about 225 million USDC.

  \<^bold>\<open>Not modelled.\<close>
  \<^item> Pages and components of the web interface, OpenAPI documents and generated types: no state of their own
    or generated from the routes.
  \<^item> The SDK beyond the event decoder, and the Python packages: clients of the routes.
  \<^item> Soroban contracts: another language; their events enter through the indexer as parameters.
  \<^item> Scores and aggregates (credit score, leaderboards, projections): weighted sums of doubles for display
    with no contract to state.  The activity feed, agent creation and the preview of buybacks.
  \<^item> Timers, logging, tracing, metrics export, and header-only work of the proxy on pages.
  \<^item> Reads of columns nothing decides on, and the tables that deletion merely marks.
  \<^item> Between two statements of one SQL transaction nothing is interleaved; Db_Retry models aborts and
    retries of a transaction as a whole.  A transaction that throws leaves no trace; a commit whose answer
    is lost with the connection is not modelled.
  \<^item> commerce/cross-chain-webhook, which also completes jobs and books revenue: \<open>result_books_once\<close>
    speaks of one result request among any others, \<open>market_run\<close> of the lease, order and status routes only.
  \<^item> Values read back from jsonb columns are those written, except where the code compares them (Job_Orders).
  \<^item> Settings read from the environment without a check of their own (LEASE_TTL_MS, MAX_STEP_ATTEMPTS of
    Provisioning) have their defaults.
\<close>

end
